(* ===== verification/Prelude.thy ===== *)
theory Prelude
  imports Complex_Main "HOL-Library.Char_ord" "HOL-Library.List_Lexorder" "HOL-Library.Sublist"
begin

text \<open>
  Shared base of the development: exceptions as values, the result type of fallible code,
  the pieces of the Python standard library the sources use on strings and collections, and
  the generic lemmas and simplification collections the component theories rely on.

  Strings are \<^typ>\<open>string\<close>, that is lists of code points below 256. A Python exception is a value
  of the datatype \<open>exn\<close>, one constructor per class the sources raise or catch; a fallible
  function returns a value of \<open>'a res\<close>, with \<open>Inl\<close> for the raised exception.
\<close>

named_theorems repo_defs \<open>operations of the repositories, to be unfolded in functional proofs\<close>
named_theorems result_simps \<open>simplification of the result combinators\<close>

section \<open>Exceptions and results\<close>

datatype exn =
    ValueError string
  | TypeError string
  | RuntimeError string
  | AssertionError string
  | TimeoutError string
  | HttpTransportError
  | HttpStatusError int
  | MultipleResultsFound
  | IntegrityError
  | JobLeaseLostError string
  | ApprovalCreationConflict string
  | ApprovalNotFound
  | ApprovalDecisionConflict string
  | ApprovalExpired string
  | IdempotencyConflict string
  | CustomerNotFoundError
  | ToolExecutionStop string
  | ActionCapabilityUnavailable string
  | DocumentCapabilityUnavailable string
  | TenantProfileUnavailableError string
  | RetryableHttpError
  | RetryableJobError string bool
  | ProviderRequestRejectedError string
  | TransientPersistenceError
  | OtherException

type_synonym 'a res = "exn + 'a"
type_synonym uuid = nat
type_synonym datetime = int

definition bind_res :: "'a res \<Rightarrow> ('a \<Rightarrow> 'b res) \<Rightarrow> 'b res" where
  "bind_res m f = (case m of Inl e \<Rightarrow> Inl e | Inr x \<Rightarrow> f x)"

definition guard_res :: "bool \<Rightarrow> exn \<Rightarrow> unit res" where
  "guard_res b e = (if b then Inr () else Inl e)"

fun map_res :: "('a \<Rightarrow> 'b res) \<Rightarrow> 'a list \<Rightarrow> 'b list res" where
  "map_res f [] = Inr []"
| "map_res f (x # xs) =
     (case f x of Inl e \<Rightarrow> Inl e
      | Inr y \<Rightarrow> (case map_res f xs of Inl e \<Rightarrow> Inl e | Inr ys \<Rightarrow> Inr (y # ys)))"

lemma bind_res_simps [simp, result_simps]:
  "bind_res (Inl e) f = Inl e"
  "bind_res (Inr x) f = f x"
  by (simp_all add: bind_res_def)

lemma bind_res_Inr_iff [result_simps]:
  "bind_res m f = Inr y \<longleftrightarrow> (\<exists>x. m = Inr x \<and> f x = Inr y)"
  by (cases m) auto

lemma bind_res_Inl_iff [result_simps]:
  "bind_res m f = Inl e \<longleftrightarrow> m = Inl e \<or> (\<exists>x. m = Inr x \<and> f x = Inl e)"
  by (cases m) auto

lemma guard_res_simps [simp, result_simps]:
  "guard_res True e = Inr ()"
  "guard_res False e = Inl e"
  by (simp_all add: guard_res_def)

lemma guard_res_Inr_iff [simp]: "guard_res b e = Inr u \<longleftrightarrow> b"
  by (simp add: guard_res_def)

lemma map_res_cong [fundef_cong]:
  "xs = ys \<Longrightarrow> (\<And>x. x \<in> set ys \<Longrightarrow> f x = g x) \<Longrightarrow> map_res f xs = map_res g ys"
  by (induction xs arbitrary: ys) (auto split: sum.splits)

lemma map_res_Inr_length: "map_res f xs = Inr ys \<Longrightarrow> length ys = length xs"
  by (induction xs arbitrary: ys) (auto split: sum.splits)

lemma map_res_Inr_all2: "map_res f xs = Inr ys \<Longrightarrow> list_all2 (\<lambda>x y. f x = Inr y) xs ys"
  by (induction xs arbitrary: ys) (auto split: sum.splits)

lemma map_res_id: "(\<And>x. x \<in> set xs \<Longrightarrow> f x = Inr x) \<Longrightarrow> map_res f xs = Inr xs"
  by (induction xs) auto

lemma map_res_Inr_memD: "map_res f xs = Inr ys \<Longrightarrow> y \<in> set ys \<Longrightarrow> \<exists>x \<in> set xs. f x = Inr y"
  by (induction xs arbitrary: ys) (auto split: sum.splits)

lemma map_res_total:
  "(\<And>x. x \<in> set xs \<Longrightarrow> \<exists>y. f x = Inr y) \<Longrightarrow> \<exists>ys. map_res f xs = Inr ys"
proof (induction xs)
  case (Cons x xs)
  obtain y where "f x = Inr y" using Cons.prems [of x] by auto
  moreover obtain ys where "map_res f xs = Inr ys" using Cons by auto
  ultimately show ?case by simp
qed simp

section \<open>Collections as the sources use them\<close>

text \<open>\<open>next((x for x in xs if p(x)), None)\<close>.\<close>

fun next_item :: "('a \<Rightarrow> bool) \<Rightarrow> 'a list \<Rightarrow> 'a option" where
  "next_item p [] = None"
| "next_item p (x # xs) = (if p x then Some x else next_item p xs)"

text \<open>\<open>tuple(sorted(set(xs)))\<close>.\<close>

definition sorted_set :: "'a::linorder list \<Rightarrow> 'a list" where
  "sorted_set xs = sort (remdups xs)"

text \<open>\<open>tuple(sorted(set(xs) - set(ys)))\<close>.\<close>

definition sorted_minus :: "'a::linorder list \<Rightarrow> 'a list \<Rightarrow> 'a list" where
  "sorted_minus xs ys = sort (remdups (filter (\<lambda>x. x \<notin> set ys) xs))"

text \<open>A dict is an association list in insertion order; assignment keeps the position of a key.\<close>

type_synonym ('k, 'v) dict = "('k \<times> 'v) list"

fun dict_set :: "'k \<Rightarrow> 'v \<Rightarrow> ('k, 'v) dict \<Rightarrow> ('k, 'v) dict" where
  "dict_set k v [] = [(k, v)]"
| "dict_set k v ((k', v') # d) = (if k = k' then (k, v) # d else (k', v') # dict_set k v d)"

definition dict_keys :: "('k, 'v) dict \<Rightarrow> 'k list" where
  "dict_keys d = map fst d"

text \<open>\<open>merged = dict(d); merged.update(e)\<close>.\<close>

definition dict_update :: "('k, 'v) dict \<Rightarrow> ('k, 'v) dict \<Rightarrow> ('k, 'v) dict" where
  "dict_update d e = fold (\<lambda>(k, v) acc. dict_set k v acc) e d"

lemma next_item_None_iff [simp]: "next_item p xs = None \<longleftrightarrow> (\<forall>x \<in> set xs. \<not> p x)"
  by (induction xs) auto

lemma next_item_SomeD: "next_item p xs = Some x \<Longrightarrow> x \<in> set xs \<and> p x"
  by (induction xs) (auto split: if_splits)

lemma set_sorted_set [simp]: "set (sorted_set xs) = set xs"
  by (simp add: sorted_set_def)

lemma sorted_sorted_set [simp]: "sorted (sorted_set xs)"
  by (simp add: sorted_set_def)

lemma distinct_sorted_set [simp]: "distinct (sorted_set xs)"
  by (simp add: sorted_set_def)

lemma sorted_set_idem [simp]: "sorted_set (sorted_set xs) = sorted_set xs"
proof -
  have "remdups (sorted_set xs) = sorted_set xs"
    by (rule distinct_remdups_id) simp
  then show ?thesis
    unfolding sorted_set_def [of "sorted_set xs"] by (simp add: sort_key_id_if_sorted)
qed

lemma sorted_set_Nil_iff [simp]: "sorted_set xs = [] \<longleftrightarrow> xs = []"
  by (metis set_empty set_sorted_set)

lemma set_sorted_minus [simp]: "set (sorted_minus xs ys) = set xs - set ys"
  by (auto simp: sorted_minus_def)

lemma sorted_minus_Nil_iff [simp]: "sorted_minus xs ys = [] \<longleftrightarrow> set xs \<subseteq> set ys"
  by (metis Diff_eq_empty_iff set_empty set_sorted_minus)

lemma sorted_minus_cong:
  assumes "set ys = set zs"
  shows "sorted_minus xs ys = sorted_minus xs zs"
  by (simp add: sorted_minus_def assms)

lemma sorted_sorted_minus [simp]: "sorted (sorted_minus xs ys)" "distinct (sorted_minus xs ys)"
  by (simp_all add: sorted_minus_def)

lemma map_of_dict_set [simp]: "map_of (dict_set k v d) = (map_of d)(k \<mapsto> v)"
  by (induction d rule: dict_set.induct) auto

lemma set_dict_keys [simp]: "set (dict_keys d) = dom (map_of d)"
  by (simp add: dict_keys_def dom_map_of_conv_image_fst)

lemma dict_keys_dict_set_distinct:
  "distinct (dict_keys d) \<Longrightarrow> distinct (dict_keys (dict_set k v d))"
proof (induction k v d rule: dict_set.induct)
  case (2 k v k' v' d)
  have "set (map fst (dict_set k v d)) = insert k (set (map fst d))"
    using set_dict_keys [of "dict_set k v d"] set_dict_keys [of d]
    by (simp add: dict_keys_def)
  with 2 show ?case
    by (auto simp: dict_keys_def)
qed (simp add: dict_keys_def)

lemma map_of_dict_update: "map_of (dict_update d e) = (map_of d) ++ (map_of (rev e))"
proof (induction e arbitrary: d)
  case Nil
  then show ?case by (simp add: dict_update_def)
next
  case (Cons kv e)
  obtain k v where [simp]: "kv = (k, v)" by (cases kv)
  have "dict_update d (kv # e) = dict_update (dict_set k v d) e"
    by (simp add: dict_update_def)
  then show ?case
    using Cons.IH [of "dict_set k v d"]
    by (auto simp: map_add_def fun_eq_iff map_of_append split: option.splits)
qed

lemma map_of_rev_distinct:
  assumes "distinct (map fst xs)"
  shows "map_of (rev xs) k = map_of xs k"
proof -
  have "distinct (map fst (rev xs))"
    using assms by (simp add: rev_map [symmetric])
  then show ?thesis
    using assms by (metis map_of_eq_Some_iff not_Some_eq set_rev)
qed

lemma map_of_next_item:
  "map_of (map (\<lambda>x. (f x, x)) xs) k = next_item (\<lambda>x. f x = k) xs"
  by (induction xs) auto

section \<open>Python strings\<close>

text \<open>\<open>str.isspace\<close> on code points below 256.\<close>

definition py_isspace :: "char \<Rightarrow> bool" where
  "py_isspace c =
     (let n = (of_char c :: nat)
      in (9 \<le> n \<and> n \<le> 13) \<or> (28 \<le> n \<and> n \<le> 32) \<or> n = 133 \<or> n = 160)"

definition lstrip :: "string \<Rightarrow> string" where
  "lstrip s = dropWhile py_isspace s"

definition strip :: "string \<Rightarrow> string" where
  "strip s = rev (lstrip (rev (lstrip s)))"

text \<open>\<open>bool(s.strip())\<close>: some character is not white space.\<close>

definition non_blank :: "string \<Rightarrow> bool" where
  "non_blank s \<longleftrightarrow> strip s \<noteq> []"

text \<open>\<open>sub in s\<close>.\<close>

definition in_string :: "string \<Rightarrow> string \<Rightarrow> bool" where
  "in_string sub s = sublist sub s"

lemma non_blank_iff: "non_blank s \<longleftrightarrow> (\<exists>c \<in> set s. \<not> py_isspace c)"
proof -
  have *: "dropWhile py_isspace xs = [] \<longleftrightarrow> (\<forall>c \<in> set xs. py_isspace c)" for xs
    by (rule dropWhile_eq_Nil_conv)
  have "strip s = [] \<longleftrightarrow> (\<forall>c \<in> set (lstrip s). py_isspace c)"
    by (simp add: strip_def lstrip_def *)
  also have "\<dots> \<longleftrightarrow> (\<forall>c \<in> set s. py_isspace c)"
    using * [of s] by (metis dropWhile_eq_Nil_conv dropWhile_idem lstrip_def)
  finally show ?thesis
    by (auto simp: non_blank_def)
qed

lemma non_blank_nonempty: "non_blank s \<Longrightarrow> s \<noteq> []"
  by (auto simp: non_blank_iff)

lemma in_string_refl [simp]: "in_string s s"
  by (simp add: in_string_def)

lemma in_string_Nil [simp]: "in_string [] s"
  by (simp add: in_string_def)

end
