(* ===== verification/Py_Data.thy ===== *)
theory Py_Data
  imports Prelude
begin

text \<open>
  Python values that cross the agent and persistence boundaries: JSON-compatible data with
  Python's own equality, \<open>_freeze_data\<close> of \<open>app/agent/models.py\<close>, the bounded identifiers of
  \<open>app/tenants/identifiers.py\<close>, and the textual form of UUIDs that the sources write into
  results and parse back.

  A value is a finite tree, so the cycle check of \<open>_freeze_data\<close> has no counterpart: a cyclic
  Python object has no model. The frozen containers and the plain ones are the same value,
  since nothing mutates a HOL value.
\<close>

section \<open>Values\<close>

datatype py_float = Finite rat | Infinite bool | NaN

text \<open>
  \<open>PBadMap\<close> is a mapping with a key that is not a string and \<open>POther\<close> any object that is neither
  \<open>None\<close>, a scalar, a mapping nor a list: the shapes the type checks of the sources reject.
\<close>

datatype pyval =
    PNone
  | PBool bool
  | PInt int
  | PFloat py_float
  | PStr string
  | PList "pyval list"
  | PDict "(string \<times> pyval) list"
  | PBadMap
  | POther

type_synonym py_dict = "(string, pyval) dict"

fun is_finite :: "py_float \<Rightarrow> bool" where
  "is_finite (Finite _) = True"
| "is_finite _ = False"

definition math_isfinite :: "py_float \<Rightarrow> bool" where
  "math_isfinite x = is_finite x"

lemma zip_in_set_size [termination_simp]:
  "(x, y) \<in> set (zip xs ys) \<Longrightarrow> size x < Suc (size_list size xs)"
  by (metis less_SucI set_zip_leftD size_list_estimation order_refl le_imp_less_Suc size_list_estimation')

fun freeze_data :: "pyval \<Rightarrow> pyval res" where
  "freeze_data (PFloat x) =
     (if math_isfinite x then Inr (PFloat x)
      else Inl (TypeError ''agent data must use finite JSON numbers''))"
| "freeze_data (PList xs) =
     (case map_res freeze_data xs of Inl e \<Rightarrow> Inl e | Inr ys \<Rightarrow> Inr (PList ys))"
| "freeze_data (PDict d) =
     (case map_res (\<lambda>kv. freeze_data (snd kv)) d of Inl e \<Rightarrow> Inl e
      | Inr vs \<Rightarrow> Inr (PDict (zip (map fst d) vs)))"
| "freeze_data PBadMap = Inl (TypeError ''agent mappings must use string keys'')"
| "freeze_data POther =
     Inl (TypeError ''agent data must be JSON-compatible: None, scalar, mapping, or list'')"
| "freeze_data v = Inr v"

text \<open>The values \<open>_freeze_data\<close> accepts, as a predicate.\<close>

fun json_value :: "pyval \<Rightarrow> bool" where
  "json_value (PFloat x) = is_finite x"
| "json_value (PList xs) = list_all json_value xs"
| "json_value (PDict d) = list_all (\<lambda>kv. json_value (snd kv)) d"
| "json_value PBadMap = False"
| "json_value POther = False"
| "json_value _ = True"

section \<open>Python equality\<close>

text \<open>
  \<open>True == 1 == 1.0\<close> in Python, dicts compare without regard to order, and \<open>nan\<close> equals nothing.
\<close>

fun as_number :: "pyval \<Rightarrow> rat option" where
  "as_number (PBool b) = Some (if b then 1 else 0)"
| "as_number (PInt i) = Some (of_int i)"
| "as_number (PFloat (Finite q)) = Some q"
| "as_number _ = None"

fun py_eq :: "pyval \<Rightarrow> pyval \<Rightarrow> bool" where
  "py_eq PNone w = (w = PNone)"
| "py_eq (PStr s) w = (w = PStr s)"
| "py_eq (PList xs) w =
     (case w of PList ys \<Rightarrow> length xs = length ys \<and> list_all (\<lambda>(x, y). py_eq x y) (zip xs ys)
      | _ \<Rightarrow> False)"
| "py_eq (PDict d) w =
     (case w of PDict e \<Rightarrow>
         length d = length e \<and>
         list_all (\<lambda>kv. case map_of e (fst kv) of None \<Rightarrow> False | Some u \<Rightarrow> py_eq (snd kv) u) d
      | _ \<Rightarrow> False)"
| "py_eq (PFloat (Infinite b)) w = (w = PFloat (Infinite b))"
| "py_eq (PFloat NaN) w = False"
| "py_eq PBadMap w = False"
| "py_eq POther w = False"
| "py_eq v w = (as_number v = as_number w)"

definition py_dict_eq :: "py_dict \<Rightarrow> py_dict \<Rightarrow> bool" where
  "py_dict_eq d e = py_eq (PDict d) (PDict e)"

section \<open>Identifiers and digests\<close>

definition is_lower :: "char \<Rightarrow> bool" where
  "is_lower c \<longleftrightarrow> CHR ''a'' \<le> c \<and> c \<le> CHR ''z''"

definition is_digit :: "char \<Rightarrow> bool" where
  "is_digit c \<longleftrightarrow> CHR ''0'' \<le> c \<and> c \<le> CHR ''9''"

text \<open>\<open>^[a-z][a-z0-9_]{0,n}$\<close>.\<close>

definition bounded_identifier :: "nat \<Rightarrow> string \<Rightarrow> bool" where
  "bounded_identifier n s =
     (case s of [] \<Rightarrow> False
      | c # cs \<Rightarrow> is_lower c \<and> length cs \<le> n \<and>
                  list_all (\<lambda>x. is_lower x \<or> is_digit x \<or> x = CHR ''_'') cs)"

definition safe_identifier :: "string \<Rightarrow> bool" where
  "safe_identifier s = bounded_identifier 63 s"

definition is_sha256_hex :: "string \<Rightarrow> bool" where
  "is_sha256_hex s \<longleftrightarrow>
     length s = 64 \<and> list_all (\<lambda>c. is_digit c \<or> (CHR ''a'' \<le> c \<and> c \<le> CHR ''f'')) s"

section \<open>UUIDs as text\<close>

definition hex_digit :: "nat \<Rightarrow> char" where
  "hex_digit n = ''0123456789abcdef'' ! n"

primrec hex_pad :: "nat \<Rightarrow> nat \<Rightarrow> string" where
  "hex_pad 0 n = []"
| "hex_pad (Suc k) n = hex_pad k (n div 16) @ [hex_digit (n mod 16)]"

text \<open>\<open>str(uuid)\<close>: 32 hexadecimal digits in groups of 8, 4, 4, 4 and 12.\<close>

definition uuid_str :: "uuid \<Rightarrow> string" where
  "uuid_str n =
     (let h = hex_pad 32 n
      in take 8 h @ ''-'' @ take 4 (drop 8 h) @ ''-'' @ take 4 (drop 12 h) @ ''-'' @
         take 4 (drop 16 h) @ ''-'' @ drop 20 h)"

fun hex_val :: "char \<Rightarrow> nat option" where
  "hex_val c =
     (if is_digit c then Some (of_char c - 48)
      else if CHR ''a'' \<le> c \<and> c \<le> CHR ''f'' then Some (of_char c - 87)
      else if CHR ''A'' \<le> c \<and> c \<le> CHR ''F'' then Some (of_char c - 55)
      else None)"

declare hex_val.simps [simp del]

text \<open>Digits with single underscores between them, as \<open>int(s, 16)\<close> accepts them.\<close>

fun hex_body :: "int \<Rightarrow> bool \<Rightarrow> string \<Rightarrow> int option" where
  "hex_body acc d [] = (if d then Some acc else None)"
| "hex_body acc d (c # cs) =
     (if c = CHR ''_'' then (if d then hex_body acc False cs else None)
      else case hex_val c of None \<Rightarrow> None | Some v \<Rightarrow> hex_body (16 * acc + int v) True cs)"

definition hex_unsigned :: "string \<Rightarrow> int option" where
  "hex_unsigned s =
     (case s of
        a # b # cs \<Rightarrow>
          if a = CHR ''0'' \<and> (b = CHR ''x'' \<or> b = CHR ''X'')
          then (if cs = [] then None else hex_body 0 True cs)
          else hex_body 0 False s
      | _ \<Rightarrow> hex_body 0 False s)"

definition py_int16 :: "string \<Rightarrow> int option" where
  "py_int16 s =
     (case strip s of
        [] \<Rightarrow> None
      | c # cs \<Rightarrow>
          if c = CHR ''+'' then hex_unsigned cs
          else if c = CHR ''-'' then map_option uminus (hex_unsigned cs)
          else hex_unsigned (c # cs))"

text \<open>\<open>s.replace(old, new)\<close> for a non-empty \<open>old\<close>.\<close>

function py_replace :: "string \<Rightarrow> string \<Rightarrow> string \<Rightarrow> string" where
  "py_replace old new [] = []"
| "py_replace old new (c # cs) =
     (if old \<noteq> [] \<and> prefix old (c # cs)
      then new @ py_replace old new (drop (length old) (c # cs))
      else c # py_replace old new cs)"
  by pat_completeness auto
termination
  by (relation "measure (\<lambda>(old, new, s). length s)") auto

definition strip_chars :: "char list \<Rightarrow> string \<Rightarrow> string" where
  "strip_chars xs s = rev (dropWhile (\<lambda>c. c \<in> set xs) (rev (dropWhile (\<lambda>c. c \<in> set xs) s)))"

text \<open>\<open>UUID(s)\<close>; \<open>None\<close> stands for the \<open>ValueError\<close> of a badly formed string.\<close>

definition uuid_parse :: "string \<Rightarrow> uuid option" where
  "uuid_parse s =
     (let h = py_replace ''uuid:'' [] (py_replace ''urn:'' [] s);
          h = filter (\<lambda>c. c \<noteq> CHR ''-'') (strip_chars ''{}'' h)
      in if length h \<noteq> 32 then None
         else case py_int16 h of None \<Rightarrow> None
              | Some i \<Rightarrow> if 0 \<le> i \<and> i < 2 ^ 128 then Some (nat i) else None)"

section \<open>Lemmas\<close>

lemma freeze_data_Inr: "json_value v \<Longrightarrow> freeze_data v = Inr v"
proof (induction v rule: freeze_data.induct)
  case (2 xs)
  then have "map_res freeze_data xs = Inr xs"
    by (intro map_res_id) (auto simp: list_all_iff)
  then show ?case by simp
next
  case (3 d)
  then have "\<And>kv. kv \<in> set d \<Longrightarrow> freeze_data (snd kv) = Inr (snd kv)"
    by (auto simp: list_all_iff)
  then have "map_res (\<lambda>kv. freeze_data (snd kv)) d = Inr (map snd d)"
    by (induction d) auto
  then show ?case by (simp add: zip_map_fst_snd)
qed (auto simp: math_isfinite_def)

lemma map_res_Inr_ex: "map_res f xs = Inr ys \<Longrightarrow> x \<in> set xs \<Longrightarrow> \<exists>y. f x = Inr y"
  by (induction xs arbitrary: ys) (auto split: sum.splits)

lemma freeze_data_json: "freeze_data v = Inr w \<Longrightarrow> json_value v"
proof (induction v arbitrary: w rule: freeze_data.induct)
  case (2 xs)
  then obtain ys where ys: "map_res freeze_data xs = Inr ys"
    by (auto split: sum.splits)
  have "json_value x" if "x \<in> set xs" for x
    using "2.IH" [OF that] map_res_Inr_ex [OF ys that] by blast
  then show ?case by (simp add: list_all_iff)
next
  case (3 d)
  then obtain ys where ys: "map_res (\<lambda>kv. freeze_data (snd kv)) d = Inr ys"
    by (auto split: sum.splits)
  have "json_value (snd kv)" if "kv \<in> set d" for kv
    using "3.IH" [OF that] map_res_Inr_ex [OF ys that] by blast
  then show ?case by (simp add: list_all_iff)
qed (auto simp: math_isfinite_def split: if_splits)

theorem freeze_data_spec: "freeze_data v = Inr w \<longleftrightarrow> json_value v \<and> w = v"
  using freeze_data_Inr freeze_data_json by fastforce

text \<open>Equality is reflexive on JSON data whose dicts have distinct keys.\<close>

fun distinct_keys :: "pyval \<Rightarrow> bool" where
  "distinct_keys (PList xs) = list_all distinct_keys xs"
| "distinct_keys (PDict d) =
     (distinct (map fst d) \<and> list_all (\<lambda>kv. distinct_keys (snd kv)) d)"
| "distinct_keys _ = True"

lemma py_eq_refl: "json_value v \<Longrightarrow> distinct_keys v \<Longrightarrow> py_eq v v"
proof (induction v rule: json_value.induct)
  case (1 x)
  then show ?case by (cases x) auto
next
  case (2 xs)
  then show ?case by (auto simp: list_all_iff set_zip)
next
  case (3 d)
  then show ?case by (auto simp: list_all_iff dest: map_of_is_SomeI)
qed auto

section \<open>UUID round trip\<close>

lemma length_hex_pad [simp]: "length (hex_pad k n) = k"
  by (induction k arbitrary: n) auto

definition hex_chars :: "char set" where
  "hex_chars = set ''0123456789abcdef''"

lemma hex_chars_facts:
  "CHR ''_'' \<notin> hex_chars" "CHR ''-'' \<notin> hex_chars" "CHR ''+'' \<notin> hex_chars"
  "CHR ''x'' \<notin> hex_chars" "CHR ''X'' \<notin> hex_chars" "CHR ''u'' \<notin> hex_chars"
  "CHR ''{'' \<notin> hex_chars" "CHR ''}'' \<notin> hex_chars"
  by (simp_all add: hex_chars_def)

lemma hex_digit_cases:
  assumes "n < 16"
  shows "hex_digit n \<in> hex_chars"
  unfolding hex_digit_def hex_chars_def using assms by (intro nth_mem) simp

lemma set_hex_pad: "set (hex_pad k n) \<subseteq> hex_chars"
proof (induction k arbitrary: n)
  case (Suc k)
  have "hex_digit (n mod 16) \<in> hex_chars"
    by (rule hex_digit_cases) simp
  with Suc [of "n div 16"] show ?case by auto
qed simp

lemma hex_val_table: "map hex_val ''0123456789abcdef'' = map Some [0..<16]"
  by code_simp

lemma hex_val_digit:
  assumes "n < 16"
  shows "hex_val (hex_digit n) = Some n"
proof -
  have "map hex_val ''0123456789abcdef'' ! n = map Some [0..<16] ! n"
    by (simp only: hex_val_table)
  then show ?thesis
    using assms by (simp add: hex_digit_def nth_map del: upt_Suc list.map)
qed

lemma hex_body_append:
  "hex_body acc d (xs @ ys) =
     (if xs = [] then hex_body acc d ys
      else case hex_body acc d xs of
             Some a \<Rightarrow> hex_body a True ys
           | None \<Rightarrow> hex_body acc d (xs @ ys))"
  by (induction acc d xs rule: hex_body.induct) (auto split: option.splits)

lemma hex_body_pad:
  "hex_body acc d (hex_pad (Suc k) n) = Some (acc * 16 ^ Suc k + int (n mod 16 ^ Suc k))"
proof (induction k arbitrary: n)
  case 0
  have "hex_digit (n mod 16) \<noteq> CHR ''_''"
    using hex_digit_cases [of "n mod 16"] hex_chars_facts by auto
  then show ?case by (simp add: hex_val_digit)
next
  case (Suc k)
  let ?m = "n div 16"
  have ne: "hex_digit (n mod 16) \<noteq> CHR ''_''"
    using hex_digit_cases [of "n mod 16"] hex_chars_facts by auto
  have "hex_body acc d (hex_pad (Suc (Suc k)) n) =
        hex_body (acc * 16 ^ Suc k + int (?m mod 16 ^ Suc k)) True [hex_digit (n mod 16)]"
    using Suc.IH [of ?m] hex_body_append [of acc d "hex_pad (Suc k) ?m" "[hex_digit (n mod 16)]"]
    by (simp del: hex_body.simps) 
  also have "\<dots> = Some (16 * (acc * 16 ^ Suc k + int (?m mod 16 ^ Suc k)) + int (n mod 16))"
    using ne by (simp add: hex_val_digit)
  also have "16 * (acc * 16 ^ Suc k + int (?m mod 16 ^ Suc k)) + int (n mod 16) =
             acc * 16 ^ Suc (Suc k) + int (16 * (?m mod 16 ^ Suc k) + n mod 16)"
    by (simp add: algebra_simps)
  also have "16 * (?m mod 16 ^ Suc k) + n mod 16 = n mod 16 ^ Suc (Suc k)"
    using mod_mult2_eq [of n 16 "16 ^ Suc k"] by simp
  finally show ?case .
qed

lemma py_replace_absent: "c \<notin> set s \<Longrightarrow> py_replace (c # cs) new s = s"
  by (induction s) (auto simp: prefix_def)

lemma dropWhile_absent: "set xs \<inter> set s = {} \<Longrightarrow> dropWhile (\<lambda>c. c \<in> set xs) s = s"
  by (cases s) auto

lemma strip_chars_absent:
  assumes "set xs \<inter> set s = {}"
  shows "strip_chars xs s = s"
proof -
  have "set xs \<inter> set (rev s) = {}" using assms by simp
  then show ?thesis
    by (simp only: strip_chars_def dropWhile_absent [OF assms] dropWhile_absent rev_rev_ident)
qed

lemma strip_no_space:
  assumes "\<forall>c \<in> set s. \<not> py_isspace c"
  shows "strip s = s"
proof -
  have *: "dropWhile py_isspace t = t" if "\<forall>c \<in> set t. \<not> py_isspace c" for t
    using that by (cases t) auto
  have "\<forall>c \<in> set (rev s). \<not> py_isspace c" using assms by simp
  then show ?thesis
    by (simp only: strip_def lstrip_def * [OF assms] * rev_rev_ident)
qed

lemma hex_not_space: "c \<in> hex_chars \<Longrightarrow> \<not> py_isspace c"
  by (auto simp: hex_chars_def py_isspace_def)

lemma py_int16_hex_pad: "py_int16 (hex_pad (Suc (Suc k)) n) = Some (int (n mod 16 ^ Suc (Suc k)))"
proof -
  let ?s = "hex_pad (Suc (Suc k)) n"
  have mem: "c \<in> hex_chars" if "c \<in> set ?s" for c
    using that set_hex_pad by blast
  have "strip ?s = ?s"
    by (rule strip_no_space) (use mem hex_not_space in blast)
  moreover obtain a b t where s: "?s = a # b # t"
    by (metis length_hex_pad Suc_length_conv)
  moreover have "a \<in> hex_chars" "b \<in> hex_chars"
    using mem [of a] mem [of b] unfolding s by simp_all
  then have "a \<noteq> CHR ''+''" "a \<noteq> CHR ''-''" "b \<noteq> CHR ''x''" "b \<noteq> CHR ''X''"
    using hex_chars_facts by auto
  moreover have "hex_body 0 False ?s = Some (int (n mod 16 ^ Suc (Suc k)))"
    using hex_body_pad [of 0 False "Suc k" n] by simp
  ultimately show ?thesis
    by (simp add: py_int16_def hex_unsigned_def del: hex_pad.simps)
qed

lemma filter_dash_hex: "set xs \<subseteq> hex_chars \<Longrightarrow> filter (\<lambda>c. c \<noteq> CHR ''-'') xs = xs"
  using hex_chars_facts by (intro filter_True) auto

lemma set_uuid_str: "set (uuid_str n) \<subseteq> insert (CHR ''-'') (hex_chars)"
proof -
  have "set (hex_pad 32 n) \<subseteq> hex_chars"
    by (rule set_hex_pad)
  then show ?thesis
    unfolding uuid_str_def Let_def
    by (auto dest!: in_set_takeD in_set_dropD)
qed

lemma filter_uuid_str: "filter (\<lambda>c. c \<noteq> CHR ''-'') (uuid_str n) = hex_pad 32 n"
proof -
  let ?h = "hex_pad 32 n" and ?f = "filter (\<lambda>c. c \<noteq> CHR ''-'')"
  have hs: "set ?h \<subseteq> hex_chars" by (rule set_hex_pad)
  have f: "?f (take i (drop j ?h)) = take i (drop j ?h)" "?f (drop j ?h) = drop j ?h"
    "?f (take i ?h) = take i ?h" for i j
    by (rule filter_dash_hex; use hs in \<open>meson in_set_takeD in_set_dropD subsetD subsetI\<close>)+
  have "?f (uuid_str n) = take 8 ?h @ take 4 (drop 8 ?h) @ take 4 (drop 12 ?h) @
                          take 4 (drop 16 ?h) @ drop 20 ?h"
    by (simp add: uuid_str_def Let_def f)
  also have "\<dots> = ?h"
    by (smt (verit) append_take_drop_id drop_drop add.commute numeral_plus_numeral
        add_num_simps append_assoc)
  finally show ?thesis .
qed

theorem uuid_parse_str:
  assumes "n < 2 ^ 128"
  shows "uuid_parse (uuid_str n) = Some n"
proof -
  have mem: "c \<in> insert (CHR ''-'') (hex_chars)" if "c \<in> set (uuid_str n)" for c
    using that set_uuid_str by blast
  have u: "CHR ''u'' \<notin> set (uuid_str n)" and b: "set ''{}'' \<inter> set (uuid_str n) = {}"
    using mem hex_chars_facts by auto
  have "py_int16 (hex_pad 32 n) = Some (int (n mod 16 ^ 32))"
    using py_int16_hex_pad [of 30 n] by simp
  moreover have "n mod 16 ^ 32 = n" "int n < 2 ^ 128"
    using assms by simp_all
  ultimately show ?thesis
    using filter_uuid_str [of n]
    by (simp add: uuid_parse_def Let_def py_replace_absent [OF u] strip_chars_absent [OF b]
        del: hex_pad.simps)
qed

lemma uuid_str_inject:
  assumes "m < 2 ^ 128" "n < 2 ^ 128"
  shows "uuid_str m = uuid_str n \<longleftrightarrow> m = n"
  using uuid_parse_str [OF assms(1)] uuid_parse_str [OF assms(2)] by (metis option.inject)

end
