(* ===== verification/Tenant_Config.thy ===== *)
theory Tenant_Config
  imports Py_Data
begin

text \<open>
  The tenant profile contract of \<open>app/tenants/config.py\<close>: the configuration data, the checks
  Pydantic and the validators apply to it, and the two directions of its JSON form, which
  \<open>app/runtime/profiles.py\<close> persists with every job. A dict is an association list; the checks
  demand distinct keys, which a Python dict has by construction.
\<close>

section \<open>Data\<close>

datatype field_type =
    SHORT_TEXT | LONG_TEXT | EMAIL | PHONE | ADDRESS | DATE_TIME | NUMBER | BOOLEAN
  | SINGLE_SELECT | MULTI_SELECT

datatype routing_status = URGENT | AWAITING_INPUT | PENDING_APPROVAL | READY | REJECTED

datatype routing_decision = ALLOW | NEEDS_APPROVAL | DENY

datatype action_execution_mode = EXECUTABLE | POLICY_ONLY

record field_definition =
  fd_type :: field_type
  fd_label :: string
  fd_options :: "string list option"

record intake_type_config =
  it_name :: string
  it_description :: string
  it_required_fields :: "string list"

record action_rule =
  ar_allowed :: bool
  ar_requires_approval :: bool
  ar_execution :: action_execution_mode

record document_binding_config =
  db_intake_type :: string
  db_normalizer :: string
  db_normalizer_version :: int
  db_default_for_inbound :: bool

record routing_config =
  rc_outcome_names :: "routing_status list"
  rc_always_approval_actions :: "string list"

record tenant_config =
  tn_slug :: string
  tn_scenario_key :: string
  tn_display_name :: string
  tn_intake_types :: "intake_type_config list"
  tn_fields :: "(string, field_definition) dict"
  tn_action_policy :: "(string, action_rule) dict"
  tn_documents :: "(string, document_binding_config) dict"
  tn_routing :: routing_config

section \<open>Enumeration values\<close>

fun field_type_value :: "field_type \<Rightarrow> string" where
  "field_type_value SHORT_TEXT = ''short_text''"
| "field_type_value LONG_TEXT = ''long_text''"
| "field_type_value EMAIL = ''email''"
| "field_type_value PHONE = ''phone''"
| "field_type_value ADDRESS = ''address''"
| "field_type_value DATE_TIME = ''date_time''"
| "field_type_value NUMBER = ''number''"
| "field_type_value BOOLEAN = ''boolean''"
| "field_type_value SINGLE_SELECT = ''single_select''"
| "field_type_value MULTI_SELECT = ''multi_select''"

fun routing_status_value :: "routing_status \<Rightarrow> string" where
  "routing_status_value URGENT = ''urgent''"
| "routing_status_value AWAITING_INPUT = ''awaiting_input''"
| "routing_status_value PENDING_APPROVAL = ''pending_approval''"
| "routing_status_value READY = ''ready''"
| "routing_status_value REJECTED = ''rejected''"

fun routing_decision_value :: "routing_decision \<Rightarrow> string" where
  "routing_decision_value ALLOW = ''allow''"
| "routing_decision_value NEEDS_APPROVAL = ''needs_approval''"
| "routing_decision_value DENY = ''deny''"

fun action_execution_mode_value :: "action_execution_mode \<Rightarrow> string" where
  "action_execution_mode_value EXECUTABLE = ''executable''"
| "action_execution_mode_value POLICY_ONLY = ''policy_only''"

definition all_field_types :: "field_type list" where
  "all_field_types =
     [SHORT_TEXT, LONG_TEXT, EMAIL, PHONE, ADDRESS, DATE_TIME, NUMBER, BOOLEAN,
      SINGLE_SELECT, MULTI_SELECT]"

definition all_routing_statuses :: "routing_status list" where
  "all_routing_statuses = [URGENT, AWAITING_INPUT, PENDING_APPROVAL, READY, REJECTED]"

definition all_execution_modes :: "action_execution_mode list" where
  "all_execution_modes = [EXECUTABLE, POLICY_ONLY]"

section \<open>Validation\<close>

text \<open>\<open>FieldDefinition\<close> with \<open>validate_options\<close>.\<close>

definition selectable :: "field_type \<Rightarrow> bool" where
  "selectable t \<longleftrightarrow> t = SINGLE_SELECT \<or> t = MULTI_SELECT"

definition valid_field_definition :: "field_definition \<Rightarrow> bool" where
  "valid_field_definition d \<longleftrightarrow>
     fd_label d \<noteq> [] \<and>
     (if selectable (fd_type d)
      then (case fd_options d of None \<Rightarrow> False | Some os \<Rightarrow> os \<noteq> [] \<and> distinct os)
      else fd_options d = None)"

definition valid_intake_type :: "intake_type_config \<Rightarrow> bool" where
  "valid_intake_type t \<longleftrightarrow>
     safe_identifier (it_name t) \<and> it_description t \<noteq> [] \<and>
     list_all safe_identifier (it_required_fields t) \<and> distinct (it_required_fields t)"

definition valid_document_binding :: "document_binding_config \<Rightarrow> bool" where
  "valid_document_binding b \<longleftrightarrow>
     safe_identifier (db_intake_type b) \<and> safe_identifier (db_normalizer b) \<and>
     1 \<le> db_normalizer_version b"

text \<open>\<open>RoutingConfig.validate_routing_catalog\<close>.\<close>

definition valid_routing :: "routing_config \<Rightarrow> bool" where
  "valid_routing r \<longleftrightarrow>
     set (rc_outcome_names r) = set all_routing_statuses \<and>
     length (rc_outcome_names r) = length all_routing_statuses \<and>
     list_all safe_identifier (rc_always_approval_actions r) \<and>
     ''send_reply'' \<in> set (rc_always_approval_actions r) \<and>
     distinct (rc_always_approval_actions r)"

text \<open>\<open>^[a-z0-9]+(?:-[a-z0-9]+)*$\<close>; the flag says that the last character was not a hyphen.\<close>

fun slug_from :: "bool \<Rightarrow> string \<Rightarrow> bool" where
  "slug_from b [] = b"
| "slug_from b (c # cs) =
     (if is_lower c \<or> is_digit c then slug_from True cs
      else c = CHR ''-'' \<and> b \<and> slug_from False cs)"

definition safe_slug :: "string \<Rightarrow> bool" where
  "safe_slug s = slug_from False s"

definition join_names :: "string list \<Rightarrow> string" where
  "join_names xs = (case xs of [] \<Rightarrow> [] | y # ys \<Rightarrow> y @ concat (map (\<lambda>s. '', '' @ s) ys))"

text \<open>\<open>TenantConfig.validate_references\<close>.\<close>

definition validate_references :: "tenant_config \<Rightarrow> unit res" where
  "validate_references c =
     (let names = map it_name (tn_intake_types c);
          missing_fields = sorted_set
            (concat (map (\<lambda>t. filter (\<lambda>f. f \<notin> set (dict_keys (tn_fields c))) (it_required_fields t))
               (tn_intake_types c)));
          missing_actions =
            sorted_minus (rc_always_approval_actions (tn_routing c)) (dict_keys (tn_action_policy c));
          missing_intakes =
            sorted_minus (map (\<lambda>kb. db_intake_type (snd kb)) (tn_documents c)) names
      in if \<not> distinct names then Inl (ValueError ''intake_types must contain unique names'')
         else if missing_fields \<noteq> []
         then Inl (ValueError (''required_fields reference unknown fields: '' @ join_names missing_fields))
         else if missing_actions \<noteq> []
         then Inl (ValueError (''always_approval_actions reference unknown actions: '' @
                               join_names missing_actions))
         else if missing_intakes \<noteq> []
         then Inl (ValueError (''documents reference unknown intake types: '' @
                               join_names missing_intakes))
         else if 1 < length (filter (\<lambda>kb. db_default_for_inbound (snd kb)) (tn_documents c))
         then Inl (ValueError ''documents may contain at most one inbound default'')
         else Inr ())"

text \<open>The field constraints of \<open>TenantConfig\<close>, checked before the references.\<close>

definition valid_config_fields :: "tenant_config \<Rightarrow> bool" where
  "valid_config_fields c \<longleftrightarrow>
     safe_slug (tn_slug c) \<and> safe_identifier (tn_scenario_key c) \<and> tn_display_name c \<noteq> [] \<and>
     tn_intake_types c \<noteq> [] \<and> list_all valid_intake_type (tn_intake_types c) \<and>
     tn_fields c \<noteq> [] \<and> distinct (dict_keys (tn_fields c)) \<and>
     list_all (\<lambda>(k, d). safe_identifier k \<and> valid_field_definition d) (tn_fields c) \<and>
     tn_action_policy c \<noteq> [] \<and> distinct (dict_keys (tn_action_policy c)) \<and>
     list_all (\<lambda>(k, _). safe_identifier k) (tn_action_policy c) \<and>
     distinct (dict_keys (tn_documents c)) \<and>
     list_all (\<lambda>(k, b). safe_identifier k \<and> valid_document_binding b) (tn_documents c) \<and>
     valid_routing (tn_routing c)"

definition valid_tenant_config :: "tenant_config \<Rightarrow> bool" where
  "valid_tenant_config c \<longleftrightarrow> valid_config_fields c \<and> validate_references c = Inr ()"

section \<open>JSON form\<close>

definition str_list :: "string list \<Rightarrow> pyval" where
  "str_list xs = PList (map PStr xs)"

definition dump_field_definition :: "field_definition \<Rightarrow> pyval" where
  "dump_field_definition d =
     PDict [(''type'', PStr (field_type_value (fd_type d))), (''label'', PStr (fd_label d)),
            (''options'', case fd_options d of None \<Rightarrow> PNone | Some os \<Rightarrow> str_list os)]"

definition dump_intake_type :: "intake_type_config \<Rightarrow> pyval" where
  "dump_intake_type t =
     PDict [(''name'', PStr (it_name t)), (''description'', PStr (it_description t)),
            (''required_fields'', str_list (it_required_fields t))]"

definition dump_action_rule :: "action_rule \<Rightarrow> pyval" where
  "dump_action_rule r =
     PDict [(''allowed'', PBool (ar_allowed r)), (''requires_approval'', PBool (ar_requires_approval r)),
            (''execution'', PStr (action_execution_mode_value (ar_execution r)))]"

definition dump_document_binding :: "document_binding_config \<Rightarrow> pyval" where
  "dump_document_binding b =
     PDict [(''intake_type'', PStr (db_intake_type b)), (''normalizer'', PStr (db_normalizer b)),
            (''normalizer_version'', PInt (db_normalizer_version b)),
            (''default_for_inbound'', PBool (db_default_for_inbound b))]"

definition dump_routing :: "routing_config \<Rightarrow> pyval" where
  "dump_routing r =
     PDict [(''outcome_names'', PList (map (\<lambda>s. PStr (routing_status_value s)) (rc_outcome_names r))),
            (''always_approval_actions'', str_list (rc_always_approval_actions r))]"

definition dump_dict :: "('v \<Rightarrow> pyval) \<Rightarrow> (string, 'v) dict \<Rightarrow> pyval" where
  "dump_dict f d = PDict (map (\<lambda>(k, v). (k, f v)) d)"

text \<open>\<open>TenantConfig.model_dump(mode="json")\<close>.\<close>

definition config_model_dump :: "tenant_config \<Rightarrow> py_dict" where
  "config_model_dump c =
     [(''profile_version'', PInt 2), (''slug'', PStr (tn_slug c)),
      (''scenario_key'', PStr (tn_scenario_key c)), (''display_name'', PStr (tn_display_name c)),
      (''intake_types'', PList (map dump_intake_type (tn_intake_types c))),
      (''fields'', dump_dict dump_field_definition (tn_fields c)),
      (''action_policy'', dump_dict dump_action_rule (tn_action_policy c)),
      (''documents'', dump_dict dump_document_binding (tn_documents c)),
      (''routing'', dump_routing (tn_routing c))]"

text \<open>
  The parsers behind \<open>model_validate\<close>. \<open>None\<close> is a \<open>ValidationError\<close>: a key that is missing
  without a default, a key that is not declared, or a value of the wrong type.
\<close>

definition only_keys :: "string list \<Rightarrow> py_dict \<Rightarrow> bool" where
  "only_keys ks d \<longleftrightarrow> list_all (\<lambda>kv. fst kv \<in> set ks) d \<and> distinct (map fst d)"

fun as_str :: "pyval \<Rightarrow> string option" where
  "as_str (PStr s) = Some s"
| "as_str _ = None"

fun as_bool :: "pyval \<Rightarrow> bool option" where
  "as_bool (PBool b) = Some b"
| "as_bool _ = None"

fun as_int :: "pyval \<Rightarrow> int option" where
  "as_int (PInt i) = Some i"
| "as_int _ = None"

fun as_list :: "pyval \<Rightarrow> pyval list option" where
  "as_list (PList xs) = Some xs"
| "as_list _ = None"

fun as_dict :: "pyval \<Rightarrow> py_dict option" where
  "as_dict (PDict d) = Some d"
| "as_dict _ = None"

fun map_opt :: "('a \<Rightarrow> 'b option) \<Rightarrow> 'a list \<Rightarrow> 'b list option" where
  "map_opt f [] = Some []"
| "map_opt f (x # xs) =
     (case f x of None \<Rightarrow> None
      | Some y \<Rightarrow> (case map_opt f xs of None \<Rightarrow> None | Some ys \<Rightarrow> Some (y # ys)))"

definition opt_bind :: "'a option \<Rightarrow> ('a \<Rightarrow> 'b option) \<Rightarrow> 'b option" where
  "opt_bind m f = (case m of None \<Rightarrow> None | Some x \<Rightarrow> f x)"

definition key :: "string \<Rightarrow> (pyval \<Rightarrow> 'a option) \<Rightarrow> py_dict \<Rightarrow> 'a option" where
  "key k f d = opt_bind (map_of d k) f"

definition key_default :: "string \<Rightarrow> 'a \<Rightarrow> (pyval \<Rightarrow> 'a option) \<Rightarrow> py_dict \<Rightarrow> 'a option" where
  "key_default k v f d = (case map_of d k of None \<Rightarrow> Some v | Some x \<Rightarrow> f x)"

definition as_str_list :: "pyval \<Rightarrow> string list option" where
  "as_str_list v = opt_bind (as_list v) (map_opt as_str)"

definition as_enum :: "('a \<Rightarrow> string) \<Rightarrow> 'a list \<Rightarrow> pyval \<Rightarrow> 'a option" where
  "as_enum val xs v = opt_bind (as_str v) (\<lambda>s. next_item (\<lambda>x. val x = s) xs)"

definition as_optional :: "(pyval \<Rightarrow> 'a option) \<Rightarrow> pyval \<Rightarrow> 'a option option" where
  "as_optional f v = (if v = PNone then Some None else map_option Some (f v))"

definition as_dict_of :: "(pyval \<Rightarrow> 'v option) \<Rightarrow> pyval \<Rightarrow> (string, 'v) dict option" where
  "as_dict_of f v =
     opt_bind (as_dict v) (map_opt (\<lambda>(k, x). map_option (\<lambda>y. (k, y)) (f x)))"

definition parse_field_definition :: "pyval \<Rightarrow> field_definition option" where
  "parse_field_definition v =
     opt_bind (as_dict v) (\<lambda>d.
       if \<not> only_keys [''type'', ''label'', ''options''] d then None
       else opt_bind (key ''type'' (as_enum field_type_value all_field_types) d) (\<lambda>t.
            opt_bind (key ''label'' as_str d) (\<lambda>l.
            opt_bind (key_default ''options'' None (as_optional as_str_list) d) (\<lambda>os.
            Some \<lparr>fd_type = t, fd_label = l, fd_options = os\<rparr>))))"

definition parse_intake_type :: "pyval \<Rightarrow> intake_type_config option" where
  "parse_intake_type v =
     opt_bind (as_dict v) (\<lambda>d.
       if \<not> only_keys [''name'', ''description'', ''required_fields''] d then None
       else opt_bind (key ''name'' as_str d) (\<lambda>n.
            opt_bind (key ''description'' as_str d) (\<lambda>s.
            opt_bind (key_default ''required_fields'' [] as_str_list d) (\<lambda>r.
            Some \<lparr>it_name = n, it_description = s, it_required_fields = r\<rparr>))))"

definition parse_action_rule :: "pyval \<Rightarrow> action_rule option" where
  "parse_action_rule v =
     opt_bind (as_dict v) (\<lambda>d.
       if \<not> only_keys [''allowed'', ''requires_approval'', ''execution''] d then None
       else opt_bind (key ''allowed'' as_bool d) (\<lambda>a.
            opt_bind (key ''requires_approval'' as_bool d) (\<lambda>r.
            opt_bind (key ''execution'' (as_enum action_execution_mode_value all_execution_modes) d) (\<lambda>e.
            Some \<lparr>ar_allowed = a, ar_requires_approval = r, ar_execution = e\<rparr>))))"

definition parse_document_binding :: "pyval \<Rightarrow> document_binding_config option" where
  "parse_document_binding v =
     opt_bind (as_dict v) (\<lambda>d.
       if \<not> only_keys [''intake_type'', ''normalizer'', ''normalizer_version'', ''default_for_inbound''] d
       then None
       else opt_bind (key ''intake_type'' as_str d) (\<lambda>i.
            opt_bind (key ''normalizer'' as_str d) (\<lambda>n.
            opt_bind (key ''normalizer_version'' as_int d) (\<lambda>w.
            opt_bind (key_default ''default_for_inbound'' False as_bool d) (\<lambda>b.
            Some \<lparr>db_intake_type = i, db_normalizer = n, db_normalizer_version = w,
                  db_default_for_inbound = b\<rparr>)))))"

definition parse_routing :: "pyval \<Rightarrow> routing_config option" where
  "parse_routing v =
     opt_bind (as_dict v) (\<lambda>d.
       if \<not> only_keys [''outcome_names'', ''always_approval_actions''] d then None
       else opt_bind (key ''outcome_names''
               (\<lambda>x. opt_bind (as_list x) (map_opt (as_enum routing_status_value all_routing_statuses))) d) (\<lambda>n.
            opt_bind (key ''always_approval_actions'' as_str_list d) (\<lambda>a.
            Some \<lparr>rc_outcome_names = n, rc_always_approval_actions = a\<rparr>)))"

definition config_keys :: "string list" where
  "config_keys =
     [''profile_version'', ''slug'', ''scenario_key'', ''display_name'', ''intake_types'', ''fields'',
      ''action_policy'', ''documents'', ''routing'']"

definition parse_config_fields :: "py_dict \<Rightarrow> tenant_config option" where
  "parse_config_fields d =
     (if \<not> only_keys config_keys d \<or> map_of d ''profile_version'' \<noteq> Some (PInt 2) then None
      else opt_bind (key ''slug'' as_str d) (\<lambda>slug.
           opt_bind (key ''scenario_key'' as_str d) (\<lambda>scenario.
           opt_bind (key ''display_name'' as_str d) (\<lambda>display.
           opt_bind (key ''intake_types'' (\<lambda>x. opt_bind (as_list x) (map_opt parse_intake_type)) d) (\<lambda>intakes.
           opt_bind (key ''fields'' (as_dict_of parse_field_definition) d) (\<lambda>fields.
           opt_bind (key ''action_policy'' (as_dict_of parse_action_rule) d) (\<lambda>actions.
           opt_bind (key_default ''documents'' [] (as_dict_of parse_document_binding) d) (\<lambda>docs.
           opt_bind (key ''routing'' parse_routing d) (\<lambda>routing.
           Some \<lparr>tn_slug = slug, tn_scenario_key = scenario, tn_display_name = display,
                 tn_intake_types = intakes, tn_fields = fields, tn_action_policy = actions,
                 tn_documents = docs, tn_routing = routing\<rparr>)))))))))"

text \<open>\<open>TenantConfig.model_validate\<close>.\<close>

definition config_model_validate :: "py_dict \<Rightarrow> tenant_config res" where
  "config_model_validate d =
     (case parse_config_fields d of
        None \<Rightarrow> Inl (ValueError ''invalid tenant config'')
      | Some c \<Rightarrow>
          if valid_config_fields c
          then (case validate_references c of Inl e \<Rightarrow> Inl e | Inr _ \<Rightarrow> Inr c)
          else Inl (ValueError ''invalid tenant config''))"

section \<open>Lemmas\<close>

lemma valid_config_distinct:
  assumes "valid_tenant_config c"
  shows "distinct (map it_name (tn_intake_types c))" "distinct (dict_keys (tn_fields c))"
    "distinct (dict_keys (tn_action_policy c))" "distinct (dict_keys (tn_documents c))"
  using assms
  by (auto simp: valid_tenant_config_def valid_config_fields_def validate_references_def Let_def
      split: if_splits)

text \<open>Every accepted profile keeps \<open>send_reply\<close> behind approval, and knows the action.\<close>

lemma valid_config_approval_actions:
  assumes "valid_tenant_config c"
  shows "set (rc_always_approval_actions (tn_routing c)) \<subseteq> set (dict_keys (tn_action_policy c))"
    "''send_reply'' \<in> set (rc_always_approval_actions (tn_routing c))"
  using assms
  by (auto simp: valid_tenant_config_def valid_config_fields_def validate_references_def
      valid_routing_def Let_def split: if_splits)

lemma valid_config_default_document:
  assumes "valid_tenant_config c"
  shows "length (filter (\<lambda>kb. db_default_for_inbound (snd kb)) (tn_documents c)) \<le> 1"
  using assms
  by (auto simp: valid_tenant_config_def validate_references_def Let_def split: if_splits)

subsection \<open>Round trip of the JSON form\<close>

lemma opt_bind_Some [simp]: "opt_bind (Some x) f = f x" "opt_bind None f = None"
  by (simp_all add: opt_bind_def)

lemma map_opt_map: "(\<And>x. x \<in> set xs \<Longrightarrow> f (g x) = Some x) \<Longrightarrow> map_opt f (map g xs) = Some xs"
  by (induction xs) auto

lemma as_str_list_str_list [simp]: "as_str_list (str_list xs) = Some xs"
  by (simp add: as_str_list_def str_list_def map_opt_map)

lemma str_list_neq [simp]: "str_list xs \<noteq> PNone"
  by (simp add: str_list_def)

lemma as_enum_field_type [simp]:
  "as_enum field_type_value all_field_types (PStr (field_type_value t)) = Some t"
  by (cases t) (simp_all add: as_enum_def all_field_types_def)

lemma as_enum_execution [simp]:
  "as_enum action_execution_mode_value all_execution_modes (PStr (action_execution_mode_value t)) = Some t"
  by (cases t) (simp_all add: as_enum_def all_execution_modes_def)

lemma as_enum_status [simp]:
  "as_enum routing_status_value all_routing_statuses (PStr (routing_status_value t)) = Some t"
  by (cases t) (simp_all add: as_enum_def all_routing_statuses_def)

lemma parse_dump_field_definition [simp]: "parse_field_definition (dump_field_definition d) = Some d"
  by (cases d)
     (auto simp: parse_field_definition_def dump_field_definition_def only_keys_def key_def
       key_default_def as_optional_def split: option.splits)

lemma parse_dump_intake_type [simp]: "parse_intake_type (dump_intake_type t) = Some t"
  by (cases t)
     (simp add: parse_intake_type_def dump_intake_type_def only_keys_def key_def key_default_def)

lemma parse_dump_action_rule [simp]: "parse_action_rule (dump_action_rule r) = Some r"
  by (cases r) (simp add: parse_action_rule_def dump_action_rule_def only_keys_def key_def)

lemma parse_dump_document_binding [simp]: "parse_document_binding (dump_document_binding b) = Some b"
  by (cases b)
     (simp add: parse_document_binding_def dump_document_binding_def only_keys_def key_def key_default_def)

lemma parse_dump_routing [simp]: "parse_routing (dump_routing r) = Some r"
  by (cases r)
     (simp add: parse_routing_def dump_routing_def only_keys_def key_def map_opt_map)

lemma as_dict_of_dump:
  assumes "\<And>x. f (g x) = Some x"
  shows "as_dict_of f (dump_dict g d) = Some d"
  by (simp add: as_dict_of_def dump_dict_def assms map_opt_map case_prod_beta)

lemma parse_config_model_dump: "parse_config_fields (config_model_dump c) = Some c"
  by (cases c)
     (simp add: parse_config_fields_def config_model_dump_def only_keys_def config_keys_def key_def
       key_default_def as_dict_of_dump map_opt_map)

lemma config_round_trip: "valid_tenant_config c \<Longrightarrow> config_model_validate (config_model_dump c) = Inr c"
  by (simp add: config_model_validate_def parse_config_model_dump valid_tenant_config_def)

lemma config_model_validate_valid: "config_model_validate d = Inr c \<Longrightarrow> valid_tenant_config c"
  by (auto simp: config_model_validate_def valid_tenant_config_def split: option.splits if_splits sum.splits)

end
