(* ===== verification/Tenant_Router.thy ===== *)
theory Tenant_Router
  imports Tenant_Config
begin

text \<open>
  The deterministic router of \<open>app/tenants/routing.py\<close>. The sets of field and action names in an
  assessment are lists, of which only the membership is used.
\<close>

record routing_assessment =
  ra_intake_type :: string
  ra_present_fields :: "string list"
  ra_contains_safety_or_legal_risk :: bool
  ra_requested_action :: string
  ra_requires_complete_fields :: bool
  ra_executable_actions :: "string list option"
  ra_is_critical :: bool
  ra_registered_actions :: "string list option"

record routing_outcome =
  ro_status :: routing_status
  ro_decision :: routing_decision
  ro_missing_required_fields :: "string list"
  ro_reason :: string

text \<open>\<open>{item.name: item for item in config.intake_types}\<close>: a later item replaces an earlier one.\<close>

definition intake_by_name :: "tenant_config \<Rightarrow> string \<Rightarrow> intake_type_config option" where
  "intake_by_name c n = map_of (rev (map (\<lambda>t. (it_name t, t)) (tn_intake_types c))) n"

definition rejected :: "string \<Rightarrow> routing_outcome" where
  "rejected reason =
     \<lparr>ro_status = REJECTED, ro_decision = DENY, ro_missing_required_fields = [], ro_reason = reason\<rparr>"

definition route :: "tenant_config \<Rightarrow> routing_assessment \<Rightarrow> routing_outcome" where
  "route c a =
     (case intake_by_name c (ra_intake_type a) of
        None \<Rightarrow> rejected ''unknown_intake_type''
      | Some intake \<Rightarrow>
          (let missing = sorted_minus (it_required_fields intake) (ra_present_fields a)
           in if ra_requires_complete_fields a \<and> missing \<noteq> []
              then \<lparr>ro_status = AWAITING_INPUT, ro_decision = DENY,
                    ro_missing_required_fields = missing, ro_reason = ''missing_required_fields''\<rparr>
              else case map_of (tn_action_policy c) (ra_requested_action a) of
                     None \<Rightarrow> rejected ''action_not_configured''
                   | Some rule \<Rightarrow>
                       (let executable =
                              (case ra_executable_actions a of
                                 None \<Rightarrow> ra_registered_actions a
                               | Some xs \<Rightarrow> Some xs)
                        in if ar_execution rule \<noteq> EXECUTABLE then rejected ''action_not_executable''
                           else if (case executable of
                                      None \<Rightarrow> False
                                    | Some xs \<Rightarrow> ra_requested_action a \<notin> set xs)
                           then rejected ''action_not_configured''
                           else if \<not> ar_allowed rule then rejected ''action_not_allowed''
                           else if ra_contains_safety_or_legal_risk a
                           then \<lparr>ro_status = URGENT, ro_decision = NEEDS_APPROVAL,
                                 ro_missing_required_fields = [],
                                 ro_reason = ''safety_or_legal_risk''\<rparr>
                           else if ra_requested_action a \<in> set (rc_always_approval_actions (tn_routing c)) \<or>
                                   ar_requires_approval rule \<or> ra_is_critical a
                           then \<lparr>ro_status = PENDING_APPROVAL, ro_decision = NEEDS_APPROVAL,
                                 ro_missing_required_fields = [], ro_reason = ''approval_required''\<rparr>
                           else \<lparr>ro_status = READY, ro_decision = ALLOW,
                                 ro_missing_required_fields = [], ro_reason = ''action_allowed''\<rparr>)))"

section \<open>Lemmas\<close>

text \<open>
  The reference reading of the policy: an action is within reach when the profile declares it
  as executable and allowed and the deployment offers it.
\<close>

definition action_granted :: "tenant_config \<Rightarrow> routing_assessment \<Rightarrow> bool" where
  "action_granted c a \<longleftrightarrow>
     (\<exists>rule. map_of (tn_action_policy c) (ra_requested_action a) = Some rule \<and>
        ar_execution rule = EXECUTABLE \<and> ar_allowed rule) \<and>
     (case (case ra_executable_actions a of None \<Rightarrow> ra_registered_actions a | Some xs \<Rightarrow> Some xs) of
        None \<Rightarrow> True | Some xs \<Rightarrow> ra_requested_action a \<in> set xs)"

definition fields_complete :: "tenant_config \<Rightarrow> routing_assessment \<Rightarrow> bool" where
  "fields_complete c a \<longleftrightarrow>
     (\<exists>intake. intake_by_name c (ra_intake_type a) = Some intake \<and>
        (ra_requires_complete_fields a \<longrightarrow> set (it_required_fields intake) \<subseteq> set (ra_present_fields a)))"

definition must_be_approved :: "tenant_config \<Rightarrow> routing_assessment \<Rightarrow> bool" where
  "must_be_approved c a \<longleftrightarrow>
     ra_contains_safety_or_legal_risk a \<or> ra_is_critical a \<or>
     ra_requested_action a \<in> set (rc_always_approval_actions (tn_routing c)) \<or>
     (\<exists>rule. map_of (tn_action_policy c) (ra_requested_action a) = Some rule \<and> ar_requires_approval rule)"

lemma route_not_denied:
  "ro_decision (route c a) \<noteq> DENY \<longleftrightarrow> fields_complete c a \<and> action_granted c a"
  by (auto simp: route_def rejected_def fields_complete_def action_granted_def Let_def
      split: option.splits if_splits)

lemma route_allow:
  "ro_decision (route c a) = ALLOW \<longleftrightarrow>
     fields_complete c a \<and> action_granted c a \<and> \<not> must_be_approved c a"
  by (auto simp: route_def rejected_def fields_complete_def action_granted_def must_be_approved_def Let_def
      split: option.splits if_splits)

lemma route_status:
  "ro_status (route c a) = READY \<longleftrightarrow> ro_decision (route c a) = ALLOW"
  "ro_status (route c a) \<in> {URGENT, PENDING_APPROVAL} \<longleftrightarrow> ro_decision (route c a) = NEEDS_APPROVAL"
  "ro_missing_required_fields (route c a) \<noteq> [] \<longleftrightarrow> ro_status (route c a) = AWAITING_INPUT"
  by (auto simp: route_def rejected_def Let_def split: option.splits if_splits)

lemma intake_by_name_SomeD: "intake_by_name c n = Some t \<Longrightarrow> t \<in> set (tn_intake_types c) \<and> it_name t = n"
  unfolding intake_by_name_def by (drule map_of_SomeD) auto

lemma intake_by_name_next_item:
  assumes "valid_tenant_config c"
  shows "intake_by_name c n = next_item (\<lambda>t. it_name t = n) (tn_intake_types c)"
proof -
  let ?ts = "tn_intake_types c"
  have d: "distinct (map fst (map (\<lambda>t. (it_name t, t)) ?ts))"
    using valid_config_distinct(1) [OF assms] by (simp add: comp_def)
  have "map_of (rev (map (\<lambda>t. (it_name t, t)) ?ts)) n = map_of (map (\<lambda>t. (it_name t, t)) ?ts) n"
    by (rule map_of_rev_distinct [OF d])
  also have "\<dots> = next_item (\<lambda>t. it_name t = n) ?ts"
    by (rule map_of_next_item)
  finally show ?thesis by (simp add: intake_by_name_def)
qed

lemma route_cases:
  "ro_decision (route c a) =
     (if \<not> (fields_complete c a \<and> action_granted c a) then DENY
      else if must_be_approved c a then NEEDS_APPROVAL
      else ALLOW)"
  using route_not_denied [of c a] route_allow [of c a]
  by (cases "ro_decision (route c a)") auto

text \<open>
  The complete reading of the router. It denies exactly when the intake type is unknown, a
  required field is missing for an action that needs all of them, or the action is not declared
  executable and allowed and offered; it allows exactly when none of this holds and neither the
  risk flag, the critical flag, the profile's approval list nor the action's own rule asks for
  approval; in the remaining case it asks for approval. The status agrees with the decision, and
  missing fields are reported exactly when the intake awaits input.
\<close>

theorem route_decision:
  "ro_decision (route c a) =
     (if \<not> (fields_complete c a \<and> action_granted c a) then DENY
      else if must_be_approved c a then NEEDS_APPROVAL
      else ALLOW) \<and>
   (ro_status (route c a) = READY \<longleftrightarrow> ro_decision (route c a) = ALLOW) \<and>
   (ro_status (route c a) \<in> {URGENT, PENDING_APPROVAL} \<longleftrightarrow> ro_decision (route c a) = NEEDS_APPROVAL) \<and>
   (ro_missing_required_fields (route c a) \<noteq> [] \<longleftrightarrow> ro_status (route c a) = AWAITING_INPUT)"
  using route_cases route_status by blast

end
