(* ===== verification/Agent_Models.thy ===== *)
theory Agent_Models
  imports Py_Data
begin

text \<open>
  The typed data of \<open>app/agent/models.py\<close>: tool calls, tool execution results with their
  control disposition, evidence and execution path entries, the strict proposal a provider
  returns, and the messages and result of a run. A \<open>__post_init__\<close> or validator that can raise
  is a constructor function into \<^typ>\<open>'a res\<close>; the constraints Pydantic enforces on a proposal
  are the predicate \<open>valid_proposal\<close>.
\<close>

section \<open>Enumerations\<close>

datatype message_role = USER | ASSISTANT | TOOL | SYSTEM

datatype run_status = RunCompleted | RunFailed

datatype stop_reason =
    FINAL | INVALID_PROPOSAL | REPEATED_TOOL | MAX_STEPS_REACHED | EXECUTOR_STOPPED
  | TOOL_EXECUTION_FAILED

datatype tool_disposition = DispContinue | DispCompleted | DispFailed

datatype proposal_priority = LOW | NORMAL | HIGH | URGENT_PRIORITY | CRITICAL

datatype field_source = BODY | DOCUMENT

fun run_status_value :: "run_status \<Rightarrow> string" where
  "run_status_value RunCompleted = ''completed''"
| "run_status_value RunFailed = ''failed''"

fun stop_reason_value :: "stop_reason \<Rightarrow> string" where
  "stop_reason_value FINAL = ''final''"
| "stop_reason_value INVALID_PROPOSAL = ''invalid_proposal''"
| "stop_reason_value REPEATED_TOOL = ''repeated_tool''"
| "stop_reason_value MAX_STEPS_REACHED = ''max_steps''"
| "stop_reason_value EXECUTOR_STOPPED = ''executor_stopped''"
| "stop_reason_value TOOL_EXECUTION_FAILED = ''tool_execution_failed''"

section \<open>Tool calls and execution results\<close>

datatype reference_kind = RefCase | RefReplyDraft | RefReviewFlag

record result_reference =
  ref_kind :: reference_kind
  ref_id :: uuid

record tool_call =
  tc_name :: string
  tc_arguments :: py_dict

text \<open>\<open>ToolCall.__post_init__\<close>: the arguments are frozen, or the construction raises.\<close>

definition mk_tool_call :: "string \<Rightarrow> py_dict \<Rightarrow> tool_call res" where
  "mk_tool_call name args =
     (case freeze_data (PDict args) of
        Inl e \<Rightarrow> Inl e
      | Inr (PDict d) \<Rightarrow> Inr \<lparr>tc_name = name, tc_arguments = d\<rparr>
      | Inr _ \<Rightarrow> Inl (TypeError ''tool arguments must be a mapping''))"

text \<open>The dataclass equality of two tool calls.\<close>

definition tool_call_eq :: "tool_call \<Rightarrow> tool_call \<Rightarrow> bool" where
  "tool_call_eq a b \<longleftrightarrow> tc_name a = tc_name b \<and> py_dict_eq (tc_arguments a) (tc_arguments b)"

record tool_execution_evidence =
  ev_action_key :: "string option"
  ev_action_known :: bool
  ev_policy_decision :: string
  ev_routing_status :: string
  ev_policy_reason :: string
  ev_missing_required_fields :: "string list"
  ev_tool_outcome :: "string option"
  ev_side_effect_committed :: bool

definition mk_evidence :: "tool_execution_evidence \<Rightarrow> tool_execution_evidence res" where
  "mk_evidence ev =
     (if ev_action_known ev \<noteq> (ev_action_key ev \<noteq> None)
      then Inl (ValueError ''known action evidence requires an action key'')
      else Inr (ev\<lparr>ev_missing_required_fields := sorted_set (ev_missing_required_fields ev)\<rparr>))"

record execution_path_entry =
  pe_step :: nat
  pe_action_key :: "string option"
  pe_action_known :: bool
  pe_policy_decision :: string
  pe_routing_status :: string
  pe_policy_reason :: string
  pe_missing_required_fields :: "string list"
  pe_tool_outcome :: "string option"
  pe_side_effect_committed :: bool

text \<open>\<open>ExecutionPathEntry.from_tool\<close> with the entry's own \<open>__post_init__\<close>.\<close>

definition from_tool :: "nat \<Rightarrow> tool_execution_evidence \<Rightarrow> execution_path_entry res" where
  "from_tool step ev =
     (if step < 1 then Inl (ValueError ''execution path step must be positive'')
      else if ev_action_known ev \<noteq> (ev_action_key ev \<noteq> None)
      then Inl (ValueError ''known action evidence requires an action key'')
      else Inr \<lparr>pe_step = step,
                pe_action_key = ev_action_key ev,
                pe_action_known = ev_action_known ev,
                pe_policy_decision = ev_policy_decision ev,
                pe_routing_status = ev_routing_status ev,
                pe_policy_reason = ev_policy_reason ev,
                pe_missing_required_fields = sorted_set (ev_missing_required_fields ev),
                pe_tool_outcome = ev_tool_outcome ev,
                pe_side_effect_committed = ev_side_effect_committed ev\<rparr>)"

record tool_execution_result =
  ter_data :: pyval
  ter_continue_run :: bool
  ter_final_response :: "string option"
  ter_disposition :: tool_disposition
  ter_result_reference :: "result_reference option"
  ter_evidence :: "tool_execution_evidence option"

text \<open>\<open>ToolExecutionResult(...)\<close> with its \<open>__post_init__\<close>.\<close>

definition mk_tool_execution_result ::
  "pyval \<Rightarrow> bool option \<Rightarrow> string option \<Rightarrow> tool_disposition option \<Rightarrow>
   result_reference option \<Rightarrow> tool_execution_evidence option \<Rightarrow> tool_execution_result res" where
  "mk_tool_execution_result data continue_run final_response disposition reference evidence =
     bind_res (freeze_data data) (\<lambda>frozen.
     bind_res
       (case disposition of
          None \<Rightarrow> Inr (if continue_run = Some False then DispCompleted else DispContinue)
        | Some d \<Rightarrow>
            (case continue_run of
               None \<Rightarrow> Inr d
             | Some c \<Rightarrow>
                 if c \<noteq> (d = DispContinue)
                 then Inl (ValueError ''tool execution disposition conflicts with continue_run'')
                 else Inr d))
       (\<lambda>d. if d = DispContinue \<and> final_response \<noteq> None
            then Inl (ValueError ''continuing execution cannot set final_response'')
            else Inr \<lparr>ter_data = frozen,
                      ter_continue_run = (d = DispContinue),
                      ter_final_response = final_response,
                      ter_disposition = d,
                      ter_result_reference = reference,
                      ter_evidence = evidence\<rparr>))"

text \<open>The invariant every constructed result satisfies.\<close>

definition ter_wf :: "tool_execution_result \<Rightarrow> bool" where
  "ter_wf r \<longleftrightarrow>
     json_value (ter_data r) \<and> (ter_continue_run r \<longleftrightarrow> ter_disposition r = DispContinue) \<and>
     (ter_disposition r = DispContinue \<longrightarrow> ter_final_response r = None)"

section \<open>Proposals\<close>

record proposal_value =
  pv_name :: string
  pv_value :: pyval
  pv_source :: "field_source option"
  pv_source_excerpt :: "string option"

record proposal_tool_call =
  ptc_name :: string
  ptc_arguments :: "proposal_value list"

record agent_proposal =
  ap_intake_type :: "string option"
  ap_fields :: "proposal_value list"
  ap_missing_required_fields :: "string list"
  ap_priority :: proposal_priority
  ap_contains_injection :: bool
  ap_rationale_short :: string
  ap_tool_calls :: "proposal_tool_call list"
  ap_confidence :: rat

fun proposal_scalar :: "pyval \<Rightarrow> bool" where
  "proposal_scalar (PList _) = False"
| "proposal_scalar (PDict _) = False"
| "proposal_scalar PBadMap = False"
| "proposal_scalar POther = False"
| "proposal_scalar _ = True"

fun proposal_value_data :: "pyval \<Rightarrow> bool" where
  "proposal_value_data (PList xs) = list_all proposal_scalar xs"
| "proposal_value_data v = proposal_scalar v"

definition require_non_blank_excerpt :: "string option \<Rightarrow> bool" where
  "require_non_blank_excerpt x = (case x of None \<Rightarrow> True | Some s \<Rightarrow> non_blank s)"

text \<open>The accepted values of \<open>ProposalValue\<close>: its field constraints and its two validators.\<close>

definition valid_proposal_value :: "proposal_value \<Rightarrow> bool" where
  "valid_proposal_value v \<longleftrightarrow>
     pv_name v \<noteq> [] \<and> proposal_value_data (pv_value v) \<and> json_value (pv_value v) \<and>
     (case pv_source_excerpt v of None \<Rightarrow> True | Some s \<Rightarrow> 1 \<le> length s \<and> length s \<le> 500) \<and>
     require_non_blank_excerpt (pv_source_excerpt v)"

definition valid_proposal_tool_call :: "proposal_tool_call \<Rightarrow> bool" where
  "valid_proposal_tool_call c \<longleftrightarrow>
     ptc_name c \<noteq> [] \<and> list_all valid_proposal_value (ptc_arguments c) \<and>
     distinct (map pv_name (ptc_arguments c))"

text \<open>\<open>AgentProposal\<close>: field constraints, \<open>require_unique_fields\<close> and the other validators.\<close>

definition valid_proposal :: "agent_proposal \<Rightarrow> bool" where
  "valid_proposal p \<longleftrightarrow>
     ap_intake_type p \<noteq> Some [] \<and>
     list_all valid_proposal_value (ap_fields p) \<and>
     distinct (map (\<lambda>v. (pv_name v, pv_source v)) (ap_fields p)) \<and>
     list_all (\<lambda>s. s \<noteq> []) (ap_missing_required_fields p) \<and>
     distinct (ap_missing_required_fields p) \<and>
     1 \<le> length (ap_rationale_short p) \<and> length (ap_rationale_short p) \<le> 1000 \<and>
     length (ap_tool_calls p) \<le> 1 \<and>
     list_all valid_proposal_tool_call (ap_tool_calls p) \<and>
     0 \<le> ap_confidence p \<and> ap_confidence p \<le> 1"

text \<open>\<open>{item.name: item.value for item in self.arguments}\<close>.\<close>

definition as_tool_call :: "proposal_tool_call \<Rightarrow> tool_call res" where
  "as_tool_call c =
     mk_tool_call (ptc_name c)
       (fold (\<lambda>v d. dict_set (pv_name v) (pv_value v) d) (ptc_arguments c) [])"

definition proposal_tool_call_of :: "agent_proposal \<Rightarrow> tool_call option res" where
  "proposal_tool_call_of p =
     (case ap_tool_calls p of
        [] \<Rightarrow> Inr None
      | c # _ \<Rightarrow> (case as_tool_call c of Inl e \<Rightarrow> Inl e | Inr t \<Rightarrow> Inr (Some t)))"

definition is_terminal :: "agent_proposal \<Rightarrow> bool" where
  "is_terminal p \<longleftrightarrow> ap_tool_calls p = []"

section \<open>Messages and results\<close>

record agent_message =
  am_role :: message_role
  am_content :: "string option"
  am_proposal :: "agent_proposal option"
  am_tool_call :: "tool_call option"
  am_tool_result :: pyval

record agent_run_result =
  rr_status :: run_status
  rr_reason :: stop_reason
  rr_messages :: "agent_message list"
  rr_steps :: nat
  rr_final_response :: "string option"
  rr_proposal :: "agent_proposal option"
  rr_execution_path :: "execution_path_entry list"

section \<open>Lemmas\<close>

lemma mk_tool_execution_result_wf:
  "mk_tool_execution_result data c fr d ref ev = Inr r \<Longrightarrow> ter_wf r"
  by (auto simp: mk_tool_execution_result_def ter_wf_def bind_res_def freeze_data_spec
      split: sum.splits option.splits if_splits)

text \<open>
  \<open>dataclasses.replace\<close> runs \<open>__post_init__\<close> again; on a constructed result that changes nothing.
\<close>

lemma mk_tool_execution_result_replace:
  assumes "ter_wf r"
  shows "mk_tool_execution_result (ter_data r) (Some (ter_continue_run r)) (ter_final_response r)
           (Some (ter_disposition r)) ref ev =
         Inr (r\<lparr>ter_result_reference := ref, ter_evidence := ev\<rparr>)"
  using assms
  by (cases r) (auto simp: ter_wf_def mk_tool_execution_result_def freeze_data_Inr)

lemma json_value_dict_set:
  "json_value w \<Longrightarrow> list_all (\<lambda>kv. json_value (snd kv)) d \<Longrightarrow>
   list_all (\<lambda>kv. json_value (snd kv)) (dict_set k w d)"
  by (induction k w d rule: dict_set.induct) auto

lemma json_value_dict_fold:
  assumes "list_all (\<lambda>v. json_value (pv_value v)) vs" "list_all (\<lambda>kv. json_value (snd kv)) d"
  shows "list_all (\<lambda>kv. json_value (snd kv))
           (fold (\<lambda>v d. dict_set (pv_name v) (pv_value v) d) vs d)"
  using assms
  by (induction vs arbitrary: d) (auto simp: json_value_dict_set)

lemma as_tool_call_valid:
  assumes "valid_proposal_tool_call c"
  shows "\<exists>t. as_tool_call c = Inr t \<and> tc_name t = ptc_name c"
proof -
  let ?d = "fold (\<lambda>v d. dict_set (pv_name v) (pv_value v) d) (ptc_arguments c) []"
  have "list_all (\<lambda>v. json_value (pv_value v)) (ptc_arguments c)"
    using assms by (simp add: valid_proposal_tool_call_def valid_proposal_value_def list_all_iff)
  then have "json_value (PDict ?d)"
    using json_value_dict_fold [of "ptc_arguments c" "[]"] by simp
  then show ?thesis
    by (simp add: as_tool_call_def mk_tool_call_def freeze_data_Inr del: freeze_data.simps)
qed

lemma proposal_tool_call_of_valid:
  assumes "valid_proposal p"
  shows "\<exists>t. proposal_tool_call_of p = Inr t \<and> (t = None \<longleftrightarrow> is_terminal p)"
proof (cases "ap_tool_calls p")
  case Nil
  then show ?thesis by (simp add: proposal_tool_call_of_def is_terminal_def)
next
  case (Cons c cs)
  then have "valid_proposal_tool_call c"
    using assms by (simp add: valid_proposal_def)
  then obtain t where "as_tool_call c = Inr t"
    using as_tool_call_valid by blast
  with Cons show ?thesis by (simp add: proposal_tool_call_of_def is_terminal_def)
qed

lemma from_tool_Inr:
  "from_tool step ev = Inr e \<Longrightarrow>
     pe_step e = step \<and> (pe_action_known e \<longleftrightarrow> pe_action_key e \<noteq> None) \<and> 1 \<le> step"
  by (auto simp: from_tool_def split: if_splits)

lemma from_tool_mk_evidence:
  assumes "mk_evidence ev = Inr ev'" "1 \<le> step"
  shows "\<exists>e. from_tool step ev' = Inr e"
  using assms by (auto simp: mk_evidence_def from_tool_def split: if_splits)

text \<open>A call built from a valid proposal equals itself under Python's equality.\<close>

lemma distinct_keys_dict_set:
  "distinct_keys w \<Longrightarrow> distinct_keys (PDict d) \<Longrightarrow> distinct_keys (PDict (dict_set k w d))"
proof (induction k w d rule: dict_set.induct)
  case (2 k v k' v' d)
  then show ?case
    using dict_keys_dict_set_distinct [of "(k', v') # d" k v] by (auto simp: dict_keys_def)
qed auto

lemma distinct_keys_fold:
  assumes "list_all (\<lambda>v. distinct_keys (pv_value v)) vs" "distinct_keys (PDict d)"
  shows "distinct_keys (PDict (fold (\<lambda>v d. dict_set (pv_name v) (pv_value v) d) vs d))"
  using assms by (induction vs arbitrary: d) (simp_all add: distinct_keys_dict_set del: distinct_keys.simps)

lemma proposal_scalar_distinct_keys: "proposal_scalar v \<Longrightarrow> distinct_keys v"
  by (cases v) auto

lemma proposal_value_distinct_keys: "proposal_value_data v \<Longrightarrow> distinct_keys v"
  by (cases v) (auto simp: list_all_iff proposal_scalar_distinct_keys)

lemma as_tool_call_refl:
  assumes "valid_proposal_tool_call c" "as_tool_call c = Inr t"
  shows "tool_call_eq t t"
proof -
  let ?d = "fold (\<lambda>v d. dict_set (pv_name v) (pv_value v) d) (ptc_arguments c) []"
  have vs: "list_all valid_proposal_value (ptc_arguments c)"
    using assms(1) by (simp add: valid_proposal_tool_call_def)
  then have j: "json_value (PDict ?d)"
    using json_value_dict_fold [of "ptc_arguments c" "[]"]
    by (auto simp: list_all_iff valid_proposal_value_def)
  have "list_all (\<lambda>v. distinct_keys (pv_value v)) (ptc_arguments c)"
    using vs by (auto simp: list_all_iff valid_proposal_value_def proposal_value_distinct_keys)
  then have "distinct_keys (PDict ?d)"
    by (rule distinct_keys_fold) simp
  moreover have "tc_arguments t = ?d"
    using assms(2) j
    by (simp add: as_tool_call_def mk_tool_call_def freeze_data_Inr del: freeze_data.simps) auto
  ultimately show ?thesis
    using py_eq_refl [OF j] by (simp add: tool_call_eq_def py_dict_eq_def del: py_eq.simps)
qed

lemma proposal_tool_call_refl:
  assumes "valid_proposal p" "proposal_tool_call_of p = Inr (Some t)"
  shows "tool_call_eq t t"
  using assms as_tool_call_refl
  by (auto simp: proposal_tool_call_of_def valid_proposal_def split: list.splits sum.splits)

end
