(* ===== verification/Tool_Models.thy ===== *)
theory Tool_Models
  imports Agent_Models Tenant_Config
begin

text \<open>
  The closed argument and result models of \<open>app/tools/models.py\<close> and the registry of executable
  actions of \<open>app/tools/registry.py\<close>. An argument model is a constructor of \<open>args_model\<close>, its
  validated instance a value of \<open>tool_args\<close>.

  \<open>_parse_uuid\<close> raises \<open>TypeError\<close> on a value that is neither a UUID nor a string. Pydantic turns
  a \<open>ValueError\<close> of a validator into a \<open>ValidationError\<close> but lets a \<open>TypeError\<close> through, so the
  two are different exceptions here: \<open>Inl (ValueError _)\<close> stands for the \<open>ValidationError\<close>.
\<close>

section \<open>Arguments\<close>

datatype args_model =
    FindCustomerArgs | CreateCaseArgs | UpdateCaseFieldsArgs | CreateReplyDraftArgs | FlagForReviewArgs

datatype tool_args =
    FindCustomer "string option" "string option"
  | CreateCase "uuid option"
  | UpdateCaseFields uuid
  | CreateReplyDraft "uuid option"
  | FlagForReview "string option"

fun args_model_of :: "tool_args \<Rightarrow> args_model" where
  "args_model_of (FindCustomer _ _) = FindCustomerArgs"
| "args_model_of (CreateCase _) = CreateCaseArgs"
| "args_model_of (UpdateCaseFields _) = UpdateCaseFieldsArgs"
| "args_model_of (CreateReplyDraft _) = CreateReplyDraftArgs"
| "args_model_of (FlagForReview _) = FlagForReviewArgs"

definition validation_error :: "'a res" where
  "validation_error = Inl (ValueError ''ValidationError'')"

fun parse_uuid :: "pyval \<Rightarrow> uuid res" where
  "parse_uuid (PStr s) = (case uuid_parse s of None \<Rightarrow> validation_error | Some u \<Rightarrow> Inr u)"
| "parse_uuid _ = Inl (TypeError ''value must be a UUID'')"

text \<open>\<open>ToolUUID | None = None\<close>: a missing key and \<open>None\<close> both give \<open>None\<close>.\<close>

definition optional_uuid :: "string \<Rightarrow> py_dict \<Rightarrow> uuid option res" where
  "optional_uuid k d =
     (case map_of d k of
        None \<Rightarrow> Inr None
      | Some v \<Rightarrow>
          if v = PNone then Inr None
          else case parse_uuid v of Inl e \<Rightarrow> Inl e | Inr u \<Rightarrow> Inr (Some u))"

definition optional_str :: "string \<Rightarrow> py_dict \<Rightarrow> string option res" where
  "optional_str k d =
     (case map_of d k of
        None \<Rightarrow> Inr None
      | Some PNone \<Rightarrow> Inr None
      | Some (PStr s) \<Rightarrow> Inr (Some s)
      | Some _ \<Rightarrow> validation_error)"

definition no_extra :: "string list \<Rightarrow> py_dict \<Rightarrow> unit res" where
  "no_extra ks d = (if list_all (\<lambda>kv. fst kv \<in> set ks) d then Inr () else validation_error)"

text \<open>\<open>definition.arguments_model.model_validate(dict(tool_call.arguments))\<close>.\<close>

fun args_model_validate :: "args_model \<Rightarrow> py_dict \<Rightarrow> tool_args res" where
  "args_model_validate FindCustomerArgs d =
     bind_res (optional_str ''email'' d) (\<lambda>email.
     bind_res (optional_str ''external_id'' d) (\<lambda>ext.
     bind_res (no_extra [''email'', ''external_id''] d) (\<lambda>_.
     if (email = None \<or> email = Some []) \<and> (ext = None \<or> ext = Some []) then validation_error
     else Inr (FindCustomer email ext))))"
| "args_model_validate CreateCaseArgs d =
     bind_res (optional_uuid ''customer_id'' d) (\<lambda>u.
     bind_res (no_extra [''customer_id''] d) (\<lambda>_. Inr (CreateCase u)))"
| "args_model_validate UpdateCaseFieldsArgs d =
     bind_res (case map_of d ''case_id'' of None \<Rightarrow> validation_error | Some v \<Rightarrow> parse_uuid v) (\<lambda>u.
     bind_res (no_extra [''case_id''] d) (\<lambda>_. Inr (UpdateCaseFields u)))"
| "args_model_validate CreateReplyDraftArgs d =
     bind_res (optional_uuid ''case_id'' d) (\<lambda>u.
     bind_res (no_extra [''case_id''] d) (\<lambda>_. Inr (CreateReplyDraft u)))"
| "args_model_validate FlagForReviewArgs d =
     bind_res (optional_str ''note'' d) (\<lambda>note.
     bind_res (no_extra [''note''] d) (\<lambda>_.
     if (case note of None \<Rightarrow> False | Some s \<Rightarrow> 500 < length s) then validation_error
     else Inr (FlagForReview note)))"

definition opt_str :: "string option \<Rightarrow> pyval" where
  "opt_str x = (case x of None \<Rightarrow> PNone | Some s \<Rightarrow> PStr s)"

definition opt_uuid :: "uuid option \<Rightarrow> pyval" where
  "opt_uuid x = (case x of None \<Rightarrow> PNone | Some u \<Rightarrow> PStr (uuid_str u))"

text \<open>\<open>arguments.model_dump(mode="json")\<close>.\<close>

fun args_model_dump :: "tool_args \<Rightarrow> py_dict" where
  "args_model_dump (FindCustomer email ext) = [(''email'', opt_str email), (''external_id'', opt_str ext)]"
| "args_model_dump (CreateCase u) = [(''customer_id'', opt_uuid u)]"
| "args_model_dump (UpdateCaseFields u) = [(''case_id'', PStr (uuid_str u))]"
| "args_model_dump (CreateReplyDraft u) = [(''case_id'', opt_uuid u)]"
| "args_model_dump (FlagForReview note) = [(''note'', opt_str note)]"

section \<open>Results\<close>

record customer_summary =
  cs_id :: string
  cs_external_id :: "string option"
  cs_name :: "string option"
  cs_email :: "string option"
  cs_phone :: "string option"

record created_case =
  cc_id :: string
  cc_status :: string
  cc_accepted_fields :: "string list"

record updated_case =
  uc_id :: string
  uc_updated_fields :: "string list"

record pending_action =
  pa_version :: int
  pa_name :: string
  pa_arguments :: py_dict
  pa_known_fields :: py_dict

record approval_requested =
  rq_id :: uuid
  rq_expires_at :: datetime

text \<open>\<open>PendingAction(...)\<close>: the constraints on the version and the name.\<close>

definition mk_pending_action :: "int \<Rightarrow> string \<Rightarrow> py_dict \<Rightarrow> py_dict \<Rightarrow> pending_action res" where
  "mk_pending_action version name args known =
     (if 1 \<le> version \<and> safe_identifier name
      then Inr \<lparr>pa_version = version, pa_name = name, pa_arguments = args, pa_known_fields = known\<rparr>
      else validation_error)"

definition customer_dump :: "customer_summary \<Rightarrow> pyval" where
  "customer_dump c =
     PDict [(''id'', PStr (cs_id c)), (''external_id'', opt_str (cs_external_id c)),
            (''name'', opt_str (cs_name c)), (''email'', opt_str (cs_email c)),
            (''phone'', opt_str (cs_phone c))]"

text \<open>\<open>_customer_data\<close>: the lookup result is consistent by construction.\<close>

definition customer_data :: "customer_summary option \<Rightarrow> pyval" where
  "customer_data summary =
     PDict [(''found'', PBool (summary \<noteq> None)),
            (''customer'', case summary of None \<Rightarrow> PNone | Some c \<Rightarrow> customer_dump c)]"

definition created_case_dump :: "created_case \<Rightarrow> pyval" where
  "created_case_dump c =
     PDict [(''id'', PStr (cc_id c)), (''status'', PStr (cc_status c)),
            (''accepted_fields'', str_list (cc_accepted_fields c))]"

definition updated_case_dump :: "updated_case \<Rightarrow> pyval" where
  "updated_case_dump c =
     PDict [(''id'', PStr (uc_id c)), (''updated_fields'', str_list (uc_updated_fields c))]"

fun reference_kind_value :: "reference_kind \<Rightarrow> string" where
  "reference_kind_value RefCase = ''case''"
| "reference_kind_value RefReplyDraft = ''reply_draft''"
| "reference_kind_value RefReviewFlag = ''review_flag''"

definition all_reference_kinds :: "reference_kind list" where
  "all_reference_kinds = [RefCase, RefReplyDraft, RefReviewFlag]"

definition reference_dump :: "result_reference \<Rightarrow> pyval" where
  "reference_dump r =
     PDict [(''kind'', PStr (reference_kind_value (ref_kind r))), (''id'', PStr (uuid_str (ref_id r)))]"

section \<open>The action registry\<close>

record action_capability =
  ac_key :: string
  ac_description :: string
  ac_arguments_model :: args_model
  ac_requires_complete_fields :: bool
  ac_commits_side_effect :: bool
  ac_pending_action_version :: int

definition mk_action_capability :: "action_capability \<Rightarrow> action_capability res" where
  "mk_action_capability c =
     (if \<not> safe_identifier (ac_key c)
      then Inl (ValueError ''action capability key must be a safe identifier'')
      else if \<not> non_blank (ac_description c)
      then Inl (ValueError ''action capability description must be non-blank'')
      else if 500 < length (ac_description c)
      then Inl (ValueError ''action capability description is too long'')
      else if ac_pending_action_version c < 1
      then Inl (ValueError ''pending_action_version must be a positive integer'')
      else Inr c)"

type_synonym action_registry = "(string, action_capability) dict"

fun registry_add :: "action_capability list \<Rightarrow> action_registry \<Rightarrow> action_registry res" where
  "registry_add [] vs = Inr vs"
| "registry_add (c # cs) vs =
     (if map_of vs (ac_key c) \<noteq> None then Inl (ValueError ''action capability keys must be unique'')
      else registry_add cs (dict_set (ac_key c) c vs))"

text \<open>\<open>ActionRegistry(capabilities)\<close>.\<close>

definition mk_action_registry :: "action_capability list \<Rightarrow> action_registry res" where
  "mk_action_registry cs =
     bind_res (map_res mk_action_capability cs) (\<lambda>cs. registry_add cs [])"

definition registry_require :: "action_registry \<Rightarrow> string \<Rightarrow> action_capability res" where
  "registry_require r k =
     (case map_of r k of
        None \<Rightarrow> Inl (ActionCapabilityUnavailable ''action capability unavailable'')
      | Some c \<Rightarrow> Inr c)"

definition capability :: "string \<Rightarrow> string \<Rightarrow> args_model \<Rightarrow> bool \<Rightarrow> bool \<Rightarrow> action_capability" where
  "capability k s m needs_fields commits =
     \<lparr>ac_key = k, ac_description = s, ac_arguments_model = m, ac_requires_complete_fields = needs_fields,
      ac_commits_side_effect = commits, ac_pending_action_version = 1\<rparr>"

definition builtin_capabilities :: "action_capability list" where
  "builtin_capabilities =
     [capability ''find_customer'' ''Find a tenant-scoped customer by email or external ID.''
        FindCustomerArgs False False,
      capability ''create_case'' ''Create a tenant-scoped intake case from validated fields.''
        CreateCaseArgs True True,
      capability ''update_case_fields'' ''Update validated fields on an existing tenant-scoped case.''
        UpdateCaseFieldsArgs True True,
      capability ''create_reply_draft'' ''Create a reply draft for operator review.''
        CreateReplyDraftArgs False True,
      capability ''flag_for_review'' ''Record a tenant-scoped review flag for operator follow-up.''
        FlagForReviewArgs False True]"

definition BUILTIN_ACTION_REGISTRY :: action_registry where
  "BUILTIN_ACTION_REGISTRY = map (\<lambda>c. (ac_key c, c)) builtin_capabilities"

section \<open>Lemmas\<close>

lemma mk_builtin_registry: "mk_action_registry builtin_capabilities = Inr BUILTIN_ACTION_REGISTRY"
  by code_simp

lemma registry_add_wf:
  assumes "registry_add cs vs = Inr r" "distinct (dict_keys vs)"
    "\<And>k c. map_of vs k = Some c \<Longrightarrow> ac_key c = k"
  shows "distinct (dict_keys r) \<and> (\<forall>k c. map_of r k = Some c \<longrightarrow> ac_key c = k)"
  using assms
proof (induction cs vs rule: registry_add.induct)
  case (2 c cs vs)
  from "2.prems"(1) have n: "map_of vs (ac_key c) = None"
    and r: "registry_add cs (dict_set (ac_key c) c vs) = Inr r"
    by (auto split: if_splits)
  show ?case
    by (rule "2.IH") (use n r "2.prems"(2,3) in \<open>auto simp: dict_keys_dict_set_distinct split: if_splits\<close>)
qed auto

lemma mk_action_registry_key:
  assumes "mk_action_registry cs = Inr r" "registry_require r k = Inr c"
  shows "ac_key c = k"
proof -
  from assms(1) obtain ds where "registry_add ds [] = Inr r"
    by (auto simp: mk_action_registry_def bind_res_Inr_iff)
  from registry_add_wf [OF this] show ?thesis
    using assms(2) by (auto simp: registry_require_def dict_keys_def split: option.splits)
qed

lemma args_model_validate_model: "args_model_validate m d = Inr a \<Longrightarrow> args_model_of a = m"
  by (cases m) (auto simp: bind_res_Inr_iff validation_error_def split: if_splits)

fun args_wf :: "tool_args \<Rightarrow> bool" where
  "args_wf (FindCustomer e x) = (\<not> ((e = None \<or> e = Some []) \<and> (x = None \<or> x = Some [])))"
| "args_wf (CreateCase u) = (\<forall>x. u = Some x \<longrightarrow> x < 2 ^ 128)"
| "args_wf (UpdateCaseFields u) = (u < 2 ^ 128)"
| "args_wf (CreateReplyDraft u) = (\<forall>x. u = Some x \<longrightarrow> x < 2 ^ 128)"
| "args_wf (FlagForReview n) = (\<forall>s. n = Some s \<longrightarrow> length s \<le> 500)"

lemma uuid_parse_bound: "uuid_parse s = Some u \<Longrightarrow> u < 2 ^ 128"
  by (auto simp: uuid_parse_def Let_def split: if_splits option.splits)

lemma parse_uuid_bound: "parse_uuid v = Inr u \<Longrightarrow> u < 2 ^ 128"
  by (cases v) (auto simp: validation_error_def dest: uuid_parse_bound split: option.splits)

lemma optional_uuid_bound: "optional_uuid k d = Inr (Some u) \<Longrightarrow> u < 2 ^ 128"
  by (auto simp: optional_uuid_def dest: parse_uuid_bound split: option.splits if_splits sum.splits)

lemma args_model_validate_wf: "args_model_validate m d = Inr a \<Longrightarrow> args_wf a"
  by (cases m)
     (auto simp: bind_res_Inr_iff validation_error_def dest: optional_uuid_bound [simplified] parse_uuid_bound [simplified]
       split: if_splits option.splits)

lemma args_model_validate_errors:
  "args_model_validate m d = Inl e \<Longrightarrow> (\<exists>s. e = ValueError s) \<or> (\<exists>s. e = TypeError s)"
proof -
  have u: "parse_uuid v = Inl e \<Longrightarrow> (\<exists>s. e = ValueError s) \<or> (\<exists>s. e = TypeError s)" for v
    by (cases v) (auto simp: validation_error_def split: option.splits)
  have o: "optional_uuid k d = Inl e \<Longrightarrow> (\<exists>s. e = ValueError s) \<or> (\<exists>s. e = TypeError s)" for k
    using u by (auto simp: optional_uuid_def split: option.splits if_splits sum.splits)
  have s: "optional_str k d = Inl e \<Longrightarrow> \<exists>s. e = ValueError s" for k
    by (auto simp: optional_str_def validation_error_def split: option.splits pyval.splits)
  have n: "no_extra ks d = Inl e \<Longrightarrow> \<exists>s. e = ValueError s" for ks
    by (auto simp: no_extra_def validation_error_def split: if_splits)
  assume "args_model_validate m d = Inl e"
  then show ?thesis
    by (cases m)
       (auto simp: bind_res_Inl_iff validation_error_def split: if_splits option.splits dest!: s n dest: o u)
qed

text \<open>
  The arguments frozen into an approval are read back unchanged: validating the JSON dump of
  arguments that were validated once gives the same arguments.
\<close>

theorem args_round_trip:
  assumes "args_model_validate m d = Inr a"
  shows "args_model_validate m (args_model_dump a) = Inr a"
proof -
  have "args_wf a" "args_model_of a = m"
    using assms args_model_validate_wf args_model_validate_model by blast+
  then show ?thesis
    by (cases a)
       (auto simp: optional_str_def optional_uuid_def no_extra_def opt_str_def opt_uuid_def uuid_parse_str
         split: option.splits)
qed

theorem args_round_trip_witness:
  "args_model_validate CreateCaseArgs [(''customer_id'', PStr (uuid_str 7))] = Inr (CreateCase (Some 7)) \<and>
   args_model_validate CreateCaseArgs (args_model_dump (CreateCase (Some 7))) = Inr (CreateCase (Some 7))"
proof -
  have "args_model_validate CreateCaseArgs [(''customer_id'', PStr (uuid_str 7))] = Inr (CreateCase (Some 7))"
    by (simp add: optional_uuid_def uuid_parse_str no_extra_def)
  with args_round_trip [OF this] show ?thesis by blast
qed

end
