(* ===== verification/Documents.thy ===== *)
theory Documents
  imports Tenant_Config "HOL-Library.Word"
begin

text \<open>
  Bounded document intake: the contracts of \<open>app/documents/models.py\<close>, the normalizer of
  \<open>app/documents/normalizer.py\<close>, the registry of \<open>app/documents/registry.py\<close> and the snapshot
  decoders of \<open>app/documents/legacy.py\<close>. The PDF parser and SHA-256 are third-party code and
  parameters of the normalizer; a parser that raises is an \<open>Inl\<close>.
\<close>

section \<open>Contracts\<close>

type_synonym bytes = "8 word list"

definition MAX_DOCUMENT_BYTES :: nat where "MAX_DOCUMENT_BYTES = 5 * 1024 * 1024"
definition MAX_DOCUMENT_PAGES :: nat where "MAX_DOCUMENT_PAGES = 20"
definition MAX_DOCUMENT_TEXT_CHARS :: nat where "MAX_DOCUMENT_TEXT_CHARS = 100000"

datatype document_media_type = MEDIA_TEXT | MEDIA_PDF

datatype document_extraction_error =
    UNSUPPORTED_MEDIA_TYPE | DOCUMENT_TOO_LARGE | DOCUMENT_TEXT_TOO_LARGE | PDF_MALFORMED
  | PDF_ENCRYPTED | PDF_EMPTY | DOCUMENT_TEXT_EMPTY | DOCUMENT_PROCESSING_TIMEOUT

fun media_type_value :: "document_media_type \<Rightarrow> string" where
  "media_type_value MEDIA_TEXT = ''text/plain''"
| "media_type_value MEDIA_PDF = ''application/pdf''"

fun extraction_error_value :: "document_extraction_error \<Rightarrow> string" where
  "extraction_error_value UNSUPPORTED_MEDIA_TYPE = ''unsupported_media_type''"
| "extraction_error_value DOCUMENT_TOO_LARGE = ''document_too_large''"
| "extraction_error_value DOCUMENT_TEXT_TOO_LARGE = ''document_text_too_large''"
| "extraction_error_value PDF_MALFORMED = ''pdf_malformed''"
| "extraction_error_value PDF_ENCRYPTED = ''pdf_encrypted''"
| "extraction_error_value PDF_EMPTY = ''pdf_empty''"
| "extraction_error_value DOCUMENT_TEXT_EMPTY = ''document_text_empty''"
| "extraction_error_value DOCUMENT_PROCESSING_TIMEOUT = ''document_processing_timeout''"

definition all_media_types :: "document_media_type list" where
  "all_media_types = [MEDIA_TEXT, MEDIA_PDF]"

definition all_extraction_errors :: "document_extraction_error list" where
  "all_extraction_errors =
     [UNSUPPORTED_MEDIA_TYPE, DOCUMENT_TOO_LARGE, DOCUMENT_TEXT_TOO_LARGE, PDF_MALFORMED,
      PDF_ENCRYPTED, PDF_EMPTY, DOCUMENT_TEXT_EMPTY, DOCUMENT_PROCESSING_TIMEOUT]"

record document_input =
  di_channel :: string
  di_subject :: string
  di_body :: string
  di_media_type :: document_media_type
  di_text :: "string option"
  di_content :: "bytes option"

text \<open>\<open>DocumentInput\<close>: the field bounds, \<open>require_non_blank_metadata\<close> and \<open>validate_payload\<close>.\<close>

definition valid_document_input :: "document_input \<Rightarrow> bool" where
  "valid_document_input v \<longleftrightarrow>
     length (di_channel v) \<le> 100 \<and> non_blank (di_channel v) \<and>
     length (di_subject v) \<le> 500 \<and> non_blank (di_subject v) \<and>
     (di_text v \<noteq> None) \<noteq> (di_content v \<noteq> None) \<and>
     (di_media_type v = MEDIA_TEXT \<longrightarrow> di_text v \<noteq> None) \<and>
     (di_media_type v = MEDIA_PDF \<longrightarrow> di_content v \<noteq> None) \<and>
     di_content v \<noteq> Some [] \<and>
     (case di_text v of None \<Rightarrow> True | Some s \<Rightarrow> non_blank s)"

record normalized_document =
  nd_document_kind :: string
  nd_target_intake_type :: string
  nd_media_type :: document_media_type
  nd_sha256 :: string
  nd_normalizer_key :: string
  nd_normalizer_version :: int
  nd_text :: "string option"
  nd_extraction_error :: "document_extraction_error option"

text \<open>\<open>NormalizedDocument\<close>: the field patterns, \<open>validate_normalized_text\<close> and \<open>require_text_or_error\<close>.\<close>

definition valid_normalized_document :: "normalized_document \<Rightarrow> bool" where
  "valid_normalized_document d \<longleftrightarrow>
     safe_identifier (nd_document_kind d) \<and> safe_identifier (nd_target_intake_type d) \<and>
     is_sha256_hex (nd_sha256 d) \<and> safe_identifier (nd_normalizer_key d) \<and>
     1 \<le> nd_normalizer_version d \<and>
     (case nd_text d of None \<Rightarrow> True | Some s \<Rightarrow> non_blank s \<and> length s \<le> MAX_DOCUMENT_TEXT_CHARS) \<and>
     (nd_text d = None) \<noteq> (nd_extraction_error d = None)"

definition mk_normalized_document :: "normalized_document \<Rightarrow> normalized_document res" where
  "mk_normalized_document d =
     (if valid_normalized_document d then Inr d else Inl (ValueError ''ValidationError''))"

section \<open>The normalizer\<close>

text \<open>\<open>str.encode("utf-8")\<close> on code points below 256.\<close>

definition utf8_char :: "char \<Rightarrow> bytes" where
  "utf8_char c =
     (let n = (of_char c :: nat)
      in if n < 128 then [of_nat n] else [of_nat (192 + n div 64), of_nat (128 + n mod 64)])"

definition utf8_encode :: "string \<Rightarrow> bytes" where
  "utf8_encode s = concat (map utf8_char s)"

definition CR :: char where "CR = char_of (13::nat)"
definition LF :: char where "LF = char_of (10::nat)"

definition normalize_text :: "string \<Rightarrow> string" where
  "normalize_text s = py_replace [CR] [LF] (py_replace [CR, LF] [LF] s)"

text \<open>What the sources read from \<open>PdfReader\<close>: encryption, then the pages and their text.\<close>

record pdf_reader =
  pr_is_encrypted :: bool
  pr_pages :: "string option res list res"

datatype pages_result = PagesText "string list" | PagesTooLarge | PagesRaised

fun read_pages :: "string list \<Rightarrow> nat \<Rightarrow> string option res list \<Rightarrow> pages_result" where
  "read_pages parts n [] = PagesText parts"
| "read_pages parts n (Inl e # ps) = PagesRaised"
| "read_pages parts n (Inr t # ps) =
     (let part = (case t of None \<Rightarrow> [] | Some s \<Rightarrow> s);
          n = n + length part + (if parts = [] then 0 else 1)
      in if n > MAX_DOCUMENT_TEXT_CHARS then PagesTooLarge
         else read_pages (parts @ [part]) n ps)"

definition join_lines :: "string list \<Rightarrow> string" where
  "join_lines xs = (case xs of [] \<Rightarrow> [] | y # ys \<Rightarrow> y @ concat (map (\<lambda>s. LF # s) ys))"

record document_binding =
  bd_document_kind :: string
  bd_target_intake_type :: string
  bd_normalizer_key :: string
  bd_normalizer_version :: int

definition bound_document ::
  "document_binding \<Rightarrow> document_media_type \<Rightarrow> string \<Rightarrow> string option \<Rightarrow>
   document_extraction_error option \<Rightarrow> normalized_document res" where
  "bound_document b m digest txt err =
     mk_normalized_document
       \<lparr>nd_document_kind = bd_document_kind b, nd_target_intake_type = bd_target_intake_type b,
        nd_media_type = m, nd_sha256 = digest, nd_normalizer_key = bd_normalizer_key b,
        nd_normalizer_version = bd_normalizer_version b, nd_text = txt, nd_extraction_error = err\<rparr>"

definition document_success ::
  "document_binding \<Rightarrow> document_media_type \<Rightarrow> string \<Rightarrow> string \<Rightarrow> normalized_document res" where
  "document_success b m digest txt = bound_document b m digest (Some txt) None"

definition document_error ::
  "document_binding \<Rightarrow> document_media_type \<Rightarrow> string \<Rightarrow> document_extraction_error \<Rightarrow>
   normalized_document res" where
  "document_error b m digest err = bound_document b m digest None (Some err)"

definition finish_text ::
  "document_binding \<Rightarrow> document_media_type \<Rightarrow> string \<Rightarrow> document_extraction_error \<Rightarrow> string \<Rightarrow>
   normalized_document res" where
  "finish_text b m digest none txt =
     (let normalized = normalize_text txt
      in if \<not> non_blank normalized then document_error b m digest none
         else if length normalized > MAX_DOCUMENT_TEXT_CHARS
         then document_error b m digest DOCUMENT_TEXT_TOO_LARGE
         else document_success b m digest normalized)"

text \<open>\<open>DocumentNormalizer._normalize\<close>.\<close>

definition normalize_document ::
  "(bytes \<Rightarrow> string) \<Rightarrow> (bytes \<Rightarrow> pdf_reader res) \<Rightarrow> document_binding \<Rightarrow> document_input \<Rightarrow>
   normalized_document res" where
  "normalize_document hexdigest open_pdf b v =
     (let m = di_media_type v;
          raw = (if m = MEDIA_TEXT then map_option utf8_encode (di_text v) else di_content v)
      in case raw of
           None \<Rightarrow> Inl (ValueError ''document payload is unavailable'')
         | Some raw \<Rightarrow>
             (let digest = hexdigest raw
              in if length raw > MAX_DOCUMENT_BYTES then document_error b m digest DOCUMENT_TOO_LARGE
                 else if m = MEDIA_TEXT
                 then finish_text b m digest DOCUMENT_TEXT_EMPTY
                        (case di_text v of None \<Rightarrow> [] | Some s \<Rightarrow> s)
                 else case open_pdf raw of
                        Inl _ \<Rightarrow> document_error b m digest PDF_MALFORMED
                      | Inr reader \<Rightarrow>
                          if pr_is_encrypted reader then document_error b m digest PDF_ENCRYPTED
                          else case pr_pages reader of
                                 Inl _ \<Rightarrow> document_error b m digest PDF_MALFORMED
                               | Inr pages \<Rightarrow>
                                   if length pages > MAX_DOCUMENT_PAGES
                                   then document_error b m digest DOCUMENT_TOO_LARGE
                                   else case read_pages [] 0 pages of
                                          PagesRaised \<Rightarrow> document_error b m digest PDF_MALFORMED
                                        | PagesTooLarge \<Rightarrow>
                                            document_error b m digest DOCUMENT_TEXT_TOO_LARGE
                                        | PagesText parts \<Rightarrow>
                                            finish_text b m digest PDF_EMPTY (join_lines parts)))"

section \<open>The registry\<close>

record document_normalizer_capability =
  dc_key :: string
  dc_version :: int
  dc_supported_media_types :: "document_media_type list"
  dc_has_factory :: bool

type_synonym document_registry = "(string \<times> int, document_normalizer_capability) dict"

definition mk_document_capability ::
  "document_normalizer_capability \<Rightarrow> document_normalizer_capability res" where
  "mk_document_capability c =
     (if \<not> safe_identifier (dc_key c)
      then Inl (ValueError ''document normalizer key must be a safe identifier'')
      else if dc_version c < 1
      then Inl (ValueError ''document normalizer version must be a positive integer'')
      else Inr c)"

fun document_registry_add ::
  "document_normalizer_capability list \<Rightarrow> string list \<Rightarrow> document_registry \<Rightarrow> document_registry res" where
  "document_registry_add [] seen vs = Inr vs"
| "document_registry_add (c # cs) seen vs =
     (if dc_key c \<in> set seen then Inl (ValueError ''document normalizer keys must be unique'')
      else if map_of vs (dc_key c, dc_version c) \<noteq> None
      then Inl (ValueError ''document normalizer capabilities must be unique'')
      else document_registry_add cs (dc_key c # seen) (dict_set (dc_key c, dc_version c) c vs))"

definition document_require :: "document_registry \<Rightarrow> string \<Rightarrow> int \<Rightarrow> document_normalizer_capability res" where
  "document_require r k v =
     (case map_of r (k, v) of
        None \<Rightarrow> Inl (DocumentCapabilityUnavailable ''document capability unavailable'')
      | Some c \<Rightarrow> Inr c)"

definition bounded_text_pdf :: document_normalizer_capability where
  "bounded_text_pdf =
     \<lparr>dc_key = ''bounded_text_pdf'', dc_version = 1,
      dc_supported_media_types = [MEDIA_TEXT, MEDIA_PDF], dc_has_factory = True\<rparr>"

definition BUILTIN_DOCUMENT_REGISTRY :: document_registry where
  "BUILTIN_DOCUMENT_REGISTRY = [((''bounded_text_pdf'', 1), bounded_text_pdf)]"

section \<open>Snapshots\<close>

text \<open>\<open>NormalizedDocument.model_dump(mode="json")\<close>.\<close>

definition document_fields :: "normalized_document \<Rightarrow> py_dict" where
  "document_fields d =
           [(''snapshot_version'', PInt 2), (''document_kind'', PStr (nd_document_kind d)),
            (''target_intake_type'', PStr (nd_target_intake_type d)),
            (''media_type'', PStr (media_type_value (nd_media_type d))),
            (''sha256'', PStr (nd_sha256 d)), (''normalizer_key'', PStr (nd_normalizer_key d)),
            (''normalizer_version'', PInt (nd_normalizer_version d)),
            (''text'', case nd_text d of None \<Rightarrow> PNone | Some s \<Rightarrow> PStr s),
            (''extraction_error'',
             case nd_extraction_error d of None \<Rightarrow> PNone | Some e \<Rightarrow> PStr (extraction_error_value e))]"

definition document_dump :: "normalized_document \<Rightarrow> pyval" where
  "document_dump d = PDict (document_fields d)"

definition parse_document :: "py_dict \<Rightarrow> normalized_document option" where
  "parse_document d =
     (if \<not> only_keys [''snapshot_version'', ''document_kind'', ''target_intake_type'', ''media_type'',
            ''sha256'', ''normalizer_key'', ''normalizer_version'', ''text'', ''extraction_error''] d
      then None
      else opt_bind (key_default ''snapshot_version'' 2 (\<lambda>v. if v = PInt 2 then Some 2 else None) d) (\<lambda>_ :: int.
           opt_bind (key ''document_kind'' as_str d) (\<lambda>k.
           opt_bind (key ''target_intake_type'' as_str d) (\<lambda>t.
           opt_bind (key ''media_type'' (as_enum media_type_value all_media_types) d) (\<lambda>m.
           opt_bind (key ''sha256'' as_str d) (\<lambda>h.
           opt_bind (key ''normalizer_key'' as_str d) (\<lambda>nk.
           opt_bind (key ''normalizer_version'' as_int d) (\<lambda>nv.
           opt_bind (key_default ''text'' None (as_optional as_str) d) (\<lambda>txt.
           opt_bind (key_default ''extraction_error'' None
              (as_optional (as_enum extraction_error_value all_extraction_errors)) d) (\<lambda>err.
           Some \<lparr>nd_document_kind = k, nd_target_intake_type = t, nd_media_type = m, nd_sha256 = h,
                 nd_normalizer_key = nk, nd_normalizer_version = nv, nd_text = txt,
                 nd_extraction_error = err\<rparr>))))))))))"

definition document_model_validate :: "py_dict \<Rightarrow> normalized_document res" where
  "document_model_validate d =
     (case parse_document d of
        None \<Rightarrow> Inl (ValueError ''ValidationError'')
      | Some doc \<Rightarrow> mk_normalized_document doc)"

text \<open>The version-1 freight snapshot and its upgrade.\<close>

definition parse_legacy_document :: "py_dict \<Rightarrow> normalized_document option" where
  "parse_legacy_document d =
     (if \<not> only_keys [''kind'', ''media_type'', ''sha256'', ''parser_version'', ''text'',
            ''extraction_error''] d \<or>
         map_of d ''kind'' \<notin> {None, Some (PStr ''rate_confirmation'')} \<or>
         map_of d ''parser_version'' \<notin> {None, Some (PStr ''rate_confirmation_document.v1'')}
      then None
      else opt_bind (key ''media_type'' (as_enum media_type_value all_media_types) d) (\<lambda>m.
           opt_bind (key ''sha256'' as_str d) (\<lambda>h.
           opt_bind (key_default ''text'' None (as_optional as_str) d) (\<lambda>txt.
           opt_bind (key_default ''extraction_error'' None
              (as_optional (as_enum extraction_error_value all_extraction_errors)) d) (\<lambda>err.
           Some \<lparr>nd_document_kind = ''rate_confirmation'',
                 nd_target_intake_type = ''rate_confirmation'', nd_media_type = m,
                 nd_sha256 = h, nd_normalizer_key = ''bounded_text_pdf'',
                 nd_normalizer_version = 1, nd_text = txt, nd_extraction_error = err\<rparr>)))))"

definition decode_legacy_normalized_document :: "pyval \<Rightarrow> normalized_document res" where
  "decode_legacy_normalized_document v =
     (case as_dict v of
        None \<Rightarrow> Inl (ValueError ''ValidationError'')
      | Some d \<Rightarrow>
          (case parse_legacy_document d of
             None \<Rightarrow> Inl (ValueError ''ValidationError'')
           | Some doc \<Rightarrow> mk_normalized_document doc))"

definition decode_document_snapshot :: "pyval \<Rightarrow> normalized_document res" where
  "decode_document_snapshot v =
     (case as_dict v of
        None \<Rightarrow> decode_legacy_normalized_document v
      | Some d \<Rightarrow>
          (case map_of d ''snapshot_version'' of
             None \<Rightarrow> decode_legacy_normalized_document v
           | Some w \<Rightarrow>
               if py_eq w (PInt 2) then document_model_validate d
               else decode_legacy_normalized_document v))"

section \<open>Lemmas\<close>

lemma py_replace_removes: "c \<notin> set new \<Longrightarrow> c \<notin> set (py_replace [c] new s)"
  by (induction s) auto

lemma normalize_text_no_CR: "CR \<notin> set (normalize_text s)"
  unfolding normalize_text_def by (rule py_replace_removes) (simp add: CR_def LF_def)

lemma as_enum_media [simp]: "as_enum media_type_value all_media_types (PStr (media_type_value m)) = Some m"
  by (cases m) (simp_all add: as_enum_def all_media_types_def)

lemma as_enum_extraction_error [simp]:
  "as_enum extraction_error_value all_extraction_errors (PStr (extraction_error_value e)) = Some e"
  by (cases e) (simp_all add: as_enum_def all_extraction_errors_def)

lemma parse_document_dump: "parse_document (document_fields d) = Some d"
  by (cases d; cases "nd_text d"; cases "nd_extraction_error d")
     (simp_all add: document_fields_def parse_document_def only_keys_def key_def key_default_def
       as_optional_def)

lemma document_round_trip:
  assumes "valid_normalized_document d"
  shows "decode_document_snapshot (document_dump d) = Inr d"
proof -
  have "map_of (document_fields d) ''snapshot_version'' = Some (PInt 2)"
    by (simp add: document_fields_def)
  then show ?thesis
    using assms
    by (simp add: decode_document_snapshot_def document_dump_def document_model_validate_def
        parse_document_dump mk_normalized_document_def)
qed

lemma mk_normalized_document_valid: "mk_normalized_document d = Inr d' \<Longrightarrow> valid_normalized_document d'"
  by (auto simp: mk_normalized_document_def split: if_splits)

lemma decode_legacy_valid: "decode_legacy_normalized_document v = Inr d \<Longrightarrow> valid_normalized_document d"
  by (auto simp: decode_legacy_normalized_document_def split: option.splits
      dest: mk_normalized_document_valid)

lemma decode_document_snapshot_valid:
  "decode_document_snapshot v = Inr d \<Longrightarrow> valid_normalized_document d"
  by (auto simp: decode_document_snapshot_def document_model_validate_def
      split: option.splits if_splits dest: mk_normalized_document_valid decode_legacy_valid)

definition valid_binding :: "document_binding \<Rightarrow> bool" where
  "valid_binding b \<longleftrightarrow>
     safe_identifier (bd_document_kind b) \<and> safe_identifier (bd_target_intake_type b) \<and>
     safe_identifier (bd_normalizer_key b) \<and> 1 \<le> bd_normalizer_version b"

lemma document_error_Inr:
  assumes "valid_binding b" "is_sha256_hex h"
  shows "\<exists>d. document_error b m h e = Inr d \<and> valid_normalized_document d \<and> nd_sha256 d = h \<and>
     nd_extraction_error d = Some e \<and> nd_text d = None"
  using assms
  by (simp add: document_error_def bound_document_def mk_normalized_document_def valid_binding_def
      valid_normalized_document_def)

lemma finish_text_Inr:
  assumes "valid_binding b" "is_sha256_hex h"
  shows "\<exists>d. finish_text b m h e s = Inr d \<and> valid_normalized_document d \<and> nd_sha256 d = h \<and>
     (\<forall>t. nd_text d = Some t \<longrightarrow> t = normalize_text s)"
  using assms document_error_Inr [OF assms, of m e] document_error_Inr [OF assms, of m DOCUMENT_TEXT_TOO_LARGE]
  by (auto simp: finish_text_def Let_def document_success_def bound_document_def
      mk_normalized_document_def valid_binding_def valid_normalized_document_def)

lemma normalize_document_Inr:
  assumes "valid_binding b" "is_sha256_hex (hexdigest raw)"
    and raw: "(if di_media_type v = MEDIA_TEXT then map_option utf8_encode (di_text v) else di_content v) = Some raw"
  shows "\<exists>d. normalize_document hexdigest open_pdf b v = Inr d \<and> valid_normalized_document d \<and>
      nd_sha256 d = hexdigest raw \<and>
      (\<forall>t. nd_text d = Some t \<longrightarrow> (\<exists>s. t = normalize_text s) \<and> length raw \<le> MAX_DOCUMENT_BYTES)"
proof -
  note err = document_error_Inr [OF assms(1,2)] and fin = finish_text_Inr [OF assms(1,2)]
  show ?thesis
  proof (cases "length raw > MAX_DOCUMENT_BYTES")
    case True
    then show ?thesis
      using raw err [of "di_media_type v" DOCUMENT_TOO_LARGE]
      by (auto simp: normalize_document_def Let_def)
  next
    case False
    have "\<exists>e s. normalize_document hexdigest open_pdf b v = document_error b (di_media_type v) (hexdigest raw) e \<or>
        normalize_document hexdigest open_pdf b v = finish_text b (di_media_type v) (hexdigest raw) e s"
      using raw False
      by (auto simp: normalize_document_def Let_def split: sum.split pages_result.split)
    then show ?thesis
      using err fin False by (metis not_le_imp_less option.distinct(1))
  qed
qed

text \<open>
  C40. On every valid input the normalizer returns a document, whatever the PDF parser does: it
  never raises, the document satisfies its own contract (exactly one of a text and an error, the
  text non-blank and within the limit), it carries the digest of the payload, and an accepted
  text has no carriage return left.
\<close>

theorem normalize_document_total:
  assumes "valid_document_input v" and "valid_binding b" and "\<And>raw. is_sha256_hex (hexdigest raw)"
  shows "\<exists>d raw. normalize_document hexdigest open_pdf b v = Inr d \<and> valid_normalized_document d \<and>
     (di_media_type v = MEDIA_TEXT \<and> Some raw = map_option utf8_encode (di_text v) \<or>
      di_media_type v = MEDIA_PDF \<and> Some raw = di_content v) \<and>
     nd_sha256 d = hexdigest raw \<and>
     (\<forall>t. nd_text d = Some t \<longrightarrow> CR \<notin> set t \<and> length raw \<le> MAX_DOCUMENT_BYTES)"
proof -
  obtain raw where raw: "(if di_media_type v = MEDIA_TEXT then map_option utf8_encode (di_text v)
      else di_content v) = Some raw"
    using assms(1) by (cases "di_media_type v") (auto simp: valid_document_input_def)
  obtain d where d: "normalize_document hexdigest open_pdf b v = Inr d" "valid_normalized_document d" "nd_sha256 d = hexdigest raw"
    "\<And>t. nd_text d = Some t \<Longrightarrow> (\<exists>s. t = normalize_text s) \<and> length raw \<le> MAX_DOCUMENT_BYTES"
    using normalize_document_Inr [where hexdigest = hexdigest and open_pdf = open_pdf, OF assms(2) assms(3) raw] by blast
  have "CR \<notin> set t \<and> length raw \<le> MAX_DOCUMENT_BYTES" if "nd_text d = Some t" for t
    using d(4) [OF that] normalize_text_no_CR by blast
  with d(1,2,3) raw show ?thesis
    by (cases "di_media_type v") (metis document_media_type.distinct(1))+
qed

definition demo_input :: document_input where
  "demo_input =
     \<lparr>di_channel = ''email'', di_subject = ''Rate'', di_body = [], di_media_type = MEDIA_TEXT,
      di_text = Some [CHR ''o'', CR, LF, CHR ''k''], di_content = None\<rparr>"

definition demo_binding :: document_binding where
  "demo_binding =
     \<lparr>bd_document_kind = ''rate'', bd_target_intake_type = ''rate'',
      bd_normalizer_key = ''bounded_text_pdf'', bd_normalizer_version = 1\<rparr>"

definition demo_sha256 :: "bytes \<Rightarrow> string" where
  "demo_sha256 raw = replicate 64 (CHR ''0'')"

theorem normalize_document_total_witness:
  "valid_document_input demo_input \<and> valid_binding demo_binding \<and>
   (\<exists>d. normalize_document demo_sha256 (\<lambda>_. Inl OtherException) demo_binding demo_input = Inr d \<and>
      valid_normalized_document d)"
proof -
  have i: "valid_document_input demo_input"
    by code_simp
  have b: "valid_binding demo_binding"
    by code_simp
  have "is_sha256_hex (demo_sha256 raw)" for raw
    by (simp add: demo_sha256_def is_sha256_hex_def list_all_iff is_digit_def)
  from normalize_document_total [where hexdigest = demo_sha256 and open_pdf = "\<lambda>_. Inl OtherException", OF i b this] i b
  show ?thesis by blast
qed

text \<open>
  A document snapshot stored with a job decodes to the document it was written from, and
  whatever a snapshot decodes to, current or legacy, satisfies the document contract.
\<close>

theorem document_snapshot_round_trip:
  "(valid_normalized_document d \<longrightarrow> decode_document_snapshot (document_dump d) = Inr d) \<and>
   (decode_document_snapshot v = Inr d' \<longrightarrow> valid_normalized_document d')"
  using document_round_trip decode_document_snapshot_valid by blast

definition demo_document :: normalized_document where
  "demo_document =
     \<lparr>nd_document_kind = ''rate'', nd_target_intake_type = ''rate'', nd_media_type = MEDIA_TEXT,
      nd_sha256 = demo_sha256 [], nd_normalizer_key = ''bounded_text_pdf'', nd_normalizer_version = 1,
      nd_text = Some ''ok'', nd_extraction_error = None\<rparr>"

theorem document_snapshot_round_trip_witness:
  "decode_document_snapshot (document_dump demo_document) = Inr demo_document"
proof -
  have "valid_normalized_document demo_document"
    by (simp add: valid_normalized_document_def demo_document_def demo_sha256_def is_sha256_hex_def
        list_all_iff is_digit_def safe_identifier_def bounded_identifier_def is_lower_def
        non_blank_iff py_isspace_def MAX_DOCUMENT_TEXT_CHARS_def)
  with document_snapshot_round_trip [of demo_document] show ?thesis by blast
qed

end
