(* ===== verification/Tenant_Profiles.thy ===== *)
theory Tenant_Profiles
  imports Tool_Models Documents
begin

text \<open>
  Capability-resolved profiles: \<open>compile_tenant_profile\<close> of \<open>app/tenants/compiled.py\<close>, the canonical
  JSON and the resolution of current and persisted profiles of \<open>app/runtime/profiles.py\<close>, and the
  upgrade of version-1 snapshots of \<open>app/runtime/legacy_profiles.py\<close>. The frozen views the code
  builds of a configuration hold the same data as the configuration. SHA-256 is a parameter, and
  so are the decimal form of a float and the loading of a YAML file.
\<close>

section \<open>Compiled profiles\<close>

record compiled_document_binding =
  cb_binding :: document_binding
  cb_capability :: document_normalizer_capability

record compiled_tenant_profile =
  cp_config :: tenant_config
  cp_scenario_key :: string
  cp_profile_fingerprint :: string
  cp_declared_actions :: "string list"
  cp_registered_actions :: "string list"
  cp_available_actions :: "string list"
  cp_documents :: "(string, compiled_document_binding) dict"
  cp_default_inbound_document :: "compiled_document_binding option"

fun collect_available :: "action_registry \<Rightarrow> (string, action_rule) dict \<Rightarrow> string list \<Rightarrow> string list res" where
  "collect_available r [] acc = Inr acc"
| "collect_available r ((k, rule) # rest) acc =
     (if ar_execution rule = EXECUTABLE
      then (case registry_require r k of
              Inl e \<Rightarrow> Inl e
            | Inr c \<Rightarrow> collect_available r rest (if ar_allowed rule then acc @ [ac_key c] else acc))
      else collect_available r rest acc)"

definition compile_binding ::
  "document_registry \<Rightarrow> string \<times> document_binding_config \<Rightarrow> (string \<times> compiled_document_binding) res" where
  "compile_binding r kb =
     (case document_require r (db_normalizer (snd kb)) (db_normalizer_version (snd kb)) of
        Inl e \<Rightarrow> Inl e
      | Inr c \<Rightarrow>
          Inr (fst kb,
               \<lparr>cb_binding = \<lparr>bd_document_kind = fst kb, bd_target_intake_type = db_intake_type (snd kb),
                              bd_normalizer_key = db_normalizer (snd kb),
                              bd_normalizer_version = db_normalizer_version (snd kb)\<rparr>,
                cb_capability = c\<rparr>))"

definition compile_tenant_profile ::
  "action_registry \<Rightarrow> document_registry \<Rightarrow> tenant_config \<Rightarrow> string \<Rightarrow> compiled_tenant_profile res" where
  "compile_tenant_profile areg dreg c fp =
     (if \<not> is_sha256_hex fp then Inl (ValueError ''profile fingerprint is invalid'')
      else bind_res (collect_available areg (tn_action_policy c) []) (\<lambda>available.
           bind_res (map_res (compile_binding dreg) (tn_documents c)) (\<lambda>docs.
             Inr \<lparr>cp_config = c,
                  cp_scenario_key = tn_scenario_key c,
                  cp_profile_fingerprint = fp,
                  cp_declared_actions = dict_keys (tn_action_policy c),
                  cp_registered_actions =
                    map fst (filter (\<lambda>(a, rule). ar_execution rule = EXECUTABLE \<and> a \<in> set (dict_keys areg))
                      (tn_action_policy c)),
                  cp_available_actions = available,
                  cp_documents = docs,
                  cp_default_inbound_document =
                    map_option snd (next_item
                      (\<lambda>(k, _). case map_of (tn_documents c) k of
                         None \<Rightarrow> False | Some b \<Rightarrow> db_default_for_inbound b) docs)\<rparr>)))"

section \<open>Canonical JSON\<close>

primrec dec_digits :: "nat \<Rightarrow> nat \<Rightarrow> string \<Rightarrow> string" where
  "dec_digits 0 n acc = acc"
| "dec_digits (Suc fuel) n acc =
     (let acc = char_of (48 + n mod 10) # acc
      in if n < 10 then acc else dec_digits fuel (n div 10) acc)"

text \<open>Decimal digits; a number has fewer digits than its successor, which is the fuel.\<close>

definition dec_nat :: "nat \<Rightarrow> string" where
  "dec_nat n = dec_digits (Suc n) n []"

definition dec_int :: "int \<Rightarrow> string" where
  "dec_int i = (if i < 0 then ''-'' @ dec_nat (nat (- i)) else dec_nat (nat i))"

definition BACKSLASH :: char where "BACKSLASH = char_of (92::nat)"
definition QUOTE :: char where "QUOTE = char_of (34::nat)"

definition json_escape :: "char \<Rightarrow> string" where
  "json_escape c =
     (let n = (of_char c :: nat)
      in if c = QUOTE then [BACKSLASH, QUOTE]
         else if c = BACKSLASH then [BACKSLASH, BACKSLASH]
         else if n = 10 then BACKSLASH # ''n''
         else if n = 13 then BACKSLASH # ''r''
         else if n = 9 then BACKSLASH # ''t''
         else if n = 12 then BACKSLASH # ''f''
         else if n = 8 then BACKSLASH # ''b''
         else if n < 32 then BACKSLASH # ''u'' @ hex_pad 4 n
         else [c])"

definition json_string :: "string \<Rightarrow> string" where
  "json_string s = [QUOTE] @ concat (map json_escape s) @ [QUOTE]"

definition comma_sep :: "string list \<Rightarrow> string" where
  "comma_sep xs = (case xs of [] \<Rightarrow> [] | y # ys \<Rightarrow> y @ concat (map (\<lambda>s. '','' @ s) ys))"

text \<open>
  \<open>json.dumps(value, allow_nan=False, ensure_ascii=False, sort_keys=True, separators=(",", ":"))\<close>.
\<close>

fun canonical_json :: "(rat \<Rightarrow> string) \<Rightarrow> pyval \<Rightarrow> string res" where
  "canonical_json fl PNone = Inr ''null''"
| "canonical_json fl (PBool b) = Inr (if b then ''true'' else ''false'')"
| "canonical_json fl (PInt i) = Inr (dec_int i)"
| "canonical_json fl (PFloat x) =
     (case x of Finite q \<Rightarrow> Inr (fl q)
      | _ \<Rightarrow> Inl (ValueError ''Out of range float values are not JSON compliant''))"
| "canonical_json fl (PStr s) = Inr (json_string s)"
| "canonical_json fl (PList xs) =
     (case map_res (canonical_json fl) xs of Inl e \<Rightarrow> Inl e
      | Inr ys \<Rightarrow> Inr (''['' @ comma_sep ys @ '']''))"
| "canonical_json fl (PDict d) =
     (case map_res (\<lambda>kv. canonical_json fl (snd kv)) d of Inl e \<Rightarrow> Inl e
      | Inr ys \<Rightarrow>
          Inr (''{'' @ comma_sep (map (\<lambda>(k, j). json_string k @ '':'' @ j)
                 (sort_key fst (zip (map fst d) ys))) @ ''}''))"
| "canonical_json fl PBadMap = Inl (TypeError ''keys must be str'')"
| "canonical_json fl POther = Inl (TypeError ''Object is not JSON serializable'')"

definition canonical_json_bytes :: "(rat \<Rightarrow> string) \<Rightarrow> py_dict \<Rightarrow> bytes res" where
  "canonical_json_bytes fl d =
     (case canonical_json fl (PDict d) of Inl e \<Rightarrow> Inl e | Inr s \<Rightarrow> Inr (utf8_encode s))"

section \<open>Resolution\<close>

text \<open>The environment of the resolver: the hash, the printing of floats and the registries.\<close>

record profile_env =
  en_hexdigest :: "bytes \<Rightarrow> string"
  en_float_repr :: "rat \<Rightarrow> string"
  en_actions :: action_registry
  en_documents :: document_registry

record resolved_tenant_profile =
  rp_config :: tenant_config
  rp_snapshot :: py_dict
  rp_sha256 :: string
  rp_compiled :: compiled_tenant_profile

definition profile_fingerprint :: "profile_env \<Rightarrow> py_dict \<Rightarrow> string res" where
  "profile_fingerprint env d =
     (case canonical_json_bytes (en_float_repr env) d of
        Inl e \<Rightarrow> Inl e | Inr b \<Rightarrow> Inr (en_hexdigest env b))"

definition resolved_profile ::
  "profile_env \<Rightarrow> tenant_config \<Rightarrow> py_dict \<Rightarrow> string \<Rightarrow> resolved_tenant_profile res" where
  "resolved_profile env c snapshot sha =
     (case compile_tenant_profile (en_actions env) (en_documents env) c sha of
        Inl e \<Rightarrow> Inl e
      | Inr p \<Rightarrow> Inr \<lparr>rp_config = c, rp_snapshot = snapshot, rp_sha256 = sha, rp_compiled = p\<rparr>)"

definition legacy_invalid :: "'a res" where
  "legacy_invalid = Inl (ValueError ''legacy tenant profile is invalid'')"

text \<open>\<open>{**dict(action_rule), "execution": ...}\<close> over the rules that are mappings.\<close>

definition upgrade_action_policy :: "py_dict \<Rightarrow> py_dict res" where
  "upgrade_action_policy policy =
     (let upgraded = concat (map (\<lambda>(k, v). case v of
            PDict rule \<Rightarrow>
              [(k, PDict (dict_set ''execution''
                   (PStr (if k \<in> set (dict_keys BUILTIN_ACTION_REGISTRY) then ''executable''
                          else ''policy_only'')) rule))]
          | _ \<Rightarrow> []) policy)
      in if length upgraded \<noteq> length policy then legacy_invalid else Inr upgraded)"

definition rate_confirmation_binding :: pyval where
  "rate_confirmation_binding =
     PDict [(''intake_type'', PStr ''rate_confirmation''), (''normalizer'', PStr ''bounded_text_pdf''),
            (''normalizer_version'', PInt 1), (''default_for_inbound'', PBool True)]"

definition intake_named :: "string \<Rightarrow> pyval list \<Rightarrow> bool" where
  "intake_named n xs =
     list_ex (\<lambda>v. case v of PDict d \<Rightarrow> map_of d ''name'' = Some (PStr n) | _ \<Rightarrow> False) xs"

definition replace_hyphens :: "string \<Rightarrow> string" where
  "replace_hyphens s = map (\<lambda>c. if c = CHR ''-'' then CHR ''_'' else c) s"

definition upgrade_documents :: "py_dict \<Rightarrow> pyval list \<Rightarrow> py_dict" where
  "upgrade_documents docs intakes =
     (if intake_named ''rate_confirmation'' intakes \<and> map_of docs ''rate_confirmation'' = None
      then docs @ [(''rate_confirmation'', rate_confirmation_binding)]
      else docs)"

definition upgrade_legacy_profile_snapshot :: "py_dict \<Rightarrow> py_dict res" where
  "upgrade_legacy_profile_snapshot snapshot =
     (case map_of snapshot ''slug'' of
        Some (PStr slug) \<Rightarrow>
          if \<not> safe_slug slug then legacy_invalid
          else (case map_of snapshot ''action_policy'' of
             Some (PDict policy) \<Rightarrow>
               bind_res (upgrade_action_policy policy) (\<lambda>policy.
               bind_res (case map_of snapshot ''documents'' of
                           None \<Rightarrow> Inr [] | Some PNone \<Rightarrow> Inr [] | Some (PDict d) \<Rightarrow> Inr d
                         | Some _ \<Rightarrow> legacy_invalid) (\<lambda>docs.
               (case map_of snapshot ''intake_types'' of
                  Some (PList intakes) \<Rightarrow>
                    Inr (dict_set ''documents'' (PDict (upgrade_documents docs intakes))
                        (dict_set ''scenario_key'' (PStr (replace_hyphens slug))
                        (dict_set ''profile_version'' (PInt 2)
                        (dict_set ''action_policy'' (PDict policy) snapshot))))
                | _ \<Rightarrow> legacy_invalid)))
           | _ \<Rightarrow> legacy_invalid)
      | _ \<Rightarrow> legacy_invalid)"

definition snapshot_unavailable :: "'a res" where
  "snapshot_unavailable = Inl (TenantProfileUnavailableError ''tenant profile snapshot is unavailable'')"

text \<open>\<open>snapshot.get("profile_version") == 2\<close>.\<close>

definition is_version_2 :: "py_dict \<Rightarrow> bool" where
  "is_version_2 snapshot =
     (case map_of snapshot ''profile_version'' of None \<Rightarrow> False | Some v \<Rightarrow> py_eq v (PInt 2))"

definition decode_snapshot :: "py_dict \<Rightarrow> tenant_config res" where
  "decode_snapshot snapshot =
     bind_res (if is_version_2 snapshot then Inr snapshot else upgrade_legacy_profile_snapshot snapshot)
       config_model_validate"

definition resolve_persisted_profile ::
  "profile_env \<Rightarrow> pyval \<Rightarrow> pyval \<Rightarrow> string option \<Rightarrow> resolved_tenant_profile res" where
  "resolve_persisted_profile env snapshot expected slug =
     (case (as_dict snapshot, as_str expected) of
        (Some snap, Some sha) \<Rightarrow>
          if \<not> is_sha256_hex sha then snapshot_unavailable
          else (case profile_fingerprint env snap of
             Inl _ \<Rightarrow> snapshot_unavailable
           | Inr actual \<Rightarrow>
               if actual \<noteq> sha
               then Inl (TenantProfileUnavailableError ''tenant profile snapshot hash mismatch'')
               else case decode_snapshot snap of
                      Inl _ \<Rightarrow> snapshot_unavailable
                    | Inr c \<Rightarrow>
                        if (case slug of None \<Rightarrow> False | Some s \<Rightarrow> tn_slug c \<noteq> s) then snapshot_unavailable
                        else resolved_profile env c snap sha)
      | _ \<Rightarrow> snapshot_unavailable)"

text \<open>
  \<open>TenantProfileResolver.resolve\<close>; \<open>load\<close> is \<open>load_tenant_config\<close> on the path of a slug, with
  \<open>Inl\<close> for the configuration and operating-system errors that the resolver converts.
\<close>

definition resolve_profile ::
  "profile_env \<Rightarrow> (string \<Rightarrow> tenant_config res) \<Rightarrow> string \<Rightarrow> resolved_tenant_profile res" where
  "resolve_profile env load slug =
     (if \<not> safe_slug slug then Inl (TenantProfileUnavailableError ''tenant profile is unavailable'')
      else case load slug of
             Inl _ \<Rightarrow> Inl (TenantProfileUnavailableError ''tenant profile is unavailable'')
           | Inr c \<Rightarrow>
               if tn_slug c \<noteq> slug
               then Inl (TenantProfileUnavailableError ''tenant profile is unavailable'')
               else bind_res (profile_fingerprint env (config_model_dump c)) (\<lambda>sha.
                    resolved_profile env c (config_model_dump c) sha))"

section \<open>Lemmas\<close>

lemma collect_available_set:
  assumes "collect_available r policy acc = Inr xs" "\<And>k c. registry_require r k = Inr c \<Longrightarrow> ac_key c = k"
  shows "set xs = set acc \<union> {k. \<exists>rule. (k, rule) \<in> set policy \<and> ar_execution rule = EXECUTABLE \<and> ar_allowed rule}"
  using assms
proof (induction r policy acc rule: collect_available.induct)
  case (2 r k rule rest acc)
  show ?case
  proof (cases "ar_execution rule = EXECUTABLE")
    case True
    then obtain c where c: "registry_require r k = Inr c"
      "collect_available r rest (if ar_allowed rule then acc @ [ac_key c] else acc) = Inr xs"
      using "2.prems"(1) by (auto split: sum.splits)
    show ?thesis
      using "2.IH"(1) [OF True c(1) c(2) "2.prems"(2)] "2.prems"(2) [OF c(1)] True by auto
  next
    case False
    then show ?thesis
      using "2.IH"(2) [OF False _ "2.prems"(2)] "2.prems"(1) by auto
  qed
qed simp

lemma collect_available_registered:
  assumes "collect_available r policy acc = Inr xs" "(k, rule) \<in> set policy" "ar_execution rule = EXECUTABLE"
  shows "k \<in> set (dict_keys r)"
  using assms
  by (induction r policy acc rule: collect_available.induct)
     (auto simp: registry_require_def split: if_splits option.splits)

definition registry_keyed :: "action_registry \<Rightarrow> bool" where
  "registry_keyed r \<longleftrightarrow> (\<forall>k c. registry_require r k = Inr c \<longrightarrow> ac_key c = k)"

lemma builtin_registry_keyed: "registry_keyed BUILTIN_ACTION_REGISTRY"
  using mk_action_registry_key [OF mk_builtin_registry] by (simp add: registry_keyed_def)

lemma canonical_json_total:
  assumes "json_value v"
  shows "\<exists>s. canonical_json fl v = Inr s"
  using assms
proof (induction v rule: json_value.induct)
  case (1 x)
  then show ?case by (cases x) auto
next
  case (2 xs)
  then have "\<exists>ys. map_res (canonical_json fl) xs = Inr ys"
    by (intro map_res_total) (auto simp: list_all_iff)
  then show ?case by auto
next
  case (3 d)
  then have "\<exists>ys. map_res (\<lambda>kv. canonical_json fl (snd kv)) d = Inr ys"
    by (intro map_res_total) (auto simp: list_all_iff)
  then show ?case by auto
qed auto

lemma json_value_str_list [simp]: "json_value (str_list xs)"
  by (simp add: str_list_def list_all_iff)

lemma json_value_config_dump: "json_value (PDict (config_model_dump c))"
  by (auto simp: config_model_dump_def dump_intake_type_def dump_field_definition_def
      dump_action_rule_def dump_document_binding_def dump_routing_def dump_dict_def list_all_iff
      split: option.splits)

lemma profile_fingerprint_total:
  assumes "json_value (PDict d)"
  shows "\<exists>b. profile_fingerprint env d = Inr (en_hexdigest env b)"
  using canonical_json_total [OF assms, of "en_float_repr env"]
  by (auto simp: profile_fingerprint_def canonical_json_bytes_def split: sum.splits)

lemma compile_registered_subset:
  assumes "compile_tenant_profile areg dreg c fp = Inr p"
  shows "set (cp_registered_actions p) \<subseteq> set (dict_keys areg)"
proof -
  have "cp_registered_actions p = map fst (filter
      (\<lambda>(a, rule). ar_execution rule = EXECUTABLE \<and> a \<in> set (dict_keys areg)) (tn_action_policy c))"
    using assms by (auto simp: compile_tenant_profile_def bind_res_Inr_iff split: if_splits)
  then show ?thesis by auto
qed

subsection \<open>Order of keys\<close>

text \<open>The value with the keys of every dict in order: two values that differ only in the order
  of keys, at any depth, have the same image.\<close>

fun sort_dicts :: "pyval \<Rightarrow> pyval" where
  "sort_dicts (PList xs) = PList (map sort_dicts xs)"
| "sort_dicts (PDict d) = PDict (sort_key fst (map (\<lambda>kv. (fst kv, sort_dicts (snd kv))) d))"
| "sort_dicts v = v"

lemma map_insort_fst:
  "map (\<lambda>kv. (fst kv, g (snd kv))) (insort_key fst x xs) =
   insort_key fst (fst x, g (snd x)) (map (\<lambda>kv. (fst kv, g (snd kv))) xs)"
  by (induction xs) auto

lemma map_sort_fst:
  "map (\<lambda>kv. (fst kv, g (snd kv))) (sort_key fst xs) = sort_key fst (map (\<lambda>kv. (fst kv, g (snd kv))) xs)"
  by (induction xs) (simp_all add: map_insort_fst)

lemma map_res_Inr_map: "(\<And>x. x \<in> set xs \<Longrightarrow> f x = Inr (g x)) \<Longrightarrow> map_res f xs = Inr (map g xs)"
  by (induction xs) auto

definition print_pair :: "string \<times> string \<Rightarrow> string" where
  "print_pair kj = json_string (fst kj) @ '':'' @ snd kj"

lemma canonical_json_dict:
  assumes "\<And>kv. kv \<in> set d \<Longrightarrow> canonical_json fl (snd kv) = Inr (j (snd kv))"
  shows "canonical_json fl (PDict d) =
     Inr (''{'' @ comma_sep (map print_pair (sort_key fst (map (\<lambda>kv. (fst kv, j (snd kv))) d))) @ ''}'')"
proof -
  have "map_res (\<lambda>kv. canonical_json fl (snd kv)) d = Inr (map (\<lambda>kv. j (snd kv)) d)"
    by (rule map_res_Inr_map) (rule assms)
  moreover have "zip (map fst d) (map (\<lambda>kv. j (snd kv)) d) = map (\<lambda>kv. (fst kv, j (snd kv))) d"
    by (simp add: zip_map_map zip_same_conv_map)
  moreover have "(\<lambda>(k, j). json_string k @ '':'' @ j) = print_pair"
    by (auto simp: print_pair_def)
  ultimately show ?thesis by simp
qed

lemma json_value_sort_dicts: "json_value v \<Longrightarrow> json_value (sort_dicts v)"
  by (induction v rule: json_value.induct) (auto simp: list_all_iff)

lemma canonical_json_sort_dicts:
  assumes "json_value v"
  shows "canonical_json fl (sort_dicts v) = canonical_json fl v"
  using assms
proof (induction v rule: json_value.induct)
  case (2 xs)
  then have "map_res (canonical_json fl) (map sort_dicts xs) = map_res (canonical_json fl) xs"
    by (induction xs) (auto split: sum.splits)
  then show ?case by simp
next
  case (3 d)
  define j where "j v = (case canonical_json fl v of Inr s \<Rightarrow> s | Inl _ \<Rightarrow> [])" for v
  have jd: "canonical_json fl v = Inr (j v)" if "json_value v" for v
    using canonical_json_total [OF that, of fl] by (auto simp: j_def)
  have js: "json_value (snd kv)" if "kv \<in> set d" for kv
    using "3.prems" that by (auto simp: list_all_iff)
  let ?e = "sort_key fst (map (\<lambda>kv. (fst kv, sort_dicts (snd kv))) d)"
  have jsd: "j (sort_dicts (snd kv)) = j (snd kv)" if "kv \<in> set d" for kv
    using "3.IH" [OF that js [OF that]] by (simp add: j_def)
  have "canonical_json fl (PDict ?e) =
      Inr (''{'' @ comma_sep (map print_pair (sort_key fst (map (\<lambda>kv. (fst kv, j (snd kv))) ?e))) @ ''}'')"
  proof (rule canonical_json_dict)
    fix kv assume "kv \<in> set ?e"
    then obtain kv' where "kv' \<in> set d" "snd kv = sort_dicts (snd kv')" by auto
    then show "canonical_json fl (snd kv) = Inr (j (snd kv))"
      using jd json_value_sort_dicts js by metis
  qed
  also have "map (\<lambda>kv. (fst kv, j (snd kv))) ?e = sort_key fst (map (\<lambda>kv. (fst kv, j (snd kv))) d)"
    by (simp add: map_sort_fst jsd cong: map_cong)
  also have "sort_key fst \<dots> = \<dots>"
    by (rule sort_key_id_if_sorted) simp
  finally show ?case
    using canonical_json_dict [where j = j and d = d and fl = fl] jd js by simp
qed auto

subsection \<open>Properties\<close>

text \<open>
  The fingerprint of a profile does not depend on the order in which the keys of its
  snapshot come back from storage: two JSON snapshots that differ only in the order of keys, at
  any depth, have the same canonical bytes.
\<close>

theorem canonical_json_order:
  assumes "json_value (PDict d)" and "json_value (PDict e)" and "sort_dicts (PDict d) = sort_dicts (PDict e)"
  shows "canonical_json_bytes fl d = canonical_json_bytes fl e"
proof -
  have "canonical_json fl (PDict d) = canonical_json fl (sort_dicts (PDict d))"
    using canonical_json_sort_dicts [OF assms(1)] by metis
  also have "\<dots> = canonical_json fl (PDict e)"
    using canonical_json_sort_dicts [OF assms(2)] assms(3) by metis
  finally show ?thesis
    by (simp add: canonical_json_bytes_def)
qed

theorem canonical_json_order_witness:
  "canonical_json_bytes (\<lambda>_. []) [(''b'', PDict [(''y'', PInt 1), (''x'', PNone)]), (''a'', PInt 2)] =
   canonical_json_bytes (\<lambda>_. []) [(''a'', PInt 2), (''b'', PDict [(''x'', PNone), (''y'', PInt 1)])]"
  by (rule canonical_json_order) simp_all

text \<open>
  What compilation promises to the policy: the available actions are those the profile
  declares executable and allowed, the registered ones those it declares executable; every one
  of them is offered by the deployment; and every document kind is bound to the normalizer of
  exactly the declared key and version.
\<close>

theorem compile_tenant_profile_sound:
  assumes "compile_tenant_profile areg dreg c fp = Inr p" and "registry_keyed areg"
  shows "set (cp_available_actions p) =
           {a. \<exists>rule. (a, rule) \<in> set (tn_action_policy c) \<and> ar_execution rule = EXECUTABLE \<and> ar_allowed rule} \<and>
         set (cp_registered_actions p) =
           {a. \<exists>rule. (a, rule) \<in> set (tn_action_policy c) \<and> ar_execution rule = EXECUTABLE} \<and>
         set (cp_available_actions p) \<subseteq> set (cp_registered_actions p) \<and>
         set (cp_registered_actions p) \<subseteq> set (cp_declared_actions p) \<inter> set (dict_keys areg) \<and>
         list_all2 (\<lambda>(k, cfg) (k', b). k' = k \<and> bd_document_kind (cb_binding b) = k \<and>
             bd_target_intake_type (cb_binding b) = db_intake_type cfg \<and>
             map_of dreg (db_normalizer cfg, db_normalizer_version cfg) = Some (cb_capability b))
           (tn_documents c) (cp_documents p)"
proof -
  obtain available docs where av: "collect_available areg (tn_action_policy c) [] = Inr available"
    and docs: "map_res (compile_binding dreg) (tn_documents c) = Inr docs"
    and p: "cp_available_actions p = available" "cp_documents p = docs"
      "cp_declared_actions p = dict_keys (tn_action_policy c)"
      "cp_registered_actions p = map fst (filter
         (\<lambda>(a, rule). ar_execution rule = EXECUTABLE \<and> a \<in> set (dict_keys areg)) (tn_action_policy c))"
    using assms(1) by (auto simp: compile_tenant_profile_def bind_res_Inr_iff split: if_splits)
  have reg: "set (cp_registered_actions p) =
      {a. \<exists>rule. (a, rule) \<in> set (tn_action_policy c) \<and> ar_execution rule = EXECUTABLE}"
    unfolding p(4) using collect_available_registered [OF av] by force
  have avs: "set available =
      {a. \<exists>rule. (a, rule) \<in> set (tn_action_policy c) \<and> ar_execution rule = EXECUTABLE \<and> ar_allowed rule}"
    using collect_available_set [OF av] assms(2) by (simp add: registry_keyed_def)
  have "list_all2 (\<lambda>(k, cfg) (k', b). k' = k \<and> bd_document_kind (cb_binding b) = k \<and>
      bd_target_intake_type (cb_binding b) = db_intake_type cfg \<and>
      map_of dreg (db_normalizer cfg, db_normalizer_version cfg) = Some (cb_capability b))
    (tn_documents c) docs"
    using map_res_Inr_all2 [OF docs]
    by (rule list_all2_mono)
       (auto simp: compile_binding_def document_require_def split: sum.splits option.splits)
  moreover have "set (cp_registered_actions p) \<subseteq> set (cp_declared_actions p) \<inter> set (dict_keys areg)"
    unfolding p(3,4) by (auto simp: dict_keys_def) force
  ultimately show ?thesis
    using reg avs p(1,2) by auto
qed

lemma resolve_persisted_again:
  assumes "resolve_profile env load slug = Inr rp" and "\<And>s c. load s = Inr c \<Longrightarrow> valid_tenant_config c"
  shows "resolve_persisted_profile env (PDict (rp_snapshot rp)) (PStr (rp_sha256 rp)) (Some slug) = Inr rp"
proof -
  obtain c sha where c: "load slug = Inr c" "tn_slug c = slug"
    and fp: "profile_fingerprint env (config_model_dump c) = Inr sha"
    and rp: "resolved_profile env c (config_model_dump c) sha = Inr rp"
    using assms(1) by (auto simp: resolve_profile_def bind_res_Inr_iff split: if_splits sum.splits)
  have sha: "is_sha256_hex sha" and snap: "rp_snapshot rp = config_model_dump c" "rp_sha256 rp = sha"
    using rp by (auto simp: resolved_profile_def compile_tenant_profile_def split: sum.splits if_splits)
  have "is_version_2 (config_model_dump c)"
    by (simp add: is_version_2_def config_model_dump_def)
  then have "decode_snapshot (config_model_dump c) = Inr c"
    using config_round_trip assms(2) c(1) by (simp add: decode_snapshot_def)
  then show ?thesis
    using c fp rp sha by (simp add: snap resolve_persisted_profile_def)
qed

text \<open>
  A profile resolved for a new job is found again from what the job stores: resolving the
  stored snapshot with the stored fingerprint gives the same profile and the same compiled
  capabilities.
\<close>

theorem resolve_persisted_round_trip:
  assumes "resolve_profile env load slug = Inr rp" and "\<And>s c. load s = Inr c \<Longrightarrow> valid_tenant_config c"
  shows "resolve_persisted_profile env (PDict (rp_snapshot rp)) (PStr (rp_sha256 rp)) (Some slug) = Inr rp"
  using assms by (rule resolve_persisted_again)


section \<open>Witnesses\<close>

definition demo_config :: tenant_config where
  "demo_config =
     \<lparr>tn_slug = ''acme-field'', tn_scenario_key = ''acme_field'', tn_display_name = ''Acme'',
      tn_intake_types = [\<lparr>it_name = ''support'', it_description = ''Support'',
                           it_required_fields = [''issue'']\<rparr>],
      tn_fields = [(''issue'', \<lparr>fd_type = SHORT_TEXT, fd_label = ''Issue'', fd_options = None\<rparr>),
                   (''contact'', \<lparr>fd_type = EMAIL, fd_label = ''Contact'', fd_options = None\<rparr>)],
      tn_action_policy =
        [(''create_case'', \<lparr>ar_allowed = True, ar_requires_approval = False, ar_execution = EXECUTABLE\<rparr>),
         (''flag_for_review'', \<lparr>ar_allowed = True, ar_requires_approval = True, ar_execution = EXECUTABLE\<rparr>),
         (''send_reply'', \<lparr>ar_allowed = True, ar_requires_approval = True, ar_execution = POLICY_ONLY\<rparr>)],
      tn_documents = [(''rate'', \<lparr>db_intake_type = ''support'', db_normalizer = ''bounded_text_pdf'',
                                  db_normalizer_version = 1, db_default_for_inbound = True\<rparr>)],
      tn_routing = \<lparr>rc_outcome_names = [URGENT, AWAITING_INPUT, PENDING_APPROVAL, READY, REJECTED],
                     rc_always_approval_actions = [''send_reply'']\<rparr>\<rparr>"

definition demo_env :: profile_env where
  "demo_env =
     \<lparr>en_hexdigest = demo_sha256, en_float_repr = (\<lambda>_. []), en_actions = BUILTIN_ACTION_REGISTRY,
      en_documents = BUILTIN_DOCUMENT_REGISTRY\<rparr>"

definition demo_load :: "string \<Rightarrow> tenant_config res" where
  "demo_load s = (if s = ''acme-field'' then Inr demo_config else Inl OtherException)"

lemma demo_config_valid: "valid_tenant_config demo_config"
  by code_simp

lemma demo_load_valid: "demo_load s = Inr c \<Longrightarrow> valid_tenant_config c"
  using demo_config_valid by (auto simp: demo_load_def split: if_splits)

definition demo_profile :: compiled_tenant_profile where
  "demo_profile =
     (case compile_tenant_profile BUILTIN_ACTION_REGISTRY BUILTIN_DOCUMENT_REGISTRY demo_config
             (demo_sha256 []) of
        Inr p \<Rightarrow> p
      | Inl _ \<Rightarrow> \<lparr>cp_config = demo_config, cp_scenario_key = [], cp_profile_fingerprint = [],
                   cp_declared_actions = [], cp_registered_actions = [], cp_available_actions = [],
                   cp_documents = [], cp_default_inbound_document = None\<rparr>)"

lemma demo_compile_ok:
  "case compile_tenant_profile BUILTIN_ACTION_REGISTRY BUILTIN_DOCUMENT_REGISTRY demo_config
     (demo_sha256 []) of Inr p \<Rightarrow> True | Inl _ \<Rightarrow> False"
  by code_simp

lemma demo_compile:
  "compile_tenant_profile BUILTIN_ACTION_REGISTRY BUILTIN_DOCUMENT_REGISTRY demo_config (demo_sha256 []) =
     Inr demo_profile"
  using demo_compile_ok by (simp add: demo_profile_def split: sum.splits)

theorem compile_tenant_profile_sound_witness:
  "set (cp_available_actions demo_profile) \<subseteq> set (cp_registered_actions demo_profile) \<and>
   set (cp_registered_actions demo_profile) \<subseteq> set (dict_keys BUILTIN_ACTION_REGISTRY)"
  using compile_tenant_profile_sound [OF demo_compile builtin_registry_keyed] by blast

lemma demo_fingerprint: "profile_fingerprint demo_env (config_model_dump c) = Inr (demo_sha256 [])"
  using profile_fingerprint_total [OF json_value_config_dump, of demo_env c]
  by (auto simp: demo_env_def demo_sha256_def)

lemma demo_resolve: obtains rp where "resolve_profile demo_env demo_load ''acme-field'' = Inr rp"
proof -
  have "safe_slug ''acme-field''" by code_simp
  moreover have "tn_slug demo_config = ''acme-field''" by (simp add: demo_config_def)
  moreover have "en_actions demo_env = BUILTIN_ACTION_REGISTRY"
    "en_documents demo_env = BUILTIN_DOCUMENT_REGISTRY" by (simp_all add: demo_env_def)
  ultimately show ?thesis
    using that demo_compile demo_fingerprint
    by (simp add: resolve_profile_def demo_load_def resolved_profile_def)
qed

theorem resolve_persisted_round_trip_witness:
  "\<exists>rp. resolve_profile demo_env demo_load ''acme-field'' = Inr rp \<and>
     resolve_persisted_profile demo_env (PDict (rp_snapshot rp)) (PStr (rp_sha256 rp)) (Some ''acme-field'') = Inr rp"
proof -
  obtain rp where rp: "resolve_profile demo_env demo_load ''acme-field'' = Inr rp"
    by (rule demo_resolve)
  have "resolve_persisted_profile demo_env (PDict (rp_snapshot rp)) (PStr (rp_sha256 rp))
      (Some ''acme-field'') = Inr rp"
    by (rule resolve_persisted_round_trip [OF rp]) (rule demo_load_valid)
  with rp show ?thesis by blast
qed

lemma demo_persisted:
  obtains rp where "resolve_persisted_profile demo_env (PDict (config_model_dump demo_config))
      (PStr (demo_sha256 [])) (Some ''acme-field'') = Inr rp"
proof -
  have "is_sha256_hex (demo_sha256 [])"
    by (simp add: demo_sha256_def is_sha256_hex_def list_all_iff is_digit_def)
  moreover have "decode_snapshot (config_model_dump demo_config) = Inr demo_config"
    by (simp add: decode_snapshot_def is_version_2_def config_round_trip demo_config_valid)
       (simp add: config_model_dump_def)
  moreover have "tn_slug demo_config = ''acme-field''" by (simp add: demo_config_def)
  moreover have "en_actions demo_env = BUILTIN_ACTION_REGISTRY"
    "en_documents demo_env = BUILTIN_DOCUMENT_REGISTRY" by (simp_all add: demo_env_def)
  ultimately show ?thesis
    using that demo_compile demo_fingerprint
    by (simp add: resolve_persisted_profile_def resolved_profile_def)
qed


end
