(* ===== verification/Policy.thy ===== *)
theory Policy
  imports Tenant_Router Tenant_Profiles Agent_Models
begin

text \<open>
  Trusted context and policy: \<open>app/policy/models.py\<close> and \<open>app/policy/engine.py\<close>. The trusted source
  of a job is stored as a snapshot and decoded by \<open>trusted_source_from_snapshot\<close>; its encoder is
  \<open>JobRepository._source_snapshot\<close>. Sets of names are lists of which only membership counts.
\<close>

section \<open>Trusted source\<close>

record trusted_source =
  ts_channel :: string
  ts_subject :: string
  ts_body :: string
  ts_document :: "normalized_document option"
  ts_sender :: "string option"

definition invalid_source :: "'a res" where
  "invalid_source = Inl (RuntimeError ''source snapshot is invalid'')"

definition source_keys_ok :: "py_dict \<Rightarrow> bool" where
  "source_keys_ok d \<longleftrightarrow>
     distinct (map fst d) \<and> list_all (\<lambda>k. map_of d k \<noteq> None) [''channel'', ''subject'', ''body''] \<and>
     list_all (\<lambda>kv. fst kv \<in> set [''channel'', ''subject'', ''body'', ''document'', ''sender'']) d"

definition trusted_source_from_snapshot :: "pyval \<Rightarrow> trusted_source res" where
  "trusted_source_from_snapshot v =
     (case as_dict v of
        None \<Rightarrow> invalid_source
      | Some d \<Rightarrow>
          if \<not> source_keys_ok d then invalid_source
          else (case (key ''channel'' as_str d, key ''subject'' as_str d, key ''body'' as_str d) of
             (Some channel, Some subject, Some body) \<Rightarrow>
               (case key_default ''sender'' None (as_optional as_str) d of
                  None \<Rightarrow> invalid_source
                | Some sender \<Rightarrow>
                    (case map_of d ''document'' of
                       None \<Rightarrow>
                         Inr \<lparr>ts_channel = channel, ts_subject = subject, ts_body = body,
                              ts_document = None, ts_sender = sender\<rparr>
                     | Some raw \<Rightarrow>
                         (case decode_document_snapshot raw of
                            Inl _ \<Rightarrow> invalid_source
                          | Inr doc \<Rightarrow>
                              Inr \<lparr>ts_channel = channel, ts_subject = subject, ts_body = body,
                                   ts_document = Some doc, ts_sender = sender\<rparr>)))
           | _ \<Rightarrow> invalid_source))"

text \<open>\<open>JobRepository._source_snapshot\<close>.\<close>

definition source_snapshot :: "trusted_source \<Rightarrow> py_dict" where
  "source_snapshot s =
     [(''channel'', PStr (ts_channel s)), (''subject'', PStr (ts_subject s)), (''body'', PStr (ts_body s))] @
     (case ts_sender s of None \<Rightarrow> [] | Some x \<Rightarrow> [(''sender'', PStr x)]) @
     (case ts_document s of None \<Rightarrow> [] | Some d \<Rightarrow> [(''document'', document_dump d)])"

section \<open>Runtime context and policy data\<close>

record trusted_runtime =
  rt_tenant_id :: uuid
  rt_tenant_config :: tenant_config
  rt_compiled_profile :: "compiled_tenant_profile option"
  rt_source :: "trusted_source option"
  rt_case_id :: "uuid option"
  rt_safety_or_legal_risk :: bool
  rt_job_id :: "uuid option"

record policy_input =
  pi_proposal :: agent_proposal
  pi_requested_action :: string
  pi_requires_complete_fields :: bool
  pi_registered_actions :: "string list"
  pi_runtime :: trusted_runtime
  pi_verified_present_fields :: "string list option"
  pi_invalid_fields :: "string list"

record policy_outcome =
  po_decision :: routing_decision
  po_status :: routing_status
  po_reason :: string
  po_missing_required_fields :: "string list"

definition as_tool_data :: "policy_outcome \<Rightarrow> py_dict" where
  "as_tool_data o' =
     [(''decision'', PStr (routing_decision_value (po_decision o'))),
      (''status'', PStr (routing_status_value (po_status o'))), (''reason'', PStr (po_reason o')),
      (''missing_required_fields'', str_list (po_missing_required_fields o'))]"

fun proposal_value_is_present :: "pyval \<Rightarrow> bool" where
  "proposal_value_is_present PNone = False"
| "proposal_value_is_present (PStr s) = non_blank s"
| "proposal_value_is_present (PList xs) = (xs \<noteq> [])"
| "proposal_value_is_present _ = True"

section \<open>The engine\<close>

definition runtime_document :: "trusted_runtime \<Rightarrow> normalized_document option" where
  "runtime_document rt = (case rt_source rt of None \<Rightarrow> None | Some s \<Rightarrow> ts_document s)"

definition unreadable_document :: "trusted_runtime \<Rightarrow> normalized_document option" where
  "unreadable_document rt =
     (case runtime_document rt of
        None \<Rightarrow> None
      | Some d \<Rightarrow> if nd_extraction_error d \<noteq> None then Some d else None)"

definition find_intake :: "trusted_runtime \<Rightarrow> string option \<Rightarrow> intake_type_config option" where
  "find_intake rt n = next_item (\<lambda>t. Some (it_name t) = n) (tn_intake_types (rt_tenant_config rt))"

definition unreadable_outcome :: "trusted_runtime \<Rightarrow> normalized_document \<Rightarrow> policy_outcome" where
  "unreadable_outcome rt d =
     \<lparr>po_decision = DENY, po_status = AWAITING_INPUT, po_reason = ''document_unreadable'',
      po_missing_required_fields =
        (case find_intake rt (Some (nd_target_intake_type d)) of
           None \<Rightarrow> [] | Some t \<Rightarrow> sort (it_required_fields t))\<rparr>"

definition policy_present_fields :: "policy_input \<Rightarrow> string list" where
  "policy_present_fields v =
     (let known = dict_keys (tn_fields (rt_tenant_config (pi_runtime v)))
      in filter (\<lambda>n. n \<in> set known)
           (case pi_verified_present_fields v of
              Some ns \<Rightarrow> ns
            | None \<Rightarrow>
                map pv_name (filter (\<lambda>i. pv_name i \<in> set known \<and> proposal_value_is_present (pv_value i))
                  (ap_fields (pi_proposal v)))))"

definition unknown_intake_outcome :: policy_outcome where
  "unknown_intake_outcome =
     \<lparr>po_decision = DENY, po_status = REJECTED, po_reason = ''unknown_intake_type'',
      po_missing_required_fields = []\<rparr>"

definition invalid_fields_outcome :: "string list \<Rightarrow> policy_outcome" where
  "invalid_fields_outcome ns =
     \<lparr>po_decision = DENY, po_status = AWAITING_INPUT, po_reason = ''invalid_field_values'',
      po_missing_required_fields = sort ns\<rparr>"

text \<open>\<open>PolicyEngine.evaluate_terminal\<close>.\<close>

definition policy_evaluate_terminal :: "policy_input \<Rightarrow> policy_outcome" where
  "policy_evaluate_terminal v =
     (let rt = pi_runtime v
      in case unreadable_document rt of
           Some d \<Rightarrow> unreadable_outcome rt d
         | None \<Rightarrow>
             (case find_intake rt (ap_intake_type (pi_proposal v)) of
                None \<Rightarrow> unknown_intake_outcome
              | Some intake \<Rightarrow>
                  if pi_invalid_fields v \<noteq> [] then invalid_fields_outcome (pi_invalid_fields v)
                  else (let missing = sorted_minus (it_required_fields intake) (policy_present_fields v)
                        in if pi_requires_complete_fields v \<and> missing \<noteq> []
                           then \<lparr>po_decision = DENY, po_status = AWAITING_INPUT,
                                 po_reason = ''missing_required_fields'',
                                 po_missing_required_fields = missing\<rparr>
                           else if rt_safety_or_legal_risk rt \<or> ap_contains_injection (pi_proposal v)
                           then \<lparr>po_decision = NEEDS_APPROVAL, po_status = URGENT,
                                 po_reason = ''safety_or_legal_risk'', po_missing_required_fields = []\<rparr>
                           else \<lparr>po_decision = ALLOW, po_status = READY,
                                 po_reason = ''no_action_requested'', po_missing_required_fields = []\<rparr>)))"

definition policy_assessment :: "policy_input \<Rightarrow> routing_assessment" where
  "policy_assessment v =
     \<lparr>ra_intake_type = (case ap_intake_type (pi_proposal v) of None \<Rightarrow> [] | Some s \<Rightarrow> s),
      ra_present_fields = policy_present_fields v,
      ra_contains_safety_or_legal_risk =
        (rt_safety_or_legal_risk (pi_runtime v) \<or> ap_contains_injection (pi_proposal v)),
      ra_requested_action = pi_requested_action v,
      ra_requires_complete_fields = pi_requires_complete_fields v,
      ra_executable_actions = Some (pi_registered_actions v),
      ra_is_critical = (ap_priority (pi_proposal v) = CRITICAL),
      ra_registered_actions = None\<rparr>"

text \<open>\<open>PolicyEngine.evaluate\<close>.\<close>

definition policy_evaluate :: "policy_input \<Rightarrow> policy_outcome" where
  "policy_evaluate v =
     (let rt = pi_runtime v
      in case unreadable_document rt of
           Some d \<Rightarrow> unreadable_outcome rt d
         | None \<Rightarrow>
             (case find_intake rt (ap_intake_type (pi_proposal v)) of
                None \<Rightarrow> unknown_intake_outcome
              | Some intake \<Rightarrow>
                  if pi_invalid_fields v \<noteq> [] then invalid_fields_outcome (pi_invalid_fields v)
                  else (let routed = route (rt_tenant_config rt) (policy_assessment v)
                        in \<lparr>po_decision = ro_decision routed, po_status = ro_status routed,
                            po_reason = ro_reason routed,
                            po_missing_required_fields = ro_missing_required_fields routed\<rparr>)))"

section \<open>Lemmas\<close>

lemmas policy_outcome_defs = unreadable_outcome_def unknown_intake_outcome_def invalid_fields_outcome_def

text \<open>The reference reading of what lets an action run unattended.\<close>

definition policy_grants :: "policy_input \<Rightarrow> bool" where
  "policy_grants v \<longleftrightarrow>
     unreadable_document (pi_runtime v) = None \<and>
     find_intake (pi_runtime v) (ap_intake_type (pi_proposal v)) \<noteq> None \<and>
     pi_invalid_fields v = [] \<and>
     fields_complete (rt_tenant_config (pi_runtime v)) (policy_assessment v) \<and>
     action_granted (rt_tenant_config (pi_runtime v)) (policy_assessment v)"

lemma policy_evaluate_cases:
  "po_decision (policy_evaluate v) =
     (if \<not> policy_grants v then DENY
      else if must_be_approved (rt_tenant_config (pi_runtime v)) (policy_assessment v) then NEEDS_APPROVAL
      else ALLOW)"
  using route_cases [of "rt_tenant_config (pi_runtime v)" "policy_assessment v"]
  by (auto simp: policy_evaluate_def policy_grants_def policy_outcome_defs Let_def split: option.splits)

lemma policy_evaluate_granted:
  assumes "po_decision (policy_evaluate v) \<noteq> DENY"
  shows "pi_requested_action v \<in> set (pi_registered_actions v)"
    and "\<exists>rule. map_of (tn_action_policy (rt_tenant_config (pi_runtime v))) (pi_requested_action v) = Some rule \<and>
           ar_execution rule = EXECUTABLE \<and> ar_allowed rule"
  using assms
  by (auto simp: policy_evaluate_cases policy_grants_def action_granted_def policy_assessment_def
      split: if_splits)

lemma trusted_source_round_trip:
  assumes "\<And>d. ts_document s = Some d \<Longrightarrow> valid_normalized_document d"
  shows "trusted_source_from_snapshot (PDict (source_snapshot s)) = Inr s"
  using assms
  by (cases s; cases "ts_document s"; cases "ts_sender s")
     (simp_all add: trusted_source_from_snapshot_def source_snapshot_def source_keys_ok_def key_def
       key_default_def as_optional_def document_round_trip)

text \<open>
  A job's trusted source survives storage: the snapshot written with the job decodes to the
  source it was written from.
\<close>

theorem source_snapshot_round_trip:
  assumes "\<And>d. ts_document s = Some d \<Longrightarrow> valid_normalized_document d"
  shows "trusted_source_from_snapshot (PDict (source_snapshot s)) = Inr s"
  using assms by (rule trusted_source_round_trip)

definition demo_source :: trusted_source where
  "demo_source =
     \<lparr>ts_channel = ''email'', ts_subject = ''Help'', ts_body = ''the pump leaks'', ts_document = None,
      ts_sender = Some ''a@b.test''\<rparr>"

theorem source_snapshot_round_trip_witness:
  "trusted_source_from_snapshot (PDict (source_snapshot demo_source)) = Inr demo_source"
  by (rule source_snapshot_round_trip) (simp add: demo_source_def)

text \<open>
  C22. The policy for a requested action denies it unless any attached document was readable, the
  intake type is known, no supplied field value was invalid, the required fields are complete
  where the action needs them, and the action is declared executable and allowed and is offered;
  among the rest it allows exactly the actions that neither risk, an injection attempt, critical
  priority, the approval list nor the action's rule sends to a human.
\<close>

theorem policy_evaluate_decision:
  "po_decision (policy_evaluate v) =
     (if \<not> policy_grants v then DENY
      else if rt_safety_or_legal_risk (pi_runtime v) \<or> ap_contains_injection (pi_proposal v) \<or>
              ap_priority (pi_proposal v) = CRITICAL \<or>
              pi_requested_action v \<in> set (rc_always_approval_actions (tn_routing (rt_tenant_config (pi_runtime v)))) \<or>
              (\<exists>rule. map_of (tn_action_policy (rt_tenant_config (pi_runtime v))) (pi_requested_action v) = Some rule \<and>
                 ar_requires_approval rule)
      then NEEDS_APPROVAL
      else ALLOW)"
  by (auto simp: policy_evaluate_cases must_be_approved_def policy_assessment_def)

text \<open>
  The model's own account of itself has no influence on the policy: once the field values
  are verified, two proposals with the same intake type, the same injection flag and the same
  answer to whether the priority is critical get the same outcome, whatever their confidence,
  rationale, claimed missing fields and field values are. The same holds for a terminal proposal.
\<close>

theorem policy_ignores_self_report:
  assumes "pi_verified_present_fields v \<noteq> None"
    and "ap_intake_type p = ap_intake_type q"
    and "ap_contains_injection p = ap_contains_injection q"
    and "(ap_priority p = CRITICAL) = (ap_priority q = CRITICAL)"
  shows "policy_evaluate (v\<lparr>pi_proposal := p\<rparr>) = policy_evaluate (v\<lparr>pi_proposal := q\<rparr>) \<and>
    policy_evaluate_terminal (v\<lparr>pi_proposal := p\<rparr>) = policy_evaluate_terminal (v\<lparr>pi_proposal := q\<rparr>)"
proof -
  obtain ns where ns: "pi_verified_present_fields v = Some ns"
    using assms(1) by auto
  then have "policy_present_fields (v\<lparr>pi_proposal := p\<rparr>) = policy_present_fields (v\<lparr>pi_proposal := q\<rparr>)"
    by (simp add: policy_present_fields_def)
  moreover from this have "policy_assessment (v\<lparr>pi_proposal := p\<rparr>) = policy_assessment (v\<lparr>pi_proposal := q\<rparr>)"
    using assms(2-4) by (simp add: policy_assessment_def)
  ultimately show ?thesis
    using assms(2,3)
    by (simp add: policy_evaluate_def policy_evaluate_terminal_def Let_def split: option.split)
qed

definition demo_runtime :: trusted_runtime where
  "demo_runtime =
     \<lparr>rt_tenant_id = 1, rt_tenant_config = demo_config, rt_compiled_profile = Some demo_profile,
      rt_source = Some demo_source, rt_case_id = None, rt_safety_or_legal_risk = False,
      rt_job_id = Some 2\<rparr>"

definition plain_proposal :: agent_proposal where
  "plain_proposal =
     \<lparr>ap_intake_type = Some ''support'',
      ap_fields = [\<lparr>pv_name = ''issue'', pv_value = PStr ''pump leaks'', pv_source = Some BODY,
                    pv_source_excerpt = Some ''the pump leaks''\<rparr>],
      ap_missing_required_fields = [], ap_priority = NORMAL, ap_contains_injection = False,
      ap_rationale_short = ''Open a case'',
      ap_tool_calls = [\<lparr>ptc_name = ''create_case'', ptc_arguments = []\<rparr>], ap_confidence = 1 / 2\<rparr>"

definition demo_policy_input :: policy_input where
  "demo_policy_input =
     \<lparr>pi_proposal = plain_proposal, pi_requested_action = ''create_case'',
      pi_requires_complete_fields = True, pi_registered_actions = [''create_case''],
      pi_runtime = demo_runtime, pi_verified_present_fields = Some [''issue''], pi_invalid_fields = []\<rparr>"

theorem policy_ignores_self_report_witness:
  "policy_evaluate (demo_policy_input\<lparr>pi_proposal := plain_proposal\<rparr>) =
   policy_evaluate (demo_policy_input\<lparr>pi_proposal := plain_proposal\<lparr>ap_confidence := 1\<rparr>\<rparr>)"
proof -
  have "pi_verified_present_fields demo_policy_input \<noteq> None"
    by (simp add: demo_policy_input_def)
  from policy_ignores_self_report [OF this, of plain_proposal "plain_proposal\<lparr>ap_confidence := 1\<rparr>"]
  show ?thesis by simp
qed

end
