(* ===== verification/Db_Model.thy ===== *)
theory Db_Model
  imports Policy "HOL-Library.Product_Lexorder"
begin

text \<open>
  The rows of \<open>app/db/models.py\<close> that the durable workflow uses, as an explicit store: a table is a
  list of rows, a query a filter, an assignment to a mapped attribute an update of the row with
  that key. \<open>session.begin()\<close> is \<open>transaction\<close>: the changes of a body that raises are discarded.
  The unique constraints are checks on insertion and part of the invariant \<open>db_keys\<close>. Random
  UUIDs come from a stream in the store; the database clock is a component of it.
\<close>

section \<open>Rows\<close>

datatype job_status = J_queued | J_running | J_awaiting_approval | J_succeeded | J_failed | J_failed_uncertain

datatype approval_status = A_staged | A_cancelled | A_pending | A_approved | A_rejected | A_expired

fun approval_status_value :: "approval_status \<Rightarrow> string" where
  "approval_status_value A_staged = ''staged''"
| "approval_status_value A_cancelled = ''cancelled''"
| "approval_status_value A_pending = ''pending''"
| "approval_status_value A_approved = ''approved''"
| "approval_status_value A_rejected = ''rejected''"
| "approval_status_value A_expired = ''expired''"

record job_row =
  job_id :: uuid
  job_tenant_id :: uuid
  job_trace_id :: uuid
  job_status :: job_status
  job_source_snapshot :: pyval
  job_tenant_config_snapshot :: pyval
  job_tenant_config_sha256 :: string
  job_risk_signals :: pyval
  job_attempt_count :: nat
  job_available_at :: datetime
  job_lease_expires_at :: "datetime option"
  job_started_at :: "datetime option"
  job_finished_at :: "datetime option"
  job_side_effect_committed_at :: "datetime option"
  job_result :: "py_dict option"
  job_error_code :: "string option"
  job_created_at :: datetime

record approval_row =
  apr_id :: uuid
  apr_tenant_id :: uuid
  apr_case_id :: "uuid option"
  apr_job_id :: "uuid option"
  apr_action :: string
  apr_status :: approval_status
  apr_decision :: py_dict
  apr_policy_reason :: "string option"
  apr_pending_action :: "py_dict option"
  apr_tenant_config_sha256 :: "string option"
  apr_expires_at :: "datetime option"
  apr_decided_at :: "datetime option"
  apr_decided_by_actor_ref :: "string option"
  apr_decision_reason :: "string option"
  apr_executed_at :: "datetime option"
  apr_execution_result :: "py_dict option"
  apr_created_at :: datetime

record approval_event_row =
  ae_tenant_id :: uuid
  ae_approval_id :: uuid
  ae_event_type :: string
  ae_actor_ref :: "string option"
  ae_payload :: py_dict

record idempotency_row =
  idr_tenant_id :: uuid
  idr_key :: string
  idr_request_hash :: string
  idr_job_id :: "uuid option"
  idr_case_id :: "uuid option"
  idr_response :: py_dict

record case_row =
  ic_id :: uuid
  ic_tenant_id :: uuid
  ic_customer_id :: "uuid option"
  ic_status :: string
  ic_channel :: string
  ic_subject :: string
  ic_body :: string
  ic_source :: "string option"
  ic_raw_payload :: py_dict
  ic_extracted_fields :: py_dict

record case_event_row =
  ce_tenant_id :: uuid
  ce_case_id :: uuid
  ce_event_type :: string
  ce_payload :: py_dict

record customer_row =
  cu_id :: uuid
  cu_tenant_id :: uuid
  cu_external_id :: "string option"
  cu_name :: "string option"
  cu_email :: "string option"
  cu_phone :: "string option"

record artifact_row =
  jr_id :: uuid
  jr_tenant_id :: uuid
  jr_job_id :: uuid
  jr_kind :: reference_kind
  jr_payload :: py_dict

record db =
  db_jobs :: "job_row list"
  db_approvals :: "approval_row list"
  db_approval_events :: "approval_event_row list"
  db_idempotency :: "idempotency_row list"
  db_cases :: "case_row list"
  db_case_events :: "case_event_row list"
  db_customers :: "customer_row list"
  db_artifacts :: "artifact_row list"
  db_uuids :: "nat \<Rightarrow> uuid"
  db_next :: nat
  db_now :: datetime

section \<open>Queries, updates and transactions\<close>

definition scalar_one_or_none :: "('a \<Rightarrow> bool) \<Rightarrow> 'a list \<Rightarrow> 'a option res" where
  "scalar_one_or_none P rows =
     (case filter P rows of [] \<Rightarrow> Inr None | [r] \<Rightarrow> Inr (Some r) | _ \<Rightarrow> Inl MultipleResultsFound)"

definition update_rows :: "('a \<Rightarrow> 'k) \<Rightarrow> 'k \<Rightarrow> ('a \<Rightarrow> 'a) \<Rightarrow> 'a list \<Rightarrow> 'a list" where
  "update_rows f k g rows = map (\<lambda>r. if f r = k then g r else r) rows"

definition update_job :: "uuid \<Rightarrow> (job_row \<Rightarrow> job_row) \<Rightarrow> db \<Rightarrow> db" where
  "update_job i g d = d\<lparr>db_jobs := update_rows job_id i g (db_jobs d)\<rparr>"

definition update_approval :: "uuid \<Rightarrow> (approval_row \<Rightarrow> approval_row) \<Rightarrow> db \<Rightarrow> db" where
  "update_approval i g d = d\<lparr>db_approvals := update_rows apr_id i g (db_approvals d)\<rparr>"

definition update_case :: "uuid \<Rightarrow> (case_row \<Rightarrow> case_row) \<Rightarrow> db \<Rightarrow> db" where
  "update_case i g d = d\<lparr>db_cases := update_rows ic_id i g (db_cases d)\<rparr>"

definition fresh_uuid :: "db \<Rightarrow> uuid \<times> db" where
  "fresh_uuid d = (db_uuids d (db_next d), d\<lparr>db_next := Suc (db_next d)\<rparr>)"

type_synonym 'a tx = "db \<Rightarrow> 'a res \<times> db"

definition transaction :: "'a tx \<Rightarrow> 'a tx" where
  "transaction body d = (case body d of (Inl e, _) \<Rightarrow> (Inl e, d) | (Inr x, d') \<Rightarrow> (Inr x, d'))"

definition ret_tx :: "'a \<Rightarrow> 'a tx" where
  "ret_tx x d = (Inr x, d)"

definition raise_tx :: "exn \<Rightarrow> 'a tx" where
  "raise_tx e d = (Inl e, d)"

definition bind_tx :: "'a tx \<Rightarrow> ('a \<Rightarrow> 'b tx) \<Rightarrow> 'b tx" where
  "bind_tx m f d = (case m d of (Inl e, d') \<Rightarrow> (Inl e, d') | (Inr x, d') \<Rightarrow> f x d')"

definition read_tx :: "(db \<Rightarrow> 'a res) \<Rightarrow> 'a tx" where
  "read_tx q d = (q d, d)"

definition write_tx :: "(db \<Rightarrow> db) \<Rightarrow> unit tx" where
  "write_tx f d = (Inr (), f d)"

definition new_id_tx :: "uuid tx" where
  "new_id_tx d = (let (i, d') = fresh_uuid d in (Inr i, d'))"

text \<open>A flush that violates a unique constraint raises \<open>IntegrityError\<close>.\<close>

definition check_tx :: "(db \<Rightarrow> bool) \<Rightarrow> unit tx" where
  "check_tx P d = (if P d then (Inr (), d) else (Inl IntegrityError, d))"

definition add_approval_event :: "uuid \<Rightarrow> uuid \<Rightarrow> string \<Rightarrow> string option \<Rightarrow> py_dict \<Rightarrow> db \<Rightarrow> db" where
  "add_approval_event t a ty actor payload d =
     d\<lparr>db_approval_events := db_approval_events d @
         [\<lparr>ae_tenant_id = t, ae_approval_id = a, ae_event_type = ty, ae_actor_ref = actor,
           ae_payload = payload\<rparr>]\<rparr>"

definition add_case_event :: "uuid \<Rightarrow> uuid \<Rightarrow> string \<Rightarrow> py_dict \<Rightarrow> db \<Rightarrow> db" where
  "add_case_event t c ty payload d =
     d\<lparr>db_case_events := db_case_events d @
         [\<lparr>ce_tenant_id = t, ce_case_id = c, ce_event_type = ty, ce_payload = payload\<rparr>]\<rparr>"

section \<open>Keys\<close>

text \<open>The primary keys and unique constraints, and identifiers not used yet.\<close>

definition used_ids :: "db \<Rightarrow> uuid set" where
  "used_ids d = job_id ` set (db_jobs d) \<union> apr_id ` set (db_approvals d) \<union> ic_id ` set (db_cases d) \<union>
     jr_id ` set (db_artifacts d)"

definition db_keys :: "db \<Rightarrow> bool" where
  "db_keys d \<longleftrightarrow>
     distinct (map job_id (db_jobs d)) \<and> distinct (map job_trace_id (db_jobs d)) \<and> distinct (map apr_id (db_approvals d)) \<and>
     distinct (map apr_job_id (filter (\<lambda>a. apr_job_id a \<noteq> None) (db_approvals d))) \<and>
     distinct (map (\<lambda>r. (idr_tenant_id r, idr_key r)) (db_idempotency d)) \<and>
     distinct (map (\<lambda>r. (idr_tenant_id r, idr_job_id r)) (filter (\<lambda>r. idr_job_id r \<noteq> None) (db_idempotency d))) \<and>
     distinct (map ic_id (db_cases d)) \<and> distinct (map jr_id (db_artifacts d)) \<and>
     distinct (map (\<lambda>r. (jr_tenant_id r, jr_job_id r, jr_kind r)) (db_artifacts d)) \<and>
     inj (db_uuids d) \<and> (\<forall>n \<ge> db_next d. db_uuids d n \<notin> used_ids d)"

text \<open>What an idempotency record says about its request; only the case is filled in later.\<close>

definition request_of :: "idempotency_row \<Rightarrow> uuid \<times> string \<times> string \<times> uuid option" where
  "request_of r = (idr_tenant_id r, idr_key r, idr_request_hash r, idr_job_id r)"

definition requests :: "db \<Rightarrow> (uuid \<times> string \<times> string \<times> uuid option) set" where
  "requests d = request_of ` set (db_idempotency d)"

section \<open>Lemmas\<close>

lemma transaction_Inr: "transaction body d = (Inr x, d') \<longleftrightarrow> body d = (Inr x, d')"
  by (auto simp: transaction_def split: prod.splits sum.splits)

lemma transaction_Inl: "transaction body d = (Inl e, d') \<Longrightarrow> d' = d"
  by (auto simp: transaction_def split: prod.splits sum.splits)

lemma transaction_preserves:
  assumes "transaction body d = (r, d')" "P d" "\<And>x d'. body d = (Inr x, d') \<Longrightarrow> P d'"
  shows "P d'"
  using assms by (auto simp: transaction_def split: prod.splits sum.splits)

lemma bind_tx_Inr: "bind_tx m f d = (Inr y, e) \<longleftrightarrow> (\<exists>x d'. m d = (Inr x, d') \<and> f x d' = (Inr y, e))"
  by (auto simp: bind_tx_def split: prod.splits sum.splits)

lemma bind_tx_Inl:
  "bind_tx m f d = (Inl y, e) \<longleftrightarrow> m d = (Inl y, e) \<or> (\<exists>x d'. m d = (Inr x, d') \<and> f x d' = (Inl y, e))"
  by (auto simp: bind_tx_def split: prod.splits sum.splits)

lemma read_tx_iff: "read_tx q d = (r, e) \<longleftrightarrow> q d = r \<and> e = d"
  by (auto simp: read_tx_def)

lemma write_tx_iff: "write_tx f d = (r, e) \<longleftrightarrow> r = Inr () \<and> e = f d"
  by (auto simp: write_tx_def)

lemma ret_tx_iff: "ret_tx x d = (r, e) \<longleftrightarrow> r = Inr x \<and> e = d"
  by (auto simp: ret_tx_def)

lemma raise_tx_iff: "raise_tx x d = (r, e) \<longleftrightarrow> r = Inl x \<and> e = d"
  by (auto simp: raise_tx_def)

lemma new_id_tx_iff:
  "new_id_tx d = (r, e) \<longleftrightarrow> r = Inr (db_uuids d (db_next d)) \<and> e = d\<lparr>db_next := Suc (db_next d)\<rparr>"
  by (auto simp: new_id_tx_def fresh_uuid_def)

lemma check_tx_Inr: "check_tx P d = (Inr u, e) \<longleftrightarrow> P d \<and> e = d"
  by (auto simp: check_tx_def)

lemmas tx_iffs = transaction_Inr bind_tx_Inr read_tx_iff write_tx_iff ret_tx_iff raise_tx_iff new_id_tx_iff
  check_tx_Inr

lemma filter_unique:
  assumes "distinct (map f xs)" "\<And>x. P x \<Longrightarrow> f x = k"
  shows "filter P xs = (case next_item P xs of None \<Rightarrow> [] | Some x \<Rightarrow> [x])"
  using assms
proof (induction xs)
  case (Cons x xs)
  show ?case
  proof (cases "P x")
    case True
    have "\<not> P y" if "y \<in> set xs" for y
      using Cons.prems True that by (metis distinct.simps(2) image_eqI list.set_map list.simps(9))
    then have "filter P xs = []" by (simp add: filter_empty_conv)
    with True show ?thesis by simp
  next
    case False
    then show ?thesis using Cons by simp
  qed
qed simp

text \<open>A query that fixes a unique key has at most one result.\<close>

lemma scalar_unique:
  assumes "distinct (map f xs)" "\<And>x. P x \<Longrightarrow> f x = k"
  shows "scalar_one_or_none P xs = Inr (next_item P xs)"
proof (cases "next_item P xs")
  case None
  then have "filter P xs = []" using filter_unique [of f xs P k, OF assms] by simp
  then show ?thesis unfolding scalar_one_or_none_def None by simp
next
  case (Some x)
  then have "filter P xs = [x]" using filter_unique [of f xs P k, OF assms] by simp
  then show ?thesis using Some by (simp add: scalar_one_or_none_def)
qed

lemma scalar_one_or_none_SomeD:
  assumes "scalar_one_or_none P xs = Inr (Some x)"
  shows "x \<in> set xs \<and> P x"
proof -
  have "filter P xs = [x]" using assms by (simp add: scalar_one_or_none_def split: list.splits)
  then have "x \<in> set (filter P xs)" by simp
  then show ?thesis by simp
qed

lemma scalar_one_or_none_NoneD: "scalar_one_or_none P xs = Inr None \<Longrightarrow> x \<in> set xs \<Longrightarrow> \<not> P x"
  by (auto simp: scalar_one_or_none_def filter_empty_conv split: list.splits)

lemma map_update_rows [simp]: "(\<And>r. h (g r) = h r) \<Longrightarrow> map h (update_rows f k g xs) = map h xs"
  by (simp add: update_rows_def)

lemma in_update_rows:
  "r \<in> set (update_rows f k g xs) \<longleftrightarrow> (\<exists>x \<in> set xs. r = (if f x = k then g x else x))"
  unfolding update_rows_def set_map image_iff ..

lemma distinct_key_eq:
  assumes "distinct (map f xs)" "x \<in> set xs" "y \<in> set xs" "f x = f y"
  shows "x = y"
  using assms by (metis distinct_map inj_onD)

lemma fresh_keys:
  assumes "db_keys d"
  shows "db_uuids d (db_next d) \<notin> used_ids d"
    and "Suc (db_next d) \<le> n \<Longrightarrow> db_uuids d n \<notin> insert (db_uuids d (db_next d)) (used_ids d)"
proof -
  have f: "inj (db_uuids d)" "\<forall>n \<ge> db_next d. db_uuids d n \<notin> used_ids d"
    using assms by (simp_all add: db_keys_def)
  show "db_uuids d (db_next d) \<notin> used_ids d" using f(2) by blast
  assume n: "Suc (db_next d) \<le> n"
  have "db_uuids d n \<noteq> db_uuids d (db_next d)" using injD [OF f(1), of n "db_next d"] n by auto
  moreover have "db_uuids d n \<notin> used_ids d" using f(2) n by (simp add: Suc_leD)
  ultimately show "db_uuids d n \<notin> insert (db_uuids d (db_next d)) (used_ids d)" by blast
qed

end
