(* ===== verification/Job_Repository.thy ===== *)
theory Job_Repository
  imports Db_Model Tool_Models
begin

text \<open>
  The job queue: \<open>app/domain/job_repository.py\<close>. Every method runs in one transaction. A worker
  owns a job through the number of its attempt, which every write of the worker names; the
  predicate \<open>locked\<close> stands for the rows that another transaction holds when a query says
  \<open>skip_locked=True\<close>.
\<close>

section \<open>Read models\<close>

record claimed_job =
  cj_id :: uuid
  cj_tenant_id :: uuid
  cj_trace_id :: uuid
  cj_status :: job_status
  cj_source_snapshot :: pyval
  cj_tenant_config_snapshot :: pyval
  cj_tenant_config_sha256 :: string
  cj_risk_signals :: pyval
  cj_attempt_count :: nat
  cj_side_effect_committed_at :: "datetime option"
  cj_created_at :: datetime
  cj_available_at :: datetime
  cj_started_at :: "datetime option"

record job_observation_identity =
  oi_trace_id :: uuid
  oi_tenant_config_snapshot :: pyval
  oi_tenant_config_sha256 :: string

record lease_recovery =
  lr_trace_id :: uuid
  lr_tenant_id :: uuid
  lr_job_id :: uuid
  lr_attempt_count :: nat
  lr_status :: job_status
  lr_error_code :: string
  lr_tenant_config_snapshot :: pyval
  lr_tenant_config_sha256 :: string

record persisted_job_read =
  pj_job_id :: uuid
  pj_trace_id :: uuid
  pj_status :: job_status
  pj_attempt_count :: nat
  pj_result :: "py_dict option"
  pj_error_code :: "string option"
  pj_tenant_config_snapshot :: pyval
  pj_tenant_config_sha256 :: string
  pj_approval_id :: "uuid option"
  pj_approval_status :: "approval_status option"
  pj_created_at :: datetime
  pj_started_at :: "datetime option"
  pj_finished_at :: "datetime option"
  pj_result_references :: "result_reference list"

section \<open>Queries\<close>

definition get_job :: "uuid \<Rightarrow> uuid \<Rightarrow> nat \<Rightarrow> db \<Rightarrow> job_row option res" where
  "get_job i t n d =
     scalar_one_or_none (\<lambda>j. job_id j = i \<and> job_tenant_id j = t \<and> job_attempt_count j = n) (db_jobs d)"

definition get_idempotency_for_tenant :: "uuid \<Rightarrow> string \<Rightarrow> db \<Rightarrow> idempotency_row option res" where
  "get_idempotency_for_tenant t k d =
     scalar_one_or_none (\<lambda>r. idr_tenant_id r = t \<and> idr_key r = k) (db_idempotency d)"

definition get_trace_id :: "uuid \<Rightarrow> uuid \<Rightarrow> db \<Rightarrow> uuid option res" where
  "get_trace_id i t d =
     bind_res (scalar_one_or_none (\<lambda>j. job_id j = i \<and> job_tenant_id j = t) (db_jobs d))
       (\<lambda>row. Inr (map_option job_trace_id row))"

definition get_observation_identity :: "uuid \<Rightarrow> uuid \<Rightarrow> db \<Rightarrow> job_observation_identity option res" where
  "get_observation_identity i t d =
     bind_res (scalar_one_or_none (\<lambda>j. job_id j = i \<and> job_tenant_id j = t) (db_jobs d)) (\<lambda>row.
       case row of
         None \<Rightarrow> Inr None
       | Some j \<Rightarrow>
           if as_dict (job_tenant_config_snapshot j) = None then Inr None
           else Inr (Some \<lparr>oi_trace_id = job_trace_id j,
                           oi_tenant_config_snapshot = job_tenant_config_snapshot j,
                           oi_tenant_config_sha256 = job_tenant_config_sha256 j\<rparr>))"

text \<open>The rows of the outer join of a job with its published approval.\<close>

definition job_approval_rows :: "uuid \<Rightarrow> uuid \<Rightarrow> db \<Rightarrow> (job_row \<times> approval_row option) list" where
  "job_approval_rows i t d =
     concat (map (\<lambda>j.
       case filter (\<lambda>a. apr_job_id a = Some (job_id j) \<and> apr_tenant_id a = job_tenant_id j \<and>
                        apr_status a \<in> {A_pending, A_approved, A_rejected, A_expired}) (db_approvals d) of
         [] \<Rightarrow> [(j, None)]
       | as \<Rightarrow> map (\<lambda>a. (j, Some a)) as)
       (filter (\<lambda>j. job_id j = i \<and> job_tenant_id j = t) (db_jobs d)))"

definition artifact_references :: "uuid \<Rightarrow> uuid \<Rightarrow> db \<Rightarrow> result_reference list" where
  "artifact_references i t d =
     map (\<lambda>r. \<lparr>ref_kind = jr_kind r, ref_id = jr_id r\<rparr>)
       (filter (\<lambda>r. jr_kind r \<in> {RefReplyDraft, RefReviewFlag})
         (sort_key (\<lambda>r. (reference_kind_value (jr_kind r), jr_id r))
           (filter (\<lambda>r. jr_tenant_id r = t \<and> jr_job_id r = i) (db_artifacts d))))"

definition get_read_for_tenant :: "uuid \<Rightarrow> uuid \<Rightarrow> db \<Rightarrow> persisted_job_read option res" where
  "get_read_for_tenant i t d =
     bind_res (scalar_one_or_none (\<lambda>_. True) (job_approval_rows i t d)) (\<lambda>row.
       case row of
         None \<Rightarrow> Inr None
       | Some (j, a) \<Rightarrow>
           if as_dict (job_source_snapshot j) = None \<or> as_dict (job_tenant_config_snapshot j) = None
           then Inr None
           else
             bind_res (scalar_one_or_none (\<lambda>r. idr_tenant_id r = t \<and> idr_job_id r = Some i) (db_idempotency d))
               (\<lambda>rec.
               let case_id = (case rec of None \<Rightarrow> None | Some r \<Rightarrow> idr_case_id r);
                   case_refs = (case case_id of None \<Rightarrow> [] | Some c \<Rightarrow> [\<lparr>ref_kind = RefCase, ref_id = c\<rparr>])
               in Inr (Some \<lparr>pj_job_id = job_id j, pj_trace_id = job_trace_id j, pj_status = job_status j,
                             pj_attempt_count = job_attempt_count j, pj_result = job_result j,
                             pj_error_code = job_error_code j,
                             pj_tenant_config_snapshot = job_tenant_config_snapshot j,
                             pj_tenant_config_sha256 = job_tenant_config_sha256 j,
                             pj_approval_id = map_option apr_id a,
                             pj_approval_status = map_option apr_status a,
                             pj_created_at = job_created_at j, pj_started_at = job_started_at j,
                             pj_finished_at = job_finished_at j,
                             pj_result_references = case_refs @ artifact_references i t d\<rparr>)))"

section \<open>Enqueueing\<close>

text \<open>
  \<open>create_job\<close> and the flush that follows it: the defaults of the columns are filled in and the
  unique constraint on the trace is checked.
\<close>

definition create_job ::
  "uuid \<Rightarrow> uuid \<Rightarrow> trusted_source \<Rightarrow> bool \<Rightarrow> resolved_tenant_profile \<Rightarrow> uuid tx" where
  "create_job t trace source risk profile =
     bind_tx (check_tx (\<lambda>d. trace \<notin> job_trace_id ` set (db_jobs d))) (\<lambda>_.
     bind_tx new_id_tx (\<lambda>i.
     bind_tx (write_tx (\<lambda>d. d\<lparr>db_jobs := db_jobs d @
         [\<lparr>job_id = i, job_tenant_id = t, job_trace_id = trace, job_status = J_queued,
           job_source_snapshot = PDict (source_snapshot source),
           job_tenant_config_snapshot = PDict (rp_snapshot profile),
           job_tenant_config_sha256 = rp_sha256 profile,
           job_risk_signals = PDict [(''safety_or_legal_risk'', PBool risk)],
           job_attempt_count = 0, job_available_at = db_now d, job_lease_expires_at = None,
           job_started_at = None, job_finished_at = None, job_side_effect_committed_at = None,
           job_result = None, job_error_code = None, job_created_at = db_now d\<rparr>]\<rparr>)) (\<lambda>_. ret_tx i)))"

definition create_idempotency_record :: "uuid \<Rightarrow> string \<Rightarrow> string \<Rightarrow> uuid \<Rightarrow> unit tx" where
  "create_idempotency_record t k h i =
     bind_tx (check_tx (\<lambda>d. \<forall>r \<in> set (db_idempotency d).
                idr_tenant_id r = t \<longrightarrow> idr_key r \<noteq> k \<and> idr_job_id r \<noteq> Some i)) (\<lambda>_.
     write_tx (\<lambda>d. d\<lparr>db_idempotency := db_idempotency d @
         [\<lparr>idr_tenant_id = t, idr_key = k, idr_request_hash = h, idr_job_id = Some i, idr_case_id = None,
           idr_response = []\<rparr>]\<rparr>))"

section \<open>Leases\<close>

definition cancel_staged_approval :: "uuid \<Rightarrow> uuid \<Rightarrow> unit tx" where
  "cancel_staged_approval i t =
     bind_tx (read_tx (\<lambda>d. scalar_one_or_none
                (\<lambda>a. apr_job_id a = Some i \<and> apr_tenant_id a = t \<and> apr_status a = A_staged) (db_approvals d)))
       (\<lambda>row. case row of
          None \<Rightarrow> ret_tx ()
        | Some a \<Rightarrow> write_tx (\<lambda>d.
            add_approval_event t (apr_id a) ''approval_cancelled'' None []
              (update_approval (apr_id a) (\<lambda>a. a\<lparr>apr_status := A_cancelled\<rparr>) d)))"

fun map_tx :: "('a \<Rightarrow> 'b tx) \<Rightarrow> 'a list \<Rightarrow> 'b list tx" where
  "map_tx f [] = ret_tx []"
| "map_tx f (x # xs) = bind_tx (f x) (\<lambda>y. bind_tx (map_tx f xs) (\<lambda>ys. ret_tx (y # ys)))"

text \<open>One pass of the loop of \<open>recover_expired_leases\<close>.\<close>

definition recover_one :: "datetime \<Rightarrow> int \<Rightarrow> int \<Rightarrow> job_row \<Rightarrow> lease_recovery tx" where
  "recover_one now max_retries retry_delay j =
     (let finish = (\<lambda>s err g.
            bind_tx (write_tx (update_job (job_id j)
                       (\<lambda>r. g (r\<lparr>job_lease_expires_at := None, job_status := s, job_error_code := Some err\<rparr>))))
              (\<lambda>_. ret_tx \<lparr>lr_trace_id = job_trace_id j, lr_tenant_id = job_tenant_id j,
                            lr_job_id = job_id j, lr_attempt_count = job_attempt_count j, lr_status = s,
                            lr_error_code = err,
                            lr_tenant_config_snapshot = job_tenant_config_snapshot j,
                            lr_tenant_config_sha256 = job_tenant_config_sha256 j\<rparr>))
      in if job_side_effect_committed_at j \<noteq> None
         then bind_tx (cancel_staged_approval (job_id j) (job_tenant_id j)) (\<lambda>_.
                finish J_failed_uncertain ''lease_expired_after_side_effect''
                  (\<lambda>r. r\<lparr>job_finished_at := Some now\<rparr>))
         else if int (job_attempt_count j) \<le> max_retries
         then finish J_queued ''lease_expired'' (\<lambda>r. r\<lparr>job_available_at := now + retry_delay\<rparr>)
         else bind_tx (cancel_staged_approval (job_id j) (job_tenant_id j)) (\<lambda>_.
                finish J_failed ''retry_exhausted'' (\<lambda>r. r\<lparr>job_finished_at := Some now\<rparr>)))"

definition lease_expired :: "datetime \<Rightarrow> job_row \<Rightarrow> bool" where
  "lease_expired now j \<longleftrightarrow>
     job_status j = J_running \<and> (case job_lease_expires_at j of None \<Rightarrow> False | Some x \<Rightarrow> x \<le> now)"

definition recover_expired_leases ::
  "(uuid \<Rightarrow> bool) \<Rightarrow> datetime \<Rightarrow> int \<Rightarrow> int \<Rightarrow> lease_recovery list tx" where
  "recover_expired_leases locked now max_retries retry_delay =
     transaction
       (bind_tx (read_tx (\<lambda>d. Inr (filter (\<lambda>j. lease_expired now j \<and> \<not> locked (job_id j)) (db_jobs d))))
         (map_tx (recover_one now max_retries retry_delay)))"

definition claimable :: "(uuid \<Rightarrow> bool) \<Rightarrow> datetime \<Rightarrow> uuid list \<Rightarrow> job_row \<Rightarrow> bool" where
  "claimable locked now excluded j \<longleftrightarrow>
     job_status j = J_queued \<and> job_available_at j \<le> now \<and> job_tenant_id j \<notin> set excluded \<and>
     \<not> locked (job_id j)"

definition claim_row :: "datetime \<Rightarrow> datetime \<Rightarrow> job_row \<Rightarrow> job_row" where
  "claim_row now lease_until j =
     j\<lparr>job_status := J_running, job_attempt_count := Suc (job_attempt_count j),
       job_started_at := (case job_started_at j of None \<Rightarrow> Some now | Some x \<Rightarrow> Some x),
       job_lease_expires_at := Some lease_until\<rparr>"

definition claimed_of :: "job_row \<Rightarrow> claimed_job" where
  "claimed_of j =
     \<lparr>cj_id = job_id j, cj_tenant_id = job_tenant_id j, cj_trace_id = job_trace_id j,
      cj_status = job_status j, cj_source_snapshot = job_source_snapshot j,
      cj_tenant_config_snapshot = job_tenant_config_snapshot j,
      cj_tenant_config_sha256 = job_tenant_config_sha256 j, cj_risk_signals = job_risk_signals j,
      cj_attempt_count = job_attempt_count j,
      cj_side_effect_committed_at = job_side_effect_committed_at j, cj_created_at = job_created_at j,
      cj_available_at = job_available_at j, cj_started_at = job_started_at j\<rparr>"

definition claim_next ::
  "(uuid \<Rightarrow> bool) \<Rightarrow> datetime \<Rightarrow> datetime \<Rightarrow> uuid list \<Rightarrow> claimed_job option tx" where
  "claim_next locked now lease_until excluded =
     transaction
       (bind_tx (read_tx (\<lambda>d. Inr (sort_key (\<lambda>j. (job_available_at j, job_id j))
                    (filter (claimable locked now excluded) (db_jobs d)))))
         (\<lambda>rows. case rows of
            [] \<Rightarrow> ret_tx None
          | j # _ \<Rightarrow>
              bind_tx (write_tx (update_job (job_id j) (claim_row now lease_until))) (\<lambda>_.
                ret_tx (Some (claimed_of (claim_row now lease_until j))))))"

definition renew_lease :: "uuid \<Rightarrow> uuid \<Rightarrow> nat \<Rightarrow> datetime \<Rightarrow> bool tx" where
  "renew_lease i t n lease_until =
     transaction
       (bind_tx (read_tx (get_job i t n)) (\<lambda>row. case row of
          None \<Rightarrow> ret_tx False
        | Some j \<Rightarrow>
            if job_status j \<noteq> J_running then ret_tx False
            else bind_tx (write_tx (update_job i (\<lambda>r. r\<lparr>job_lease_expires_at := Some lease_until\<rparr>)))
                   (\<lambda>_. ret_tx True)))"

section \<open>Writes of the owner of an attempt\<close>

text \<open>The guard that every write of a worker passes: the job is running this very attempt.\<close>

definition owned_job :: "string \<Rightarrow> uuid \<Rightarrow> uuid \<Rightarrow> nat \<Rightarrow> job_row tx" where
  "owned_job msg i t n =
     bind_tx (read_tx (get_job i t n)) (\<lambda>row. case row of
        None \<Rightarrow> raise_tx (JobLeaseLostError msg)
      | Some j \<Rightarrow> if job_status j \<noteq> J_running then raise_tx (JobLeaseLostError msg) else ret_tx j)"

definition mark_terminal ::
  "uuid \<Rightarrow> job_status \<Rightarrow> datetime \<Rightarrow> uuid \<Rightarrow> nat \<Rightarrow> py_dict option \<Rightarrow> string option \<Rightarrow> unit tx" where
  "mark_terminal i s now t n result err =
     transaction
       (bind_tx (owned_job ''job lease ownership changed before terminal transition'' i t n) (\<lambda>_.
        bind_tx (cancel_staged_approval i t) (\<lambda>_.
        write_tx (update_job i (\<lambda>r. r\<lparr>job_status := s, job_finished_at := Some now,
          job_lease_expires_at := None, job_result := result, job_error_code := err\<rparr>)))))"

definition mark_succeeded :: "uuid \<Rightarrow> py_dict \<Rightarrow> datetime \<Rightarrow> uuid \<Rightarrow> nat \<Rightarrow> unit tx" where
  "mark_succeeded i result now t n = mark_terminal i J_succeeded now t n (Some result) None"

definition mark_failed :: "uuid \<Rightarrow> string \<Rightarrow> datetime \<Rightarrow> uuid \<Rightarrow> nat \<Rightarrow> unit tx" where
  "mark_failed i err now t n = mark_terminal i J_failed now t n None (Some err)"

definition mark_failed_uncertain :: "uuid \<Rightarrow> string \<Rightarrow> datetime \<Rightarrow> uuid \<Rightarrow> nat \<Rightarrow> unit tx" where
  "mark_failed_uncertain i err now t n = mark_terminal i J_failed_uncertain now t n None (Some err)"

definition record_awaiting_approval_result :: "uuid \<Rightarrow> py_dict \<Rightarrow> uuid \<Rightarrow> nat \<Rightarrow> unit tx" where
  "record_awaiting_approval_result i result t n =
     transaction
       (bind_tx (owned_job ''job approval ownership changed before result persistence'' i t n) (\<lambda>_.
        bind_tx (read_tx (\<lambda>d. scalar_one_or_none (\<lambda>a. apr_job_id a = Some i \<and> apr_tenant_id a = t)
                                 (db_approvals d))) (\<lambda>row.
        case row of
          None \<Rightarrow> raise_tx (JobLeaseLostError ''job approval changed before result persistence'')
        | Some a \<Rightarrow>
            if apr_status a \<noteq> A_staged
            then raise_tx (JobLeaseLostError ''job approval changed before result persistence'')
            else
              bind_tx (write_tx (update_approval (apr_id a) (\<lambda>r. r\<lparr>apr_status := A_pending\<rparr>))) (\<lambda>_.
              write_tx (update_job i (\<lambda>r. r\<lparr>job_status := J_awaiting_approval, job_finished_at := None,
                job_lease_expires_at := None, job_result := Some result, job_error_code := None\<rparr>))))))"

definition schedule_retry :: "uuid \<Rightarrow> string \<Rightarrow> datetime \<Rightarrow> uuid \<Rightarrow> nat \<Rightarrow> unit tx" where
  "schedule_retry i err available t n =
     transaction
       (bind_tx (owned_job ''job lease ownership changed before retry scheduling'' i t n) (\<lambda>_.
        write_tx (update_job i (\<lambda>r. r\<lparr>job_status := J_queued, job_error_code := Some err,
          job_available_at := available, job_lease_expires_at := None\<rparr>))))"

definition get_side_effect_marker :: "uuid \<Rightarrow> uuid \<Rightarrow> nat \<Rightarrow> datetime option tx" where
  "get_side_effect_marker i t n =
     bind_tx (owned_job ''job lease ownership changed before side-effect inspection'' i t n) (\<lambda>j.
       ret_tx (job_side_effect_committed_at j))"

end
