(* ===== verification/Case_Store.thy ===== *)
theory Case_Store
  imports Job_Repository
begin

text \<open>
  Cases and artifacts: \<open>app/domain/repositories.py\<close>, \<open>app/domain/service.py\<close>,
  \<open>app/domain/artifact_repository.py\<close> and \<open>app/domain/artifacts.py\<close>. Foreign keys to jobs and
  customers are checked when a row is inserted; the table of tenants is not modelled.
\<close>

section \<open>Cases\<close>

definition get_case_for_tenant :: "uuid \<Rightarrow> uuid \<Rightarrow> db \<Rightarrow> case_row option res" where
  "get_case_for_tenant i t d = scalar_one_or_none (\<lambda>r. ic_id r = i \<and> ic_tenant_id r = t) (db_cases d)"

definition get_customer_for_tenant :: "uuid \<Rightarrow> uuid \<Rightarrow> db \<Rightarrow> customer_row option res" where
  "get_customer_for_tenant i t d =
     scalar_one_or_none (\<lambda>r. cu_id r = i \<and> cu_tenant_id r = t) (db_customers d)"

text \<open>\<open>scalars().first()\<close> without an order: the first row of the table that matches.\<close>

definition find_customer_for_tenant :: "uuid \<Rightarrow> string option \<Rightarrow> string option \<Rightarrow> db \<Rightarrow> customer_row option" where
  "find_customer_for_tenant t email ext d =
     (if email = None \<and> ext = None then None
      else next_item (\<lambda>r. cu_tenant_id r = t \<and>
             ((email \<noteq> None \<and> cu_email r = email) \<or> (ext \<noteq> None \<and> cu_external_id r = ext))) (db_customers d))"

text \<open>
  \<open>CaseService.create_agent_case\<close> through \<open>CaseRepository.create_from_source\<close> with its flush, and
  \<open>CaseService.append_event\<close>.
\<close>

definition create_agent_case :: "uuid \<Rightarrow> trusted_source \<Rightarrow> uuid option \<Rightarrow> py_dict \<Rightarrow> case_row tx" where
  "create_agent_case t src customer fs =
     bind_tx (check_tx (\<lambda>d. case customer of None \<Rightarrow> True
                | Some c \<Rightarrow> (\<exists>r \<in> set (db_customers d). cu_id r = c \<and> cu_tenant_id r = t))) (\<lambda>_.
     bind_tx new_id_tx (\<lambda>i.
       let row = \<lparr>ic_id = i, ic_tenant_id = t, ic_customer_id = customer, ic_status = ''received'',
                  ic_channel = ts_channel src, ic_subject = ts_subject src, ic_body = ts_body src,
                  ic_source = Some (ts_channel src),
                  ic_raw_payload = [(''channel'', PStr (ts_channel src)), (''subject'', PStr (ts_subject src)),
                                    (''body'', PStr (ts_body src))],
                  ic_extracted_fields = fs\<rparr>
       in bind_tx (write_tx (\<lambda>d. d\<lparr>db_cases := db_cases d @ [row]\<rparr>)) (\<lambda>_. ret_tx row)))"

definition append_event :: "uuid \<Rightarrow> uuid \<Rightarrow> string \<Rightarrow> py_dict \<Rightarrow> unit tx" where
  "append_event t c ty payload = write_tx (add_case_event t c ty payload)"

text \<open>\<open>case.extracted_fields = merged\<close>, and the event that records it.\<close>

definition assign_case_fields :: "case_row \<Rightarrow> py_dict \<Rightarrow> unit tx" where
  "assign_case_fields c fs =
     write_tx (update_case (ic_id c) (\<lambda>r. r\<lparr>ic_extracted_fields := dict_update (ic_extracted_fields c) fs\<rparr>))"

definition fields_updated_event :: "uuid \<Rightarrow> case_row \<Rightarrow> py_dict \<Rightarrow> unit tx" where
  "fields_updated_event t c fs =
     append_event t (ic_id c) ''fields_updated'' [(''updated_fields'', str_list (sort (dict_keys fs)))]"

definition set_case_row :: "uuid \<Rightarrow> uuid \<Rightarrow> uuid \<Rightarrow> idempotency_row \<Rightarrow> idempotency_row" where
  "set_case_row t i c r =
     (if idr_tenant_id r = t \<and> idr_job_id r = Some i then r\<lparr>idr_case_id := Some c\<rparr> else r)"

definition set_idempotency_case :: "uuid \<Rightarrow> uuid \<Rightarrow> uuid \<Rightarrow> db \<Rightarrow> db" where
  "set_idempotency_case t i c d = d\<lparr>db_idempotency := map (set_case_row t i c) (db_idempotency d)\<rparr>"

section \<open>Artifacts\<close>

definition get_artifact_for_tenant :: "uuid \<Rightarrow> uuid \<Rightarrow> db \<Rightarrow> artifact_row option res" where
  "get_artifact_for_tenant i t d =
     scalar_one_or_none (\<lambda>r. jr_id r = i \<and> jr_tenant_id r = t) (db_artifacts d)"

definition find_artifact :: "uuid \<Rightarrow> uuid \<Rightarrow> reference_kind \<Rightarrow> db \<Rightarrow> artifact_row option res" where
  "find_artifact t i k d =
     scalar_one_or_none (\<lambda>r. jr_tenant_id r = t \<and> jr_job_id r = i \<and> jr_kind r = k) (db_artifacts d)"

text \<open>\<open>begin_nested\<close>: an \<open>IntegrityError\<close> rolls back to the savepoint and is handled.\<close>

definition nested_tx :: "'a tx \<Rightarrow> 'a tx \<Rightarrow> 'a tx" where
  "nested_tx body handler d =
     (case body d of (Inl IntegrityError, _) \<Rightarrow> handler d | r \<Rightarrow> r)"

definition insert_artifact :: "uuid \<Rightarrow> uuid \<Rightarrow> reference_kind \<Rightarrow> py_dict \<Rightarrow> uuid tx" where
  "insert_artifact t i k payload =
     bind_tx (check_tx (\<lambda>d. (\<forall>r \<in> set (db_artifacts d). \<not> (jr_tenant_id r = t \<and> jr_job_id r = i \<and> jr_kind r = k)) \<and>
                             (\<exists>j \<in> set (db_jobs d). job_id j = i \<and> job_tenant_id j = t))) (\<lambda>_.
     bind_tx new_id_tx (\<lambda>u.
     bind_tx (write_tx (\<lambda>d. d\<lparr>db_artifacts := db_artifacts d @
        [\<lparr>jr_id = u, jr_tenant_id = t, jr_job_id = i, jr_kind = k, jr_payload = payload\<rparr>]\<rparr>)) (\<lambda>_.
     ret_tx u)))"

definition create_for_job :: "uuid \<Rightarrow> uuid \<Rightarrow> reference_kind \<Rightarrow> py_dict \<Rightarrow> result_reference tx" where
  "create_for_job t i k payload =
     bind_tx (read_tx (find_artifact t i k)) (\<lambda>existing. case existing of
       Some r \<Rightarrow> ret_tx \<lparr>ref_kind = k, ref_id = jr_id r\<rparr>
     | None \<Rightarrow>
         nested_tx
           (bind_tx (insert_artifact t i k payload) (\<lambda>u. ret_tx \<lparr>ref_kind = k, ref_id = u\<rparr>))
           (bind_tx (read_tx (find_artifact t i k)) (\<lambda>again. case again of
              None \<Rightarrow> raise_tx IntegrityError
            | Some r \<Rightarrow> ret_tx \<lparr>ref_kind = k, ref_id = jr_id r\<rparr>)))"

section \<open>The view of a tenant\<close>

text \<open>The tables that tools and approved commands write, restricted to one tenant.\<close>

definition tenant_rows :: "uuid \<Rightarrow> db \<Rightarrow>
    case_row list \<times> case_event_row list \<times> artifact_row list \<times> idempotency_row list \<times> customer_row list" where
  "tenant_rows t d =
     (filter (\<lambda>r. ic_tenant_id r = t) (db_cases d), filter (\<lambda>r. ce_tenant_id r = t) (db_case_events d),
      filter (\<lambda>r. jr_tenant_id r = t) (db_artifacts d), filter (\<lambda>r. idr_tenant_id r = t) (db_idempotency d),
      filter (\<lambda>r. cu_tenant_id r = t) (db_customers d))"

section \<open>Lemmas\<close>

lemma nested_tx_Inr:
  "nested_tx b h d = (Inr x, e) \<longleftrightarrow>
     b d = (Inr x, e) \<or> (\<exists>e'. b d = (Inl IntegrityError, e') \<and> h d = (Inr x, e))"
  by (auto simp: nested_tx_def split: prod.splits sum.splits exn.splits)

lemma filter_update_rows:
  assumes "\<And>r. r \<in> set xs \<Longrightarrow> f r = k \<Longrightarrow> \<not> P r \<and> \<not> P (g r)"
  shows "filter P (update_rows f k g xs) = filter P xs"
  using assms by (induction xs) (auto simp: update_rows_def)

section \<open>Frame\<close>

text \<open>
  A command of a tool for tenant \<open>t\<close> leaves jobs, approvals and their events alone, keeps the keys,
  and changes no row of another tenant.
\<close>

definition tool_frame :: "uuid \<Rightarrow> db \<Rightarrow> db \<Rightarrow> bool" where
  "tool_frame t d d' \<longleftrightarrow>
     db_jobs d' = db_jobs d \<and> db_approvals d' = db_approvals d \<and> db_approval_events d' = db_approval_events d \<and>
     requests d' = requests d \<and>
     (db_keys d \<longrightarrow> db_keys d' \<and> (\<forall>u. u \<noteq> t \<longrightarrow> tenant_rows u d' = tenant_rows u d))"

definition framed :: "uuid \<Rightarrow> 'a tx \<Rightarrow> bool" where
  "framed t m \<longleftrightarrow> (\<forall>d x d'. m d = (Inr x, d') \<longrightarrow> tool_frame t d d')"

lemma tool_frame_refl [simp]: "tool_frame t d d"
  by (simp add: tool_frame_def)

lemma tool_frame_trans: "tool_frame t a b \<Longrightarrow> tool_frame t b c \<Longrightarrow> tool_frame t a c"
  by (auto simp: tool_frame_def)

lemma framed_basic [simp, intro]:
  "framed t (ret_tx x)" "framed t (raise_tx e)" "framed t (read_tx q)" "framed t (check_tx P)"
  by (auto simp: framed_def tx_iffs)

lemma framed_bind [intro]:
  assumes "framed t m" "\<And>x. framed t (f x)"
  shows "framed t (bind_tx m f)"
  using assms unfolding framed_def bind_tx_Inr by (blast intro: tool_frame_trans)

lemma framed_nested [intro]:
  assumes "framed t b" "framed t h"
  shows "framed t (nested_tx b h)"
  using assms unfolding framed_def nested_tx_Inr by blast

lemma framed_event [intro]: "framed t (append_event t c ty payload)"
  by (auto simp: framed_def append_event_def tx_iffs tool_frame_def add_case_event_def db_keys_def used_ids_def
      tenant_rows_def requests_def)

lemma distinct_map_filter_map:
  assumes "\<And>r. f (g r) = f r" "\<And>r. P (g r) = P r"
  shows "map f (filter P (map g xs)) = map f (filter P xs)"
  using assms by (induction xs) auto

lemma set_case_row_keys [simp]:
  "idr_tenant_id (set_case_row t i c r) = idr_tenant_id r" "idr_key (set_case_row t i c r) = idr_key r"
  "idr_job_id (set_case_row t i c r) = idr_job_id r" "idr_request_hash (set_case_row t i c r) = idr_request_hash r"
  by (simp_all add: set_case_row_def)

lemma framed_set_case [intro]: "framed t (write_tx (set_idempotency_case t i c))"
proof -
  have "map (\<lambda>r. (idr_tenant_id r, idr_job_id r)) (filter (\<lambda>r. idr_job_id r \<noteq> None) (map (set_case_row t i c) xs)) =
     map (\<lambda>r. (idr_tenant_id r, idr_job_id r)) (filter (\<lambda>r. idr_job_id r \<noteq> None) xs)" for xs
    by (rule distinct_map_filter_map) auto
  moreover have "filter (\<lambda>r. idr_tenant_id r = u) (map (set_case_row t i c) xs) = filter (\<lambda>r. idr_tenant_id r = u) xs"
    if "u \<noteq> t" for u xs
    using that by (induction xs) (auto simp: set_case_row_def)
  ultimately show ?thesis
    by (simp add: framed_def tx_iffs tool_frame_def set_idempotency_case_def db_keys_def used_ids_def
        tenant_rows_def comp_def requests_def image_image request_of_def)
qed

lemma framed_create_case [intro]: "framed t (create_agent_case t src customer fs)"
  unfolding framed_def
proof (intro allI impI)
  fix d x d'
  assume "create_agent_case t src customer fs d = (Inr x, d')"
  then have row: "ic_id x = db_uuids d (db_next d)" "ic_tenant_id x = t"
    and d': "d' = d\<lparr>db_next := Suc (db_next d), db_cases := db_cases d @ [x]\<rparr>"
    by (auto simp: create_agent_case_def tx_iffs Let_def)
  have "db_keys d'" if keys: "db_keys d"
  proof -
    have "used_ids d' = insert (db_uuids d (db_next d)) (used_ids d)"
      using row d' by (auto simp: used_ids_def)
    moreover have "ic_id x \<notin> ic_id ` set (db_cases d)"
      using fresh_keys(1) [OF keys] row(1) by (simp add: used_ids_def)
    ultimately show ?thesis
      using keys fresh_keys(2) [OF keys] by (auto simp: db_keys_def d')
  qed
  then show "tool_frame t d d'"
    using row(2) by (auto simp: tool_frame_def d' tenant_rows_def requests_def)
qed

lemma framed_insert_artifact [intro]: "framed t (insert_artifact t i k payload)"
  unfolding framed_def
proof (intro allI impI)
  fix d x d'
  assume "insert_artifact t i k payload d = (Inr x, d')"
  moreover define row where "row = \<lparr>jr_id = db_uuids d (db_next d), jr_tenant_id = t, jr_job_id = i, jr_kind = k,
    jr_payload = payload\<rparr>"
  ultimately have row: "jr_id row = db_uuids d (db_next d)" "jr_tenant_id row = t" "jr_job_id row = i" "jr_kind row = k"
    and d': "d' = d\<lparr>db_next := Suc (db_next d), db_artifacts := db_artifacts d @ [row]\<rparr>"
    and n: "\<forall>r \<in> set (db_artifacts d). \<not> (jr_tenant_id r = t \<and> jr_job_id r = i \<and> jr_kind r = k)"
    by (auto simp: insert_artifact_def tx_iffs)
  have "db_keys d'" if keys: "db_keys d"
  proof -
    have "used_ids d' = insert (db_uuids d (db_next d)) (used_ids d)"
      using row d' by (auto simp: used_ids_def)
    moreover have "jr_id row \<notin> jr_id ` set (db_artifacts d)"
      using fresh_keys(1) [OF keys] row(1) by (simp add: used_ids_def)
    ultimately show ?thesis
      using keys fresh_keys(2) [OF keys] n row by (auto simp: db_keys_def d')
  qed
  then show "tool_frame t d d'"
    using row(2) by (auto simp: tool_frame_def d' tenant_rows_def requests_def)
qed

lemma framed_create_for_job [intro]: "framed t (create_for_job t i k payload)"
  unfolding create_for_job_def
  by (auto intro!: framed_bind framed_nested framed_insert_artifact split: option.split)

text \<open>Updating a case is confined to the tenant because the case was looked up under it.\<close>

lemma update_case_frame:
  assumes "c \<in> set (db_cases d)" "ic_tenant_id c = t"
  shows "tool_frame t d (update_case (ic_id c) (\<lambda>r. r\<lparr>ic_extracted_fields := fs\<rparr>) d)"
proof -
  let ?d = "update_case (ic_id c) (\<lambda>r. r\<lparr>ic_extracted_fields := fs\<rparr>) d"
  have ids: "map ic_id (db_cases ?d) = map ic_id (db_cases d)"
    by (simp add: update_case_def)
  then have "ic_id ` set (db_cases ?d) = ic_id ` set (db_cases d)" by (metis list.set_map)
  then have "used_ids ?d = used_ids d" by (simp add: used_ids_def) (simp add: update_case_def)
  then have k: "db_keys d \<Longrightarrow> db_keys ?d"
    using ids by (simp add: db_keys_def) (simp add: update_case_def)
  have "filter (\<lambda>r. ic_tenant_id r = u) (db_cases ?d) = filter (\<lambda>r. ic_tenant_id r = u) (db_cases d)"
    if "db_keys d" "u \<noteq> t" for u
  proof -
    have "r = c" if "r \<in> set (db_cases d)" "ic_id r = ic_id c" for r
      using \<open>db_keys d\<close> that assms(1) distinct_key_eq [of ic_id "db_cases d" r c] by (simp add: db_keys_def)
    then show ?thesis
      unfolding update_case_def using assms(2) \<open>u \<noteq> t\<close>
      by simp (rule filter_update_rows, fastforce)
  qed
  then show ?thesis
    using k by (auto simp: tool_frame_def tenant_rows_def update_case_def requests_def)
qed

lemma framed_fields_event [intro]: "framed t (fields_updated_event t c fs)"
  unfolding fields_updated_event_def by (rule framed_event)

lemma framed_merge [intro]:
  assumes "\<And>c. framed t (f c)" "framed t m"
  shows "framed t (bind_tx (read_tx (get_case_for_tenant i t)) (\<lambda>row.
     case row of None \<Rightarrow> m | Some c \<Rightarrow> bind_tx (assign_case_fields c fs) (\<lambda>_. f c)))"
  unfolding framed_def
proof (intro allI impI)
  fix d x d'
  assume a: "bind_tx (read_tx (get_case_for_tenant i t)) (\<lambda>row.
     case row of None \<Rightarrow> m | Some c \<Rightarrow> bind_tx (assign_case_fields c fs) (\<lambda>_. f c)) d = (Inr x, d')"
  then obtain row where row: "get_case_for_tenant i t d = Inr row" by (auto simp: tx_iffs)
  show "tool_frame t d d'"
  proof (cases row)
    case None
    then show ?thesis using a row assms(2) by (auto simp: tx_iffs framed_def)
  next
    case (Some c)
    then have c: "c \<in> set (db_cases d)" "ic_tenant_id c = t"
      using row scalar_one_or_none_SomeD by (fastforce simp: get_case_for_tenant_def)+
    let ?e = "update_case (ic_id c) (\<lambda>r. r\<lparr>ic_extracted_fields := dict_update (ic_extracted_fields c) fs\<rparr>) d"
    have "f c ?e = (Inr x, d')"
      using a row Some by (auto simp: tx_iffs assign_case_fields_def)
    then have "tool_frame t ?e d'" using assms(1) by (auto simp: framed_def)
    with update_case_frame [OF c] show ?thesis by (rule tool_frame_trans)
  qed
qed

end
