(* ===== verification/Approval_Repository.thy ===== *)
theory Approval_Repository
  imports Job_Repository
begin

text \<open>
  Approval requests: \<open>app/domain/approval_repository.py\<close>. A request is staged while its job runs,
  published when the job is parked, and decided once; each transition also resolves the job.
\<close>

section \<open>The frozen command\<close>

text \<open>\<open>PendingAction.model_dump(mode="json")\<close> and \<open>PendingAction.model_validate\<close>.\<close>

definition pending_action_dump :: "pending_action \<Rightarrow> py_dict" where
  "pending_action_dump a =
     [(''version'', PInt (pa_version a)), (''name'', PStr (pa_name a)),
      (''arguments'', PDict (pa_arguments a)), (''known_fields'', PDict (pa_known_fields a))]"

definition pending_action_validate :: "py_dict \<Rightarrow> pending_action res" where
  "pending_action_validate d =
     (case (key_default ''version'' 1 as_int d, key ''name'' as_str d, key ''arguments'' as_dict d,
            key ''known_fields'' as_dict d) of
        (Some version, Some name, Some args, Some known) \<Rightarrow>
          bind_res (no_extra [''version'', ''name'', ''arguments'', ''known_fields''] d) (\<lambda>_.
            mk_pending_action version name args known)
      | _ \<Rightarrow> validation_error)"

section \<open>Queries\<close>

text \<open>The job an approval joins with; the key of jobs is unique.\<close>

definition joined_job :: "db \<Rightarrow> approval_row \<Rightarrow> job_row option" where
  "joined_job d a =
     (case apr_job_id a of
        None \<Rightarrow> None
      | Some i \<Rightarrow> next_item (\<lambda>j. job_id j = i \<and> job_tenant_id j = apr_tenant_id a) (db_jobs d))"

definition published_lifecycle_predicate :: "db \<Rightarrow> approval_row \<Rightarrow> bool" where
  "published_lifecycle_predicate d a \<longleftrightarrow>
     (apr_job_id a = None \<and> apr_status a \<in> {A_pending, A_approved, A_rejected, A_expired}) \<or>
     (case joined_job d a of
        None \<Rightarrow> False
      | Some j \<Rightarrow>
          (apr_status a = A_pending \<and> job_status j = J_awaiting_approval) \<or>
          (apr_status a \<in> {A_approved, A_rejected} \<and> job_status j = J_succeeded) \<or>
          (apr_status a = A_expired \<and> job_status j = J_failed))"

definition get_for_tenant :: "uuid \<Rightarrow> uuid \<Rightarrow> db \<Rightarrow> approval_row option res" where
  "get_for_tenant i t d =
     scalar_one_or_none (\<lambda>a. apr_id a = i \<and> apr_tenant_id a = t \<and> published_lifecycle_predicate d a)
       (db_approvals d)"

text \<open>The key \<open>expires_at, id\<close> in ascending order, where a null date comes last.\<close>

definition expiry_key :: "approval_row \<Rightarrow> bool \<times> datetime \<times> uuid" where
  "expiry_key a = (case apr_expires_at a of None \<Rightarrow> (True, 0, apr_id a) | Some x \<Rightarrow> (False, x, apr_id a))"

definition list_for_tenant :: "uuid \<Rightarrow> approval_status \<Rightarrow> int \<Rightarrow> db \<Rightarrow> approval_row list" where
  "list_for_tenant t s limit d =
     (let bounded = min (max limit 1) 100
      in take (nat bounded + 1) (sort_key expiry_key
           (filter (\<lambda>a. apr_tenant_id a = t \<and> apr_status a = s \<and> published_lifecycle_predicate d a)
             (db_approvals d))))"

definition get_job_for_update :: "uuid \<Rightarrow> uuid \<Rightarrow> db \<Rightarrow> job_row option res" where
  "get_job_for_update t i d =
     scalar_one_or_none (\<lambda>j. job_id j = i \<and> job_tenant_id j = t) (db_jobs d)"

definition job_unavailable :: exn where
  "job_unavailable = ApprovalCreationConflict ''approval job is unavailable''"

definition get_job_trace_id :: "approval_row \<Rightarrow> db \<Rightarrow> uuid res" where
  "get_job_trace_id a d =
     (case apr_job_id a of
        None \<Rightarrow> Inl job_unavailable
      | Some i \<Rightarrow>
          bind_res (get_job_for_update (apr_tenant_id a) i d) (\<lambda>row.
            case row of None \<Rightarrow> Inl job_unavailable | Some j \<Rightarrow> Inr (job_trace_id j)))"

definition get_job_observation_identity :: "approval_row \<Rightarrow> db \<Rightarrow> job_observation_identity option res" where
  "get_job_observation_identity a d =
     (case apr_job_id a of
        None \<Rightarrow> Inr None
      | Some i \<Rightarrow> get_observation_identity i (apr_tenant_id a) d)"

section \<open>Staging\<close>

definition replaces :: "approval_row \<Rightarrow> pending_action \<Rightarrow> string \<Rightarrow> string \<Rightarrow> bool" where
  "replaces a act reason sha \<longleftrightarrow>
     apr_action a \<noteq> pa_name act \<or>
     (case apr_pending_action a of None \<Rightarrow> True | Some p \<Rightarrow> \<not> py_dict_eq p (pending_action_dump act)) \<or>
     apr_policy_reason a \<noteq> Some reason \<or> apr_tenant_config_sha256 a \<noteq> Some sha"

definition request_payload :: "pending_action \<Rightarrow> string \<Rightarrow> py_dict" where
  "request_payload act reason = [(''action'', PStr (pa_name act)), (''policy_reason'', PStr reason)]"

text \<open>The branch that reuses the staged request of an earlier attempt.\<close>

definition refresh_approval ::
  "approval_row \<Rightarrow> job_row \<Rightarrow> pending_action \<Rightarrow> string \<Rightarrow> datetime \<Rightarrow> approval_requested tx" where
  "refresh_approval a j act reason expires =
     (if apr_pending_action a = None
      then raise_tx (ApprovalCreationConflict ''legacy approval cannot be reused'')
      else if apr_expires_at a = None
      then raise_tx (ApprovalCreationConflict ''approval expiry is unavailable'')
      else if apr_status a \<noteq> A_staged
      then raise_tx (ApprovalCreationConflict ''approval is already published'')
      else
        bind_tx
          (if replaces a act reason (job_tenant_config_sha256 j)
           then write_tx (\<lambda>d. add_approval_event (job_tenant_id j) (apr_id a) ''approval_replaced'' None
                    (request_payload act reason)
                  (update_approval (apr_id a)
                    (\<lambda>r. r\<lparr>apr_action := pa_name act, apr_policy_reason := Some reason,
                            apr_pending_action := Some (pending_action_dump act),
                            apr_tenant_config_sha256 := Some (job_tenant_config_sha256 j)\<rparr>) d))
           else ret_tx ())
          (\<lambda>_. bind_tx (write_tx (update_approval (apr_id a) (\<lambda>r. r\<lparr>apr_expires_at := Some expires\<rparr>)))
            (\<lambda>_. ret_tx \<lparr>rq_id = apr_id a, rq_expires_at = expires\<rparr>)))"

definition new_approval :: "uuid \<Rightarrow> job_row \<Rightarrow> pending_action \<Rightarrow> string \<Rightarrow> datetime \<Rightarrow> datetime \<Rightarrow> approval_row" where
  "new_approval i j act reason expires created =
     \<lparr>apr_id = i, apr_tenant_id = job_tenant_id j, apr_case_id = None, apr_job_id = Some (job_id j),
      apr_action = pa_name act, apr_status = A_staged, apr_decision = [], apr_policy_reason = Some reason,
      apr_pending_action = Some (pending_action_dump act),
      apr_tenant_config_sha256 = Some (job_tenant_config_sha256 j), apr_expires_at = Some expires,
      apr_decided_at = None, apr_decided_by_actor_ref = None, apr_decision_reason = None,
      apr_executed_at = None, apr_execution_result = Some [], apr_created_at = created\<rparr>"

definition stage_approval :: "job_row \<Rightarrow> pending_action \<Rightarrow> string \<Rightarrow> datetime \<Rightarrow> approval_requested tx" where
  "stage_approval j act reason expires =
     bind_tx (check_tx (\<lambda>d. \<forall>a \<in> set (db_approvals d). apr_job_id a \<noteq> Some (job_id j))) (\<lambda>_.
     bind_tx new_id_tx (\<lambda>i.
     bind_tx (write_tx (\<lambda>d. add_approval_event (job_tenant_id j) i ''approval_requested'' None
                (request_payload act reason)
              (d\<lparr>db_approvals := db_approvals d @ [new_approval i j act reason expires (db_now d)]\<rparr>)))
       (\<lambda>_. ret_tx \<lparr>rq_id = i, rq_expires_at = expires\<rparr>)))"

definition create_for_running_job ::
  "uuid \<Rightarrow> uuid \<Rightarrow> nat \<Rightarrow> pending_action \<Rightarrow> string \<Rightarrow> int \<Rightarrow> datetime \<Rightarrow> approval_requested tx" where
  "create_for_running_job t i n act reason expires_in now =
     transaction
       (bind_tx (read_tx (get_job_for_update t i)) (\<lambda>row. case row of
          None \<Rightarrow> raise_tx (ApprovalCreationConflict ''job is unavailable'')
        | Some j \<Rightarrow>
            if job_status j \<noteq> J_running \<or> job_attempt_count j \<noteq> n
            then raise_tx (ApprovalCreationConflict ''job is not running'')
            else
              bind_tx (read_tx (\<lambda>d. scalar_one_or_none
                  (\<lambda>a. apr_tenant_id a = t \<and> apr_job_id a = Some i) (db_approvals d)))
                (\<lambda>existing. case existing of
                   Some a \<Rightarrow> refresh_approval a j act reason (now + expires_in)
                 | None \<Rightarrow> stage_approval j act reason (now + expires_in))))"

section \<open>Resolution\<close>

definition expire_row :: "datetime \<Rightarrow> approval_row \<Rightarrow> approval_row" where
  "expire_row now a =
     a\<lparr>apr_status := A_expired, apr_decided_at := Some now,
       apr_decided_by_actor_ref := Some ''system_timeout'', apr_decision_reason := Some ''approval_timeout'',
       apr_decision := [(''decision'', PStr ''reject''), (''reason'', PStr ''approval_timeout'')]\<rparr>"

definition expire_locked :: "approval_row \<Rightarrow> datetime \<Rightarrow> approval_row tx" where
  "expire_locked a now =
     (if apr_status a \<noteq> A_pending then ret_tx a
      else bind_tx (write_tx (\<lambda>d. add_approval_event (apr_tenant_id a) (apr_id a) ''approval_expired''
                (Some ''system_timeout'') [] (update_approval (apr_id a) (expire_row now) d)))
             (\<lambda>_. ret_tx (expire_row now a)))"

text \<open>The job status, error code and business outcome of a final decision.\<close>

fun decision_resolution :: "approval_status \<Rightarrow> (job_status \<times> string option \<times> string) option" where
  "decision_resolution A_approved = Some (J_succeeded, None, ''tool_result'')"
| "decision_resolution A_rejected = Some (J_succeeded, None, ''approval_rejected'')"
| "decision_resolution A_expired = Some (J_failed, Some ''approval_expired'', ''approval_expired'')"
| "decision_resolution _ = None"

definition decision_case_id :: "approval_row \<Rightarrow> uuid option" where
  "decision_case_id a =
     (case apr_case_id a of
        Some c \<Rightarrow> Some c
      | None \<Rightarrow>
          (case apr_execution_result a of
             None \<Rightarrow> None
           | Some r \<Rightarrow> (case key ''case_id'' as_str r of None \<Rightarrow> None | Some s \<Rightarrow> uuid_parse s)))"

definition preserved_keys :: "string list" where
  "preserved_keys = [''reason'', ''steps'', ''execution_path'', ''routing_status'', ''routing_reason'',
     ''missing_required_fields'']"

definition preserved_result :: "py_dict option \<Rightarrow> py_dict" where
  "preserved_result r =
     (case r of
        None \<Rightarrow> []
      | Some d \<Rightarrow> concat (map (\<lambda>k. case map_of d k of None \<Rightarrow> [] | Some v \<Rightarrow> [(k, v)]) preserved_keys))"

definition decision_result :: "approval_row \<Rightarrow> job_row \<Rightarrow> string \<Rightarrow> py_dict" where
  "decision_result a j outcome =
     preserved_result (job_result j) @
     [(''business_outcome'', PStr outcome), (''approval_id'', PStr (uuid_str (apr_id a))),
      (''approval_status'', PStr (approval_status_value (apr_status a))),
      (''result_reference'', PDict (case decision_case_id a of
         None \<Rightarrow> [] | Some c \<Rightarrow> [(''case_id'', PStr (uuid_str c))]))]"

definition already_resolved :: "approval_row \<Rightarrow> job_row \<Rightarrow> job_status \<Rightarrow> bool" where
  "already_resolved a j s \<longleftrightarrow>
     job_status j = s \<and>
     (case job_result j of
        None \<Rightarrow> False
      | Some r \<Rightarrow> map_of r ''approval_id'' = Some (PStr (uuid_str (apr_id a))) \<and>
                  map_of r ''approval_status'' = Some (PStr (approval_status_value (apr_status a))))"

definition finalize_job_for_decision :: "approval_row \<Rightarrow> job_row \<Rightarrow> datetime \<Rightarrow> job_row res" where
  "finalize_job_for_decision a j now =
     (case decision_resolution (apr_status a) of
        None \<Rightarrow> Inl (ApprovalCreationConflict ''approval decision is not final'')
      | Some (s, err, outcome) \<Rightarrow>
          if job_status j \<noteq> J_awaiting_approval
          then if already_resolved a j s then Inr j
               else Inl (ApprovalCreationConflict ''approval job is not awaiting approval'')
          else Inr (j\<lparr>job_status := s, job_error_code := err, job_finished_at := Some now,
                       job_lease_expires_at := None, job_result := Some (decision_result a j outcome)\<rparr>))"

definition finalize_tx :: "approval_row \<Rightarrow> job_row \<Rightarrow> datetime \<Rightarrow> unit tx" where
  "finalize_tx a j now =
     (case finalize_job_for_decision a j now of
        Inl e \<Rightarrow> raise_tx e
      | Inr j' \<Rightarrow> write_tx (update_job (job_id j) (\<lambda>_. j')))"

section \<open>Expiry\<close>

record expired_approval =
  ea_trace_id :: uuid
  ea_tenant_id :: uuid
  ea_job_id :: uuid
  ea_approval_id :: uuid
  ea_created_at :: datetime
  ea_decided_at :: datetime
  ea_tenant_config_snapshot :: pyval
  ea_tenant_config_sha256 :: string

definition due :: "db \<Rightarrow> datetime \<Rightarrow> approval_row \<Rightarrow> bool" where
  "due d now a \<longleftrightarrow>
     apr_status a = A_pending \<and>
     (apr_job_id a = None \<or>
      (case joined_job d a of None \<Rightarrow> False | Some j \<Rightarrow> job_status j = J_awaiting_approval)) \<and>
     (case apr_expires_at a of None \<Rightarrow> False | Some x \<Rightarrow> x \<le> now)"

definition expired_observation :: "datetime \<Rightarrow> approval_row \<Rightarrow> db \<Rightarrow> expired_approval list res" where
  "expired_observation now a d =
     (case apr_job_id a of
        None \<Rightarrow> Inr []
      | Some i \<Rightarrow>
          bind_res (get_job_observation_identity a d) (\<lambda>identity. case identity of
            None \<Rightarrow> Inr []
          | Some o' \<Rightarrow>
              Inr [\<lparr>ea_trace_id = oi_trace_id o', ea_tenant_id = apr_tenant_id a, ea_job_id = i,
                    ea_approval_id = apr_id a, ea_created_at = apr_created_at a, ea_decided_at = now,
                    ea_tenant_config_snapshot = oi_tenant_config_snapshot o',
                    ea_tenant_config_sha256 = oi_tenant_config_sha256 o'\<rparr>]))"

text \<open>One pass of the loop of \<open>expire_due\<close>.\<close>

definition expire_one :: "datetime \<Rightarrow> approval_row \<Rightarrow> expired_approval list tx" where
  "expire_one now a =
     bind_tx
       (case apr_job_id a of
          None \<Rightarrow> bind_tx (expire_locked a now) (\<lambda>_. ret_tx ())
        | Some i \<Rightarrow>
            bind_tx (read_tx (get_job_for_update (apr_tenant_id a) i)) (\<lambda>row. case row of
              None \<Rightarrow> raise_tx job_unavailable
            | Some j \<Rightarrow> bind_tx (expire_locked a now) (\<lambda>a'. finalize_tx a' j now)))
       (\<lambda>_. read_tx (expired_observation now a))"

definition expire_due :: "(uuid \<Rightarrow> bool) \<Rightarrow> datetime \<Rightarrow> nat \<Rightarrow> expired_approval list tx" where
  "expire_due locked now limit =
     transaction
       (bind_tx (read_tx (\<lambda>d. Inr (take limit (sort_key expiry_key
                    (filter (\<lambda>a. due d now a \<and> \<not> locked (apr_id a)) (db_approvals d))))))
         (\<lambda>rows. bind_tx (map_tx (expire_one now) rows) (\<lambda>obs. ret_tx (concat obs))))"

end
