(* ===== verification/Approval_Executor.thy ===== *)
theory Approval_Executor
  imports Case_Store Approval_Repository
begin

text \<open>
  Execution of an approved command in the transaction of the decision: the class
  \<open>PostgresApprovalActionExecutor\<close> of \<open>app/tools/postgres.py\<close>. The approval and the job are passed
  as rows and returned with the attributes that the command assigns; the decision writes them.
\<close>

definition unavailable :: "string \<Rightarrow> 'a tx" where
  "unavailable msg = raise_tx (RuntimeError msg)"

definition source_from_job :: "pyval \<Rightarrow> trusted_source tx" where
  "source_from_job v =
     (case trusted_source_from_snapshot v of
        Inl _ \<Rightarrow> unavailable ''approved source snapshot is invalid''
      | Inr s \<Rightarrow> ret_tx s)"

definition lift_res :: "'a res \<Rightarrow> 'a tx" where
  "lift_res r = (case r of Inl e \<Rightarrow> raise_tx e | Inr x \<Rightarrow> ret_tx x)"

type_synonym action_handler = "approval_row \<Rightarrow> job_row \<Rightarrow> pending_action \<Rightarrow> (py_dict \<times> approval_row) tx"

definition approved_find_customer :: action_handler where
  "approved_find_customer a j act =
     bind_tx (lift_res (args_model_validate FindCustomerArgs (pa_arguments act))) (\<lambda>args.
       case args of
         FindCustomer email ext \<Rightarrow>
           bind_tx (read_tx (\<lambda>d. Inr (find_customer_for_tenant (apr_tenant_id a) email ext d))) (\<lambda>c.
             ret_tx ([(''found'', PBool (c \<noteq> None)),
                      (''customer_id'', case c of None \<Rightarrow> PNone | Some r \<Rightarrow> PStr (uuid_str (cu_id r)))], a))
       | _ \<Rightarrow> lift_res validation_error)"

definition persisted_reference :: "result_reference \<Rightarrow> py_dict" where
  "persisted_reference r = [(''result_reference'', reference_dump r), (''persisted'', PBool True)]"

text \<open>The case that a reply draft names must belong to the tenant; it becomes the approval's case.\<close>

definition draft_case :: "approval_row \<Rightarrow> uuid option \<Rightarrow> approval_row tx" where
  "draft_case a case_id =
     (case case_id of
        None \<Rightarrow> ret_tx a
      | Some c \<Rightarrow>
          bind_tx (read_tx (get_case_for_tenant c (apr_tenant_id a))) (\<lambda>row. case row of
            None \<Rightarrow> unavailable ''approved case is unavailable''
          | Some r \<Rightarrow> ret_tx (a\<lparr>apr_case_id := Some (ic_id r)\<rparr>)))"

definition draft_payload :: "pending_action \<Rightarrow> trusted_source \<Rightarrow> py_dict" where
  "draft_payload act src =
     [(''recipient'', opt_str (key ''contact'' as_str (pa_known_fields act))),
      (''subject'', PStr (if ts_subject src = [] then ''Intake reply'' else ts_subject src)),
      (''body'', PStr ''Reply draft generated for operator review.'')]"

definition approved_create_reply_draft :: action_handler where
  "approved_create_reply_draft a j act =
     bind_tx (lift_res (args_model_validate CreateReplyDraftArgs (pa_arguments act))) (\<lambda>args.
       case args of
         CreateReplyDraft case_id \<Rightarrow>
           bind_tx (draft_case a case_id) (\<lambda>a.
           bind_tx (source_from_job (job_source_snapshot j)) (\<lambda>src.
           bind_tx (create_for_job (apr_tenant_id a) (job_id j) RefReplyDraft (draft_payload act src)) (\<lambda>ref.
           ret_tx (persisted_reference ref, a))))
       | _ \<Rightarrow> lift_res validation_error)"

definition approved_flag_for_review :: action_handler where
  "approved_flag_for_review a j act =
     bind_tx (lift_res (args_model_validate FlagForReviewArgs (pa_arguments act))) (\<lambda>args.
       case args of
         FlagForReview note \<Rightarrow>
           bind_tx (create_for_job (apr_tenant_id a) (job_id j) RefReviewFlag
                [(''reason'', PStr (case note of
                    Some n \<Rightarrow> if n = [] then ''Review requested for operator follow-up.'' else n
                  | None \<Rightarrow> ''Review requested for operator follow-up.''))]) (\<lambda>ref.
           ret_tx (persisted_reference ref, a))
       | _ \<Rightarrow> lift_res validation_error)"

definition case_result :: "uuid \<Rightarrow> string \<Rightarrow> py_dict \<Rightarrow> py_dict" where
  "case_result i status fs =
     [(''case_id'', PStr (uuid_str i)), (''status'', PStr status),
      (''accepted_fields'', str_list (sort (dict_keys fs)))]"

text \<open>The customer a new case names must belong to the tenant.\<close>

definition require_customer :: "uuid \<Rightarrow> uuid option \<Rightarrow> exn \<Rightarrow> unit tx" where
  "require_customer t customer e =
     (case customer of
        None \<Rightarrow> ret_tx ()
      | Some c \<Rightarrow>
          bind_tx (read_tx (get_customer_for_tenant c t)) (\<lambda>row.
            if row = None then raise_tx e else ret_tx ()))"

definition approved_create_case :: action_handler where
  "approved_create_case a j act =
     bind_tx (read_tx (\<lambda>d. scalar_one_or_none
        (\<lambda>r. idr_tenant_id r = apr_tenant_id a \<and> idr_job_id r = Some (job_id j)) (db_idempotency d))) (\<lambda>row.
     case row of
       None \<Rightarrow> unavailable ''approval job idempotency record is unavailable''
     | Some r \<Rightarrow>
        (case idr_case_id r of
           Some c \<Rightarrow>
             bind_tx (read_tx (get_case_for_tenant c (apr_tenant_id a))) (\<lambda>existing. case existing of
               None \<Rightarrow> unavailable ''approved case is unavailable''
             | Some k \<Rightarrow> ret_tx (case_result (ic_id k) (ic_status k) (ic_extracted_fields k), a))
         | None \<Rightarrow>
             bind_tx (lift_res (args_model_validate CreateCaseArgs (pa_arguments act))) (\<lambda>args.
             case args of
               CreateCase customer \<Rightarrow>
                 bind_tx (require_customer (apr_tenant_id a) customer
                            (RuntimeError ''approved customer is unavailable'')) (\<lambda>_.
                 bind_tx (source_from_job (job_source_snapshot j)) (\<lambda>src.
                 bind_tx (create_agent_case (apr_tenant_id a) src customer (pa_known_fields act)) (\<lambda>k.
                 bind_tx (append_event (apr_tenant_id a) (ic_id k) ''created'' []) (\<lambda>_.
                 bind_tx (write_tx (set_idempotency_case (apr_tenant_id a) (job_id j) (ic_id k))) (\<lambda>_.
                 ret_tx (case_result (ic_id k) (ic_status k) (pa_known_fields act), a))))))
             | _ \<Rightarrow> lift_res validation_error)))"

definition approved_update_case_fields :: action_handler where
  "approved_update_case_fields a j act =
     bind_tx (lift_res (args_model_validate UpdateCaseFieldsArgs (pa_arguments act))) (\<lambda>args.
       case args of
         UpdateCaseFields c \<Rightarrow>
           bind_tx (read_tx (get_case_for_tenant c (apr_tenant_id a))) (\<lambda>row. case row of
             None \<Rightarrow> unavailable ''approved case is unavailable''
           | Some k \<Rightarrow>
               bind_tx (assign_case_fields k (pa_known_fields act)) (\<lambda>_.
               bind_tx (fields_updated_event (apr_tenant_id a) k (pa_known_fields act)) (\<lambda>_.
               ret_tx ([(''case_id'', PStr (uuid_str (ic_id k))),
                        (''updated_fields'', str_list (sort (dict_keys (pa_known_fields act))))],
                       a\<lparr>apr_case_id := Some (ic_id k)\<rparr>))))
       | _ \<Rightarrow> lift_res validation_error)"

definition approval_handlers :: "(string \<times> action_handler) list" where
  "approval_handlers =
     [(''create_case'', approved_create_case), (''update_case_fields'', approved_update_case_fields),
      (''find_customer'', approved_find_customer), (''create_reply_draft'', approved_create_reply_draft),
      (''flag_for_review'', approved_flag_for_review)]"

text \<open>\<open>approval.case_id = UUID(case_id)\<close> when the handler reports a case.\<close>

definition assign_case :: "py_dict \<Rightarrow> approval_row \<Rightarrow> approval_row tx" where
  "assign_case result a =
     (case key ''case_id'' as_str result of
        None \<Rightarrow> ret_tx a
      | Some s \<Rightarrow>
          (case uuid_parse s of
             None \<Rightarrow> unavailable ''approved case result is invalid''
           | Some u \<Rightarrow> ret_tx (a\<lparr>apr_case_id := Some u\<rparr>)))"

definition run_approved ::
  "action_capability \<Rightarrow> action_handler \<Rightarrow> approval_row \<Rightarrow> job_row \<Rightarrow> pending_action \<Rightarrow> datetime \<Rightarrow>
   (py_dict \<times> approval_row \<times> job_row) tx" where
  "run_approved c h a j act now =
     bind_tx (h a j act) (\<lambda>(result, a).
     bind_tx (assign_case result a) (\<lambda>a.
     ret_tx (result, a,
       if ac_commits_side_effect c then j\<lparr>job_side_effect_committed_at := Some now\<rparr> else j)))"

text \<open>The checks of the frozen command against the registry, and its handler.\<close>

definition approved_handler :: "action_registry \<Rightarrow> pending_action \<Rightarrow> (action_capability \<times> action_handler) res" where
  "approved_handler reg act =
     (case registry_require reg (pa_name act) of
        Inl _ \<Rightarrow> Inl (RuntimeError ''approval action is not registered'')
      | Inr c \<Rightarrow>
          if pa_version act \<noteq> ac_pending_action_version c
          then Inl (RuntimeError ''approval action version is unavailable'')
          else case args_model_validate (ac_arguments_model c) (pa_arguments act) of
            Inl _ \<Rightarrow> Inl (RuntimeError ''approved action arguments are invalid'')
          | Inr _ \<Rightarrow>
              if set (map fst approval_handlers) \<noteq> set (dict_keys reg)
              then Inl (RuntimeError ''action registry and approval handlers are incompatible'')
              else case map_of approval_handlers (ac_key c) of
                None \<Rightarrow> Inl (RuntimeError ''approval action is not registered'')
              | Some h \<Rightarrow> Inr (c, h))"

definition approval_execute ::
  "action_registry \<Rightarrow> approval_row \<Rightarrow> pending_action \<Rightarrow> datetime \<Rightarrow>
   (py_dict \<times> approval_row \<times> job_row) tx" where
  "approval_execute reg a act now =
     (case (apr_job_id a, apr_tenant_config_sha256 a) of
        (Some i, Some sha) \<Rightarrow>
          bind_tx (read_tx (get_job_for_update (apr_tenant_id a) i)) (\<lambda>row. case row of
            None \<Rightarrow> unavailable ''approval trusted job is unavailable''
          | Some j \<Rightarrow>
              if job_status j \<noteq> J_awaiting_approval \<or> job_tenant_config_sha256 j \<noteq> sha \<or>
                 apr_action a \<noteq> pa_name act
              then unavailable ''approval trusted job is unavailable''
              else bind_tx (lift_res (approved_handler reg act)) (\<lambda>(c, h). run_approved c h a j act now))
      | _ \<Rightarrow> unavailable ''approval trusted context is unavailable'')"

section \<open>Frame\<close>

text \<open>
  A handler works for the tenant of the approval and returns the approval with no more than its
  case changed.
\<close>

definition same_approval :: "approval_row \<Rightarrow> approval_row \<Rightarrow> bool" where
  "same_approval a b \<longleftrightarrow> (\<exists>c. b = a\<lparr>apr_case_id := c\<rparr>)"

lemma same_approval_refl [simp]: "same_approval a a"
  unfolding same_approval_def by (rule exI [of _ "apr_case_id a"]) simp

lemma same_approval_case [simp]: "same_approval a (a\<lparr>apr_case_id := c\<rparr>)"
  unfolding same_approval_def by blast

lemma same_approval_trans: "same_approval a b \<Longrightarrow> same_approval b c \<Longrightarrow> same_approval a c"
  by (auto simp: same_approval_def)

lemma framed_lift [intro!, simp]: "framed t (lift_res r)" "framed t (unavailable msg)" "framed t (source_from_job v)"
  by (auto simp: lift_res_def unavailable_def source_from_job_def split: sum.split)

lemma framed_require_customer [intro!, simp]: "framed t (require_customer u c e)"
  by (auto simp: require_customer_def split: option.split)

lemma framed_draft_case [intro!, simp]: "framed t (draft_case a c)"
  unfolding draft_case_def by (auto intro!: framed_bind split: option.split)

lemma framed_assign_case [intro!, simp]: "framed t (assign_case r a)"
  by (auto simp: assign_case_def split: option.split)

lemma draft_case_tenant: "draft_case a c d = (Inr b, d') \<Longrightarrow> d' = d \<and> same_approval a b"
  by (auto simp: draft_case_def tx_iffs unavailable_def split: option.splits)

lemma framed_draft_bind:
  assumes "\<And>b. same_approval a b \<Longrightarrow> framed t (f b)"
  shows "framed t (bind_tx (draft_case a c) f)"
  using assms unfolding framed_def bind_tx_Inr by (blast dest: draft_case_tenant)

lemma framed_reply_draft: "framed (apr_tenant_id a) (approved_create_reply_draft a j act)"
proof -
  have same: "apr_tenant_id b = apr_tenant_id a" if "same_approval a b" for b
    using that by (auto simp: same_approval_def)
  show ?thesis
    unfolding approved_create_reply_draft_def
  proof (intro framed_bind [OF framed_lift(1)], split tool_args.split, intro conjI allI impI)
    fix args c
    show "framed (apr_tenant_id a) (bind_tx (draft_case a c) (\<lambda>a.
        bind_tx (source_from_job (job_source_snapshot j)) (\<lambda>src.
        bind_tx (create_for_job (apr_tenant_id a) (job_id j) RefReplyDraft (draft_payload act src)) (\<lambda>ref.
        ret_tx (persisted_reference ref, a)))))"
    proof (rule framed_draft_bind)
      fix b assume "same_approval a b"
      then have t: "apr_tenant_id b = apr_tenant_id a" by (rule same)
      show "framed (apr_tenant_id a) (bind_tx (source_from_job (job_source_snapshot j)) (\<lambda>src.
        bind_tx (create_for_job (apr_tenant_id b) (job_id j) RefReplyDraft (draft_payload act src)) (\<lambda>ref.
        ret_tx (persisted_reference ref, b))))"
        unfolding t by (intro framed_bind framed_create_for_job framed_lift framed_basic)
    qed
  qed auto
qed

lemma framed_handlers:
  "framed (apr_tenant_id a) (approved_find_customer a j act)"
  "framed (apr_tenant_id a) (approved_flag_for_review a j act)"
  "framed (apr_tenant_id a) (approved_create_case a j act)"
  unfolding approved_find_customer_def approved_flag_for_review_def approved_create_case_def
  by (auto intro!: framed_bind framed_create_for_job framed_create_case framed_event framed_set_case
      split: tool_args.split option.split)

lemma framed_update_handler: "framed (apr_tenant_id a) (approved_update_case_fields a j act)"
  unfolding approved_update_case_fields_def
  by (auto intro!: framed_bind [OF framed_lift(1)] framed_merge framed_bind [OF framed_fields_event]
      split: tool_args.split)

lemma framed_handler:
  "map_of approval_handlers k = Some h \<Longrightarrow> framed (apr_tenant_id a) (h a j act)"
  by (auto simp: approval_handlers_def framed_handlers framed_update_handler framed_reply_draft split: if_splits)

text \<open>A property of the values that a transaction can return.\<close>

definition returns :: "('a \<Rightarrow> bool) \<Rightarrow> 'a tx \<Rightarrow> bool" where
  "returns P m \<longleftrightarrow> (\<forall>d x d'. m d = (Inr x, d') \<longrightarrow> P x)"

lemma returns_rules:
  "P x \<Longrightarrow> returns P (ret_tx x)" "returns P (raise_tx e)" "returns P (unavailable msg)"
  "returns P (lift_res validation_error)" "(\<And>x. returns P (f x)) \<Longrightarrow> returns P (bind_tx m f)"
  unfolding returns_def by (auto simp: tx_iffs unavailable_def lift_res_def validation_error_def)

lemma returns_draft_bind:
  "(\<And>b. same_approval a b \<Longrightarrow> returns P (f b)) \<Longrightarrow> returns P (bind_tx (draft_case a c) f)"
  unfolding returns_def bind_tx_Inr by (blast dest: draft_case_tenant)

lemma reply_draft_returns: "returns (\<lambda>(r, b). same_approval a b) (approved_create_reply_draft a j act)"
  unfolding approved_create_reply_draft_def
proof (rule returns_rules(5), split tool_args.split, intro conjI allI impI)
  fix c
  show "returns (\<lambda>(r, b). same_approval a b) (bind_tx (draft_case a c) (\<lambda>a.
     bind_tx (source_from_job (job_source_snapshot j)) (\<lambda>src.
     bind_tx (create_for_job (apr_tenant_id a) (job_id j) RefReplyDraft (draft_payload act src)) (\<lambda>ref.
     ret_tx (persisted_reference ref, a)))))"
    by (rule returns_draft_bind) (intro returns_rules, simp)
qed (intro returns_rules)+

lemma handler_returns:
  "returns (\<lambda>(r, b). same_approval a b) (approved_create_case a j act)"
  "returns (\<lambda>(r, b). same_approval a b) (approved_update_case_fields a j act)"
  "returns (\<lambda>(r, b). same_approval a b) (approved_find_customer a j act)"
  "returns (\<lambda>(r, b). same_approval a b) (approved_flag_for_review a j act)"
  unfolding approved_create_case_def approved_update_case_fields_def approved_find_customer_def
    approved_flag_for_review_def
  by (auto intro!: returns_rules split: tool_args.split option.split)

lemma handler_approval:
  assumes "map_of approval_handlers k = Some h" "h a j act d = (Inr (result, b), d')"
  shows "same_approval a b"
proof -
  have "returns (\<lambda>(r, b). same_approval a b) (h a j act)"
    using assms(1)
    by (auto simp: approval_handlers_def handler_returns reply_draft_returns split: if_splits)
  with assms(2) show ?thesis by (auto simp: returns_def)
qed

lemma assign_case_approval: "assign_case r a d = (Inr b, d') \<Longrightarrow> d' = d \<and> same_approval a b"
  by (auto simp: assign_case_def tx_iffs unavailable_def split: option.splits)

text \<open>What a successful execution guarantees to the decision.\<close>

lemma approval_execute_InrD:
  assumes "approval_execute reg a act now d = (Inr (result, b, j'), d')"
  obtains i j where "apr_job_id a = Some i" "get_job_for_update (apr_tenant_id a) i d = Inr (Some j)"
    "job_status j = J_awaiting_approval" "apr_tenant_config_sha256 a = Some (job_tenant_config_sha256 j)"
    "pa_name act = apr_action a" "j' = j \<or> j' = j\<lparr>job_side_effect_committed_at := Some now\<rparr>"
    "same_approval a b" "tool_frame (apr_tenant_id a) d d'"
proof -
  obtain i sha where i: "apr_job_id a = Some i" "apr_tenant_config_sha256 a = Some sha"
    using assms by (auto simp: approval_execute_def tx_iffs unavailable_def split: option.splits)
  with assms obtain j where j: "get_job_for_update (apr_tenant_id a) i d = Inr (Some j)"
    "job_status j = J_awaiting_approval" "job_tenant_config_sha256 j = sha" "apr_action a = pa_name act"
    by (auto simp: approval_execute_def tx_iffs unavailable_def split: option.splits if_splits)
  with assms i obtain c h where ch: "approved_handler reg act = Inr (c, h)"
    and r: "run_approved c h a j act now d = (Inr (result, b, j'), d')"
    by (auto simp: approval_execute_def tx_iffs lift_res_def split: sum.splits)
  have h: "map_of approval_handlers (ac_key c) = Some h"
    using ch by (simp add: approved_handler_def split: sum.splits if_splits option.splits)
  from r obtain r e a' where r: "h a j act d = (Inr (r, a'), e)" "assign_case r a' e = (Inr b, d')"
    "j' = j \<or> j' = j\<lparr>job_side_effect_committed_at := Some now\<rparr>"
    by (auto simp: run_approved_def tx_iffs split: prod.splits if_splits)
  have "same_approval a b"
    using handler_approval [OF h r(1)] assign_case_approval [OF r(2)] same_approval_trans by blast
  moreover have "tool_frame (apr_tenant_id a) d d'"
    using framed_handler [OF h, of a j act] r(1) assign_case_approval [OF r(2)]
    unfolding framed_def by blast
  ultimately show thesis using that [of i j] i j r(3) by simp
qed

end
