(* ===== verification/Field_Values.thy ===== *)
theory Field_Values
  imports Policy
begin

text \<open>
  Validation of extracted field values and their provenance, \<open>app/tenants/field_values.py\<close>. Two
  checks rest on code outside the repository and are parameters: \<open>email_ok\<close>, whether Pydantic's
  \<open>EmailStr\<close> adapter accepts a string, and \<open>iso_aware\<close>, what \<open>datetime.fromisoformat\<close> makes of a
  string: \<open>None\<close> for its \<open>ValueError\<close>, otherwise whether the result carries a time zone offset.
\<close>

section \<open>Value checks\<close>

definition MAX_SHORT_TEXT_CHARS :: nat where "MAX_SHORT_TEXT_CHARS = 500"
definition MAX_LONG_TEXT_CHARS :: nat where "MAX_LONG_TEXT_CHARS = 10000"
definition MAX_ADDRESS_CHARS :: nat where "MAX_ADDRESS_CHARS = 1000"
definition MAX_PHONE_CHARS :: nat where "MAX_PHONE_CHARS = 50"
definition MAX_EMAIL_CHARS :: nat where "MAX_EMAIL_CHARS = 320"

record value_env =
  ve_email_ok :: "string \<Rightarrow> bool"
  ve_iso_aware :: "string \<Rightarrow> bool option"

fun valid_string :: "nat \<Rightarrow> pyval \<Rightarrow> bool" where
  "valid_string n (PStr s) = (non_blank s \<and> length s \<le> n)"
| "valid_string n _ = False"

definition is_upper :: "char \<Rightarrow> bool" where
  "is_upper c \<longleftrightarrow> CHR ''A'' \<le> c \<and> c \<le> CHR ''Z''"

definition is_letter :: "char \<Rightarrow> bool" where
  "is_letter c \<longleftrightarrow> is_lower c \<or> is_upper c"

definition is_alnum :: "char \<Rightarrow> bool" where
  "is_alnum c \<longleftrightarrow> is_letter c \<or> is_digit c"

definition lower_char :: "char \<Rightarrow> char" where
  "lower_char c = (if is_upper c then char_of ((of_char c :: nat) + 32) else c)"

text \<open>\<open>_PHONE_PATTERN.fullmatch\<close>.\<close>

definition phone_pattern :: "string \<Rightarrow> bool" where
  "phone_pattern s \<longleftrightarrow>
     3 \<le> length s \<and> length s \<le> 50 \<and>
     list_all (\<lambda>c. is_digit c \<or> c \<in> set ''+().-'' \<or> py_isspace c) s"

text \<open>
  \<open>_EMAIL_PATTERN.fullmatch\<close>: the part before the first \<open>@\<close>, then a host and, after the last dot,
  a top-level domain of letters.
\<close>

definition host_pattern :: "string \<Rightarrow> bool" where
  "host_pattern h \<longleftrightarrow>
     h \<noteq> [] \<and> length h \<le> 254 \<and> list_all (\<lambda>c. is_alnum c \<or> c = CHR ''.'' \<or> c = CHR ''-'') h \<and>
     is_alnum (hd h) \<and> is_alnum (last h)"

definition email_pattern :: "string \<Rightarrow> bool" where
  "email_pattern s =
     (let local = takeWhile (\<lambda>c. c \<noteq> CHR ''@'') s;
          rest = dropWhile (\<lambda>c. c \<noteq> CHR ''@'') s;
          domain = tl rest;
          tld = rev (takeWhile (\<lambda>c. c \<noteq> CHR ''.'') (rev domain));
          front = rev (dropWhile (\<lambda>c. c \<noteq> CHR ''.'') (rev domain))
      in rest \<noteq> [] \<and> 1 \<le> length local \<and> length local \<le> 64 \<and>
         list_all (\<lambda>c. \<not> py_isspace c) local \<and>
         front \<noteq> [] \<and> host_pattern (butlast front) \<and>
         2 \<le> length tld \<and> length tld \<le> 63 \<and> list_all is_letter tld)"

definition ends_with_test :: "string \<Rightarrow> bool" where
  "ends_with_test s \<longleftrightarrow>
     suffix ''.test''
       (map lower_char (rev (takeWhile (\<lambda>c. c \<noteq> CHR ''@'') (rev s))))"

fun valid_email :: "value_env \<Rightarrow> pyval \<Rightarrow> bool" where
  "valid_email ve (PStr s) =
     (if \<not> non_blank s \<or> length s > MAX_EMAIL_CHARS then False
      else if ve_email_ok ve s then True
      else email_pattern s \<and> ends_with_test s)"
| "valid_email ve _ = False"

text \<open>\<open>value.replace("Z", "+00:00")\<close> before parsing.\<close>

fun valid_date_time :: "value_env \<Rightarrow> pyval \<Rightarrow> bool" where
  "valid_date_time ve (PStr s) =
     (non_blank s \<and> ve_iso_aware ve (py_replace ''Z'' ''+00:00'' s) = Some True)"
| "valid_date_time ve _ = False"

definition options_of :: "field_definition \<Rightarrow> string list" where
  "options_of d = (case fd_options d of None \<Rightarrow> [] | Some os \<Rightarrow> os)"

fun valid_number :: "pyval \<Rightarrow> bool" where
  "valid_number (PInt _) = True"
| "valid_number (PFloat x) = math_isfinite x"
| "valid_number _ = False"

fun valid_single :: "string list \<Rightarrow> pyval \<Rightarrow> bool" where
  "valid_single os (PStr s) = (s \<in> set os)"
| "valid_single os _ = False"

fun valid_multi :: "string list \<Rightarrow> pyval \<Rightarrow> bool" where
  "valid_multi os (PList xs) = (xs \<noteq> [] \<and> list_all (valid_single os) xs \<and> distinct xs)"
| "valid_multi os _ = False"

text \<open>\<open>_normalized_value\<close>; \<open>None\<close> is the \<open>_INVALID\<close> marker.\<close>

definition normalized_value :: "value_env \<Rightarrow> pyval \<Rightarrow> field_definition \<Rightarrow> pyval option" where
  "normalized_value ve v d =
     (if (case fd_type d of
            SHORT_TEXT \<Rightarrow> valid_string MAX_SHORT_TEXT_CHARS v
          | LONG_TEXT \<Rightarrow> valid_string MAX_LONG_TEXT_CHARS v
          | EMAIL \<Rightarrow> valid_email ve v
          | PHONE \<Rightarrow>
              valid_string MAX_PHONE_CHARS v \<and> (case v of PStr s \<Rightarrow> phone_pattern s | _ \<Rightarrow> False)
          | ADDRESS \<Rightarrow> valid_string MAX_ADDRESS_CHARS v
          | DATE_TIME \<Rightarrow> valid_date_time ve v
          | NUMBER \<Rightarrow> valid_number v
          | BOOLEAN \<Rightarrow> (case v of PBool _ \<Rightarrow> True | _ \<Rightarrow> False)
          | SINGLE_SELECT \<Rightarrow> valid_single (options_of d) v
          | MULTI_SELECT \<Rightarrow> valid_multi (options_of d) v)
      then Some v else None)"

section \<open>Provenance\<close>

definition source_candidates :: "string \<Rightarrow> string option \<Rightarrow> proposal_value \<Rightarrow> field_source list" where
  "source_candidates body document item =
     (case document of
        None \<Rightarrow>
          if pv_source item = Some DOCUMENT then []
          else if (case pv_source_excerpt item of None \<Rightarrow> False | Some x \<Rightarrow> \<not> in_string x body) then []
          else [BODY]
      | Some doc \<Rightarrow>
          (case pv_source item of
             Some src \<Rightarrow>
               (case pv_source_excerpt item of
                  None \<Rightarrow> []
                | Some x \<Rightarrow> if in_string x (if src = BODY then body else doc) then [src] else [])
           | None \<Rightarrow>
               (case pv_source_excerpt item of
                  None \<Rightarrow> []
                | Some x \<Rightarrow>
                    (if in_string x body then [BODY] else []) @
                    (if in_string x doc then [DOCUMENT] else []))))"

section \<open>Validation of a proposal\<close>

record validated_fields =
  vf_values :: py_dict
  vf_invalid_fields :: "string list"

datatype item_verdict = Skip | Invalid | Accept "field_source list" pyval

definition runtime_body :: "trusted_runtime \<Rightarrow> string" where
  "runtime_body rt = (case rt_source rt of None \<Rightarrow> [] | Some s \<Rightarrow> ts_body s)"

definition runtime_document_text :: "trusted_runtime \<Rightarrow> string option" where
  "runtime_document_text rt =
     (case rt_source rt of None \<Rightarrow> None
      | Some s \<Rightarrow> (case ts_document s of None \<Rightarrow> None | Some d \<Rightarrow> nd_text d))"

text \<open>One pass through the body of the loop over the proposal's fields.\<close>

definition item_verdict :: "value_env \<Rightarrow> trusted_runtime \<Rightarrow> proposal_value \<Rightarrow> item_verdict" where
  "item_verdict ve rt item =
     (case map_of (tn_fields (rt_tenant_config rt)) (pv_name item) of
        None \<Rightarrow> Skip
      | Some d \<Rightarrow>
          if \<not> proposal_value_is_present (pv_value item) then Skip
          else (let sources = source_candidates (runtime_body rt) (runtime_document_text rt) item
                in if sources = [] then Invalid
                   else case normalized_value ve (pv_value item) d of
                          None \<Rightarrow> Invalid
                        | Some v \<Rightarrow> Accept sources v))"

type_synonym candidates = "(string, (field_source \<times> pyval) list) dict"

definition add_candidates ::
  "string \<Rightarrow> field_source list \<Rightarrow> pyval \<Rightarrow> candidates \<Rightarrow> candidates" where
  "add_candidates n sources v cs =
     dict_set n ((case map_of cs n of None \<Rightarrow> [] | Some xs \<Rightarrow> xs) @ map (\<lambda>s. (s, v)) sources) cs"

fun collect_fields ::
  "value_env \<Rightarrow> trusted_runtime \<Rightarrow> proposal_value list \<Rightarrow> candidates \<Rightarrow> string list \<Rightarrow>
   candidates \<times> string list" where
  "collect_fields ve rt [] cs bad = (cs, bad)"
| "collect_fields ve rt (item # items) cs bad =
     (case item_verdict ve rt item of
        Skip \<Rightarrow> collect_fields ve rt items cs bad
      | Invalid \<Rightarrow> collect_fields ve rt items cs (pv_name item # bad)
      | Accept sources v \<Rightarrow> collect_fields ve rt items (add_candidates (pv_name item) sources v cs) bad)"

definition source_rank :: "field_source \<times> pyval \<Rightarrow> nat" where
  "source_rank c = (if fst c = BODY then 0 else 1)"

definition choose_value :: "(field_source \<times> pyval) list \<Rightarrow> pyval" where
  "choose_value choices = snd (hd (sort_key source_rank choices))"

definition validate_proposal_fields ::
  "value_env \<Rightarrow> agent_proposal \<Rightarrow> trusted_runtime \<Rightarrow> validated_fields" where
  "validate_proposal_fields ve p rt =
     (let (cs, bad) = collect_fields ve rt (ap_fields p) [] []
      in \<lparr>vf_values = map (\<lambda>(n, choices). (n, choose_value choices)) cs,
          vf_invalid_fields = sorted_set bad\<rparr>)"

text \<open>The proposal \<open>validate_frozen_fields\<close> builds; a value outside the schema makes it raise.\<close>

definition frozen_item :: "string \<times> pyval \<Rightarrow> proposal_value" where
  "frozen_item kv =
     \<lparr>pv_name = fst kv, pv_value = snd kv, pv_source = Some BODY, pv_source_excerpt = None\<rparr>"

definition frozen_proposal :: "py_dict \<Rightarrow> agent_proposal" where
  "frozen_proposal fs =
     \<lparr>ap_intake_type = None, ap_fields = map frozen_item fs, ap_missing_required_fields = [],
      ap_priority = NORMAL, ap_contains_injection = False,
      ap_rationale_short = ''Frozen approval command validation'', ap_tool_calls = [],
      ap_confidence = 1\<rparr>"

definition without_document :: "trusted_runtime \<Rightarrow> trusted_runtime" where
  "without_document rt = rt\<lparr>rt_source := map_option (\<lambda>s. s\<lparr>ts_document := None\<rparr>) (rt_source rt)\<rparr>"

definition validate_frozen_fields :: "value_env \<Rightarrow> py_dict \<Rightarrow> trusted_runtime \<Rightarrow> validated_fields" where
  "validate_frozen_fields ve fs rt =
     (if \<not> valid_proposal (frozen_proposal fs)
      then \<lparr>vf_values = [], vf_invalid_fields = sort (dict_keys fs)\<rparr>
      else (let unknown = filter (\<lambda>n. map_of (tn_fields (rt_tenant_config rt)) n = None) (dict_keys fs);
                result = validate_proposal_fields ve (frozen_proposal fs) (without_document rt)
            in \<lparr>vf_values = vf_values result,
                vf_invalid_fields = sorted_set (vf_invalid_fields result @ unknown)\<rparr>))"

section \<open>Lemmas\<close>

lemma normalized_value_id: "normalized_value ve v d = Some w \<Longrightarrow> w = v"
  by (auto simp: normalized_value_def split: if_splits)

lemma item_verdict_Accept:
  assumes "item_verdict ve rt item = Accept sources v"
  shows "v = pv_value item" "sources \<noteq> []"
    "sources = source_candidates (runtime_body rt) (runtime_document_text rt) item"
    "\<exists>d. map_of (tn_fields (rt_tenant_config rt)) (pv_name item) = Some d \<and>
       normalized_value ve v d = Some v"
    "proposal_value_is_present (pv_value item)"
  using assms normalized_value_id
  by (auto simp: item_verdict_def Let_def split: option.splits if_splits)

text \<open>The candidates of a name, in the order of the proposal.\<close>

definition item_choices :: "value_env \<Rightarrow> trusted_runtime \<Rightarrow> string \<Rightarrow> proposal_value \<Rightarrow> (field_source \<times> pyval) list" where
  "item_choices ve rt n item =
     (if pv_name item \<noteq> n then []
      else case item_verdict ve rt item of
             Accept sources v \<Rightarrow> map (\<lambda>s. (s, v)) sources
           | _ \<Rightarrow> [])"

definition get_list :: "candidates \<Rightarrow> string \<Rightarrow> (field_source \<times> pyval) list" where
  "get_list cs n = (case map_of cs n of None \<Rightarrow> [] | Some xs \<Rightarrow> xs)"

lemma collect_fields_spec:
  assumes "collect_fields ve rt items cs bad = (cs', bad')"
    and "\<And>n xs. map_of cs n = Some xs \<Longrightarrow> xs \<noteq> []" "distinct (map fst cs)"
  shows "get_list cs' n = get_list cs n @ concat (map (item_choices ve rt n) items)"
    and "map_of cs' n = Some xs \<Longrightarrow> xs \<noteq> []"
    and "distinct (map fst cs')"
    and "set bad' = set bad \<union> {pv_name i | i. i \<in> set items \<and> item_verdict ve rt i = Invalid}"
proof -
  have "get_list cs' n = get_list cs n @ concat (map (item_choices ve rt n) items) \<and>
      (map_of cs' n = Some xs \<longrightarrow> xs \<noteq> []) \<and> distinct (map fst cs') \<and>
      set bad' = set bad \<union> {pv_name i | i. i \<in> set items \<and> item_verdict ve rt i = Invalid}"
    using assms
  proof (induction ve rt items cs bad rule: collect_fields.induct)
    case (1 ve rt cs bad)
    then show ?case by auto
  next
    case (2 ve rt item items cs bad)
    show ?case
    proof (cases "item_verdict ve rt item")
      case Skip
      with 2 show ?thesis by (auto simp: item_choices_def)
    next
      case Invalid
      with 2 show ?thesis by (auto simp: item_choices_def)
    next
      case (Accept sources v)
      let ?cs = "add_candidates (pv_name item) sources v cs"
      have ne: "sources \<noteq> []" using item_verdict_Accept(2) [OF Accept] .
      have "collect_fields ve rt items ?cs bad = (cs', bad')"
        using "2.prems"(1) Accept by simp
      moreover have "\<And>n xs. map_of ?cs n = Some xs \<Longrightarrow> xs \<noteq> []"
        using "2.prems"(2) ne by (auto simp: add_candidates_def split: if_splits)
      moreover have "distinct (map fst ?cs)"
        using "2.prems"(3) dict_keys_dict_set_distinct
        by (simp add: add_candidates_def dict_keys_def [symmetric])
      moreover have "get_list ?cs n = get_list cs n @ item_choices ve rt n item"
        using Accept by (auto simp: add_candidates_def get_list_def item_choices_def)
      ultimately show ?thesis
        using "2.IH"(3) [OF Accept] Accept by auto
    qed
  qed
  then show "get_list cs' n = get_list cs n @ concat (map (item_choices ve rt n) items)"
    "map_of cs' n = Some xs \<Longrightarrow> xs \<noteq> []" "distinct (map fst cs')"
    "set bad' = set bad \<union> {pv_name i | i. i \<in> set items \<and> item_verdict ve rt i = Invalid}"
    by blast+
qed

subsection \<open>Accepted values\<close>

definition name_choices :: "value_env \<Rightarrow> trusted_runtime \<Rightarrow> agent_proposal \<Rightarrow> string \<Rightarrow> (field_source \<times> pyval) list" where
  "name_choices ve rt p n = concat (map (item_choices ve rt n) (ap_fields p))"

lemma validate_values_lookup:
  "map_of (vf_values (validate_proposal_fields ve p rt)) n =
     (if name_choices ve rt p n = [] then None else Some (choose_value (name_choices ve rt p n)))"
proof -
  obtain cs bad where c: "collect_fields ve rt (ap_fields p) [] [] = (cs, bad)"
    by (cases "collect_fields ve rt (ap_fields p) [] []")
  have g: "get_list cs n = name_choices ve rt p n"
    using collect_fields_spec(1) [OF c] by (simp add: name_choices_def get_list_def)
  have "map_of (map (\<lambda>(n, choices). (n, choose_value choices)) cs) n = map_option choose_value (map_of cs n)"
    by (simp add: map_of_map)
  then show ?thesis
    using g collect_fields_spec(2) [OF c]
    by (auto simp: validate_proposal_fields_def c get_list_def split: option.splits)
qed

lemma validate_values_distinct: "distinct (map fst (vf_values (validate_proposal_fields ve p rt)))"
proof -
  obtain cs bad where c: "collect_fields ve rt (ap_fields p) [] [] = (cs, bad)"
    by (cases "collect_fields ve rt (ap_fields p) [] []")
  have "distinct (map fst cs)" using collect_fields_spec(3) [OF c] by simp
  then show ?thesis
    by (simp add: validate_proposal_fields_def c comp_def case_prod_beta)
qed

lemma validate_invalid_fields:
  "set (vf_invalid_fields (validate_proposal_fields ve p rt)) =
     {pv_name i | i. i \<in> set (ap_fields p) \<and> item_verdict ve rt i = Invalid}"
proof -
  obtain cs bad where c: "collect_fields ve rt (ap_fields p) [] [] = (cs, bad)"
    by (cases "collect_fields ve rt (ap_fields p) [] []")
  then show ?thesis
    using collect_fields_spec(4) [OF c] by (simp add: validate_proposal_fields_def)
qed

lemma choose_value_rank:
  assumes "xs \<noteq> []"
  shows "\<exists>src. (src, choose_value xs) \<in> set xs \<and> (\<forall>y \<in> set xs. source_rank (src, choose_value xs) \<le> source_rank y)"
proof -
  let ?ys = "sort_key source_rank xs"
  have ne: "?ys \<noteq> []" using assms by (metis length_0_conv length_sort)
  have "sorted (map source_rank ?ys)" by simp
  then have "\<forall>y \<in> set ?ys. source_rank (hd ?ys) \<le> source_rank y"
    using ne by (cases ?ys) auto
  moreover have "hd ?ys \<in> set xs" using ne by (metis list.set_sel(1) set_sort)
  ultimately show ?thesis
    unfolding choose_value_def by (metis prod.collapse set_sort)
qed

lemma name_choices_item:
  assumes "(src, v) \<in> set (name_choices ve rt p n)"
  shows "\<exists>item. item \<in> set (ap_fields p) \<and> pv_name item = n \<and> pv_value item = v \<and>
     (\<exists>sources. item_verdict ve rt item = Accept sources v \<and> src \<in> set sources)"
proof -
  obtain item where item: "item \<in> set (ap_fields p)" "(src, v) \<in> set (item_choices ve rt n item)"
    using assms by (auto simp: name_choices_def)
  then obtain sources where "pv_name item = n" "item_verdict ve rt item = Accept sources v" "src \<in> set sources"
    by (cases "item_verdict ve rt item") (auto simp: item_choices_def split: if_splits)
  with item(1) item_verdict_Accept(1) show ?thesis by metis
qed

lemma name_choices_intro:
  assumes "item \<in> set (ap_fields p)" "item_verdict ve rt item = Accept sources v" "src \<in> set sources"
  shows "(src, v) \<in> set (name_choices ve rt p (pv_name item))"
  using assms by (force simp: name_choices_def item_choices_def)

lemma source_candidates_sound:
  assumes "src \<in> set (source_candidates body document item)"
  shows "case document of
      None \<Rightarrow> src = BODY \<and> (\<forall>x. pv_source_excerpt item = Some x \<longrightarrow> in_string x body)
    | Some doc \<Rightarrow> \<exists>x. pv_source_excerpt item = Some x \<and> in_string x (if src = BODY then body else doc)"
  using assms
  by (cases "pv_source_excerpt item") (auto simp: source_candidates_def split: option.splits if_splits)


subsection \<open>Revalidation of frozen fields\<close>

lemma dict_set_absent: "map_of d k = None \<Longrightarrow> dict_set k v d = d @ [(k, v)]"
  by (induction k v d rule: dict_set.induct) auto

lemma frozen_item_name [simp]: "pv_name (frozen_item kv) = fst kv"
  by (simp add: frozen_item_def)

lemma collect_frozen:
  assumes "\<And>kv. kv \<in> set fs \<Longrightarrow> item_verdict ve rt (frozen_item kv) = Accept [BODY] (snd kv)"
    and "distinct (map fst cs @ map fst fs)"
  shows "collect_fields ve rt (map frozen_item fs) cs bad =
     (cs @ map (\<lambda>kv. (fst kv, [(BODY, snd kv)])) fs, bad)"
  using assms
proof (induction fs arbitrary: cs)
  case (Cons kv fs)
  let ?cs = "cs @ [(fst kv, [(BODY, snd kv)])]"
  have "map_of cs (fst kv) = None"
    using Cons.prems(2) by (auto simp: map_of_eq_None_iff)
  then have "add_candidates (fst kv) [BODY] (snd kv) cs = ?cs"
    by (simp add: add_candidates_def dict_set_absent)
  moreover have "collect_fields ve rt (map frozen_item fs) ?cs bad =
      (?cs @ map (\<lambda>kv. (fst kv, [(BODY, snd kv)])) fs, bad)"
    by (rule Cons.IH) (use Cons.prems in auto)
  ultimately show ?case
    using Cons.prems(1) [of kv] by simp
qed simp

lemma frozen_item_accepted:
  assumes "map_of (tn_fields (rt_tenant_config rt)) n = Some d" "normalized_value ve v d = Some v"
    "proposal_value_is_present v"
  shows "item_verdict ve (without_document rt) (frozen_item (n, v)) = Accept [BODY] v"
proof -
  have "runtime_document_text (without_document rt) = None"
    by (auto simp: runtime_document_text_def without_document_def split: option.splits)
  then show ?thesis
    using assms by (simp add: item_verdict_def frozen_item_def source_candidates_def without_document_def)
qed

lemma accepted_value_facts:
  assumes "(n, v) \<in> set (vf_values (validate_proposal_fields ve p rt))"
  shows "\<exists>item d. item \<in> set (ap_fields p) \<and> pv_name item = n \<and> pv_value item = v \<and>
     map_of (tn_fields (rt_tenant_config rt)) n = Some d \<and> normalized_value ve v d = Some v \<and>
     proposal_value_is_present v"
proof -
  have "map_of (vf_values (validate_proposal_fields ve p rt)) n = Some v"
    using assms validate_values_distinct by (simp add: map_of_eq_Some_iff)
  then have ne: "name_choices ve rt p n \<noteq> []" and v: "v = choose_value (name_choices ve rt p n)"
    by (auto simp: validate_values_lookup split: if_splits)
  then obtain src item sources where item: "item \<in> set (ap_fields p)" "pv_name item = n" "pv_value item = v"
    "item_verdict ve rt item = Accept sources v"
    using choose_value_rank [OF ne] name_choices_item by metis
  then show ?thesis
    using item_verdict_Accept(4,5) [OF item(4)] by blast
qed

lemma choose_value_single [simp]: "choose_value [(src, v)] = v"
  by (simp add: choose_value_def)

lemma frozen_proposal_valid:
  assumes "valid_proposal p"
  shows "valid_proposal (frozen_proposal (vf_values (validate_proposal_fields ve p rt)))"
proof -
  let ?fs = "vf_values (validate_proposal_fields ve p rt)"
  have "valid_proposal_value (frozen_item kv)" if "kv \<in> set ?fs" for kv
    using accepted_value_facts [of "fst kv" "snd kv"] that assms
    by (fastforce simp: valid_proposal_def list_all_iff valid_proposal_value_def frozen_item_def
        require_non_blank_excerpt_def)
  moreover have "distinct (map (\<lambda>v. (pv_name v, pv_source v)) (map frozen_item ?fs))"
    using validate_values_distinct [of ve p rt]
    by (simp add: comp_def frozen_item_def distinct_map inj_on_def)
  ultimately show ?thesis
    by (simp add: valid_proposal_def frozen_proposal_def list_all_iff)
qed

lemma validate_frozen_accepts:
  assumes "valid_proposal p" and fs_def: "fs = vf_values (validate_proposal_fields ve p rt)"
  shows "validate_frozen_fields ve fs rt = \<lparr>vf_values = fs, vf_invalid_fields = []\<rparr>"
proof -
  have acc: "item_verdict ve (without_document rt) (frozen_item kv) = Accept [BODY] (snd kv)"
    if "kv \<in> set fs" for kv
    using accepted_value_facts [of "fst kv" "snd kv"] that frozen_item_accepted [of rt "fst kv" _ ve "snd kv"]
    by (auto simp: fs_def)
  have d: "distinct (map fst ([] :: candidates) @ map fst fs)"
    using validate_values_distinct by (simp add: fs_def)
  have "validate_proposal_fields ve (frozen_proposal fs) (without_document rt) =
      \<lparr>vf_values = fs, vf_invalid_fields = []\<rparr>"
    using collect_frozen [OF acc d]
    by (simp add: validate_proposal_fields_def frozen_proposal_def comp_def sorted_set_def)
  moreover have "filter (\<lambda>n. map_of (tn_fields (rt_tenant_config rt)) n = None) (dict_keys fs) = []"
    using accepted_value_facts [of _ _ ve p rt]
    by (fastforce simp: filter_empty_conv dict_keys_def fs_def)
  ultimately show ?thesis
    using frozen_proposal_valid [OF assms(1), of ve rt]
    by (simp add: validate_frozen_fields_def fs_def [symmetric] sorted_set_def)
qed


definition demo_value_env :: value_env where
  "demo_value_env = \<lparr>ve_email_ok = (\<lambda>_. False), ve_iso_aware = (\<lambda>_. None)\<rparr>"



end
