(* ===== verification/Observability.thy ===== *)
theory Observability
  imports Prelude
begin

text \<open>
  The closed vocabularies of \<open>app/observability/events.py\<close> that decisions and durable rows are
  written in: outcome codes, policy reasons and worker error codes, each with its wire value and
  the enum lookup \<open>Enum(value)\<close>, where \<open>None\<close> stands for the \<open>ValueError\<close> of an unknown value.
\<close>

section \<open>Enumerations and their wire values\<close>

datatype outcome_code =
    OC_SUCCESS | OC_FAILED | OC_AUTHENTICATED | OC_REJECTED | OC_VERIFIED | OC_MISSING
  | OC_MALFORMED | OC_STALE | OC_MISMATCH | OC_CREATED | OC_REUSED | OC_CONFLICT
  | OC_CLAIMED | OC_STARTED | OC_RETRY_SCHEDULED | OC_LEASE_LOST | OC_RECOVERED
  | OC_SUCCEEDED | OC_FAILED_UNCERTAIN | OC_COMPLETED | OC_TERMINAL | OC_TOOL_REQUESTED
  | OC_INVALID_SCHEMA | OC_TIMEOUT | OC_NETWORK_ERROR | OC_HTTP_ERROR | OC_ALLOW | OC_DENY
  | OC_NEEDS_APPROVAL | OC_APPROVED | OC_EXPIRED | OC_EXECUTED | OC_NOT_FOUND
  | OC_INVALID_ARGUMENTS | OC_BACKEND_FAILURE | OC_NO_RESULT

fun outcome_code_value :: "outcome_code \<Rightarrow> string" where
  "outcome_code_value OC_SUCCESS = ''success''"
| "outcome_code_value OC_FAILED = ''failed''"
| "outcome_code_value OC_AUTHENTICATED = ''authenticated''"
| "outcome_code_value OC_REJECTED = ''rejected''"
| "outcome_code_value OC_VERIFIED = ''verified''"
| "outcome_code_value OC_MISSING = ''missing''"
| "outcome_code_value OC_MALFORMED = ''malformed''"
| "outcome_code_value OC_STALE = ''stale''"
| "outcome_code_value OC_MISMATCH = ''mismatch''"
| "outcome_code_value OC_CREATED = ''created''"
| "outcome_code_value OC_REUSED = ''reused''"
| "outcome_code_value OC_CONFLICT = ''conflict''"
| "outcome_code_value OC_CLAIMED = ''claimed''"
| "outcome_code_value OC_STARTED = ''started''"
| "outcome_code_value OC_RETRY_SCHEDULED = ''retry_scheduled''"
| "outcome_code_value OC_LEASE_LOST = ''lease_lost''"
| "outcome_code_value OC_RECOVERED = ''recovered''"
| "outcome_code_value OC_SUCCEEDED = ''succeeded''"
| "outcome_code_value OC_FAILED_UNCERTAIN = ''failed_uncertain''"
| "outcome_code_value OC_COMPLETED = ''completed''"
| "outcome_code_value OC_TERMINAL = ''terminal''"
| "outcome_code_value OC_TOOL_REQUESTED = ''tool_requested''"
| "outcome_code_value OC_INVALID_SCHEMA = ''invalid_schema''"
| "outcome_code_value OC_TIMEOUT = ''timeout''"
| "outcome_code_value OC_NETWORK_ERROR = ''network_error''"
| "outcome_code_value OC_HTTP_ERROR = ''http_error''"
| "outcome_code_value OC_ALLOW = ''allow''"
| "outcome_code_value OC_DENY = ''deny''"
| "outcome_code_value OC_NEEDS_APPROVAL = ''needs_approval''"
| "outcome_code_value OC_APPROVED = ''approved''"
| "outcome_code_value OC_EXPIRED = ''expired''"
| "outcome_code_value OC_EXECUTED = ''executed''"
| "outcome_code_value OC_NOT_FOUND = ''not_found''"
| "outcome_code_value OC_INVALID_ARGUMENTS = ''invalid_arguments''"
| "outcome_code_value OC_BACKEND_FAILURE = ''backend_failure''"
| "outcome_code_value OC_NO_RESULT = ''no_result''"

definition all_outcome_codes :: "outcome_code list" where
  "all_outcome_codes =
     [OC_SUCCESS, OC_FAILED, OC_AUTHENTICATED, OC_REJECTED, OC_VERIFIED, OC_MISSING,
      OC_MALFORMED, OC_STALE, OC_MISMATCH, OC_CREATED, OC_REUSED, OC_CONFLICT,
      OC_CLAIMED, OC_STARTED, OC_RETRY_SCHEDULED, OC_LEASE_LOST, OC_RECOVERED,
      OC_SUCCEEDED, OC_FAILED_UNCERTAIN, OC_COMPLETED, OC_TERMINAL, OC_TOOL_REQUESTED,
      OC_INVALID_SCHEMA, OC_TIMEOUT, OC_NETWORK_ERROR, OC_HTTP_ERROR, OC_ALLOW,
      OC_DENY, OC_NEEDS_APPROVAL, OC_APPROVED, OC_EXPIRED, OC_EXECUTED, OC_NOT_FOUND,
      OC_INVALID_ARGUMENTS, OC_BACKEND_FAILURE, OC_NO_RESULT]"

datatype policy_reason =
    PR_SAFETY_OR_LEGAL_RISK | PR_UNKNOWN_INTAKE_TYPE | PR_MISSING_REQUIRED_FIELDS
  | PR_INVALID_FIELD_VALUES | PR_ACTION_NOT_CONFIGURED | PR_ACTION_NOT_EXECUTABLE
  | PR_ACTION_NOT_ALLOWED | PR_APPROVAL_REQUIRED | PR_ACTION_ALLOWED
  | PR_NO_ACTION_REQUESTED | PR_DOCUMENT_UNREADABLE

fun policy_reason_value :: "policy_reason \<Rightarrow> string" where
  "policy_reason_value PR_SAFETY_OR_LEGAL_RISK = ''safety_or_legal_risk''"
| "policy_reason_value PR_UNKNOWN_INTAKE_TYPE = ''unknown_intake_type''"
| "policy_reason_value PR_MISSING_REQUIRED_FIELDS = ''missing_required_fields''"
| "policy_reason_value PR_INVALID_FIELD_VALUES = ''invalid_field_values''"
| "policy_reason_value PR_ACTION_NOT_CONFIGURED = ''action_not_configured''"
| "policy_reason_value PR_ACTION_NOT_EXECUTABLE = ''action_not_executable''"
| "policy_reason_value PR_ACTION_NOT_ALLOWED = ''action_not_allowed''"
| "policy_reason_value PR_APPROVAL_REQUIRED = ''approval_required''"
| "policy_reason_value PR_ACTION_ALLOWED = ''action_allowed''"
| "policy_reason_value PR_NO_ACTION_REQUESTED = ''no_action_requested''"
| "policy_reason_value PR_DOCUMENT_UNREADABLE = ''document_unreadable''"

definition all_policy_reasons :: "policy_reason list" where
  "all_policy_reasons =
     [PR_SAFETY_OR_LEGAL_RISK, PR_UNKNOWN_INTAKE_TYPE, PR_MISSING_REQUIRED_FIELDS,
      PR_INVALID_FIELD_VALUES, PR_ACTION_NOT_CONFIGURED, PR_ACTION_NOT_EXECUTABLE,
      PR_ACTION_NOT_ALLOWED, PR_APPROVAL_REQUIRED, PR_ACTION_ALLOWED,
      PR_NO_ACTION_REQUESTED, PR_DOCUMENT_UNREADABLE]"

datatype worker_error_code =
    WE_PROVIDER_UNAVAILABLE | WE_PROVIDER_REQUEST_REJECTED | WE_TOOL_EXECUTION_FAILED
  | WE_RETRY_EXHAUSTED | WE_SIDE_EFFECT_COMMITTED | WE_UNEXPECTED_AFTER_SIDE_EFFECT
  | WE_WORKER_ERROR | WE_AGENT_FAILED | WE_AGENT_FAILED_AFTER_SIDE_EFFECT | WE_LEASE_EXPIRED
  | WE_LEASE_EXPIRED_AFTER_SIDE_EFFECT | WE_PERSISTENCE_ERROR | WE_LEASE_LOST
  | WE_CAPABILITY_UNAVAILABLE | WE_SNAPSHOT_INCOMPATIBLE | WE_APPROVAL_EXPIRED
  | WE_GATEWAY_TIMEOUT | WE_WORKER_TIMEOUT

fun worker_error_code_value :: "worker_error_code \<Rightarrow> string" where
  "worker_error_code_value WE_PROVIDER_UNAVAILABLE = ''provider_unavailable''"
| "worker_error_code_value WE_PROVIDER_REQUEST_REJECTED = ''provider_request_rejected''"
| "worker_error_code_value WE_TOOL_EXECUTION_FAILED = ''tool_execution_failed''"
| "worker_error_code_value WE_RETRY_EXHAUSTED = ''retry_exhausted''"
| "worker_error_code_value WE_SIDE_EFFECT_COMMITTED = ''side_effect_committed''"
| "worker_error_code_value WE_UNEXPECTED_AFTER_SIDE_EFFECT = ''unexpected_after_side_effect''"
| "worker_error_code_value WE_WORKER_ERROR = ''worker_error''"
| "worker_error_code_value WE_AGENT_FAILED = ''agent_failed''"
| "worker_error_code_value WE_AGENT_FAILED_AFTER_SIDE_EFFECT = ''agent_failed_after_side_effect''"
| "worker_error_code_value WE_LEASE_EXPIRED = ''lease_expired''"
| "worker_error_code_value WE_LEASE_EXPIRED_AFTER_SIDE_EFFECT = ''lease_expired_after_side_effect''"
| "worker_error_code_value WE_PERSISTENCE_ERROR = ''persistence_error''"
| "worker_error_code_value WE_LEASE_LOST = ''lease_lost''"
| "worker_error_code_value WE_CAPABILITY_UNAVAILABLE = ''capability_unavailable''"
| "worker_error_code_value WE_SNAPSHOT_INCOMPATIBLE = ''snapshot_incompatible''"
| "worker_error_code_value WE_APPROVAL_EXPIRED = ''approval_expired''"
| "worker_error_code_value WE_GATEWAY_TIMEOUT = ''gateway_timeout''"
| "worker_error_code_value WE_WORKER_TIMEOUT = ''worker_timeout''"

definition all_worker_error_codes :: "worker_error_code list" where
  "all_worker_error_codes =
     [WE_PROVIDER_UNAVAILABLE, WE_PROVIDER_REQUEST_REJECTED, WE_TOOL_EXECUTION_FAILED,
      WE_RETRY_EXHAUSTED, WE_SIDE_EFFECT_COMMITTED, WE_UNEXPECTED_AFTER_SIDE_EFFECT,
      WE_WORKER_ERROR, WE_AGENT_FAILED, WE_AGENT_FAILED_AFTER_SIDE_EFFECT,
      WE_LEASE_EXPIRED, WE_LEASE_EXPIRED_AFTER_SIDE_EFFECT, WE_PERSISTENCE_ERROR,
      WE_LEASE_LOST, WE_CAPABILITY_UNAVAILABLE, WE_SNAPSHOT_INCOMPATIBLE,
      WE_APPROVAL_EXPIRED, WE_GATEWAY_TIMEOUT, WE_WORKER_TIMEOUT]"

section \<open>Lookup by value\<close>

definition outcome_code_of :: "string \<Rightarrow> outcome_code option" where
  "outcome_code_of s = next_item (\<lambda>c. outcome_code_value c = s) all_outcome_codes"

definition policy_reason_of :: "string \<Rightarrow> policy_reason option" where
  "policy_reason_of s = next_item (\<lambda>c. policy_reason_value c = s) all_policy_reasons"

definition worker_error_code_of :: "string \<Rightarrow> worker_error_code option" where
  "worker_error_code_of s = next_item (\<lambda>c. worker_error_code_value c = s) all_worker_error_codes"

lemma all_outcome_codes_complete: "c \<in> set all_outcome_codes"
  by (cases c) (simp_all add: all_outcome_codes_def)

lemma all_policy_reasons_complete: "c \<in> set all_policy_reasons"
  by (cases c) (simp_all add: all_policy_reasons_def)

lemma all_worker_error_codes_complete: "c \<in> set all_worker_error_codes"
  by (cases c) (simp_all add: all_worker_error_codes_def)

lemma outcome_code_value_inj: "distinct (map outcome_code_value all_outcome_codes)"
  by (simp add: all_outcome_codes_def)

lemma policy_reason_value_inj: "distinct (map policy_reason_value all_policy_reasons)"
  by (simp add: all_policy_reasons_def)

lemma worker_error_code_value_inj: "distinct (map worker_error_code_value all_worker_error_codes)"
  by (simp add: all_worker_error_codes_def)

lemma next_item_inj:
  assumes "x \<in> set xs" "distinct (map f xs)"
  shows "next_item (\<lambda>c. f c = f x) xs = Some x"
  using assms by (induction xs) (auto simp: image_iff)

lemma outcome_code_of_value [simp]: "outcome_code_of (outcome_code_value c) = Some c"
  unfolding outcome_code_of_def
  by (rule next_item_inj [OF all_outcome_codes_complete outcome_code_value_inj])

lemma policy_reason_of_value [simp]: "policy_reason_of (policy_reason_value c) = Some c"
  unfolding policy_reason_of_def
  by (rule next_item_inj [OF all_policy_reasons_complete policy_reason_value_inj])

lemma worker_error_code_of_value [simp]: "worker_error_code_of (worker_error_code_value c) = Some c"
  unfolding worker_error_code_of_def
  by (rule next_item_inj [OF all_worker_error_codes_complete worker_error_code_value_inj])

lemma worker_error_code_of_SomeD: "worker_error_code_of s = Some c \<Longrightarrow> worker_error_code_value c = s"
  unfolding worker_error_code_of_def by (drule next_item_SomeD) simp

end
