(* ===== verification/Agent_Loop.thy ===== *)
theory Agent_Loop
  imports Agent_Models Observability
begin

text \<open>
  The bounded control loop of \<open>app/agent/loop.py\<close>. The provider is a function from the transcript
  to a proposal or an exception: the transcript grows with every step, so this describes any
  sequence of answers. The tool executor is a record of state transformers over its own state,
  which the loop threads through. The events that \<open>_emit_step\<close> and \<open>_emit_run\<close> hand to the
  observer are collected in the state, without the correlation identifiers they share.
\<close>

section \<open>Interfaces and state\<close>

definition MAX_STEPS :: nat where
  "MAX_STEPS = 8"

definition MAX_CONSECUTIVE_TOOL_CALLS :: nat where
  "MAX_CONSECUTIVE_TOOL_CALLS = 3"

type_synonym llm_client = "agent_message list \<Rightarrow> agent_proposal res"

record 's tool_executor =
  te_execute :: "agent_proposal \<Rightarrow> tool_call \<Rightarrow> 's \<Rightarrow> tool_execution_result res \<times> 's"
  te_evaluate_terminal :: "(agent_proposal \<Rightarrow> 's \<Rightarrow> tool_execution_result res \<times> 's) option"
  te_definitions :: "string list"

datatype agent_event =
    AgentStepCompleted nat outcome_code "string option" "bool option"
  | AgentRunFinished outcome_code nat "stop_reason option"

record 's loop_state =
  ls_messages :: "agent_message list"
  ls_steps :: nat
  ls_path :: "execution_path_entry list"
  ls_previous :: "tool_call option"
  ls_consecutive :: nat
  ls_tools :: 's
  ls_events :: "agent_event list"

datatype 's step_result =
    Running "'s loop_state"
  | Finished "agent_run_result res" "'s loop_state"

text \<open>\<open>AgentLoop.__init__\<close>: the accepted \<open>max_steps\<close> and the cap on it.\<close>

definition loop_max_steps :: "pyval \<Rightarrow> nat res" where
  "loop_max_steps v =
     (case v of
        PInt i \<Rightarrow>
          if i \<le> 0 then Inl (ValueError ''max_steps must be positive integer'')
          else Inr (min (nat i) MAX_STEPS)
      | _ \<Rightarrow> Inl (ValueError ''max_steps must be positive integer''))"

section \<open>Observation\<close>

definition emit_step ::
  "'s tool_executor \<Rightarrow> nat \<Rightarrow> outcome_code \<Rightarrow> string option \<Rightarrow> 's loop_state \<Rightarrow> 's loop_state" where
  "emit_step tools step outcome action_key st =
     (let action_known =
            (case action_key of None \<Rightarrow> None | Some k \<Rightarrow> Some (k \<in> set (te_definitions tools)));
          key = (if action_known = Some True then action_key else None)
      in st\<lparr>ls_events := ls_events st @ [AgentStepCompleted step outcome key action_known]\<rparr>)"

definition emit_run ::
  "run_status \<Rightarrow> stop_reason option \<Rightarrow> nat \<Rightarrow> 's loop_state \<Rightarrow> 's loop_state" where
  "emit_run status reason steps st =
     st\<lparr>ls_events := ls_events st @
          [AgentRunFinished (if status = RunCompleted then OC_SUCCEEDED else OC_FAILED) steps reason]\<rparr>"

definition finish_result :: "agent_run_result \<Rightarrow> 's loop_state \<Rightarrow> 's step_result" where
  "finish_result r st =
     Finished (Inr r) (emit_run (rr_status r) (Some (rr_reason r)) (rr_steps r) st)"

definition failed_result :: "stop_reason \<Rightarrow> 's loop_state \<Rightarrow> agent_run_result" where
  "failed_result reason st =
     \<lparr>rr_status = RunFailed, rr_reason = reason, rr_messages = ls_messages st,
      rr_steps = ls_steps st, rr_final_response = None, rr_proposal = None,
      rr_execution_path = ls_path st\<rparr>"

section \<open>One iteration\<close>

text \<open>The compatibility result for executors without \<open>evaluate_terminal\<close>.\<close>

definition legacy_terminal_result :: "tool_execution_result res" where
  "legacy_terminal_result =
     mk_tool_execution_result
       (PDict [(''decision'', PStr ''allow''), (''status'', PStr ''ready''),
               (''reason'', PStr ''no_action_requested''),
               (''missing_required_fields'', PList []),
               (''business_outcome'', PStr ''routing_only'')])
       (Some False) (Some ''no_action_requested'') None None
       (Some \<lparr>ev_action_key = None, ev_action_known = False, ev_policy_decision = ''allow'',
              ev_routing_status = ''ready'', ev_policy_reason = ''no_action_requested'',
              ev_missing_required_fields = [], ev_tool_outcome = None,
              ev_side_effect_committed = False\<rparr>)"

text \<open>\<open>if execution.evidence is not None: execution_path.append(...)\<close>.\<close>

definition append_evidence ::
  "tool_execution_result \<Rightarrow> 's loop_state \<Rightarrow> 's loop_state res" where
  "append_evidence ex st =
     (case ter_evidence ex of
        None \<Rightarrow> Inr st
      | Some ev \<Rightarrow>
          (case from_tool (ls_steps st) ev of
             Inl e \<Rightarrow> Inl e
           | Inr entry \<Rightarrow> Inr (st\<lparr>ls_path := ls_path st @ [entry]\<rparr>)))"

text \<open>The branch for a proposal without a tool call.\<close>

definition terminal_step ::
  "'s tool_executor \<Rightarrow> agent_proposal \<Rightarrow> 's loop_state \<Rightarrow> 's step_result" where
  "terminal_step tools proposal st =
     (let (execution, tools') =
            (case te_evaluate_terminal tools of
               Some f \<Rightarrow> f proposal (ls_tools st)
             | None \<Rightarrow> (legacy_terminal_result, ls_tools st));
          st = st\<lparr>ls_tools := tools'\<rparr>
      in case execution of
           Inl e \<Rightarrow> Finished (Inl e) st
         | Inr ex \<Rightarrow>
             (case append_evidence ex st of
                Inl e \<Rightarrow> Finished (Inl e) st
              | Inr st \<Rightarrow>
                  (let response =
                         (if ter_final_response ex = Some ''no_action_requested'' \<and>
                             1 < length (ls_path st)
                          then Some (ap_rationale_short proposal)
                          else ter_final_response ex);
                       failed = (ter_disposition ex = DispFailed);
                       st = emit_step tools (ls_steps st) OC_TERMINAL None st
                   in finish_result
                        \<lparr>rr_status = (if failed then RunFailed else RunCompleted),
                         rr_reason = (if failed then TOOL_EXECUTION_FAILED else EXECUTOR_STOPPED),
                         rr_messages = ls_messages st,
                         rr_steps = ls_steps st,
                         rr_final_response = response,
                         rr_proposal = Some proposal,
                         rr_execution_path = ls_path st\<rparr> st)))"

text \<open>The branch that runs one tool call, after the repetition check.\<close>

definition execute_step ::
  "'s tool_executor \<Rightarrow> agent_proposal \<Rightarrow> tool_call \<Rightarrow> 's loop_state \<Rightarrow> 's step_result" where
  "execute_step tools proposal call st =
     (let st = emit_step tools (ls_steps st) OC_TOOL_REQUESTED (Some (tc_name call)) st;
          (execution, tools') = te_execute tools proposal call (ls_tools st);
          st = st\<lparr>ls_tools := tools'\<rparr>
      in case execution of
           Inl e \<Rightarrow> Finished (Inl e) st
         | Inr ex \<Rightarrow>
             (case append_evidence ex st of
                Inl e \<Rightarrow> Finished (Inl e) st
              | Inr st \<Rightarrow>
                  (let st = st\<lparr>ls_messages := ls_messages st @
                        [\<lparr>am_role = TOOL, am_content = None, am_proposal = None,
                          am_tool_call = Some call, am_tool_result = ter_data ex\<rparr>]\<rparr>;
                       result = \<lambda>status reason.
                         \<lparr>rr_status = status, rr_reason = reason, rr_messages = ls_messages st,
                          rr_steps = ls_steps st, rr_final_response = ter_final_response ex,
                          rr_proposal = Some proposal, rr_execution_path = ls_path st\<rparr>
                   in case ter_disposition ex of
                        DispFailed \<Rightarrow> finish_result (result RunFailed TOOL_EXECUTION_FAILED) st
                      | DispCompleted \<Rightarrow> finish_result (result RunCompleted EXECUTOR_STOPPED) st
                      | DispContinue \<Rightarrow> Running st)))"

text \<open>The repetition counter and the stop on the third identical call in a row.\<close>

definition tool_step ::
  "'s tool_executor \<Rightarrow> agent_proposal \<Rightarrow> tool_call \<Rightarrow> 's loop_state \<Rightarrow> 's step_result" where
  "tool_step tools proposal call st =
     (let repeated =
            (case ls_previous st of None \<Rightarrow> False | Some prev \<Rightarrow> tool_call_eq call prev);
          st = (if repeated
                then st\<lparr>ls_consecutive := ls_consecutive st + 1\<rparr>
                else st\<lparr>ls_previous := Some call, ls_consecutive := 1\<rparr>)
      in if ls_consecutive st = MAX_CONSECUTIVE_TOOL_CALLS
         then (let st = emit_step tools (ls_steps st) OC_FAILED (Some (tc_name call)) st
               in finish_result (failed_result REPEATED_TOOL st) st)
         else execute_step tools proposal call st)"

definition loop_iteration ::
  "llm_client \<Rightarrow> 's tool_executor \<Rightarrow> 's loop_state \<Rightarrow> 's step_result" where
  "loop_iteration llm tools st =
     (case llm (ls_messages st) of
        Inl e \<Rightarrow> Finished (Inl e) (emit_run RunFailed None (ls_steps st) st)
      | Inr proposal \<Rightarrow>
          (let st = st\<lparr>ls_steps := ls_steps st + 1\<rparr>
           in case proposal_tool_call_of proposal of
                Inl e \<Rightarrow> Finished (Inl e) st
              | Inr call \<Rightarrow>
                  (let st = st\<lparr>ls_messages := ls_messages st @
                         [\<lparr>am_role = ASSISTANT, am_content = Some (ap_rationale_short proposal),
                           am_proposal = Some proposal, am_tool_call = call,
                           am_tool_result = PNone\<rparr>]\<rparr>
                   in if is_terminal proposal then terminal_step tools proposal st
                      else case call of
                             None \<Rightarrow>
                               (let st = emit_step tools (ls_steps st) OC_INVALID_SCHEMA None st
                                in finish_result (failed_result INVALID_PROPOSAL st) st)
                           | Some c \<Rightarrow> tool_step tools proposal c st)))"

section \<open>The loop\<close>

lemma append_evidence_frame:
  "append_evidence ex st = Inr st' \<Longrightarrow>
     ls_steps st' = ls_steps st \<and> ls_messages st' = ls_messages st \<and>
     ls_previous st' = ls_previous st \<and> ls_consecutive st' = ls_consecutive st \<and>
     ls_tools st' = ls_tools st \<and> ls_events st' = ls_events st"
  by (auto simp: append_evidence_def split: option.splits sum.splits)

lemma loop_iteration_Running_steps:
  "loop_iteration llm tools st = Running st' \<Longrightarrow> ls_steps st' = Suc (ls_steps st)"
  by (auto simp: loop_iteration_def terminal_step_def tool_step_def execute_step_def
      finish_result_def emit_step_def Let_def
      split: sum.splits option.splits if_splits prod.splits tool_disposition.splits
      dest!: append_evidence_frame)

function run_loop ::
  "llm_client \<Rightarrow> 's tool_executor \<Rightarrow> nat \<Rightarrow> 's loop_state \<Rightarrow>
   agent_run_result res \<times> 's loop_state" where
  "run_loop llm tools max_steps st =
     (if ls_steps st < max_steps
      then (case loop_iteration llm tools st of
              Finished r st' \<Rightarrow> (r, st')
            | Running st' \<Rightarrow> run_loop llm tools max_steps st')
      else (Inr (failed_result MAX_STEPS_REACHED st),
            emit_run RunFailed (Some MAX_STEPS_REACHED) (ls_steps st) st))"
  by pat_completeness auto
termination
  by (relation "measure (\<lambda>(llm, tools, max_steps, st). max_steps - ls_steps st)")
     (auto dest: loop_iteration_Running_steps)

declare run_loop.simps [simp del]

definition initial_loop_state :: "agent_message list \<Rightarrow> 's \<Rightarrow> 's loop_state" where
  "initial_loop_state msgs s =
     \<lparr>ls_messages = msgs, ls_steps = 0, ls_path = [], ls_previous = None,
      ls_consecutive = 0, ls_tools = s, ls_events = []\<rparr>"

text \<open>\<open>AgentLoop(llm, tools, max_steps=...).run(initial_messages)\<close>.\<close>

definition agent_run ::
  "llm_client \<Rightarrow> 's tool_executor \<Rightarrow> nat \<Rightarrow> agent_message list \<Rightarrow> 's \<Rightarrow>
   agent_run_result res \<times> 's loop_state" where
  "agent_run llm tools max_steps msgs s =
     run_loop llm tools max_steps (initial_loop_state msgs s)"

section \<open>What one iteration can do\<close>

lemmas iteration_defs =
  loop_iteration_def terminal_step_def tool_step_def execute_step_def finish_result_def
  failed_result_def emit_step_def emit_run_def Let_def

definition assistant_message :: "agent_proposal \<Rightarrow> tool_call option \<Rightarrow> agent_message" where
  "assistant_message p c =
     \<lparr>am_role = ASSISTANT, am_content = Some (ap_rationale_short p), am_proposal = Some p,
      am_tool_call = c, am_tool_result = PNone\<rparr>"

definition tool_message :: "tool_call \<Rightarrow> pyval \<Rightarrow> agent_message" where
  "tool_message c v =
     \<lparr>am_role = TOOL, am_content = None, am_proposal = None, am_tool_call = Some c,
      am_tool_result = v\<rparr>"

text \<open>The repetition counter after a call has been compared with the previous one.\<close>

definition bump_streak :: "tool_call \<Rightarrow> 's loop_state \<Rightarrow> tool_call option \<times> nat" where
  "bump_streak c st =
     (case ls_previous st of
        Some prev \<Rightarrow>
          if tool_call_eq c prev then (Some prev, ls_consecutive st + 1) else (Some c, 1)
      | None \<Rightarrow> (Some c, 1))"

definition path_step :: "nat \<Rightarrow> execution_path_entry list \<Rightarrow> execution_path_entry list \<Rightarrow> bool" where
  "path_step n old new \<longleftrightarrow>
     new = old \<or>
     (\<exists>e. new = old @ [e] \<and> pe_step e = n \<and> (pe_action_known e \<longleftrightarrow> pe_action_key e \<noteq> None))"

lemma append_evidence_path:
  "append_evidence ex st = Inr st' \<Longrightarrow> path_step (ls_steps st) (ls_path st) (ls_path st')"
  by (auto simp: append_evidence_def path_step_def split: option.splits sum.splits
      dest!: from_tool_Inr)

lemma append_evidence_spec:
  assumes "append_evidence ex st = Inr st'"
  shows "path_step (ls_steps st) (ls_path st) (ls_path st') \<and>
     ls_steps st' = ls_steps st \<and> ls_messages st' = ls_messages st \<and>
     ls_previous st' = ls_previous st \<and> ls_consecutive st' = ls_consecutive st"
  using append_evidence_path [OF assms] append_evidence_frame [OF assms] by simp

lemma terminal_step_not_Running: "terminal_step tools p st \<noteq> Running st'"
  by (auto simp: iteration_defs split: sum.splits option.splits prod.splits)

lemma emit_step_frame [simp]:
  "ls_messages (emit_step t n oc k st) = ls_messages st"
  "ls_steps (emit_step t n oc k st) = ls_steps st"
  "ls_path (emit_step t n oc k st) = ls_path st"
  "ls_previous (emit_step t n oc k st) = ls_previous st"
  "ls_consecutive (emit_step t n oc k st) = ls_consecutive st"
  "ls_tools (emit_step t n oc k st) = ls_tools st"
  by (simp_all add: emit_step_def Let_def)

lemma execute_step_Running:
  assumes "execute_step tools p c st = Running st'"
  shows "\<exists>v. ls_messages st' = ls_messages st @ [tool_message c v] \<and>
     ls_steps st' = ls_steps st \<and> path_step (ls_steps st) (ls_path st) (ls_path st') \<and>
     ls_previous st' = ls_previous st \<and> ls_consecutive st' = ls_consecutive st"
  using assms
  by (auto simp: execute_step_def finish_result_def tool_message_def Let_def
      split: sum.splits prod.splits tool_disposition.splits
      dest!: append_evidence_spec)

lemma tool_step_Running:
  assumes "tool_step tools p c st = Running st'"
  shows "\<exists>v. ls_messages st' = ls_messages st @ [tool_message c v] \<and>
     ls_steps st' = ls_steps st \<and> path_step (ls_steps st) (ls_path st) (ls_path st') \<and>
     (ls_previous st', ls_consecutive st') = bump_streak c st \<and>
     ls_consecutive st' \<noteq> MAX_CONSECUTIVE_TOOL_CALLS"
  using assms
  by (auto simp: tool_step_def finish_result_def bump_streak_def Let_def
      split: option.splits if_splits dest!: execute_step_Running)

lemma loop_iteration_Running:
  assumes "loop_iteration llm tools st = Running st'"
  shows "\<exists>p c v. llm (ls_messages st) = Inr p \<and> proposal_tool_call_of p = Inr (Some c) \<and>
     ls_messages st' = ls_messages st @ [assistant_message p (Some c), tool_message c v] \<and>
     ls_steps st' = Suc (ls_steps st) \<and>
     path_step (Suc (ls_steps st)) (ls_path st) (ls_path st') \<and>
     (ls_previous st', ls_consecutive st') = bump_streak c st \<and>
     ls_consecutive st' \<noteq> MAX_CONSECUTIVE_TOOL_CALLS"
  using assms
  by (fastforce simp: loop_iteration_def finish_result_def Let_def assistant_message_def
      terminal_step_not_Running bump_streak_def
      split: sum.splits option.splits if_splits dest!: tool_step_Running)

text \<open>The results an iteration can end the run with.\<close>

definition result_after :: "'s loop_state \<Rightarrow> llm_client \<Rightarrow> agent_run_result \<Rightarrow> bool" where
  "result_after st llm r \<longleftrightarrow>
     rr_steps r = Suc (ls_steps st) \<and>
     path_step (Suc (ls_steps st)) (ls_path st) (rr_execution_path r) \<and>
     (rr_status r = RunCompleted \<longleftrightarrow> rr_reason r = EXECUTOR_STOPPED) \<and>
     (\<exists>p c. llm (ls_messages st) = Inr p \<and> proposal_tool_call_of p = Inr c \<and>
        (rr_messages r = ls_messages st @ [assistant_message p c] \<or>
         (\<exists>d v. c = Some d \<and>
            rr_messages r = ls_messages st @ [assistant_message p c, tool_message d v] \<and>
            snd (bump_streak d st) \<noteq> MAX_CONSECUTIVE_TOOL_CALLS)))"

lemma path_step_refl [simp]: "path_step n xs xs"
  by (simp add: path_step_def)

lemma terminal_step_Finished:
  assumes "terminal_step tools p st = Finished (Inr r) st'"
  shows "rr_steps r = ls_steps st \<and> rr_messages r = ls_messages st \<and>
     path_step (ls_steps st) (ls_path st) (rr_execution_path r) \<and>
     (rr_status r = RunCompleted \<longleftrightarrow> rr_reason r = EXECUTOR_STOPPED)"
  using assms
  by (auto simp: terminal_step_def finish_result_def Let_def
      split: sum.splits prod.splits option.splits if_splits dest!: append_evidence_spec)

lemma execute_step_Finished:
  assumes "execute_step tools p c st = Finished (Inr r) st'"
  shows "rr_steps r = ls_steps st \<and> (\<exists>v. rr_messages r = ls_messages st @ [tool_message c v]) \<and>
     path_step (ls_steps st) (ls_path st) (rr_execution_path r) \<and>
     (rr_status r = RunCompleted \<longleftrightarrow> rr_reason r = EXECUTOR_STOPPED)"
  using assms
  by (auto simp: execute_step_def finish_result_def tool_message_def Let_def
      split: sum.splits prod.splits tool_disposition.splits dest!: append_evidence_spec)

lemma tool_step_Finished:
  assumes "tool_step tools p c st = Finished (Inr r) st'"
  shows "rr_steps r = ls_steps st \<and>
     (rr_messages r = ls_messages st \<or>
      (\<exists>v. rr_messages r = ls_messages st @ [tool_message c v]) \<and>
      snd (bump_streak c st) \<noteq> MAX_CONSECUTIVE_TOOL_CALLS) \<and>
     path_step (ls_steps st) (ls_path st) (rr_execution_path r) \<and>
     (rr_status r = RunCompleted \<longleftrightarrow> rr_reason r = EXECUTOR_STOPPED)"
  using assms
  by (auto simp: tool_step_def finish_result_def failed_result_def bump_streak_def Let_def
      split: option.splits if_splits dest!: execute_step_Finished)

lemma loop_iteration_Finished:
  assumes "loop_iteration llm tools st = Finished (Inr r) st'"
  shows "result_after st llm r"
proof -
  from assms obtain p c where p: "llm (ls_messages st) = Inr p"
    and c: "proposal_tool_call_of p = Inr c"
    by (auto simp: loop_iteration_def Let_def split: sum.splits)
  let ?st = "st\<lparr>ls_steps := ls_steps st + 1,
                ls_messages := ls_messages st @ [assistant_message p c]\<rparr>"
  consider (terminal) "terminal_step tools p ?st = Finished (Inr r) st'"
    | (invalid) "c = None" "r = failed_result INVALID_PROPOSAL ?st"
    | (tool) d where "c = Some d" "tool_step tools p d ?st = Finished (Inr r) st'"
    using assms p c
    by (auto simp: loop_iteration_def assistant_message_def finish_result_def failed_result_def Let_def
        split: if_splits option.splits)
  then show ?thesis
  proof cases
    case terminal
    then show ?thesis
      using p c by (auto simp: result_after_def dest!: terminal_step_Finished)
  next
    case invalid
    then show ?thesis
      using p c by (auto simp: result_after_def failed_result_def)
  next
    case tool
    then show ?thesis
      using p c
      by (auto simp: result_after_def bump_streak_def split: option.splits dest!: tool_step_Finished)
  qed
qed

text \<open>Invariants of the loop head, lifted to the whole run.\<close>

lemma run_loop_invariant:
  assumes "run_loop llm tools m st = (r, fin)" and "I st"
    and "\<And>s s'. I s \<Longrightarrow> ls_steps s < m \<Longrightarrow> loop_iteration llm tools s = Running s' \<Longrightarrow> I s'"
    and "\<And>s q s'. I s \<Longrightarrow> ls_steps s < m \<Longrightarrow> loop_iteration llm tools s = Finished q s' \<Longrightarrow> Q q s'"
    and "\<And>s. I s \<Longrightarrow> m \<le> ls_steps s \<Longrightarrow>
      Q (Inr (failed_result MAX_STEPS_REACHED s))
        (emit_run RunFailed (Some MAX_STEPS_REACHED) (ls_steps s) s)"
  shows "Q r fin"
  using assms
proof (induction llm tools m st rule: run_loop.induct)
  case (1 llm tools m st)
  show ?case
  proof (cases "ls_steps st < m")
    case False
    then have "r = Inr (failed_result MAX_STEPS_REACHED st)"
      "fin = emit_run RunFailed (Some MAX_STEPS_REACHED) (ls_steps st) st"
      using "1.prems"(1) by (subst (asm) run_loop.simps, simp)+
    then show ?thesis
      using False "1.prems"(2,5) by simp
  next
    case True
    show ?thesis
    proof (cases "loop_iteration llm tools st")
      case (Running st')
      then have "run_loop llm tools m st' = (r, fin)"
        using "1.prems"(1) True by (subst (asm) run_loop.simps) simp
      moreover have "I st'"
        using "1.prems"(2,3) True Running by blast
      ultimately show ?thesis
        by (rule "1.IH" [OF True Running]) (fact "1.prems"(3), fact "1.prems"(4), fact "1.prems"(5))
    next
      case (Finished q st')
      then have "loop_iteration llm tools st = Finished r fin"
        using "1.prems"(1) True by (subst (asm) run_loop.simps) simp
      then show ?thesis
        using "1.prems"(2,4) True by blast
    qed
  qed
qed

text \<open>The form for runs that return a result, over the summaries of one iteration.\<close>

lemma run_loop_result:
  fixes fin :: "'s loop_state"
  assumes "run_loop llm tools m st = (Inr r, fin)" and "I st"
    and "\<And>s s'. I s \<Longrightarrow> ls_steps s < m \<Longrightarrow> loop_iteration llm tools s = Running s' \<Longrightarrow> I s'"
    and "\<And>s q. I s \<Longrightarrow> ls_steps s < m \<Longrightarrow> result_after s llm q \<Longrightarrow> Q q"
    and "\<And>s. I s \<Longrightarrow> m \<le> ls_steps s \<Longrightarrow> Q (failed_result MAX_STEPS_REACHED s)"
  shows "Q r"
proof -
  define R where "R = (\<lambda>(q :: agent_run_result res) (_ :: 's loop_state). \<forall>x. q = Inr x \<longrightarrow> Q x)"
  have "R (Inr r) fin"
  proof (rule run_loop_invariant [where I = I and Q = R, OF assms(1,2)])
    show "R q s'" if "I s" "ls_steps s < m" "loop_iteration llm tools s = Finished q s'" for s q s'
      using that assms(4) loop_iteration_Finished unfolding R_def by blast
  qed (use assms(3,5) in \<open>auto simp: R_def\<close>)
  then show ?thesis by (simp add: R_def)
qed
section \<open>The contract of the executor\<close>

text \<open>
  What a run guarantees of the executor's own state rests on what the executor keeps: an
  invariant that both of its operations maintain holds after the whole run, whatever the
  provider answers.
\<close>

locale tool_contract =
  fixes tools :: "'s tool_executor" and inv :: "'s \<Rightarrow> bool"
  assumes execute_inv: "inv s \<Longrightarrow> te_execute tools p c s = (r, s') \<Longrightarrow> inv s'"
    and terminal_inv:
      "te_evaluate_terminal tools = Some f \<Longrightarrow> inv s \<Longrightarrow> f p s = (r, s') \<Longrightarrow> inv s'"
begin

lemma terminal_step_inv:
  assumes "inv (ls_tools st)" "terminal_step tools p st = Finished q st'"
  shows "inv (ls_tools st')"
proof (cases "te_evaluate_terminal tools")
  case None
  with assms show ?thesis
    by (auto simp: terminal_step_def finish_result_def emit_run_def Let_def
        split: sum.splits dest!: append_evidence_frame)
next
  case (Some f)
  obtain x s' where f: "f p (ls_tools st) = (x, s')" by (cases "f p (ls_tools st)")
  then have "inv s'" using terminal_inv Some assms(1) by blast
  with assms(2) Some f show ?thesis
    by (auto simp: terminal_step_def finish_result_def emit_run_def Let_def
        split: sum.splits dest!: append_evidence_frame)
qed

lemma execute_step_inv:
  assumes "inv (ls_tools st)"
  shows "execute_step tools p c st = Finished q st' \<Longrightarrow> inv (ls_tools st')"
    and "execute_step tools p c st = Running st' \<Longrightarrow> inv (ls_tools st')"
proof -
  obtain x s' where e: "te_execute tools p c (ls_tools st) = (x, s')"
    by (cases "te_execute tools p c (ls_tools st)")
  then have "inv s'" using execute_inv assms by blast
  with e show "execute_step tools p c st = Finished q st' \<Longrightarrow> inv (ls_tools st')"
    "execute_step tools p c st = Running st' \<Longrightarrow> inv (ls_tools st')"
    by (auto simp: execute_step_def finish_result_def emit_run_def Let_def
        split: sum.splits tool_disposition.splits dest!: append_evidence_frame)
qed

lemma tool_step_inv:
  assumes "inv (ls_tools st)"
  shows "tool_step tools p c st = Finished q st' \<Longrightarrow> inv (ls_tools st')"
    and "tool_step tools p c st = Running st' \<Longrightarrow> inv (ls_tools st')"
  using assms
  by (auto simp: tool_step_def finish_result_def emit_run_def Let_def
      split: if_splits dest: execute_step_inv [rotated])

lemma loop_iteration_inv:
  assumes "inv (ls_tools st)"
  shows "loop_iteration llm tools st = Finished q st' \<Longrightarrow> inv (ls_tools st')"
    and "loop_iteration llm tools st = Running st' \<Longrightarrow> inv (ls_tools st')"
  using assms
  by (auto simp: loop_iteration_def finish_result_def emit_run_def terminal_step_not_Running Let_def
      split: if_splits sum.splits option.splits
      dest: tool_step_inv [rotated] terminal_step_inv [rotated])

lemma run_keeps_inv:
  assumes "inv s" "agent_run llm tools m msgs s = (r, fin)"
  shows "inv (ls_tools fin)"
proof -
  define I where "I = (\<lambda>st :: 's loop_state. inv (ls_tools st))"
  define R where "R = (\<lambda>(_ :: agent_run_result res) st :: 's loop_state. inv (ls_tools st))"
  have run: "run_loop llm tools m (initial_loop_state msgs s) = (r, fin)"
    using assms(2) by (simp add: agent_run_def)
  have I0: "I (initial_loop_state msgs s)"
    using assms(1) by (simp add: I_def initial_loop_state_def)
  have "R r fin"
    by (rule run_loop_invariant [where I = I and Q = R, OF run I0])
       (auto simp: I_def R_def emit_run_def intro: loop_iteration_inv)
  then show ?thesis by (simp add: R_def)
qed

end

end
