(* ===== verification/Tool_Executor.thy ===== *)
theory Tool_Executor
  imports Field_Values Agent_Loop
begin

text \<open>
  Policy-gated execution of typed tools, \<open>app/tools/executor.py\<close>, over the port of
  \<open>app/tools/ports.py\<close>. The port is a record of state transformers on its own state \<open>'p\<close>; the
  cancellation event is a predicate on that state, since another thread may set it at any time.
  The observation events are collected in the executor's state, without identifiers and
  durations. Building an event cannot fail on the values used here, so it has no error branch.
\<close>

section \<open>The port and the executor\<close>

record 'p tool_port =
  tp_find_customer ::
    "uuid \<Rightarrow> string option \<Rightarrow> string option \<Rightarrow> 'p \<Rightarrow> customer_summary option res \<times> 'p"
  tp_create_case ::
    "uuid \<Rightarrow> trusted_source \<Rightarrow> uuid option \<Rightarrow> py_dict \<Rightarrow> 'p \<Rightarrow> created_case res \<times> 'p"
  tp_update_case_fields :: "uuid \<Rightarrow> uuid \<Rightarrow> py_dict \<Rightarrow> 'p \<Rightarrow> updated_case option res \<times> 'p"
  tp_case_exists :: "uuid \<Rightarrow> uuid \<Rightarrow> 'p \<Rightarrow> bool res \<times> 'p"
  tp_request_approval :: "uuid \<Rightarrow> pending_action \<Rightarrow> string \<Rightarrow> 'p \<Rightarrow> approval_requested res \<times> 'p"
  tp_create_reply_draft ::
    "uuid \<Rightarrow> uuid option \<Rightarrow> string option \<Rightarrow> string \<Rightarrow> string \<Rightarrow> 'p \<Rightarrow> result_reference res \<times> 'p"
  tp_flag_for_review :: "uuid \<Rightarrow> uuid option \<Rightarrow> string \<Rightarrow> 'p \<Rightarrow> result_reference res \<times> 'p"

datatype tool_handler =
    H_find_customer | H_create_case | H_update_case_fields | H_create_reply_draft | H_flag_for_review

record tool_definition =
  td_name :: string
  td_requires_complete_fields :: bool
  td_arguments_model :: args_model
  td_handler :: tool_handler
  td_commits_side_effect :: bool
  td_pending_action_version :: int

record 'p executor =
  xe_runtime :: trusted_runtime
  xe_port :: "'p tool_port"
  xe_values :: value_env
  xe_cancelled :: "'p \<Rightarrow> bool"
  xe_definitions :: "(string, tool_definition) dict"

datatype tool_event =
    PolicyEvaluated outcome_code "string option" routing_status "policy_reason option" "string list"
  | ToolExecutionCompleted string outcome_code bool bool
  | ApprovalRequestedEvent string uuid policy_reason

record 'p exec_state =
  xs_port :: 'p
  xs_events :: "tool_event list"

definition handlers :: "(string \<times> tool_handler) list" where
  "handlers =
     [(''find_customer'', H_find_customer), (''create_case'', H_create_case),
      (''update_case_fields'', H_update_case_fields), (''create_reply_draft'', H_create_reply_draft),
      (''flag_for_review'', H_flag_for_review)]"

definition build_definition ::
  "action_registry \<Rightarrow> string \<times> tool_handler \<Rightarrow> (string \<times> tool_definition) res" where
  "build_definition r kh =
     (case registry_require r (fst kh) of
        Inl e \<Rightarrow> Inl e
      | Inr c \<Rightarrow>
          Inr (fst kh,
               \<lparr>td_name = ac_key c, td_requires_complete_fields = ac_requires_complete_fields c,
                td_arguments_model = ac_arguments_model c, td_handler = snd kh,
                td_commits_side_effect = ac_commits_side_effect c,
                td_pending_action_version = ac_pending_action_version c\<rparr>))"

text \<open>\<open>_build_definitions\<close>.\<close>

definition build_definitions :: "action_registry \<Rightarrow> (string, tool_definition) dict res" where
  "build_definitions r =
     (if set (map fst handlers) \<noteq> set (dict_keys r)
      then Inl (RuntimeError ''action registry and handlers are incompatible'')
      else map_res (build_definition r) handlers)"

section \<open>Handlers\<close>

definition validated_proposal_fields :: "'p executor \<Rightarrow> agent_proposal \<Rightarrow> validated_fields" where
  "validated_proposal_fields x p = validate_proposal_fields (xe_values x) p (xe_runtime x)"

definition recomputed_missing_required_fields :: "'p executor \<Rightarrow> agent_proposal \<Rightarrow> string list" where
  "recomputed_missing_required_fields x p =
     (case find_intake (xe_runtime x) (ap_intake_type p) of
        None \<Rightarrow> []
      | Some t \<Rightarrow>
          sorted_minus (it_required_fields t) (dict_keys (vf_values (validated_proposal_fields x p))))"

definition reference_data :: "result_reference \<Rightarrow> pyval" where
  "reference_data r = PDict [(''result_reference'', reference_dump r), (''persisted'', PBool True)]"

definition draft_recipient :: "'p executor \<Rightarrow> agent_proposal \<Rightarrow> string option" where
  "draft_recipient x p =
     (case map_of (tn_fields (rt_tenant_config (xe_runtime x))) ''contact'' of
        None \<Rightarrow> None
      | Some d \<Rightarrow>
          (case map_of (vf_values (validated_proposal_fields x p)) ''contact'' of
             Some (PStr s) \<Rightarrow> if fd_type d = EMAIL then Some s else None
           | _ \<Rightarrow> None))"

definition draft_body :: "'p executor \<Rightarrow> agent_proposal \<Rightarrow> string" where
  "draft_body x p =
     (let missing = recomputed_missing_required_fields x p
      in if missing = [] then ap_rationale_short p
         else ap_rationale_short p @ '' Missing information: '' @ join_names missing @ ''.'')"

fun run_handler ::
  "'p executor \<Rightarrow> tool_handler \<Rightarrow> tool_args \<Rightarrow> agent_proposal \<Rightarrow> 'p \<Rightarrow> pyval res \<times> 'p" where
  "run_handler x H_find_customer (FindCustomer email ext) p s =
     (case tp_find_customer (xe_port x) (rt_tenant_id (xe_runtime x)) email ext s of
        (Inl e, s) \<Rightarrow> (Inl e, s)
      | (Inr c, s) \<Rightarrow> (Inr (customer_data c), s))"
| "run_handler x H_create_case (CreateCase customer) p s =
     (case rt_source (xe_runtime x) of
        None \<Rightarrow> (Inl (ToolExecutionStop ''trusted_source_unavailable''), s)
      | Some src \<Rightarrow>
          (case tp_create_case (xe_port x) (rt_tenant_id (xe_runtime x)) src customer
                  (vf_values (validated_proposal_fields x p)) s of
             (Inl e, s) \<Rightarrow> (Inl e, s)
           | (Inr c, s) \<Rightarrow> (Inr (created_case_dump c), s)))"
| "run_handler x H_update_case_fields (UpdateCaseFields case_id) p s =
     (case tp_update_case_fields (xe_port x) (rt_tenant_id (xe_runtime x)) case_id
             (vf_values (validated_proposal_fields x p)) s of
        (Inl e, s) \<Rightarrow> (Inl e, s)
      | (Inr None, s) \<Rightarrow> (Inl (ToolExecutionStop ''case_not_found''), s)
      | (Inr (Some c), s) \<Rightarrow> (Inr (updated_case_dump c), s))"
| "run_handler x H_create_reply_draft (CreateReplyDraft case_id) p s =
     (let (found, s) = (case case_id of
             None \<Rightarrow> (Inr True, s)
           | Some c \<Rightarrow> tp_case_exists (xe_port x) (rt_tenant_id (xe_runtime x)) c s)
      in case found of
           Inl e \<Rightarrow> (Inl e, s)
         | Inr False \<Rightarrow> (Inl (ToolExecutionStop ''case_not_found''), s)
         | Inr True \<Rightarrow>
             (case tp_create_reply_draft (xe_port x) (rt_tenant_id (xe_runtime x))
                     (rt_job_id (xe_runtime x)) (draft_recipient x p)
                     (case rt_source (xe_runtime x) of None \<Rightarrow> ''Intake reply draft''
                      | Some src \<Rightarrow> ts_subject src)
                     (draft_body x p) s of
                (Inl e, s) \<Rightarrow> (Inl e, s)
              | (Inr r, s) \<Rightarrow> (Inr (reference_data r), s)))"
| "run_handler x H_flag_for_review (FlagForReview note) p s =
     (case tp_flag_for_review (xe_port x) (rt_tenant_id (xe_runtime x)) (rt_job_id (xe_runtime x))
             (case note of Some n \<Rightarrow> if n = [] then ap_rationale_short p else n
              | None \<Rightarrow> ap_rationale_short p) s of
        (Inl e, s) \<Rightarrow> (Inl e, s)
      | (Inr r, s) \<Rightarrow> (Inr (reference_data r), s))"
| "run_handler x h args p s = (validation_error, s)"

section \<open>Evidence and events\<close>

definition tool_outcome :: "pyval \<Rightarrow> outcome_code" where
  "tool_outcome v =
     (case v of
        PNone \<Rightarrow> OC_NO_RESULT
      | PDict d \<Rightarrow>
          (case map_of d ''outcome'' of
             Some (PStr raw) \<Rightarrow>
               if raw = ''tool_arguments_invalid'' then OC_INVALID_ARGUMENTS
               else if raw = ''customer_not_found'' \<or> raw = ''case_not_found'' then OC_NOT_FOUND
               else if raw = ''tool_execution_failed'' then OC_BACKEND_FAILURE
               else (case outcome_code_of raw of Some c \<Rightarrow> c | None \<Rightarrow> OC_EXECUTED)
           | _ \<Rightarrow> OC_EXECUTED)
      | _ \<Rightarrow> OC_EXECUTED)"

text \<open>\<open>_result_reference\<close>.\<close>

definition result_reference_of :: "pyval \<Rightarrow> result_reference option" where
  "result_reference_of v =
     opt_bind (as_dict v) (\<lambda>d.
     opt_bind (map_of d ''result_reference'') (\<lambda>raw.
     opt_bind (as_dict raw) (\<lambda>r.
     opt_bind (key ''kind'' (as_enum reference_kind_value all_reference_kinds) r) (\<lambda>k.
     opt_bind (key ''id'' as_str r) (\<lambda>i.
     opt_bind (uuid_parse i) (\<lambda>u. Some \<lparr>ref_kind = k, ref_id = u\<rparr>))))))"

definition with_evidence ::
  "tool_execution_result \<Rightarrow> string \<Rightarrow> bool \<Rightarrow> policy_outcome \<Rightarrow> bool \<Rightarrow> bool \<Rightarrow> tool_execution_result res" where
  "with_evidence r action_key action_known policy tool_executed committed =
     bind_res (mk_evidence
       \<lparr>ev_action_key = (if action_known then Some action_key else None),
        ev_action_known = action_known,
        ev_policy_decision = routing_decision_value (po_decision policy),
        ev_routing_status = routing_status_value (po_status policy),
        ev_policy_reason = po_reason policy,
        ev_missing_required_fields = po_missing_required_fields policy,
        ev_tool_outcome =
          (if tool_executed then Some (outcome_code_value (tool_outcome (ter_data r))) else None),
        ev_side_effect_committed = committed\<rparr>) (\<lambda>ev.
     mk_tool_execution_result (ter_data r) (Some (ter_continue_run r)) (ter_final_response r)
       (Some (ter_disposition r)) (result_reference_of (ter_data r)) (Some ev))"

definition decision_outcome :: "routing_decision \<Rightarrow> outcome_code" where
  "decision_outcome d =
     (case d of ALLOW \<Rightarrow> OC_ALLOW | DENY \<Rightarrow> OC_DENY | NEEDS_APPROVAL \<Rightarrow> OC_NEEDS_APPROVAL)"

definition emit_event :: "tool_event \<Rightarrow> 'p exec_state \<Rightarrow> 'p exec_state" where
  "emit_event e s = s\<lparr>xs_events := xs_events s @ [e]\<rparr>"

definition emit_policy :: "string \<Rightarrow> bool \<Rightarrow> policy_outcome \<Rightarrow> 'p exec_state \<Rightarrow> 'p exec_state" where
  "emit_policy action_key action_known policy =
     emit_event (PolicyEvaluated (decision_outcome (po_decision policy))
       (if action_known then Some action_key else None) (po_status policy)
       (policy_reason_of (po_reason policy)) (sorted_set (po_missing_required_fields policy)))"

definition emit_tool :: "string \<Rightarrow> tool_execution_result \<Rightarrow> bool \<Rightarrow> 'p exec_state \<Rightarrow> 'p exec_state" where
  "emit_tool action_key r committed =
     emit_event (ToolExecutionCompleted action_key (tool_outcome (ter_data r)) (ter_data r = PNone) committed)"

definition emit_approval_requested :: "string \<Rightarrow> uuid \<Rightarrow> string \<Rightarrow> 'p exec_state \<Rightarrow> 'p exec_state" where
  "emit_approval_requested action_key approval_id reason s =
     (case policy_reason_of reason of
        None \<Rightarrow> s
      | Some r \<Rightarrow> emit_event (ApprovalRequestedEvent action_key approval_id r) s)"

section \<open>Execution\<close>

definition registered_actions :: "'p executor \<Rightarrow> string list" where
  "registered_actions x =
     (case rt_compiled_profile (xe_runtime x) of
        Some cp \<Rightarrow> cp_registered_actions cp
      | None \<Rightarrow> dict_keys (xe_definitions x))"

definition execute_policy :: "'p executor \<Rightarrow> agent_proposal \<Rightarrow> tool_call \<Rightarrow> policy_outcome" where
  "execute_policy x p call =
     policy_evaluate
       \<lparr>pi_proposal = p, pi_requested_action = tc_name call,
        pi_requires_complete_fields =
          (case map_of (xe_definitions x) (tc_name call) of
             Some d \<Rightarrow> td_requires_complete_fields d | None \<Rightarrow> False),
        pi_registered_actions = registered_actions x, pi_runtime = xe_runtime x,
        pi_verified_present_fields = Some (dict_keys (vf_values (validated_proposal_fields x p))),
        pi_invalid_fields = vf_invalid_fields (validated_proposal_fields x p)\<rparr>"

definition cancelled_error :: exn where
  "cancelled_error = RuntimeError ''worker execution cancelled''"

definition outcome_data :: "string \<Rightarrow> pyval" where
  "outcome_data s = PDict [(''outcome'', PStr s)]"

text \<open>A result that stops the run, with evidence: the shape of most branches.\<close>

definition stop_result ::
  "pyval \<Rightarrow> string \<Rightarrow> tool_disposition option \<Rightarrow> tool_execution_result res" where
  "stop_result data response disp =
     (case disp of
        None \<Rightarrow> mk_tool_execution_result data (Some False) (Some response) None None None
      | Some d \<Rightarrow> mk_tool_execution_result data None (Some response) (Some d) None None)"

definition pending_action_of ::
  "'p executor \<Rightarrow> tool_definition \<Rightarrow> tool_args \<Rightarrow> agent_proposal \<Rightarrow> pending_action res" where
  "pending_action_of x d args p =
     mk_pending_action (td_pending_action_version d) (td_name d) (args_model_dump args)
       (vf_values (validated_proposal_fields x p))"

definition request_step ::
  "'p executor \<Rightarrow> tool_definition \<Rightarrow> tool_args \<Rightarrow> agent_proposal \<Rightarrow> policy_outcome \<Rightarrow> 'p exec_state \<Rightarrow>
   tool_execution_result res \<times> 'p exec_state" where
  "request_step x d args p policy s =
     (if xe_cancelled x (xs_port s) then (Inl cancelled_error, s)
      else case pending_action_of x d args p of
             Inl e \<Rightarrow> (Inl e, s)
           | Inr action \<Rightarrow>
               (let (requested, port) =
                      tp_request_approval (xe_port x) (rt_tenant_id (xe_runtime x)) action
                        (po_reason policy) (xs_port s);
                    s = s\<lparr>xs_port := port\<rparr>
                in case requested of
                     Inl e \<Rightarrow> (Inl e, s)
                   | Inr r \<Rightarrow>
                       (let s = emit_approval_requested (td_name d) (rq_id r) (po_reason policy) s
                        in (bind_res (stop_result
                              (PDict (as_tool_data policy @ [(''approval_id'', PStr (uuid_str (rq_id r)))]))
                              ''approval_requested'' None)
                              (\<lambda>r. with_evidence r (td_name d) True policy False False), s))))"

text \<open>The outcome of a failed handler: the name of the outcome and the disposition.\<close>

fun handler_failure :: "exn \<Rightarrow> string \<times> tool_disposition option" where
  "handler_failure (ToolExecutionStop outcome) = (outcome, None)"
| "handler_failure CustomerNotFoundError = (''customer_not_found'', None)"
| "handler_failure e = (''tool_execution_failed'', Some DispFailed)"

definition failure_step ::
  "tool_definition \<Rightarrow> policy_outcome \<Rightarrow> exn \<Rightarrow> 'p exec_state \<Rightarrow> tool_execution_result res \<times> 'p exec_state" where
  "failure_step d policy e s =
     (let (outcome, disp) = handler_failure e
      in case stop_result (outcome_data outcome) outcome disp of
           Inl e \<Rightarrow> (Inl e, s)
         | Inr r \<Rightarrow> (with_evidence r (td_name d) True policy True False, emit_tool (td_name d) r False s))"

definition handler_step ::
  "'p executor \<Rightarrow> tool_definition \<Rightarrow> tool_args \<Rightarrow> agent_proposal \<Rightarrow> policy_outcome \<Rightarrow> 'p exec_state \<Rightarrow>
   tool_execution_result res \<times> 'p exec_state" where
  "handler_step x d args p policy s =
     (if xe_cancelled x (xs_port s) then failure_step d policy cancelled_error s
      else (let (result, port) = run_handler x (td_handler d) args p (xs_port s);
                s = s\<lparr>xs_port := port\<rparr>
            in case bind_res result (\<lambda>data. mk_tool_execution_result data None None None None None) of
                 Inl e \<Rightarrow> failure_step d policy e s
               | Inr r \<Rightarrow>
                   (with_evidence r (td_name d) True policy True (td_commits_side_effect d),
                    emit_tool (td_name d) r (td_commits_side_effect d) s)))"

fun is_validation_error :: "exn \<Rightarrow> bool" where
  "is_validation_error (ValueError _) = True"
| "is_validation_error _ = False"

text \<open>\<open>except ValidationError\<close> around the validation of the arguments.\<close>

definition invalid_arguments_step ::
  "tool_definition \<Rightarrow> policy_outcome \<Rightarrow> 'p exec_state \<Rightarrow> tool_execution_result res \<times> 'p exec_state" where
  "invalid_arguments_step d policy s =
     (case stop_result (outcome_data ''tool_arguments_invalid'') ''tool_arguments_invalid'' None of
        Inl e \<Rightarrow> (Inl e, s)
      | Inr r \<Rightarrow>
          (with_evidence r (td_name d) True policy True False, emit_tool (td_name d) r False s))"

text \<open>The part of \<open>execute\<close> after the policy has not refused a known tool.\<close>

definition dispatch_step ::
  "'p executor \<Rightarrow> tool_definition \<Rightarrow> agent_proposal \<Rightarrow> tool_call \<Rightarrow> policy_outcome \<Rightarrow> 'p exec_state \<Rightarrow>
   tool_execution_result res \<times> 'p exec_state" where
  "dispatch_step x d p call policy s =
     (case args_model_validate (td_arguments_model d) (tc_arguments call) of
        Inl e \<Rightarrow> if is_validation_error e then invalid_arguments_step d policy s else (Inl e, s)
      | Inr args \<Rightarrow>
          if po_decision policy = NEEDS_APPROVAL then request_step x d args p policy s
          else handler_step x d args p policy s)"

text \<open>\<open>PolicyGatedToolExecutor.execute\<close>.\<close>

definition executor_execute ::
  "'p executor \<Rightarrow> agent_proposal \<Rightarrow> tool_call \<Rightarrow> 'p exec_state \<Rightarrow>
   tool_execution_result res \<times> 'p exec_state" where
  "executor_execute x p call s =
     (if xe_cancelled x (xs_port s) then (Inl cancelled_error, s)
      else (let definition = map_of (xe_definitions x) (tc_name call);
                policy = execute_policy x p call;
                s = emit_policy (tc_name call) (definition \<noteq> None) policy s
            in if po_decision policy \<noteq> ALLOW \<and> (definition = None \<or> po_decision policy \<noteq> NEEDS_APPROVAL)
               then (bind_res (stop_result (PDict (as_tool_data policy)) (po_reason policy) None)
                       (\<lambda>r. with_evidence r (tc_name call) (definition \<noteq> None) policy False False), s)
               else case definition of
                      None \<Rightarrow> (Inl (AssertionError ''allowed action must have a registered tool''), s)
                    | Some d \<Rightarrow> dispatch_step x d p call policy s))"

text \<open>\<open>PolicyGatedToolExecutor.evaluate_terminal\<close>.\<close>

definition executor_evaluate_terminal ::
  "'p executor \<Rightarrow> agent_proposal \<Rightarrow> 'p exec_state \<Rightarrow> tool_execution_result res \<times> 'p exec_state" where
  "executor_evaluate_terminal x p s =
     (if xe_cancelled x (xs_port s) then (Inl cancelled_error, s)
      else (let policy = policy_evaluate_terminal
                  \<lparr>pi_proposal = p, pi_requested_action = [], pi_requires_complete_fields = True,
                   pi_registered_actions = registered_actions x, pi_runtime = xe_runtime x,
                   pi_verified_present_fields = Some (dict_keys (vf_values (validated_proposal_fields x p))),
                   pi_invalid_fields = vf_invalid_fields (validated_proposal_fields x p)\<rparr>;
                s = emit_policy [] False policy s
            in (bind_res (stop_result
                  (PDict (as_tool_data policy @ [(''business_outcome'', PStr ''routing_only'')]))
                  (if po_reason policy = ''safety_or_legal_risk'' then ''review_required'' else po_reason policy)
                  None)
                  (\<lambda>r. with_evidence r [] False policy False False), s)))"

text \<open>The executor as the loop sees it.\<close>

definition gated_tools :: "'p executor \<Rightarrow> 'p exec_state tool_executor" where
  "gated_tools x =
     \<lparr>te_execute = executor_execute x,
      te_evaluate_terminal = Some (executor_evaluate_terminal x),
      te_definitions = dict_keys (xe_definitions x)\<rparr>"

end
