(* ===== verification/Approval_Service.thy ===== *)
theory Approval_Service
  imports Approval_Executor Tool_Executor
begin

text \<open>
  Human decisions: \<open>app/domain/approvals.py\<close>. \<open>decide\<close> runs in one transaction that locks the
  approval and its job, and reports afterwards; an approve request that comes too late commits
  the expiry before it raises. The review service projects approvals without their payload.
\<close>

section \<open>Requests and responses\<close>

datatype decision = Approve | Reject

record decision_request =
  dr_decision :: decision
  dr_reason :: string

text \<open>\<open>ApprovalDecisionRequest\<close>: the bounds on the reason and its normalization.\<close>

definition mk_decision_request :: "string \<Rightarrow> string \<Rightarrow> decision_request res" where
  "mk_decision_request verdict reason =
     (if \<not> (1 \<le> length reason \<and> length reason \<le> 1000) \<or> strip reason = [] then validation_error
      else if verdict = ''approve'' then Inr \<lparr>dr_decision = Approve, dr_reason = strip reason\<rparr>
      else if verdict = ''reject'' then Inr \<lparr>dr_decision = Reject, dr_reason = strip reason\<rparr>
      else validation_error)"

record authenticated_operator =
  op_tenant_id :: uuid
  op_actor_ref :: string
  op_credential_id :: uuid

record decision_response =
  rs_approval_id :: uuid
  rs_status :: approval_status
  rs_action :: string
  rs_decided_at :: datetime
  rs_case_id :: "uuid option"
  rs_executed :: bool

record approval_observation =
  ob_event :: string
  ob_trace_id :: uuid
  ob_tenant_id :: uuid
  ob_job_id :: "uuid option"
  ob_approval_id :: uuid
  ob_outcome :: outcome_code
  ob_duration_ms :: int
  ob_action_key :: "string option"
  ob_action_known :: bool
  ob_scenario_key :: string
  ob_profile_fingerprint :: string

text \<open>
  The service's collaborators: the two registries, the profile and value environments, and
  \<open>int(delta.total_seconds() * 1000)\<close>, which goes through floating point.
\<close>

record decision_env =
  de_profiles :: profile_env
  de_registry :: action_registry
  de_executor_registry :: action_registry
  de_values :: value_env
  de_total_ms :: "int \<Rightarrow> int"

definition decision_conflict :: "string \<Rightarrow> exn" where
  "decision_conflict msg = ApprovalDecisionConflict msg"

definition decision_latency_ms :: "decision_env \<Rightarrow> approval_row \<Rightarrow> datetime \<Rightarrow> int" where
  "decision_latency_ms env a now = max 0 (de_total_ms env (now - apr_created_at a))"

definition is_same_final_decision :: "approval_row \<Rightarrow> decision \<Rightarrow> bool" where
  "is_same_final_decision a v =
     (if apr_status a = A_approved then v = Approve
      else if apr_status a \<in> {A_rejected, A_expired} then v = Reject else False)"

definition decision_response :: "approval_row \<Rightarrow> decision_response res" where
  "decision_response a =
     (case apr_decided_at a of
        None \<Rightarrow> Inl (decision_conflict ''approval decision timestamp is missing'')
      | Some x \<Rightarrow>
          Inr \<lparr>rs_approval_id = apr_id a, rs_status = apr_status a, rs_action = apr_action a,
               rs_decided_at = x, rs_case_id = apr_case_id a, rs_executed = (apr_executed_at a \<noteq> None)\<rparr>)"

definition approval_event ::
  "decision_env \<Rightarrow> string \<Rightarrow> approval_row \<Rightarrow> job_observation_identity \<Rightarrow> resolved_tenant_profile \<Rightarrow>
   outcome_code \<Rightarrow> int \<Rightarrow> approval_observation" where
  "approval_event env name a identity profile outcome ms =
     (let known = (case registry_require (de_registry env) (apr_action a) of Inl _ \<Rightarrow> False | Inr _ \<Rightarrow> True)
      in \<lparr>ob_event = name, ob_trace_id = oi_trace_id identity, ob_tenant_id = apr_tenant_id a,
          ob_job_id = apr_job_id a, ob_approval_id = apr_id a, ob_outcome = outcome, ob_duration_ms = ms,
          ob_action_key = (if known then Some (apr_action a) else None), ob_action_known = known,
          ob_scenario_key = cp_scenario_key (rp_compiled profile),
          ob_profile_fingerprint = cp_profile_fingerprint (rp_compiled profile)\<rparr>)"

section \<open>Deciding\<close>

text \<open>The errors \<open>except (TenantProfileUnavailableError, ValueError)\<close> catches.\<close>

fun is_profile_error :: "exn \<Rightarrow> bool" where
  "is_profile_error (TenantProfileUnavailableError _) = True"
| "is_profile_error (ValueError _) = True"
| "is_profile_error (ActionCapabilityUnavailable _) = True"
| "is_profile_error (DocumentCapabilityUnavailable _) = True"
| "is_profile_error _ = False"

definition conflict_on :: "(exn \<Rightarrow> bool) \<Rightarrow> string \<Rightarrow> 'a res \<Rightarrow> 'a res" where
  "conflict_on caught msg r =
     (case r of Inl e \<Rightarrow> Inl (if caught e then decision_conflict msg else e) | Inr x \<Rightarrow> Inr x)"

text \<open>The job, its identity and its profile, under the locks.\<close>

definition load_context ::
  "decision_env \<Rightarrow> approval_row \<Rightarrow> uuid \<Rightarrow> (job_row \<times> job_observation_identity \<times> resolved_tenant_profile) tx" where
  "load_context env a i =
     bind_tx (read_tx (get_job_for_update (apr_tenant_id a) i)) (\<lambda>row. case row of
       None \<Rightarrow> raise_tx (decision_conflict ''approval job is unavailable'')
     | Some j \<Rightarrow>
         bind_tx (read_tx (get_job_observation_identity a)) (\<lambda>row. case row of
           None \<Rightarrow> raise_tx (decision_conflict ''approval job is unavailable'')
         | Some identity \<Rightarrow>
             bind_tx (lift_res (conflict_on is_profile_error ''approval trusted profile is unavailable''
                 (resolve_persisted_profile (de_profiles env) (oi_tenant_config_snapshot identity)
                    (PStr (oi_tenant_config_sha256 identity)) None))) (\<lambda>profile.
             ret_tx (j, identity, profile))))"

definition reject_row :: "authenticated_operator \<Rightarrow> decision_request \<Rightarrow> datetime \<Rightarrow> approval_row \<Rightarrow> approval_row" where
  "reject_row op req now a =
     a\<lparr>apr_status := A_rejected, apr_decided_at := Some now,
       apr_decided_by_actor_ref := Some (op_actor_ref op), apr_decision_reason := Some (dr_reason req),
       apr_decision := [(''decision'', PStr ''reject''), (''reason'', PStr (dr_reason req))]\<rparr>"

definition approve_row ::
  "authenticated_operator \<Rightarrow> decision_request \<Rightarrow> datetime \<Rightarrow> py_dict \<Rightarrow> approval_row \<Rightarrow> approval_row" where
  "approve_row op req now result a =
     a\<lparr>apr_status := A_approved, apr_decided_at := Some now,
       apr_decided_by_actor_ref := Some (op_actor_ref op), apr_decision_reason := Some (dr_reason req),
       apr_executed_at := Some now, apr_execution_result := Some result,
       apr_decision := [(''decision'', PStr ''approve''), (''reason'', PStr (dr_reason req))]\<rparr>"

record decide_outcome =
  do_approval :: approval_row
  do_response :: "decision_response option"
  do_outcome :: outcome_code
  do_executed :: bool
  do_expired :: bool

definition expire_branch ::
  "decision_request \<Rightarrow> datetime \<Rightarrow> approval_row \<Rightarrow> job_row \<Rightarrow> decide_outcome tx" where
  "expire_branch req now a j =
     bind_tx (expire_locked a now) (\<lambda>a'.
     bind_tx (finalize_tx a' j now) (\<lambda>_.
     if dr_decision req = Reject
     then bind_tx (lift_res (decision_response a')) (\<lambda>resp.
            ret_tx \<lparr>do_approval = a', do_response = Some resp, do_outcome = OC_EXPIRED, do_executed = False,
                    do_expired = False\<rparr>)
     else ret_tx \<lparr>do_approval = a', do_response = None, do_outcome = OC_EXPIRED, do_executed = False,
                  do_expired = True\<rparr>))"

definition reject_branch ::
  "authenticated_operator \<Rightarrow> decision_request \<Rightarrow> datetime \<Rightarrow> approval_row \<Rightarrow> job_row \<Rightarrow> decide_outcome tx" where
  "reject_branch op req now a j =
     (let a' = reject_row op req now a in
      bind_tx (write_tx (\<lambda>d. add_approval_event (apr_tenant_id a) (apr_id a) ''approval_rejected''
                 (Some (op_actor_ref op)) [] (update_approval (apr_id a) (\<lambda>_. a') d))) (\<lambda>_.
      bind_tx (finalize_tx a' j now) (\<lambda>_.
      bind_tx (lift_res (decision_response a')) (\<lambda>resp.
      ret_tx \<lparr>do_approval = a', do_response = Some resp, do_outcome = OC_REJECTED, do_executed = False,
              do_expired = False\<rparr>))))"

text \<open>The checks between an approve request and the execution of the frozen command.\<close>

definition frozen_runtime :: "approval_row \<Rightarrow> resolved_tenant_profile \<Rightarrow> trusted_runtime" where
  "frozen_runtime a profile =
     \<lparr>rt_tenant_id = apr_tenant_id a, rt_tenant_config = rp_config profile, rt_compiled_profile = None,
      rt_source = None, rt_case_id = None, rt_safety_or_legal_risk = False, rt_job_id = None\<rparr>"

definition approvable_action ::
  "decision_env \<Rightarrow> approval_row \<Rightarrow> py_dict \<Rightarrow> resolved_tenant_profile \<Rightarrow> pending_action res" where
  "approvable_action env a pending profile =
     bind_res (conflict_on is_validation_error ''approval action is invalid'' (pending_action_validate pending)) (\<lambda>act.
     if pa_name act \<noteq> apr_action a then Inl (decision_conflict ''approval action is invalid'')
     else bind_res (conflict_on (\<lambda>_. True) ''approval action is invalid''
                      (registry_require (de_registry env) (pa_name act))) (\<lambda>c.
       if pa_version act \<noteq> ac_pending_action_version c
       then Inl (decision_conflict ''approval action is invalid'')
       else
         bind_res (conflict_on is_validation_error ''approval action is invalid''
                    (args_model_validate (ac_arguments_model c) (pa_arguments act))) (\<lambda>_.
         if pa_name act \<notin> set (cp_available_actions (rp_compiled profile))
         then Inl (decision_conflict ''approval action is no longer authorized'')
         else
           let fs = validate_frozen_fields (de_values env) (pa_known_fields act) (frozen_runtime a profile)
           in if vf_invalid_fields fs \<noteq> [] \<or>
                 set (dict_keys (vf_values fs)) \<noteq> set (dict_keys (pa_known_fields act))
              then Inl (decision_conflict ''approval known fields are no longer valid'')
              else Inr act)))"

definition approve_branch ::
  "decision_env \<Rightarrow> authenticated_operator \<Rightarrow> decision_request \<Rightarrow> datetime \<Rightarrow> approval_row \<Rightarrow> py_dict \<Rightarrow>
   job_row \<Rightarrow> resolved_tenant_profile \<Rightarrow> decide_outcome tx" where
  "approve_branch env op req now a pending j profile =
     bind_tx (lift_res (approvable_action env a pending profile)) (\<lambda>act.
     bind_tx (approval_execute (de_executor_registry env) a act now) (\<lambda>(result, a, j).
     let a' = approve_row op req now result a in
     bind_tx (write_tx (\<lambda>d.
         add_approval_event (apr_tenant_id a) (apr_id a) ''approved_action_executed'' (Some (op_actor_ref op))
           [(''action'', PStr (apr_action a)), (''executed'', PBool True)]
         (add_approval_event (apr_tenant_id a) (apr_id a) ''approval_approved'' (Some (op_actor_ref op)) []
           (update_approval (apr_id a) (\<lambda>_. a') d)))) (\<lambda>_.
     bind_tx (finalize_tx a' j now) (\<lambda>_.
     bind_tx (lift_res (decision_response a')) (\<lambda>resp.
     ret_tx \<lparr>do_approval = a', do_response = Some resp, do_outcome = OC_APPROVED, do_executed = True,
             do_expired = False\<rparr>)))))"

definition repeat_branch :: "decision_request \<Rightarrow> approval_row \<Rightarrow> decide_outcome tx" where
  "repeat_branch req a =
     (if is_same_final_decision a (dr_decision req)
      then bind_tx (lift_res (decision_response a)) (\<lambda>resp.
             ret_tx \<lparr>do_approval = a, do_response = Some resp, do_outcome = OC_REUSED, do_executed = False,
                     do_expired = False\<rparr>)
      else raise_tx (decision_conflict ''approval already decided''))"

definition decide_branch ::
  "decision_env \<Rightarrow> authenticated_operator \<Rightarrow> decision_request \<Rightarrow> datetime \<Rightarrow> approval_row \<Rightarrow> datetime \<Rightarrow>
   py_dict \<Rightarrow> job_row \<Rightarrow> resolved_tenant_profile \<Rightarrow> decide_outcome tx" where
  "decide_branch env op req now a expires pending j profile =
     (if apr_status a \<in> {A_approved, A_rejected, A_expired} then repeat_branch req a
      else if expires \<le> now then expire_branch req now a j
      else if dr_decision req = Reject then reject_branch op req now a j
      else approve_branch env op req now a pending j profile)"

definition decide_body ::
  "decision_env \<Rightarrow> uuid \<Rightarrow> authenticated_operator \<Rightarrow> decision_request \<Rightarrow> datetime \<Rightarrow>
   (decide_outcome \<times> job_observation_identity \<times> resolved_tenant_profile) tx" where
  "decide_body env i op req now =
     bind_tx (read_tx (get_for_tenant i (op_tenant_id op))) (\<lambda>row. case row of
       None \<Rightarrow> raise_tx ApprovalNotFound
     | Some a \<Rightarrow>
         if apr_status a \<notin> {A_pending, A_approved, A_rejected, A_expired} then raise_tx ApprovalNotFound
         else case (apr_job_id a, apr_pending_action a, apr_tenant_config_sha256 a, apr_expires_at a) of
           (Some job, Some pending, Some sha, Some expires) \<Rightarrow>
             bind_tx (load_context env a job) (\<lambda>(j, identity, profile).
             bind_tx (decide_branch env op req now a expires pending j profile)
               (\<lambda>out. ret_tx (out, identity, profile)))
         | _ \<Rightarrow> raise_tx (decision_conflict ''legacy approval is not executable''))"

definition decision_events ::
  "decision_env \<Rightarrow> datetime \<Rightarrow> decide_outcome \<Rightarrow> job_observation_identity \<Rightarrow> resolved_tenant_profile \<Rightarrow>
   approval_observation list" where
  "decision_events env now out identity profile =
     (let a = do_approval out; ms = decision_latency_ms env a now in
      [approval_event env ''approval.decided'' a identity profile (do_outcome out) ms] @
      (if do_outcome out = OC_EXPIRED then [approval_event env ''approval.expired'' a identity profile OC_EXPIRED ms] else []) @
      (if do_executed out then [approval_event env ''approval.action_completed'' a identity profile OC_EXECUTED ms] else []))"

definition decide ::
  "decision_env \<Rightarrow> uuid \<Rightarrow> authenticated_operator \<Rightarrow> decision_request \<Rightarrow> datetime \<Rightarrow> db \<Rightarrow>
   decision_response res \<times> approval_observation list \<times> db" where
  "decide env i op req now d =
     (case transaction (decide_body env i op req now) d of
        (Inl e, d') \<Rightarrow> (Inl e, [], d')
      | (Inr (out, identity, profile), d') \<Rightarrow>
          (if do_expired out then Inl (ApprovalExpired ''approval expired'')
           else (case do_response out of
                   Some resp \<Rightarrow> Inr resp
                 | None \<Rightarrow> Inl (decision_conflict ''approval decision did not complete'')),
           decision_events env now out identity profile, d'))"

end
