(* ===== verification/Workflow.thy ===== *)
theory Workflow
  imports Approval_Service
begin

text \<open>
  The invariant of the durable workflow and the lifecycle of its rows. \<open>evolves d d'\<close> says that
  \<open>d'\<close> satisfies the invariant and that every job and every approval of \<open>d\<close> is still there,
  moved along the edges of its lifecycle; each repository operation is shown to evolve the store.
\<close>

section \<open>Lifecycles\<close>

fun terminal :: "job_status \<Rightarrow> bool" where
  "terminal J_succeeded = True"
| "terminal J_failed = True"
| "terminal J_failed_uncertain = True"
| "terminal _ = False"

fun decided :: "approval_status \<Rightarrow> bool" where
  "decided A_approved = True"
| "decided A_rejected = True"
| "decided A_expired = True"
| "decided _ = False"

inductive status_edge :: "job_status \<Rightarrow> job_status \<Rightarrow> bool" where
  claim: "status_edge J_queued J_running"
| keep: "status_edge J_running J_running"
| retry: "status_edge J_running J_queued"
| park: "status_edge J_running J_awaiting_approval"
| finish: "terminal s \<Longrightarrow> status_edge J_running s"
| decide: "s \<in> {J_succeeded, J_failed} \<Longrightarrow> status_edge J_awaiting_approval s"

inductive approval_status_edge :: "approval_status \<Rightarrow> approval_status \<Rightarrow> bool" where
  refresh: "approval_status_edge A_staged A_staged"
| cancel: "approval_status_edge A_staged A_cancelled"
| publish: "approval_status_edge A_staged A_pending"
| decide: "decided s \<Longrightarrow> approval_status_edge A_pending s"

inductive_simps status_edge_simps:
  "status_edge J_queued s" "status_edge J_running s" "status_edge J_awaiting_approval s"
  "status_edge J_succeeded s" "status_edge J_failed s" "status_edge J_failed_uncertain s"

inductive_simps approval_status_edge_simps:
  "approval_status_edge A_staged s" "approval_status_edge A_cancelled s" "approval_status_edge A_pending s"
  "approval_status_edge A_approved s" "approval_status_edge A_rejected s" "approval_status_edge A_expired s"

text \<open>What a job never changes: its identity, its input and the frozen profile.\<close>

definition job_identity :: "job_row \<Rightarrow> uuid \<times> uuid \<times> uuid \<times> pyval \<times> pyval \<times> string \<times> pyval \<times> datetime" where
  "job_identity j =
     (job_id j, job_tenant_id j, job_trace_id j, job_source_snapshot j, job_tenant_config_snapshot j,
      job_tenant_config_sha256 j, job_risk_signals j, job_created_at j)"

definition job_edge :: "job_row \<Rightarrow> job_row \<Rightarrow> bool" where
  "job_edge j j' \<longleftrightarrow>
     j' = j \<or>
     (job_identity j' = job_identity j \<and> status_edge (job_status j) (job_status j') \<and>
      job_attempt_count j' = job_attempt_count j + (if job_status j = J_queued then 1 else 0))"

definition approval_edge :: "approval_row \<Rightarrow> approval_row \<Rightarrow> bool" where
  "approval_edge a a' \<longleftrightarrow>
     a' = a \<or>
     (apr_id a' = apr_id a \<and> apr_tenant_id a' = apr_tenant_id a \<and> apr_job_id a' = apr_job_id a \<and>
      approval_status_edge (apr_status a) (apr_status a'))"

section \<open>The invariant\<close>

definition job_ok :: "job_row \<Rightarrow> bool" where
  "job_ok j \<longleftrightarrow>
     (job_status j = J_running \<longleftrightarrow> job_lease_expires_at j \<noteq> None) \<and>
     (terminal (job_status j) \<longleftrightarrow> job_finished_at j \<noteq> None) \<and>
     (job_attempt_count j = 0 \<longleftrightarrow> job_started_at j = None) \<and>
     (job_attempt_count j = 0 \<longrightarrow> job_status j = J_queued)"

definition approval_ok :: "approval_row \<Rightarrow> bool" where
  "approval_ok a \<longleftrightarrow>
     (decided (apr_status a) \<longleftrightarrow> apr_decided_at a \<noteq> None) \<and>
     (apr_status a = A_approved \<longleftrightarrow> apr_executed_at a \<noteq> None) \<and>
     (apr_job_id a \<noteq> None \<longrightarrow>
        apr_pending_action a \<noteq> None \<and> apr_tenant_config_sha256 a \<noteq> None \<and> apr_expires_at a \<noteq> None)"

fun approval_job_ok :: "approval_status \<Rightarrow> job_status \<Rightarrow> bool" where
  "approval_job_ok A_staged s = (s = J_queued \<or> s = J_running)"
| "approval_job_ok A_cancelled s = terminal s"
| "approval_job_ok A_pending s = (s = J_awaiting_approval)"
| "approval_job_ok A_approved s = (s = J_succeeded)"
| "approval_job_ok A_rejected s = (s = J_succeeded)"
| "approval_job_ok A_expired s = (s = J_failed)"

definition linked :: "db \<Rightarrow> bool" where
  "linked d \<longleftrightarrow>
     (\<forall>a \<in> set (db_approvals d). \<forall>i. apr_job_id a = Some i \<longrightarrow>
        (\<exists>j \<in> set (db_jobs d). job_id j = i \<and> job_tenant_id j = apr_tenant_id a \<and>
           approval_job_ok (apr_status a) (job_status j))) \<and>
     (\<forall>j \<in> set (db_jobs d). job_status j = J_awaiting_approval \<longrightarrow>
        (\<exists>a \<in> set (db_approvals d). apr_job_id a = Some (job_id j) \<and> apr_status a = A_pending))"

text \<open>How often the events record an execution of an approval.\<close>

definition executions :: "uuid \<Rightarrow> approval_event_row list \<Rightarrow> nat" where
  "executions i es =
     length (filter (\<lambda>e. ae_approval_id e = i \<and> ae_event_type e = ''approved_action_executed'') es)"

definition events_ok :: "db \<Rightarrow> bool" where
  "events_ok d \<longleftrightarrow>
     (\<forall>e \<in> set (db_approval_events d). ae_approval_id e \<in> apr_id ` set (db_approvals d)) \<and>
     (\<forall>a \<in> set (db_approvals d).
        executions (apr_id a) (db_approval_events d) = (if apr_executed_at a = None then 0 else 1))"

definition workflow_wf :: "db \<Rightarrow> bool" where
  "workflow_wf d \<longleftrightarrow>
     db_keys d \<and> (\<forall>j \<in> set (db_jobs d). job_ok j) \<and> (\<forall>a \<in> set (db_approvals d). approval_ok a) \<and>
     linked d \<and> events_ok d"

definition evolves :: "db \<Rightarrow> db \<Rightarrow> bool" where
  "evolves d d' \<longleftrightarrow>
     workflow_wf d' \<and>
     (\<forall>j \<in> set (db_jobs d). \<exists>j' \<in> set (db_jobs d'). job_edge\<^sup>*\<^sup>* j j') \<and>
     (\<forall>a \<in> set (db_approvals d). \<exists>a' \<in> set (db_approvals d'). approval_edge\<^sup>*\<^sup>* a a') \<and>
     (\<exists>es. db_approval_events d' = db_approval_events d @ es) \<and> requests d \<subseteq> requests d'"

lemma evolves_refl: "workflow_wf d \<Longrightarrow> evolves d d"
  by (auto simp: evolves_def)

lemma evolves_trans:
  assumes "evolves a b" "evolves b c"
  shows "evolves a c"
  unfolding evolves_def
proof (intro conjI ballI)
  show "workflow_wf c" using assms(2) by (simp add: evolves_def)
  show "\<exists>j' \<in> set (db_jobs c). job_edge\<^sup>*\<^sup>* j j'" if "j \<in> set (db_jobs a)" for j
    using assms that by (meson evolves_def rtranclp_trans)
  show "\<exists>x \<in> set (db_approvals c). approval_edge\<^sup>*\<^sup>* r x" if "r \<in> set (db_approvals a)" for r
    using assms that by (meson evolves_def rtranclp_trans)
  show "\<exists>es. db_approval_events c = db_approval_events a @ es"
    using assms by (auto simp: evolves_def)
  show "requests a \<subseteq> requests c"
    using assms by (auto simp: evolves_def)
qed

section \<open>Updating one job and its approval\<close>

definition workflow_update ::
  "uuid \<Rightarrow> (job_row \<Rightarrow> job_row) \<Rightarrow> uuid \<Rightarrow> (approval_row \<Rightarrow> approval_row) \<Rightarrow> approval_event_row list \<Rightarrow> db \<Rightarrow> db" where
  "workflow_update i g k h es d =
     d\<lparr>db_jobs := update_rows job_id i g (db_jobs d), db_approvals := update_rows apr_id k h (db_approvals d),
       db_approval_events := db_approval_events d @ es\<rparr>"

definition updated :: "uuid \<Rightarrow> (approval_row \<Rightarrow> approval_row) \<Rightarrow> approval_row \<Rightarrow> approval_row" where
  "updated k h a = (if apr_id a = k then h a else a)"

definition update_ok ::
  "uuid \<Rightarrow> (job_row \<Rightarrow> job_row) \<Rightarrow> uuid \<Rightarrow> (approval_row \<Rightarrow> approval_row) \<Rightarrow> approval_event_row list \<Rightarrow> db \<Rightarrow> bool" where
  "update_ok i g k h es d \<longleftrightarrow>
     (\<forall>j \<in> set (db_jobs d). job_id j = i \<longrightarrow> job_ok (g j) \<and> job_edge j (g j) \<and>
        (\<forall>a \<in> set (db_approvals d). apr_job_id a = Some i \<longrightarrow>
           approval_job_ok (apr_status (updated k h a)) (job_status (g j))) \<and>
        (job_status (g j) = J_awaiting_approval \<longrightarrow>
           (\<exists>a \<in> set (db_approvals d). apr_job_id a = Some i \<and> apr_status (updated k h a) = A_pending))) \<and>
     (\<forall>a \<in> set (db_approvals d). apr_id a = k \<longrightarrow>
        approval_ok (h a) \<and> approval_edge a (h a) \<and> (apr_job_id a = Some i \<or> apr_job_id a = None)) \<and>
     (\<forall>e \<in> set es. ae_approval_id e \<in> apr_id ` set (db_approvals d)) \<and>
     (\<forall>a \<in> set (db_approvals d).
        executions (apr_id a) es + (if apr_executed_at a = None then 0 else 1) =
        (if apr_executed_at (updated k h a) = None then 0 else 1))"

lemma update_okD:
  assumes "update_ok i g k h es d"
  shows "j \<in> set (db_jobs d) \<Longrightarrow> job_id j = i \<Longrightarrow> job_ok (g j)"
    "j \<in> set (db_jobs d) \<Longrightarrow> job_id j = i \<Longrightarrow> job_edge j (g j)"
    "a \<in> set (db_approvals d) \<Longrightarrow> apr_id a = k \<Longrightarrow> approval_ok (h a)"
    "a \<in> set (db_approvals d) \<Longrightarrow> apr_id a = k \<Longrightarrow> approval_edge a (h a)"
    "e \<in> set es \<Longrightarrow> ae_approval_id e \<in> apr_id ` set (db_approvals d)"
    "a \<in> set (db_approvals d) \<Longrightarrow>
       executions (apr_id a) es + (if apr_executed_at a = None then 0 else 1) =
       (if apr_executed_at (updated k h a) = None then 0 else 1)"
  using assms unfolding update_ok_def by blast+

lemma job_edge_key: "job_edge j j' \<Longrightarrow> job_identity j' = job_identity j"
  by (auto simp: job_edge_def)

lemma approval_edge_key:
  "approval_edge a a' \<Longrightarrow>
   apr_id a' = apr_id a \<and> apr_tenant_id a' = apr_tenant_id a \<and> apr_job_id a' = apr_job_id a"
  by (auto simp: approval_edge_def)

lemma map_update_rows_cong:
  "(\<And>r. r \<in> set xs \<Longrightarrow> f r = k \<Longrightarrow> h (g r) = h r) \<Longrightarrow> map h (update_rows f k g xs) = map h xs"
  by (auto simp: update_rows_def)

lemma map_filter_update_rows:
  "(\<And>r. r \<in> set xs \<Longrightarrow> f r = k \<Longrightarrow> h (g r) = h r \<and> P (g r) = P r) \<Longrightarrow>
   map h (filter P (update_rows f k g xs)) = map h (filter P xs)"
  by (induction xs) (auto simp: update_rows_def)

lemma workflow_update_keys:
  assumes "db_keys d" "update_ok i g k h es d"
  shows "db_keys (workflow_update i g k h es d)"
proof -
  have j: "job_id (g r) = job_id r \<and> job_trace_id (g r) = job_trace_id r"
    if "r \<in> set (db_jobs d)" "job_id r = i" for r
    using assms(2) that job_edge_key [of r "g r"] by (auto simp: update_ok_def job_identity_def)
  have a: "apr_id (h r) = apr_id r \<and> apr_job_id (h r) = apr_job_id r"
    if "r \<in> set (db_approvals d)" "apr_id r = k" for r
    using assms(2) that approval_edge_key [of r "h r"] by (auto simp: update_ok_def)
  let ?d = "workflow_update i g k h es d"
  have m: "map job_id (db_jobs ?d) = map job_id (db_jobs d)"
    "map job_trace_id (db_jobs ?d) = map job_trace_id (db_jobs d)"
    "map apr_id (db_approvals ?d) = map apr_id (db_approvals d)"
    "map apr_job_id (filter (\<lambda>a. apr_job_id a \<noteq> None) (db_approvals ?d)) =
     map apr_job_id (filter (\<lambda>a. apr_job_id a \<noteq> None) (db_approvals d))"
    using j a by (auto simp: workflow_update_def intro!: map_update_rows_cong map_filter_update_rows)
  have "job_id ` set (db_jobs ?d) = job_id ` set (db_jobs d)"
    "apr_id ` set (db_approvals ?d) = apr_id ` set (db_approvals d)"
    using m(1,3) by (metis list.set_map)+
  moreover have "db_cases ?d = db_cases d" "db_artifacts ?d = db_artifacts d"
    by (simp_all add: workflow_update_def)
  ultimately have "used_ids ?d = used_ids d"
    by (simp add: used_ids_def)
  then show ?thesis
    using assms(1) m by (simp add: db_keys_def workflow_update_def)
qed

lemma workflow_update_jobs:
  "j' \<in> set (db_jobs (workflow_update i g k h es d)) \<longleftrightarrow>
   (\<exists>j \<in> set (db_jobs d). j' = (if job_id j = i then g j else j))"
  by (simp add: workflow_update_def in_update_rows)

lemma workflow_update_approvals:
  "a' \<in> set (db_approvals (workflow_update i g k h es d)) \<longleftrightarrow> (\<exists>a \<in> set (db_approvals d). a' = updated k h a)"
  by (simp add: workflow_update_def in_update_rows updated_def)

lemma updated_keys:
  assumes "update_ok i g k h es d" "a \<in> set (db_approvals d)"
  shows "apr_id (updated k h a) = apr_id a \<and> apr_tenant_id (updated k h a) = apr_tenant_id a \<and>
    apr_job_id (updated k h a) = apr_job_id a"
  using assms approval_edge_key [of a "h a"] by (auto simp: update_ok_def updated_def)

lemma workflow_update_linked:
  assumes "linked d" "update_ok i g k h es d"
  shows "linked (workflow_update i g k h es d)"
  unfolding linked_def
proof (intro conjI ballI allI impI)
  fix a' m
  assume "a' \<in> set (db_approvals (workflow_update i g k h es d))" and m: "apr_job_id a' = Some m"
  then obtain a where a: "a \<in> set (db_approvals d)" "a' = updated k h a"
    by (auto simp: workflow_update_approvals)
  have keys: "apr_tenant_id a' = apr_tenant_id a" "apr_job_id a = Some m"
    using updated_keys [OF assms(2) a(1)] a(2) m by auto
  from assms(1) a(1) keys(2) obtain j where j: "j \<in> set (db_jobs d)" "job_id j = m"
    "job_tenant_id j = apr_tenant_id a" "approval_job_ok (apr_status a) (job_status j)"
    by (auto simp: linked_def)
  let ?j = "if job_id j = i then g j else j"
  have "job_id ?j = m \<and> job_tenant_id ?j = apr_tenant_id a"
    using assms(2) j job_edge_key [of j "g j"] by (auto simp: update_ok_def job_identity_def)
  moreover have "approval_job_ok (apr_status a') (job_status ?j)"
  proof (cases "m = i")
    case True
    then show ?thesis using assms(2) j a keys(2) by (auto simp: update_ok_def)
  next
    case False
    then have "a' = a" using assms(2) a keys(2) by (auto simp: update_ok_def updated_def)
    then show ?thesis using j False by simp
  qed
  moreover have "?j \<in> set (db_jobs (workflow_update i g k h es d))"
    using j(1) by (auto simp: workflow_update_jobs)
  ultimately show "\<exists>j \<in> set (db_jobs (workflow_update i g k h es d)). job_id j = m \<and>
      job_tenant_id j = apr_tenant_id a' \<and> approval_job_ok (apr_status a') (job_status j)"
    using keys(1) by metis
next
  fix j'
  assume "j' \<in> set (db_jobs (workflow_update i g k h es d))" and s: "job_status j' = J_awaiting_approval"
  then obtain j where j: "j \<in> set (db_jobs d)" "j' = (if job_id j = i then g j else j)"
    by (auto simp: workflow_update_jobs)
  have id: "job_id j' = job_id j"
    using assms(2) j job_edge_key [of j "g j"] by (auto simp: update_ok_def job_identity_def)
  have "\<exists>a \<in> set (db_approvals d). apr_job_id a = Some (job_id j) \<and> apr_status (updated k h a) = A_pending"
  proof (cases "job_id j = i")
    case True
    then show ?thesis using assms(2) j s by (auto simp: update_ok_def)
  next
    case False
    then obtain a where a: "a \<in> set (db_approvals d)" "apr_job_id a = Some (job_id j)" "apr_status a = A_pending"
      using assms(1) j s by (auto simp: linked_def)
    then have "updated k h a = a" using assms(2) False by (auto simp: update_ok_def updated_def)
    with a show ?thesis by metis
  qed
  then show "\<exists>a \<in> set (db_approvals (workflow_update i g k h es d)).
      apr_job_id a = Some (job_id j') \<and> apr_status a = A_pending"
    using updated_keys [OF assms(2)] id by (metis workflow_update_approvals)
qed

lemma executions_append: "executions i (es @ fs) = executions i es + executions i fs"
  by (simp add: executions_def)

lemma workflow_update_events:
  assumes "events_ok d" "update_ok i g k h es d"
  shows "events_ok (workflow_update i g k h es d)"
proof -
  let ?d = "workflow_update i g k h es d"
  have ids: "apr_id ` set (db_approvals ?d) = apr_id ` set (db_approvals d)"
  proof -
    have "set (db_approvals ?d) = updated k h ` set (db_approvals d)"
      using workflow_update_approvals by blast
    then show ?thesis using updated_keys [OF assms(2)] by (simp add: image_image)
  qed
  have es: "db_approval_events ?d = db_approval_events d @ es"
    by (simp add: workflow_update_def)
  have "executions (apr_id a') (db_approval_events ?d) = (if apr_executed_at a' = None then 0 else 1)"
    if m: "a' \<in> set (db_approvals ?d)" for a'
  proof -
    obtain a where a: "a \<in> set (db_approvals d)" "a' = updated k h a"
      using m by (auto simp: workflow_update_approvals)
    have "executions (apr_id a) (db_approval_events d) = (if apr_executed_at a = None then 0 else 1)"
      using assms(1) a(1) by (auto simp: events_ok_def)
    then show ?thesis
      unfolding es executions_append a(2)
      using update_okD(6) [OF assms(2) a(1)] updated_keys [OF assms(2) a(1)] by simp
  qed
  moreover have "ae_approval_id e \<in> apr_id ` set (db_approvals d)" if "e \<in> set (db_approval_events d @ es)" for e
    using that assms(1) update_okD(5) [OF assms(2)] by (auto simp: events_ok_def)
  ultimately show ?thesis
    unfolding events_ok_def es ids by blast
qed

lemma workflow_update_evolves:
  assumes "workflow_wf d" "update_ok i g k h es d"
  shows "evolves d (workflow_update i g k h es d)"
  unfolding evolves_def workflow_wf_def
proof (intro conjI ballI)
  let ?d = "workflow_update i g k h es d"
  show "db_keys ?d" "linked ?d" "events_ok ?d"
    using assms workflow_update_keys workflow_update_linked workflow_update_events
    by (auto simp: workflow_wf_def)
  show "job_ok j" if m: "j \<in> set (db_jobs ?d)" for j
  proof -
    obtain r where r: "r \<in> set (db_jobs d)" "j = (if job_id r = i then g r else r)"
      using m by (auto simp: workflow_update_jobs)
    then show ?thesis
      using assms(1) update_okD(1) [OF assms(2)] by (auto simp: workflow_wf_def)
  qed
  show "approval_ok a" if m: "a \<in> set (db_approvals ?d)" for a
  proof -
    obtain r where r: "r \<in> set (db_approvals d)" "a = updated k h r"
      using m by (auto simp: workflow_update_approvals)
    then show ?thesis
      using assms(1) update_okD(3) [OF assms(2)] by (auto simp: workflow_wf_def updated_def)
  qed
  show "\<exists>j' \<in> set (db_jobs ?d). job_edge\<^sup>*\<^sup>* j j'" if "j \<in> set (db_jobs d)" for j
  proof -
    have "job_edge\<^sup>*\<^sup>* j (if job_id j = i then g j else j)"
      using update_okD(2) [OF assms(2)] that by auto
    moreover have "(if job_id j = i then g j else j) \<in> set (db_jobs ?d)"
      using that by (auto simp: workflow_update_jobs)
    ultimately show ?thesis by blast
  qed
  show "\<exists>a' \<in> set (db_approvals ?d). approval_edge\<^sup>*\<^sup>* a a'" if "a \<in> set (db_approvals d)" for a
  proof -
    have "approval_edge\<^sup>*\<^sup>* a (updated k h a)"
      using update_okD(4) [OF assms(2)] that by (auto simp: updated_def)
    moreover have "updated k h a \<in> set (db_approvals ?d)"
      using that by (auto simp: workflow_update_approvals)
    ultimately show ?thesis by blast
  qed
  show "\<exists>fs. db_approval_events ?d = db_approval_events d @ fs" "requests d \<subseteq> requests ?d"
    by (simp_all add: workflow_update_def requests_def)
qed

end
