(* ===== verification/Job_Lifecycle.thy ===== *)
theory Job_Lifecycle
  imports Workflow
begin

text \<open>
  Every write of the job repository evolves the workflow, and the contracts of the queue: which
  job a claim takes, what recovery does with an expired lease, and that a worker that lost its
  attempt cannot write.
\<close>

section \<open>Rows of a well-formed store\<close>

lemma wf_job_unique:
  assumes "workflow_wf d" "j \<in> set (db_jobs d)" "j' \<in> set (db_jobs d)" "job_id j = job_id j'"
  shows "j = j'"
  using assms distinct_key_eq [of job_id] by (auto simp: workflow_wf_def db_keys_def)

lemma wf_approval_unique:
  assumes "workflow_wf d" "a \<in> set (db_approvals d)" "b \<in> set (db_approvals d)"
    and "apr_id a = apr_id b"
  shows "a = b"
  using assms distinct_key_eq [of apr_id] by (auto simp: workflow_wf_def db_keys_def)

lemma wf_job_approval_unique:
  assumes "workflow_wf d" "a \<in> set (db_approvals d)" "b \<in> set (db_approvals d)"
    and "apr_job_id a = Some i" "apr_job_id b = Some i"
  shows "a = b"
proof -
  let ?xs = "filter (\<lambda>a. apr_job_id a \<noteq> None) (db_approvals d)"
  have "distinct (map apr_job_id ?xs)" using assms(1) by (simp add: workflow_wf_def db_keys_def)
  from distinct_key_eq [OF this] show ?thesis using assms by simp
qed

lemma wf_approval_of_job:
  assumes "workflow_wf d" "j \<in> set (db_jobs d)" "a \<in> set (db_approvals d)" "apr_job_id a = Some (job_id j)"
  shows "apr_tenant_id a = job_tenant_id j \<and> approval_job_ok (apr_status a) (job_status j)"
proof -
  from assms(1,3,4) obtain j' where j': "j' \<in> set (db_jobs d)" "job_id j' = job_id j"
    "job_tenant_id j' = apr_tenant_id a" "approval_job_ok (apr_status a) (job_status j')"
    unfolding workflow_wf_def linked_def by blast
  with wf_job_unique [OF assms(1,2)] show ?thesis by force
qed

lemma approval_job_ok_running:
  "approval_job_ok s J_running \<longleftrightarrow> s = A_staged" "approval_job_ok s J_queued \<longleftrightarrow> s = A_staged"
  "approval_job_ok s J_awaiting_approval \<longleftrightarrow> s = A_pending"
  by (cases s; simp)+

lemma wf_jobD: "workflow_wf d \<Longrightarrow> j \<in> set (db_jobs d) \<Longrightarrow> job_ok j"
  by (simp add: workflow_wf_def)

lemma wf_approvalD: "workflow_wf d \<Longrightarrow> a \<in> set (db_approvals d) \<Longrightarrow> approval_ok a"
  by (simp add: workflow_wf_def)

section \<open>Updates\<close>

lemma update_rows_id [simp]: "update_rows f k (\<lambda>r. r) xs = xs"
  by (simp add: update_rows_def)

lemma update_job_eq: "update_job i g d = workflow_update i g k (\<lambda>a. a) [] d"
  by (simp add: update_job_def workflow_update_def)

text \<open>A sequence of writes in the normal form \<open>workflow_update\<close>.\<close>

lemma update_approval_eq: "update_approval k h d = workflow_update 0 (\<lambda>r. r) k h [] d"
  by (simp add: update_approval_def workflow_update_def)

lemma workflow_update_event:
  "add_approval_event t a ty actor payload (workflow_update i g k h es d) =
   workflow_update i g k h (es @ [\<lparr>ae_tenant_id = t, ae_approval_id = a, ae_event_type = ty,
     ae_actor_ref = actor, ae_payload = payload\<rparr>]) d"
  by (simp add: add_approval_event_def workflow_update_def)

lemma workflow_update_job:
  "update_job i g (workflow_update m (\<lambda>r. r) k h es d) = workflow_update i g k h es d"
  by (rule db.equality) (simp_all add: update_job_def workflow_update_def)

lemmas workflow_norm = update_approval_eq workflow_update_event workflow_update_job

lemma executions_Nil [simp]: "executions i [] = 0"
  by (simp add: executions_def)

lemma unused_approval_key: "\<exists>k. \<forall>a \<in> set (db_approvals d). apr_id a \<noteq> k"
proof -
  have "\<exists>k. k \<notin> apr_id ` set (db_approvals d)" by (rule ex_new_if_finite) auto
  then show ?thesis by (metis imageI)
qed

text \<open>A write that touches only a job.\<close>

lemma update_job_evolves:
  assumes wf: "workflow_wf d" and j: "j \<in> set (db_jobs d)" "job_id j = i"
    and g: "job_ok (g j)" "job_edge j (g j)"
    and s: "job_status (g j) = job_status j \<or> (\<forall>a. approval_job_ok a (job_status j) \<longrightarrow> approval_job_ok a (job_status (g j)))"
      "job_status (g j) = J_awaiting_approval \<Longrightarrow> job_status j = J_awaiting_approval"
  shows "evolves d (update_job i g d)"
proof -
  have u: "r = j" if "r \<in> set (db_jobs d)" "job_id r = i" for r
    using wf_job_unique [OF wf] that j by blast
  have "approval_job_ok (apr_status a) (job_status (g j))"
    if "a \<in> set (db_approvals d)" "apr_job_id a = Some i" for a
    using wf_approval_of_job [OF wf j(1) that(1)] that j(2) s(1) by auto
  moreover have "\<exists>a \<in> set (db_approvals d). apr_job_id a = Some i \<and> apr_status a = A_pending"
    if "job_status (g j) = J_awaiting_approval"
    using s(2) [OF that] wf j by (auto simp: workflow_wf_def linked_def)
  moreover obtain k where "\<forall>a \<in> set (db_approvals d). apr_id a \<noteq> k"
    using unused_approval_key by blast
  ultimately have "update_ok i g k (\<lambda>a. a) [] d"
    using g u unfolding update_ok_def updated_def by auto
  from workflow_update_evolves [OF wf this] show ?thesis by (simp add: update_job_eq [of i g d k])
qed

text \<open>A write that touches a job and its approval.\<close>

lemma pair_update_evolves:
  assumes wf: "workflow_wf d" and j: "j \<in> set (db_jobs d)" "job_id j = i"
    and a: "a \<in> set (db_approvals d)" "apr_job_id a = Some i"
    and g: "job_ok (g j)" "job_edge j (g j)"
    and h: "approval_ok (h a)" "approval_edge a (h a)"
    and s: "approval_job_ok (apr_status (h a)) (job_status (g j))"
    and e: "\<forall>e \<in> set es. ae_approval_id e = apr_id a"
      "executions (apr_id a) es + (if apr_executed_at a = None then 0 else 1) = (if apr_executed_at (h a) = None then 0 else 1)"
  shows "evolves d (workflow_update i g (apr_id a) h es d)"
proof (rule workflow_update_evolves [OF wf])
  have u: "r = j" if "r \<in> set (db_jobs d)" "job_id r = i" for r
    using wf_job_unique [OF wf] that j by blast
  have v: "r = a" if "r \<in> set (db_approvals d)" "apr_id r = apr_id a \<or> apr_job_id r = Some i" for r
    using that a wf_approval_unique [OF wf] wf_job_approval_unique [OF wf] by blast
  have o: "executions (apr_id r) es = 0" if "apr_id r \<noteq> apr_id a" for r
    using that e(1) by (auto simp: executions_def filter_empty_conv)
  show "update_ok i g (apr_id a) h es d"
    unfolding update_ok_def
  proof (intro conjI ballI impI)
    fix r assume r: "r \<in> set (db_jobs d)" "job_id r = i"
    show "job_ok (g r)" "job_edge r (g r)" using g u r by auto
    show "approval_job_ok (apr_status (updated (apr_id a) h b)) (job_status (g r))"
      if "b \<in> set (db_approvals d)" "apr_job_id b = Some i" for b
      using s u r v that by (auto simp: updated_def)
    show "\<exists>b \<in> set (db_approvals d). apr_job_id b = Some i \<and> apr_status (updated (apr_id a) h b) = A_pending"
      if "job_status (g r) = J_awaiting_approval"
      using that s a u r by (auto simp: updated_def approval_job_ok_running)
  next
    fix b assume b: "b \<in> set (db_approvals d)"
    show "approval_ok (h b)" "approval_edge b (h b)" "apr_job_id b = Some i \<or> apr_job_id b = None"
      if "apr_id b = apr_id a"
      using v [OF b] that h a by auto
    show "executions (apr_id b) es + (if apr_executed_at b = None then 0 else 1) =
      (if apr_executed_at (updated (apr_id a) h b) = None then 0 else 1)"
      using v [OF b] o [of b] e(2) by (cases "apr_id b = apr_id a") (auto simp: updated_def)
  next
    fix x assume "x \<in> set es"
    then show "ae_approval_id x \<in> apr_id ` set (db_approvals d)" using e(1) a(1) by auto
  qed
qed

lemma cancel_staged_cases:
  assumes "cancel_staged_approval i t d = (Inr u, d')"
  obtains "d' = d" "\<And>a. a \<in> set (db_approvals d) \<Longrightarrow> \<not> (apr_job_id a = Some i \<and> apr_tenant_id a = t \<and> apr_status a = A_staged)"
  | a where "a \<in> set (db_approvals d)" "apr_job_id a = Some i" "apr_tenant_id a = t" "apr_status a = A_staged"
      "d' = add_approval_event t (apr_id a) ''approval_cancelled'' None []
              (update_approval (apr_id a) (\<lambda>a. a\<lparr>apr_status := A_cancelled\<rparr>) d)"
proof -
  let ?P = "\<lambda>a. apr_job_id a = Some i \<and> apr_tenant_id a = t \<and> apr_status a = A_staged"
  from assms obtain row where row: "scalar_one_or_none ?P (db_approvals d) = Inr row"
    by (auto simp: cancel_staged_approval_def tx_iffs)
  show thesis
  proof (cases row)
    case None
    show thesis
    proof (rule that(1))
      show "d' = d" using assms row None by (auto simp: cancel_staged_approval_def tx_iffs)
      show "\<not> ?P a" if "a \<in> set (db_approvals d)" for a
        using scalar_one_or_none_NoneD row None that by fast
    qed
  next
    case (Some a)
    have a: "a \<in> set (db_approvals d) \<and> ?P a"
      using row Some by (intro scalar_one_or_none_SomeD) simp
    show thesis
      by (rule that(2) [of a]) (use a assms row Some in \<open>auto simp: cancel_staged_approval_def tx_iffs\<close>)
  qed
qed

text \<open>A terminal write cancels the staged request of the attempt.\<close>

lemma cancel_then_update:
  assumes wf: "workflow_wf d" and j: "j \<in> set (db_jobs d)" "job_id j = i" "job_tenant_id j = t" "job_status j = J_running"
    and c: "cancel_staged_approval i t d = (Inr u, d')"
    and g: "terminal (job_status (g j))" "job_ok (g j)" "job_edge j (g j)"
  shows "evolves d (update_job i g d')"
proof -
  have st: "apr_tenant_id a = t \<and> apr_status a = A_staged"
    if "a \<in> set (db_approvals d)" "apr_job_id a = Some i" for a
    using wf_approval_of_job [OF wf j(1) that(1)] that j by (simp add: approval_job_ok_running)
  have u: "r = j" if "r \<in> set (db_jobs d)" "job_id r = i" for r
    using wf_job_unique [OF wf] that j by blast
  have nw: "job_status (g j) \<noteq> J_awaiting_approval" using g(1) by auto
  from c show ?thesis
  proof (cases rule: cancel_staged_cases)
    case 1
    obtain k where "\<forall>a \<in> set (db_approvals d). apr_id a \<noteq> k"
      using unused_approval_key by blast
    then have "update_ok i g k (\<lambda>a. a) [] d"
      using g u 1(2) st nw unfolding update_ok_def updated_def by auto
    from workflow_update_evolves [OF wf this] show ?thesis by (simp add: 1(1) update_job_eq [of i g d k])
  next
    case (2 a)
    show ?thesis
      unfolding 2(5) workflow_norm
      using wf_approvalD [OF wf 2(1)] 2(4) g
      by (intro pair_update_evolves [OF wf j(1,2) 2(1,2)])
         (auto simp: approval_ok_def approval_edge_def approval_status_edge_simps executions_def)
  qed
qed

section \<open>Operations\<close>

lemma get_job_SomeD:
  "get_job i t n d = Inr (Some j) \<Longrightarrow>
   j \<in> set (db_jobs d) \<and> job_id j = i \<and> job_tenant_id j = t \<and> job_attempt_count j = n"
  unfolding get_job_def by (drule scalar_one_or_none_SomeD) simp

lemma owned_job_InrD:
  assumes "owned_job msg i t n d = (Inr j, d')"
  shows "d' = d \<and> j \<in> set (db_jobs d) \<and> job_id j = i \<and> job_tenant_id j = t \<and> job_attempt_count j = n \<and>
    job_status j = J_running"
  using assms by (auto simp: owned_job_def tx_iffs dest!: get_job_SomeD split: option.splits if_splits)

lemma transaction_evolves:
  assumes "transaction body d = (r, d')" "workflow_wf d"
    and "\<And>x d'. body d = (Inr x, d') \<Longrightarrow> evolves d d'"
  shows "evolves d d'"
  using assms(1) evolves_refl [OF assms(2)] assms(3) by (rule transaction_preserves [where P = "evolves d"])

lemmas edge_simps = job_edge_def job_identity_def status_edge_simps

lemma mark_terminal_evolves:
  assumes "workflow_wf d" "terminal s" "mark_terminal i s now t n result err d = (r, d')"
  shows "evolves d d'"
  using assms(3)[unfolded mark_terminal_def] assms(1)
proof (rule transaction_evolves)
  fix x d'
  assume "bind_tx (owned_job ''job lease ownership changed before terminal transition'' i t n) (\<lambda>_.
        bind_tx (cancel_staged_approval i t) (\<lambda>_.
        write_tx (update_job i (\<lambda>r. r\<lparr>job_status := s, job_finished_at := Some now,
          job_lease_expires_at := None, job_result := result, job_error_code := err\<rparr>)))) d = (Inr x, d')"
  then obtain j e where j: "j \<in> set (db_jobs d)" "job_id j = i" "job_tenant_id j = t" "job_status j = J_running"
    and c: "cancel_staged_approval i t d = (Inr (), e)"
    and d': "d' = update_job i (\<lambda>r. r\<lparr>job_status := s, job_finished_at := Some now,
          job_lease_expires_at := None, job_result := result, job_error_code := err\<rparr>) e"
    by (auto simp: tx_iffs dest!: owned_job_InrD)
  show "evolves d d'"
    unfolding d' using wf_jobD [OF assms(1) j(1)] j(4) assms(2)
    by (intro cancel_then_update [OF assms(1) j c]) (auto simp: edge_simps job_ok_def)
qed

lemma claim_next_evolves:
  assumes "workflow_wf d" "claim_next locked now lease excluded d = (r, d')"
  shows "evolves d d'"
  using assms(2)[unfolded claim_next_def] assms(1)
proof (rule transaction_evolves)
  fix x d'
  let ?rows = "sort_key (\<lambda>j. (job_available_at j, job_id j)) (filter (claimable locked now excluded) (db_jobs d))"
  assume b: "bind_tx (read_tx (\<lambda>d. Inr (sort_key (\<lambda>j. (job_available_at j, job_id j))
                    (filter (claimable locked now excluded) (db_jobs d)))))
         (\<lambda>rows. case rows of
            [] \<Rightarrow> ret_tx None
          | j # _ \<Rightarrow>
              bind_tx (write_tx (update_job (job_id j) (claim_row now lease))) (\<lambda>_.
                ret_tx (Some (claimed_of (claim_row now lease j))))) d = (Inr x, d')"
  show "evolves d d'"
  proof (cases ?rows)
    case Nil
    then show ?thesis using b assms(1) by (auto simp: tx_iffs intro: evolves_refl)
  next
    case (Cons j js)
    then have "j \<in> set ?rows" by simp
    then have j: "j \<in> set (db_jobs d)" "job_status j = J_queued" by (simp_all add: claimable_def)
    have d': "d' = update_job (job_id j) (claim_row now lease) d" using b Cons by (auto simp: tx_iffs)
    show ?thesis
      unfolding d' using wf_jobD [OF assms(1) j(1)] j(2)
      by (intro update_job_evolves [OF assms(1) j(1) refl])
         (auto simp: edge_simps job_ok_def claim_row_def approval_job_ok_running split: option.splits)
  qed
qed

lemma renew_lease_evolves:
  assumes "workflow_wf d" "renew_lease i t n lease d = (r, d')"
  shows "evolves d d'"
  using assms(2)[unfolded renew_lease_def] assms(1)
proof (rule transaction_evolves)
  fix x d'
  assume b: "bind_tx (read_tx (get_job i t n)) (\<lambda>row. case row of
          None \<Rightarrow> ret_tx False
        | Some j \<Rightarrow>
            if job_status j \<noteq> J_running then ret_tx False
            else bind_tx (write_tx (update_job i (\<lambda>r. r\<lparr>job_lease_expires_at := Some lease\<rparr>)))
                   (\<lambda>_. ret_tx True)) d = (Inr x, d')"
  then consider "d' = d"
    | j where "j \<in> set (db_jobs d)" "job_id j = i" "job_status j = J_running"
        "d' = update_job i (\<lambda>r. r\<lparr>job_lease_expires_at := Some lease\<rparr>) d"
    by (auto simp: tx_iffs split: option.splits if_splits dest!: get_job_SomeD)
  then show "evolves d d'"
  proof cases
    case 1
    then show ?thesis using assms(1) by (simp add: evolves_refl)
  next
    case (2 j)
    show ?thesis
      unfolding 2(4) using wf_jobD [OF assms(1) 2(1)] 2(3)
      by (intro update_job_evolves [OF assms(1) 2(1,2)]) (auto simp: edge_simps job_ok_def)
  qed
qed

lemma schedule_retry_evolves:
  assumes "workflow_wf d" "schedule_retry i err available t n d = (r, d')"
  shows "evolves d d'"
  using assms(2)[unfolded schedule_retry_def] assms(1)
proof (rule transaction_evolves)
  fix x d'
  assume "bind_tx (owned_job ''job lease ownership changed before retry scheduling'' i t n) (\<lambda>_.
        write_tx (update_job i (\<lambda>r. r\<lparr>job_status := J_queued, job_error_code := Some err,
          job_available_at := available, job_lease_expires_at := None\<rparr>))) d = (Inr x, d')"
  then obtain j where j: "j \<in> set (db_jobs d)" "job_id j = i" "job_status j = J_running"
    and d': "d' = update_job i (\<lambda>r. r\<lparr>job_status := J_queued, job_error_code := Some err,
          job_available_at := available, job_lease_expires_at := None\<rparr>) d"
    by (auto simp: tx_iffs dest!: owned_job_InrD)
  show "evolves d d'"
    unfolding d' using wf_jobD [OF assms(1) j(1)] j(3)
    by (intro update_job_evolves [OF assms(1) j(1,2)])
       (auto simp: edge_simps job_ok_def approval_job_ok_running)
qed

lemma record_awaiting_evolves:
  assumes "workflow_wf d" "record_awaiting_approval_result i result t n d = (r, d')"
  shows "evolves d d'"
  using assms(2)[unfolded record_awaiting_approval_result_def] assms(1)
proof (rule transaction_evolves, goal_cases)
  case (1 x d')
  let ?P = "\<lambda>a. apr_job_id a = Some i \<and> apr_tenant_id a = t"
  let ?g = "\<lambda>r. r\<lparr>job_status := J_awaiting_approval, job_finished_at := None,
                job_lease_expires_at := None, job_result := Some result, job_error_code := None\<rparr>"
  let ?h = "\<lambda>r. r\<lparr>apr_status := A_pending\<rparr>"
  from 1 obtain j a where j: "j \<in> set (db_jobs d)" "job_id j = i" "job_status j = J_running"
    and q: "scalar_one_or_none ?P (db_approvals d) = Inr (Some a)" "apr_status a = A_staged"
    and d': "d' = update_job i ?g (update_approval (apr_id a) ?h d)"
    by (auto simp: tx_iffs dest!: owned_job_InrD split: option.splits if_splits)
  from scalar_one_or_none_SomeD [OF q(1)] have a: "a \<in> set (db_approvals d)" "apr_job_id a = Some i"
    by auto
  show "evolves d d'"
    unfolding d' workflow_norm using wf_jobD [OF assms(1) j(1)] j(3) wf_approvalD [OF assms(1) a(1)] q(2)
    by (intro pair_update_evolves [OF assms(1) j(1,2) a])
       (auto simp: edge_simps job_ok_def approval_ok_def approval_edge_def approval_status_edge_simps)
qed

text \<open>Recovery handles its rows one after the other; the rows still to come are untouched.\<close>

lemma cancel_keeps_jobs: "cancel_staged_approval i t d = (Inr u, d') \<Longrightarrow> db_jobs d' = db_jobs d"
  by (cases rule: cancel_staged_cases) (auto simp: add_approval_event_def update_approval_def)

lemma update_job_others:
  "r \<in> set (db_jobs d) \<Longrightarrow> job_id r \<noteq> i \<Longrightarrow> r \<in> set (db_jobs (update_job i g d))"
  by (force simp: update_job_def in_update_rows)

lemma recover_one_evolves:
  assumes wf: "workflow_wf d" and j: "j \<in> set (db_jobs d)" "job_status j = J_running"
    and r: "recover_one now mr delay j d = (Inr x, d')"
  shows "evolves d d' \<and> (\<forall>r \<in> set (db_jobs d). job_id r \<noteq> job_id j \<longrightarrow> r \<in> set (db_jobs d'))"
proof -
  let ?base = "\<lambda>s err r. r\<lparr>job_lease_expires_at := None, job_status := s, job_error_code := Some err\<rparr>"
  consider (cancel) e s err where "cancel_staged_approval (job_id j) (job_tenant_id j) d = (Inr (), e)"
      "terminal s" "d' = update_job (job_id j) (\<lambda>r. (?base s err r)\<lparr>job_finished_at := Some now\<rparr>) e"
    | (queue) err where "d' = update_job (job_id j) (\<lambda>r. (?base J_queued err r)\<lparr>job_available_at := now + delay\<rparr>) d"
    using r unfolding recover_one_def Let_def
    by (auto simp: tx_iffs split: if_splits) (metis terminal.simps)+
  then show ?thesis
  proof cases
    case cancel
    have "evolves d d'"
      unfolding cancel(3) using wf_jobD [OF wf j(1)] j(2) cancel(2)
      by (intro cancel_then_update [OF wf j(1) refl refl j(2) cancel(1)]) (auto simp: edge_simps job_ok_def)
    then show ?thesis
      using cancel(3) cancel_keeps_jobs [OF cancel(1)] update_job_others by metis
  next
    case queue
    have "evolves d d'"
      unfolding queue using wf_jobD [OF wf j(1)] j(2)
      by (intro update_job_evolves [OF wf j(1) refl]) (auto simp: edge_simps job_ok_def approval_job_ok_running)
    then show ?thesis using queue update_job_others by metis
  qed
qed

lemma recover_rows_evolves:
  assumes "workflow_wf d" "set js \<subseteq> set (db_jobs d)" "\<forall>j \<in> set js. job_status j = J_running"
    and "distinct (map job_id js)" "map_tx (recover_one now mr delay) js d = (Inr xs, d')"
  shows "evolves d d'"
  using assms
proof (induction js arbitrary: d xs)
  case Nil
  then show ?case by (simp add: tx_iffs evolves_refl)
next
  case (Cons j js)
  from Cons.prems(5) obtain x e ys where e: "recover_one now mr delay j d = (Inr x, e)"
    "map_tx (recover_one now mr delay) js e = (Inr ys, d')"
    by (auto simp: tx_iffs)
  have one: "evolves d e" "\<forall>r \<in> set (db_jobs d). job_id r \<noteq> job_id j \<longrightarrow> r \<in> set (db_jobs e)"
    using recover_one_evolves [OF Cons.prems(1) _ _ e(1)] Cons.prems(2,3) by auto
  have "set js \<subseteq> set (db_jobs e)"
  proof
    fix r assume "r \<in> set js"
    then show "r \<in> set (db_jobs e)"
      using one(2) Cons.prems(2,4) by (metis distinct.simps(2) image_eqI insert_subset list.set(2) list.set_map list.simps(9) subsetD)
  qed
  from Cons.IH [OF _ this _ _ e(2)] have "evolves e d'"
    using one(1) Cons.prems(3,4) by (simp add: evolves_def)
  with one(1) show ?case by (rule evolves_trans)
qed

lemma recover_expired_leases_evolves:
  assumes "workflow_wf d" "recover_expired_leases locked now mr delay d = (r, d')"
  shows "evolves d d'"
  using assms(2)[unfolded recover_expired_leases_def] assms(1)
proof (rule transaction_evolves, goal_cases)
  case (1 xs d')
  let ?js = "filter (\<lambda>j. lease_expired now j \<and> \<not> locked (job_id j)) (db_jobs d)"
  have "distinct (map job_id ?js)"
    using assms(1) by (simp add: workflow_wf_def db_keys_def distinct_map_filter)
  moreover have "map_tx (recover_one now mr delay) ?js d = (Inr xs, d')" using 1 by (simp add: tx_iffs)
  moreover have "\<forall>j \<in> set ?js. job_status j = J_running" by (simp add: lease_expired_def)
  ultimately show ?case
    by (intro recover_rows_evolves [OF assms(1) filter_is_subset])
qed

end
