(* ===== verification/Approval_Lifecycle.thy ===== *)
theory Approval_Lifecycle
  imports Job_Lifecycle
begin

text \<open>
  Insertion of jobs and approvals, and the writes of the approval repository and of the decision
  service, as evolutions of the workflow.
\<close>

section \<open>Insertion\<close>

text \<open>Skipping identifiers and writing only the tables of tools keeps the workflow as it is.\<close>

lemma workflow_wf_cong:
  assumes "workflow_wf d" "db_keys d'" "db_jobs d' = db_jobs d" "db_approvals d' = db_approvals d"
    and "db_approval_events d' = db_approval_events d" "requests d \<subseteq> requests d'"
  shows "evolves d d'"
  using assms by (auto simp: evolves_def workflow_wf_def linked_def events_ok_def)

lemma insert_approval_evolves:
  assumes wf: "workflow_wf d" and j: "j \<in> set (db_jobs d)" "job_status j = J_running"
    and new: "\<forall>b \<in> set (db_approvals d). apr_job_id b \<noteq> Some (job_id j)"
    and a: "apr_id a = db_uuids d (db_next d)" "apr_job_id a = Some (job_id j)" "apr_tenant_id a = job_tenant_id j"
      "apr_status a = A_staged" "approval_ok a"
    and e: "ae_approval_id e = apr_id a" "ae_event_type e \<noteq> ''approved_action_executed''"
  shows "evolves d (d\<lparr>db_next := Suc (db_next d), db_approvals := db_approvals d @ [a],
    db_approval_events := db_approval_events d @ [e]\<rparr>)" (is "evolves d ?d")
proof -
  have keys: "db_keys d" and lk: "linked d" and ev: "events_ok d" using wf by (simp_all add: workflow_wf_def)
  have u: "used_ids ?d = insert (db_uuids d (db_next d)) (used_ids d)"
    using a(1) by (auto simp: used_ids_def)
  have f: "apr_id a \<notin> apr_id ` set (db_approvals d)"
    using fresh_keys(1) [OF keys] a(1) by (simp add: used_ids_def)
  have "db_keys ?d"
    using keys fresh_keys(2) [OF keys] f new a(2) by (auto simp: db_keys_def u)
  moreover have "linked ?d"
    using lk j a by (auto simp: linked_def)
  moreover have "\<forall>x \<in> set (db_approval_events d). ae_approval_id x \<noteq> apr_id a"
    using ev f unfolding events_ok_def by metis
  then have "executions (apr_id a) (db_approval_events d) = 0"
    by (auto simp: executions_def filter_empty_conv)
  then have "events_ok ?d"
    using ev a e f by (auto simp: events_ok_def executions_def approval_ok_def)
  ultimately show ?thesis
    using wf a(5) by (auto simp: evolves_def workflow_wf_def requests_def)
qed

lemma insert_job_evolves:
  assumes wf: "workflow_wf d" and j: "job_id j = db_uuids d (db_next d)"
      "job_trace_id j \<notin> job_trace_id ` set (db_jobs d)" "job_status j = J_queued" "job_ok j"
  shows "evolves d (d\<lparr>db_next := Suc (db_next d), db_jobs := db_jobs d @ [j]\<rparr>)" (is "evolves d ?d")
proof -
  have keys: "db_keys d" and lk: "linked d" and ev: "events_ok d" using wf by (simp_all add: workflow_wf_def)
  have u: "used_ids ?d = insert (db_uuids d (db_next d)) (used_ids d)"
    using j(1) by (auto simp: used_ids_def)
  have f: "job_id j \<notin> job_id ` set (db_jobs d)"
    using fresh_keys(1) [OF keys] j(1) by (simp add: used_ids_def)
  have "db_keys ?d"
    using keys fresh_keys(2) [OF keys] f j(2) by (auto simp: db_keys_def u)
  moreover have "linked ?d"
    using lk j(3) unfolding linked_def by fastforce
  ultimately show ?thesis
    using wf j(4) by (auto simp: evolves_def workflow_wf_def events_ok_def requests_def)
qed

section \<open>Requests\<close>

lemma get_job_for_update_SomeD:
  "get_job_for_update t i d = Inr (Some j) \<Longrightarrow> j \<in> set (db_jobs d) \<and> job_id j = i \<and> job_tenant_id j = t"
  unfolding get_job_for_update_def by (drule scalar_one_or_none_SomeD) simp

lemma workflow_update_again:
  assumes "\<And>r. apr_id (h r) = apr_id r"
  shows "workflow_update m (\<lambda>r. r) k f [] (workflow_update i g k h es d) = workflow_update i g k (\<lambda>r. f (h r)) es d"
  by (rule db.equality) (auto simp: workflow_update_def update_rows_def assms)

lemma refresh_evolves:
  assumes wf: "workflow_wf d" and j: "j \<in> set (db_jobs d)" "job_status j = J_running"
    and a: "a \<in> set (db_approvals d)" "apr_job_id a = Some (job_id j)"
    and r: "refresh_approval a j act reason expires d = (Inr x, d')"
  shows "evolves d d'"
proof -
  let ?f = "\<lambda>r. r\<lparr>apr_expires_at := Some expires\<rparr>"
  let ?h = "\<lambda>r. r\<lparr>apr_action := pa_name act, apr_policy_reason := Some reason,
              apr_pending_action := Some (pending_action_dump act),
              apr_tenant_config_sha256 := Some (job_tenant_config_sha256 j)\<rparr>"
  let ?e = "\<lparr>ae_tenant_id = job_tenant_id j, ae_approval_id = apr_id a, ae_event_type = ''approval_replaced'',
              ae_actor_ref = None, ae_payload = request_payload act reason\<rparr>"
  have ok: "approval_ok a" "job_ok j" using wf_approvalD [OF wf a(1)] wf_jobD [OF wf j(1)] by auto
  have s: "apr_status a = A_staged" "apr_pending_action a \<noteq> None"
    using r by (auto simp: refresh_approval_def tx_iffs split: if_splits)
  have "workflow_update 0 (\<lambda>r. r) k h es d = workflow_update (job_id j) (\<lambda>r. r) k h es d" for k h es
    by (simp add: workflow_update_def)
  note swap = this
  consider "d' = workflow_update (job_id j) (\<lambda>r. r) (apr_id a) (\<lambda>r. ?f (?h r)) [?e] d"
    | "d' = workflow_update (job_id j) (\<lambda>r. r) (apr_id a) ?f [] d"
    using r s
    by (auto simp: refresh_approval_def tx_iffs workflow_norm workflow_update_again swap [symmetric] split: if_splits)
  then show ?thesis
  proof cases
    case 1
    show ?thesis
      unfolding 1 using ok s j(2)
      by (intro pair_update_evolves [OF wf j(1) refl a])
         (auto simp: approval_ok_def approval_edge_def approval_status_edge_simps job_edge_def executions_def)
  next
    case 2
    show ?thesis
      unfolding 2 using ok s j(2)
      by (intro pair_update_evolves [OF wf j(1) refl a])
         (auto simp: approval_ok_def approval_edge_def approval_status_edge_simps job_edge_def)
  qed
qed

lemma stage_evolves:
  assumes wf: "workflow_wf d" and j: "j \<in> set (db_jobs d)" "job_status j = J_running"
    and r: "stage_approval j act reason expires d = (Inr x, d')"
  shows "evolves d d'"
proof -
  let ?a = "new_approval (db_uuids d (db_next d)) j act reason expires (db_now d)"
  let ?e = "\<lparr>ae_tenant_id = job_tenant_id j, ae_approval_id = db_uuids d (db_next d),
              ae_event_type = ''approval_requested'', ae_actor_ref = None, ae_payload = request_payload act reason\<rparr>"
  have n: "\<forall>b \<in> set (db_approvals d). apr_job_id b \<noteq> Some (job_id j)"
    and d': "d' = d\<lparr>db_next := Suc (db_next d), db_approvals := db_approvals d @ [?a],
       db_approval_events := db_approval_events d @ [?e]\<rparr>"
    using r by (auto simp: stage_approval_def tx_iffs add_approval_event_def)
  show ?thesis
    unfolding d'
    by (intro insert_approval_evolves [OF wf j n]) (auto simp: new_approval_def approval_ok_def)
qed

lemma create_for_running_job_evolves:
  assumes "workflow_wf d" "create_for_running_job t i n act reason expires_in now d = (r, d')"
  shows "evolves d d'"
  using assms(2)[unfolded create_for_running_job_def] assms(1)
proof (rule transaction_evolves, goal_cases)
  case (1 x d')
  from 1 obtain j where "get_job_for_update t i d = Inr (Some j)" and s: "job_status j = J_running"
    by (auto simp: tx_iffs split: option.splits if_splits)
  then have j: "j \<in> set (db_jobs d)" "job_id j = i" by (auto dest: get_job_for_update_SomeD)
  from 1 consider a where
      "scalar_one_or_none (\<lambda>a. apr_tenant_id a = t \<and> apr_job_id a = Some i) (db_approvals d) = Inr (Some a)"
      "refresh_approval a j act reason (now + expires_in) d = (Inr x, d')"
    | "stage_approval j act reason (now + expires_in) d = (Inr x, d')"
    using \<open>get_job_for_update t i d = Inr (Some j)\<close> by (auto simp: tx_iffs split: option.splits if_splits)
  then show ?case
  proof cases
    case (1 a)
    with scalar_one_or_none_SomeD [OF 1(1)] show ?thesis
      using refresh_evolves [OF assms(1) j(1) s] j(2) by auto
  next
    case 2
    then show ?thesis by (rule stage_evolves [OF assms(1) j(1) s])
  qed
qed

section \<open>Decisions\<close>

text \<open>Resolving the parked job of a decided approval.\<close>

lemma finalize_ok:
  assumes "finalize_job_for_decision a b now = Inr j'" "job_status j = J_awaiting_approval" "job_ok j"
    and "b = j \<or> b = j\<lparr>job_side_effect_committed_at := Some x\<rparr>"
  shows "job_ok j' \<and> job_edge j j' \<and> approval_job_ok (apr_status a) (job_status j') \<and> decided (apr_status a)"
  using assms
  by (cases "apr_status a") (auto simp: finalize_job_for_decision_def edge_simps job_ok_def)

lemma finalize_tx_Inr:
  "finalize_tx a j now d = (Inr u, d') \<longleftrightarrow>
   (\<exists>j'. finalize_job_for_decision a j now = Inr j' \<and> d' = update_job (job_id j) (\<lambda>_. j') d)"
  by (auto simp: finalize_tx_def tx_iffs split: sum.splits)

text \<open>The writes of a decision: the approval, its events and the job.\<close>

lemma decision_evolves:
  assumes wf: "workflow_wf d" and a: "a \<in> set (db_approvals d)" "apr_job_id a = Some (job_id j)" "apr_status a = A_pending"
    and j: "j \<in> set (db_jobs d)"
    and f: "finalize_job_for_decision (h a) b now = Inr j'" "b = j \<or> b = j\<lparr>job_side_effect_committed_at := Some x\<rparr>"
    and h: "approval_ok (h a)" "apr_id (h a) = apr_id a" "apr_tenant_id (h a) = apr_tenant_id a"
      "apr_job_id (h a) = apr_job_id a"
    and e: "\<forall>e \<in> set es. ae_approval_id e = apr_id a"
      "executions (apr_id a) es = (if apr_status (h a) = A_approved then 1 else 0)"
  shows "evolves d (workflow_update (job_id j) (\<lambda>_. j') (apr_id a) h es d)"
proof -
  have s: "job_status j = J_awaiting_approval"
    using wf_approval_of_job [OF wf j a(1,2)] a(3) by simp
  have "job_ok j'" "job_edge j j'" "approval_job_ok (apr_status (h a)) (job_status j')" "decided (apr_status (h a))"
    using finalize_ok [OF f(1) s wf_jobD [OF wf j] f(2)] by auto
  then show ?thesis
    using h e wf_approvalD [OF wf a(1)] a(3)
    by (intro pair_update_evolves [OF wf j refl a(1,2)])
       (auto simp: approval_edge_def approval_status_edge_simps approval_ok_def)
qed

lemma approval_ok_expire: "approval_ok a \<Longrightarrow> apr_status a = A_pending \<Longrightarrow> approval_ok (expire_row now a)"
  by (auto simp: approval_ok_def expire_row_def)

lemma expire_row_keys [simp]:
  "apr_id (expire_row now a) = apr_id a" "apr_tenant_id (expire_row now a) = apr_tenant_id a"
  "apr_job_id (expire_row now a) = apr_job_id a" "apr_status (expire_row now a) = A_expired"
  "apr_executed_at (expire_row now a) = apr_executed_at a" "apr_decided_at (expire_row now a) = Some now"
  by (simp_all add: expire_row_def)

definition expired_event :: "approval_row \<Rightarrow> approval_event_row" where
  "expired_event a =
     \<lparr>ae_tenant_id = apr_tenant_id a, ae_approval_id = apr_id a, ae_event_type = ''approval_expired'',
      ae_actor_ref = Some ''system_timeout'', ae_payload = []\<rparr>"

lemma expire_locked_Inr:
  assumes "apr_status a = A_pending"
  shows "expire_locked a now d = (Inr a', d') \<longleftrightarrow>
    a' = expire_row now a \<and> d' = workflow_update 0 (\<lambda>r. r) (apr_id a) (expire_row now) [expired_event a] d"
  using assms by (auto simp: expire_locked_def tx_iffs workflow_norm expired_event_def)

lemma expire_with_job:
  assumes wf: "workflow_wf d" and a: "a \<in> set (db_approvals d)" "apr_job_id a = Some (job_id j)" "apr_status a = A_pending"
    and j: "j \<in> set (db_jobs d)" and f: "finalize_job_for_decision (expire_row now a) j now = Inr j'"
  shows "evolves d (workflow_update (job_id j) (\<lambda>_. j') (apr_id a) (expire_row now) [expired_event a] d)"
  using f approval_ok_expire [OF wf_approvalD [OF wf a(1)] a(3)]
  by (intro decision_evolves [OF wf a j]) (auto simp: expired_event_def executions_def)

lemma wf_awaitingD:
  "workflow_wf d \<Longrightarrow> j \<in> set (db_jobs d) \<Longrightarrow> job_status j = J_awaiting_approval \<Longrightarrow>
   \<exists>a \<in> set (db_approvals d). apr_job_id a = Some (job_id j) \<and> apr_status a = A_pending"
  by (simp add: workflow_wf_def linked_def)

text \<open>An approval without a job, from before jobs existed, expires alone.\<close>

lemma expire_without_job:
  assumes wf: "workflow_wf d" and a: "a \<in> set (db_approvals d)" "apr_job_id a = None" "apr_status a = A_pending"
  shows "evolves d (workflow_update 0 (\<lambda>r. r) (apr_id a) (expire_row now) [expired_event a] d)"
proof (rule workflow_update_evolves [OF wf])
  have u: "b = a" if "b \<in> set (db_approvals d)" "apr_id b = apr_id a" for b
    using wf_approval_unique [OF wf] that a by blast
  have edge: "approval_edge a (expire_row now a)"
    using a(3) by (simp add: approval_edge_def approval_status_edge_simps)
  show "update_ok 0 (\<lambda>r. r) (apr_id a) (expire_row now) [expired_event a] d"
    unfolding update_ok_def
  proof (intro conjI ballI impI)
    fix r assume r: "r \<in> set (db_jobs d)" "job_id r = 0"
    show "job_ok r" "job_edge r r" using wf_jobD [OF wf r(1)] by (auto simp: job_edge_def)
    have keep: "updated (apr_id a) (expire_row now) b = b" if "b \<in> set (db_approvals d)" "apr_job_id b = Some 0" for b
      using u [OF that(1)] that(2) a(2) unfolding updated_def by fastforce
    then show "approval_job_ok (apr_status (updated (apr_id a) (expire_row now) b)) (job_status r)"
      if "b \<in> set (db_approvals d)" "apr_job_id b = Some 0" for b
      using wf_approval_of_job [OF wf r(1) that(1)] that r(2) by simp
    show "\<exists>b \<in> set (db_approvals d). apr_job_id b = Some 0 \<and> apr_status (updated (apr_id a) (expire_row now) b) = A_pending"
      if aw: "job_status r = J_awaiting_approval"
    proof -
      obtain b where "b \<in> set (db_approvals d)" "apr_job_id b = Some 0" "apr_status b = A_pending"
        using wf_awaitingD [OF wf r(1) aw] r(2) by auto
      with keep show ?thesis by metis
    qed
  next
    fix b assume b: "b \<in> set (db_approvals d)"
    show "approval_ok (expire_row now b)" "approval_edge b (expire_row now b)" "apr_job_id b = Some 0 \<or> apr_job_id b = None"
      if "apr_id b = apr_id a"
      using u [OF b that] a edge approval_ok_expire [OF wf_approvalD [OF wf a(1)] a(3)] by auto
    show "executions (apr_id b) [expired_event a] + (if apr_executed_at b = None then 0 else 1) =
      (if apr_executed_at (updated (apr_id a) (expire_row now) b) = None then 0 else 1)"
      by (auto simp: executions_def expired_event_def updated_def)
  next
    show "ae_approval_id e \<in> apr_id ` set (db_approvals d)" if "e \<in> set [expired_event a]" for e
      using that a(1) by (auto simp: expired_event_def)
  qed
qed

lemma workflow_update_other_approvals:
  "b \<in> set (db_approvals d) \<Longrightarrow> apr_id b \<noteq> k \<Longrightarrow> b \<in> set (db_approvals (workflow_update i g k h es d))"
  by (force simp: workflow_update_approvals updated_def)

lemma expire_one_evolves:
  assumes wf: "workflow_wf d" and a: "a \<in> set (db_approvals d)" "apr_status a = A_pending"
    and r: "expire_one now a d = (Inr x, d')"
  shows "evolves d d' \<and> (\<forall>b \<in> set (db_approvals d). apr_id b \<noteq> apr_id a \<longrightarrow> b \<in> set (db_approvals d'))"
proof (cases "apr_job_id a")
  case None
  then have "d' = workflow_update 0 (\<lambda>r. r) (apr_id a) (expire_row now) [expired_event a] d"
    using r a(2) by (auto simp: expire_one_def tx_iffs expire_locked_Inr)
  then show ?thesis
    using expire_without_job [OF wf a(1) None a(2)] workflow_update_other_approvals by auto
next
  case (Some i)
  then obtain j j' where j: "get_job_for_update (apr_tenant_id a) i d = Inr (Some j)"
    and f: "finalize_job_for_decision (expire_row now a) j now = Inr j'"
    and d': "d' = workflow_update (job_id j) (\<lambda>_. j') (apr_id a) (expire_row now) [expired_event a] d"
    using r a(2)
    by (auto simp: expire_one_def tx_iffs expire_locked_Inr finalize_tx_Inr workflow_norm split: option.splits)
  from get_job_for_update_SomeD [OF j] Some have "j \<in> set (db_jobs d)" "apr_job_id a = Some (job_id j)" by auto
  then show ?thesis
    using expire_with_job [OF wf a(1) _ a(2) _ f] d' workflow_update_other_approvals by auto
qed

lemma expire_rows_evolves:
  assumes "workflow_wf d" "set as \<subseteq> set (db_approvals d)" "\<forall>a \<in> set as. apr_status a = A_pending"
    and "distinct (map apr_id as)" "map_tx (expire_one now) as d = (Inr xs, d')"
  shows "evolves d d'"
  using assms
proof (induction as arbitrary: d xs)
  case Nil
  then show ?case by (simp add: tx_iffs evolves_refl)
next
  case (Cons a as)
  from Cons.prems(5) obtain x e ys where e: "expire_one now a d = (Inr x, e)"
    "map_tx (expire_one now) as e = (Inr ys, d')"
    by (auto simp: tx_iffs)
  have one: "evolves d e" "\<forall>b \<in> set (db_approvals d). apr_id b \<noteq> apr_id a \<longrightarrow> b \<in> set (db_approvals e)"
    using expire_one_evolves [OF Cons.prems(1) _ _ e(1)] Cons.prems(2,3) by auto
  have "b \<in> set (db_approvals e)" if "b \<in> set as" for b
    using one(2) Cons.prems(2,4) that
    by (metis distinct.simps(2) image_eqI insert_subset list.set(2) list.set_map list.simps(9) subsetD)
  then have "evolves e d'"
    using Cons.IH [OF _ _ _ _ e(2)] one(1) Cons.prems(3,4) by (auto simp: evolves_def)
  with one(1) show ?case by (rule evolves_trans)
qed

lemma expire_due_evolves:
  assumes "workflow_wf d" "expire_due locked now limit d = (r, d')"
  shows "evolves d d'"
  using assms(2)[unfolded expire_due_def] assms(1)
proof (rule transaction_evolves, goal_cases)
  case (1 xs d')
  let ?all = "sort_key expiry_key (filter (\<lambda>a. due d now a \<and> \<not> locked (apr_id a)) (db_approvals d))"
  have sub: "set (take limit ?all) \<subseteq> {a \<in> set (db_approvals d). apr_status a = A_pending}"
    using set_take_subset [of limit ?all] by (auto simp: due_def)
  have k: "distinct (map apr_id (db_approvals d))" using assms(1) by (simp add: workflow_wf_def db_keys_def)
  have "inj_on apr_id (set ?all)" using k by (auto simp: distinct_map inj_on_def)
  then have "distinct (map apr_id ?all)" using k by (simp add: distinct_map distinct_filter)
  then have "distinct (map apr_id (take limit ?all))" by (simp add: take_map [symmetric])
  moreover obtain ys where "map_tx (expire_one now) (take limit ?all) d = (Inr ys, d')"
    using 1 by (auto simp: tx_iffs)
  ultimately show ?case using expire_rows_evolves [OF assms(1), of "take limit ?all"] sub by blast
qed

section \<open>The decision service\<close>

lemma lift_res_Inr: "lift_res r d = (Inr x, d') \<longleftrightarrow> r = Inr x \<and> d' = d"
  by (auto simp: lift_res_def tx_iffs split: sum.splits)

lemma conflict_on_Inr: "conflict_on P msg r = Inr x \<longleftrightarrow> r = Inr x"
  by (auto simp: conflict_on_def split: sum.splits)

lemma load_context_Inr:
  assumes "load_context env a i d = (Inr (j, identity, profile), d')"
  shows "d' = d \<and> j \<in> set (db_jobs d) \<and> job_id j = i \<and> job_tenant_id j = apr_tenant_id a"
  using assms
  by (auto simp: load_context_def tx_iffs lift_res_Inr dest!: get_job_for_update_SomeD split: option.splits)

lemma approvable_action_Inr:
  assumes "approvable_action env a pending profile = Inr act"
  shows "pending_action_validate pending = Inr act \<and> pa_name act = apr_action a \<and>
    pa_name act \<in> set (cp_available_actions (rp_compiled profile)) \<and>
    vf_invalid_fields (validate_frozen_fields (de_values env) (pa_known_fields act) (frozen_runtime a profile)) = []"
  using assms
  by (auto simp: approvable_action_def bind_res_Inr_iff conflict_on_Inr Let_def split: if_splits)

lemma expire_branch_evolves:
  assumes wf: "workflow_wf d" and a: "a \<in> set (db_approvals d)" "apr_job_id a = Some (job_id j)" "apr_status a = A_pending"
    and j: "j \<in> set (db_jobs d)" and r: "expire_branch req now a j d = (Inr x, d')"
  shows "evolves d d'"
proof -
  from r a(3) obtain j' where "finalize_job_for_decision (expire_row now a) j now = Inr j'"
    "d' = workflow_update (job_id j) (\<lambda>_. j') (apr_id a) (expire_row now) [expired_event a] d"
    by (auto simp: expire_branch_def tx_iffs expire_locked_Inr finalize_tx_Inr lift_res_Inr workflow_norm split: if_splits)
  then show ?thesis using expire_with_job [OF wf a j] by simp
qed

lemma reject_branch_evolves:
  assumes wf: "workflow_wf d" and a: "a \<in> set (db_approvals d)" "apr_job_id a = Some (job_id j)" "apr_status a = A_pending"
    and j: "j \<in> set (db_jobs d)" and r: "reject_branch op req now a j d = (Inr x, d')"
  shows "evolves d d'"
proof -
  from r obtain j' where f: "finalize_job_for_decision (reject_row op req now a) j now = Inr j'"
    and d': "d' = workflow_update (job_id j) (\<lambda>_. j') (apr_id a) (\<lambda>_. reject_row op req now a)
      [\<lparr>ae_tenant_id = apr_tenant_id a, ae_approval_id = apr_id a, ae_event_type = ''approval_rejected'',
        ae_actor_ref = Some (op_actor_ref op), ae_payload = []\<rparr>] d"
    by (auto simp: reject_branch_def Let_def tx_iffs finalize_tx_Inr lift_res_Inr workflow_norm)
  show ?thesis
    unfolding d' using f wf_approvalD [OF wf a(1)] a(3)
    by (intro decision_evolves [OF wf a j]) (auto simp: reject_row_def approval_ok_def executions_def)
qed

lemma approve_branch_evolves:
  assumes wf: "workflow_wf d" and a: "a \<in> set (db_approvals d)" "apr_job_id a = Some (job_id j)" "apr_status a = A_pending"
    and j: "j \<in> set (db_jobs d)" and r: "approve_branch env op req now a pending j profile d = (Inr x, d')"
  shows "evolves d d'"
proof -
  from r obtain act result b k e j' where x: "approval_execute (de_executor_registry env) a act now d = (Inr (result, b, k), e)"
    and f: "finalize_job_for_decision (approve_row op req now result b) k now = Inr j'"
    and d': "d' = workflow_update (job_id k) (\<lambda>_. j') (apr_id b) (\<lambda>_. approve_row op req now result b)
      [\<lparr>ae_tenant_id = apr_tenant_id b, ae_approval_id = apr_id b, ae_event_type = ''approval_approved'',
        ae_actor_ref = Some (op_actor_ref op), ae_payload = []\<rparr>,
       \<lparr>ae_tenant_id = apr_tenant_id b, ae_approval_id = apr_id b, ae_event_type = ''approved_action_executed'',
        ae_actor_ref = Some (op_actor_ref op),
        ae_payload = [(''action'', PStr (apr_action b)), (''executed'', PBool True)]\<rparr>] e"
    by (auto simp: approve_branch_def Let_def tx_iffs finalize_tx_Inr lift_res_Inr workflow_norm)
  from x obtain i m where m: "apr_job_id a = Some i" "get_job_for_update (apr_tenant_id a) i d = Inr (Some m)"
    "k = m \<or> k = m\<lparr>job_side_effect_committed_at := Some now\<rparr>" "same_approval a b" "tool_frame (apr_tenant_id a) d e"
    by (rule approval_execute_InrD)
  then have [simp]: "m = j"
    using get_job_for_update_SomeD [OF m(2)] a(2) wf_job_unique [OF wf _ j] by auto
  have k: "job_id k = job_id j" using m(3) by auto
  from m(4) have b: "apr_id b = apr_id a" "apr_tenant_id b = apr_tenant_id a" "apr_job_id b = apr_job_id a"
    "apr_pending_action b = apr_pending_action a" "apr_tenant_config_sha256 b = apr_tenant_config_sha256 a"
    "apr_expires_at b = apr_expires_at a"
    by (auto simp: same_approval_def)
  have keys: "db_keys d" using wf by (simp add: workflow_wf_def)
  have de: "evolves d e"
    using m(5) keys by (intro workflow_wf_cong [OF wf]) (auto simp: tool_frame_def)
  have tables: "a \<in> set (db_approvals e)" "j \<in> set (db_jobs e)"
    using m(5) a(1) j by (auto simp: tool_frame_def)
  have wfe: "workflow_wf e" using de by (simp add: evolves_def)
  have "evolves e d'"
    unfolding d' k b(1) using f m(3) b wf_approvalD [OF wf a(1)] a(2)
    by (intro decision_evolves [OF wfe tables(1) a(2,3) tables(2), where b = k and x = now and now = now])
       (auto simp: approve_row_def approval_ok_def executions_def)
  with de show ?thesis by (rule evolves_trans)
qed

lemma decide_body_Inr:
  assumes "decide_body env i op req now d = (Inr (out, identity, profile), d')"
  obtains a m pending sha expires j where "get_for_tenant i (op_tenant_id op) d = Inr (Some a)"
    "apr_status a \<in> {A_pending, A_approved, A_rejected, A_expired}"
    "apr_job_id a = Some m" "apr_pending_action a = Some pending" "apr_tenant_config_sha256 a = Some sha"
    "apr_expires_at a = Some expires" "load_context env a m d = (Inr (j, identity, profile), d)"
    "decide_branch env op req now a expires pending j profile d = (Inr out, d')"
proof -
  from assms obtain a where g: "get_for_tenant i (op_tenant_id op) d = Inr (Some a)"
    by (auto simp: decide_body_def tx_iffs split: option.splits)
  have p: "apr_status a \<in> {A_pending, A_approved, A_rejected, A_expired}"
    using assms g by (simp add: decide_body_def tx_iffs split: if_splits)
  obtain m pending sha expires where s: "apr_job_id a = Some m" "apr_pending_action a = Some pending"
    "apr_tenant_config_sha256 a = Some sha" "apr_expires_at a = Some expires"
    using assms g p by (auto simp: decide_body_def tx_iffs split: option.splits)
  obtain j e where c: "load_context env a m d = (Inr (j, identity, profile), e)"
    and b: "decide_branch env op req now a expires pending j profile e = (Inr out, d')"
    using assms g p s by (auto simp: decide_body_def tx_iffs)
  show thesis using that [OF g p s] c b load_context_Inr [OF c] by simp
qed

lemma get_for_tenant_SomeD:
  "get_for_tenant i t d = Inr (Some a) \<Longrightarrow>
   a \<in> set (db_approvals d) \<and> apr_id a = i \<and> apr_tenant_id a = t \<and> published_lifecycle_predicate d a"
  unfolding get_for_tenant_def by (drule scalar_one_or_none_SomeD) simp

lemma repeat_branch_Inr:
  "repeat_branch req a d = (Inr out, d') \<Longrightarrow>
   d' = d \<and> is_same_final_decision a (dr_decision req) \<and> do_approval out = a \<and> \<not> do_executed out \<and> \<not> do_expired out \<and>
   decision_response a = Inr (the (do_response out)) \<and> do_response out \<noteq> None"
  by (auto simp: repeat_branch_def tx_iffs lift_res_Inr split: if_splits)

lemma decide_body_evolves:
  assumes wf: "workflow_wf d" and r: "decide_body env i op req now d = (Inr x, d')"
  shows "evolves d d'"
proof -
  obtain out identity profile where x: "x = (out, identity, profile)" by (cases x)
  from r [unfolded x] obtain a m pending sha expires j where g: "get_for_tenant i (op_tenant_id op) d = Inr (Some a)"
    and s: "apr_status a \<in> {A_pending, A_approved, A_rejected, A_expired}" "apr_job_id a = Some m"
    and c: "load_context env a m d = (Inr (j, identity, profile), d)"
    and b: "decide_branch env op req now a expires pending j profile d = (Inr out, d')"
    by (rule decide_body_Inr)
  from get_for_tenant_SomeD [OF g] have a: "a \<in> set (db_approvals d)" by simp
  from load_context_Inr [OF c] s(2) have j: "j \<in> set (db_jobs d)" "apr_job_id a = Some (job_id j)" by auto
  show ?thesis
  proof (cases "apr_status a = A_pending")
    case True
    then show ?thesis
      using b expire_branch_evolves [OF wf a j(2) True j(1)] reject_branch_evolves [OF wf a j(2) True j(1)]
        approve_branch_evolves [OF wf a j(2) True j(1)]
      by (simp add: decide_branch_def split: if_splits)
  next
    case False
    with b s(1) have "repeat_branch req a d = (Inr out, d')"
      by (auto simp: decide_branch_def)
    then show ?thesis using repeat_branch_Inr evolves_refl [OF wf] by blast
  qed
qed

lemma decide_evolves:
  assumes "workflow_wf d" "decide env i op req now d = (r, obs, d')"
  shows "evolves d d'"
proof -
  obtain q e where t: "transaction (decide_body env i op req now) d = (q, e)" by fastforce
  have "e = d'" using assms(2) t by (auto simp: decide_def split: sum.splits)
  with transaction_evolves [OF t assms(1)] decide_body_evolves [OF assms(1)] show ?thesis by blast
qed

end
