(* ===== verification/Tool_Gate.thy ===== *)
theory Tool_Gate
  imports Tool_Executor
begin

text \<open>
  What the executor guarantees: which effects on the port a call can have, that its results are
  well formed, which exceptions can leave it, and the contract towards the loop, from which the
  guarantees lift to whole runs.
\<close>

section \<open>Results\<close>

lemma emit_xs_port [simp]:
  "xs_port (emit_event e s) = xs_port s"
  "xs_port (emit_policy k b pol s) = xs_port s"
  "xs_port (emit_tool k r b s) = xs_port s"
  "xs_port (emit_approval_requested k i reason s) = xs_port s"
  by (simp_all add: emit_event_def emit_policy_def emit_tool_def emit_approval_requested_def
      split: option.split)

definition evidence_ok :: "tool_execution_result \<Rightarrow> bool" where
  "evidence_ok r \<longleftrightarrow>
     ter_wf r \<and>
     (case ter_evidence r of
        None \<Rightarrow> False
      | Some ev \<Rightarrow> ev_action_known ev \<longleftrightarrow> ev_action_key ev \<noteq> None)"

definition committed :: "tool_execution_result \<Rightarrow> bool" where
  "committed r \<longleftrightarrow>
     (case ter_evidence r of None \<Rightarrow> False | Some ev \<Rightarrow> ev_side_effect_committed ev)"

lemma with_evidence_Inr:
  assumes "ter_wf r"
  shows "\<exists>r'. with_evidence r k known policy did_run com = Inr r' \<and> evidence_ok r' \<and>
     ter_data r' = ter_data r \<and> ter_disposition r' = ter_disposition r \<and>
     ter_final_response r' = ter_final_response r \<and> (committed r' \<longleftrightarrow> com)"
  using assms mk_tool_execution_result_replace [OF assms]
  by (simp add: with_evidence_def mk_evidence_def evidence_ok_def committed_def ter_wf_def)

lemma stop_result_Inr:
  assumes "json_value data" "disp \<noteq> Some DispContinue"
  shows "\<exists>r. stop_result data response disp = Inr r \<and> ter_wf r \<and> ter_data r = data \<and>
     ter_final_response r = Some response \<and>
     ter_disposition r = (case disp of None \<Rightarrow> DispCompleted | Some d \<Rightarrow> d)"
  using assms
  by (cases disp)
     (auto simp: stop_result_def mk_tool_execution_result_def ter_wf_def freeze_data_Inr simp del: freeze_data.simps)

lemma json_as_tool_data [simp]: "json_value (PDict (as_tool_data policy))"
  by (simp add: as_tool_data_def)

lemma json_as_tool_data_append [simp]:
  "list_all (\<lambda>kv. json_value (snd kv)) xs \<Longrightarrow> json_value (PDict (as_tool_data policy @ xs))"
  by (simp add: as_tool_data_def)

lemma json_outcome_data [simp]: "json_value (outcome_data s)"
  by (simp add: outcome_data_def)

text \<open>A stopping result with evidence never raises, and reports no side effect.\<close>

lemma stop_with_evidence:
  assumes "json_value data" "disp \<noteq> Some DispContinue"
  shows "\<exists>r r'. stop_result data response disp = Inr r \<and>
     with_evidence r k known policy did_run False = Inr r' \<and> evidence_ok r' \<and> \<not> committed r' \<and>
     ter_data r' = data \<and> ter_disposition r' \<noteq> DispContinue"
proof -
  obtain r where r: "stop_result data response disp = Inr r" "ter_wf r" "ter_data r = data"
    "ter_disposition r = (case disp of None \<Rightarrow> DispCompleted | Some d \<Rightarrow> d)"
    using stop_result_Inr [OF assms] by blast
  then show ?thesis
    using with_evidence_Inr [OF r(2), of k known policy did_run False] assms(2)
    by (auto split: option.splits)
qed

lemma handler_failure_disp: "handler_failure e = (out, disp) \<Longrightarrow> disp \<noteq> Some DispContinue"
  by (cases e) auto

lemma failure_step_result:
  "\<exists>r. failure_step d policy e s = (Inr r, snd (failure_step d policy e s)) \<and> evidence_ok r \<and> \<not> committed r \<and>
     xs_port (snd (failure_step d policy e s)) = xs_port s"
proof -
  obtain out disp where h: "handler_failure e = (out, disp)" by (cases "handler_failure e")
  obtain r r' where "stop_result (outcome_data out) out disp = Inr r"
    "with_evidence r (td_name d) True policy True False = Inr r'" "evidence_ok r'" "\<not> committed r'"
    using stop_with_evidence [OF json_outcome_data handler_failure_disp [OF h]] by metis
  then show ?thesis by (simp add: failure_step_def h)
qed

lemma handler_step_cases:
  "\<exists>r s'. handler_step x d args p policy s = (Inr r, s') \<and> evidence_ok r \<and>
     (committed r \<longrightarrow> td_commits_side_effect d \<and> \<not> xe_cancelled x (xs_port s) \<and>
        (\<exists>v. fst (run_handler x (td_handler d) args p (xs_port s)) = Inr v)) \<and>
     xs_port s' = (if xe_cancelled x (xs_port s) then xs_port s
                   else snd (run_handler x (td_handler d) args p (xs_port s)))"
proof (cases "xe_cancelled x (xs_port s)")
  case True
  then show ?thesis
    using failure_step_result [of d policy cancelled_error s] by (auto simp: handler_step_def)
next
  case False
  obtain res port where h: "run_handler x (td_handler d) args p (xs_port s) = (res, port)"
    by (cases "run_handler x (td_handler d) args p (xs_port s)")
  show ?thesis
  proof (cases "bind_res res (\<lambda>data. mk_tool_execution_result data None None None None None)")
    case (Inl e)
    then show ?thesis
      using False h failure_step_result [of d policy e "s\<lparr>xs_port := port\<rparr>"]
      by (auto simp: handler_step_def)
  next
    case (Inr r)
    then have "ter_wf r" and v: "\<exists>v. res = Inr v"
      by (auto simp: bind_res_Inr_iff dest: mk_tool_execution_result_wf)
    then show ?thesis
      using False h Inr with_evidence_Inr [OF \<open>ter_wf r\<close>, of "td_name d" True policy True "td_commits_side_effect d"]
      by (auto simp: handler_step_def)
  qed
qed

lemma request_step_cases:
  assumes "request_step x d args p policy s = (res, s')"
  shows "(case res of
            Inr r \<Rightarrow> evidence_ok r \<and> \<not> committed r
          | Inl e \<Rightarrow> e = cancelled_error \<or> pending_action_of x d args p = Inl e \<or>
              (\<exists>action port. pending_action_of x d args p = Inr action \<and>
                 tp_request_approval (xe_port x) (rt_tenant_id (xe_runtime x)) action (po_reason policy)
                   (xs_port s) = (Inl e, port))) \<and>
     (xs_port s' = xs_port s \<or>
      (\<exists>action. pending_action_of x d args p = Inr action \<and>
         xs_port s' = snd (tp_request_approval (xe_port x) (rt_tenant_id (xe_runtime x)) action
           (po_reason policy) (xs_port s))))"
proof (cases "xe_cancelled x (xs_port s)")
  case True
  then show ?thesis using assms by (auto simp: request_step_def)
next
  case False
  show ?thesis
  proof (cases "pending_action_of x d args p")
    case (Inl e)
    then show ?thesis using False assms by (auto simp: request_step_def)
  next
    case (Inr action)
    obtain req port where rq: "tp_request_approval (xe_port x) (rt_tenant_id (xe_runtime x)) action
        (po_reason policy) (xs_port s) = (req, port)"
      by fastforce
    show ?thesis
    proof (cases req)
      case (Inl e)
      then show ?thesis using False Inr rq assms by (auto simp: request_step_def)
    next
      case (Inr a)
      let ?data = "PDict (as_tool_data policy @ [(''approval_id'', PStr (uuid_str (rq_id a)))])"
      have j: "json_value ?data" by (simp add: as_tool_data_def)
      obtain r r' where "stop_result ?data ''approval_requested'' None = Inr r"
        "with_evidence r (td_name d) True policy False False = Inr r'" "evidence_ok r'" "\<not> committed r'"
        using stop_with_evidence [OF j, of None "''approval_requested''" "td_name d" True policy False]
        by auto
      moreover from this have "res = Inr r'" "xs_port s' = port"
        using False \<open>pending_action_of x d args p = Inr action\<close> rq Inr assms
        by (simp_all add: request_step_def, auto)
      ultimately show ?thesis
        using \<open>pending_action_of x d args p = Inr action\<close> rq by simp
    qed
  qed
qed

section \<open>One call\<close>

text \<open>
  The possible courses of a call: it is refused before any effect, or a known tool with valid
  arguments runs under an allowing policy, or an approval is requested for it.
\<close>

inductive gate :: "'p executor \<Rightarrow> agent_proposal \<Rightarrow> tool_call \<Rightarrow> 'p \<Rightarrow> 'p \<Rightarrow> bool" where
  refused: "gate x p call s s"
| handled: "gate x p call s (snd (run_handler x (td_handler d) args p s))"
    if "po_decision (execute_policy x p call) = ALLOW"
      and "map_of (xe_definitions x) (tc_name call) = Some d"
      and "args_model_validate (td_arguments_model d) (tc_arguments call) = Inr args"
      and "\<not> xe_cancelled x s"
| requested: "gate x p call s (snd (tp_request_approval (xe_port x) (rt_tenant_id (xe_runtime x)) action
                 (po_reason (execute_policy x p call)) s))"
    if "po_decision (execute_policy x p call) = NEEDS_APPROVAL"
      and "map_of (xe_definitions x) (tc_name call) = Some d"
      and "args_model_validate (td_arguments_model d) (tc_arguments call) = Inr args"
      and "pending_action_of x d args p = Inr action"

inductive_cases gateE: "gate x p call s s'"

text \<open>The exceptions that leave a call.\<close>

inductive call_raises :: "'p executor \<Rightarrow> agent_proposal \<Rightarrow> tool_call \<Rightarrow> 'p \<Rightarrow> exn \<Rightarrow> bool" where
  cancelled: "call_raises x p call s cancelled_error"
| unknown_tool: "call_raises x p call s (AssertionError m)"
    if "po_decision (execute_policy x p call) = ALLOW" and "map_of (xe_definitions x) (tc_name call) = None"
| bad_arguments: "call_raises x p call s e"
    if "map_of (xe_definitions x) (tc_name call) = Some d"
      and "args_model_validate (td_arguments_model d) (tc_arguments call) = Inl e"
      and "\<forall>m. e \<noteq> ValueError m"
      and "po_decision (execute_policy x p call) \<noteq> DENY"
| bad_action: "call_raises x p call s e"
    if "map_of (xe_definitions x) (tc_name call) = Some d"
      and "pending_action_of x d args p = Inl e"
| request_failed: "call_raises x p call s e"
    if "po_decision (execute_policy x p call) = NEEDS_APPROVAL"
      and "tp_request_approval (xe_port x) (rt_tenant_id (xe_runtime x)) action
             (po_reason (execute_policy x p call)) s = (Inl e, port)"

inductive_cases call_raisesE: "call_raises x p call s e"

definition call_spec ::
  "'p executor \<Rightarrow> agent_proposal \<Rightarrow> tool_call \<Rightarrow> 'p \<Rightarrow> tool_execution_result res \<Rightarrow> 'p \<Rightarrow> bool" where
  "call_spec x p call s res s' \<longleftrightarrow>
     gate x p call s s' \<and>
     (case res of
        Inl e \<Rightarrow> call_raises x p call s e
      | Inr r \<Rightarrow>
          evidence_ok r \<and>
          (committed r \<longrightarrow>
             po_decision (execute_policy x p call) = ALLOW \<and>
             (\<exists>d args v. map_of (xe_definitions x) (tc_name call) = Some d \<and> td_commits_side_effect d \<and>
                args_model_validate (td_arguments_model d) (tc_arguments call) = Inr args \<and>
                run_handler x (td_handler d) args p s = (Inr v, s'))))"

lemma call_spec_stop:
  assumes "json_value data" "disp \<noteq> Some DispContinue"
  shows "call_spec x p call s
    (bind_res (stop_result data response disp) (\<lambda>r. with_evidence r k known policy did_run False)) s"
  using stop_with_evidence [OF assms, of response k known policy did_run]
  by (auto simp: call_spec_def gate.refused)

lemma call_spec_handler:
  assumes "po_decision (execute_policy x p call) = ALLOW"
    and d: "map_of (xe_definitions x) (tc_name call) = Some d"
    and a: "args_model_validate (td_arguments_model d) (tc_arguments call) = Inr args"
    and h: "handler_step x d args p policy st = (res, st')"
  shows "call_spec x p call (xs_port st) res (xs_port st')"
proof -
  obtain r st'' where r: "handler_step x d args p policy st = (Inr r, st'')" "evidence_ok r"
    "committed r \<longrightarrow> td_commits_side_effect d \<and> \<not> xe_cancelled x (xs_port st) \<and>
        (\<exists>v. fst (run_handler x (td_handler d) args p (xs_port st)) = Inr v)"
    "xs_port st'' = (if xe_cancelled x (xs_port st) then xs_port st
       else snd (run_handler x (td_handler d) args p (xs_port st)))"
    using handler_step_cases by blast
  have "gate x p call (xs_port st) (xs_port st'')"
    using r(4) gate.handled [OF assms(1) d a] gate.refused by (simp split: if_splits)
  moreover have "run_handler x (td_handler d) args p (xs_port st) = (Inr v, xs_port st'')"
    if "committed r" "fst (run_handler x (td_handler d) args p (xs_port st)) = Inr v" for v
    using that r(3,4) by (metis prod.collapse)
  ultimately show ?thesis
    using r(1-3) h d a assms(1) by (auto simp: call_spec_def)
qed

lemma call_spec_request:
  assumes na: "po_decision (execute_policy x p call) = NEEDS_APPROVAL"
    and d: "map_of (xe_definitions x) (tc_name call) = Some d"
    and a: "args_model_validate (td_arguments_model d) (tc_arguments call) = Inr args"
    and h: "request_step x d args p (execute_policy x p call) st = (res, st')"
  shows "call_spec x p call (xs_port st) res (xs_port st')"
proof -
  note c = request_step_cases [OF h]
  have "gate x p call (xs_port st) (xs_port st')"
    using c gate.refused gate.requested [OF na d a] by metis
  moreover have "call_raises x p call (xs_port st) e" if "res = Inl e" for e
    using c that call_raises.cancelled call_raises.bad_action [OF d] call_raises.request_failed [OF na]
    by auto
  ultimately show ?thesis
    using c by (auto simp: call_spec_def split: sum.splits)
qed

lemma invalid_arguments_result:
  "\<exists>r. fst (invalid_arguments_step d policy s) = Inr r \<and> evidence_ok r \<and> \<not> committed r \<and>
     xs_port (snd (invalid_arguments_step d policy s)) = xs_port s"
proof -
  obtain r r' where "stop_result (outcome_data ''tool_arguments_invalid'') ''tool_arguments_invalid'' None = Inr r"
    "with_evidence r (td_name d) True policy True False = Inr r'" "evidence_ok r'" "\<not> committed r'"
    using stop_with_evidence [OF json_outcome_data, of None "''tool_arguments_invalid''"
        "''tool_arguments_invalid''" "td_name d" True policy True] by auto
  then show ?thesis by (simp add: invalid_arguments_step_def)
qed

lemma dispatch_step_spec:
  assumes d: "map_of (xe_definitions x) (tc_name call) = Some d"
    and dec: "po_decision (execute_policy x p call) \<noteq> DENY"
    and ex: "(res, st') = dispatch_step x d p call (execute_policy x p call) st"
  shows "call_spec x p call (xs_port st) res (xs_port st')"
proof (cases "args_model_validate (td_arguments_model d) (tc_arguments call)")
  case (Inl e)
  show ?thesis
  proof (cases "is_validation_error e")
    case True
    then have "(res, st') = invalid_arguments_step d (execute_policy x p call) st"
      using ex Inl by (simp add: dispatch_step_def)
    then show ?thesis
      using invalid_arguments_result [of d "execute_policy x p call" st]
      by (cases "invalid_arguments_step d (execute_policy x p call) st")
         (auto simp: call_spec_def gate.refused)
  next
    case False
    then have "res = Inl e" "st' = st"
      using Inl ex by (simp_all add: dispatch_step_def)
    moreover have "\<forall>m. e \<noteq> ValueError m" using False by auto
    ultimately show ?thesis
      using call_raises.bad_arguments [OF d Inl _ dec] by (simp add: call_spec_def gate.refused)
  qed
next
  case (Inr args)
  show ?thesis
  proof (cases "po_decision (execute_policy x p call)")
    case ALLOW
    then show ?thesis using call_spec_handler [OF _ d Inr] ex Inr by (simp add: dispatch_step_def)
  next
    case NEEDS_APPROVAL
    then show ?thesis using call_spec_request [OF _ d Inr] ex Inr by (simp add: dispatch_step_def)
  qed (use dec in simp)
qed

lemma executor_execute_spec:
  assumes "executor_execute x p call st = (res, st')"
  shows "call_spec x p call (xs_port st) res (xs_port st')"
proof -
  let ?d = "map_of (xe_definitions x) (tc_name call)"
  let ?pol = "execute_policy x p call"
  let ?st = "emit_policy (tc_name call) (?d \<noteq> None) ?pol st"
  consider (cancelled) "xe_cancelled x (xs_port st)" "res = Inl cancelled_error" "st' = st"
    | (stop) "(res, st') = (bind_res (stop_result (PDict (as_tool_data ?pol)) (po_reason ?pol) None)
           (\<lambda>r. with_evidence r (tc_name call) (?d \<noteq> None) ?pol False False), ?st)"
    | (missing) m where "po_decision ?pol = ALLOW" "?d = None" "res = Inl (AssertionError m)" "st' = ?st"
    | (def) d where "?d = Some d" "po_decision ?pol \<noteq> DENY" "\<not> xe_cancelled x (xs_port st)"
    using assms
    by (auto simp: executor_execute_def Let_def split: if_splits option.splits)
  then show ?thesis
  proof cases
    case cancelled
    then show ?thesis by (auto simp: call_spec_def gate.refused call_raises.cancelled)
  next
    case stop
    then have "res = bind_res (stop_result (PDict (as_tool_data ?pol)) (po_reason ?pol) None)
        (\<lambda>r. with_evidence r (tc_name call) (?d \<noteq> None) ?pol False False)" "xs_port st' = xs_port st"
      by simp_all
    then show ?thesis
      by (simp only: call_spec_stop [OF json_as_tool_data] option.distinct not_False_eq_True)
  next
    case missing
    then show ?thesis by (auto simp: call_spec_def gate.refused call_raises.unknown_tool)
  next
    case (def d)
    then have "(res, st') = dispatch_step x d p call ?pol ?st"
      using assms by (cases "po_decision ?pol") (simp_all add: executor_execute_def Let_def)
    then show ?thesis
      using dispatch_step_spec [OF def(1,2), of res st' ?st] by simp
  qed
qed

lemma executor_terminal_spec:
  assumes "executor_evaluate_terminal x p st = (res, st')"
  shows "xs_port st' = xs_port st \<and> (case res of Inl e \<Rightarrow> e = cancelled_error | Inr r \<Rightarrow> evidence_ok r)"
proof (cases "xe_cancelled x (xs_port st)")
  case True
  then show ?thesis using assms by (auto simp: executor_evaluate_terminal_def)
next
  case False
  let ?data = "\<lambda>pol. PDict (as_tool_data pol @ [(''business_outcome'', PStr ''routing_only'')])"
  obtain pol resp where "res = bind_res (stop_result (?data pol) resp None)
      (\<lambda>r. with_evidence r [] False pol False False)" "xs_port st' = xs_port st"
    using False assms by (auto simp: executor_evaluate_terminal_def Let_def)
  moreover have "json_value (?data pol)" for pol by (simp add: as_tool_data_def)
  ultimately show ?thesis
    using stop_with_evidence [of "?data pol" None resp "[]" False pol False] by auto
qed

section \<open>Well-formed executors\<close>

definition executor_wf :: "'p executor \<Rightarrow> bool" where
  "executor_wf x \<longleftrightarrow>
     (\<forall>k d. map_of (xe_definitions x) k = Some d \<longrightarrow>
        td_name d = k \<and> safe_identifier k \<and> 1 \<le> td_pending_action_version d) \<and>
     set (registered_actions x) \<subseteq> set (dict_keys (xe_definitions x))"

lemma builtin_capability_facts:
  "list_all (\<lambda>(k, c). ac_key c = k \<and> safe_identifier k \<and> 1 \<le> ac_pending_action_version c) BUILTIN_ACTION_REGISTRY"
  by code_simp

lemma build_definitions_lookup:
  assumes "build_definitions r = Inr defs" "map_of defs k = Some d"
  shows "\<exists>c. registry_require r k = Inr c \<and> td_name d = ac_key c \<and>
     td_pending_action_version d = ac_pending_action_version c \<and>
     td_commits_side_effect d = ac_commits_side_effect c \<and> td_arguments_model d = ac_arguments_model c"
proof -
  have "map_res (build_definition r) handlers = Inr defs"
    using assms(1) by (auto simp: build_definitions_def split: if_splits)
  then obtain kh where "build_definition r kh = Inr (k, d)"
    using map_res_Inr_memD [OF _ map_of_SomeD [OF assms(2)]] by blast
  then show ?thesis
    by (cases "registry_require r (fst kh)") (auto simp: build_definition_def)
qed

definition builtin_definitions :: "(string, tool_definition) dict" where
  "builtin_definitions =
     (case build_definitions BUILTIN_ACTION_REGISTRY of Inr ds \<Rightarrow> ds | Inl _ \<Rightarrow> [])"

lemma build_builtin_ok: "case build_definitions BUILTIN_ACTION_REGISTRY of Inr ds \<Rightarrow> True | Inl _ \<Rightarrow> False"
  by code_simp

lemma build_builtin: "build_definitions BUILTIN_ACTION_REGISTRY = Inr builtin_definitions"
  using build_builtin_ok by (simp add: builtin_definitions_def split: sum.splits)

lemma builtin_definitions_keys: "dict_keys builtin_definitions = dict_keys BUILTIN_ACTION_REGISTRY"
  by code_simp

lemma builtin_definition_facts:
  assumes "map_of builtin_definitions k = Some d"
  shows "td_name d = k" "safe_identifier k" "1 \<le> td_pending_action_version d"
proof -
  obtain c where c: "registry_require BUILTIN_ACTION_REGISTRY k = Inr c" "td_name d = ac_key c"
    "td_pending_action_version d = ac_pending_action_version c"
    using build_definitions_lookup [OF build_builtin assms] by blast
  then have "(k, c) \<in> set BUILTIN_ACTION_REGISTRY"
    by (auto simp: registry_require_def dest: map_of_SomeD split: option.splits)
  then have "ac_key c = k \<and> safe_identifier k \<and> 1 \<le> ac_pending_action_version c"
    using builtin_capability_facts by (auto simp: list_all_iff)
  with c show "td_name d = k" "safe_identifier k" "1 \<le> td_pending_action_version d" by simp_all
qed

text \<open>
  The executor the runtime builds, with the built-in registry and a profile compiled against it,
  is well formed: every action the policy may grant has a tool.
\<close>

lemma executor_wf_builtin:
  assumes "xe_definitions x = builtin_definitions"
    and "rt_compiled_profile (xe_runtime x) = Some cp"
    and "compile_tenant_profile BUILTIN_ACTION_REGISTRY dreg c fp = Inr cp"
  shows "executor_wf x"
proof -
  have "set (cp_registered_actions cp) \<subseteq> set (dict_keys BUILTIN_ACTION_REGISTRY)"
    by (rule compile_registered_subset [OF assms(3)])
  then show ?thesis
    using assms(1,2) builtin_definition_facts builtin_definitions_keys
    by (auto simp: executor_wf_def registered_actions_def)
qed

lemma granted_is_registered:
  assumes "po_decision (execute_policy x p call) \<noteq> DENY"
  shows "tc_name call \<in> set (registered_actions x)"
    and "\<exists>rule. map_of (tn_action_policy (rt_tenant_config (xe_runtime x))) (tc_name call) = Some rule \<and>
           ar_execution rule = EXECUTABLE \<and> ar_allowed rule"
  using policy_evaluate_granted [OF assms [unfolded execute_policy_def]] by simp_all

lemma pending_action_of_Inr:
  assumes "executor_wf x" "map_of (xe_definitions x) k = Some d"
  shows "\<exists>a. pending_action_of x d args p = Inr a"
  using assms by (auto simp: executor_wf_def pending_action_of_def mk_pending_action_def)

lemma call_raises_wf:
  assumes "executor_wf x" "call_raises x p call s e"
  shows "e = cancelled_error \<or> (\<exists>m. e = TypeError m) \<or>
     (po_decision (execute_policy x p call) = NEEDS_APPROVAL \<and>
      (\<exists>action port. tp_request_approval (xe_port x) (rt_tenant_id (xe_runtime x)) action
         (po_reason (execute_policy x p call)) s = (Inl e, port)))"
  using assms(2)
proof cases
  case (unknown_tool m)
  then show ?thesis
    using granted_is_registered(1) [of x p call] assms(1) by (auto simp: executor_wf_def)
next
  case (bad_arguments d)
  then show ?thesis by (cases e) (auto dest!: args_model_validate_errors)
next
  case (bad_action d args)
  then show ?thesis using pending_action_of_Inr [OF assms(1) bad_action(1), of args p] by simp
qed auto

section \<open>Properties of one call\<close>

text \<open>
  C21. Nothing reaches the port behind the policy's back. If a call changes the state of the
  port, then the profile declares the action executable and allowed, the action is registered,
  its tool is known and its arguments are valid; and the change is that of the tool's handler
  under an allowing policy, or that of one approval request under a policy that asks for
  approval. A result that reports a committed side effect occurs only under an allowing policy
  for a tool that commits.
\<close>

theorem execute_effects:
  assumes "executor_execute x p call st = (res, st')"
  shows "(xs_port st' \<noteq> xs_port st \<longrightarrow>
     (\<exists>rule d args.
        map_of (tn_action_policy (rt_tenant_config (xe_runtime x))) (tc_name call) = Some rule \<and>
        ar_execution rule = EXECUTABLE \<and> ar_allowed rule \<and>
        tc_name call \<in> set (registered_actions x) \<and>
        map_of (xe_definitions x) (tc_name call) = Some d \<and>
        args_model_validate (td_arguments_model d) (tc_arguments call) = Inr args \<and>
        (po_decision (execute_policy x p call) = ALLOW \<and>
           xs_port st' = snd (run_handler x (td_handler d) args p (xs_port st)) \<or>
         po_decision (execute_policy x p call) = NEEDS_APPROVAL \<and>
           (\<exists>action. pending_action_of x d args p = Inr action \<and>
              xs_port st' = snd (tp_request_approval (xe_port x) (rt_tenant_id (xe_runtime x)) action
                (po_reason (execute_policy x p call)) (xs_port st)))))) \<and>
    (\<forall>r. res = Inr r \<and> committed r \<longrightarrow>
       po_decision (execute_policy x p call) = ALLOW \<and>
       (\<exists>d. map_of (xe_definitions x) (tc_name call) = Some d \<and> td_commits_side_effect d))"
proof -
  note spec = executor_execute_spec [OF assms, unfolded call_spec_def]
  have com: "\<forall>r. res = Inr r \<and> committed r \<longrightarrow>
       po_decision (execute_policy x p call) = ALLOW \<and>
       (\<exists>d. map_of (xe_definitions x) (tc_name call) = Some d \<and> td_commits_side_effect d)"
    using spec by auto
  from spec have "gate x p call (xs_port st) (xs_port st')" by blast
  then show ?thesis
  proof cases
    case refused
    then show ?thesis using com by blast
  next
    case (handled d args)
    then have "po_decision (execute_policy x p call) \<noteq> DENY" by simp
    from granted_is_registered [OF this] handled com show ?thesis by blast
  next
    case (requested d args action)
    then have "po_decision (execute_policy x p call) \<noteq> DENY" by simp
    from granted_is_registered [OF this] requested com show ?thesis by blast
  qed
qed

text \<open>
  What can leave a call of a well-formed executor as an exception: the cancellation, a type
  error of the argument models, and whatever a requested approval raised. In particular the
  assertion that every granted action has a tool never fails, and no failure of a tool handler
  escapes.
\<close>

theorem execute_errors:
  assumes "executor_wf x" and "executor_execute x p call st = (Inl e, st')"
  shows "e = cancelled_error \<or> (\<exists>m. e = TypeError m) \<or>
     (po_decision (execute_policy x p call) = NEEDS_APPROVAL \<and>
      (\<exists>action port. tp_request_approval (xe_port x) (rt_tenant_id (xe_runtime x)) action
         (po_reason (execute_policy x p call)) (xs_port st) = (Inl e, port)))"
  using executor_execute_spec [OF assms(2)] call_raises_wf [OF assms(1)]
  by (auto simp: call_spec_def)

text \<open>
  Every result the executor returns is well formed for the loop: its data is JSON, a
  continuing result carries no final response, and its evidence names the action exactly when
  the action is known. The evaluation of a terminal proposal never changes the port.
\<close>

theorem execute_results_well_formed:
  "(executor_execute x p call st = (Inr r, st') \<longrightarrow> evidence_ok r) \<and>
   (executor_evaluate_terminal x p st = (res, st') \<longrightarrow>
      xs_port st' = xs_port st \<and> (case res of Inl e \<Rightarrow> e = cancelled_error | Inr r \<Rightarrow> evidence_ok r))"
proof -
  have "evidence_ok r" if "executor_execute x p call st = (Inr r, st')"
    using executor_execute_spec [OF that] by (simp add: call_spec_def)
  then show ?thesis
    using executor_terminal_spec by blast
qed

text \<open>
  A UUID argument that is neither a string nor null leaves the executor as a \<open>TypeError\<close>, not as
  the \<open>tool_arguments_invalid\<close> outcome of every other malformed argument.
\<close>

lemma uuid_type_error_escapes:
  assumes "\<not> xe_cancelled x (xs_port st)" "map_of (xe_definitions x) (tc_name call) = Some d"
    "td_arguments_model d = UpdateCaseFieldsArgs" "map_of (tc_arguments call) ''case_id'' = Some (PInt i)"
    "po_decision (execute_policy x p call) \<noteq> DENY"
  shows "fst (executor_execute x p call st) = Inl (TypeError ''value must be a UUID'')"
  using assms
  by (cases "po_decision (execute_policy x p call)")
     (simp_all add: executor_execute_def Let_def dispatch_step_def)

section \<open>The contract towards the loop\<close>

text \<open>
  An invariant of the port that every operation the executor uses keeps, for the executor's own
  tenant, holds after a whole run of the agent.
\<close>

locale tenant_port =
  fixes x :: "'p executor" and P :: "'p \<Rightarrow> bool"
  assumes find_law: "P s \<Longrightarrow> P (snd (tp_find_customer (xe_port x) (rt_tenant_id (xe_runtime x)) e i s))"
    and create_law: "P s \<Longrightarrow> P (snd (tp_create_case (xe_port x) (rt_tenant_id (xe_runtime x)) src c fs s))"
    and update_law: "P s \<Longrightarrow> P (snd (tp_update_case_fields (xe_port x) (rt_tenant_id (xe_runtime x)) u fs s))"
    and exists_law: "P s \<Longrightarrow> P (snd (tp_case_exists (xe_port x) (rt_tenant_id (xe_runtime x)) u s))"
    and request_law: "P s \<Longrightarrow> P (snd (tp_request_approval (xe_port x) (rt_tenant_id (xe_runtime x)) a reason s))"
    and draft_law: "P s \<Longrightarrow> P (snd (tp_create_reply_draft (xe_port x) (rt_tenant_id (xe_runtime x)) j rcp sub bod s))"
    and flag_law: "P s \<Longrightarrow> P (snd (tp_flag_for_review (xe_port x) (rt_tenant_id (xe_runtime x)) j reason s))"
begin

lemma port_keeps:
  "tp_find_customer (xe_port x) (rt_tenant_id (xe_runtime x)) e i s = (r1, s') \<Longrightarrow> P s \<Longrightarrow> P s'"
  "tp_create_case (xe_port x) (rt_tenant_id (xe_runtime x)) src c fs s = (r2, s') \<Longrightarrow> P s \<Longrightarrow> P s'"
  "tp_update_case_fields (xe_port x) (rt_tenant_id (xe_runtime x)) u fs s = (r3, s') \<Longrightarrow> P s \<Longrightarrow> P s'"
  "tp_case_exists (xe_port x) (rt_tenant_id (xe_runtime x)) u s = (r4, s') \<Longrightarrow> P s \<Longrightarrow> P s'"
  "tp_create_reply_draft (xe_port x) (rt_tenant_id (xe_runtime x)) j rcp sub bod s = (r5, s') \<Longrightarrow> P s \<Longrightarrow> P s'"
  "tp_flag_for_review (xe_port x) (rt_tenant_id (xe_runtime x)) j reason s = (r6, s') \<Longrightarrow> P s \<Longrightarrow> P s'"
  using find_law [of s e i] create_law [of s src c fs] update_law [of s u fs] exists_law [of s u]
    draft_law [of s j rcp sub bod] flag_law [of s j reason] by simp_all

lemma draft_handler_law: "P s \<Longrightarrow> P (snd (run_handler x H_create_reply_draft (CreateReplyDraft c) p s))"
  by (cases c) (auto split: prod.splits sum.splits bool.splits dest: port_keeps(4,5))

lemma handler_law: "P s \<Longrightarrow> P (snd (run_handler x h args p s))"
proof (cases h)
  case H_find_customer
  then show "P s \<Longrightarrow> ?thesis" by (cases args) (auto split: prod.splits sum.splits dest: port_keeps(1))
next
  case H_create_case
  then show "P s \<Longrightarrow> ?thesis"
    by (cases args) (auto split: prod.splits sum.splits option.splits dest: port_keeps(2))
next
  case H_update_case_fields
  then show "P s \<Longrightarrow> ?thesis"
    by (cases args) (auto split: prod.splits sum.splits option.splits dest: port_keeps(3))
next
  case H_create_reply_draft
  then show "P s \<Longrightarrow> ?thesis"
    by (cases args) (auto simp del: run_handler.simps(4) simp: draft_handler_law)
next
  case H_flag_for_review
  then show "P s \<Longrightarrow> ?thesis" by (cases args) (auto split: prod.splits sum.splits dest: port_keeps(6))
qed

lemma gate_law: "gate x p call s s' \<Longrightarrow> P s \<Longrightarrow> P s'"
  by (auto elim!: gateE intro: handler_law request_law)

lemma execute_law: "P (xs_port st) \<Longrightarrow> executor_execute x p call st = (r, st') \<Longrightarrow> P (xs_port st')"
  using executor_execute_spec gate_law by (metis call_spec_def)

end

sublocale tenant_port \<subseteq> gated: tool_contract "gated_tools x" "\<lambda>s. P (xs_port s)"
proof
  show "P (xs_port s')" if "P (xs_port s)" "te_execute (gated_tools x) p c s = (r, s')" for s p c r s'
    using execute_law that by (simp add: gated_tools_def)
  show "P (xs_port s')"
    if "te_evaluate_terminal (gated_tools x) = Some f" "P (xs_port s)" "f p s = (r, s')" for f s p r s'
  proof -
    from that have "executor_evaluate_terminal x p s = (r, s')" by (simp add: gated_tools_def)
    from executor_terminal_spec [OF this] that(2) show ?thesis by simp
  qed
qed

end
