(* ===== verification/Postgres_Port.thy ===== *)
theory Postgres_Port
  imports Approval_Lifecycle Tool_Gate
begin

text \<open>
  The job-bound tool port on the database: \<open>PostgresTenantToolPort\<close> and \<open>SyncTenantToolPort\<close> of
  \<open>app/tools/postgres.py\<close>, called through the gateway of \<open>app/runtime/gateway.py\<close>. What other
  threads decide during a call, that is whether the cancellation event is seen set at each check, how
  the call on the owner loop ends and what the clock shows, is read from a script that is part of
  the state. A gateway call that times out may have committed or not.
\<close>

section \<open>Calls\<close>

datatype gateway_outcome = Completed | TimedOutBefore | TimedOutAfter

record pg_call =
  pc_cancelled :: "nat \<Rightarrow> bool"
  pc_gateway :: gateway_outcome
  pc_now :: datetime

record pg_env =
  pe_job_id :: uuid
  pe_attempt_count :: "nat option"
  pe_approval_timeout :: int

record pg_state =
  pg_db :: db
  pg_calls :: nat
  pg_script :: "nat \<Rightarrow> pg_call"

definition cancelled_exn :: exn where
  "cancelled_exn = RuntimeError ''worker execution cancelled''"

definition check_cancelled :: "pg_call \<Rightarrow> nat \<Rightarrow> unit tx" where
  "check_cancelled c n = (if pc_cancelled c n then raise_tx cancelled_exn else ret_tx ())"

text \<open>\<open>WorkerAsyncGateway.call\<close> on a coroutine that works on the database.\<close>

definition gateway_call :: "pg_call \<Rightarrow> 'a tx \<Rightarrow> 'a tx" where
  "gateway_call c m d =
     (case pc_gateway c of
        Completed \<Rightarrow> m d
      | TimedOutBefore \<Rightarrow> (Inl (TimeoutError ''gateway call timed out''), d)
      | TimedOutAfter \<Rightarrow> (Inl (TimeoutError ''gateway call timed out''), snd (m d)))"

text \<open>
  A method of the synchronous facade: check, call, check. The checks of the asynchronous method
  have the numbers from 1 on, the last check of the facade has number 0.
\<close>

definition sync_call :: "pg_call \<Rightarrow> 'a tx \<Rightarrow> 'a tx" where
  "sync_call c m =
     bind_tx (check_cancelled c 1) (\<lambda>_.
     bind_tx (gateway_call c (bind_tx (check_cancelled c 2) (\<lambda>_. m))) (\<lambda>x.
     bind_tx (check_cancelled c 0) (\<lambda>_. ret_tx x)))"

definition on_db :: "(pg_call \<Rightarrow> 'a tx) \<Rightarrow> pg_state \<Rightarrow> 'a res \<times> pg_state" where
  "on_db m s =
     (case m (pg_script s (pg_calls s)) (pg_db s) of
        (r, d) \<Rightarrow> (r, s\<lparr>pg_db := d, pg_calls := Suc (pg_calls s)\<rparr>))"

section \<open>Shared steps\<close>

definition mark_side_effect :: "pg_env \<Rightarrow> pg_call \<Rightarrow> uuid \<Rightarrow> unit tx" where
  "mark_side_effect env c t =
     bind_tx (check_cancelled c 4) (\<lambda>_.
     bind_tx (read_tx (\<lambda>d. scalar_one_or_none (\<lambda>j. job_id j = pe_job_id env \<and> job_tenant_id j = t \<and>
         (case pe_attempt_count env of None \<Rightarrow> True
          | Some n \<Rightarrow> job_status j = J_running \<and> job_attempt_count j = n)) (db_jobs d))) (\<lambda>row.
     case row of
       None \<Rightarrow> raise_tx (RuntimeError ''agent job is unavailable'')
     | Some j \<Rightarrow>
         bind_tx (check_cancelled c 5) (\<lambda>_.
         write_tx (update_job (job_id j) (\<lambda>r. r\<lparr>job_side_effect_committed_at := Some (pc_now c)\<rparr>)))))"

definition lock_idempotency :: "pg_env \<Rightarrow> uuid \<Rightarrow> idempotency_row tx" where
  "lock_idempotency env t =
     bind_tx (read_tx (\<lambda>d. scalar_one_or_none
         (\<lambda>r. idr_tenant_id r = t \<and> idr_job_id r = Some (pe_job_id env)) (db_idempotency d))) (\<lambda>row.
     case row of
       None \<Rightarrow> raise_tx (RuntimeError ''job idempotency record is unavailable'')
     | Some r \<Rightarrow> ret_tx r)"

section \<open>Methods\<close>

definition pg_find_customer ::
  "pg_env \<Rightarrow> uuid \<Rightarrow> string option \<Rightarrow> string option \<Rightarrow> pg_call \<Rightarrow> customer_summary option tx" where
  "pg_find_customer env t email ext c =
     sync_call c
       (bind_tx (read_tx (\<lambda>d. Inr (find_customer_for_tenant t email ext d))) (\<lambda>row. case row of
          None \<Rightarrow> ret_tx None
        | Some r \<Rightarrow>
            bind_tx (check_cancelled c 3) (\<lambda>_.
            ret_tx (Some \<lparr>cs_id = uuid_str (cu_id r), cs_external_id = cu_external_id r, cs_name = cu_name r,
                          cs_email = cu_email r, cs_phone = cu_phone r\<rparr>))))"

definition pg_case_exists :: "pg_env \<Rightarrow> uuid \<Rightarrow> uuid \<Rightarrow> pg_call \<Rightarrow> bool tx" where
  "pg_case_exists env t case_id c =
     sync_call c
       (bind_tx (read_tx (get_case_for_tenant case_id t)) (\<lambda>row.
        bind_tx (check_cancelled c 3) (\<lambda>_. ret_tx (row \<noteq> None))))"

definition pg_request_approval ::
  "pg_env \<Rightarrow> uuid \<Rightarrow> pending_action \<Rightarrow> string \<Rightarrow> pg_call \<Rightarrow> approval_requested tx" where
  "pg_request_approval env t act reason c =
     sync_call c
       (create_for_running_job t (pe_job_id env)
          (case pe_attempt_count env of None \<Rightarrow> 0 | Some n \<Rightarrow> n) act reason (pe_approval_timeout env) (pc_now c))"

definition pg_create_case ::
  "pg_env \<Rightarrow> uuid \<Rightarrow> trusted_source \<Rightarrow> uuid option \<Rightarrow> py_dict \<Rightarrow> pg_call \<Rightarrow> created_case tx" where
  "pg_create_case env t src customer fs c =
     sync_call c
       (transaction
         (bind_tx (lock_idempotency env t) (\<lambda>r. case idr_case_id r of
            Some k \<Rightarrow>
              bind_tx (read_tx (get_case_for_tenant k t)) (\<lambda>existing. case existing of
                None \<Rightarrow> raise_tx (RuntimeError ''job case is unavailable'')
              | Some row \<Rightarrow>
                  ret_tx \<lparr>cc_id = uuid_str (ic_id row), cc_status = ic_status row,
                          cc_accepted_fields = sort (dict_keys (ic_extracted_fields row))\<rparr>)
          | None \<Rightarrow>
              bind_tx (require_customer t customer CustomerNotFoundError) (\<lambda>_.
              bind_tx (create_agent_case t src customer fs) (\<lambda>row.
              bind_tx (append_event t (ic_id row) ''created'' []) (\<lambda>_.
              bind_tx (write_tx (set_idempotency_case t (pe_job_id env) (ic_id row))) (\<lambda>_.
              bind_tx (check_cancelled c 3) (\<lambda>_.
              bind_tx (mark_side_effect env c t) (\<lambda>_.
              ret_tx \<lparr>cc_id = uuid_str (ic_id row), cc_status = ic_status row,
                      cc_accepted_fields = sort (dict_keys fs)\<rparr>)))))))))"

definition pg_create_artifact ::
  "pg_env \<Rightarrow> uuid \<Rightarrow> uuid option \<Rightarrow> reference_kind \<Rightarrow> py_dict \<Rightarrow> pg_call \<Rightarrow> result_reference tx" where
  "pg_create_artifact env t job kind payload c =
     sync_call c
       (if job \<noteq> None \<and> job \<noteq> Some (pe_job_id env)
        then raise_tx (RuntimeError ''artifact job is unavailable'')
        else transaction
          (bind_tx (create_for_job t (pe_job_id env) kind payload) (\<lambda>ref.
           bind_tx (check_cancelled c 3) (\<lambda>_.
           bind_tx (mark_side_effect env c t) (\<lambda>_. ret_tx ref)))))"

definition pg_create_reply_draft ::
  "pg_env \<Rightarrow> uuid \<Rightarrow> uuid option \<Rightarrow> string option \<Rightarrow> string \<Rightarrow> string \<Rightarrow> pg_call \<Rightarrow> result_reference tx" where
  "pg_create_reply_draft env t job recipient subject body =
     pg_create_artifact env t job RefReplyDraft
       [(''recipient'', opt_str recipient), (''subject'', PStr subject), (''body'', PStr body)]"

definition pg_flag_for_review :: "pg_env \<Rightarrow> uuid \<Rightarrow> uuid option \<Rightarrow> string \<Rightarrow> pg_call \<Rightarrow> result_reference tx" where
  "pg_flag_for_review env t job reason =
     pg_create_artifact env t job RefReviewFlag [(''reason'', PStr reason)]"

definition pg_update_case_fields ::
  "pg_env \<Rightarrow> uuid \<Rightarrow> uuid \<Rightarrow> py_dict \<Rightarrow> pg_call \<Rightarrow> updated_case option tx" where
  "pg_update_case_fields env t case_id fs c =
     sync_call c
       (transaction
         (bind_tx (read_tx (get_case_for_tenant case_id t)) (\<lambda>row. case row of
            None \<Rightarrow> ret_tx None
          | Some k \<Rightarrow>
              bind_tx (assign_case_fields k fs) (\<lambda>_.
              bind_tx (check_cancelled c 3) (\<lambda>_.
              bind_tx (fields_updated_event t k fs) (\<lambda>_.
              bind_tx (mark_side_effect env c t) (\<lambda>_.
              ret_tx (Some \<lparr>uc_id = uuid_str (ic_id k), uc_updated_fields = sort (dict_keys fs)\<rparr>))))))))"

text \<open>The port that the runtime factory builds for a claimed attempt of a job.\<close>

definition claimed_env :: "uuid \<Rightarrow> nat \<Rightarrow> int \<Rightarrow> pg_env" where
  "claimed_env job attempt timeout =
     \<lparr>pe_job_id = job, pe_attempt_count = Some attempt, pe_approval_timeout = timeout\<rparr>"

definition postgres_port :: "pg_env \<Rightarrow> pg_state tool_port" where
  "postgres_port env =
     \<lparr>tp_find_customer = (\<lambda>t email ext. on_db (pg_find_customer env t email ext)),
      tp_create_case = (\<lambda>t src customer fs. on_db (pg_create_case env t src customer fs)),
      tp_update_case_fields = (\<lambda>t i fs. on_db (pg_update_case_fields env t i fs)),
      tp_case_exists = (\<lambda>t i. on_db (pg_case_exists env t i)),
      tp_request_approval = (\<lambda>t act reason. on_db (pg_request_approval env t act reason)),
      tp_create_reply_draft = (\<lambda>t job rcp sub bod. on_db (pg_create_reply_draft env t job rcp sub bod)),
      tp_flag_for_review = (\<lambda>t job reason. on_db (pg_flag_for_review env t job reason))\<rparr>"

definition postgres_executor :: "pg_env \<Rightarrow> trusted_runtime \<Rightarrow> value_env \<Rightarrow> pg_state executor" where
  "postgres_executor env rt ve =
     \<lparr>xe_runtime = rt, xe_port = postgres_port env, xe_values = ve,
      xe_cancelled = (\<lambda>s. pc_cancelled (pg_script s (pg_calls s)) 1),
      xe_definitions = builtin_definitions\<rparr>"

end
