(* ===== verification/Worker.thy ===== *)
theory Worker
  imports Runtime
begin

text \<open>
  One cycle of the worker: \<open>AgentWorker.serve_once\<close> of \<open>app/workers/agent_worker.py\<close> and what it calls. The
  environment says what the worker cannot know: which rows others have locked, what the other
  processes did to the database while the agent ran (the worker's own heartbeat among them) and before
  each write, whether a transaction fails with an outage, how the supervised run ends, and what the clocks and
  the jitter give. What others do between the calls of a running agent is a matter of the step relation of
  the whole system. Events are kept without durations and correlation identifiers.
\<close>

section \<open>Environment and events\<close>

datatype persistence_operation =
    OP_decide_approval | OP_recover_lease | OP_claim_job | OP_read_marker | OP_mark_succeeded | OP_mark_failed
  | OP_mark_failed_uncertain | OP_record_awaiting_approval | OP_schedule_retry | OP_renew_lease

datatype worker_event =
    ApprovalExpiredEvent expired_approval
  | LeaseRecovered lease_recovery
  | PersistenceFailed persistence_operation
  | JobClaimed uuid nat
  | JobRunStarted uuid nat
  | RetryScheduled uuid "worker_error_code option"
  | JobFinished uuid outcome_code "worker_error_code option" "nat option" "stop_reason option" "bool option"

text \<open>
  How the race between the run, the heartbeat and the deadline in \<open>_run_claimed_with_lease\<close> ends: the run
  finishes and the heartbeat says whether the lease was still owned, the heartbeat reports the loss
  of the lease first, or the deadline passes first.
\<close>

datatype supervision = RunFinished bool | HeartbeatLost | DeadlinePassed

record worker_env =
  we_runtime :: runtime_env
  we_now :: datetime
  we_write_now :: datetime
  we_lease :: int
  we_max_retries :: int
  we_jitter :: "nat \<Rightarrow> int"
  we_locked :: "persistence_operation \<Rightarrow> uuid \<Rightarrow> bool"
  we_excluded :: "uuid list"
  we_script :: "nat \<Rightarrow> pg_call"
  we_supervision :: supervision
  we_others :: "persistence_operation \<Rightarrow> db \<Rightarrow> db"
  we_fault :: "persistence_operation \<Rightarrow> exn option"

type_synonym 'a worker = "db \<Rightarrow> 'a res \<times> worker_event list \<times> db"

text \<open>A transaction of the worker, after whatever the others did; it may fail with an outage.\<close>

definition guarded :: "worker_env \<Rightarrow> persistence_operation \<Rightarrow> 'a tx \<Rightarrow> 'a tx" where
  "guarded env p m d =
     (let e = we_others env p d
      in case we_fault env p of Some x \<Rightarrow> (Inl x, e) | None \<Rightarrow> m e)"

fun is_lease_lost :: "exn \<Rightarrow> bool" where
  "is_lease_lost (JobLeaseLostError _) = True"
| "is_lease_lost _ = False"

text \<open>The shape of the transactions before the claim: any error is reported and raised.\<close>

definition reported_any :: "worker_env \<Rightarrow> persistence_operation \<Rightarrow> 'a tx \<Rightarrow> 'a worker" where
  "reported_any env p m d =
     (case guarded env p m d of
        (Inr x, d') \<Rightarrow> (Inr x, [], d')
      | (Inl e, d') \<Rightarrow> (Inl e, [PersistenceFailed p], d'))"

text \<open>The common shape of the writes: a lost lease passes, anything else is reported and passes.\<close>

definition reported :: "worker_env \<Rightarrow> persistence_operation \<Rightarrow> 'a tx \<Rightarrow> 'a worker" where
  "reported env p m d =
     (case guarded env p m d of
        (Inr x, d') \<Rightarrow> (Inr x, [], d')
      | (Inl e, d') \<Rightarrow> (Inl e, if is_lease_lost e then [] else [PersistenceFailed p], d'))"

definition bind_w :: "'a worker \<Rightarrow> ('a \<Rightarrow> 'b worker) \<Rightarrow> 'b worker" where
  "bind_w m f d =
     (case m d of
        (Inl e, es, d') \<Rightarrow> (Inl e, es, d')
      | (Inr x, es, d') \<Rightarrow> (case f x d' of (r, es', d'') \<Rightarrow> (r, es @ es', d'')))"

definition ret_w :: "'a \<Rightarrow> 'a worker" where
  "ret_w x d = (Inr x, [], d)"

definition emit_w :: "worker_event list \<Rightarrow> unit worker" where
  "emit_w es d = (Inr (), es, d)"

section \<open>Pure parts\<close>

definition RETRY_DELAYS :: "nat list" where
  "RETRY_DELAYS = [500000, 1000000, 2000000, 4000000]"

text \<open>\<open>_retry_delay\<close>, in microseconds, the resolution of the clock; the jitter comes on top.\<close>

definition retry_delay :: "int \<Rightarrow> nat" where
  "retry_delay attempt =
     RETRY_DELAYS ! nat (max 0 (min (attempt - 1) (int (length RETRY_DELAYS) - 1)))"

definition approval_was_requested :: "agent_run_result \<Rightarrow> bool" where
  "approval_was_requested r \<longleftrightarrow>
     rr_final_response r = Some ''approval_requested'' \<and>
     list_ex (\<lambda>x. pe_action_known x \<and> pe_policy_decision x = ''needs_approval'') (rr_execution_path r)"

definition path_entry_dump :: "execution_path_entry \<Rightarrow> py_dict" where
  "path_entry_dump x =
     [(''step'', PInt (int (pe_step x))), (''action_key'', opt_str (pe_action_key x)),
      (''action_known'', PBool (pe_action_known x)), (''policy_decision'', PStr (pe_policy_decision x)),
      (''routing_status'', PStr (pe_routing_status x)), (''policy_reason'', PStr (pe_policy_reason x)),
      (''missing_required_fields'', str_list (pe_missing_required_fields x)),
      (''tool_outcome'', opt_str (pe_tool_outcome x)),
      (''side_effect_committed'', PBool (pe_side_effect_committed x))]"

text \<open>The entry that gives the summary its routing: the last one with an action, or the last one.\<close>

definition summary_entry :: "execution_path_entry list \<Rightarrow> execution_path_entry option" where
  "summary_entry xs =
     (case next_item (\<lambda>x. pe_action_key x \<noteq> None) (rev xs) of
        Some x \<Rightarrow> Some x
      | None \<Rightarrow> (case rev xs of [] \<Rightarrow> None | x # _ \<Rightarrow> Some x))"

definition result_summary :: "agent_run_result \<Rightarrow> py_dict" where
  "result_summary r =
     [(''status'', PStr (run_status_value (rr_status r))), (''reason'', PStr (stop_reason_value (rr_reason r))),
      (''steps'', PInt (int (rr_steps r))),
      (''execution_path'', PList (map (\<lambda>x. PDict (path_entry_dump x)) (rr_execution_path r)))] @
     (case summary_entry (rr_execution_path r) of
        None \<Rightarrow> []
      | Some t \<Rightarrow>
          [(''routing_status'', PStr (pe_routing_status t)), (''routing_reason'', PStr (pe_policy_reason t)),
           (''missing_required_fields'', str_list (pe_missing_required_fields t)),
           (''business_outcome'',
              PStr (if pe_tool_outcome t \<noteq> None then ''tool_result''
                    else if approval_was_requested r then ''approval_requested'' else ''routing_only''))])"

definition preflight_summary :: "terminal_preflight \<Rightarrow> py_dict" where
  "preflight_summary t =
     [(''status'', PStr ''completed''), (''reason'', PStr ''executor_stopped''), (''steps'', PInt 0),
      (''execution_path'', PList []), (''business_outcome'', PStr ''routing_only''),
      (''routing_status'', PStr (routing_status_value (tp_routing_status t))),
      (''routing_reason'', PStr (preflight_reason_value (tp_reason t))),
      (''missing_required_fields'', str_list (tp_missing_required_fields t))]"

section \<open>Running the agent\<close>

datatype job_outcome = AgentResult agent_run_result | PreflightStop terminal_preflight

definition provider_unavailable :: exn where
  "provider_unavailable = RetryableJobError ''provider_unavailable'' False"

text \<open>The exceptions of the loop as \<open>_run_claimed_job\<close> reclassifies them.\<close>

fun job_exception :: "exn \<Rightarrow> exn" where
  "job_exception HttpTransportError = provider_unavailable"
| "job_exception (HttpStatusError c) =
     (if c = 408 \<or> c = 429 \<or> 500 \<le> c then provider_unavailable
      else ProviderRequestRejectedError ''provider rejected request'')"
| "job_exception (TimeoutError _) = RetryableJobError ''gateway_timeout'' False"
| "job_exception e = e"

definition run_claimed_job :: "worker_env \<Rightarrow> claimed_job \<Rightarrow> job_outcome tx" where
  "run_claimed_job env job d =
     (case fst (factory_build (we_runtime env) job) of
        Inl e \<Rightarrow> (Inl e, d)
      | Inr (Stopped t) \<Rightarrow> (Inr (PreflightStop t), d)
      | Inr (Ready rd) \<Rightarrow>
          (case agent_run (re_llm (we_runtime env)) (gated_tools (rd_executor rd)) MAX_STEPS (rd_messages rd)
                  \<lparr>xs_port = \<lparr>pg_db = d, pg_calls = 0, pg_script = we_script env\<rparr>, xs_events = []\<rparr> of
             (Inl e, fin) \<Rightarrow> (Inl (job_exception e), pg_db (xs_port (ls_tools fin)))
           | (Inr r, fin) \<Rightarrow> (Inr (AgentResult r), pg_db (xs_port (ls_tools fin)))))"

definition run_claimed_with_lease :: "worker_env \<Rightarrow> claimed_job \<Rightarrow> job_outcome tx" where
  "run_claimed_with_lease env job d =
     (case run_claimed_job env job d of
        (r, d') \<Rightarrow>
          (case we_supervision env of
             RunFinished True \<Rightarrow> (r, d')
           | RunFinished False \<Rightarrow> (Inl (JobLeaseLostError ''job lease was lost during execution''), d')
           | HeartbeatLost \<Rightarrow> (Inl (JobLeaseLostError ''job lease was lost during execution''), d')
           | DeadlinePassed \<Rightarrow> (Inl (RetryableJobError ''worker_timeout'' False), d')))"

section \<open>Persisting the end of a run\<close>

definition has_side_effect :: "worker_env \<Rightarrow> claimed_job \<Rightarrow> bool worker" where
  "has_side_effect env job d =
     (if cj_side_effect_committed_at job \<noteq> None then (Inr True, [], d)
      else case guarded env OP_read_marker
                  (get_side_effect_marker (cj_id job) (cj_tenant_id job) (cj_attempt_count job)) d of
             (Inl e, d') \<Rightarrow> (Inl e, [], d')
           | (Inr m, d') \<Rightarrow> (Inr (m \<noteq> None), [], d'))"

definition write_failed :: "worker_env \<Rightarrow> claimed_job \<Rightarrow> string \<Rightarrow> unit worker" where
  "write_failed env job err =
     reported env OP_mark_failed
       (mark_failed (cj_id job) err (we_write_now env) (cj_tenant_id job) (cj_attempt_count job))"

definition write_failed_uncertain :: "worker_env \<Rightarrow> claimed_job \<Rightarrow> string \<Rightarrow> unit worker" where
  "write_failed_uncertain env job err =
     reported env OP_mark_failed_uncertain
       (mark_failed_uncertain (cj_id job) err (we_write_now env) (cj_tenant_id job) (cj_attempt_count job))"

definition write_retry :: "worker_env \<Rightarrow> claimed_job \<Rightarrow> string \<Rightarrow> unit worker" where
  "write_retry env job err =
     reported env OP_schedule_retry
       (schedule_retry (cj_id job) err
          (we_write_now env + int (retry_delay (int (cj_attempt_count job))) + we_jitter env (cj_attempt_count job))
          (cj_tenant_id job) (cj_attempt_count job))"

definition persist_preflight_result :: "worker_env \<Rightarrow> claimed_job \<Rightarrow> terminal_preflight \<Rightarrow> outcome_code worker" where
  "persist_preflight_result env job t =
     (if tp_reason t = PF_document_unreadable
      then bind_w (reported env OP_mark_succeeded
             (mark_succeeded (cj_id job) (preflight_summary t) (we_write_now env) (cj_tenant_id job)
                (cj_attempt_count job))) (\<lambda>_. ret_w OC_SUCCEEDED)
      else bind_w (write_failed env job (preflight_reason_value (tp_reason t))) (\<lambda>_. ret_w OC_FAILED))"

definition persist_completed :: "worker_env \<Rightarrow> claimed_job \<Rightarrow> agent_run_result \<Rightarrow> outcome_code worker" where
  "persist_completed env job r =
     (if approval_was_requested r
      then bind_w (reported env OP_record_awaiting_approval
             (record_awaiting_approval_result (cj_id job) (result_summary r) (cj_tenant_id job)
                (cj_attempt_count job))) (\<lambda>_. ret_w OC_NEEDS_APPROVAL)
      else bind_w (reported env OP_mark_succeeded
             (mark_succeeded (cj_id job) (result_summary r) (we_write_now env) (cj_tenant_id job)
                (cj_attempt_count job))) (\<lambda>_. ret_w OC_SUCCEEDED))"

definition persist_result :: "worker_env \<Rightarrow> claimed_job \<Rightarrow> agent_run_result \<Rightarrow> outcome_code worker" where
  "persist_result env job r =
     (if rr_status r \<noteq> RunCompleted
      then bind_w (has_side_effect env job) (\<lambda>uncertain.
             if uncertain
             then bind_w (write_failed_uncertain env job ''agent_failed_after_side_effect'')
                    (\<lambda>_. ret_w OC_FAILED_UNCERTAIN)
             else bind_w (write_failed env job
                    (if rr_reason r = TOOL_EXECUTION_FAILED then ''tool_execution_failed'' else ''agent_failed''))
                    (\<lambda>_. ret_w OC_FAILED))
      else if rr_execution_path r = []
      then bind_w (write_failed env job ''agent_failed'') (\<lambda>_. ret_w OC_FAILED)
      else persist_completed env job r)"

section \<open>The ends of a run\<close>

definition finish_retryable :: "worker_env \<Rightarrow> claimed_job \<Rightarrow> string \<Rightarrow> bool \<Rightarrow> unit worker" where
  "finish_retryable env job code flag =
     bind_w (if flag then ret_w True else has_side_effect env job) (\<lambda>side_effect.
     if side_effect
     then bind_w (write_failed_uncertain env job ''side_effect_committed'') (\<lambda>_.
            emit_w [JobFinished (cj_id job) OC_FAILED_UNCERTAIN (Some WE_SIDE_EFFECT_COMMITTED) None None (Some True)])
     else if we_max_retries env < int (cj_attempt_count job)
     then bind_w (write_failed env job ''retry_exhausted'') (\<lambda>_.
            emit_w [JobFinished (cj_id job) OC_FAILED (Some WE_RETRY_EXHAUSTED) None None None])
     else bind_w (write_retry env job code) (\<lambda>_.
            emit_w [RetryScheduled (cj_id job) (worker_error_code_of code),
                    JobFinished (cj_id job) OC_RETRY_SCHEDULED (worker_error_code_of code) None None None]))"

definition finish_error :: "worker_env \<Rightarrow> claimed_job \<Rightarrow> worker_error_code \<Rightarrow> unit worker" where
  "finish_error env job code =
     bind_w (has_side_effect env job) (\<lambda>side_effect.
     if side_effect
     then bind_w (write_failed_uncertain env job ''unexpected_after_side_effect'') (\<lambda>_.
            emit_w [JobFinished (cj_id job) OC_FAILED_UNCERTAIN (Some WE_UNEXPECTED_AFTER_SIDE_EFFECT) None None (Some True)])
     else bind_w (write_failed env job (worker_error_code_value code)) (\<lambda>_.
            emit_w [JobFinished (cj_id job) OC_FAILED (Some code) None None None]))"

definition preflight_error_code :: "terminal_preflight \<Rightarrow> worker_error_code option" where
  "preflight_error_code t =
     (case tp_reason t of
        PF_capability_unavailable \<Rightarrow> Some WE_CAPABILITY_UNAVAILABLE
      | PF_snapshot_incompatible \<Rightarrow> Some WE_SNAPSHOT_INCOMPATIBLE
      | PF_document_unreadable \<Rightarrow> None)"

definition lease_lost_event :: "claimed_job \<Rightarrow> worker_event" where
  "lease_lost_event job = JobFinished (cj_id job) OC_LEASE_LOST (Some WE_LEASE_LOST) None None None"

definition finish_run :: "worker_env \<Rightarrow> claimed_job \<Rightarrow> job_outcome res \<Rightarrow> unit worker" where
  "finish_run env job r =
     (case r of
        Inl (RetryableJobError code flag) \<Rightarrow> finish_retryable env job code flag
      | Inl (ProviderRequestRejectedError _) \<Rightarrow> finish_error env job WE_PROVIDER_REQUEST_REJECTED
      | Inl (JobLeaseLostError _) \<Rightarrow> emit_w [lease_lost_event job]
      | Inl _ \<Rightarrow> finish_error env job WE_WORKER_ERROR
      | Inr (PreflightStop t) \<Rightarrow>
          bind_w (persist_preflight_result env job t) (\<lambda>outcome.
          emit_w [JobFinished (cj_id job) outcome (preflight_error_code t) (Some 0) None None])
      | Inr (AgentResult res) \<Rightarrow>
          bind_w (persist_result env job res) (\<lambda>outcome.
          emit_w [JobFinished (cj_id job) outcome None (Some (rr_steps res)) (Some (rr_reason res))
                    (Some (outcome = OC_FAILED_UNCERTAIN))]))"

text \<open>The outer handlers: a lease lost while writing ends the cycle, any other error is reported and raised.\<close>

definition run_job :: "worker_env \<Rightarrow> claimed_job \<Rightarrow> bool worker" where
  "run_job env job d =
     (case run_claimed_with_lease env job d of
        (r, d1) \<Rightarrow>
          (case finish_run env job r d1 of
             (Inr _, es, d2) \<Rightarrow> (Inr True, es, d2)
           | (Inl e, es, d2) \<Rightarrow>
               if is_lease_lost e then (Inr True, es @ [lease_lost_event job], d2)
               else (Inl e, es @ [JobFinished (cj_id job) OC_FAILED (Some WE_PERSISTENCE_ERROR) None None None], d2)))"

definition serve_once :: "worker_env \<Rightarrow> bool worker" where
  "serve_once env =
     bind_w (reported_any env OP_decide_approval (expire_due (we_locked env OP_decide_approval) (we_now env) 100)) (\<lambda>expired.
     bind_w (emit_w (map ApprovalExpiredEvent expired)) (\<lambda>_.
     bind_w (reported_any env OP_recover_lease (recover_expired_leases (we_locked env OP_recover_lease) (we_now env) (we_max_retries env)
               (int (retry_delay 1) + we_jitter env 1))) (\<lambda>recovered.
     bind_w (emit_w (map LeaseRecovered recovered)) (\<lambda>_.
     bind_w (reported_any env OP_claim_job (claim_next (we_locked env OP_claim_job) (we_now env) (we_now env + we_lease env)
               (we_excluded env))) (\<lambda>claimed.
     case claimed of
       None \<Rightarrow> ret_w False
     | Some job \<Rightarrow>
         bind_w (emit_w [JobClaimed (cj_id job) (cj_attempt_count job), JobRunStarted (cj_id job) (cj_attempt_count job)])
           (\<lambda>_. run_job env job))))))"

end
