(* ===== verification/Port_Safety.thy ===== *)
theory Port_Safety
  imports Postgres_Port
begin

text \<open>
  What the database port promises to the executor: every method, on whatever path it ends, evolves
  the workflow and leaves the rows of the other tenants alone. With the contract of the gated executor
  this carries over to a whole run of the agent.
\<close>

section \<open>Safety\<close>

text \<open>The rows of the other tenants, in every table.\<close>

definition others_kept :: "uuid \<Rightarrow> db \<Rightarrow> db \<Rightarrow> bool" where
  "others_kept t d d' \<longleftrightarrow>
     (\<forall>u. u \<noteq> t \<longrightarrow>
        tenant_rows u d' = tenant_rows u d \<and>
        filter (\<lambda>j. job_tenant_id j = u) (db_jobs d') = filter (\<lambda>j. job_tenant_id j = u) (db_jobs d) \<and>
        filter (\<lambda>a. apr_tenant_id a = u) (db_approvals d') = filter (\<lambda>a. apr_tenant_id a = u) (db_approvals d) \<and>
        filter (\<lambda>e. ae_tenant_id e = u) (db_approval_events d') = filter (\<lambda>e. ae_tenant_id e = u) (db_approval_events d))"

definition safe_change :: "uuid \<Rightarrow> db \<Rightarrow> db \<Rightarrow> bool" where
  "safe_change t d d' \<longleftrightarrow> evolves d d' \<and> others_kept t d d'"

definition body_safe :: "uuid \<Rightarrow> 'a tx \<Rightarrow> bool" where
  "body_safe t m \<longleftrightarrow> (\<forall>d x d'. workflow_wf d \<longrightarrow> m d = (Inr x, d') \<longrightarrow> safe_change t d d')"

definition op_safe :: "uuid \<Rightarrow> 'a tx \<Rightarrow> bool" where
  "op_safe t m \<longleftrightarrow> (\<forall>d r d'. workflow_wf d \<longrightarrow> m d = (r, d') \<longrightarrow> safe_change t d d')"

lemma safe_change_refl: "workflow_wf d \<Longrightarrow> safe_change t d d"
  by (simp add: safe_change_def others_kept_def evolves_refl)

lemma safe_change_trans: "safe_change t a b \<Longrightarrow> safe_change t b c \<Longrightarrow> safe_change t a c"
  unfolding safe_change_def by (auto intro: evolves_trans) (simp add: others_kept_def)

lemma safe_change_wf: "safe_change t d d' \<Longrightarrow> workflow_wf d'"
  by (simp add: safe_change_def evolves_def)

lemma body_safe_bind:
  assumes "body_safe t m" "\<And>x. body_safe t (f x)"
  shows "body_safe t (bind_tx m f)"
  using assms unfolding body_safe_def bind_tx_Inr by (meson safe_change_trans safe_change_wf)

lemma framed_body_safe:
  assumes "framed t m"
  shows "body_safe t m"
  unfolding body_safe_def
proof (intro allI impI)
  fix d x d'
  assume wf: "workflow_wf d" and r: "m d = (Inr x, d')"
  have f: "tool_frame t d d'" using assms r by (auto simp: framed_def)
  have keys: "db_keys d" using wf by (simp add: workflow_wf_def)
  have "evolves d d'" using f keys by (intro workflow_wf_cong [OF wf]) (auto simp: tool_frame_def)
  moreover have "others_kept t d d'" using f keys by (auto simp: tool_frame_def others_kept_def)
  ultimately show "safe_change t d d'" by (simp add: safe_change_def)
qed

lemma op_safe_basic: "op_safe t (ret_tx x)" "op_safe t (raise_tx e)" "op_safe t (read_tx q)" "op_safe t (check_cancelled c n)"
  by (auto simp: op_safe_def tx_iffs check_cancelled_def safe_change_refl)

lemma op_safe_bind:
  assumes "op_safe t m" "\<And>x. op_safe t (f x)"
  shows "op_safe t (bind_tx m f)"
  unfolding op_safe_def
proof (intro allI impI)
  fix d r d'
  assume wf: "workflow_wf d" and r: "bind_tx m f d = (r, d')"
  obtain q e where q: "m d = (q, e)" by fastforce
  then have s: "safe_change t d e" using assms(1) wf by (simp add: op_safe_def)
  show "safe_change t d d'"
  proof (cases q)
    case (Inl x)
    then show ?thesis using r q s by (simp add: bind_tx_def)
  next
    case (Inr x)
    then have "f x e = (r, d')" using r q by (simp add: bind_tx_def)
    with assms(2) safe_change_wf [OF s] have "safe_change t e d'" by (auto simp: op_safe_def)
    with s show ?thesis by (rule safe_change_trans)
  qed
qed

lemma op_safe_transaction: "body_safe t m \<Longrightarrow> op_safe t (transaction m)"
  unfolding op_safe_def body_safe_def
  by (metis safe_change_refl transaction_preserves)

lemma op_safe_gateway: "op_safe t m \<Longrightarrow> op_safe t (gateway_call c m)"
  unfolding op_safe_def gateway_call_def
  by (auto split: gateway_outcome.splits intro: safe_change_refl) (metis prod.collapse)

lemma op_safe_sync: "op_safe t m \<Longrightarrow> op_safe t (sync_call c m)"
  unfolding sync_call_def by (intro op_safe_bind op_safe_basic op_safe_gateway)

lemma framed_check: "framed t (check_cancelled c n)"
  by (auto simp: check_cancelled_def)

lemma update_job_others_kept:
  assumes wf: "workflow_wf d" and j: "j \<in> set (db_jobs d)" "job_id j = i" "job_tenant_id j = t"
    and g: "\<And>r. job_tenant_id (g r) = job_tenant_id r"
  shows "others_kept t d (update_job i g d)"
proof -
  have "r = j" if "r \<in> set (db_jobs d)" "job_id r = i" for r
    using wf_job_unique [OF wf] that j by blast
  then have "filter (\<lambda>j. job_tenant_id j = u) (db_jobs (update_job i g d)) = filter (\<lambda>j. job_tenant_id j = u) (db_jobs d)"
    if "u \<noteq> t" for u
    unfolding update_job_def using that j(3) g by simp (rule filter_update_rows, fastforce)
  then show ?thesis by (simp add: others_kept_def) (simp add: update_job_def tenant_rows_def)
qed

text \<open>Marking a side effect writes only to the running attempt that the port is bound to.\<close>

lemma mark_side_effect_safe:
  assumes "pe_attempt_count env = Some n"
  shows "body_safe t (mark_side_effect env c t)"
  unfolding body_safe_def
proof (intro allI impI)
  fix d x d'
  assume wf: "workflow_wf d" and r: "mark_side_effect env c t d = (Inr x, d')"
  let ?g = "\<lambda>r. r\<lparr>job_side_effect_committed_at := Some (pc_now c)\<rparr>"
  from r assms obtain j where q: "scalar_one_or_none (\<lambda>j. job_id j = pe_job_id env \<and> job_tenant_id j = t \<and>
      job_status j = J_running \<and> job_attempt_count j = n) (db_jobs d) = Inr (Some j)"
    and d': "d' = update_job (job_id j) ?g d"
    by (auto simp: mark_side_effect_def tx_iffs check_cancelled_def split: option.splits if_splits)
  from scalar_one_or_none_SomeD [OF q] have j: "j \<in> set (db_jobs d)" "job_tenant_id j = t" "job_status j = J_running"
    by auto
  have "evolves d d'"
    unfolding d' using wf_jobD [OF wf j(1)] j(3)
    by (intro update_job_evolves [OF wf j(1) refl]) (auto simp: edge_simps job_ok_def)
  moreover have "others_kept t d d'"
    unfolding d' using j(1,2) by (intro update_job_others_kept [OF wf _ refl]) auto
  ultimately show "safe_change t d d'" by (simp add: safe_change_def)
qed

lemma create_for_running_job_others:
  assumes wf: "workflow_wf d" and r: "create_for_running_job t i n act reason ex now d = (Inr x, d')"
  shows "others_kept t d d'"
proof -
  from r obtain j where gj: "get_job_for_update t i d = Inr (Some j)"
    by (auto simp: create_for_running_job_def tx_iffs split: option.splits)
  then have jt: "job_tenant_id j = t" by (auto dest: get_job_for_update_SomeD)
  from r gj consider a where
      "scalar_one_or_none (\<lambda>a. apr_tenant_id a = t \<and> apr_job_id a = Some i) (db_approvals d) = Inr (Some a)"
      "refresh_approval a j act reason (now + ex) d = (Inr x, d')"
    | "stage_approval j act reason (now + ex) d = (Inr x, d')"
    by (auto simp: create_for_running_job_def tx_iffs split: option.splits if_splits)
  then show ?thesis
  proof cases
    case (1 a)
    from scalar_one_or_none_SomeD [OF 1(1)] have a: "a \<in> set (db_approvals d)" "apr_tenant_id a = t" by auto
    have keep: "filter (\<lambda>b. apr_tenant_id b = u) (update_rows apr_id (apr_id a) h bs) = filter (\<lambda>b. apr_tenant_id b = u) bs"
      if "u \<noteq> t" "set bs \<subseteq> set (db_approvals d)" "\<And>r. apr_tenant_id (h r) = apr_tenant_id r" for u h bs
    proof (rule filter_update_rows)
      show "\<not> apr_tenant_id b = u \<and> \<not> apr_tenant_id (h b) = u" if b: "b \<in> set bs" "apr_id b = apr_id a" for b
        using wf_approval_unique [OF wf _ a(1) b(2)] b \<open>set bs \<subseteq> set (db_approvals d)\<close> a(2) that(1) \<open>u \<noteq> t\<close>
          \<open>\<And>r. apr_tenant_id (h r) = apr_tenant_id r\<close> by auto
    qed
    have twice: "update_rows apr_id k f (update_rows apr_id k h bs) = update_rows apr_id k (\<lambda>r. f (h r)) bs"
      if "\<And>r. apr_id (h r) = apr_id r" for k f h bs
      using that by (auto simp: update_rows_def)
    show ?thesis
      using 1(2) jt
      by (auto simp: refresh_approval_def tx_iffs update_approval_def add_approval_event_def others_kept_def
          tenant_rows_def keep twice split: if_splits)
  next
    case 2
    then show ?thesis
      using jt by (auto simp: stage_approval_def tx_iffs add_approval_event_def others_kept_def tenant_rows_def new_approval_def)
  qed
qed

lemma create_for_running_job_safe: "op_safe t (create_for_running_job t i n act reason ex now)"
  unfolding op_safe_def
proof (intro allI impI)
  fix d r d'
  assume wf: "workflow_wf d" and r: "create_for_running_job t i n act reason ex now d = (r, d')"
  show "safe_change t d d'"
  proof (cases r)
    case (Inl e)
    then have "d' = d" using r by (auto simp: create_for_running_job_def dest: transaction_Inl)
    then show ?thesis using wf by (simp add: safe_change_refl)
  next
    case (Inr x)
    then show ?thesis
      using r create_for_running_job_evolves [OF wf] create_for_running_job_others [OF wf] by (simp add: safe_change_def)
  qed
qed

section \<open>The methods\<close>

lemma body_safe_basic: "body_safe t (ret_tx x)" "body_safe t (raise_tx e)" "body_safe t (read_tx q)"
  "body_safe t (check_cancelled c n)"
  by (auto simp: body_safe_def tx_iffs check_cancelled_def safe_change_refl split: if_splits)

lemma lock_idempotency_safe: "body_safe t (lock_idempotency env t)"
  unfolding lock_idempotency_def by (intro body_safe_bind) (auto intro: body_safe_basic split: option.split)

lemma require_customer_framed: "framed t (require_customer t c e)"
  unfolding require_customer_def by (auto split: option.split)

lemmas framed_steps = framed_create_case [THEN framed_body_safe] framed_event [THEN framed_body_safe]
  framed_set_case [THEN framed_body_safe] framed_create_for_job [THEN framed_body_safe]
  require_customer_framed [THEN framed_body_safe]

lemma find_customer_safe: "op_safe t (pg_find_customer env t email ext c)"
  unfolding pg_find_customer_def
  by (intro op_safe_sync op_safe_bind) (auto intro!: op_safe_bind intro: op_safe_basic split: option.split)

lemma case_exists_safe: "op_safe t (pg_case_exists env t i c)"
  unfolding pg_case_exists_def by (intro op_safe_sync op_safe_bind op_safe_basic)

lemma request_approval_safe: "op_safe t (pg_request_approval env t act reason c)"
  unfolding pg_request_approval_def by (intro op_safe_sync create_for_running_job_safe)

lemma create_case_safe:
  assumes "pe_attempt_count env = Some n"
  shows "op_safe t (pg_create_case env t src customer fs c)"
  unfolding pg_create_case_def
  by (intro op_safe_sync op_safe_transaction body_safe_bind lock_idempotency_safe)
     (auto intro!: body_safe_bind intro: framed_steps body_safe_basic mark_side_effect_safe [OF assms] split: option.split)

lemma create_artifact_safe:
  assumes "pe_attempt_count env = Some n"
  shows "op_safe t (pg_create_artifact env t job k payload c)"
  unfolding pg_create_artifact_def
  by (intro op_safe_sync)
     (auto intro!: op_safe_transaction body_safe_bind intro: op_safe_basic framed_steps body_safe_basic
       mark_side_effect_safe [OF assms])

text \<open>The update of a case splits after the framed part, because the job is marked last.\<close>

lemma body_safe_merge:
  assumes "\<And>k. body_safe t (f k)" "body_safe t m"
  shows "body_safe t (bind_tx (read_tx (get_case_for_tenant i t)) (\<lambda>row.
     case row of None \<Rightarrow> m | Some k \<Rightarrow> bind_tx (assign_case_fields k fs) (\<lambda>_. f k)))"
  unfolding body_safe_def
proof (intro allI impI)
  fix d x d'
  assume wf: "workflow_wf d" and a: "bind_tx (read_tx (get_case_for_tenant i t)) (\<lambda>row.
     case row of None \<Rightarrow> m | Some k \<Rightarrow> bind_tx (assign_case_fields k fs) (\<lambda>_. f k)) d = (Inr x, d')"
  let ?upd = "bind_tx (read_tx (get_case_for_tenant i t)) (\<lambda>row.
     case row of None \<Rightarrow> ret_tx None | Some k \<Rightarrow> bind_tx (assign_case_fields k fs) (\<lambda>_. ret_tx (Some k)))"
  have u: "body_safe t ?upd"
    by (intro framed_body_safe framed_merge) auto
  from a obtain row where row: "get_case_for_tenant i t d = Inr row" by (auto simp: tx_iffs)
  show "safe_change t d d'"
  proof (cases row)
    case None
    then show ?thesis using a row assms(2) wf by (auto simp: tx_iffs body_safe_def)
  next
    case (Some k)
    with a row obtain y e where e: "assign_case_fields k fs d = (Inr y, e)" "f k e = (Inr x, d')"
      by (auto simp: tx_iffs)
    then have "?upd d = (Inr (Some k), e)" using row Some by (auto simp: tx_iffs)
    with u wf have s: "safe_change t d e" by (auto simp: body_safe_def)
    with e(2) assms(1) safe_change_wf [OF s] have "safe_change t e d'" by (auto simp: body_safe_def)
    with s show ?thesis by (rule safe_change_trans)
  qed
qed

lemma update_case_fields_safe:
  assumes "pe_attempt_count env = Some n"
  shows "op_safe t (pg_update_case_fields env t i fs c)"
  unfolding pg_update_case_fields_def
  by (intro op_safe_sync op_safe_transaction body_safe_merge body_safe_bind body_safe_basic
      mark_side_effect_safe [OF assms] framed_fields_event [THEN framed_body_safe])

section \<open>The port\<close>

definition port_inv :: "uuid \<Rightarrow> db \<Rightarrow> pg_state \<Rightarrow> bool" where
  "port_inv t d s \<longleftrightarrow> safe_change t d (pg_db s)"

lemma on_db_inv:
  assumes "\<And>c. op_safe t (m c)" "port_inv t d s"
  shows "port_inv t d (snd (on_db m s))"
proof -
  obtain r e where e: "m (pg_script s (pg_calls s)) (pg_db s) = (r, e)" by fastforce
  have "safe_change t (pg_db s) e"
    using assms e safe_change_wf by (metis op_safe_def port_inv_def)
  with assms(2) e show ?thesis
    by (auto simp: on_db_def port_inv_def intro: safe_change_trans)
qed

interpretation postgres: tenant_port "postgres_executor (claimed_env job n timeout) rt ve"
    "port_inv (rt_tenant_id rt) d" for job n timeout rt ve d
  by unfold_locales
     (simp_all add: postgres_executor_def postgres_port_def pg_create_reply_draft_def pg_flag_for_review_def
       on_db_inv find_customer_safe case_exists_safe request_approval_safe
       create_case_safe [where n = n] update_case_fields_safe [where n = n] create_artifact_safe [where n = n]
       claimed_env_def)

text \<open>
  C14. A whole agent run on the database. Whatever the provider proposes, however the calls on the owner
  loop end and whenever the cancellation event is set, a run for one claimed attempt keeps the workflow
  invariant, moves jobs and approvals only along their lifecycles, and leaves every row of another
  tenant, in all tables, as it was.
\<close>

theorem agent_run_database_safe:
  assumes "workflow_wf (pg_db (xs_port s))"
    and "agent_run llm (gated_tools (postgres_executor (claimed_env job n timeout) rt ve)) m msgs s = (r, fin)"
  shows "evolves (pg_db (xs_port s)) (pg_db (xs_port (ls_tools fin))) \<and>
    others_kept (rt_tenant_id rt) (pg_db (xs_port s)) (pg_db (xs_port (ls_tools fin)))"
proof -
  have "port_inv (rt_tenant_id rt) (pg_db (xs_port s)) (xs_port s)"
    using assms(1) by (simp add: port_inv_def safe_change_refl)
  from postgres.gated.run_keeps_inv [OF this assms(2)] show ?thesis
    by (simp add: port_inv_def safe_change_def)
qed

end
