(* ===== verification/Intake.thy ===== *)
theory Intake
  imports Approval_Service
begin

text \<open>
  Idempotent enqueueing: \<open>app/domain/intake.py\<close>. A request is identified by the tenant, the
  idempotency key and a hash of its content. The result carries the observation events; events
  emitted in a transaction that is rolled back stay emitted. Whether parsing a document exceeds
  its time limit is decided by the environment.
\<close>

section \<open>Commands\<close>

record create_intake_request =
  cr_channel :: string
  cr_subject :: string
  cr_body :: string

definition MAX_CHANNEL_CHARS :: nat where "MAX_CHANNEL_CHARS = 100"
definition MAX_SUBJECT_CHARS :: nat where "MAX_SUBJECT_CHARS = 500"
definition MAX_BODY_CHARS :: nat where "MAX_BODY_CHARS = 100000"

definition valid_intake_request :: "create_intake_request \<Rightarrow> bool" where
  "valid_intake_request r \<longleftrightarrow>
     1 \<le> length (cr_channel r) \<and> length (cr_channel r) \<le> MAX_CHANNEL_CHARS \<and> non_blank (cr_channel r) \<and>
     1 \<le> length (cr_subject r) \<and> length (cr_subject r) \<le> MAX_SUBJECT_CHARS \<and> non_blank (cr_subject r) \<and>
     1 \<le> length (cr_body r) \<and> length (cr_body r) \<le> MAX_BODY_CHARS \<and> non_blank (cr_body r)"

record enqueue_command =
  ec_tenant_id :: uuid
  ec_tenant_slug :: string
  ec_source :: trusted_source
  ec_idempotency_key :: string
  ec_trace_id :: uuid
  ec_safety_or_legal_risk :: bool

record enqueue_document_command =
  ed_tenant_id :: uuid
  ed_tenant_slug :: string
  ed_document :: document_input
  ed_idempotency_key :: string
  ed_trace_id :: uuid
  ed_safety_or_legal_risk :: bool
  ed_sender :: "string option"

record enqueue_result =
  er_job_id :: uuid
  er_created :: bool
  er_trace_id :: uuid

record intake_event =
  ie_event :: string
  ie_trace_id :: uuid
  ie_tenant_id :: uuid
  ie_job_id :: "uuid option"
  ie_outcome :: outcome_code
  ie_scenario_key :: string
  ie_profile_fingerprint :: string

record intake_env =
  iv_profiles :: profile_env
  iv_load :: "string \<Rightarrow> tenant_config res"
  iv_open_pdf :: "bytes \<Rightarrow> pdf_reader res"
  iv_times_out :: "document_input \<Rightarrow> bool"

section \<open>Hashes\<close>

definition intake_payload :: "trusted_source \<Rightarrow> py_dict" where
  "intake_payload s =
     [(''body'', PStr (ts_body s)), (''channel'', PStr (ts_channel s)), (''subject'', PStr (ts_subject s))] @
     (case ts_sender s of None \<Rightarrow> [] | Some x \<Rightarrow> [(''sender'', PStr x)]) @
     (case ts_document s of None \<Rightarrow> [] | Some doc \<Rightarrow> [(''document'', document_dump doc)])"

definition canonical_hash :: "profile_env \<Rightarrow> py_dict \<Rightarrow> string res" where
  "canonical_hash env payload =
     (case canonical_json_bytes (en_float_repr env) payload of
        Inl e \<Rightarrow> Inl e | Inr b \<Rightarrow> Inr (en_hexdigest env b))"

definition canonical_intake_hash :: "profile_env \<Rightarrow> trusted_source \<Rightarrow> string res" where
  "canonical_intake_hash env s = canonical_hash env (intake_payload s)"

text \<open>\<open>document.text.encode("utf-8") if text/plain else document.content or b""\<close>.\<close>

definition document_raw :: "document_input \<Rightarrow> bytes res" where
  "document_raw v =
     (if di_media_type v = MEDIA_TEXT
      then (case di_text v of None \<Rightarrow> Inl OtherException | Some s \<Rightarrow> Inr (utf8_encode s))
      else Inr (case di_content v of None \<Rightarrow> [] | Some b \<Rightarrow> b))"

definition canonical_document_intake_hash :: "profile_env \<Rightarrow> enqueue_document_command \<Rightarrow> string res" where
  "canonical_document_intake_hash env c =
     bind_res (document_raw (ed_document c)) (\<lambda>raw.
       canonical_hash env
         ([(''body'', PStr (di_body (ed_document c))), (''channel'', PStr (di_channel (ed_document c))),
           (''subject'', PStr (di_subject (ed_document c))),
           (''document'', PDict [(''media_type'', PStr (media_type_value (di_media_type (ed_document c)))),
                                 (''payload_sha256'', PStr (en_hexdigest env raw))])] @
          (case ed_sender c of None \<Rightarrow> [] | Some x \<Rightarrow> [(''sender'', PStr x)])))"

definition validate_idempotency_key :: "string \<Rightarrow> string res" where
  "validate_idempotency_key v =
     (let k = strip v
      in if k = [] \<or> 255 < length k then Inl (ValueError ''invalid idempotency key'') else Inr k)"

section \<open>Events\<close>

definition profile_event :: "enqueue_command \<Rightarrow> resolved_tenant_profile \<Rightarrow> uuid \<Rightarrow> intake_event" where
  "profile_event c p trace =
     \<lparr>ie_event = ''profile.resolution.completed'', ie_trace_id = trace, ie_tenant_id = ec_tenant_id c,
      ie_job_id = None, ie_outcome = OC_SUCCESS, ie_scenario_key = cp_scenario_key (rp_compiled p),
      ie_profile_fingerprint = cp_profile_fingerprint (rp_compiled p)\<rparr>"

definition enqueue_event ::
  "enqueue_command \<Rightarrow> resolved_tenant_profile \<Rightarrow> uuid \<Rightarrow> uuid option \<Rightarrow> outcome_code \<Rightarrow> intake_event" where
  "enqueue_event c p trace job outcome =
     \<lparr>ie_event = ''intake.enqueue.completed'', ie_trace_id = trace, ie_tenant_id = ec_tenant_id c,
      ie_job_id = job, ie_outcome = outcome, ie_scenario_key = cp_scenario_key (rp_compiled p),
      ie_profile_fingerprint = cp_profile_fingerprint (rp_compiled p)\<rparr>"

definition persistence_failure_event :: "enqueue_command \<Rightarrow> resolved_tenant_profile \<Rightarrow> intake_event" where
  "persistence_failure_event c p =
     \<lparr>ie_event = ''persistence.operation_failed'', ie_trace_id = ec_trace_id c, ie_tenant_id = ec_tenant_id c,
      ie_job_id = None, ie_outcome = OC_FAILED, ie_scenario_key = cp_scenario_key (rp_compiled p),
      ie_profile_fingerprint = cp_profile_fingerprint (rp_compiled p)\<rparr>"

section \<open>Enqueueing\<close>

definition existing_result ::
  "intake_env \<Rightarrow> idempotency_row \<Rightarrow> string \<Rightarrow> enqueue_command \<Rightarrow> (enqueue_result \<times> intake_event list) tx" where
  "existing_result env r h c =
     (if idr_request_hash r \<noteq> h
      then raise_tx (IdempotencyConflict ''idempotency key conflicts with request'')
      else case idr_job_id r of
        None \<Rightarrow> raise_tx (RuntimeError ''idempotency record has no job'')
      | Some i \<Rightarrow>
          bind_tx (read_tx (get_observation_identity i (ec_tenant_id c))) (\<lambda>identity. case identity of
            None \<Rightarrow> raise_tx (RuntimeError ''idempotency record has no observation identity'')
          | Some o' \<Rightarrow>
              bind_tx (lift_res (resolve_persisted_profile (iv_profiles env) (oi_tenant_config_snapshot o')
                 (PStr (oi_tenant_config_sha256 o')) (Some (ec_tenant_slug c)))) (\<lambda>p.
              ret_tx (\<lparr>er_job_id = i, er_created = False, er_trace_id = oi_trace_id o'\<rparr>,
                      [profile_event c p (oi_trace_id o'),
                       enqueue_event c p (oi_trace_id o') (Some i) OC_REUSED]))))"

definition insert_request ::
  "enqueue_command \<Rightarrow> resolved_tenant_profile \<Rightarrow> string \<Rightarrow> string \<Rightarrow> (enqueue_result \<times> intake_event list) tx" where
  "insert_request c p k h =
     bind_tx (create_job (ec_tenant_id c) (ec_trace_id c) (ec_source c) (ec_safety_or_legal_risk c) p) (\<lambda>i.
     bind_tx (create_idempotency_record (ec_tenant_id c) k h i) (\<lambda>_.
     ret_tx (\<lparr>er_job_id = i, er_created = True, er_trace_id = ec_trace_id c\<rparr>,
             [enqueue_event c p (ec_trace_id c) (Some i) OC_CREATED])))"

definition enqueue_body ::
  "intake_env \<Rightarrow> enqueue_command \<Rightarrow> resolved_tenant_profile \<Rightarrow> string \<Rightarrow> string \<Rightarrow>
   (enqueue_result \<times> intake_event list) tx" where
  "enqueue_body env c p k h =
     bind_tx (read_tx (get_idempotency_for_tenant (ec_tenant_id c) k)) (\<lambda>existing. case existing of
       Some r \<Rightarrow> existing_result env r h c
     | None \<Rightarrow>
         nested_tx (insert_request c p k h)
           (bind_tx (read_tx (get_idempotency_for_tenant (ec_tenant_id c) k)) (\<lambda>again. case again of
              None \<Rightarrow> raise_tx IntegrityError
            | Some r \<Rightarrow> existing_result env r h c)))"

fun is_idempotency_conflict :: "exn \<Rightarrow> bool" where
  "is_idempotency_conflict (IdempotencyConflict _) = True"
| "is_idempotency_conflict _ = False"

text \<open>\<open>_enqueue\<close>, with the hash that was computed for it.\<close>

definition enqueue_profile ::
  "intake_env \<Rightarrow> enqueue_command \<Rightarrow> resolved_tenant_profile \<Rightarrow> string option \<Rightarrow> db \<Rightarrow>
   enqueue_result res \<times> intake_event list \<times> db" where
  "enqueue_profile env c p request_hash d =
     (case validate_idempotency_key (ec_idempotency_key c) of
        Inl e \<Rightarrow> (Inl e, [], d)
      | Inr k \<Rightarrow>
          (case (case request_hash of Some h \<Rightarrow> Inr h | None \<Rightarrow> canonical_intake_hash (iv_profiles env) (ec_source c)) of
             Inl e \<Rightarrow> (Inl e, [], d)
           | Inr h \<Rightarrow>
               (case transaction (enqueue_body env c p k h) d of
                  (Inr (r, es), d') \<Rightarrow> (Inr r, es, d')
                | (Inl e, d') \<Rightarrow>
                    (Inl e,
                     if is_idempotency_conflict e then [enqueue_event c p (ec_trace_id c) None OC_CONFLICT]
                     else [persistence_failure_event c p], d'))))"

definition enqueue :: "intake_env \<Rightarrow> enqueue_command \<Rightarrow> db \<Rightarrow> enqueue_result res \<times> intake_event list \<times> db" where
  "enqueue env c d =
     (case resolve_profile (iv_profiles env) (iv_load env) (ec_tenant_slug c) of
        Inl e \<Rightarrow> (Inl e, [], d)
      | Inr p \<Rightarrow>
          (case enqueue_profile env c p None d of
             (r, es, d') \<Rightarrow> (r, profile_event c p (ec_trace_id c) # es, d')))"

section \<open>Documents\<close>

definition document_command :: "enqueue_document_command \<Rightarrow> normalized_document option \<Rightarrow> enqueue_command" where
  "document_command c doc =
     \<lparr>ec_tenant_id = ed_tenant_id c, ec_tenant_slug = ed_tenant_slug c,
      ec_source = \<lparr>ts_channel = di_channel (ed_document c), ts_subject = di_subject (ed_document c),
                   ts_body = di_body (ed_document c), ts_document = doc, ts_sender = ed_sender c\<rparr>,
      ec_idempotency_key = ed_idempotency_key c, ec_trace_id = ed_trace_id c,
      ec_safety_or_legal_risk = ed_safety_or_legal_risk c\<rparr>"

definition existing_document_result ::
  "intake_env \<Rightarrow> enqueue_document_command \<Rightarrow> string \<Rightarrow> string \<Rightarrow>
   (enqueue_result \<times> intake_event list) option tx" where
  "existing_document_result env c k h =
     transaction
       (bind_tx (read_tx (get_idempotency_for_tenant (ed_tenant_id c) k)) (\<lambda>existing. case existing of
          None \<Rightarrow> ret_tx None
        | Some r \<Rightarrow> bind_tx (existing_result env r h (document_command c None)) (\<lambda>x. ret_tx (Some x))))"

text \<open>\<open>_normalize_document\<close>: a timeout gives a document with that extraction error.\<close>

definition normalize_bounded ::
  "intake_env \<Rightarrow> document_binding \<Rightarrow> document_input \<Rightarrow> normalized_document res" where
  "normalize_bounded env b v =
     (if iv_times_out env v
      then bind_res (document_raw v) (\<lambda>raw.
             document_error b (di_media_type v) (en_hexdigest (iv_profiles env) raw) DOCUMENT_PROCESSING_TIMEOUT)
      else normalize_document (en_hexdigest (iv_profiles env)) (iv_open_pdf env) b v)"

definition bound_source ::
  "intake_env \<Rightarrow> enqueue_document_command \<Rightarrow> resolved_tenant_profile \<Rightarrow> enqueue_command res" where
  "bound_source env c p =
     (case cp_default_inbound_document (rp_compiled p) of
        None \<Rightarrow> Inl (ValueError ''tenant profile has no inbound document binding'')
      | Some b \<Rightarrow>
          if di_media_type (ed_document c) \<notin> set (dc_supported_media_types (cb_capability b))
          then Inl (DocumentCapabilityUnavailable ''document capability unavailable'')
          else bind_res (normalize_bounded env (cb_binding b) (ed_document c)) (\<lambda>doc.
                 Inr (document_command c (Some doc))))"

text \<open>The key and the hash under which a document request is recorded.\<close>

definition document_identity :: "intake_env \<Rightarrow> enqueue_document_command \<Rightarrow> (string \<times> string) res" where
  "document_identity env c =
     bind_res (validate_idempotency_key (ed_idempotency_key c)) (\<lambda>k.
     bind_res (canonical_document_intake_hash (iv_profiles env) c) (\<lambda>h. Inr (k, h)))"

definition enqueue_document ::
  "intake_env \<Rightarrow> enqueue_document_command \<Rightarrow> db \<Rightarrow> enqueue_result res \<times> intake_event list \<times> db" where
  "enqueue_document env c d =
     (case document_identity env c of
        Inl e \<Rightarrow> (Inl e, [], d)
      | Inr (k, h) \<Rightarrow>
          (let probe = document_command c None;
               resolved = resolve_profile (iv_profiles env) (iv_load env) (ed_tenant_slug c)
           in case existing_document_result env c k h d of
                (Inl e, d') \<Rightarrow>
                  if is_idempotency_conflict e
                  then (case resolved of
                          Inl e' \<Rightarrow> (Inl e', [], d')
                        | Inr p \<Rightarrow>
                            (Inl e, [profile_event probe p (ed_trace_id c),
                                     enqueue_event probe p (ed_trace_id c) None OC_CONFLICT], d'))
                  else (Inl e, [], d')
              | (Inr (Some (r, es)), d') \<Rightarrow> (Inr r, es, d')
              | (Inr None, d') \<Rightarrow>
                  (case resolved of
                     Inl e \<Rightarrow> (Inl e, [], d')
                   | Inr p \<Rightarrow>
                       (case bound_source env c p of
                          Inl e \<Rightarrow> (Inl e, [profile_event probe p (ed_trace_id c)], d')
                        | Inr command \<Rightarrow>
                            (case enqueue_profile env command p (Some h) d' of
                               (r, es, d'') \<Rightarrow>
                                 (r, profile_event probe p (ed_trace_id c) # es, d''))))))"

end
