(* ===== verification/Job_Queue.thy ===== *)
theory Job_Queue
  imports Job_Lifecycle
begin

text \<open>
  What the queue operations do on a well-formed store: which job is claimed, what recovery makes of
  each expired lease, and that a worker whose attempt is over can write nothing.
\<close>

section \<open>Rows that are present\<close>

lemma next_item_unique:
  assumes "distinct (map f xs)" "x \<in> set xs" "P x" "\<And>y. P y \<Longrightarrow> f y = f x"
  shows "next_item P xs = Some x"
proof -
  have "\<exists>y. next_item P xs = Some y"
    using assms(2,3) by (induction xs) auto
  then obtain y where y: "next_item P xs = Some y" by blast
  then have "y \<in> set xs" "P y" by (induction xs) (auto split: if_splits)
  then have "y = x" using distinct_key_eq [OF assms(1) _ assms(2)] assms(4) by blast
  with y show ?thesis by simp
qed

lemma scalar_present:
  assumes "distinct (map f xs)" "x \<in> set xs" "P x" "\<And>y. P y \<Longrightarrow> f y = f x"
  shows "scalar_one_or_none P xs = Inr (Some x)"
  using scalar_unique [of f xs P "f x"] next_item_unique [of f xs x P] assms by metis

lemma observation_identity_present:
  assumes "workflow_wf d" "j \<in> set (db_jobs d)" "as_dict (job_tenant_config_snapshot j) \<noteq> None"
  shows "get_observation_identity (job_id j) (job_tenant_id j) d =
    Inr (Some \<lparr>oi_trace_id = job_trace_id j, oi_tenant_config_snapshot = job_tenant_config_snapshot j,
      oi_tenant_config_sha256 = job_tenant_config_sha256 j\<rparr>)"
proof -
  have "distinct (map job_id (db_jobs d))"
    using assms(1) by (simp add: workflow_wf_def db_keys_def)
  then have "scalar_one_or_none (\<lambda>r. job_id r = job_id j \<and> job_tenant_id r = job_tenant_id j) (db_jobs d) = Inr (Some j)"
    using assms(2) by (intro scalar_present [where f = job_id]) auto
  then show ?thesis using assms(3) by (simp add: get_observation_identity_def)
qed

lemma persisted_is_dict: "resolve_persisted_profile env s e slug = Inr p \<Longrightarrow> as_dict s \<noteq> None"
  by (auto simp: resolve_persisted_profile_def snapshot_unavailable_def split: option.splits)

lemma job_edges_identity: "job_edge\<^sup>*\<^sup>* j j' \<Longrightarrow> job_identity j' = job_identity j"
  by (induction rule: rtranclp_induct) (auto simp: job_edge_key)

section \<open>Claiming\<close>

lemma sort_key_Nil_iff: "sort_key f xs = [] \<longleftrightarrow> xs = []"
  by (metis length_0_conv length_sort)

lemma sort_key_head:
  assumes "sort_key f xs = x # ys"
  shows "x \<in> set xs" "\<And>y. y \<in> set xs \<Longrightarrow> f x \<le> f y"
proof -
  have s: "sorted (map f (x # ys))" using assms sorted_sort_key [of f xs] by simp
  have e: "set xs = set (x # ys)" using assms set_sort [of f xs] by simp
  show "x \<in> set xs" using e by simp
  show "f x \<le> f y" if "y \<in> set xs" for y using s e that by auto
qed

text \<open>
  C13. Claiming takes the claimable job that has been available longest, ties broken by identifier:
  the job becomes running under a new attempt number with a lease, no other row changes, and nothing is
  claimed only if nothing is claimable. A job that is not queued, not yet available, of an excluded
  tenant or locked by another worker is not claimable.
\<close>

theorem claim_next_correct:
  "case claim_next locked now lease_until excluded d of
     (Inl e, d') \<Rightarrow> False
   | (Inr None, d') \<Rightarrow> d' = d \<and> (\<forall>j \<in> set (db_jobs d). \<not> claimable locked now excluded j)
   | (Inr (Some c), d') \<Rightarrow>
       (\<exists>j \<in> set (db_jobs d). claimable locked now excluded j \<and>
          (\<forall>k \<in> set (db_jobs d). claimable locked now excluded k \<longrightarrow>
             (job_available_at j, job_id j) \<le> (job_available_at k, job_id k)) \<and>
          c = claimed_of (claim_row now lease_until j) \<and> cj_attempt_count c = Suc (job_attempt_count j) \<and>
          d' = update_job (job_id j) (claim_row now lease_until) d)"
proof -
  let ?f = "\<lambda>j. (job_available_at j, job_id j)" and ?js = "filter (claimable locked now excluded) (db_jobs d)"
  show ?thesis
  proof (cases "sort_key ?f ?js")
    case Nil
    then have "?js = []" by (simp add: sort_key_Nil_iff)
    then have "\<forall>j \<in> set (db_jobs d). \<not> claimable locked now excluded j" by (simp add: filter_empty_conv)
    with Nil show ?thesis
      by (simp add: claim_next_def transaction_def bind_tx_def read_tx_def ret_tx_def)
  next
    case (Cons j rest)
    have j: "j \<in> set (db_jobs d)" "claimable locked now excluded j"
      using sort_key_head(1) [OF Cons] by auto
    have m: "\<forall>k \<in> set (db_jobs d). claimable locked now excluded k \<longrightarrow> ?f j \<le> ?f k"
      using sort_key_head(2) [OF Cons] by auto
    have "claim_next locked now lease_until excluded d =
        (Inr (Some (claimed_of (claim_row now lease_until j))), update_job (job_id j) (claim_row now lease_until) d)"
      by (simp add: claim_next_def transaction_def bind_tx_def read_tx_def write_tx_def ret_tx_def Cons)
    moreover have "cj_attempt_count (claimed_of (claim_row now lease_until j)) = Suc (job_attempt_count j)"
      by (simp add: claimed_of_def claim_row_def)
    ultimately show ?thesis using j m by (simp, blast)
  qed
qed

section \<open>Recovery\<close>

definition recovered_row :: "datetime \<Rightarrow> int \<Rightarrow> int \<Rightarrow> job_row \<Rightarrow> job_row" where
  "recovered_row now max_retries retry_delay j =
     (if job_side_effect_committed_at j \<noteq> None
      then j\<lparr>job_lease_expires_at := None, job_status := J_failed_uncertain,
             job_error_code := Some ''lease_expired_after_side_effect'', job_finished_at := Some now\<rparr>
      else if int (job_attempt_count j) \<le> max_retries
      then j\<lparr>job_lease_expires_at := None, job_status := J_queued, job_error_code := Some ''lease_expired'',
             job_available_at := now + retry_delay\<rparr>
      else j\<lparr>job_lease_expires_at := None, job_status := J_failed, job_error_code := Some ''retry_exhausted'',
             job_finished_at := Some now\<rparr>)"

lemma recovered_row_id [simp]: "job_id (recovered_row now mr delay j) = job_id j"
  by (simp add: recovered_row_def)

lemma map_pair_zip: "map (\<lambda>x. (f x, g x)) xs = zip (map f xs) (map g xs)"
  by (induction xs) auto

lemma scalar_total:
  assumes "distinct xs" "\<And>x y. x \<in> set xs \<Longrightarrow> y \<in> set xs \<Longrightarrow> P x \<Longrightarrow> P y \<Longrightarrow> x = y"
  shows "\<exists>r. scalar_one_or_none P xs = Inr r"
proof (cases "filter P xs")
  case Nil
  then show ?thesis by (simp add: scalar_one_or_none_def)
next
  case (Cons x ys)
  have "ys = []"
  proof (rule ccontr)
    assume "ys \<noteq> []"
    then obtain y zs where "ys = y # zs" by (cases ys) auto
    with Cons have f: "filter P xs = x # y # zs" by simp
    then have "x \<noteq> y" using assms(1) distinct_filter [of xs P] by auto
    moreover have "x \<in> set (filter P xs)" "y \<in> set (filter P xs)" unfolding f by simp_all
    ultimately show False using assms(2) by auto
  qed
  then show ?thesis using Cons by (simp add: scalar_one_or_none_def)
qed

lemma cancel_staged_total:
  assumes "workflow_wf d"
  obtains e where "cancel_staged_approval i t d = (Inr (), e)"
proof -
  let ?P = "\<lambda>a. apr_job_id a = Some i \<and> apr_tenant_id a = t \<and> apr_status a = A_staged"
  have "distinct (db_approvals d)"
    using assms by (simp add: workflow_wf_def db_keys_def distinct_map)
  then have "\<exists>r. scalar_one_or_none ?P (db_approvals d) = Inr r"
    by (rule scalar_total) (use wf_job_approval_unique [OF assms] in blast)
  then obtain r where "scalar_one_or_none ?P (db_approvals d) = Inr r" by blast
  with that show ?thesis
    by (cases r) (auto simp: cancel_staged_approval_def bind_tx_def read_tx_def ret_tx_def write_tx_def)
qed

lemma update_rows_unique:
  assumes "distinct (map f xs)" "x \<in> set xs" "g x = h x"
  shows "update_rows f (f x) g xs = update_rows f (f x) h xs"
  unfolding update_rows_def using assms distinct_key_eq by (fastforce intro!: map_cong)

lemma recover_one_spec:
  assumes wf: "workflow_wf d" and j: "j \<in> set (db_jobs d)"
  shows "\<exists>x e. recover_one now mr delay j d = (Inr x, e) \<and> lr_job_id x = job_id j \<and>
    lr_status x = job_status (recovered_row now mr delay j) \<and>
    db_jobs e = update_rows job_id (job_id j) (recovered_row now mr delay) (db_jobs d)"
proof -
  obtain e where c: "cancel_staged_approval (job_id j) (job_tenant_id j) d = (Inr (), e)"
    using cancel_staged_total [OF wf] by blast
  have k: "distinct (map job_id (db_jobs d))" using wf by (simp add: workflow_wf_def db_keys_def)
  have u: "update_rows job_id (job_id j) g (db_jobs d) =
      update_rows job_id (job_id j) (recovered_row now mr delay) (db_jobs d)"
    if "g j = recovered_row now mr delay j" for g
    using update_rows_unique [OF k j] that by blast
  show ?thesis
    unfolding recover_one_def Let_def
    by (auto simp: bind_tx_def write_tx_def ret_tx_def c update_job_def cancel_keeps_jobs [OF c] recovered_row_def
        intro!: u)
qed

lemma recover_rows_spec:
  assumes "workflow_wf d" "set js \<subseteq> set (db_jobs d)" "\<forall>j \<in> set js. job_status j = J_running" "distinct (map job_id js)"
  shows "\<exists>xs d'. map_tx (recover_one now mr delay) js d = (Inr xs, d') \<and> map lr_job_id xs = map job_id js \<and>
    map lr_status xs = map (\<lambda>j. job_status (recovered_row now mr delay j)) js \<and>
    db_jobs d' = map (\<lambda>r. if job_id r \<in> job_id ` set js then recovered_row now mr delay r else r) (db_jobs d)"
  using assms
proof (induction js arbitrary: d)
  case Nil
  then show ?case by (simp add: ret_tx_def)
next
  case (Cons j js)
  obtain x e where x: "recover_one now mr delay j d = (Inr x, e)" "lr_job_id x = job_id j"
    "lr_status x = job_status (recovered_row now mr delay j)"
    "db_jobs e = update_rows job_id (job_id j) (recovered_row now mr delay) (db_jobs d)"
    using recover_one_spec [OF Cons.prems(1), of j now mr delay] Cons.prems(2) by (meson list.set_intros(1) subsetD)
  have ev: "evolves d e" "\<forall>r \<in> set (db_jobs d). job_id r \<noteq> job_id j \<longrightarrow> r \<in> set (db_jobs e)"
    using recover_one_evolves [OF Cons.prems(1) _ _ x(1)] Cons.prems(2,3) by auto
  have sub: "set js \<subseteq> set (db_jobs e)"
  proof
    fix r assume r: "r \<in> set js"
    then have "job_id r \<noteq> job_id j" using Cons.prems(4) by simp (metis image_eqI)
    with ev(2) r Cons.prems(2) show "r \<in> set (db_jobs e)" by auto
  qed
  have wfe: "workflow_wf e" using ev(1) by (simp add: evolves_def)
  obtain xs d' where y: "map_tx (recover_one now mr delay) js e = (Inr xs, d')" "map lr_job_id xs = map job_id js"
    "map lr_status xs = map (\<lambda>j. job_status (recovered_row now mr delay j)) js"
    "db_jobs d' = map (\<lambda>r. if job_id r \<in> job_id ` set js then recovered_row now mr delay r else r) (db_jobs e)"
    using Cons.IH [OF wfe sub] Cons.prems(3,4) by auto
  have "map_tx (recover_one now mr delay) (j # js) d = (Inr (x # xs), d')"
    by (simp add: bind_tx_def x(1) y(1) ret_tx_def)
  moreover have "db_jobs d' =
      map (\<lambda>r. if job_id r \<in> job_id ` set (j # js) then recovered_row now mr delay r else r) (db_jobs d)"
    using Cons.prems(4) unfolding y(4) x(4) by (auto simp: update_rows_def)
  ultimately show ?case using x(2,3) y(2,3) by (intro exI [of _ "x # xs"] exI [of _ d']) simp
qed

text \<open>
  C34. Recovery of expired leases always succeeds and treats exactly the running jobs whose lease has
  expired and which no other worker has locked: a job with a committed side effect becomes
  \<open>failed_uncertain\<close> and is never queued again, a job within its retry budget is queued again with the
  delay, and a job that has used it up fails; all other jobs stay as they are. The observations name
  the treated jobs with their new status, in the order of the table.
\<close>

theorem recover_expired_leases_correct:
  assumes "workflow_wf d"
  shows "\<exists>obs d'. recover_expired_leases locked now max_retries delay d = (Inr obs, d') \<and>
    db_jobs d' = map (\<lambda>j. if lease_expired now j \<and> \<not> locked (job_id j)
                          then recovered_row now max_retries delay j else j) (db_jobs d) \<and>
    map (\<lambda>x. (lr_job_id x, lr_status x)) obs =
      map (\<lambda>j. (job_id j, job_status (recovered_row now max_retries delay j)))
        (filter (\<lambda>j. lease_expired now j \<and> \<not> locked (job_id j)) (db_jobs d))"
proof -
  let ?P = "\<lambda>j. lease_expired now j \<and> \<not> locked (job_id j)"
  let ?js = "filter ?P (db_jobs d)"
  have k: "distinct (map job_id (db_jobs d))" using assms by (simp add: workflow_wf_def db_keys_def)
  have "distinct (map job_id ?js)" using k by (simp add: distinct_map_filter)
  then obtain obs d' where r: "map_tx (recover_one now max_retries delay) ?js d = (Inr obs, d')"
    "map lr_job_id obs = map job_id ?js"
    "map lr_status obs = map (\<lambda>j. job_status (recovered_row now max_retries delay j)) ?js"
    "db_jobs d' = map (\<lambda>r. if job_id r \<in> job_id ` set ?js then recovered_row now max_retries delay r else r) (db_jobs d)"
    using recover_rows_spec [OF assms filter_is_subset, of ?P now max_retries delay] by (auto simp: lease_expired_def)
  have "job_id j \<in> job_id ` set ?js \<longleftrightarrow> ?P j" if "j \<in> set (db_jobs d)" for j
  proof
    assume "job_id j \<in> job_id ` set ?js"
    then obtain r where "r \<in> set (db_jobs d)" "?P r" "job_id r = job_id j" by auto
    with distinct_key_eq [OF k this(1) that] show "?P j" by simp
  qed (use that in auto)
  then have jobs: "db_jobs d' = map (\<lambda>j. if ?P j then recovered_row now max_retries delay j else j) (db_jobs d)"
    unfolding r(4) by (intro map_cong) auto
  have "recover_expired_leases locked now max_retries delay d = (Inr obs, d')"
    by (simp add: recover_expired_leases_def transaction_def bind_tx_def read_tx_def r(1))
  moreover have "map (\<lambda>x. (lr_job_id x, lr_status x)) obs =
      map (\<lambda>j. (job_id j, job_status (recovered_row now max_retries delay j))) ?js"
    unfolding map_pair_zip using r(2,3) by simp
  ultimately show ?thesis using jobs by blast
qed

section \<open>Fencing\<close>

definition owns :: "uuid \<Rightarrow> uuid \<Rightarrow> nat \<Rightarrow> db \<Rightarrow> bool" where
  "owns i t n d \<longleftrightarrow>
     (\<exists>j \<in> set (db_jobs d). job_id j = i \<and> job_tenant_id j = t \<and> job_attempt_count j = n \<and> job_status j = J_running)"

lemma get_job_total:
  assumes "workflow_wf d"
  shows "\<exists>r. get_job i t n d = Inr r"
  unfolding get_job_def
proof (rule scalar_total)
  show "distinct (db_jobs d)" using assms by (simp add: workflow_wf_def db_keys_def distinct_map)
qed (use wf_job_unique [OF assms] in blast)

lemma owned_job_lost:
  assumes "workflow_wf d" "\<not> owns i t n d"
  shows "owned_job msg i t n d = (Inl (JobLeaseLostError msg), d)"
proof -
  obtain r where r: "get_job i t n d = Inr r" using get_job_total [OF assms(1)] by blast
  show ?thesis
  proof (cases r)
    case None
    then show ?thesis using r by (simp add: owned_job_def bind_tx_def read_tx_def raise_tx_def)
  next
    case (Some j)
    then have "job_status j \<noteq> J_running" using get_job_SomeD [of i t n d j] r assms(2) by (auto simp: owns_def)
    then show ?thesis using r Some by (simp add: owned_job_def bind_tx_def read_tx_def raise_tx_def)
  qed
qed

lemma transaction_raises: "m d = (Inl e, d) \<Longrightarrow> transaction (bind_tx m f) d = (Inl e, d)"
  by (simp add: transaction_def bind_tx_def)

definition refused :: "'a res \<times> db \<Rightarrow> db \<Rightarrow> bool" where
  "refused x d \<longleftrightarrow> (\<exists>msg. x = (Inl (JobLeaseLostError msg), d))"

lemma writes_refused:
  assumes "workflow_wf d" "\<not> owns i t n d"
  shows "refused (mark_terminal i s now t n result err d) d"
    "refused (record_awaiting_approval_result i summary t n d) d"
    "refused (schedule_retry i err' available t n d) d"
    "refused (get_side_effect_marker i t n d) d"
  using owned_job_lost [OF assms]
  by (auto simp: refused_def mark_terminal_def record_awaiting_approval_result_def schedule_retry_def
      get_side_effect_marker_def transaction_raises bind_tx_def)

lemma renew_refused:
  assumes "workflow_wf d" "\<not> owns i t n d"
  shows "renew_lease i t n lease_until d = (Inr False, d)"
proof -
  obtain r where r: "get_job i t n d = Inr r" using get_job_total [OF assms(1)] by blast
  show ?thesis
  proof (cases r)
    case None
    then show ?thesis using r by (simp add: renew_lease_def transaction_def bind_tx_def read_tx_def ret_tx_def)
  next
    case (Some j)
    then have "job_status j \<noteq> J_running" using get_job_SomeD [of i t n d j] r assms(2) by (auto simp: owns_def)
    then show ?thesis using r Some by (simp add: renew_lease_def transaction_def bind_tx_def read_tx_def ret_tx_def)
  qed
qed

end
