(* ===== verification/Intake_Lifecycle.thy ===== *)
theory Intake_Lifecycle
  imports Intake Approval_Lifecycle Job_Queue
begin

text \<open>
  Enqueueing evolves the workflow, and a request that was accepted stays accepted: while the store
  evolves, the same request finds the same job and a different request under the same key is refused.
\<close>

section \<open>Reading an accepted request\<close>

text \<open>
  A request with a given content hash is accepted under a key as job \<open>i\<close>: the record exists and the
  job's frozen profile resolves for the tenant.
\<close>

definition accepted :: "intake_env \<Rightarrow> uuid \<Rightarrow> string \<Rightarrow> string \<Rightarrow> string \<Rightarrow> uuid \<Rightarrow> uuid \<Rightarrow> db \<Rightarrow> bool" where
  "accepted env t slug k h i trace d \<longleftrightarrow>
     (t, k, h, Some i) \<in> requests d \<and>
     (\<exists>j \<in> set (db_jobs d). job_id j = i \<and> job_tenant_id j = t \<and> job_trace_id j = trace \<and>
        (\<exists>p. resolve_persisted_profile (iv_profiles env) (job_tenant_config_snapshot j)
           (PStr (job_tenant_config_sha256 j)) (Some slug) = Inr p))"

lemma accepted_evolves:
  assumes "accepted env t slug k h i trace d" "evolves d d'"
  shows "accepted env t slug k h i trace d'"
proof -
  from assms(1) obtain j p where j: "j \<in> set (db_jobs d)" "job_id j = i" "job_tenant_id j = t" "job_trace_id j = trace"
    "resolve_persisted_profile (iv_profiles env) (job_tenant_config_snapshot j)
       (PStr (job_tenant_config_sha256 j)) (Some slug) = Inr p"
    by (auto simp: accepted_def)
  from assms(2) j(1) obtain j' where j': "j' \<in> set (db_jobs d')" "job_edge\<^sup>*\<^sup>* j j'"
    by (auto simp: evolves_def)
  from job_edges_identity [OF j'(2)] j j'(1) have "\<exists>j \<in> set (db_jobs d'). job_id j = i \<and> job_tenant_id j = t \<and>
      job_trace_id j = trace \<and> (\<exists>p. resolve_persisted_profile (iv_profiles env) (job_tenant_config_snapshot j)
         (PStr (job_tenant_config_sha256 j)) (Some slug) = Inr p)"
    by (intro bexI [of _ j']) (auto simp: job_identity_def)
  moreover have "(t, k, h, Some i) \<in> requests d'"
    using assms by (auto simp: accepted_def evolves_def)
  ultimately show ?thesis by (simp add: accepted_def)
qed

lemma accepted_lookup:
  assumes "workflow_wf d" "(t, k, h, i) \<in> requests d"
  obtains r where "get_idempotency_for_tenant t k d = Inr (Some r)" "idr_request_hash r = h" "idr_job_id r = i"
proof -
  from assms(2) obtain r where r: "r \<in> set (db_idempotency d)" "request_of r = (t, k, h, i)"
    by (auto simp: requests_def)
  have "distinct (map (\<lambda>r. (idr_tenant_id r, idr_key r)) (db_idempotency d))"
    using assms(1) by (simp add: workflow_wf_def db_keys_def)
  then have "get_idempotency_for_tenant t k d = Inr (Some r)"
    unfolding get_idempotency_for_tenant_def using r
    by (intro scalar_present [where f = "\<lambda>r. (idr_tenant_id r, idr_key r)"]) (auto simp: request_of_def)
  with that r show ?thesis by (auto simp: request_of_def)
qed

text \<open>Looking an accepted request up again finds the job and changes nothing.\<close>

lemma existing_result_accepted:
  assumes "workflow_wf d" "accepted env (ec_tenant_id c) (ec_tenant_slug c) k h i trace d"
    and "idr_request_hash r = h" "idr_job_id r = Some i"
  shows "\<exists>es. existing_result env r h c d = (Inr (\<lparr>er_job_id = i, er_created = False, er_trace_id = trace\<rparr>, es), d)"
proof -
  from assms(2) obtain j p where j: "j \<in> set (db_jobs d)" "job_id j = i" "job_tenant_id j = ec_tenant_id c"
    "job_trace_id j = trace"
    and p: "resolve_persisted_profile (iv_profiles env) (job_tenant_config_snapshot j)
       (PStr (job_tenant_config_sha256 j)) (Some (ec_tenant_slug c)) = Inr p"
    by (auto simp: accepted_def)
  from observation_identity_present [OF assms(1) j(1) persisted_is_dict [OF p]] j(2,3,4) p assms(3,4) show ?thesis
    by (simp add: existing_result_def bind_tx_def read_tx_def lift_res_def ret_tx_def)
qed

lemma enqueue_body_again:
  assumes "workflow_wf d" "accepted env (ec_tenant_id c) (ec_tenant_slug c) k h i trace d"
  shows "\<exists>es. enqueue_body env c p k h d = (Inr (\<lparr>er_job_id = i, er_created = False, er_trace_id = trace\<rparr>, es), d)"
proof -
  obtain r where r: "get_idempotency_for_tenant (ec_tenant_id c) k d = Inr (Some r)" "idr_request_hash r = h"
    "idr_job_id r = Some i"
    using assms(2) by (auto simp: accepted_def intro: accepted_lookup [OF assms(1)])
  with existing_result_accepted [OF assms r(2,3)] show ?thesis
    by (simp add: enqueue_body_def bind_tx_def read_tx_def)
qed

lemma enqueue_body_conflict:
  assumes "workflow_wf d" "(ec_tenant_id c, k, h, i) \<in> requests d" "h' \<noteq> h"
  shows "enqueue_body env c p k h' d = (Inl (IdempotencyConflict ''idempotency key conflicts with request''), d)"
proof -
  obtain r where "get_idempotency_for_tenant (ec_tenant_id c) k d = Inr (Some r)" "idr_request_hash r = h"
    using accepted_lookup [OF assms(1,2)] by blast
  then show ?thesis
    using assms(3) by (simp add: enqueue_body_def existing_result_def bind_tx_def read_tx_def raise_tx_def)
qed

section \<open>Accepting a request\<close>

lemma existing_result_Inr:
  assumes "existing_result env r h c d = (Inr (x, es), d')"
  shows "d' = d \<and> \<not> er_created x \<and> idr_request_hash r = h \<and> idr_job_id r = Some (er_job_id x) \<and>
    (\<exists>j p. j \<in> set (db_jobs d) \<and> job_id j = er_job_id x \<and> job_tenant_id j = ec_tenant_id c \<and>
       job_trace_id j = er_trace_id x \<and>
       resolve_persisted_profile (iv_profiles env) (job_tenant_config_snapshot j)
         (PStr (job_tenant_config_sha256 j)) (Some (ec_tenant_slug c)) = Inr p)"
proof -
  from assms obtain i id where i: "idr_request_hash r = h" "idr_job_id r = Some i"
    "get_observation_identity i (ec_tenant_id c) d = Inr (Some id)"
    and x: "d' = d" "x = \<lparr>er_job_id = i, er_created = False, er_trace_id = oi_trace_id id\<rparr>"
    "\<exists>p. resolve_persisted_profile (iv_profiles env) (oi_tenant_config_snapshot id)
         (PStr (oi_tenant_config_sha256 id)) (Some (ec_tenant_slug c)) = Inr p"
    by (auto simp: existing_result_def tx_iffs lift_res_Inr split: if_splits option.splits)
  from i(3) obtain j where "scalar_one_or_none (\<lambda>j. job_id j = i \<and> job_tenant_id j = ec_tenant_id c) (db_jobs d) =
      Inr (Some j)" "id = \<lparr>oi_trace_id = job_trace_id j, oi_tenant_config_snapshot = job_tenant_config_snapshot j,
      oi_tenant_config_sha256 = job_tenant_config_sha256 j\<rparr>"
    by (auto simp: get_observation_identity_def bind_res_Inr_iff split: option.splits if_splits)
  with scalar_one_or_none_SomeD [OF this(1)] i x show ?thesis by auto
qed

lemma insert_request_Inr:
  assumes "workflow_wf d" "insert_request c p k h d = (Inr (x, es), d')"
  shows "evolves d d' \<and> er_created x \<and> (ec_tenant_id c, k, h, Some (er_job_id x)) \<in> requests d' \<and>
    (\<exists>j \<in> set (db_jobs d'). job_id j = er_job_id x \<and> job_tenant_id j = ec_tenant_id c \<and>
       job_trace_id j = er_trace_id x \<and> job_status j = J_queued \<and> job_attempt_count j = 0 \<and>
       job_source_snapshot j = PDict (source_snapshot (ec_source c)) \<and>
       job_tenant_config_snapshot j = PDict (rp_snapshot p) \<and> job_tenant_config_sha256 j = rp_sha256 p)"
proof -
  define i where "i = db_uuids d (db_next d)"
  define j where "j = \<lparr>job_id = i, job_tenant_id = ec_tenant_id c, job_trace_id = ec_trace_id c, job_status = J_queued,
    job_source_snapshot = PDict (source_snapshot (ec_source c)), job_tenant_config_snapshot = PDict (rp_snapshot p),
    job_tenant_config_sha256 = rp_sha256 p,
    job_risk_signals = PDict [(''safety_or_legal_risk'', PBool (ec_safety_or_legal_risk c))],
    job_attempt_count = 0, job_available_at = db_now d, job_lease_expires_at = None, job_started_at = None,
    job_finished_at = None, job_side_effect_committed_at = None, job_result = None, job_error_code = None,
    job_created_at = db_now d\<rparr>"
  define e where "e = d\<lparr>db_next := Suc (db_next d), db_jobs := db_jobs d @ [j]\<rparr>"
  define row where "row = \<lparr>idr_tenant_id = ec_tenant_id c, idr_key = k, idr_request_hash = h, idr_job_id = Some i,
    idr_case_id = None, idr_response = []\<rparr>"
  from assms(2) have new: "ec_trace_id c \<notin> job_trace_id ` set (db_jobs d)"
    and keys: "\<forall>r \<in> set (db_idempotency d). idr_tenant_id r = ec_tenant_id c \<longrightarrow> idr_key r \<noteq> k \<and> idr_job_id r \<noteq> Some i"
    and x: "x = \<lparr>er_job_id = i, er_created = True, er_trace_id = ec_trace_id c\<rparr>"
    and d': "d' = e\<lparr>db_idempotency := db_idempotency e @ [row]\<rparr>"
    by (auto simp: insert_request_def create_job_def create_idempotency_record_def tx_iffs i_def j_def e_def row_def)
  have ev: "evolves d e"
    unfolding e_def using new
    by (intro insert_job_evolves [OF assms(1)]) (auto simp: j_def i_def job_ok_def)
  have "used_ids d' = used_ids e" by (simp add: d' used_ids_def)
  moreover have "db_keys e" using ev by (simp add: evolves_def workflow_wf_def)
  ultimately have "db_keys d'"
    using keys by (auto simp: db_keys_def d' row_def e_def)
  then have "workflow_wf d'"
    using ev by (simp add: evolves_def workflow_wf_def d' linked_def events_ok_def)
  then have "evolves d d'"
    using ev by (auto simp: evolves_def d' requests_def)
  moreover have "j \<in> set (db_jobs d')" by (simp add: d' e_def)
  moreover have "(ec_tenant_id c, k, h, Some i) \<in> requests d'"
    by (simp add: d' requests_def request_of_def row_def)
  moreover have "job_id j = i \<and> job_tenant_id j = ec_tenant_id c \<and> job_trace_id j = ec_trace_id c \<and>
      job_status j = J_queued \<and> job_attempt_count j = 0 \<and>
      job_source_snapshot j = PDict (source_snapshot (ec_source c)) \<and>
      job_tenant_config_snapshot j = PDict (rp_snapshot p) \<and> job_tenant_config_sha256 j = rp_sha256 p"
    by (simp add: j_def)
  ultimately show ?thesis unfolding x by (intro conjI bexI [of _ j]) simp_all
qed

lemma enqueue_body_Inr:
  assumes wf: "workflow_wf d" and r: "enqueue_body env c p k h d = (Inr (x, es), d')"
    and again: "resolve_persisted_profile (iv_profiles env) (PDict (rp_snapshot p)) (PStr (rp_sha256 p))
      (Some (ec_tenant_slug c)) = Inr p"
  shows "evolves d d' \<and> accepted env (ec_tenant_id c) (ec_tenant_slug c) k h (er_job_id x) (er_trace_id x) d'"
proof -
  from r consider row where "get_idempotency_for_tenant (ec_tenant_id c) k d = Inr (Some row)"
      "existing_result env row h c d = (Inr (x, es), d')"
    | "insert_request c p k h d = (Inr (x, es), d')"
    by (auto simp: enqueue_body_def tx_iffs nested_tx_Inr split: option.splits)
  then show ?thesis
  proof cases
    case 1
    then have row: "row \<in> set (db_idempotency d)" "idr_tenant_id row = ec_tenant_id c" "idr_key row = k"
      by (auto simp: get_idempotency_for_tenant_def dest: scalar_one_or_none_SomeD)
    note ex = existing_result_Inr [OF 1(2)]
    have "(ec_tenant_id c, k, h, Some (er_job_id x)) \<in> requests d"
      using row ex unfolding requests_def by (intro image_eqI [of _ _ row]) (auto simp: request_of_def)
    with ex wf show ?thesis by (auto simp: accepted_def evolves_refl)
  next
    case 2
    from insert_request_Inr [OF wf 2] again show ?thesis by (auto simp: accepted_def)
  qed
qed

section \<open>The service\<close>

definition loads_valid :: "intake_env \<Rightarrow> bool" where
  "loads_valid env \<longleftrightarrow> (\<forall>s c. iv_load env s = Inr c \<longrightarrow> valid_tenant_config c)"

lemma resolved_again:
  assumes "loads_valid env" "resolve_profile (iv_profiles env) (iv_load env) slug = Inr p"
  shows "resolve_persisted_profile (iv_profiles env) (PDict (rp_snapshot p)) (PStr (rp_sha256 p)) (Some slug) = Inr p"
  using assms by (intro resolve_persisted_again [where load = "iv_load env"]) (auto simp: loads_valid_def)

lemma enqueue_profile_Inr:
  assumes "enqueue_profile env c p rh d = (Inr x, es, d')"
  obtains k h where "validate_idempotency_key (ec_idempotency_key c) = Inr k"
    "(case rh of Some h \<Rightarrow> Inr h | None \<Rightarrow> canonical_intake_hash (iv_profiles env) (ec_source c)) = Inr h"
    "enqueue_body env c p k h d = (Inr (x, es), d')"
proof -
  obtain k where k: "validate_idempotency_key (ec_idempotency_key c) = Inr k"
    using assms by (auto simp: enqueue_profile_def split: sum.splits)
  obtain h where h: "(case rh of Some h \<Rightarrow> Inr h | None \<Rightarrow> canonical_intake_hash (iv_profiles env) (ec_source c)) = Inr h"
    using assms k by (cases "case rh of Some h \<Rightarrow> Inr h | None \<Rightarrow> canonical_intake_hash (iv_profiles env) (ec_source c)")
      (auto simp: enqueue_profile_def)
  have "transaction (enqueue_body env c p k h) d = (Inr (x, es), d')"
    using assms k h by (auto simp: enqueue_profile_def split: prod.splits sum.splits)
  with that k h show ?thesis by (simp add: transaction_Inr)
qed

lemma enqueue_profile_Inl: "enqueue_profile env c p rh d = (Inl e, es, d') \<Longrightarrow> d' = d"
  by (auto simp: enqueue_profile_def dest: transaction_Inl split: sum.splits prod.splits)

lemma enqueue_Inl:
  assumes "enqueue env c d = (Inl e, es, d')"
  shows "d' = d"
  using assms by (auto simp: enqueue_def dest: enqueue_profile_Inl split: sum.splits prod.splits)

lemma enqueue_Inr:
  assumes "enqueue env c d = (Inr x, es, d')"
  obtains p k h es' where "resolve_profile (iv_profiles env) (iv_load env) (ec_tenant_slug c) = Inr p"
    "validate_idempotency_key (ec_idempotency_key c) = Inr k"
    "canonical_intake_hash (iv_profiles env) (ec_source c) = Inr h"
    "enqueue_body env c p k h d = (Inr (x, es'), d')"
proof -
  obtain p where p: "resolve_profile (iv_profiles env) (iv_load env) (ec_tenant_slug c) = Inr p"
    using assms by (auto simp: enqueue_def split: sum.splits)
  then obtain es' where "enqueue_profile env c p None d = (Inr x, es', d')"
    using assms by (auto simp: enqueue_def split: prod.splits)
  from enqueue_profile_Inr [OF this] that [OF p] show ?thesis by auto
qed

lemma enqueue_accepts:
  assumes "workflow_wf d" "loads_valid env" "enqueue env c d = (Inr x, es, d')"
  obtains k h where "validate_idempotency_key (ec_idempotency_key c) = Inr k"
    "canonical_intake_hash (iv_profiles env) (ec_source c) = Inr h" "evolves d d'"
    "accepted env (ec_tenant_id c) (ec_tenant_slug c) k h (er_job_id x) (er_trace_id x) d'"
proof -
  obtain p k h es' where r: "resolve_profile (iv_profiles env) (iv_load env) (ec_tenant_slug c) = Inr p"
    "validate_idempotency_key (ec_idempotency_key c) = Inr k"
    "canonical_intake_hash (iv_profiles env) (ec_source c) = Inr h"
    "enqueue_body env c p k h d = (Inr (x, es'), d')"
    using enqueue_Inr [OF assms(3)] by blast
  from enqueue_body_Inr [OF assms(1) r(4) resolved_again [OF assms(2) r(1)]] that r show ?thesis by blast
qed

lemma enqueue_evolves:
  assumes "workflow_wf d" "loads_valid env" "enqueue env c d = (r, es, d')"
  shows "evolves d d'"
proof (cases r)
  case (Inl e)
  then show ?thesis using assms enqueue_Inl evolves_refl by blast
next
  case (Inr x)
  then show ?thesis using assms enqueue_accepts by metis
qed

lemma enqueue_again:
  assumes "workflow_wf d" "resolve_profile (iv_profiles env) (iv_load env) (ec_tenant_slug c) = Inr p"
    and "validate_idempotency_key (ec_idempotency_key c) = Inr k"
    and "canonical_intake_hash (iv_profiles env) (ec_source c) = Inr h"
    and "accepted env (ec_tenant_id c) (ec_tenant_slug c) k h i trace d"
  shows "\<exists>es. enqueue env c d = (Inr \<lparr>er_job_id = i, er_created = False, er_trace_id = trace\<rparr>, es, d)"
proof -
  obtain es where "enqueue_body env c p k h d = (Inr (\<lparr>er_job_id = i, er_created = False, er_trace_id = trace\<rparr>, es), d)"
    using enqueue_body_again [OF assms(1,5)] by blast
  then show ?thesis using assms(2,3,4) by (simp add: enqueue_def enqueue_profile_def transaction_def)
qed

lemma enqueue_conflict:
  assumes "workflow_wf d" "resolve_profile (iv_profiles env) (iv_load env) (ec_tenant_slug c) = Inr p"
    and "validate_idempotency_key (ec_idempotency_key c) = Inr k"
    and "canonical_intake_hash (iv_profiles env) (ec_source c) = Inr h'"
    and "(ec_tenant_id c, k, h, i) \<in> requests d" "h' \<noteq> h"
  shows "\<exists>es. enqueue env c d = (Inl (IdempotencyConflict ''idempotency key conflicts with request''), es, d)"
  using assms(2,3,4) enqueue_body_conflict [OF assms(1,5,6)]
  by (simp add: enqueue_def enqueue_profile_def transaction_def)

section \<open>Documents\<close>

lemma document_command_simps [simp]:
  "ec_tenant_id (document_command c doc) = ed_tenant_id c" "ec_tenant_slug (document_command c doc) = ed_tenant_slug c"
  "ec_idempotency_key (document_command c doc) = ed_idempotency_key c" "ec_trace_id (document_command c doc) = ed_trace_id c"
  by (simp_all add: document_command_def)

lemma existing_document_result_keeps: "existing_document_result env c k h d = (r, d') \<Longrightarrow> d' = d"
  by (cases r)
     (auto simp: existing_document_result_def tx_iffs dest: transaction_Inl existing_result_Inr split: option.splits)

lemma existing_document_result_Some:
  assumes "workflow_wf d" "existing_document_result env c k h d = (Inr (Some (x, es)), d')"
  shows "accepted env (ed_tenant_id c) (ed_tenant_slug c) k h (er_job_id x) (er_trace_id x) d"
proof -
  from assms(2) obtain row where row: "get_idempotency_for_tenant (ed_tenant_id c) k d = Inr (Some row)"
    and ex: "existing_result env row h (document_command c None) d = (Inr (x, es), d')"
    by (auto simp: existing_document_result_def tx_iffs split: option.splits)
  from row have r: "row \<in> set (db_idempotency d)" "idr_tenant_id row = ed_tenant_id c" "idr_key row = k"
    by (auto simp: get_idempotency_for_tenant_def dest: scalar_one_or_none_SomeD)
  note ex' = existing_result_Inr [OF ex]
  have "(ed_tenant_id c, k, h, Some (er_job_id x)) \<in> requests d"
    using r ex' unfolding requests_def by (intro image_eqI [of _ _ row]) (auto simp: request_of_def)
  with ex' show ?thesis by (auto simp: accepted_def)
qed

lemma bound_source_Inr: "bound_source env c p = Inr command \<Longrightarrow> \<exists>doc. command = document_command c (Some doc)"
  by (auto simp: bound_source_def bind_res_Inr_iff split: option.splits if_splits)

lemma document_identity_key:
  "document_identity env c = Inr (k, h) \<Longrightarrow> validate_idempotency_key (ed_idempotency_key c) = Inr k"
  by (auto simp: document_identity_def bind_res_Inr_iff)

lemma enqueue_document_cases:
  assumes "enqueue_document env c d = (r, es, d')"
  obtains (error) e where "r = Inl e" "d' = d"
  | (known) k h x es' where "document_identity env c = Inr (k, h)"
      "existing_document_result env c k h d = (Inr (Some (x, es')), d)" "r = Inr x" "d' = d"
  | (fresh) k h p doc x es' where "document_identity env c = Inr (k, h)"
      "resolve_profile (iv_profiles env) (iv_load env) (ed_tenant_slug c) = Inr p"
      "enqueue_body env (document_command c (Some doc)) p k h d = (Inr (x, es'), d')" "r = Inr x"
proof (cases "document_identity env c")
  case (Inl e)
  with assms have "r = Inl e" "d' = d" by (simp_all add: enqueue_document_def)
  with error show ?thesis by blast
next
  case (Inr y)
  then obtain k h where kh: "document_identity env c = Inr (k, h)" by (cases y) auto
  obtain q e where q: "existing_document_result env c k h d = (q, e)" by fastforce
  with existing_document_result_keeps have e: "e = d" by blast
  let ?res = "resolve_profile (iv_profiles env) (iv_load env) (ed_tenant_slug c)"
  consider (bad) x where "q = Inl x" | (old) x es' where "q = Inr (Some (x, es'))" | (new) "q = Inr None"
    by (cases q) (auto, metis option.exhaust surj_pair)
  then show ?thesis
  proof cases
    case bad
    with assms kh q e error show ?thesis by (auto simp: enqueue_document_def Let_def split: if_splits sum.splits)
  next
    case old
    then have "r = Inr x" "d' = d" using assms kh q e by (simp_all add: enqueue_document_def Let_def)
    with known [OF kh] q e old show ?thesis by blast
  next
    case new
    show ?thesis
    proof (cases ?res)
      case (Inl x)
      then have "r = Inl x" "d' = d" using assms kh q e new by (simp_all add: enqueue_document_def Let_def)
      with error show ?thesis by blast
    next
      case (Inr p)
      note p = this
      show ?thesis
      proof (cases "bound_source env c p")
        case (Inl x)
        then have "r = Inl x" "d' = d" using assms kh q e new p by (simp_all add: enqueue_document_def Let_def)
        with error show ?thesis by blast
      next
        case (Inr command)
        from bound_source_Inr [OF this] obtain doc where doc: "command = document_command c (Some doc)" by blast
        obtain es' where ep: "enqueue_profile env (document_command c (Some doc)) p (Some h) d = (r, es', d')"
          using assms kh q e new p Inr doc by (auto simp: enqueue_document_def Let_def split: prod.splits)
        show ?thesis
        proof (cases r)
          case (Inl x)
          with ep enqueue_profile_Inl error show ?thesis by blast
        next
          case (Inr x)
          from enqueue_profile_Inr [OF ep [unfolded Inr]] kh
          have "enqueue_body env (document_command c (Some doc)) p k h d = (Inr (x, es'), d')"
            by (auto simp: document_identity_key)
          with fresh kh p Inr show ?thesis by blast
        qed
      qed
    qed
  qed
qed

lemma enqueue_document_accepts:
  assumes "workflow_wf d" "loads_valid env" "enqueue_document env c d = (Inr x, es, d')"
  obtains k h where "document_identity env c = Inr (k, h)" "evolves d d'"
    "accepted env (ed_tenant_id c) (ed_tenant_slug c) k h (er_job_id x) (er_trace_id x) d'"
  using assms(3)
proof (cases rule: enqueue_document_cases)
  case (known k h x es')
  with existing_document_result_Some [OF assms(1)] that evolves_refl [OF assms(1)] show ?thesis by auto
next
  case (fresh k h p doc x es')
  from enqueue_body_Inr [OF assms(1) fresh(3)] resolved_again [OF assms(2) fresh(2)] that fresh show ?thesis by auto
qed auto

lemma enqueue_document_evolves:
  assumes "workflow_wf d" "loads_valid env" "enqueue_document env c d = (r, es, d')"
  shows "evolves d d'"
  using assms(3)
proof (cases rule: enqueue_document_cases)
  case error
  then show ?thesis using assms(1) by (simp add: evolves_refl)
next
  case known
  then show ?thesis using assms(1) by (simp add: evolves_refl)
next
  case (fresh k h p doc x es')
  then show ?thesis using enqueue_document_accepts [OF assms(1,2)] assms(3) by metis
qed

lemma enqueue_document_again:
  assumes "workflow_wf d" "document_identity env c = Inr (k, h)"
    and "accepted env (ed_tenant_id c) (ed_tenant_slug c) k h i trace d"
  shows "\<exists>es. enqueue_document env c d = (Inr \<lparr>er_job_id = i, er_created = False, er_trace_id = trace\<rparr>, es, d)"
proof -
  obtain row where row: "get_idempotency_for_tenant (ed_tenant_id c) k d = Inr (Some row)" "idr_request_hash row = h"
    "idr_job_id row = Some i"
    using assms(3) by (auto simp: accepted_def intro: accepted_lookup [OF assms(1)])
  obtain es where "existing_result env row h (document_command c None) d =
      (Inr (\<lparr>er_job_id = i, er_created = False, er_trace_id = trace\<rparr>, es), d)"
    using existing_result_accepted [OF assms(1), of env "document_command c None" k h i trace row] assms(3) row(2,3) by auto
  then have "existing_document_result env c k h d =
      (Inr (Some (\<lparr>er_job_id = i, er_created = False, er_trace_id = trace\<rparr>, es)), d)"
    using row(1) by (simp add: existing_document_result_def transaction_def bind_tx_def read_tx_def ret_tx_def)
  then show ?thesis using assms(2) by (simp add: enqueue_document_def Let_def)
qed

end
