(* ===== verification/System.thy ===== *)
theory System
  imports Port_Safety Intake_Lifecycle
begin

text \<open>
  The processes around the database as one step relation: the intake service, the worker's
  transactions, the methods of the tool port that a running agent calls, human decisions and the
  clock. Any interleaving of the transactions of any number of workers, runs and operators is a path
  of this relation. What such a path keeps is proved once, in the locale \<open>lifecycle\<close>.
\<close>

section \<open>Steps\<close>

inductive db_step :: "intake_env \<Rightarrow> decision_env \<Rightarrow> db \<Rightarrow> db \<Rightarrow> bool" for ienv denv where
  tick: "db_now d \<le> now \<Longrightarrow> db_step ienv denv d (d\<lparr>db_now := now\<rparr>)"
| enqueue: "enqueue ienv c d = (r, es, d') \<Longrightarrow> db_step ienv denv d d'"
| enqueue_document: "enqueue_document ienv c d = (r, es, d') \<Longrightarrow> db_step ienv denv d d'"
| expire: "expire_due locked now limit d = (r, d') \<Longrightarrow> db_step ienv denv d d'"
| recover: "recover_expired_leases locked now max_retries delay d = (r, d') \<Longrightarrow> db_step ienv denv d d'"
| claim: "claim_next locked now lease_until excluded d = (r, d') \<Longrightarrow> db_step ienv denv d d'"
| renew: "renew_lease i t n lease_until d = (r, d') \<Longrightarrow> db_step ienv denv d d'"
| succeed: "mark_succeeded i result now t n d = (r, d') \<Longrightarrow> db_step ienv denv d d'"
| fail: "mark_failed i err now t n d = (r, d') \<Longrightarrow> db_step ienv denv d d'"
| fail_uncertain: "mark_failed_uncertain i err now t n d = (r, d') \<Longrightarrow> db_step ienv denv d d'"
| await: "record_awaiting_approval_result i result t n d = (r, d') \<Longrightarrow> db_step ienv denv d d'"
| retry: "schedule_retry i err available t n d = (r, d') \<Longrightarrow> db_step ienv denv d d'"
| find_customer: "pg_find_customer (claimed_env i n w) t email ext c d = (r1, d') \<Longrightarrow> db_step ienv denv d d'"
| case_exists: "pg_case_exists (claimed_env i n w) t case_id c d = (r2, d') \<Longrightarrow> db_step ienv denv d d'"
| create_case: "pg_create_case (claimed_env i n w) t src customer fs c d = (r3, d') \<Longrightarrow> db_step ienv denv d d'"
| update_case: "pg_update_case_fields (claimed_env i n w) t case_id fs c d = (r4, d') \<Longrightarrow> db_step ienv denv d d'"
| draft: "pg_create_reply_draft (claimed_env i n w) t job rcp subject body c d = (r5, d') \<Longrightarrow> db_step ienv denv d d'"
| flag: "pg_flag_for_review (claimed_env i n w) t job reason c d = (r5, d') \<Longrightarrow> db_step ienv denv d d'"
| request: "pg_request_approval (claimed_env i n w) t act reason c d = (r6, d') \<Longrightarrow> db_step ienv denv d d'"
| decide: "decide denv i op req now d = (r7, obs, d') \<Longrightarrow> db_step ienv denv d d'"

text \<open>The database as it is deployed.\<close>

definition empty_db :: "(nat \<Rightarrow> uuid) \<Rightarrow> customer_row list \<Rightarrow> datetime \<Rightarrow> db" where
  "empty_db uuids customers now =
     \<lparr>db_jobs = [], db_approvals = [], db_approval_events = [], db_idempotency = [], db_cases = [],
      db_case_events = [], db_customers = customers, db_artifacts = [], db_uuids = uuids, db_next = 0,
      db_now = now\<rparr>"

lemma empty_db_wf: "inj uuids \<Longrightarrow> workflow_wf (empty_db uuids cs now)"
  by (simp add: workflow_wf_def empty_db_def db_keys_def used_ids_def linked_def events_ok_def)

lemma op_safe_evolves: "op_safe t m \<Longrightarrow> workflow_wf d \<Longrightarrow> m d = (r, d') \<Longrightarrow> evolves d d'"
  by (simp add: op_safe_def safe_change_def)

lemma tick_evolves:
  assumes "workflow_wf d"
  shows "evolves d (d\<lparr>db_now := now\<rparr>)"
  using assms by (intro workflow_wf_cong) (auto simp: workflow_wf_def db_keys_def used_ids_def requests_def)

lemma claimed_attempt: "pe_attempt_count (claimed_env i n w) = Some n"
  by (simp add: claimed_env_def)

lemma db_step_evolves:
  assumes "loads_valid ienv" "workflow_wf d" "db_step ienv denv d d'"
  shows "evolves d d'"
  using assms(3)
proof cases
  case tick
  then show ?thesis using tick_evolves [OF assms(2)] by simp
next
  case create_case
  then show ?thesis using op_safe_evolves [OF create_case_safe [OF claimed_attempt] assms(2)] by blast
next
  case update_case
  then show ?thesis using op_safe_evolves [OF update_case_fields_safe [OF claimed_attempt] assms(2)] by blast
next
  case draft
  then show ?thesis
    using op_safe_evolves [OF create_artifact_safe [OF claimed_attempt] assms(2)] unfolding pg_create_reply_draft_def by blast
next
  case flag
  then show ?thesis
    using op_safe_evolves [OF create_artifact_safe [OF claimed_attempt] assms(2)] unfolding pg_flag_for_review_def by blast
next
  case succeed
  then show ?thesis unfolding mark_succeeded_def by (rule mark_terminal_evolves [OF assms(2), rotated]) simp
next
  case fail
  then show ?thesis unfolding mark_failed_def by (rule mark_terminal_evolves [OF assms(2), rotated]) simp
next
  case fail_uncertain
  then show ?thesis unfolding mark_failed_uncertain_def by (rule mark_terminal_evolves [OF assms(2), rotated]) simp
next
  case enqueue
  then show ?thesis by (rule enqueue_evolves [OF assms(2,1)])
next
  case enqueue_document
  then show ?thesis by (rule enqueue_document_evolves [OF assms(2,1)])
next
  case expire
  then show ?thesis by (rule expire_due_evolves [OF assms(2)])
next
  case recover
  then show ?thesis by (rule recover_expired_leases_evolves [OF assms(2)])
next
  case claim
  then show ?thesis by (rule claim_next_evolves [OF assms(2)])
next
  case renew
  then show ?thesis by (rule renew_lease_evolves [OF assms(2)])
next
  case await
  then show ?thesis by (rule record_awaiting_evolves [OF assms(2)])
next
  case retry
  then show ?thesis by (rule schedule_retry_evolves [OF assms(2)])
next
  case find_customer
  then show ?thesis by (rule op_safe_evolves [OF find_customer_safe assms(2)])
next
  case case_exists
  then show ?thesis by (rule op_safe_evolves [OF case_exists_safe assms(2)])
next
  case request
  then show ?thesis by (rule op_safe_evolves [OF request_approval_safe assms(2)])
next
  case decide
  then show ?thesis by (rule decide_evolves [OF assms(2)])
qed

section \<open>What every path keeps\<close>

definition lost :: "nat \<Rightarrow> job_row \<Rightarrow> bool" where
  "lost n j \<longleftrightarrow> n \<le> job_attempt_count j \<and> \<not> (job_status j = J_running \<and> job_attempt_count j = n)"

lemma terminal_edge: "job_edge j j' \<Longrightarrow> terminal (job_status j) \<Longrightarrow> j' = j"
  by (cases "job_status j") (auto simp: job_edge_def status_edge_simps)

lemma lost_edge: "job_edge j j' \<Longrightarrow> lost n j \<Longrightarrow> lost n j'"
  by (cases "job_status j") (auto simp: job_edge_def status_edge_simps lost_def split: if_splits)

lemma attempt_edge: "job_edge j j' \<Longrightarrow> job_attempt_count j \<le> job_attempt_count j'"
  by (auto simp: job_edge_def)

lemma frozen_edge:
  "approval_edge a a' \<Longrightarrow> decided (apr_status a) \<or> apr_status a = A_cancelled \<Longrightarrow> a' = a"
  by (cases "apr_status a") (auto simp: approval_edge_def approval_status_edge_simps)

lemma rtranclp_keeps: "r\<^sup>*\<^sup>* x y \<Longrightarrow> P x \<Longrightarrow> (\<And>x y. r x y \<Longrightarrow> P x \<Longrightarrow> P y) \<Longrightarrow> P y"
  by (induction rule: rtranclp_induct) auto

locale lifecycle =
  fixes step :: "db \<Rightarrow> db \<Rightarrow> bool"
  assumes step_evolves: "workflow_wf d \<Longrightarrow> step d d' \<Longrightarrow> evolves d d'"
begin

lemma path_evolves: "step\<^sup>*\<^sup>* d d' \<Longrightarrow> workflow_wf d \<Longrightarrow> evolves d d'"
proof (induction rule: rtranclp_induct)
  case base
  then show ?case by (rule evolves_refl)
next
  case (step y z)
  then have "evolves d y" by simp
  moreover have "evolves y z" using step(2) calculation by (intro step_evolves) (auto simp: evolves_def)
  ultimately show ?case by (rule evolves_trans)
qed

lemma path_wf: "step\<^sup>*\<^sup>* d d' \<Longrightarrow> workflow_wf d \<Longrightarrow> workflow_wf d'"
  using path_evolves by (simp add: evolves_def)

lemma path_job:
  assumes "step\<^sup>*\<^sup>* d d'" "workflow_wf d" "j \<in> set (db_jobs d)"
  obtains j' where "j' \<in> set (db_jobs d')" "job_edge\<^sup>*\<^sup>* j j'" "job_identity j' = job_identity j"
    "job_attempt_count j \<le> job_attempt_count j'"
proof -
  obtain j' where j': "j' \<in> set (db_jobs d')" "job_edge\<^sup>*\<^sup>* j j'"
    using path_evolves [OF assms(1,2)] assms(3) by (auto simp: evolves_def)
  moreover have "job_attempt_count j \<le> job_attempt_count j'"
    by (rule rtranclp_keeps [OF j'(2), where P = "\<lambda>r. job_attempt_count j \<le> job_attempt_count r"])
       (auto dest: attempt_edge)
  ultimately show ?thesis using that job_edges_identity by blast
qed

lemma terminal_frozen:
  assumes "step\<^sup>*\<^sup>* d d'" "workflow_wf d" "j \<in> set (db_jobs d)" "terminal (job_status j)"
  shows "j \<in> set (db_jobs d')"
proof -
  obtain j' where j': "j' \<in> set (db_jobs d')" "job_edge\<^sup>*\<^sup>* j j'" using assms(1,2,3) by (rule path_job)
  from j'(2) have "j' = j"
    by (rule rtranclp_keeps [where P = "\<lambda>r. r = j"]) (use assms(4) terminal_edge in auto)
  with j'(1) show ?thesis by simp
qed

lemma decided_frozen:
  assumes "step\<^sup>*\<^sup>* d d'" "workflow_wf d" "a \<in> set (db_approvals d)"
    "decided (apr_status a) \<or> apr_status a = A_cancelled"
  shows "a \<in> set (db_approvals d')"
proof -
  obtain a' where a': "a' \<in> set (db_approvals d')" "approval_edge\<^sup>*\<^sup>* a a'"
    using path_evolves [OF assms(1,2)] assms(3) by (auto simp: evolves_def)
  from a'(2) have "a' = a"
    by (rule rtranclp_keeps [where P = "\<lambda>r. r = a"]) (use assms(4) frozen_edge in auto)
  with a'(1) show ?thesis by simp
qed

lemma lost_for_good:
  assumes "step\<^sup>*\<^sup>* d d'" "workflow_wf d" "j \<in> set (db_jobs d)" "lost n j"
    "j' \<in> set (db_jobs d')" "job_id j' = job_id j"
  shows "lost n j'"
proof -
  obtain k where k: "k \<in> set (db_jobs d')" "job_edge\<^sup>*\<^sup>* j k" "job_identity k = job_identity j"
    using assms(1,2,3) by (rule path_job)
  from k(2) have "lost n k" by (rule rtranclp_keeps) (use assms(4) lost_edge in auto)
  moreover have "k = j'"
    using wf_job_unique [OF path_wf [OF assms(1,2)] k(1) assms(5)] k(3) assms(6) by (simp add: job_identity_def)
  ultimately show ?thesis by simp
qed

end

text \<open>The step relation for environments whose tenant files are valid is such a system.\<close>

definition valid_step :: "intake_env \<Rightarrow> decision_env \<Rightarrow> db \<Rightarrow> db \<Rightarrow> bool" where
  "valid_step ienv denv d d' \<longleftrightarrow> loads_valid ienv \<and> db_step ienv denv d d'"

interpretation service: lifecycle "valid_step ienv denv" for ienv denv
  by unfold_locales (auto simp: valid_step_def intro: db_step_evolves)

end
