(* ===== verification/Decisions.thy ===== *)
theory Decisions
  imports Approval_Lifecycle Job_Queue
begin

text \<open>
  What a human decision does: when the frozen action runs, what a late decision leaves behind, which
  errors change nothing, and what a repeated request finds.
\<close>

section \<open>The branches\<close>

definition resolves :: "approval_row \<Rightarrow> approval_row \<Rightarrow> bool" where
  "resolves a b \<longleftrightarrow>
     apr_id b = apr_id a \<and> apr_tenant_id b = apr_tenant_id a \<and> apr_job_id b = apr_job_id a \<and>
     apr_pending_action b = apr_pending_action a \<and> apr_tenant_config_sha256 b = apr_tenant_config_sha256 a \<and>
     apr_expires_at b = apr_expires_at a \<and> decided (apr_status b)"

text \<open>The approval is resolved; only an execution is recorded as one and touches business rows.\<close>

definition decision_frame :: "approval_row \<Rightarrow> approval_row \<Rightarrow> bool \<Rightarrow> db \<Rightarrow> db \<Rightarrow> bool" where
  "decision_frame a b executed d d' \<longleftrightarrow>
     b \<in> set (db_approvals d') \<and> resolves a b \<and>
     (\<forall>k. executions k (db_approval_events d') =
          executions k (db_approval_events d) + (if executed \<and> k = apr_id a then 1 else 0)) \<and>
     (\<forall>u. \<not> executed \<or> u \<noteq> apr_tenant_id a \<longrightarrow> tenant_rows u d' = tenant_rows u d)"

lemma workflow_update_frame:
  assumes "a \<in> set (db_approvals d)"
  shows "h a \<in> set (db_approvals (workflow_update i g (apr_id a) h es d))"
    "executions k (db_approval_events (workflow_update i g (apr_id a) h es d)) =
       executions k (db_approval_events d) + executions k es"
    "tenant_rows u (workflow_update i g (apr_id a) h es d) = tenant_rows u d"
proof -
  show "h a \<in> set (db_approvals (workflow_update i g (apr_id a) h es d))"
    unfolding workflow_update_approvals updated_def using assms by (intro bexI [of _ a]) simp_all
qed (simp_all add: workflow_update_def executions_append tenant_rows_def)

lemma expire_branch_frame:
  assumes a: "a \<in> set (db_approvals d)" "apr_status a = A_pending" and r: "expire_branch req now a j d = (Inr out, d')"
  shows "decision_frame a (do_approval out) False d d' \<and> apr_status (do_approval out) = A_expired \<and>
    \<not> do_executed out \<and> do_expired out = (dr_decision req = Approve) \<and>
    (do_response out = None) = (dr_decision req = Approve) \<and>
    (dr_decision req = Reject \<longrightarrow> decision_response (do_approval out) = Inr (the (do_response out)))"
proof -
  from r a(2) obtain j' where d': "d' = workflow_update (job_id j) (\<lambda>_. j') (apr_id a) (expire_row now) [expired_event a] d"
    and out: "do_approval out = expire_row now a" "\<not> do_executed out" "do_expired out = (dr_decision req = Approve)"
      "(do_response out = None) = (dr_decision req = Approve)"
      "dr_decision req = Reject \<longrightarrow> decision_response (expire_row now a) = Inr (the (do_response out))"
    by (cases "dr_decision req")
       (auto simp: expire_branch_def tx_iffs expire_locked_Inr finalize_tx_Inr lift_res_Inr workflow_norm split: if_splits)
  have "resolves a (expire_row now a)"
    by (simp add: resolves_def expire_row_def)
  then have "decision_frame a (expire_row now a) False d d'"
    unfolding decision_frame_def d' workflow_update_frame(2,3) [OF a(1)]
    using workflow_update_frame(1) [OF a(1), of "expire_row now"] by (simp add: executions_def expired_event_def)
  with out show ?thesis by simp
qed

lemma reject_branch_frame:
  assumes a: "a \<in> set (db_approvals d)" and r: "reject_branch op req now a j d = (Inr out, d')"
  shows "decision_frame a (do_approval out) False d d' \<and> do_approval out = reject_row op req now a \<and>
    \<not> do_executed out \<and> \<not> do_expired out \<and> do_response out \<noteq> None \<and>
    decision_response (do_approval out) = Inr (the (do_response out))"
proof -
  let ?b = "reject_row op req now a"
  let ?es = "[\<lparr>ae_tenant_id = apr_tenant_id a, ae_approval_id = apr_id a, ae_event_type = ''approval_rejected'',
        ae_actor_ref = Some (op_actor_ref op), ae_payload = []\<rparr>]"
  from r obtain j' where d': "d' = workflow_update (job_id j) (\<lambda>_. j') (apr_id a) (\<lambda>_. ?b) ?es d"
    and out: "do_approval out = ?b" "\<not> do_executed out" "\<not> do_expired out"
      "do_response out \<noteq> None" "decision_response ?b = Inr (the (do_response out))"
    by (auto simp: reject_branch_def Let_def tx_iffs finalize_tx_Inr lift_res_Inr workflow_norm)
  have "resolves a ?b" by (simp add: resolves_def reject_row_def)
  then have "decision_frame a ?b False d d'"
    unfolding decision_frame_def d' workflow_update_frame(2,3) [OF a]
    using workflow_update_frame(1) [OF a, of "\<lambda>_. ?b"] by (simp add: executions_def)
  with out show ?thesis by simp
qed

lemma approve_branch_frame:
  assumes wf: "workflow_wf d" and a: "a \<in> set (db_approvals d)" and r: "approve_branch env op req now a pending j profile d = (Inr out, d')"
  shows "decision_frame a (do_approval out) True d d' \<and> apr_status (do_approval out) = A_approved \<and>
    apr_decided_by_actor_ref (do_approval out) = Some (op_actor_ref op) \<and> apr_executed_at (do_approval out) = Some now \<and>
    do_executed out \<and> \<not> do_expired out \<and> do_response out \<noteq> None \<and>
    decision_response (do_approval out) = Inr (the (do_response out)) \<and>
    (\<exists>act. approvable_action env a pending profile = Inr act)"
proof -
  from r obtain act result b k e j' where act: "approvable_action env a pending profile = Inr act"
    and x: "approval_execute (de_executor_registry env) a act now d = (Inr (result, b, k), e)"
    and d': "d' = workflow_update (job_id k) (\<lambda>_. j') (apr_id b) (\<lambda>_. approve_row op req now result b)
      [\<lparr>ae_tenant_id = apr_tenant_id b, ae_approval_id = apr_id b, ae_event_type = ''approval_approved'',
        ae_actor_ref = Some (op_actor_ref op), ae_payload = []\<rparr>,
       \<lparr>ae_tenant_id = apr_tenant_id b, ae_approval_id = apr_id b, ae_event_type = ''approved_action_executed'',
        ae_actor_ref = Some (op_actor_ref op),
        ae_payload = [(''action'', PStr (apr_action b)), (''executed'', PBool True)]\<rparr>] e"
    and out: "do_approval out = approve_row op req now result b" "do_executed out" "\<not> do_expired out"
      "do_response out \<noteq> None"
      "decision_response (approve_row op req now result b) = Inr (the (do_response out))"
    by (auto simp: approve_branch_def Let_def tx_iffs finalize_tx_Inr lift_res_Inr workflow_norm)
  from x obtain m where m: "same_approval a b" "tool_frame (apr_tenant_id a) d e"
    by (rule approval_execute_InrD) blast
  then obtain c where b: "b = a\<lparr>apr_case_id := c\<rparr>" by (auto simp: same_approval_def)
  have keys: "db_keys d" using wf by (simp add: workflow_wf_def)
  have e: "a \<in> set (db_approvals e)" "db_approval_events e = db_approval_events d"
    "\<And>u. u \<noteq> apr_tenant_id a \<Longrightarrow> tenant_rows u e = tenant_rows u d"
    using m(2) a keys by (auto simp: tool_frame_def)
  have id: "apr_id b = apr_id a" using b by simp
  have "resolves a (approve_row op req now result b)" by (simp add: resolves_def approve_row_def b)
  then have "decision_frame a (approve_row op req now result b) True d d'"
    unfolding decision_frame_def d' id workflow_update_frame(2,3) [OF e(1)]
    using workflow_update_frame(1) [OF e(1), of "\<lambda>_. approve_row op req now result b"] e(2,3)
    by (simp add: executions_def)
  with out act show ?thesis by (auto simp: approve_row_def)
qed

section \<open>The service\<close>

lemma decide_cases:
  assumes wf: "workflow_wf d" and r: "decide env i op req now d = (r, obs, d')"
  obtains (error) e where "r = Inl e" "d' = d" "obs = []"
  | (decided) a m pending sha expires j out identity profile where
      "a \<in> set (db_approvals d)" "apr_id a = i" "apr_tenant_id a = op_tenant_id op"
      "apr_status a \<in> {A_pending, A_approved, A_rejected, A_expired}"
      "apr_job_id a = Some m" "apr_pending_action a = Some pending" "apr_tenant_config_sha256 a = Some sha"
      "apr_expires_at a = Some expires" "load_context env a m d = (Inr (j, identity, profile), d)"
      "decide_branch env op req now a expires pending j profile d = (Inr out, d')"
      "r = (if do_expired out then Inl (ApprovalExpired ''approval expired'')
            else (case do_response out of
                    Some resp \<Rightarrow> Inr resp
                  | None \<Rightarrow> Inl (decision_conflict ''approval decision did not complete'')))"
proof -
  obtain q e where t: "transaction (decide_body env i op req now) d = (q, e)" by fastforce
  show thesis
  proof (cases q)
    case (Inl x)
    with t have "e = d" by (auto dest: transaction_Inl)
    with r t Inl have "r = Inl x" "d' = d" "obs = []" by (simp_all add: decide_def)
    with error show thesis by blast
  next
    case (Inr x)
    obtain out identity profile where x: "x = (out, identity, profile)" by (cases x)
    have b: "decide_body env i op req now d = (Inr (out, identity, profile), e)"
      using t Inr x by (simp add: transaction_Inr)
    from b obtain a m pending sha expires j where g: "get_for_tenant i (op_tenant_id op) d = Inr (Some a)"
      and f: "apr_status a \<in> {A_pending, A_approved, A_rejected, A_expired}"
        "apr_job_id a = Some m" "apr_pending_action a = Some pending" "apr_tenant_config_sha256 a = Some sha"
        "apr_expires_at a = Some expires" "load_context env a m d = (Inr (j, identity, profile), d)"
        "decide_branch env op req now a expires pending j profile d = (Inr out, e)"
      by (rule decide_body_Inr)
    have "d' = e" "r = (if do_expired out then Inl (ApprovalExpired ''approval expired'')
            else (case do_response out of
                    Some resp \<Rightarrow> Inr resp
                  | None \<Rightarrow> Inl (decision_conflict ''approval decision did not complete'')))"
      using r t Inr x by (simp_all add: decide_def)
    with decided f get_for_tenant_SomeD [OF g] show thesis by blast
  qed
qed

text \<open>The branch that a decision takes on a stored approval.\<close>

lemma decide_branch_cases:
  assumes "decide_branch env op req now a expires pending j profile d = (Inr out, d')"
    "apr_status a \<in> {A_pending, A_approved, A_rejected, A_expired}"
  obtains (repeat) "apr_status a \<noteq> A_pending" "repeat_branch req a d = (Inr out, d')"
  | (expire) "apr_status a = A_pending" "expires \<le> now" "expire_branch req now a j d = (Inr out, d')"
  | (reject) "apr_status a = A_pending" "now < expires" "dr_decision req = Reject" "reject_branch op req now a j d = (Inr out, d')"
  | (approve) "apr_status a = A_pending" "now < expires" "dr_decision req = Approve"
      "approve_branch env op req now a pending j profile d = (Inr out, d')"
proof (cases "apr_status a = A_pending")
  case True
  show ?thesis
  proof (cases "expires \<le> now")
    case True
    with \<open>apr_status a = A_pending\<close> assms(1) expire show ?thesis by (simp add: decide_branch_def)
  next
    case False
    with \<open>apr_status a = A_pending\<close> assms(1) reject approve show ?thesis
      by (cases "dr_decision req") (simp_all add: decide_branch_def)
  qed
next
  case False
  with assms repeat show ?thesis by (auto simp: decide_branch_def)
qed

definition may_execute ::
  "decision_env \<Rightarrow> authenticated_operator \<Rightarrow> decision_request \<Rightarrow> datetime \<Rightarrow> approval_row \<Rightarrow> bool" where
  "may_execute env op req now a \<longleftrightarrow>
     apr_tenant_id a = op_tenant_id op \<and> apr_status a = A_pending \<and> dr_decision req = Approve \<and>
     (\<exists>x. apr_expires_at a = Some x \<and> now < x) \<and>
     (\<exists>pending profile act. apr_pending_action a = Some pending \<and> approvable_action env a pending profile = Inr act \<and>
        pa_name act = apr_action a \<and> pa_name act \<in> set (cp_available_actions (rp_compiled profile)))"

text \<open>
  C3. The frozen action of an approval runs only by a timely approval. A decision that records an
  execution, or changes any case, case event, artifact, customer or idempotency row, is an approve request of the
  approval's own tenant for a pending approval before its expiry, whose frozen action is still valid,
  names the approval's action and is available in the job's frozen profile. It records exactly one
  execution, its first, marks the approval as approved by that operator, and leaves other tenants' rows
  alone.
\<close>

theorem decide_executes:
  assumes wf: "workflow_wf d" and r: "decide env i op req now d = (r, obs, d')"
    and change: "executions k (db_approval_events d') \<noteq> executions k (db_approval_events d) \<or>
      tenant_rows u d' \<noteq> tenant_rows u d"
  shows "\<exists>a b. a \<in> set (db_approvals d) \<and> apr_id a = i \<and> may_execute env op req now a \<and>
    b \<in> set (db_approvals d') \<and> apr_id b = i \<and> apr_status b = A_approved \<and>
    apr_decided_by_actor_ref b = Some (op_actor_ref op) \<and> apr_executed_at b = Some now \<and>
    executions i (db_approval_events d) = 0 \<and> executions i (db_approval_events d') = 1 \<and>
    (\<forall>t. t \<noteq> op_tenant_id op \<longrightarrow> tenant_rows t d' = tenant_rows t d)"
  using wf r
proof (cases rule: decide_cases)
  case (error e)
  with change show ?thesis by simp
next
  case (decided a m pending sha expires j out identity profile)
  from decided(10,4) show ?thesis
  proof (cases rule: decide_branch_cases)
    case repeat
    with change repeat_branch_Inr show ?thesis by blast
  next
    case expire
    from expire_branch_frame [OF decided(1) expire(1,3)] change show ?thesis by (auto simp: decision_frame_def)
  next
    case reject
    from reject_branch_frame [OF decided(1) reject(4)] change show ?thesis by (auto simp: decision_frame_def)
  next
    case approve
    note fr = approve_branch_frame [OF wf decided(1) approve(4)]
    then obtain act where act: "approvable_action env a pending profile = Inr act" by blast
    have may: "may_execute env op req now a"
      unfolding may_execute_def using decided(3,6,8) approve(1,2,3) act approvable_action_Inr [OF act] by blast
    have z: "executions i (db_approval_events d) = 0"
      using wf decided(1,2) wf_approvalD [OF wf decided(1)] approve(1)
      by (auto simp: workflow_wf_def events_ok_def approval_ok_def)
    have "do_approval out \<in> set (db_approvals d')" "apr_id (do_approval out) = i"
      "executions i (db_approval_events d') = 1" "\<forall>t. t \<noteq> op_tenant_id op \<longrightarrow> tenant_rows t d' = tenant_rows t d"
      using fr z decided(2,3) by (auto simp: decision_frame_def resolves_def)
    with fr may z decided(1,2) show ?thesis by blast
  qed
qed

text \<open>
  C35. A decision that raises changes nothing, with one exception: an approve request that comes too late
  commits the expiry of the approval before it raises \<open>ApprovalExpired\<close>, and even then no business row
  changes and nothing is executed.
\<close>

theorem decide_error_effects:
  assumes wf: "workflow_wf d" and r: "decide env i op req now d = (Inl e, obs, d')"
  shows "d' = d \<or>
    (e = ApprovalExpired ''approval expired'' \<and> dr_decision req = Approve \<and>
     (\<exists>a b x. a \<in> set (db_approvals d) \<and> apr_id a = i \<and> apr_tenant_id a = op_tenant_id op \<and> apr_status a = A_pending \<and>
        apr_expires_at a = Some x \<and> x \<le> now \<and>
        b \<in> set (db_approvals d') \<and> apr_id b = i \<and> apr_status b = A_expired) \<and>
     (\<forall>k. executions k (db_approval_events d') = executions k (db_approval_events d)) \<and>
     (\<forall>u. tenant_rows u d' = tenant_rows u d))"
  using wf r
proof (cases rule: decide_cases)
  case (decided a m pending sha expires j out identity profile)
  from decided(10,4) show ?thesis
  proof (cases rule: decide_branch_cases)
    case repeat
    with repeat_branch_Inr show ?thesis by blast
  next
    case expire
    note fr = expire_branch_frame [OF decided(1) expire(1,3)]
    have ap: "dr_decision req = Approve"
      using fr decided(11) by (cases "dr_decision req") (auto split: option.splits)
    then have e: "e = ApprovalExpired ''approval expired''" using fr decided(11) by simp
    have "do_approval out \<in> set (db_approvals d')" "apr_id (do_approval out) = i" "apr_status (do_approval out) = A_expired"
      "\<forall>k. executions k (db_approval_events d') = executions k (db_approval_events d)"
      "\<forall>u. tenant_rows u d' = tenant_rows u d"
      using fr decided(2) by (auto simp: decision_frame_def resolves_def)
    with ap e decided(1,2,3,8) expire(1,2) show ?thesis by blast
  next
    case reject
    from reject_branch_frame [OF decided(1) reject(4)] decided(11) show ?thesis by (auto split: option.splits)
  next
    case approve
    from approve_branch_frame [OF wf decided(1) approve(4)] decided(11) show ?thesis by (auto split: option.splits)
  qed
qed simp

text \<open>
  An approval of another tenant cannot be told from one that does not exist: the decision
  raises \<open>ApprovalNotFound\<close>, reports nothing and changes nothing.
\<close>

theorem decide_foreign_tenant:
  assumes "\<forall>a \<in> set (db_approvals d). apr_id a = i \<longrightarrow> apr_tenant_id a \<noteq> op_tenant_id op"
  shows "decide env i op req now d = (Inl ApprovalNotFound, [], d)"
proof -
  have "filter (\<lambda>a. apr_id a = i \<and> apr_tenant_id a = op_tenant_id op \<and> published_lifecycle_predicate d a)
      (db_approvals d) = []"
    using assms by (auto simp: filter_empty_conv)
  then have "get_for_tenant i (op_tenant_id op) d = Inr None"
    by (simp add: get_for_tenant_def scalar_one_or_none_def)
  then show ?thesis
    by (simp add: decide_def transaction_def decide_body_def bind_tx_def read_tx_def raise_tx_def)
qed

section \<open>Repeated decisions\<close>

definition context_ok :: "decision_env \<Rightarrow> approval_row \<Rightarrow> db \<Rightarrow> bool" where
  "context_ok env a d \<longleftrightarrow>
     (\<exists>j \<in> set (db_jobs d). apr_job_id a = Some (job_id j) \<and> job_tenant_id j = apr_tenant_id a \<and>
        (\<exists>profile. resolve_persisted_profile (de_profiles env) (job_tenant_config_snapshot j)
           (PStr (job_tenant_config_sha256 j)) None = Inr profile))"

lemma context_ok_evolves:
  assumes "context_ok env a d" "evolves d d'"
  shows "context_ok env a d'"
proof -
  obtain j p where j: "j \<in> set (db_jobs d)" "apr_job_id a = Some (job_id j)" "job_tenant_id j = apr_tenant_id a"
    "resolve_persisted_profile (de_profiles env) (job_tenant_config_snapshot j) (PStr (job_tenant_config_sha256 j)) None = Inr p"
    using assms(1) by (auto simp: context_ok_def)
  obtain j' where j': "j' \<in> set (db_jobs d')" "job_edge\<^sup>*\<^sup>* j j'"
    using assms(2) j(1) by (auto simp: evolves_def)
  from job_edges_identity [OF j'(2)] j have "apr_job_id a = Some (job_id j') \<and> job_tenant_id j' = apr_tenant_id a \<and>
      resolve_persisted_profile (de_profiles env) (job_tenant_config_snapshot j') (PStr (job_tenant_config_sha256 j')) None = Inr p"
    by (simp add: job_identity_def)
  with j'(1) show ?thesis unfolding context_ok_def by blast
qed

lemma load_context_ok:
  assumes "load_context env a m d = (Inr (j, identity, profile), d')" "apr_job_id a = Some m"
  shows "context_ok env a d"
proof -
  from assms have "j \<in> set (db_jobs d)" "job_id j = m" "job_tenant_id j = apr_tenant_id a"
    using load_context_Inr by auto
  moreover obtain row where row: "scalar_one_or_none (\<lambda>j. job_id j = m \<and> job_tenant_id j = apr_tenant_id a) (db_jobs d) = Inr (Some row)"
    and "resolve_persisted_profile (de_profiles env) (job_tenant_config_snapshot row) (PStr (job_tenant_config_sha256 row)) None = Inr profile"
    using assms
    by (auto simp: load_context_def tx_iffs lift_res_Inr conflict_on_Inr get_job_observation_identity_def
        get_observation_identity_def bind_res_Inr_iff split: option.splits if_splits)
  ultimately show ?thesis
    using scalar_one_or_none_SomeD [OF row] assms(2) unfolding context_ok_def by (intro bexI [of _ row]) auto
qed

lemma load_context_present:
  assumes "workflow_wf d" "context_ok env a d"
  obtains m j identity profile where "apr_job_id a = Some m" "load_context env a m d = (Inr (j, identity, profile), d)"
    "joined_job d a = Some j"
proof -
  obtain j p where j: "j \<in> set (db_jobs d)" "apr_job_id a = Some (job_id j)" "job_tenant_id j = apr_tenant_id a"
    and p: "resolve_persisted_profile (de_profiles env) (job_tenant_config_snapshot j) (PStr (job_tenant_config_sha256 j)) None = Inr p"
    using assms(2) by (auto simp: context_ok_def)
  have k: "distinct (map job_id (db_jobs d))" using assms(1) by (simp add: workflow_wf_def db_keys_def)
  have g: "get_job_for_update (apr_tenant_id a) (job_id j) d = Inr (Some j)"
    unfolding get_job_for_update_def using j by (intro scalar_present [OF k]) auto
  have "joined_job d a = Some j"
    unfolding joined_job_def using j by (auto intro!: next_item_unique [OF k])
  moreover have "\<exists>identity. load_context env a (job_id j) d = (Inr (j, identity, p), d)"
    using g observation_identity_present [OF assms(1) j(1) persisted_is_dict [OF p]] p j(2,3)
    by (simp add: load_context_def get_job_observation_identity_def bind_tx_def read_tx_def lift_res_def ret_tx_def
        conflict_on_def)
  ultimately show ?thesis using that j(2) by blast
qed

lemma decide_repeats:
  assumes wf: "workflow_wf d" and b: "b \<in> set (db_approvals d)" "decided (apr_status b)" "context_ok env b d"
    and s: "is_same_final_decision b (dr_decision req)" "decision_response b = Inr resp" "apr_tenant_id b = op_tenant_id op"
  shows "\<exists>obs. decide env (apr_id b) op req now d = (Inr resp, obs, d)"
proof -
  obtain m j identity profile where c: "apr_job_id b = Some m" "load_context env b m d = (Inr (j, identity, profile), d)"
    "joined_job d b = Some j"
    using load_context_present [OF wf b(3)] by blast
  then have j: "j \<in> set (db_jobs d)" "job_id j = m" using load_context_Inr by auto
  have pub: "published_lifecycle_predicate d b"
    using wf_approval_of_job [OF wf j(1) b(1)] c(1,3) j(2) b(2)
    by (cases "apr_status b") (auto simp: published_lifecycle_predicate_def)
  have ka: "distinct (map apr_id (db_approvals d))" using wf by (simp add: workflow_wf_def db_keys_def)
  have g: "get_for_tenant (apr_id b) (op_tenant_id op) d = Inr (Some b)"
    unfolding get_for_tenant_def using b(1) pub s(3) by (intro scalar_present [OF ka]) auto
  obtain pending sha x where f: "apr_pending_action b = Some pending" "apr_tenant_config_sha256 b = Some sha" "apr_expires_at b = Some x"
    using wf_approvalD [OF wf b(1)] c(1) by (auto simp: approval_ok_def)
  have st: "apr_status b \<in> {A_approved, A_rejected, A_expired}" using b(2) by (cases "apr_status b") auto
  have "repeat_branch req b d =
      (Inr \<lparr>do_approval = b, do_response = Some resp, do_outcome = OC_REUSED, do_executed = False, do_expired = False\<rparr>, d)"
    using s(1,2) by (simp add: repeat_branch_def bind_tx_def lift_res_def ret_tx_def)
  then have "decide_body env (apr_id b) op req now d =
      (Inr (\<lparr>do_approval = b, do_response = Some resp, do_outcome = OC_REUSED, do_executed = False, do_expired = False\<rparr>,
        identity, profile), d)"
    using g st f c(1,2) by (auto simp: decide_body_def bind_tx_def read_tx_def ret_tx_def decide_branch_def)
  then show ?thesis by (simp add: decide_def transaction_def)
qed

lemma decide_final_row:
  assumes wf: "workflow_wf d" and r: "decide env i op req now d = (Inr resp, obs, d')"
  obtains b where "b \<in> set (db_approvals d')" "apr_id b = i" "apr_tenant_id b = op_tenant_id op" "decided (apr_status b)"
    "is_same_final_decision b (dr_decision req)" "decision_response b = Inr resp" "context_ok env b d'"
  using wf r
proof (cases rule: decide_cases)
  case (decided a m pending sha expires j out identity profile)
  note found = that
  have ctx: "context_ok env a d'"
    using context_ok_evolves [OF load_context_ok [OF decided(9,5)] decide_evolves [OF wf r]] .
  have thesis if b: "b \<in> set (db_approvals d')" "resolves a b" "is_same_final_decision b (dr_decision req)"
    "decision_response b = Inr resp" for b
  proof (rule found [OF b(1)])
    show "context_ok env b d'" using ctx b(2) by (simp add: context_ok_def resolves_def)
  qed (use b decided(2,3) in \<open>auto simp: resolves_def\<close>)
  note finish = this
  from decided(10,4) show ?thesis
  proof (cases rule: decide_branch_cases)
    case repeat
    note rb = repeat_branch_Inr [OF repeat(2)]
    have "decided (apr_status a)" using repeat(1) decided(4) by auto
    then have "resolves a a" by (simp add: resolves_def)
    then show ?thesis using finish [of a] rb decided(1,11) by auto
  next
    case expire
    note fr = expire_branch_frame [OF decided(1) expire(1,3)]
    have rej: "dr_decision req = Reject" using fr decided(11) by (cases "dr_decision req") auto
    have "decision_response (do_approval out) = Inr resp" using fr rej decided(11) by (auto split: option.splits)
    then show ?thesis
      using finish [of "do_approval out"] fr rej by (auto simp: decision_frame_def is_same_final_decision_def)
  next
    case reject
    note fr = reject_branch_frame [OF decided(1) reject(4)]
    have "decision_response (do_approval out) = Inr resp" using fr decided(11) by (auto split: option.splits)
    then show ?thesis
      using finish [of "do_approval out"] fr reject(3) by (auto simp: decision_frame_def is_same_final_decision_def reject_row_def)
  next
    case approve
    note fr = approve_branch_frame [OF wf decided(1) approve(4)]
    have "decision_response (do_approval out) = Inr resp" using fr decided(11) by (auto split: option.splits)
    then show ?thesis
      using finish [of "do_approval out"] fr approve(3) by (auto simp: decision_frame_def is_same_final_decision_def)
  qed
qed simp

end
