(* ===== verification/Durability.thy ===== *)
theory Durability
  imports System Decisions
begin

text \<open>
  Properties of every interleaving of the processes around the database: the invariant, the life of
  jobs and approvals, fencing of workers that lost their attempt, and repeated requests and decisions.
\<close>

section \<open>Stale workers\<close>

lemma mark_side_effect_owns:
  assumes "mark_side_effect (claimed_env i n w) c t e = (Inr x, e')"
  shows "owns i t n e"
proof -
  from assms obtain j where "scalar_one_or_none (\<lambda>j. job_id j = i \<and> job_tenant_id j = t \<and>
      job_status j = J_running \<and> job_attempt_count j = n) (db_jobs e) = Inr (Some j)"
    by (auto simp: mark_side_effect_def claimed_env_def tx_iffs check_cancelled_def split: option.splits if_splits)
  from scalar_one_or_none_SomeD [OF this] show ?thesis by (auto simp: owns_def)
qed

lemma mark_not_owned:
  assumes "\<not> owns i t n d" "db_jobs e = db_jobs d"
  shows "mark_side_effect (claimed_env i n w) c t e \<noteq> (Inr x, e')"
proof
  assume "mark_side_effect (claimed_env i n w) c t e = (Inr x, e')"
  then have "owns i t n e" by (rule mark_side_effect_owns)
  with assms show False by (auto simp: owns_def)
qed

lemma transaction_keeps: "(\<And>x d'. m d = (Inr x, d') \<Longrightarrow> d' = d) \<Longrightarrow> snd (transaction m d) = d"
  by (auto simp: transaction_def split: prod.splits sum.splits)

lemma check_keeps: "snd (check_cancelled c n d) = d"
  by (simp add: check_cancelled_def raise_tx_def ret_tx_def)

lemma bind_keeps:
  assumes "snd (m d) = d" "\<And>x. snd (f x d) = d"
  shows "snd (bind_tx m f d) = d"
proof (cases "m d")
  case (Pair r e)
  then show ?thesis using assms by (cases r) (simp_all add: bind_tx_def)
qed

lemma sync_call_keeps: "snd (m d) = d \<Longrightarrow> snd (sync_call c m d) = d"
  unfolding sync_call_def
  by (intro bind_keeps check_keeps)
     (simp_all add: gateway_call_def ret_tx_def bind_keeps check_keeps split: gateway_outcome.split)

text \<open>
  After framed work the jobs are the same, so marking the side effect fails for a worker that does
  not own the attempt, and the transaction is rolled back.
\<close>

lemma framed_then_mark:
  assumes "\<not> owns i t n d" "framed t m"
  shows "bind_tx m (\<lambda>x. bind_tx (mark_side_effect (claimed_env i n w) c t) (f x)) d \<noteq> (Inr y, d')"
proof
  assume "bind_tx m (\<lambda>x. bind_tx (mark_side_effect (claimed_env i n w) c t) (f x)) d = (Inr y, d')"
  then obtain x e u e' where e: "m d = (Inr x, e)" "mark_side_effect (claimed_env i n w) c t e = (Inr u, e')"
    by (auto simp: bind_tx_Inr)
  have "db_jobs e = db_jobs d" using assms(2) e(1) by (auto simp: framed_def tool_frame_def)
  with mark_not_owned [OF assms(1)] e(2) show False by blast
qed

lemma create_case_stale:
  assumes "\<not> owns i t n d"
  shows "snd (pg_create_case (claimed_env i n w) t src customer fs c d) = d"
  unfolding pg_create_case_def
proof (intro sync_call_keeps transaction_keeps, goal_cases)
  case (1 x d')
  then obtain r where r: "lock_idempotency (claimed_env i n w) t d = (Inr r, d)"
    by (auto simp: lock_idempotency_def tx_iffs split: option.splits)
  show ?case
  proof (cases "idr_case_id r")
    case (Some k)
    then show ?thesis using 1 r by (auto simp: bind_tx_Inr tx_iffs split: option.splits)
  next
    case None
    with 1 r obtain row e u e' where e: "bind_tx (require_customer t customer CustomerNotFoundError) (\<lambda>_.
        bind_tx (create_agent_case t src customer fs) (\<lambda>row.
        bind_tx (append_event t (ic_id row) ''created'' []) (\<lambda>_.
        bind_tx (write_tx (set_idempotency_case t (pe_job_id (claimed_env i n w)) (ic_id row))) (\<lambda>_.
        bind_tx (check_cancelled c 3) (\<lambda>_. ret_tx row))))) d = (Inr row, e)"
      "mark_side_effect (claimed_env i n w) c t e = (Inr u, e')"
      by (auto simp: bind_tx_Inr ret_tx_iff)
    have "framed t (bind_tx (require_customer t customer CustomerNotFoundError) (\<lambda>_.
        bind_tx (create_agent_case t src customer fs) (\<lambda>row.
        bind_tx (append_event t (ic_id row) ''created'' []) (\<lambda>_.
        bind_tx (write_tx (set_idempotency_case t (pe_job_id (claimed_env i n w)) (ic_id row))) (\<lambda>_.
        bind_tx (check_cancelled c 3) (\<lambda>_. ret_tx row))))))"
      by (intro framed_bind require_customer_framed framed_create_case framed_event framed_set_case framed_check framed_basic)
    with e(1) have "db_jobs e = db_jobs d" by (auto simp: framed_def tool_frame_def)
    with mark_not_owned [OF assms] e(2) show ?thesis by blast
  qed
qed

lemma create_artifact_stale:
  assumes "\<not> owns i t n d"
  shows "snd (pg_create_artifact (claimed_env i n w) t job k payload c d) = d"
  unfolding pg_create_artifact_def
proof (rule sync_call_keeps, cases "job \<noteq> None \<and> job \<noteq> Some (pe_job_id (claimed_env i n w))", goal_cases)
  case 1
  then show ?case by (simp add: raise_tx_def)
next
  case 2
  have "framed t (bind_tx (create_for_job t (pe_job_id (claimed_env i n w)) k payload) (\<lambda>ref.
      bind_tx (check_cancelled c 3) (\<lambda>_. ret_tx ref)))"
    by (intro framed_bind framed_create_for_job framed_check framed_basic)
  then have no: "bind_tx (create_for_job t (pe_job_id (claimed_env i n w)) k payload) (\<lambda>ref.
      bind_tx (check_cancelled c 3) (\<lambda>_. bind_tx (mark_side_effect (claimed_env i n w) c t) (\<lambda>_. ret_tx ref))) d \<noteq> (Inr x, d')" for x d'
    using framed_then_mark [OF assms, of _ w c "\<lambda>ref _. ret_tx ref" x d'] by (auto simp: bind_tx_Inr ret_tx_iff)
  show ?case
    unfolding if_not_P [OF 2] by (rule transaction_keeps) (use no in blast)
qed

lemma update_case_stale:
  assumes "\<not> owns i t n d"
  shows "snd (pg_update_case_fields (claimed_env i n w) t case_id fs c d) = d"
  unfolding pg_update_case_fields_def
proof (intro sync_call_keeps transaction_keeps, goal_cases)
  case (1 x d')
  then obtain row where row: "get_case_for_tenant case_id t d = Inr row" by (auto simp: tx_iffs)
  show ?case
  proof (cases row)
    case None
    then show ?thesis using 1 row by (auto simp: tx_iffs)
  next
    case (Some k)
    let ?m = "bind_tx (assign_case_fields k fs) (\<lambda>_. bind_tx (check_cancelled c 3) (\<lambda>_. fields_updated_event t k fs))"
    have "db_jobs e = db_jobs d" if "?m d = (Inr u, e)" for u e
      using that
      by (auto simp: bind_tx_Inr assign_case_fields_def write_tx_iff update_case_def check_cancelled_def tx_iffs
          fields_updated_event_def append_event_def add_case_event_def split: if_splits)
    moreover obtain u e v e' where "?m d = (Inr u, e)" "mark_side_effect (claimed_env i n w) c t e = (Inr v, e')"
      using 1 row Some by (auto simp: bind_tx_Inr read_tx_iff)
    ultimately show ?thesis using mark_not_owned [OF assms] by blast
  qed
qed

lemma request_approval_stale:
  assumes "workflow_wf d" "\<not> owns i t n d"
  shows "snd (pg_request_approval (claimed_env i n w) t act reason c d) = d"
  unfolding pg_request_approval_def create_for_running_job_def
proof (intro sync_call_keeps transaction_keeps, goal_cases)
  case (1 x d')
  then obtain j where j: "get_job_for_update t i d = Inr (Some j)" "job_status j = J_running" "job_attempt_count j = n"
    by (auto simp: claimed_env_def bind_tx_Inr read_tx_iff raise_tx_iff split: option.splits if_splits)
  with get_job_for_update_SomeD [OF j(1)] assms(2) show ?case by (auto simp: owns_def)
qed

section \<open>Every interleaving\<close>

text \<open>
  C1. The invariant of the durable workflow. Whatever transactions of intake, workers, agent runs,
  operators and the clock have run since the database was deployed empty, in whatever order: keys are
  unique, a job is running exactly while it has a lease and finished exactly when it is in a final
  status, an approval has a decision date exactly when it is decided and an execution date exactly when
  it is approved, the status of an approval fits the status of its job, a parked job has a pending
  approval, and the events record one execution for an approved approval and none for any other.
\<close>

theorem workflow_invariant:
  assumes "inj uuids" "(valid_step ienv denv)\<^sup>*\<^sup>* (empty_db uuids customers now) d"
  shows "workflow_wf d"
  using service.path_wf [OF assms(2)] empty_db_wf [OF assms(1)] by blast

text \<open>
  C15. The life of a job. However the processes interleave, a job is never lost; its identity, input,
  frozen profile and creation date never change; its attempt number never decreases; and a job in a
  final status is never written again.
\<close>

theorem job_life:
  assumes "workflow_wf d" "(valid_step ienv denv)\<^sup>*\<^sup>* d d'" "j \<in> set (db_jobs d)"
  shows "\<exists>j' \<in> set (db_jobs d'). job_identity j' = job_identity j \<and> job_attempt_count j \<le> job_attempt_count j' \<and>
    (terminal (job_status j) \<longrightarrow> j' = j)"
proof (cases "terminal (job_status j)")
  case True
  with service.terminal_frozen [OF assms(2,1,3)] show ?thesis by blast
next
  case False
  obtain j' where "j' \<in> set (db_jobs d')" "job_identity j' = job_identity j" "job_attempt_count j \<le> job_attempt_count j'"
    using service.path_job [OF assms(2,1,3)] by blast
  with False show ?thesis by blast
qed

text \<open>
  C16. The life of an approval. A decided or cancelled approval is never written again, and the frozen
  action of an approval is executed at most once, however often and by however many operators it is
  approved.
\<close>

theorem approval_life:
  assumes "workflow_wf d" "(valid_step ienv denv)\<^sup>*\<^sup>* d d'"
  shows "executions k (db_approval_events d') \<le> 1 \<and>
    (\<forall>a \<in> set (db_approvals d). decided (apr_status a) \<or> apr_status a = A_cancelled \<longrightarrow> a \<in> set (db_approvals d'))"
proof -
  have wf: "workflow_wf d'" using service.path_wf [OF assms(2,1)] .
  have "executions k (db_approval_events d') \<le> 1"
  proof (cases "k \<in> apr_id ` set (db_approvals d')")
    case True
    then show ?thesis using wf by (auto simp: workflow_wf_def events_ok_def)
  next
    case False
    then have "executions k (db_approval_events d') = 0"
      using wf by (auto simp: workflow_wf_def events_ok_def executions_def filter_empty_conv)
    then show ?thesis by simp
  qed
  with service.decided_frozen [OF assms(2,1)] show ?thesis by blast
qed

text \<open>
  C2. Fencing. Once a worker has lost its attempt of a job, because the lease was recovered, another
  worker claimed the job or the job was finished, then at every later moment all its writes are
  refused with \<open>JobLeaseLostError\<close>, its lease is not renewed, and whatever tool of the port its agent still
  calls, nothing in the database changes.
\<close>

theorem stale_worker_fenced:
  assumes "workflow_wf d" "j \<in> set (db_jobs d)" "job_id j = i" "lost n j"
    and "(valid_step ienv denv)\<^sup>*\<^sup>* d d'"
  shows "refused (mark_succeeded i result now t n d') d' \<and> refused (mark_failed i err now t n d') d' \<and>
    refused (mark_failed_uncertain i err now t n d') d' \<and> refused (schedule_retry i err now t n d') d' \<and>
    refused (record_awaiting_approval_result i result t n d') d' \<and>
    renew_lease i t n now d' = (Inr False, d') \<and>
    snd (pg_create_case (claimed_env i n w) t src customer fs c d') = d' \<and>
    snd (pg_update_case_fields (claimed_env i n w) t case_id fs c d') = d' \<and>
    snd (pg_create_reply_draft (claimed_env i n w) t job rcp subject body c d') = d' \<and>
    snd (pg_flag_for_review (claimed_env i n w) t job reason c d') = d' \<and>
    snd (pg_request_approval (claimed_env i n w) t act reason c d') = d'"
proof -
  have wf: "workflow_wf d'" using service.path_wf [OF assms(5,1)] .
  have no: "\<not> owns i t n d'"
    using service.lost_for_good [OF assms(5,1,2,4)] assms(3) by (auto simp: owns_def lost_def)
  show ?thesis
    unfolding mark_succeeded_def mark_failed_def mark_failed_uncertain_def pg_create_reply_draft_def pg_flag_for_review_def
    by (intro conjI writes_refused [OF wf no] renew_refused [OF wf no] create_case_stale [OF no] update_case_stale [OF no]
        create_artifact_stale [OF no] request_approval_stale [OF wf no])
qed

lemma claim_next_claimed:
  assumes "claim_next locked now lease excluded d = (Inr (Some c), d')"
  obtains j where "j \<in> set (db_jobs d)" "claimable locked now excluded j" "c = claimed_of (claim_row now lease j)"
    "claim_row now lease j \<in> set (db_jobs d')"
proof -
  from assms obtain j rest where "sort_key (\<lambda>j. (job_available_at j, job_id j)) (filter (claimable locked now excluded) (db_jobs d)) = j # rest"
    and r: "c = claimed_of (claim_row now lease j)" "d' = update_job (job_id j) (claim_row now lease) d"
    by (auto simp: claim_next_def tx_iffs split: list.splits)
  from sort_key_head(1) [OF this(1)] have j: "j \<in> set (db_jobs d)" "claimable locked now excluded j" by auto
  have "claim_row now lease j \<in> set (db_jobs d')"
    unfolding r(2) update_job_def by (simp add: in_update_rows) (use j(1) in force)
  with that j r(1) show ?thesis by blast
qed

text \<open>
  No two claims share an attempt: when a job that was claimed is claimed again at any later moment,
  the later claim has a higher attempt number, so the earlier worker has lost its attempt.
\<close>

theorem claims_distinct:
  assumes "workflow_wf d" "claim_next locked now lease excluded d = (Inr (Some c), d1)"
    and "(valid_step ienv denv)\<^sup>*\<^sup>* d1 d2" "claim_next locked' now' lease' excluded' d2 = (Inr (Some c'), d3)"
    and "cj_id c' = cj_id c"
  shows "cj_attempt_count c < cj_attempt_count c'"
proof -
  obtain j where j: "c = claimed_of (claim_row now lease j)" "claim_row now lease j \<in> set (db_jobs d1)"
    using claim_next_claimed [OF assms(2)] by blast
  obtain k where k: "k \<in> set (db_jobs d2)" "claimable locked' now' excluded' k" "c' = claimed_of (claim_row now' lease' k)"
    using claim_next_claimed [OF assms(4)] by blast
  have wf1: "workflow_wf d1" using claim_next_evolves [OF assms(1,2)] by (simp add: evolves_def)
  have wf2: "workflow_wf d2" using service.path_wf [OF assms(3) wf1] .
  obtain m where m: "m \<in> set (db_jobs d2)" "job_identity m = job_identity (claim_row now lease j)"
    "job_attempt_count (claim_row now lease j) \<le> job_attempt_count m"
    using service.path_job [OF assms(3) wf1 j(2)] by blast
  have "job_id m = job_id k"
    using m(2) assms(5) j(1) k(3) by (simp add: job_identity_def claimed_of_def claim_row_def)
  with wf_job_unique [OF wf2 m(1) k(1)] have "m = k" by simp
  with m(3) j(1) k(3) show ?thesis by (simp add: claimed_of_def claim_row_def)
qed

section \<open>Repeated requests\<close>


text \<open>
  Idempotency of document intake. The same document request finds its job at any later moment,
  without parsing the document again and even if the tenant's file no longer resolves.
\<close>

theorem enqueue_document_idempotent:
  assumes "workflow_wf d" "loads_valid env" "enqueue_document env c d = (Inr x, es, d1)"
    and "(valid_step ienv denv)\<^sup>*\<^sup>* d1 d2" "iv_profiles env' = iv_profiles env"
  shows "\<exists>es'. enqueue_document env' (c\<lparr>ed_trace_id := trace\<rparr>) d2 =
    (Inr \<lparr>er_job_id = er_job_id x, er_created = False, er_trace_id = er_trace_id x\<rparr>, es', d2)"
proof -
  obtain k h where kh: "document_identity env c = Inr (k, h)" and ev: "evolves d d1"
    and acc: "accepted env (ed_tenant_id c) (ed_tenant_slug c) k h (er_job_id x) (er_trace_id x) d1"
    using enqueue_document_accepts [OF assms(1,2,3)] by blast
  have wf1: "workflow_wf d1" using ev by (simp add: evolves_def)
  have ev2: "evolves d1 d2" using service.path_evolves [OF assms(4) wf1] .
  then have wf2: "workflow_wf d2" by (simp add: evolves_def)
  let ?c = "c\<lparr>ed_trace_id := trace\<rparr>"
  have id: "document_identity env' ?c = Inr (k, h)"
    using kh assms(5) by (simp add: document_identity_def canonical_document_intake_hash_def)
  have "accepted env' (ed_tenant_id ?c) (ed_tenant_slug ?c) k h (er_job_id x) (er_trace_id x) d2"
    using accepted_evolves [OF acc ev2] assms(5) by (simp add: accepted_def)
  from enqueue_document_again [OF wf2 id this] show ?thesis .
qed

text \<open>
  C36. Idempotency of decisions. A decision that was answered is answered the same at any later moment,
  when any operator of the tenant repeats it: the response is the stored one and nothing changes,
  whatever the clock shows and however the reason reads.
\<close>

theorem decide_idempotent:
  assumes "workflow_wf d" "decide env i op req now d = (Inr resp, obs, d1)"
    and "(valid_step ienv denv)\<^sup>*\<^sup>* d1 d2"
    and "op_tenant_id op' = op_tenant_id op" "dr_decision req' = dr_decision req"
  shows "\<exists>obs'. decide env i op' req' now' d2 = (Inr resp, obs', d2)"
proof -
  have wf1: "workflow_wf d1" using decide_evolves [OF assms(1,2)] by (simp add: evolves_def)
  have ev: "evolves d1 d2" using service.path_evolves [OF assms(3) wf1] .
  then have wf2: "workflow_wf d2" by (simp add: evolves_def)
  obtain b where b: "b \<in> set (db_approvals d1)" "apr_id b = i" "apr_tenant_id b = op_tenant_id op" "decided (apr_status b)"
    "is_same_final_decision b (dr_decision req)" "decision_response b = Inr resp" "context_ok env b d1"
    using decide_final_row [OF assms(1,2)] by blast
  have "b \<in> set (db_approvals d2)" using service.decided_frozen [OF assms(3) wf1 b(1)] b(4) by blast
  from decide_repeats [OF wf2 this b(4) context_ok_evolves [OF b(7) ev], of req' resp op' now'] b assms(4,5)
  show ?thesis by simp
qed

end
