(* ===== verification/Agent_Run.thy ===== *)
theory Agent_Run
  imports Agent_Loop
begin

text \<open>
  Properties of whole runs of the control loop: bounds on steps and path, the repetition guard,
  the events a run emits and the shape of its transcript. Each is an invariant of the loop head
  lifted by the rules of \<open>Agent_Loop\<close>.
\<close>

section \<open>Steps and execution path\<close>

definition path_within :: "nat \<Rightarrow> execution_path_entry list \<Rightarrow> bool" where
  "path_within n path \<longleftrightarrow>
     sorted_wrt (<) (map pe_step path) \<and>
     list_all (\<lambda>e. 1 \<le> pe_step e \<and> pe_step e \<le> n \<and>
                   (pe_action_known e \<longleftrightarrow> pe_action_key e \<noteq> None)) path"

lemma path_within_step:
  assumes "path_within n path" "path_step (Suc n) path path'"
  shows "path_within (Suc n) path'"
  using assms
  by (fastforce simp: path_within_def path_step_def list_all_iff sorted_wrt_append)

definition loop_bounds :: "nat \<Rightarrow> 's loop_state \<Rightarrow> bool" where
  "loop_bounds m st \<longleftrightarrow> ls_steps st \<le> m \<and> path_within (ls_steps st) (ls_path st)"

lemma loop_bounds_Running:
  assumes "loop_bounds m st" "ls_steps st < m" "loop_iteration llm tools st = Running st'"
  shows "loop_bounds m st'"
  using assms loop_iteration_Running [OF assms(3)] path_within_step
  by (auto simp: loop_bounds_def)

lemma run_bounds:
  assumes "loop_max_steps v = Inr m" and "agent_run llm tools m msgs s = (Inr r, fin)"
  shows "1 \<le> rr_steps r \<and> rr_steps r \<le> m \<and> m \<le> 8 \<and> path_within (rr_steps r) (rr_execution_path r) \<and>
     (rr_status r = RunCompleted \<longleftrightarrow> rr_reason r = EXECUTOR_STOPPED)"
proof -
  have m: "1 \<le> m" "m \<le> 8"
    using assms(1) by (auto simp: loop_max_steps_def MAX_STEPS_def split: pyval.splits if_splits)
  have run: "run_loop llm tools m (initial_loop_state msgs s) = (Inr r, fin)"
    using assms(2) by (simp add: agent_run_def)
  have "1 \<le> rr_steps r \<and> rr_steps r \<le> m \<and> path_within (rr_steps r) (rr_execution_path r) \<and>
     (rr_status r = RunCompleted \<longleftrightarrow> rr_reason r = EXECUTOR_STOPPED)" (is "?Q r")
  proof (rule run_loop_result [where I = "loop_bounds m" and Q = ?Q, OF run])
    show "?Q q" if "loop_bounds m st" "ls_steps st < m" "result_after st llm q" for st q
      using that path_within_step by (auto simp: loop_bounds_def result_after_def)
    show "?Q (failed_result MAX_STEPS_REACHED st)" if "loop_bounds m st" "m \<le> ls_steps st" for st
      using that m by (auto simp: loop_bounds_def failed_result_def)
    show "loop_bounds m (initial_loop_state msgs s)"
      by (simp add: loop_bounds_def initial_loop_state_def path_within_def)
  qed (fact loop_bounds_Running)
  with m show ?thesis by simp
qed

text \<open>
  C28. A run that returns has taken at least one step and at most the configured number, itself
  capped at eight; the entries of its execution path carry strictly increasing step numbers
  between one and the number of steps, each naming an action exactly when the action is known;
  and the run is completed exactly when its stop reason is that the executor stopped it.
\<close>

theorem agent_run_bounds:
  assumes "loop_max_steps v = Inr m" and "agent_run llm tools m msgs s = (Inr r, fin)"
  shows "1 \<le> rr_steps r \<and> rr_steps r \<le> m \<and> m \<le> 8 \<and> path_within (rr_steps r) (rr_execution_path r) \<and>
     (rr_status r = RunCompleted \<longleftrightarrow> rr_reason r = EXECUTOR_STOPPED)"
  using run_bounds [OF assms] .

section \<open>The repetition guard\<close>

text \<open>The calls handed to the executor, read off the tool messages of a transcript.\<close>

definition executed_calls :: "agent_message list \<Rightarrow> tool_call list" where
  "executed_calls ms =
     concat (map (\<lambda>m. if am_role m = TOOL then (case am_tool_call m of None \<Rightarrow> [] | Some c \<Rightarrow> [c])
                      else []) ms)"

definition no_triple :: "'a list \<Rightarrow> bool" where
  "no_triple xs \<longleftrightarrow> list_all (\<lambda>c. \<not> sublist [c, c, c] xs) xs"

text \<open>A provider whose answers passed the strict schema.\<close>

definition valid_provider :: "llm_client \<Rightarrow> bool" where
  "valid_provider llm \<longleftrightarrow> (\<forall>ms p. llm ms = Inr p \<longrightarrow> valid_proposal p)"

lemma executed_calls_append [simp]: "executed_calls (xs @ ys) = executed_calls xs @ executed_calls ys"
  by (simp add: executed_calls_def)

lemma executed_calls_messages [simp]:
  "executed_calls [] = []"
  "executed_calls [assistant_message p c] = []"
  "executed_calls [assistant_message p c, tool_message d v] = [d]"
  by (simp_all add: executed_calls_def assistant_message_def tool_message_def)

lemma no_triple_alt: "no_triple xs \<longleftrightarrow> (\<forall>c. \<not> sublist [c, c, c] xs)"
  using set_mono_sublist by (fastforce simp: no_triple_def list_all_iff)

lemma no_triple_snoc:
  assumes "no_triple xs" "\<not> suffix [c, c] xs"
  shows "no_triple (xs @ [c])"
  using assms
  by (auto simp: no_triple_alt sublist_snoc)

text \<open>
  The counter describes the end of the list of executed calls: the streak starts with the stored
  call, which differs from the call before it.
\<close>

definition streak :: "tool_call list \<Rightarrow> tool_call option \<Rightarrow> nat \<Rightarrow> bool" where
  "streak calls prev n \<longleftrightarrow>
     (calls = [] \<and> prev = None \<and> n = 0) \<or>
     (\<exists>h xs. prev = Some h \<and> tool_call_eq h h \<and> \<not> suffix [h] xs \<and>
        (n = 1 \<and> calls = xs @ [h] \<or>
         n = 2 \<and> (\<exists>c. calls = xs @ [h, c] \<and> tool_call_eq c h)))"

lemma streak_bump:
  assumes "streak calls (ls_previous st) (ls_consecutive st)" "no_triple calls"
    and "tool_call_eq c c" "bump_streak c st = (prev, n)" "n \<noteq> MAX_CONSECUTIVE_TOOL_CALLS"
  shows "streak (calls @ [c]) prev n \<and> no_triple (calls @ [c])"
proof (cases "calls = []")
  case True
  then have "ls_previous st = None" using assms(1) by (auto simp: streak_def)
  then have "prev = Some c" "n = 1" using assms(4) by (auto simp: bump_streak_def)
  then show ?thesis using True assms(3) by (auto simp: streak_def no_triple_alt sublist_Cons_right)
next
  case False
  then obtain h xs where h: "ls_previous st = Some h" "tool_call_eq h h" "\<not> suffix [h] xs"
    and d: "ls_consecutive st = 1 \<and> calls = xs @ [h] \<or>
       ls_consecutive st = 2 \<and> (\<exists>c. calls = xs @ [h, c] \<and> tool_call_eq c h)"
    using assms(1) by (auto simp: streak_def)
  show ?thesis
  proof (cases "tool_call_eq c h")
    case True
    then have n: "prev = Some h" "n = 2" "calls = xs @ [h]"
      using assms(4,5) h d by (auto simp: bump_streak_def MAX_CONSECUTIVE_TOOL_CALLS_def)
    have "\<not> suffix [c, c] calls"
      using n(3) h(3) by (auto simp: suffix_def append_eq_append_conv2 Cons_eq_append_conv
          append_eq_Cons_conv)
    then show ?thesis using n h True no_triple_snoc [OF assms(2)] by (auto simp: streak_def)
  next
    case new: False
    then have n: "prev = Some c" "n = 1" using assms(4) h by (auto simp: bump_streak_def)
    have ns: "\<not> suffix [c] calls"
      using d new h(2) by (auto simp: suffix_def append_eq_append_conv2 Cons_eq_append_conv
          append_eq_Cons_conv)
    then have "\<not> suffix [c, c] calls"
      by (metis suffix_ConsD)
    then show ?thesis using n ns assms(3) no_triple_snoc [OF assms(2)] by (auto simp: streak_def)
  qed
qed

definition repetition_inv :: "agent_message list \<Rightarrow> 's loop_state \<Rightarrow> bool" where
  "repetition_inv msgs st \<longleftrightarrow>
     (\<exists>new. ls_messages st = msgs @ new \<and> no_triple (executed_calls new) \<and>
        streak (executed_calls new) (ls_previous st) (ls_consecutive st))"

lemma repetition_inv_Running:
  assumes "valid_provider llm" "repetition_inv msgs st" "loop_iteration llm tools st = Running st'"
  shows "repetition_inv msgs st'"
proof -
  obtain new where new: "ls_messages st = msgs @ new" "no_triple (executed_calls new)"
    "streak (executed_calls new) (ls_previous st) (ls_consecutive st)"
    using assms(2) by (auto simp: repetition_inv_def)
  obtain p c v where it: "llm (ls_messages st) = Inr p" "proposal_tool_call_of p = Inr (Some c)"
    "ls_messages st' = ls_messages st @ [assistant_message p (Some c), tool_message c v]"
    "(ls_previous st', ls_consecutive st') = bump_streak c st"
    "ls_consecutive st' \<noteq> MAX_CONSECUTIVE_TOOL_CALLS"
    using loop_iteration_Running [OF assms(3)] by blast
  have "tool_call_eq c c"
    using proposal_tool_call_refl assms(1) it(1,2) by (auto simp: valid_provider_def)
  then show ?thesis
    using streak_bump [OF new(3,2) _ it(4) [symmetric] it(5)] it(3) new(1)
    by (auto simp: repetition_inv_def intro!: exI [of _ "new @ [assistant_message p (Some c), tool_message c v]"])
qed


section \<open>Events\<close>

fun event_step :: "agent_event \<Rightarrow> nat option" where
  "event_step (AgentStepCompleted n _ _ _) = Some n"
| "event_step (AgentRunFinished _ _ _) = None"

definition events_inv :: "'s loop_state \<Rightarrow> bool" where
  "events_inv st \<longleftrightarrow> map event_step (ls_events st) = map Some [1..<Suc (ls_steps st)]"

definition run_events :: "agent_run_result \<Rightarrow> agent_event list \<Rightarrow> bool" where
  "run_events r evs \<longleftrightarrow>
     (\<exists>steps. evs = steps @ [AgentRunFinished
          (if rr_status r = RunCompleted then OC_SUCCEEDED else OC_FAILED) (rr_steps r)
          (Some (rr_reason r))] \<and>
        map event_step steps = map Some [1..<Suc (rr_steps r)])"

lemma ls_events_emit_step:
  "\<exists>oc k a. ls_events (emit_step tools n oc' k' st) = ls_events st @ [AgentStepCompleted n oc k a]"
  by (auto simp: emit_step_def Let_def)

lemma events_snoc:
  assumes "events_inv st"
  shows "map event_step (ls_events st @ [AgentStepCompleted (Suc (ls_steps st)) oc k a]) =
         map Some [1..<Suc (Suc (ls_steps st))]"
  using assms by (simp add: events_inv_def)

lemma execute_step_events:
  assumes "execute_step tools p c st = Running st'"
  shows "ls_events st' = ls_events (emit_step tools (ls_steps st) OC_TOOL_REQUESTED (Some (tc_name c)) st)"
  using assms
  by (auto simp: execute_step_def finish_result_def Let_def
      split: sum.splits prod.splits tool_disposition.splits dest!: append_evidence_frame)

lemma loop_iteration_events:
  assumes "events_inv st" "loop_iteration llm tools st = Running st'"
  shows "events_inv st'"
proof -
  obtain oc k a where
    "ls_events st' = ls_events st @ [AgentStepCompleted (Suc (ls_steps st)) oc k a]"
    using assms(2)
    by (auto simp: loop_iteration_def tool_step_def finish_result_def terminal_step_not_Running
          emit_step_def Let_def
        split: sum.splits option.splits if_splits dest!: execute_step_events)
  moreover have "ls_steps st' = Suc (ls_steps st)"
    using loop_iteration_Running_steps [OF assms(2)] .
  ultimately show ?thesis
    using events_snoc [OF assms(1)] by (simp add: events_inv_def)
qed

lemma run_events_emit:
  assumes "map event_step (ls_events st) = map Some [1..<Suc n]"
    and "status = rr_status r" "reason = Some (rr_reason r)" "n = rr_steps r"
  shows "run_events r (ls_events (emit_run status reason n st))"
  using assms by (simp add: run_events_def emit_run_def)

lemma terminal_step_events:
  assumes "terminal_step tools p st = Finished (Inr r) st'"
    and "map event_step (ls_events st) = map Some [1..<ls_steps st]" "1 \<le> ls_steps st"
  shows "run_events r (ls_events st')"
  using assms
  by (auto simp: terminal_step_def finish_result_def emit_step_def Let_def
      intro!: run_events_emit
      split: sum.splits prod.splits option.splits dest!: append_evidence_frame)

lemma tool_step_events:
  assumes "tool_step tools p c st = Finished (Inr r) st'"
    and "map event_step (ls_events st) = map Some [1..<ls_steps st]" "1 \<le> ls_steps st"
  shows "run_events r (ls_events st')"
  using assms
  by (auto simp: tool_step_def execute_step_def finish_result_def failed_result_def emit_step_def Let_def
      intro!: run_events_emit
      split: sum.splits prod.splits option.splits if_splits tool_disposition.splits
      dest!: append_evidence_frame)

lemma loop_iteration_run_events:
  assumes "events_inv st" "loop_iteration llm tools st = Finished (Inr r) st'"
  shows "run_events r (ls_events st')"
  using assms
  by (auto simp: loop_iteration_def events_inv_def finish_result_def failed_result_def emit_step_def
        Let_def
      intro!: run_events_emit intro: terminal_step_events tool_step_events
      split: sum.splits option.splits if_splits)

text \<open>
  A run that returns emits one completed-step event per step, numbered from one without
  gaps, and then exactly one run-finished event that carries the number of steps, the stop
  reason and the outcome of the returned result.
\<close>

theorem agent_run_events:
  assumes "agent_run llm tools m msgs s = (Inr r, fin)"
  shows "run_events r (ls_events fin)"
proof -
  define R where "R = (\<lambda>(q :: agent_run_result res) (st :: 'a loop_state).
    \<forall>x. q = Inr x \<longrightarrow> run_events x (ls_events st))"
  have run: "run_loop llm tools m (initial_loop_state msgs s) = (Inr r, fin)"
    using assms by (simp add: agent_run_def)
  have "R (Inr r) fin"
  proof (rule run_loop_invariant [where I = events_inv and Q = R, OF run])
    show "R q st'" if "events_inv st" "loop_iteration llm tools st = Finished q st'" for st q st'
      using that loop_iteration_run_events by (auto simp: R_def)
    show "R (Inr (failed_result MAX_STEPS_REACHED st))
      (emit_run RunFailed (Some MAX_STEPS_REACHED) (ls_steps st) st)" if "events_inv st" for st
      using that
      by (auto simp: R_def events_inv_def failed_result_def intro!: run_events_emit)
    show "events_inv (initial_loop_state msgs s)"
      by (simp add: initial_loop_state_def events_inv_def)
  qed (rule loop_iteration_events)
  then show ?thesis by (simp add: R_def)
qed

section \<open>Witnesses\<close>

text \<open>A provider that asks for the same call forever, and an executor that answers and goes on.\<close>

definition demo_proposal :: agent_proposal where
  "demo_proposal =
     \<lparr>ap_intake_type = None, ap_fields = [], ap_missing_required_fields = [], ap_priority = NORMAL,
      ap_contains_injection = False, ap_rationale_short = ''again'',
      ap_tool_calls = [\<lparr>ptc_name = ''lookup'', ptc_arguments = []\<rparr>], ap_confidence = 1\<rparr>"

definition demo_llm :: llm_client where
  "demo_llm ms = Inr demo_proposal"

definition demo_tools :: "unit tool_executor" where
  "demo_tools =
     \<lparr>te_execute = (\<lambda>p c s. (mk_tool_execution_result (PStr (tc_name c)) None None None None None, s)),
      te_evaluate_terminal = None, te_definitions = [''lookup'']\<rparr>"

lemma demo_run:
  "case agent_run demo_llm demo_tools 8 [] () of
     (Inr r, fin) \<Rightarrow> rr_steps r = 3 \<and> rr_reason r = REPEATED_TOOL \<and> length (executed_calls (rr_messages r)) = 2
   | (Inl e, fin) \<Rightarrow> False"
  by code_simp

lemma demo_run_result:
  obtains r fin where "agent_run demo_llm demo_tools 8 [] () = (Inr r, fin)"
    "rr_steps r = 3" "rr_reason r = REPEATED_TOOL" "length (executed_calls (rr_messages r)) = 2"
  using demo_run by (auto split: prod.splits sum.splits)

lemma demo_llm_valid: "valid_provider demo_llm"
  by (simp add: valid_provider_def demo_llm_def demo_proposal_def valid_proposal_def
      valid_proposal_tool_call_def)

theorem agent_run_bounds_witness:
  "loop_max_steps (PInt 20) = Inr 8 \<and>
   (\<exists>r fin. agent_run demo_llm demo_tools 8 [] () = (Inr r, fin) \<and> rr_steps r = 3 \<and>
      path_within (rr_steps r) (rr_execution_path r))"
proof -
  have m: "loop_max_steps (PInt 20) = Inr 8"
    by (simp add: loop_max_steps_def MAX_STEPS_def)
  obtain r fin where run: "agent_run demo_llm demo_tools 8 [] () = (Inr r, fin)" "rr_steps r = 3"
    by (rule demo_run_result)
  show ?thesis
    using m run agent_run_bounds [OF m run(1)] by blast
qed


theorem agent_run_events_witness:
  "\<exists>r fin. agent_run demo_llm demo_tools 8 [] () = (Inr r, fin) \<and> run_events r (ls_events fin) \<and>
     rr_steps r = 3"
proof -
  obtain r fin where run: "agent_run demo_llm demo_tools 8 [] () = (Inr r, fin)" "rr_steps r = 3"
    by (rule demo_run_result)
  show ?thesis
    using run agent_run_events [OF run(1)] by blast
qed

end
