(* ===== verification/Worker_Safety.thy ===== *)
theory Worker_Safety
  imports Worker Durability Agent_Run
begin

text \<open>
  The worker's cycle keeps the workflow, whatever the other processes do in between; what it reports as
  the outcome of a job is what it stored; and it hands a job back to the queue only if no side effect
  was committed and the retry budget is not used up.
\<close>

section \<open>Every path evolves the store\<close>

definition others_evolve :: "worker_env \<Rightarrow> bool" where
  "others_evolve env \<longleftrightarrow> (\<forall>p d. workflow_wf d \<longrightarrow> evolves d (we_others env p d))"

definition tx_evolves :: "'a tx \<Rightarrow> bool" where
  "tx_evolves m \<longleftrightarrow> (\<forall>d r d'. workflow_wf d \<longrightarrow> m d = (r, d') \<longrightarrow> evolves d d')"

definition w_evolves :: "'a worker \<Rightarrow> bool" where
  "w_evolves m \<longleftrightarrow> (\<forall>d r es d'. workflow_wf d \<longrightarrow> m d = (r, es, d') \<longrightarrow> evolves d d')"

lemma tx_evolves_ops:
  "tx_evolves (expire_due locked now limit)" "tx_evolves (recover_expired_leases locked now mr delay)"
  "tx_evolves (claim_next locked now lease excluded)" "tx_evolves (mark_succeeded i result now t n)"
  "tx_evolves (mark_failed i err now t n)" "tx_evolves (mark_failed_uncertain i err now t n)"
  "tx_evolves (schedule_retry i err available t n)" "tx_evolves (record_awaiting_approval_result i result t n)"
  unfolding tx_evolves_def mark_succeeded_def mark_failed_def mark_failed_uncertain_def
  by (auto intro: expire_due_evolves recover_expired_leases_evolves claim_next_evolves schedule_retry_evolves
      record_awaiting_evolves mark_terminal_evolves [rotated 2])

lemma tx_evolves_marker: "tx_evolves (get_side_effect_marker i t n)"
  unfolding tx_evolves_def get_side_effect_marker_def owned_job_def
  by (auto simp: bind_tx_def read_tx_def raise_tx_def ret_tx_def intro: evolves_refl split: sum.splits option.splits if_splits)

lemma guarded_evolves:
  assumes "others_evolve env" "tx_evolves m"
  shows "tx_evolves (guarded env p m)"
  unfolding tx_evolves_def
proof (intro allI impI)
  fix d r d' assume wf: "workflow_wf d" and r: "guarded env p m d = (r, d')"
  have e: "evolves d (we_others env p d)" using assms(1) wf by (simp add: others_evolve_def)
  show "evolves d d'"
  proof (cases "we_fault env p")
    case (Some x)
    then show ?thesis using r e by (simp add: guarded_def Let_def)
  next
    case None
    then have "m (we_others env p d) = (r, d')" using r by (simp add: guarded_def Let_def)
    with assms(2) e have "evolves (we_others env p d) d'" by (auto simp: tx_evolves_def evolves_def)
    with e show ?thesis by (rule evolves_trans)
  qed
qed

lemma reported_evolves:
  assumes "others_evolve env" "tx_evolves m"
  shows "w_evolves (reported env p m)" "w_evolves (reported_any env p m)"
  using guarded_evolves [OF assms, of p]
  by (fastforce simp: w_evolves_def tx_evolves_def reported_def reported_any_def split: prod.splits sum.splits)+

lemma w_evolves_basic: "w_evolves (ret_w x)" "w_evolves (emit_w es)"
  by (simp_all add: w_evolves_def ret_w_def emit_w_def evolves_refl)

lemma w_evolves_bind:
  assumes "w_evolves m" "\<And>x. w_evolves (f x)"
  shows "w_evolves (bind_w m f)"
  unfolding w_evolves_def
proof (intro allI impI)
  fix d r es d' assume wf: "workflow_wf d" and r: "bind_w m f d = (r, es, d')"
  obtain q es1 e where q: "m d = (q, es1, e)" by (cases "m d") auto
  with assms(1) wf have ev: "evolves d e" by (simp add: w_evolves_def)
  show "evolves d d'"
  proof (cases q)
    case (Inl x)
    then show ?thesis using r q ev by (simp add: bind_w_def)
  next
    case (Inr x)
    then obtain es2 where "f x e = (r, es2, d')" using r q by (auto simp: bind_w_def split: prod.splits)
    with assms(2) ev have "evolves e d'" by (auto simp: w_evolves_def evolves_def)
    with ev show ?thesis by (rule evolves_trans)
  qed
qed

lemma w_evolves_if: "(c \<Longrightarrow> w_evolves m) \<Longrightarrow> (\<not> c \<Longrightarrow> w_evolves m') \<Longrightarrow> w_evolves (if c then m else m')"
  by simp

lemma has_side_effect_evolves:
  assumes "others_evolve env"
  shows "w_evolves (has_side_effect env job)"
  using guarded_evolves [OF assms tx_evolves_marker, of OP_read_marker]
  by (fastforce simp: w_evolves_def tx_evolves_def has_side_effect_def intro: evolves_refl split: if_splits prod.splits sum.splits)

lemma writes_evolve:
  assumes "others_evolve env"
  shows "w_evolves (write_failed env job err)" "w_evolves (write_failed_uncertain env job err)"
    "w_evolves (write_retry env job err)" "w_evolves (persist_completed env job r)"
    "w_evolves (persist_preflight_result env job t)"
  unfolding write_failed_def write_failed_uncertain_def write_retry_def persist_completed_def persist_preflight_result_def
  by (intro reported_evolves [OF assms] tx_evolves_ops w_evolves_if w_evolves_bind w_evolves_basic)+

lemma finish_run_evolves:
  assumes "others_evolve env"
  shows "w_evolves (finish_run env job r)"
proof -
  have e: "w_evolves (finish_error env job code)" for code
    unfolding finish_error_def
    by (intro w_evolves_bind has_side_effect_evolves [OF assms] w_evolves_if writes_evolve [OF assms] w_evolves_basic)
  have rt: "w_evolves (finish_retryable env job code c)" for code c
    unfolding finish_retryable_def
    by (intro w_evolves_bind has_side_effect_evolves [OF assms] w_evolves_if writes_evolve [OF assms] w_evolves_basic)
  have p: "w_evolves (persist_result env job res)" for res
    unfolding persist_result_def
    by (intro w_evolves_bind has_side_effect_evolves [OF assms] w_evolves_if writes_evolve [OF assms] w_evolves_basic)
  show ?thesis
    unfolding finish_run_def
    by (auto intro!: e rt p w_evolves_bind writes_evolve [OF assms] w_evolves_basic
        split: sum.split exn.split job_outcome.split)
qed

lemma run_claimed_job_evolves: "tx_evolves (run_claimed_job env job)"
  unfolding tx_evolves_def
proof (intro allI impI)
  fix d r d' assume wf: "workflow_wf d" and r: "run_claimed_job env job d = (r, d')"
  show "evolves d d'"
  proof (cases "\<exists>rd. fst (factory_build (we_runtime env) job) = Inr (Ready rd)")
    case False
    then have "d' = d" using r by (auto simp: run_claimed_job_def split: sum.splits build_result.splits)
    then show ?thesis using wf by (simp add: evolves_refl)
  next
    case True
    then obtain rd where rd: "fst (factory_build (we_runtime env) job) = Inr (Ready rd)" by blast
    then obtain rt where x: "rd_executor rd = postgres_executor
        (claimed_env (cj_id job) (cj_attempt_count job) (re_approval_timeout (we_runtime env))) rt (re_values (we_runtime env))"
      by (auto simp: factory_build_def ready_runtime_of_def bind_res_Inr_iff Let_def
          split: sum.splits prod.splits if_splits preflight_result.splits)
    let ?s = "\<lparr>xs_port = \<lparr>pg_db = d, pg_calls = 0, pg_script = we_script env\<rparr>, xs_events = []\<rparr>"
    obtain q fin where q: "agent_run (re_llm (we_runtime env)) (gated_tools (rd_executor rd)) MAX_STEPS (rd_messages rd) ?s = (q, fin)"
      by fastforce
    have "port_inv (rt_tenant_id rt) d (xs_port ?s)" using wf by (simp add: port_inv_def safe_change_refl)
    from postgres.gated.run_keeps_inv [OF this q [unfolded x]] have "evolves d (pg_db (xs_port (ls_tools fin)))"
      by (simp add: port_inv_def safe_change_def)
    moreover have "d' = pg_db (xs_port (ls_tools fin))"
      using r rd q by (auto simp: run_claimed_job_def split: sum.splits)
    ultimately show ?thesis by simp
  qed
qed

lemma run_with_lease_evolves: "tx_evolves (run_claimed_with_lease env job)"
  using run_claimed_job_evolves [of env job]
  by (auto simp: tx_evolves_def run_claimed_with_lease_def split: prod.splits supervision.splits bool.splits)

lemma run_job_evolves:
  assumes "others_evolve env"
  shows "w_evolves (run_job env job)"
  unfolding w_evolves_def
proof (intro allI impI)
  fix d r es d' assume wf: "workflow_wf d" and r: "run_job env job d = (r, es, d')"
  obtain q d1 where q: "run_claimed_with_lease env job d = (q, d1)" by fastforce
  obtain x es1 d2 where f: "finish_run env job q d1 = (x, es1, d2)" by (cases "finish_run env job q d1") auto
  have e1: "evolves d d1" using run_with_lease_evolves wf q by (auto simp: tx_evolves_def)
  then have "evolves d1 d2"
    using finish_run_evolves [OF assms] f by (auto simp: w_evolves_def evolves_def)
  moreover have "d' = d2" using r q f by (auto simp: run_job_def split: sum.splits if_splits)
  ultimately show "evolves d d'" using e1 evolves_trans by blast
qed

text \<open>
  A cycle of the worker keeps the workflow. Whatever the provider proposes, however the supervised
  run ends, whichever transaction fails with an outage and whatever the other processes do before each of
  the worker's transactions (as long as they keep the workflow themselves), the store after the cycle
  satisfies the invariant and every job and approval has moved along its lifecycle only.
\<close>

theorem serve_once_evolves:
  assumes "workflow_wf d" "others_evolve env" "serve_once env d = (r, es, d')"
  shows "evolves d d'"
proof -
  have "w_evolves (serve_once env)"
    unfolding serve_once_def
    by (intro w_evolves_bind reported_evolves [OF assms(2)] tx_evolves_ops w_evolves_basic)
       (auto intro!: w_evolves_bind w_evolves_basic run_job_evolves [OF assms(2)] split: option.split)
  with assms(1,3) show ?thesis by (simp add: w_evolves_def)
qed

section \<open>What is reported and what is stored\<close>

fun is_finished :: "worker_event \<Rightarrow> bool" where
  "is_finished (JobFinished _ _ _ _ _ _) = True"
| "is_finished _ = False"

fun outcome_status :: "outcome_code \<Rightarrow> job_status option" where
  "outcome_status OC_SUCCEEDED = Some J_succeeded"
| "outcome_status OC_FAILED = Some J_failed"
| "outcome_status OC_FAILED_UNCERTAIN = Some J_failed_uncertain"
| "outcome_status OC_NEEDS_APPROVAL = Some J_awaiting_approval"
| "outcome_status OC_RETRY_SCHEDULED = Some J_queued"
| "outcome_status _ = None"

definition stored :: "claimed_job \<Rightarrow> job_status \<Rightarrow> db \<Rightarrow> bool" where
  "stored job s d \<longleftrightarrow>
     (\<exists>j \<in> set (db_jobs d). job_id j = cj_id job \<and> job_attempt_count j = cj_attempt_count job \<and> job_status j = s)"

lemma update_job_stored:
  assumes "j \<in> set (db_jobs d)" "job_id j = i"
  shows "g j \<in> set (db_jobs (update_job i g d))"
  unfolding update_job_def using assms by (simp add: in_update_rows) (metis (mono_tags))

lemma writes_store:
  "mark_terminal (cj_id job) s now t (cj_attempt_count job) result err d = (Inr u, d') \<Longrightarrow> stored job s d'"
  "schedule_retry (cj_id job) err' available t (cj_attempt_count job) d = (Inr u, d') \<Longrightarrow> stored job J_queued d'"
  "record_awaiting_approval_result (cj_id job) summary t (cj_attempt_count job) d = (Inr u, d') \<Longrightarrow>
     stored job J_awaiting_approval d'"
proof -
  assume "mark_terminal (cj_id job) s now t (cj_attempt_count job) result err d = (Inr u, d')"
  then obtain j e where j: "j \<in> set (db_jobs d)" "job_id j = cj_id job" "job_attempt_count j = cj_attempt_count job"
    "cancel_staged_approval (cj_id job) t d = (Inr (), e)"
    "d' = update_job (cj_id job) (\<lambda>r. r\<lparr>job_status := s, job_finished_at := Some now,
          job_lease_expires_at := None, job_result := result, job_error_code := err\<rparr>) e"
    by (auto simp: mark_terminal_def tx_iffs dest: owned_job_InrD)
  have "j \<in> set (db_jobs e)" using j(1) cancel_keeps_jobs [OF j(4)] by simp
  show "stored job s d'"
    unfolding stored_def j(5) by (rule bexI [OF _ update_job_stored [OF \<open>j \<in> set (db_jobs e)\<close> j(2)]]) (simp add: j(2,3))
next
  assume "schedule_retry (cj_id job) err' available t (cj_attempt_count job) d = (Inr u, d')"
  then obtain j where j: "j \<in> set (db_jobs d)" "job_id j = cj_id job" "job_attempt_count j = cj_attempt_count job"
    "d' = update_job (cj_id job) (\<lambda>r. r\<lparr>job_status := J_queued, job_error_code := Some err',
          job_available_at := available, job_lease_expires_at := None\<rparr>) d"
    by (auto simp: schedule_retry_def tx_iffs dest: owned_job_InrD)
  show "stored job J_queued d'"
    unfolding stored_def j(4) by (rule bexI [OF _ update_job_stored [OF j(1,2)]]) (simp add: j(2,3))
next
  assume "record_awaiting_approval_result (cj_id job) summary t (cj_attempt_count job) d = (Inr u, d')"
  then obtain j a where j: "j \<in> set (db_jobs d)" "job_id j = cj_id job" "job_attempt_count j = cj_attempt_count job"
    "d' = update_job (cj_id job) (\<lambda>r. r\<lparr>job_status := J_awaiting_approval, job_finished_at := None,
                job_lease_expires_at := None, job_result := Some summary, job_error_code := None\<rparr>)
           (update_approval a (\<lambda>r. r\<lparr>apr_status := A_pending\<rparr>) d)"
    by (auto simp: record_awaiting_approval_result_def tx_iffs dest!: owned_job_InrD split: option.splits if_splits)
  have u: "j \<in> set (db_jobs (update_approval a (\<lambda>r. r\<lparr>apr_status := A_pending\<rparr>) d))" using j(1) by (simp add: update_approval_def)
  show "stored job J_awaiting_approval d'"
    unfolding stored_def j(4) by (rule bexI [OF _ update_job_stored [OF u j(2)]]) (simp add: j(2,3))
qed

text \<open>Commands that report no end, commands that store a status, and the two ways to end.\<close>

definition silent :: "'a worker \<Rightarrow> bool" where
  "silent m \<longleftrightarrow> (\<forall>d r es d'. m d = (r, es, d') \<longrightarrow> filter is_finished es = [])"

definition stores :: "claimed_job \<Rightarrow> job_status \<Rightarrow> 'a worker \<Rightarrow> bool" where
  "stores job s m \<longleftrightarrow> silent m \<and> (\<forall>d x es d'. m d = (Inr x, es, d') \<longrightarrow> stored job s d')"

definition persists :: "claimed_job \<Rightarrow> outcome_code worker \<Rightarrow> bool" where
  "persists job m \<longleftrightarrow> silent m \<and>
     (\<forall>d c es d'. m d = (Inr c, es, d') \<longrightarrow> (\<exists>s. outcome_status c = Some s \<and> stored job s d'))"

definition ended :: "claimed_job \<Rightarrow> 'a res \<Rightarrow> worker_event list \<Rightarrow> db \<Rightarrow> bool" where
  "ended job r es d' \<longleftrightarrow>
     (case r of
        Inl _ \<Rightarrow> filter is_finished es = []
      | Inr _ \<Rightarrow> (\<exists>c w n q b. filter is_finished es = [JobFinished (cj_id job) c w n q b] \<and>
          (c = OC_LEASE_LOST \<or> (\<exists>s. outcome_status c = Some s \<and> stored job s d'))))"

definition ends :: "claimed_job \<Rightarrow> 'a worker \<Rightarrow> bool" where
  "ends job m \<longleftrightarrow> (\<forall>d r es d'. m d = (r, es, d') \<longrightarrow> ended job r es d')"

lemma silentI: "(\<And>d r es d'. m d = (r, es, d') \<Longrightarrow> filter is_finished es = []) \<Longrightarrow> silent m"
  by (auto simp: silent_def)

lemma silentD: "silent m \<Longrightarrow> m d = (r, es, d') \<Longrightarrow> filter is_finished es = []"
  unfolding silent_def by blast

lemma silent_basic: "silent (ret_w x)" "silent (reported env p m)" "silent (reported_any env p m)" "silent (has_side_effect env job)"
  by (auto simp: silent_def ret_w_def reported_def reported_any_def has_side_effect_def split: prod.splits sum.splits if_splits)

lemma silent_emit: "list_all (\<lambda>e. \<not> is_finished e) es \<Longrightarrow> silent (emit_w es)"
  by (auto simp: silent_def emit_w_def list_all_iff filter_empty_conv)

lemma bind_w_cases:
  assumes "bind_w m f d = (r, es, d')"
  obtains (fail) e where "m d = (Inl e, es, d')" "r = Inl e"
  | (next_step) x es1 e es2 where "m d = (Inr x, es1, e)" "f x e = (r, es2, d')" "es = es1 @ es2"
proof -
  obtain q es1 e where q: "m d = (q, es1, e)" by (cases "m d") auto
  show thesis
  proof (cases q)
    case (Inl x)
    with assms q fail show thesis by (simp add: bind_w_def)
  next
    case (Inr x)
    obtain r2 es2 e2 where "f x e = (r2, es2, e2)" by (cases "f x e") auto
    with assms q Inr next_step show thesis by (simp add: bind_w_def)
  qed
qed

lemma silent_bind: "silent m \<Longrightarrow> (\<And>x. silent (f x)) \<Longrightarrow> silent (bind_w m f)"
  by (rule silentI) (auto elim!: bind_w_cases simp: silentD [of m] silentD [of "f _"])

lemma reported_stores:
  assumes "\<And>d x d'. m d = (Inr x, d') \<Longrightarrow> stored job s d'"
  shows "stores job s (reported env p m)"
  using assms
  by (auto simp: stores_def silent_basic reported_def guarded_def Let_def split: prod.splits sum.splits option.splits)

lemma worker_writes_store:
  assumes "job = job'"
  shows "stores job J_failed (write_failed env job' err)" "stores job J_failed_uncertain (write_failed_uncertain env job' err)"
    "stores job J_queued (write_retry env job' err)"
    "stores job J_succeeded (reported env p (mark_succeeded (cj_id job') res now t (cj_attempt_count job')))"
    "stores job J_awaiting_approval (reported env p (record_awaiting_approval_result (cj_id job') res t (cj_attempt_count job')))"
  unfolding assms write_failed_def write_failed_uncertain_def write_retry_def mark_failed_def mark_failed_uncertain_def mark_succeeded_def
  by (auto intro!: reported_stores dest: writes_store)

lemma persists_ret: "stores job s m \<Longrightarrow> outcome_status c = Some s \<Longrightarrow> persists job (bind_w m (\<lambda>_. ret_w c))"
  unfolding persists_def stores_def
  by (auto intro: silent_bind silent_basic elim!: bind_w_cases simp: ret_w_def)

lemma persists_bind: "silent m \<Longrightarrow> (\<And>x. persists job (f x)) \<Longrightarrow> persists job (bind_w m f)"
  unfolding persists_def by (auto intro: silent_bind elim!: bind_w_cases)

lemma persists_if: "(c \<Longrightarrow> persists job m) \<Longrightarrow> (\<not> c \<Longrightarrow> persists job m') \<Longrightarrow> persists job (if c then m else m')"
  by simp

lemma ends_if: "(c \<Longrightarrow> ends job m) \<Longrightarrow> (\<not> c \<Longrightarrow> ends job m') \<Longrightarrow> ends job (if c then m else m')"
  by simp

lemma ended_append: "filter is_finished es = [] \<Longrightarrow> ended job r (es @ es') d' = ended job r es' d'"
  by (cases r) (simp_all add: ended_def)

lemma ends_bind:
  assumes "silent m" "\<And>x. ends job (f x)"
  shows "ends job (bind_w m f)"
  unfolding ends_def
proof (intro allI impI)
  fix d r es d' assume "bind_w m f d = (r, es, d')"
  then show "ended job r es d'"
  proof (cases rule: bind_w_cases)
    case (fail e)
    then show ?thesis using silentD [OF assms(1)] by (simp add: ended_def)
  next
    case (next_step x es1 e es2)
    have "ended job r es2 d'" using assms(2) [of x] next_step(2) by (simp add: ends_def)
    then show ?thesis unfolding next_step(3) using ended_append [OF silentD [OF assms(1) next_step(1)]] by blast
  qed
qed

lemma ends_emit:
  assumes "stores job s m" "outcome_status c = Some s" "filter is_finished es = [JobFinished (cj_id job) c w n q b]"
  shows "ends job (bind_w m (\<lambda>_. emit_w es))"
  using assms unfolding ends_def stores_def ended_def
  by (auto elim!: bind_w_cases simp: emit_w_def silentD split: sum.splits)

lemma ends_persisted:
  assumes "persists job m"
  shows "ends job (bind_w m (\<lambda>c. emit_w [JobFinished (cj_id job) c (w c) (n c) (q c) (b c)]))"
  using assms unfolding ends_def persists_def ended_def
  by (auto elim!: bind_w_cases simp: emit_w_def silentD split: sum.splits)

lemma silent_if: "silent m \<Longrightarrow> silent m' \<Longrightarrow> silent (if c then m else m')"
  by simp

text \<open>One write and what is returned or reported after it.\<close>

lemmas persist_write =
  worker_writes_store(1) [OF refl, THEN persists_ret] worker_writes_store(2) [OF refl, THEN persists_ret]
  worker_writes_store(4) [OF refl, THEN persists_ret] worker_writes_store(5) [OF refl, THEN persists_ret]

lemmas end_write =
  worker_writes_store(1) [OF refl, THEN ends_emit] worker_writes_store(2) [OF refl, THEN ends_emit]
  worker_writes_store(3) [OF refl, THEN ends_emit]

lemma persist_result_persists: "persists job (persist_result env job r)"
  unfolding persist_result_def persist_completed_def
  by (auto intro!: persists_bind silent_basic persist_write)

lemma persist_preflight_persists: "persists job (persist_preflight_result env job t)"
  unfolding persist_preflight_result_def
  by (auto intro!: persist_write)

lemma finish_error_ends: "ends job (finish_error env job code)"
  unfolding finish_error_def
  by (rule ends_bind [OF silent_basic(4)]) (auto intro!: end_write)

lemma finish_retryable_ends: "ends job (finish_retryable env job code flag)"
  unfolding finish_retryable_def
  by (rule ends_bind [OF silent_if [OF silent_basic(1,4)]]) (auto intro!: end_write)

lemma lease_lost_ends: "ends job (emit_w [lease_lost_event job])"
  by (simp add: ends_def ended_def emit_w_def lease_lost_event_def)

lemma finish_run_ends: "ends job (finish_run env job r)"
  unfolding finish_run_def
  by (auto intro!: finish_error_ends finish_retryable_ends lease_lost_ends ends_persisted persist_result_persists
      persist_preflight_persists split: sum.split exn.split job_outcome.split)

lemma run_job_ended:
  assumes "run_job env job d = (r, es, d')"
  shows "\<exists>c w n q b. filter is_finished es = [JobFinished (cj_id job) c w n q b] \<and>
    (case r of
       Inr v \<Rightarrow> v \<and> (c = OC_LEASE_LOST \<or> (\<exists>s. outcome_status c = Some s \<and> stored job s d'))
     | Inl e \<Rightarrow> c = OC_FAILED \<and> w = Some WE_PERSISTENCE_ERROR)"
proof -
  obtain q d1 where q: "run_claimed_with_lease env job d = (q, d1)" by fastforce
  obtain x es1 d2 where f: "finish_run env job q d1 = (x, es1, d2)" by (cases "finish_run env job q d1") auto
  have e: "ended job x es1 d2" using finish_run_ends f by (auto simp: ends_def)
  show ?thesis
  proof (cases x)
    case (Inr u)
    then have "r = Inr True" "es = es1" "d' = d2" using assms q f by (simp_all add: run_job_def)
    with e Inr show ?thesis by (auto simp: ended_def)
  next
    case (Inl y)
    then have n: "filter is_finished es1 = []" using e by (simp add: ended_def)
    show ?thesis
    proof (cases "is_lease_lost y")
      case True
      then have "r = Inr True" "es = es1 @ [lease_lost_event job]" using assms q f Inl by (simp_all add: run_job_def)
      with n show ?thesis by (simp add: lease_lost_event_def)
    next
      case False
      then have "r = Inl y" "es = es1 @ [JobFinished (cj_id job) OC_FAILED (Some WE_PERSISTENCE_ERROR) None None None]"
        using assms q f Inl by (simp_all add: run_job_def)
      with n show ?thesis by simp
    qed
  qed
qed

text \<open>The transactions before the claim, and the rest of the cycle.\<close>

definition before_claim :: "worker_env \<Rightarrow> claimed_job option worker" where
  "before_claim env =
     bind_w (reported_any env OP_decide_approval (expire_due (we_locked env OP_decide_approval) (we_now env) 100)) (\<lambda>expired.
     bind_w (emit_w (map ApprovalExpiredEvent expired)) (\<lambda>_.
     bind_w (reported_any env OP_recover_lease (recover_expired_leases (we_locked env OP_recover_lease) (we_now env)
               (we_max_retries env) (int (retry_delay 1) + we_jitter env 1))) (\<lambda>recovered.
     bind_w (emit_w (map LeaseRecovered recovered)) (\<lambda>_.
     reported_any env OP_claim_job (claim_next (we_locked env OP_claim_job) (we_now env) (we_now env + we_lease env)
               (we_excluded env))))))"

lemma bind_w_assoc: "bind_w (bind_w m f) g = bind_w m (\<lambda>x. bind_w (f x) g)"
  by (rule ext) (simp add: bind_w_def split: prod.split sum.split)

lemma serve_once_split:
  "serve_once env = bind_w (before_claim env) (\<lambda>claimed. case claimed of
       None \<Rightarrow> ret_w False
     | Some job \<Rightarrow>
         bind_w (emit_w [JobClaimed (cj_id job) (cj_attempt_count job), JobRunStarted (cj_id job) (cj_attempt_count job)])
           (\<lambda>_. run_job env job))"
  by (simp add: serve_once_def before_claim_def bind_w_assoc)

lemma before_claim_silent: "silent (before_claim env)"
  unfolding before_claim_def by (intro silent_bind silent_basic silent_emit) (auto simp: list_all_iff)


section \<open>Retries\<close>

fun is_retry :: "worker_event \<Rightarrow> bool" where
  "is_retry (RetryScheduled _ _) = True"
| "is_retry _ = False"

text \<open>What holds in the store when a command has scheduled a retry.\<close>

definition retry_ok :: "worker_env \<Rightarrow> uuid \<Rightarrow> db \<Rightarrow> bool" where
  "retry_ok env i d \<longleftrightarrow>
     (\<exists>j \<in> set (db_jobs d). job_id j = i \<and> job_status j = J_queued \<and> job_side_effect_committed_at j = None \<and>
        int (job_attempt_count j) \<le> we_max_retries env)"

definition retries :: "worker_env \<Rightarrow> 'a worker \<Rightarrow> bool" where
  "retries env m \<longleftrightarrow>
     (\<forall>d r es d'. workflow_wf d \<longrightarrow> m d = (r, es, d') \<longrightarrow> (\<forall>i c. RetryScheduled i c \<in> set es \<longrightarrow> retry_ok env i d'))"

definition retry_free :: "'a worker \<Rightarrow> bool" where
  "retry_free m \<longleftrightarrow> (\<forall>d r es d'. m d = (r, es, d') \<longrightarrow> filter is_retry es = [])"

lemma retry_freeD: "retry_free m \<Longrightarrow> m d = (r, es, d') \<Longrightarrow> RetryScheduled i c \<notin> set es"
  unfolding retry_free_def by (metis (mono_tags, lifting) filter_empty_conv is_retry.simps(1))

lemma retry_free_basic: "retry_free (ret_w x)" "retry_free (reported env p m)" "retry_free (reported_any env p m)"
  "retry_free (has_side_effect env job)"
  by (auto simp: retry_free_def ret_w_def reported_def reported_any_def has_side_effect_def split: prod.splits sum.splits if_splits)

lemma retry_free_emit: "list_all (\<lambda>e. \<not> is_retry e) es \<Longrightarrow> retry_free (emit_w es)"
  by (auto simp: retry_free_def emit_w_def list_all_iff filter_empty_conv)

lemma retry_free_bind:
  assumes "retry_free m" "\<And>x. retry_free (f x)"
  shows "retry_free (bind_w m f)"
  unfolding retry_free_def
proof (intro allI impI)
  fix d r es d' assume "bind_w m f d = (r, es, d')"
  then show "filter is_retry es = []"
  proof (cases rule: bind_w_cases)
    case (fail e)
    then show ?thesis using assms(1) by (auto simp: retry_free_def)
  next
    case (next_step x es1 e es2)
    then have "filter is_retry es1 = []" "filter is_retry es2 = []"
      using assms unfolding retry_free_def by blast+
    then show ?thesis unfolding next_step(3) by simp
  qed
qed

lemma retry_free_if: "retry_free m \<Longrightarrow> retry_free m' \<Longrightarrow> retry_free (if c then m else m')"
  by simp

lemma retry_free_writes: "retry_free (write_failed env job err)" "retry_free (write_failed_uncertain env job err)"
  "retry_free (write_retry env job err)" "retry_free (persist_result env job r)" "retry_free (persist_preflight_result env job t)"
  unfolding write_failed_def write_failed_uncertain_def write_retry_def persist_result_def persist_completed_def
    persist_preflight_result_def
  by (intro retry_free_if retry_free_bind retry_free_basic)+

lemma finish_error_retry_free: "retry_free (finish_error env job code)"
  unfolding finish_error_def
  by (intro retry_free_if retry_free_bind retry_free_basic retry_free_writes retry_free_emit) simp_all

text \<open>The marker that was read is still absent in the row that goes back to the queue.\<close>

lemma marker_absent:
  assumes "has_side_effect env job d = (Inr False, es, d')"
  obtains j where "j \<in> set (db_jobs d')" "job_id j = cj_id job" "job_attempt_count j = cj_attempt_count job"
    "job_side_effect_committed_at j = None"
proof -
  from assms obtain e where e: "get_side_effect_marker (cj_id job) (cj_tenant_id job) (cj_attempt_count job) e = (Inr None, d')"
    by (auto simp: has_side_effect_def guarded_def Let_def split: if_splits prod.splits sum.splits option.splits)
  then obtain j where "owned_job ''job lease ownership changed before side-effect inspection'' (cj_id job) (cj_tenant_id job)
      (cj_attempt_count job) e = (Inr j, d')" "job_side_effect_committed_at j = None"
    by (auto simp: get_side_effect_marker_def tx_iffs)
  with owned_job_InrD [OF this(1)] that show ?thesis by auto
qed

lemma write_retry_ok:
  assumes wf: "workflow_wf d" and o: "we_others env OP_schedule_retry d = d" and r: "write_retry env job code d = (Inr u, es, d')"
    and j: "j \<in> set (db_jobs d)" "job_id j = cj_id job" "job_attempt_count j = cj_attempt_count job"
      "job_side_effect_committed_at j = None"
    and b: "int (cj_attempt_count job) \<le> we_max_retries env"
  shows "retry_ok env (cj_id job) d'"
proof -
  from r o obtain x where "schedule_retry (cj_id job) code x (cj_tenant_id job) (cj_attempt_count job) d = (Inr u, d')"
    by (auto simp: write_retry_def reported_def guarded_def Let_def split: prod.splits sum.splits option.splits)
  then have d': "d' = update_job (cj_id job) (\<lambda>r. r\<lparr>job_status := J_queued, job_error_code := Some code,
          job_available_at := x, job_lease_expires_at := None\<rparr>) d"
    by (auto simp: schedule_retry_def tx_iffs dest: owned_job_InrD)
  show ?thesis
    unfolding retry_ok_def d' by (rule bexI [OF _ update_job_stored [OF j(1,2)]]) (use j b in simp)
qed

lemma finish_retryable_retries:
  assumes o: "others_evolve env" "\<And>d. we_others env OP_schedule_retry d = d" and f: "\<not> flag"
  shows "retries env (finish_retryable env job code flag)"
  unfolding retries_def
proof (intro allI impI)
  fix d r es d' i c
  assume wf: "workflow_wf d" and r: "finish_retryable env job code flag d = (r, es, d')" and ev: "RetryScheduled i c \<in> set es"
  let ?fu = "bind_w (write_failed_uncertain env job ''side_effect_committed'') (\<lambda>_.
      emit_w [JobFinished (cj_id job) OC_FAILED_UNCERTAIN (Some WE_SIDE_EFFECT_COMMITTED) None None (Some True)])"
  let ?ex = "bind_w (write_failed env job ''retry_exhausted'') (\<lambda>_.
      emit_w [JobFinished (cj_id job) OC_FAILED (Some WE_RETRY_EXHAUSTED) None None None])"
  have free: "retry_free ?fu" "retry_free ?ex"
    by (intro retry_free_bind retry_free_writes retry_free_emit; simp)+
  from r [unfolded finish_retryable_def] f show "retry_ok env i d'"
  proof (cases rule: bind_w_cases)
    case (fail e)
    then show ?thesis using ev f retry_freeD [OF retry_free_basic(4)] by auto
  next
    case (next_step x es1 e es2)
    from next_step(1) f have h: "has_side_effect env job d = (Inr x, es1, e)" by simp
    have es2: "RetryScheduled i c \<in> set es2" using ev next_step(3) retry_freeD [OF retry_free_basic(4) h] by auto
    have nx: "\<not> x" using next_step(2) es2 retry_freeD [OF free(1)] by auto
    have nb: "\<not> we_max_retries env < int (cj_attempt_count job)" using next_step(2) es2 nx retry_freeD [OF free(2)] by auto
    from next_step(2) nx nb have w: "bind_w (write_retry env job code) (\<lambda>_.
            emit_w [RetryScheduled (cj_id job) (worker_error_code_of code),
                    JobFinished (cj_id job) OC_RETRY_SCHEDULED (worker_error_code_of code) None None None]) e = (r, es2, d')"
      by simp
    from w show ?thesis
    proof (cases rule: bind_w_cases)
      case (fail y)
      then show ?thesis using es2 retry_freeD [OF retry_free_writes(3)] by blast
    next
      case (next_step u es3 e2 es4)
      have i: "i = cj_id job" and d': "e2 = d'"
        using next_step(2,3) es2 retry_freeD [OF retry_free_writes(3) next_step(1)] by (auto simp: emit_w_def)
      from h nx obtain j where j: "j \<in> set (db_jobs e)" "job_id j = cj_id job" "job_attempt_count j = cj_attempt_count job"
        "job_side_effect_committed_at j = None"
        using marker_absent [of env job d es1 e] by auto
      have "workflow_wf e" using has_side_effect_evolves [OF o(1)] wf h by (auto simp: w_evolves_def evolves_def)
      from write_retry_ok [OF this o(2) next_step(1) j] nb i d' show ?thesis by simp
    qed
  qed
qed

lemma retries_free: "retry_free m \<Longrightarrow> retries env m"
  unfolding retries_def using retry_freeD by blast

lemma retries_bind:
  assumes "retry_free m" "w_evolves m" "\<And>x. retries env (f x)"
  shows "retries env (bind_w m f)"
  unfolding retries_def
proof (intro allI impI)
  fix d r es d' i c
  assume wf: "workflow_wf d" and r: "bind_w m f d = (r, es, d')" and ev: "RetryScheduled i c \<in> set es"
  from r show "retry_ok env i d'"
  proof (cases rule: bind_w_cases)
    case (fail e)
    then show ?thesis using ev retry_freeD [OF assms(1)] by blast
  next
    case (next_step x es1 e es2)
    have "RetryScheduled i c \<in> set es2" using ev next_step(3) retry_freeD [OF assms(1) next_step(1)] by auto
    moreover have "workflow_wf e" using assms(2) wf next_step(1) by (auto simp: w_evolves_def evolves_def)
    ultimately show ?thesis using assms(3) [of x] next_step(2) unfolding retries_def by blast
  qed
qed

lemma bind_ret_w: "bind_w (ret_w x) f = f x"
  by (rule ext) (simp add: bind_w_def ret_w_def split: prod.split)

lemma finish_committed_free: "retry_free (finish_retryable env job code True)"
  unfolding finish_retryable_def
  by (auto simp: bind_ret_w intro!: retry_free_bind retry_free_writes retry_free_emit)

lemma finish_run_retries:
  assumes "others_evolve env" "\<And>d. we_others env OP_schedule_retry d = d"
  shows "retries env (finish_run env job r)"
proof (cases "\<exists>code. r = Inl (RetryableJobError code False)")
  case True
  then obtain code where "r = Inl (RetryableJobError code False)" by blast
  moreover have "retries env (finish_retryable env job code False)"
    using finish_retryable_retries [OF assms, of False] by simp
  ultimately show ?thesis by (simp add: finish_run_def)
next
  case False
  have p: "retry_free (bind_w m (\<lambda>c. emit_w [JobFinished i c (w c) (n c) (q c) (b c)]))" if "retry_free m" for m i w n q b
    using that by (intro retry_free_bind retry_free_emit) simp_all
  have rt: "retry_free (finish_retryable env job code b)" if "r = Inl (RetryableJobError code b)" for code b
    using that False finish_committed_free by (cases b) auto
  have "retry_free (finish_run env job r)"
    by (auto simp: finish_run_def lease_lost_event_def split: sum.split exn.split job_outcome.split
        intro!: finish_error_retry_free retry_free_emit p retry_free_writes rt)
  then show ?thesis by (rule retries_free)
qed

lemma run_job_retries:
  assumes "others_evolve env" "\<And>d. we_others env OP_schedule_retry d = d"
  shows "retries env (run_job env job)"
  unfolding retries_def
proof (intro allI impI)
  fix d r es d' i c
  assume wf: "workflow_wf d" and r: "run_job env job d = (r, es, d')" and ev: "RetryScheduled i c \<in> set es"
  obtain q d1 where q: "run_claimed_with_lease env job d = (q, d1)" by fastforce
  obtain x es1 d2 where f: "finish_run env job q d1 = (x, es1, d2)" by (cases "finish_run env job q d1") auto
  have "workflow_wf d1" using run_with_lease_evolves wf q by (auto simp: tx_evolves_def evolves_def)
  moreover have "RetryScheduled i c \<in> set es1" "d' = d2"
    using r q f ev by (auto simp: run_job_def lease_lost_event_def split: sum.splits if_splits)
  ultimately show "retry_ok env i d'" using finish_run_retries [OF assms] f unfolding retries_def by blast
qed


end
