(* ===== verification/Examples.thy ===== *)
theory Examples
  imports Worker_Safety
begin

text \<open>
  A concrete life of one job, from the request over the claim and the staged approval to the
  human decision, on which the theorems about the store and the worker are exercised.
\<close>

section \<open>The deployment\<close>

definition demo_ienv :: intake_env where
  "demo_ienv =
     \<lparr>iv_profiles = demo_env, iv_load = demo_load, iv_open_pdf = (\<lambda>_. Inl OtherException),
      iv_times_out = (\<lambda>_. False)\<rparr>"

definition demo_denv :: decision_env where
  "demo_denv =
     \<lparr>de_profiles = demo_env, de_registry = BUILTIN_ACTION_REGISTRY,
      de_executor_registry = BUILTIN_ACTION_REGISTRY, de_values = demo_value_env,
      de_total_ms = (\<lambda>x. x div 1000)\<rparr>"

definition demo_resolved :: resolved_tenant_profile where
  "demo_resolved =
     \<lparr>rp_config = demo_config, rp_snapshot = config_model_dump demo_config, rp_sha256 = demo_sha256 [],
      rp_compiled = demo_profile\<rparr>"

definition demo_command :: enqueue_command where
  "demo_command =
     \<lparr>ec_tenant_id = 1, ec_tenant_slug = ''acme-field'', ec_source = demo_source,
      ec_idempotency_key = ''key-1'', ec_trace_id = 7, ec_safety_or_legal_risk = False\<rparr>"

definition demo_empty :: db where
  "demo_empty = empty_db (\<lambda>n. n + 100) [] 0"

definition demo_job :: job_row where
  "demo_job =
     \<lparr>job_id = 100, job_tenant_id = 1, job_trace_id = 7, job_status = J_queued,
      job_source_snapshot = PDict (source_snapshot demo_source),
      job_tenant_config_snapshot = PDict (config_model_dump demo_config),
      job_tenant_config_sha256 = demo_sha256 [],
      job_risk_signals = PDict [(''safety_or_legal_risk'', PBool False)],
      job_attempt_count = 0, job_available_at = 0, job_lease_expires_at = None, job_started_at = None,
      job_finished_at = None, job_side_effect_committed_at = None, job_result = None, job_error_code = None,
      job_created_at = 0\<rparr>"

definition demo_record :: idempotency_row where
  "demo_record =
     \<lparr>idr_tenant_id = 1, idr_key = ''key-1'', idr_request_hash = demo_sha256 [], idr_job_id = Some 100,
      idr_case_id = None, idr_response = []\<rparr>"

definition demo_queued :: db where
  "demo_queued = demo_empty\<lparr>db_jobs := [demo_job], db_idempotency := [demo_record], db_next := 1\<rparr>"

definition demo_running_job :: job_row where
  "demo_running_job = claim_row 10 1000 demo_job"

definition demo_running :: db where
  "demo_running = demo_queued\<lparr>db_jobs := [demo_running_job]\<rparr>"

section \<open>Enqueueing and claiming\<close>

lemma demo_resolve_eq: "resolve_profile demo_env demo_load ''acme-field'' = Inr demo_resolved"
proof -
  have "safe_slug ''acme-field''" by code_simp
  moreover have "tn_slug demo_config = ''acme-field''" by (simp add: demo_config_def)
  moreover have "en_actions demo_env = BUILTIN_ACTION_REGISTRY"
    "en_documents demo_env = BUILTIN_DOCUMENT_REGISTRY" by (simp_all add: demo_env_def)
  ultimately show ?thesis
    using demo_compile demo_fingerprint
    by (simp add: resolve_profile_def demo_load_def resolved_profile_def demo_resolved_def)
qed

lemma demo_loads_valid: "loads_valid demo_ienv"
  using demo_load_valid by (auto simp: loads_valid_def demo_ienv_def)

lemma demo_source_hash: "canonical_intake_hash demo_env demo_source = Inr (demo_sha256 [])"
  by code_simp

lemma demo_key: "validate_idempotency_key ''key-1'' = Inr ''key-1''"
  by code_simp

lemma demo_enqueue:
  "\<exists>es. enqueue demo_ienv demo_command demo_empty =
     (Inr \<lparr>er_job_id = 100, er_created = True, er_trace_id = 7\<rparr>, es, demo_queued)"
  unfolding enqueue_def enqueue_profile_def
  by (simp add: demo_ienv_def demo_command_def demo_resolve_eq demo_source_hash demo_key transaction_def enqueue_body_def
      bind_tx_def read_tx_def get_idempotency_for_tenant_def scalar_one_or_none_def demo_empty_def empty_db_def nested_tx_def
      insert_request_def create_job_def create_idempotency_record_def check_tx_def new_id_tx_def fresh_uuid_def write_tx_def
      ret_tx_def demo_queued_def demo_job_def demo_record_def demo_resolved_def)

lemma demo_claim: "claim_next (\<lambda>_. False) 10 1000 [] demo_queued = (Inr (Some (claimed_of demo_running_job)), demo_running)"
  by (simp add: claim_next_def transaction_def bind_tx_def read_tx_def claimable_def demo_queued_def demo_job_def demo_running_def
      demo_running_job_def write_tx_def update_job_def update_rows_def ret_tx_def demo_empty_def empty_db_def)

lemma demo_empty_wf: "workflow_wf demo_empty"
  unfolding demo_empty_def by (rule empty_db_wf) (simp add: inj_def)

lemma demo_queued_wf: "workflow_wf demo_queued"
  using demo_enqueue enqueue_evolves [OF demo_empty_wf demo_loads_valid] by (auto simp: evolves_def)

lemma demo_running_wf: "workflow_wf demo_running"
  using claim_next_evolves [OF demo_queued_wf demo_claim] by (simp add: evolves_def)

section \<open>Approval\<close>

definition demo_action :: pending_action where
  "demo_action = \<lparr>pa_version = 1, pa_name = ''flag_for_review'', pa_arguments = [], pa_known_fields = []\<rparr>"

definition demo_staged_approval :: approval_row where
  "demo_staged_approval = new_approval 101 demo_running_job demo_action ''action_requires_approval'' 520 0"

definition demo_staged :: db where
  "demo_staged =
     add_approval_event 1 101 ''approval_requested'' None (request_payload demo_action ''action_requires_approval'')
       (demo_running\<lparr>db_approvals := [demo_staged_approval], db_next := 2\<rparr>)"

definition demo_pending :: approval_row where
  "demo_pending = demo_staged_approval\<lparr>apr_status := A_pending\<rparr>"

definition demo_waiting_job :: job_row where
  "demo_waiting_job =
     demo_running_job\<lparr>job_status := J_awaiting_approval, job_lease_expires_at := None, job_result := Some []\<rparr>"

definition demo_parked :: db where
  "demo_parked = demo_staged\<lparr>db_approvals := [demo_pending], db_jobs := [demo_waiting_job]\<rparr>"

definition demo_operator :: authenticated_operator where
  "demo_operator = \<lparr>op_tenant_id = 1, op_actor_ref = ''ops'', op_credential_id = 9\<rparr>"

definition demo_approve :: decision_request where
  "demo_approve = \<lparr>dr_decision = Approve, dr_reason = ''fine''\<rparr>"

lemmas demo_rows = demo_running_job_def demo_job_def claim_row_def demo_empty_def empty_db_def demo_queued_def demo_running_def
lemmas tx_defs = transaction_def bind_tx_def read_tx_def write_tx_def ret_tx_def raise_tx_def new_id_tx_def fresh_uuid_def
  check_tx_def scalar_one_or_none_def update_job_def update_approval_def update_rows_def add_approval_event_def

lemma demo_stage:
  "create_for_running_job 1 100 1 demo_action ''action_requires_approval'' 500 20 demo_running =
     (Inr \<lparr>rq_id = 101, rq_expires_at = 520\<rparr>, demo_staged)"
  by (simp add: create_for_running_job_def get_job_for_update_def stage_approval_def tx_defs demo_rows demo_staged_def
      demo_staged_approval_def new_approval_def demo_action_def)

lemma demo_park: "record_awaiting_approval_result 100 [] 1 1 demo_staged = (Inr (), demo_parked)"
  by (simp add: record_awaiting_approval_result_def owned_job_def get_job_def tx_defs demo_rows demo_staged_def
      demo_staged_approval_def new_approval_def demo_action_def demo_parked_def demo_pending_def demo_waiting_job_def)

lemma demo_staged_wf: "workflow_wf demo_staged"
  using create_for_running_job_evolves [OF demo_running_wf demo_stage] by (simp add: evolves_def)

lemma demo_parked_wf: "workflow_wf demo_parked"
  using record_awaiting_evolves [OF demo_staged_wf demo_park] by (simp add: evolves_def)

lemma demo_persisted_eq:
  assumes "slug = None \<or> slug = Some ''acme-field''"
  shows "resolve_persisted_profile demo_env (PDict (config_model_dump demo_config)) (PStr (demo_sha256 [])) slug =
    Inr demo_resolved"
proof -
  have "resolve_persisted_profile demo_env (PDict (config_model_dump demo_config)) (PStr (demo_sha256 []))
      (Some ''acme-field'') = Inr demo_resolved"
    using resolve_persisted_again [OF demo_resolve_eq demo_load_valid] by (simp add: demo_resolved_def)
  then show ?thesis
    using assms by (auto simp: resolve_persisted_profile_def snapshot_unavailable_def split: if_splits sum.splits)
qed

lemma demo_approvable:
  "approvable_action demo_denv demo_pending (pending_action_dump demo_action) demo_resolved = Inr demo_action"
  by code_simp

definition demo_capability :: action_capability where
  "demo_capability = the (map_of BUILTIN_ACTION_REGISTRY ''flag_for_review'')"

lemma demo_registered: "registry_require BUILTIN_ACTION_REGISTRY ''flag_for_review'' = Inr demo_capability"
  by code_simp

lemma demo_capability_facts: "ac_pending_action_version demo_capability = 1"
  "args_model_validate (ac_arguments_model demo_capability) [] = Inr (FlagForReview None)"
  "args_model_validate FlagForReviewArgs [] = Inr (FlagForReview None)"
  "ac_key demo_capability = ''flag_for_review''" "ac_commits_side_effect demo_capability"
  by code_simp+

lemma demo_action_simps [simp]: "pa_version demo_action = 1" "pa_name demo_action = ''flag_for_review''"
  "pa_arguments demo_action = []" "pa_known_fields demo_action = []"
  by (simp_all add: demo_action_def)

lemma demo_handlers: "set (map fst approval_handlers) = set (dict_keys BUILTIN_ACTION_REGISTRY)"
  "map_of approval_handlers ''flag_for_review'' = Some approved_flag_for_review"
proof -
  have "dict_keys BUILTIN_ACTION_REGISTRY =
    [''find_customer'', ''create_case'', ''update_case_fields'', ''create_reply_draft'', ''flag_for_review'']"
    by code_simp
  then show "set (map fst approval_handlers) = set (dict_keys BUILTIN_ACTION_REGISTRY)"
    by (simp only:) (auto simp: approval_handlers_def)
  show "map_of approval_handlers ''flag_for_review'' = Some approved_flag_for_review"
    by (simp add: approval_handlers_def)
qed

lemma demo_handler:
  "approved_handler BUILTIN_ACTION_REGISTRY demo_action = Inr (demo_capability, approved_flag_for_review)"
  using demo_handlers(1)
  by (simp add: approved_handler_def demo_registered demo_capability_facts demo_handlers(2))

lemma demo_persisted_result: "assign_case (persisted_reference \<lparr>ref_kind = RefReviewFlag, ref_id = 102\<rparr>) a d = (Inr a, d)"
  by (simp add: assign_case_def persisted_reference_def ret_tx_def key_def)

definition demo_response :: decision_response where
  "demo_response =
     \<lparr>rs_approval_id = 101, rs_status = A_approved, rs_action = ''flag_for_review'', rs_decided_at = 30,
      rs_case_id = None, rs_executed = True\<rparr>"

lemmas demo_parked_rows = demo_rows demo_parked_def demo_pending_def demo_waiting_job_def demo_staged_def
  demo_staged_approval_def new_approval_def

lemma demo_context:
  "load_context demo_denv demo_pending 100 demo_parked =
     (Inr (demo_waiting_job, \<lparr>oi_trace_id = 7, oi_tenant_config_snapshot = PDict (config_model_dump demo_config),
        oi_tenant_config_sha256 = demo_sha256 []\<rparr>, demo_resolved), demo_parked)"
  by (simp add: load_context_def get_job_for_update_def get_job_observation_identity_def get_observation_identity_def
      tx_defs lift_res_def conflict_on_def demo_parked_rows demo_persisted_eq demo_denv_def)

lemma demo_executed:
  "\<exists>d'. db_approval_events d' = db_approval_events demo_parked \<and> approval_execute BUILTIN_ACTION_REGISTRY demo_pending demo_action 30 demo_parked =
     (Inr (persisted_reference \<lparr>ref_kind = RefReviewFlag, ref_id = 102\<rparr>, demo_pending,
        demo_waiting_job\<lparr>job_side_effect_committed_at := Some 30\<rparr>), d')"
  by (simp add: approval_execute_def demo_handler run_approved_def approved_flag_for_review_def demo_capability_facts
      lift_res_def tx_defs demo_persisted_result demo_parked_rows get_job_for_update_def create_for_job_def
      find_artifact_def nested_tx_def insert_artifact_def del: args_model_validate.simps)

lemma demo_no_execution: "executions 101 (db_approval_events demo_parked) = 0"
  by (simp add: executions_def demo_parked_rows add_approval_event_def)

lemma demo_decide:
  "\<exists>obs d'. decide demo_denv 101 demo_operator demo_approve 30 demo_parked = (Inr demo_response, obs, d') \<and>
     executions 101 (db_approval_events d') = 1"
proof -
  have q: "get_for_tenant 101 (op_tenant_id demo_operator) demo_parked = Inr (Some demo_pending)"
    by (simp add: get_for_tenant_def scalar_one_or_none_def demo_operator_def published_lifecycle_predicate_def joined_job_def
        demo_parked_rows)
  have a: "apr_status demo_pending = A_pending" "apr_job_id demo_pending = Some 100"
    "apr_pending_action demo_pending = Some (pending_action_dump demo_action)"
    "apr_tenant_config_sha256 demo_pending = Some (demo_sha256 [])" "apr_expires_at demo_pending = Some 520" "apr_id demo_pending = 101" "apr_action demo_pending = ''flag_for_review''"
    "apr_case_id demo_pending = None" "de_executor_registry demo_denv = BUILTIN_ACTION_REGISTRY"
    by (simp_all add: demo_parked_rows demo_denv_def)
  obtain e where ev: "db_approval_events e = db_approval_events demo_parked" and e: "approval_execute BUILTIN_ACTION_REGISTRY demo_pending demo_action 30 demo_parked =
     (Inr (persisted_reference \<lparr>ref_kind = RefReviewFlag, ref_id = 102\<rparr>, demo_pending,
        demo_waiting_job\<lparr>job_side_effect_committed_at := Some 30\<rparr>), e)"
    using demo_executed by blast
  have f: "finalize_job_for_decision (approve_row demo_operator demo_approve 30 r demo_pending)
      (demo_waiting_job\<lparr>job_side_effect_committed_at := Some 30\<rparr>) 30 \<noteq> Inl x" for r x
    by (simp add: finalize_job_for_decision_def approve_row_def demo_waiting_job_def)
  have "\<exists>out d'. decide_branch demo_denv demo_operator demo_approve 30 demo_pending 520 (pending_action_dump demo_action)
      demo_waiting_job demo_resolved demo_parked = (Inr out, d') \<and> do_response out = Some demo_response \<and> \<not> do_expired out \<and>
      executions 101 (db_approval_events d') = 1"
    using f ev demo_no_execution
    by (auto simp: decide_branch_def a approve_branch_def Let_def tx_defs lift_res_def demo_approvable demo_approve_def
        e finalize_tx_def decision_response_def approve_row_def demo_response_def executions_def split: sum.splits)
  then obtain out d' where out: "decide_branch demo_denv demo_operator demo_approve 30 demo_pending 520
      (pending_action_dump demo_action) demo_waiting_job demo_resolved demo_parked = (Inr out, d')"
    "do_response out = Some demo_response" "\<not> do_expired out" "executions 101 (db_approval_events d') = 1"
    by blast
  then show ?thesis
    by (simp add: decide_def transaction_def decide_body_def bind_tx_def read_tx_def q a demo_context ret_tx_def)
qed

lemma demo_decide_late:
  "\<exists>obs d'. decide demo_denv 101 demo_operator demo_approve 600 demo_parked = (Inl (ApprovalExpired ''approval expired''), obs, d')"
proof -
  have q: "get_for_tenant 101 (op_tenant_id demo_operator) demo_parked = Inr (Some demo_pending)"
    by (simp add: get_for_tenant_def scalar_one_or_none_def demo_operator_def published_lifecycle_predicate_def joined_job_def
        demo_parked_rows)
  have a: "apr_status demo_pending = A_pending" "apr_job_id demo_pending = Some 100"
    "apr_pending_action demo_pending = Some (pending_action_dump demo_action)"
    "apr_tenant_config_sha256 demo_pending = Some (demo_sha256 [])" "apr_expires_at demo_pending = Some 520"
    by (simp_all add: demo_parked_rows)
  have f: "finalize_job_for_decision (expire_row 600 demo_pending) demo_waiting_job 600 \<noteq> Inl x" for x
    by (simp add: finalize_job_for_decision_def expire_row_def demo_waiting_job_def)
  show ?thesis
    using f
    by (auto simp: decide_def transaction_def decide_body_def bind_tx_def read_tx_def q a demo_context ret_tx_def
        decide_branch_def expire_branch_def expire_locked_def write_tx_def finalize_tx_def demo_approve_def split: sum.splits)
qed

section \<open>Paths\<close>

definition demo_call_script :: pg_call where
  "demo_call_script = \<lparr>pc_cancelled = (\<lambda>_. False), pc_gateway = Completed, pc_now = 20\<rparr>"

lemma demo_request:
  "pg_request_approval (claimed_env 100 1 500) 1 demo_action ''action_requires_approval'' demo_call_script demo_running =
     (Inr \<lparr>rq_id = 101, rq_expires_at = 520\<rparr>, demo_staged)"
  using demo_stage
  by (simp add: pg_request_approval_def sync_call_def gateway_call_def check_cancelled_def demo_call_script_def claimed_env_def
      bind_tx_def ret_tx_def)

abbreviation demo_path :: "db \<Rightarrow> db \<Rightarrow> bool" where
  "demo_path \<equiv> (valid_step demo_ienv demo_denv)\<^sup>*\<^sup>*"

lemma demo_stepI: "db_step demo_ienv demo_denv d d' \<Longrightarrow> demo_path d d'"
  using demo_loads_valid by (auto simp: valid_step_def)

lemma demo_path_queued: "demo_path demo_empty demo_queued"
  using demo_enqueue by (blast intro: demo_stepI db_step.enqueue)

lemma demo_path_running: "demo_path demo_queued demo_running"
  by (rule demo_stepI, rule db_step.claim, rule demo_claim)

lemma demo_path_parked: "demo_path demo_running demo_parked"
proof (rule rtranclp_trans)
  show "demo_path demo_running demo_staged" by (rule demo_stepI, rule db_step.request, rule demo_request)
  show "demo_path demo_staged demo_parked" by (rule demo_stepI, rule db_step.await, rule demo_park)
qed

theorem workflow_invariant_witness:
  "inj (\<lambda>n :: nat. n + 100) \<and> demo_path (empty_db (\<lambda>n. n + 100) [] 0) demo_parked \<and> workflow_wf demo_parked"
proof -
  have i: "inj (\<lambda>n :: nat. n + 100)" by (simp add: inj_def)
  have "demo_path (empty_db (\<lambda>n. n + 100) [] 0) demo_parked"
    using demo_path_queued demo_path_running demo_path_parked unfolding demo_empty_def by (meson rtranclp_trans)
  with i workflow_invariant [OF i this] show ?thesis by blast
qed

theorem job_life_witness:
  "demo_path demo_queued demo_parked \<and>
   (\<exists>j' \<in> set (db_jobs demo_parked). job_identity j' = job_identity demo_job \<and> job_attempt_count demo_job \<le> job_attempt_count j')"
proof -
  have p: "demo_path demo_queued demo_parked" using demo_path_running demo_path_parked by (rule rtranclp_trans)
  have "demo_job \<in> set (db_jobs demo_queued)" by (simp add: demo_queued_def)
  from job_life [OF demo_queued_wf p this] p show ?thesis by blast
qed

theorem approval_life_witness:
  "\<exists>d'. demo_path demo_parked d' \<and> executions 101 (db_approval_events d') = 1 \<and> executions 101 (db_approval_events d') \<le> 1"
proof -
  obtain obs d' where d: "decide demo_denv 101 demo_operator demo_approve 30 demo_parked = (Inr demo_response, obs, d')"
    "executions 101 (db_approval_events d') = 1"
    using demo_decide by blast
  have "demo_path demo_parked d'" by (rule demo_stepI, rule db_step.decide, rule d(1))
  with approval_life [OF demo_parked_wf this, of 101] d(2) show ?thesis by blast
qed

theorem stale_worker_fenced_witness:
  "lost 1 demo_waiting_job \<and> refused (mark_succeeded 100 [] 40 1 1 demo_parked) demo_parked"
proof -
  have m: "demo_waiting_job \<in> set (db_jobs demo_parked)" by (simp add: demo_parked_def)
  have i: "job_id demo_waiting_job = 100" by (simp add: demo_waiting_job_def demo_rows)
  have l: "lost 1 demo_waiting_job" by (simp add: lost_def demo_waiting_job_def demo_rows)
  from stale_worker_fenced [where ienv = demo_ienv and denv = demo_denv and result = "[]" and now = 40 and t = 1,
      OF demo_parked_wf m i l rtranclp.rtrancl_refl] l
  show ?thesis by blast
qed

theorem decide_executes_witness:
  "\<exists>obs d'. decide demo_denv 101 demo_operator demo_approve 30 demo_parked = (Inr demo_response, obs, d') \<and>
     executions 101 (db_approval_events demo_parked) = 0 \<and> executions 101 (db_approval_events d') = 1 \<and>
     (\<forall>t. t \<noteq> op_tenant_id demo_operator \<longrightarrow> tenant_rows t d' = tenant_rows t demo_parked)"
proof -
  obtain obs d' where d: "decide demo_denv 101 demo_operator demo_approve 30 demo_parked = (Inr demo_response, obs, d')"
    "executions 101 (db_approval_events d') = 1"
    using demo_decide by blast
  then have c: "executions 101 (db_approval_events d') \<noteq> executions 101 (db_approval_events demo_parked) \<or>
      tenant_rows 1 d' \<noteq> tenant_rows 1 demo_parked"
    using demo_no_execution by simp
  from decide_executes [OF demo_parked_wf d(1) c] d show ?thesis by blast
qed

theorem decide_error_effects_witness:
  "\<exists>e obs d'. decide demo_denv 101 demo_operator demo_approve 600 demo_parked = (Inl e, obs, d') \<and>
     (d' = demo_parked \<or> (\<forall>u. tenant_rows u d' = tenant_rows u demo_parked))"
proof -
  obtain obs d' where d: "decide demo_denv 101 demo_operator demo_approve 600 demo_parked =
      (Inl (ApprovalExpired ''approval expired''), obs, d')"
    using demo_decide_late by blast
  from decide_error_effects [OF demo_parked_wf d] d show ?thesis by blast
qed

theorem decide_foreign_tenant_witness:
  "decide demo_denv 101 (demo_operator\<lparr>op_tenant_id := 2\<rparr>) demo_approve 30 demo_parked = (Inl ApprovalNotFound, [], demo_parked)"
  by (rule decide_foreign_tenant) (simp add: demo_parked_rows)

theorem decide_idempotent_witness:
  "\<exists>obs d1 obs'. decide demo_denv 101 demo_operator demo_approve 30 demo_parked = (Inr demo_response, obs, d1) \<and>
     decide demo_denv 101 demo_operator demo_approve 5000 d1 = (Inr demo_response, obs', d1)"
proof -
  obtain obs d1 where d: "decide demo_denv 101 demo_operator demo_approve 30 demo_parked = (Inr demo_response, obs, d1)"
    using demo_decide by blast
  from decide_idempotent [where ienv = demo_ienv and denv = demo_denv and now' = 5000,
      OF demo_parked_wf d rtranclp.rtrancl_refl refl refl] d
  show ?thesis by blast
qed

theorem claim_next_correct_witness:
  "\<exists>j \<in> set (db_jobs demo_queued). claimable (\<lambda>_. False) 10 [] j \<and> claimed_of demo_running_job = claimed_of (claim_row 10 1000 j)"
  using claim_next_correct [where locked = "\<lambda>_. False" and now = 10 and lease_until = 1000 and excluded = "[]" and d = demo_queued]
  unfolding demo_claim by auto

theorem recover_expired_leases_correct_witness:
  "\<exists>obs d'. recover_expired_leases (\<lambda>_. False) 2000 3 5 demo_running = (Inr obs, d') \<and>
     db_jobs d' = [recovered_row 2000 3 5 demo_running_job] \<and> map lr_job_id obs = [100]"
proof -
  have e: "lease_expired 2000 demo_running_job" "db_jobs demo_running = [demo_running_job]" "job_id demo_running_job = 100"
    by (simp_all add: lease_expired_def demo_rows)
  obtain obs d' where d: "recover_expired_leases (\<lambda>_. False) 2000 3 5 demo_running = (Inr obs, d')"
    "db_jobs d' = [recovered_row 2000 3 5 demo_running_job]"
    "map (\<lambda>x. (lr_job_id x, lr_status x)) obs = [(100, job_status (recovered_row 2000 3 5 demo_running_job))]"
    using recover_expired_leases_correct [OF demo_running_wf, of "\<lambda>_. False" 2000 3 5] e by auto
  from d(3) have "map lr_job_id obs = [100]" by (cases obs) auto
  with d(1,2) show ?thesis by auto
qed

definition demo_recovered :: db where
  "demo_recovered =
     demo_running\<lparr>db_jobs := [demo_running_job\<lparr>job_lease_expires_at := None, job_status := J_queued,
       job_error_code := Some ''lease_expired'', job_available_at := 2005\<rparr>]\<rparr>"

lemma demo_recover: "\<exists>obs. recover_expired_leases (\<lambda>_. False) 2000 3 5 demo_running = (Inr obs, demo_recovered)"
  by (simp add: recover_expired_leases_def recover_one_def lease_expired_def tx_defs demo_recovered_def demo_rows Let_def)

lemma demo_claim_again:
  "\<exists>c d. claim_next (\<lambda>_. False) 3000 4000 [] demo_recovered = (Inr (Some c), d) \<and> cj_id c = 100"
  by (simp add: claim_next_def tx_defs claimable_def claimed_of_def demo_recovered_def demo_rows)

theorem claims_distinct_witness:
  "\<exists>c' d3. claim_next (\<lambda>_. False) 10 1000 [] demo_queued = (Inr (Some (claimed_of demo_running_job)), demo_running) \<and>
     demo_path demo_running demo_recovered \<and> claim_next (\<lambda>_. False) 3000 4000 [] demo_recovered = (Inr (Some c'), d3) \<and>
     cj_attempt_count (claimed_of demo_running_job) < cj_attempt_count c'"
proof -
  have p: "demo_path demo_running demo_recovered"
    using demo_recover by (blast intro: demo_stepI db_step.recover)
  obtain c' d3 where c: "claim_next (\<lambda>_. False) 3000 4000 [] demo_recovered = (Inr (Some c'), d3)" "cj_id c' = 100"
    using demo_claim_again by blast
  have i: "cj_id c' = cj_id (claimed_of demo_running_job)" using c(2) by (simp add: claimed_of_def demo_rows)
  from claims_distinct [OF demo_queued_wf demo_claim p c(1) i] demo_claim p c(1) show ?thesis by blast
qed


definition demo_document_command :: enqueue_document_command where
  "demo_document_command =
     \<lparr>ed_tenant_id = 1, ed_tenant_slug = ''acme-field'', ed_document = demo_input, ed_idempotency_key = ''key-2'',
      ed_trace_id = 8, ed_safety_or_legal_risk = False, ed_sender = None\<rparr>"

lemma demo_document_identity: "document_identity demo_ienv demo_document_command = Inr (''key-2'', demo_sha256 [])"
  by code_simp

lemma demo_inbound: "case cp_default_inbound_document demo_profile of None \<Rightarrow> False
   | Some b \<Rightarrow> MEDIA_TEXT \<in> set (dc_supported_media_types (cb_capability b)) \<and> valid_binding (cb_binding b)"
  by code_simp

lemma demo_bound_source:
  obtains doc where "bound_source demo_ienv demo_document_command demo_resolved = Inr (document_command demo_document_command (Some doc))"
proof -
  obtain b where b: "cp_default_inbound_document demo_profile = Some b"
    "MEDIA_TEXT \<in> set (dc_supported_media_types (cb_capability b))" "valid_binding (cb_binding b)"
    using demo_inbound by (auto split: option.splits)
  have s: "is_sha256_hex (demo_sha256 raw)" for raw
    by (simp add: demo_sha256_def is_sha256_hex_def list_all_iff is_digit_def)
  obtain doc where "normalize_document demo_sha256 (\<lambda>_. Inl OtherException) (cb_binding b) demo_input = Inr doc"
    using normalize_document_Inr [where hexdigest = demo_sha256, OF b(3) s, of demo_input] by (fastforce simp: demo_input_def)
  then show ?thesis
    using that b(1,2)
    by (simp add: bound_source_def demo_resolved_def demo_document_command_def normalize_bounded_def demo_ienv_def demo_env_def demo_input_def)
qed

lemma demo_document_enqueue:
  "\<exists>es d'. enqueue_document demo_ienv demo_document_command demo_empty =
     (Inr \<lparr>er_job_id = 100, er_created = True, er_trace_id = 8\<rparr>, es, d')"
proof -
  obtain doc where b: "bound_source demo_ienv demo_document_command demo_resolved =
      Inr (document_command demo_document_command (Some doc))"
    by (rule demo_bound_source)
  have k: "validate_idempotency_key ''key-2'' = Inr ''key-2''" by code_simp
  have x: "existing_document_result demo_ienv demo_document_command ''key-2'' (demo_sha256 []) demo_empty = (Inr None, demo_empty)"
    by (simp add: existing_document_result_def tx_defs get_idempotency_for_tenant_def demo_empty_def empty_db_def)
  have r: "resolve_profile (iv_profiles demo_ienv) (iv_load demo_ienv) (ed_tenant_slug demo_document_command) = Inr demo_resolved"
    using demo_resolve_eq by (simp add: demo_ienv_def demo_document_command_def)
  show ?thesis
    by (simp add: enqueue_document_def demo_document_identity x r b Let_def enqueue_profile_def)
       (simp add: document_command_def demo_document_command_def k enqueue_body_def tx_defs get_idempotency_for_tenant_def
         demo_empty_def empty_db_def nested_tx_def insert_request_def create_job_def create_idempotency_record_def)
qed

theorem enqueue_document_idempotent_witness:
  "\<exists>es d1 es'. enqueue_document demo_ienv demo_document_command demo_empty =
       (Inr \<lparr>er_job_id = 100, er_created = True, er_trace_id = 8\<rparr>, es, d1) \<and>
     enqueue_document demo_ienv (demo_document_command\<lparr>ed_trace_id := 9\<rparr>) d1 =
       (Inr \<lparr>er_job_id = 100, er_created = False, er_trace_id = 8\<rparr>, es', d1)"
proof -
  obtain es d1 where e: "enqueue_document demo_ienv demo_document_command demo_empty =
      (Inr \<lparr>er_job_id = 100, er_created = True, er_trace_id = 8\<rparr>, es, d1)"
    using demo_document_enqueue by blast
  obtain es' where "enqueue_document demo_ienv (demo_document_command\<lparr>ed_trace_id := 9\<rparr>) d1 =
      (Inr \<lparr>er_job_id = 100, er_created = False, er_trace_id = 8\<rparr>, es', d1)"
    using enqueue_document_idempotent [where ienv = demo_ienv and denv = demo_denv and trace = 9,
        OF demo_empty_wf demo_loads_valid e rtranclp.rtrancl_refl refl] by auto
  with e show ?thesis by blast
qed

section \<open>The worker\<close>

definition demo_renv :: runtime_env where
  "demo_renv =
     \<lparr>re_profiles = demo_env, re_values = demo_value_env, re_llm = (\<lambda>_. Inl HttpTransportError),
      re_schema = (\<lambda>_. PDict []), re_approval_timeout = 500\<rparr>"

text \<open>A worker whose deadline passes while the provider is unreachable.\<close>

definition demo_worker :: worker_env where
  "demo_worker =
     \<lparr>we_runtime = demo_renv, we_now = 10, we_write_now = 20, we_lease = 990, we_max_retries = 3,
      we_jitter = (\<lambda>_. 0), we_locked = (\<lambda>_ _. False), we_excluded = [],
      we_script = (\<lambda>_. demo_call_script), we_supervision = DeadlinePassed, we_others = (\<lambda>_ d. d), we_fault = (\<lambda>_. None)\<rparr>"

lemma demo_others: "others_evolve demo_worker"
  by (simp add: others_evolve_def demo_worker_def evolves_refl)

lemma demo_claimed_run:
  "run_claimed_with_lease demo_worker job d = (Inl (RetryableJobError ''worker_timeout'' False), d)"
proof -
  have "snd (run_claimed_job demo_worker job d) = d"
    by (simp add: run_claimed_job_def demo_worker_def demo_renv_def agent_run_def run_loop.simps loop_iteration_def
        initial_loop_state_def MAX_STEPS_def emit_run_def split: sum.split build_result.split)
  then show ?thesis
    by (cases "run_claimed_job demo_worker job d") (simp add: run_claimed_with_lease_def demo_worker_def)
qed

lemma demo_run_job:
  "\<exists>es d'. run_job demo_worker (claimed_of demo_running_job) demo_running = (Inr True, es, d') \<and>
     RetryScheduled 100 (Some WE_WORKER_TIMEOUT) \<in> set es"
proof -
  have w: "worker_error_code_of ''worker_timeout'' = Some WE_WORKER_TIMEOUT" by code_simp
  show ?thesis
    unfolding run_job_def demo_claimed_run
    by (simp add: finish_run_def finish_retryable_def has_side_effect_def write_retry_def reported_def
        guarded_def bind_w_def emit_w_def get_side_effect_marker_def schedule_retry_def owned_job_def get_job_def tx_defs
        demo_worker_def claimed_of_def demo_rows w Let_def)
qed

lemma demo_serve:
  "\<exists>es d'. serve_once demo_worker demo_queued = (Inr True, es, d') \<and> RetryScheduled 100 (Some WE_WORKER_TIMEOUT) \<in> set es"
proof -
  have e: "expire_due (\<lambda>_. False) 10 100 demo_queued = (Inr [], demo_queued)"
    by (simp add: expire_due_def tx_defs demo_rows)
  have r: "recover_expired_leases (\<lambda>_. False) 10 3 x demo_queued = (Inr [], demo_queued)" for x
    by (simp add: recover_expired_leases_def lease_expired_def tx_defs demo_rows)
  have f: "we_others demo_worker = (\<lambda>_ d. d)" "we_fault demo_worker = (\<lambda>_. None)" "we_locked demo_worker = (\<lambda>_ _. False)"
    "we_now demo_worker = 10" "we_lease demo_worker = 990" "we_excluded demo_worker = []" "we_max_retries demo_worker = 3"
    by (simp_all add: demo_worker_def)
  show ?thesis
    using demo_run_job
    by (auto simp: serve_once_def bind_w_def emit_w_def ret_w_def reported_any_def guarded_def e r f demo_claim Let_def)
qed

theorem serve_once_evolves_witness:
  "\<exists>es d'. serve_once demo_worker demo_queued = (Inr True, es, d') \<and> evolves demo_queued d'"
  using demo_serve serve_once_evolves [OF demo_queued_wf demo_others] by blast



definition demo_case_llm :: llm_client where
  "demo_case_llm ms = Inr plain_proposal"

definition demo_port :: "pg_state exec_state" where
  "demo_port = \<lparr>xs_port = \<lparr>pg_db = demo_running, pg_calls = 0, pg_script = (\<lambda>_. demo_call_script)\<rparr>, xs_events = []\<rparr>"

theorem agent_run_database_safe_witness:
  "\<exists>r fin. agent_run demo_case_llm (gated_tools (postgres_executor (claimed_env 100 1 500) demo_runtime demo_value_env)) 8 [] demo_port =
       (r, fin) \<and>
     evolves demo_running (pg_db (xs_port (ls_tools fin))) \<and>
     others_kept 1 demo_running (pg_db (xs_port (ls_tools fin)))"
proof -
  obtain r fin where a: "agent_run demo_case_llm
      (gated_tools (postgres_executor (claimed_env 100 1 500) demo_runtime demo_value_env)) 8 [] demo_port = (r, fin)"
    by fastforce
  have d: "pg_db (xs_port demo_port) = demo_running" "rt_tenant_id demo_runtime = 1"
    by (simp_all add: demo_port_def demo_runtime_def)
  have "workflow_wf (pg_db (xs_port demo_port))" using demo_running_wf d(1) by simp
  from agent_run_database_safe [OF this a] a show ?thesis unfolding d by blast
qed

end
