(* ===== verification/In_Memory_Port.thy ===== *)
theory In_Memory_Port
  imports Tool_Gate
begin

text \<open>
  The in-memory port of \<open>app/tools/in_memory.py\<close>. Random UUIDs come from a stream in the state,
  read in order; the clock of \<open>request_approval\<close> is a component of the state. The contract of the
  executor is interpreted on this port, which gives tenant isolation for whole runs.
\<close>

section \<open>State\<close>

record customer_record =
  cr_tenant_id :: uuid
  cr_summary :: customer_summary

record case_record =
  kr_tenant_id :: uuid
  kr_id :: uuid
  kr_status :: string
  kr_channel :: string
  kr_subject :: string
  kr_body :: string
  kr_extracted_fields :: py_dict

type_synonym artifact_key = "uuid \<times> uuid \<times> reference_kind"

record in_memory_state =
  im_customers :: "(uuid, customer_record) dict"
  im_cases :: "(uuid, case_record) dict"
  im_approval_requests :: "(uuid \<times> pending_action \<times> string) list"
  im_artifacts :: "(artifact_key, uuid \<times> py_dict) dict"
  im_default_job_id :: uuid
  im_uuids :: "nat \<Rightarrow> uuid"
  im_next :: nat
  im_now :: datetime
  im_cancelled :: bool

definition uuid4 :: "in_memory_state \<Rightarrow> uuid \<times> in_memory_state" where
  "uuid4 s = (im_uuids s (im_next s), s\<lparr>im_next := Suc (im_next s)\<rparr>)"

section \<open>Operations\<close>

text \<open>The loop over the customers; the email is tried before the external identifier.\<close>

fun find_in_customers ::
  "uuid \<Rightarrow> string option \<Rightarrow> string option \<Rightarrow> (uuid, customer_record) dict \<Rightarrow> customer_summary option" where
  "find_in_customers t email ext [] = None"
| "find_in_customers t email ext ((_, r) # rs) =
     (if cr_tenant_id r \<noteq> t then find_in_customers t email ext rs
      else if email \<noteq> None \<and> cs_email (cr_summary r) = email then Some (cr_summary r)
      else if ext \<noteq> None \<and> cs_external_id (cr_summary r) = ext then Some (cr_summary r)
      else find_in_customers t email ext rs)"

definition im_find_customer ::
  "uuid \<Rightarrow> string option \<Rightarrow> string option \<Rightarrow> in_memory_state \<Rightarrow>
   customer_summary option res \<times> in_memory_state" where
  "im_find_customer t email ext s = (Inr (find_in_customers t email ext (im_customers s)), s)"

definition customer_owned :: "uuid \<Rightarrow> uuid option \<Rightarrow> in_memory_state \<Rightarrow> bool" where
  "customer_owned t customer s =
     (case customer of None \<Rightarrow> True
      | Some c \<Rightarrow> (case map_of (im_customers s) c of None \<Rightarrow> False | Some r \<Rightarrow> cr_tenant_id r = t))"

definition im_create_case ::
  "uuid \<Rightarrow> trusted_source \<Rightarrow> uuid option \<Rightarrow> py_dict \<Rightarrow> in_memory_state \<Rightarrow>
   created_case res \<times> in_memory_state" where
  "im_create_case t src customer fs s =
     (if \<not> customer_owned t customer s then (Inl CustomerNotFoundError, s)
      else (let (case_id, s) = uuid4 s
            in (Inr \<lparr>cc_id = uuid_str case_id, cc_status = ''received'', cc_accepted_fields = sort (dict_keys fs)\<rparr>,
                s\<lparr>im_cases := dict_set case_id
                    \<lparr>kr_tenant_id = t, kr_id = case_id, kr_status = ''received'', kr_channel = ts_channel src,
                     kr_subject = ts_subject src, kr_body = ts_body src, kr_extracted_fields = fs\<rparr>
                    (im_cases s)\<rparr>)))"

definition im_update_case_fields ::
  "uuid \<Rightarrow> uuid \<Rightarrow> py_dict \<Rightarrow> in_memory_state \<Rightarrow> updated_case option res \<times> in_memory_state" where
  "im_update_case_fields t case_id fs s =
     (case map_of (im_cases s) case_id of
        None \<Rightarrow> (Inr None, s)
      | Some r \<Rightarrow>
          if kr_tenant_id r \<noteq> t then (Inr None, s)
          else (Inr (Some \<lparr>uc_id = uuid_str case_id, uc_updated_fields = sort (dict_keys fs)\<rparr>),
                s\<lparr>im_cases := dict_set case_id
                    (r\<lparr>kr_extracted_fields := dict_update (kr_extracted_fields r) fs\<rparr>) (im_cases s)\<rparr>))"

definition im_case_exists :: "uuid \<Rightarrow> uuid \<Rightarrow> in_memory_state \<Rightarrow> bool res \<times> in_memory_state" where
  "im_case_exists t case_id s =
     (Inr (case map_of (im_cases s) case_id of None \<Rightarrow> False | Some r \<Rightarrow> kr_tenant_id r = t), s)"

definition im_request_approval ::
  "uuid \<Rightarrow> pending_action \<Rightarrow> string \<Rightarrow> in_memory_state \<Rightarrow> approval_requested res \<times> in_memory_state" where
  "im_request_approval t action reason s =
     (let (approval_id, s) = uuid4 s
      in (Inr \<lparr>rq_id = approval_id, rq_expires_at = im_now s + 86400000000\<rparr>,
          s\<lparr>im_approval_requests := im_approval_requests s @ [(t, action, reason)]\<rparr>))"

definition im_create_artifact ::
  "uuid \<Rightarrow> uuid option \<Rightarrow> reference_kind \<Rightarrow> py_dict \<Rightarrow> in_memory_state \<Rightarrow>
   result_reference res \<times> in_memory_state" where
  "im_create_artifact t job kind payload s =
     (let identifier = (case job of None \<Rightarrow> im_default_job_id s | Some j \<Rightarrow> j)
      in case map_of (im_artifacts s) (t, identifier, kind) of
           Some (artifact_id, _) \<Rightarrow> (Inr \<lparr>ref_kind = kind, ref_id = artifact_id\<rparr>, s)
         | None \<Rightarrow>
             (let (artifact_id, s) = uuid4 s
              in (Inr \<lparr>ref_kind = kind, ref_id = artifact_id\<rparr>,
                  s\<lparr>im_artifacts := dict_set (t, identifier, kind) (artifact_id, payload) (im_artifacts s)\<rparr>)))"

definition im_create_reply_draft ::
  "uuid \<Rightarrow> uuid option \<Rightarrow> string option \<Rightarrow> string \<Rightarrow> string \<Rightarrow> in_memory_state \<Rightarrow>
   result_reference res \<times> in_memory_state" where
  "im_create_reply_draft t job recipient subject body =
     im_create_artifact t job RefReplyDraft
       [(''recipient'', opt_str recipient), (''subject'', PStr subject), (''body'', PStr body)]"

definition im_flag_for_review ::
  "uuid \<Rightarrow> uuid option \<Rightarrow> string \<Rightarrow> in_memory_state \<Rightarrow> result_reference res \<times> in_memory_state" where
  "im_flag_for_review t job reason =
     im_create_artifact t job RefReviewFlag [(''reason'', PStr reason)]"

definition in_memory_port :: "in_memory_state tool_port" where
  "in_memory_port =
     \<lparr>tp_find_customer = im_find_customer, tp_create_case = im_create_case,
      tp_update_case_fields = im_update_case_fields, tp_case_exists = im_case_exists,
      tp_request_approval = im_request_approval, tp_create_reply_draft = im_create_reply_draft,
      tp_flag_for_review = im_flag_for_review\<rparr>"

definition in_memory_executor :: "trusted_runtime \<Rightarrow> value_env \<Rightarrow> in_memory_state executor" where
  "in_memory_executor rt ve =
     \<lparr>xe_runtime = rt, xe_port = in_memory_port, xe_values = ve, xe_cancelled = im_cancelled,
      xe_definitions = builtin_definitions\<rparr>"

section \<open>Tenant isolation\<close>

text \<open>What belongs to a tenant, and UUIDs that no case uses yet.\<close>

definition tenant_view ::
  "uuid \<Rightarrow> in_memory_state \<Rightarrow>
   (uuid \<Rightarrow> customer_record option) \<times> (uuid \<Rightarrow> case_record option) \<times>
   (uuid \<times> pending_action \<times> string) list \<times> (artifact_key \<Rightarrow> (uuid \<times> py_dict) option)" where
  "tenant_view t s =
     (\<lambda>u. case map_of (im_customers s) u of Some r \<Rightarrow> if cr_tenant_id r = t then Some r else None | None \<Rightarrow> None,
      \<lambda>u. case map_of (im_cases s) u of Some r \<Rightarrow> if kr_tenant_id r = t then Some r else None | None \<Rightarrow> None,
      filter (\<lambda>a. fst a = t) (im_approval_requests s),
      \<lambda>k. if fst k = t then map_of (im_artifacts s) k else None)"

definition fresh_uuids :: "in_memory_state \<Rightarrow> bool" where
  "fresh_uuids s \<longleftrightarrow>
     inj (im_uuids s) \<and> (\<forall>n \<ge> im_next s. map_of (im_cases s) (im_uuids s n) = None)"

definition isolated :: "uuid \<Rightarrow> in_memory_state \<Rightarrow> in_memory_state \<Rightarrow> bool" where
  "isolated t s0 s \<longleftrightarrow> fresh_uuids s \<and> (\<forall>t'. t' \<noteq> t \<longrightarrow> tenant_view t' s = tenant_view t' s0)"

lemma isolated_find: "isolated t s0 s \<Longrightarrow> isolated t s0 (snd (im_find_customer t e i s))"
  by (simp add: im_find_customer_def)

lemma isolated_exists: "isolated t s0 s \<Longrightarrow> isolated t s0 (snd (im_case_exists t u s))"
  by (simp add: im_case_exists_def)

lemma isolated_step:
  assumes "isolated t s0 s" "fresh_uuids s'" "\<And>t'. t' \<noteq> t \<Longrightarrow> tenant_view t' s' = tenant_view t' s"
  shows "isolated t s0 s'"
  using assms by (simp add: isolated_def)

lemma isolated_create:
  assumes "isolated t s0 s"
  shows "isolated t s0 (snd (im_create_case t src c fs s))"
proof (rule isolated_step [OF assms])
  have f: "fresh_uuids s" using assms by (simp add: isolated_def)
  then have "im_uuids s n \<noteq> im_uuids s (im_next s)" if "Suc (im_next s) \<le> n" for n
    using that by (auto simp: fresh_uuids_def dest: injD)
  with f show "fresh_uuids (snd (im_create_case t src c fs s))"
    by (auto simp: im_create_case_def uuid4_def fresh_uuids_def)
  have "map_of (im_cases s) (im_uuids s (im_next s)) = None"
    using f by (simp add: fresh_uuids_def)
  then show "tenant_view t' (snd (im_create_case t src c fs s)) = tenant_view t' s" if "t' \<noteq> t" for t'
    using that by (auto simp: im_create_case_def uuid4_def tenant_view_def fun_eq_iff)
qed

lemma isolated_update:
  assumes "isolated t s0 s"
  shows "isolated t s0 (snd (im_update_case_fields t u fs s))"
proof (cases "map_of (im_cases s) u")
  case None
  then show ?thesis using assms by (simp add: im_update_case_fields_def)
next
  case (Some r)
  show ?thesis
  proof (rule isolated_step [OF assms])
    show "fresh_uuids (snd (im_update_case_fields t u fs s))"
      using assms Some by (auto simp: im_update_case_fields_def isolated_def fresh_uuids_def)
    show "tenant_view t' (snd (im_update_case_fields t u fs s)) = tenant_view t' s" if "t' \<noteq> t" for t'
      using that Some by (auto simp: im_update_case_fields_def tenant_view_def fun_eq_iff)
  qed
qed

lemma isolated_request:
  assumes "isolated t s0 s"
  shows "isolated t s0 (snd (im_request_approval t a reason s))"
proof (rule isolated_step [OF assms])
  show "fresh_uuids (snd (im_request_approval t a reason s))"
    using assms by (simp add: im_request_approval_def uuid4_def isolated_def fresh_uuids_def)
  show "tenant_view t' (snd (im_request_approval t a reason s)) = tenant_view t' s" if "t' \<noteq> t" for t'
    using that by (simp add: im_request_approval_def uuid4_def tenant_view_def cong: if_cong)
qed

lemma isolated_artifact:
  assumes "isolated t s0 s"
  shows "isolated t s0 (snd (im_create_artifact t j k payload s))"
proof (rule isolated_step [OF assms])
  show "fresh_uuids (snd (im_create_artifact t j k payload s))"
    using assms
    by (auto simp: im_create_artifact_def uuid4_def isolated_def fresh_uuids_def Let_def split: option.splits)
  show "tenant_view t' (snd (im_create_artifact t j k payload s)) = tenant_view t' s" if "t' \<noteq> t" for t'
    using that
    by (auto simp: im_create_artifact_def uuid4_def tenant_view_def fun_eq_iff Let_def split: option.splits)
qed

interpretation in_memory: tenant_port "in_memory_executor rt ve" "isolated (rt_tenant_id rt) s0" for rt ve s0
  by unfold_locales
     (simp_all add: in_memory_executor_def in_memory_port_def im_create_reply_draft_def im_flag_for_review_def
       isolated_find isolated_create isolated_update isolated_exists isolated_request isolated_artifact)

text \<open>
  Tenant isolation of a whole agent run. Whatever the provider proposes over all its steps,
  a run for one tenant leaves the customers, cases, approval requests and artifacts of every
  other tenant as they were, provided generated identifiers are fresh.
\<close>

theorem agent_run_tenant_isolation:
  assumes "fresh_uuids (xs_port s)"
    and "agent_run llm (gated_tools (in_memory_executor rt ve)) m msgs s = (r, fin)"
    and "t \<noteq> rt_tenant_id rt"
  shows "tenant_view t (xs_port (ls_tools fin)) = tenant_view t (xs_port s)"
proof -
  have "isolated (rt_tenant_id rt) (xs_port s) (xs_port s)"
    using assms(1) by (simp add: isolated_def)
  from in_memory.gated.run_keeps_inv [OF this assms(2)] assms(3) show ?thesis
    by (simp add: isolated_def)
qed

definition empty_port :: in_memory_state where
  "empty_port =
     \<lparr>im_customers = [], im_cases = [], im_approval_requests = [], im_artifacts = [],
      im_default_job_id = 0, im_uuids = (\<lambda>n. n + 100), im_next = 0, im_now = 0, im_cancelled = False\<rparr>"

definition start_state :: "in_memory_state exec_state" where
  "start_state = \<lparr>xs_port = empty_port, xs_events = []\<rparr>"

definition plain_llm :: llm_client where
  "plain_llm ms = Inr plain_proposal"

lemma empty_port_fresh: "fresh_uuids empty_port"
  by (simp add: fresh_uuids_def empty_port_def inj_def)

theorem agent_run_tenant_isolation_witness:
  "tenant_view 9 (xs_port (ls_tools (snd
     (agent_run plain_llm (gated_tools (in_memory_executor demo_runtime demo_value_env)) 2 [] start_state)))) =
   tenant_view 9 (xs_port start_state)"
proof -
  have "fresh_uuids (xs_port start_state)"
    using empty_port_fresh by (simp add: start_state_def)
  from agent_run_tenant_isolation [OF this prod.collapse [symmetric]]
  show ?thesis by (simp add: demo_runtime_def)
qed

text \<open>A concrete call that is allowed and creates a case, and one that asks for approval.\<close>

definition demo_call :: tool_call where
  "demo_call = \<lparr>tc_name = ''create_case'', tc_arguments = []\<rparr>"

definition demo_executor :: "in_memory_state executor" where
  "demo_executor = in_memory_executor demo_runtime demo_value_env"

lemma demo_execute_ok:
  "case executor_execute demo_executor plain_proposal demo_call start_state of
     (Inr r, st) \<Rightarrow> committed r \<and> length (im_cases (xs_port st)) = 1
   | (Inl e, st) \<Rightarrow> False"
  by code_simp

lemma demo_execute:
  obtains r st where "executor_execute demo_executor plain_proposal demo_call start_state = (Inr r, st)"
    "committed r" "length (im_cases (xs_port st)) = 1"
  using demo_execute_ok by (auto split: prod.splits sum.splits)

theorem execute_effects_witness:
  "\<exists>r st. executor_execute demo_executor plain_proposal demo_call start_state = (Inr r, st) \<and>
     xs_port st \<noteq> xs_port start_state \<and>
     po_decision (execute_policy demo_executor plain_proposal demo_call) = ALLOW"
proof -
  obtain r st where e: "executor_execute demo_executor plain_proposal demo_call start_state = (Inr r, st)"
    "committed r" "length (im_cases (xs_port st)) = 1"
    by (rule demo_execute)
  then have "xs_port st \<noteq> xs_port start_state"
    by (auto simp: start_state_def empty_port_def)
  with e execute_effects [OF e(1)] show ?thesis by blast
qed

lemma demo_executor_wf: "executor_wf demo_executor"
  by (rule executor_wf_builtin [OF _ _ demo_compile])
     (simp_all add: demo_executor_def in_memory_executor_def demo_runtime_def)

theorem execute_errors_witness:
  "executor_wf demo_executor \<and>
   executor_execute demo_executor plain_proposal demo_call
     (start_state\<lparr>xs_port := empty_port\<lparr>im_cancelled := True\<rparr>\<rparr>) =
     (Inl cancelled_error, start_state\<lparr>xs_port := empty_port\<lparr>im_cancelled := True\<rparr>\<rparr>) \<and>
   (cancelled_error = cancelled_error \<or> (\<exists>m. cancelled_error = TypeError m) \<or>
    po_decision (execute_policy demo_executor plain_proposal demo_call) = NEEDS_APPROVAL)"
proof -
  have e: "executor_execute demo_executor plain_proposal demo_call
      (start_state\<lparr>xs_port := empty_port\<lparr>im_cancelled := True\<rparr>\<rparr>) =
      (Inl cancelled_error, start_state\<lparr>xs_port := empty_port\<lparr>im_cancelled := True\<rparr>\<rparr>)"
    by (simp add: executor_execute_def demo_executor_def in_memory_executor_def)
  from execute_errors [OF demo_executor_wf e] e demo_executor_wf show ?thesis by blast
qed

theorem execute_results_well_formed_witness:
  "\<exists>r st. executor_execute demo_executor plain_proposal demo_call start_state = (Inr r, st) \<and> evidence_ok r"
proof -
  obtain r st where e: "executor_execute demo_executor plain_proposal demo_call start_state = (Inr r, st)"
    by (rule demo_execute)
  with execute_results_well_formed show ?thesis by blast
qed

end
