(* ===== verification/Projections.thy ===== *)
theory Projections
  imports Worker
begin

text \<open>
  What the API shows of a job, an artifact and an approval: \<open>app/domain/jobs.py\<close>,
  \<open>app/domain/artifacts.py\<close> and \<open>ApprovalReviewService\<close> of \<open>app/domain/approvals.py\<close>. Stored JSON is
  read back through closed vocabularies; what does not fit is left out rather than shown.
\<close>

section \<open>Jobs\<close>

definition MAX_EXECUTION_STEPS :: int where "MAX_EXECUTION_STEPS = 8"

record approval_read =
  ad_approval_id :: uuid
  ad_status :: string

record execution_path_read =
  xr_step :: int
  xr_action_key :: "string option"
  xr_action_known :: bool
  xr_policy_decision :: routing_decision
  xr_routing_status :: routing_status
  xr_policy_reason :: policy_reason
  xr_missing_required_fields :: "string list"
  xr_tool_outcome :: "outcome_code option"
  xr_side_effect_committed :: bool

record job_read =
  jd_job_id :: uuid
  jd_trace_id :: uuid
  jd_scenario_key :: "string option"
  jd_status :: job_status
  jd_attempt_count :: nat
  jd_agent_steps :: "int option"
  jd_stop_reason :: "stop_reason option"
  jd_execution_path :: "execution_path_read list"
  jd_routing_status :: "string option"
  jd_routing_reason :: "string option"
  jd_missing_required_fields :: "string list"
  jd_approval :: "approval_read option"
  jd_result_references :: "result_reference list"
  jd_error_code :: "string option"
  jd_created_at :: datetime
  jd_started_at :: "datetime option"
  jd_finished_at :: "datetime option"

definition all_stop_reasons :: "stop_reason list" where
  "all_stop_reasons =
     [FINAL, INVALID_PROPOSAL, REPEATED_TOOL, MAX_STEPS_REACHED, EXECUTOR_STOPPED, TOOL_EXECUTION_FAILED]"

definition all_routing_decisions :: "routing_decision list" where
  "all_routing_decisions = [ALLOW, DENY, NEEDS_APPROVAL]"

definition safe_error_code :: "string option \<Rightarrow> string option" where
  "safe_error_code v =
     (case v of
        None \<Rightarrow> None
      | Some s \<Rightarrow> map_option worker_error_code_value (worker_error_code_of s))"

definition str_values :: "pyval \<Rightarrow> string list option" where
  "str_values v = opt_bind (as_list v) (map_opt as_str)"

definition safe_result_values :: "py_dict option \<Rightarrow> string option \<times> string option \<times> string list" where
  "safe_result_values result =
     (case result of
        None \<Rightarrow> (None, None, [])
      | Some d \<Rightarrow>
          (key ''routing_status'' as_str d, key ''routing_reason'' as_str d,
           (case key ''missing_required_fields'' str_values d of None \<Rightarrow> [] | Some xs \<Rightarrow> sorted_set xs)))"

definition path_keys :: "string list" where
  "path_keys =
     [''step'', ''action_key'', ''action_known'', ''policy_decision'', ''routing_status'', ''policy_reason'',
      ''missing_required_fields'', ''tool_outcome'', ''side_effect_committed'']"

text \<open>\<open>isinstance(v, int) and not isinstance(v, bool)\<close>.\<close>

definition plain_int :: "pyval \<Rightarrow> int option" where
  "plain_int v = (case v of PInt n \<Rightarrow> Some n | _ \<Rightarrow> None)"

text \<open>The last two steps of one entry: the enumerations and the Pydantic model.\<close>

definition read_entry ::
  "int \<Rightarrow> string option \<Rightarrow> bool \<Rightarrow> string list \<Rightarrow> bool \<Rightarrow> py_dict \<Rightarrow> execution_path_read option" where
  "read_entry step action known missing com d =
     (case (key ''policy_decision'' (as_enum routing_decision_value all_routing_decisions) d,
            key ''routing_status'' (as_enum routing_status_value all_routing_statuses) d,
            key ''policy_reason'' (as_enum policy_reason_value all_policy_reasons) d,
            key ''tool_outcome'' (as_optional (as_enum outcome_code_value all_outcome_codes)) d) of
        (Some dec, Some status, Some reason, Some outcome) \<Rightarrow>
          if (case action of None \<Rightarrow> True | Some k \<Rightarrow> safe_identifier k) \<and> list_all safe_identifier (sorted_set missing)
          then Some \<lparr>xr_step = step, xr_action_key = action, xr_action_known = known, xr_policy_decision = dec,
                     xr_routing_status = status, xr_policy_reason = reason,
                     xr_missing_required_fields = sorted_set missing, xr_tool_outcome = outcome,
                     xr_side_effect_committed = com\<rparr>
          else None
      | _ \<Rightarrow> None)"

text \<open>The checks on one item of the stored path.\<close>

definition safe_entry :: "string list \<Rightarrow> int \<Rightarrow> pyval \<Rightarrow> execution_path_read option" where
  "safe_entry registered previous item =
     opt_bind (as_dict item) (\<lambda>d.
       if set (dict_keys d) \<noteq> set path_keys then None
       else case (key ''step'' plain_int d, key ''action_known'' as_bool d,
                  key ''missing_required_fields'' str_values d, key ''side_effect_committed'' as_bool d) of
         (Some step, Some known, Some missing, Some com) \<Rightarrow>
           if \<not> (1 \<le> step \<and> step \<le> MAX_EXECUTION_STEPS) \<or> step \<le> previous then None
           else (case (known, map_of d ''action_key'') of
                   (True, Some (PStr k)) \<Rightarrow>
                     if k \<in> set registered then read_entry step (Some k) True missing com d else None
                 | (False, Some PNone) \<Rightarrow> read_entry step None False missing com d
                 | _ \<Rightarrow> None)
       | _ \<Rightarrow> None)"

text \<open>The loop over the stored path: one bad item empties the whole.\<close>

fun safe_path :: "string list \<Rightarrow> int \<Rightarrow> pyval list \<Rightarrow> execution_path_read list option" where
  "safe_path registered previous [] = Some []"
| "safe_path registered previous (item # items) =
     opt_bind (safe_entry registered previous item) (\<lambda>e.
     opt_bind (safe_path registered (xr_step e) items) (\<lambda>es. Some (e # es)))"

definition safe_execution_values ::
  "py_dict option \<Rightarrow> string list \<Rightarrow> int option \<times> stop_reason option \<times> execution_path_read list" where
  "safe_execution_values result registered =
     (case result of
        None \<Rightarrow> (None, None, [])
      | Some d \<Rightarrow>
          if \<not> (''steps'' \<in> set (dict_keys d) \<or> ''execution_path'' \<in> set (dict_keys d)) then (None, None, [])
          else
            (opt_bind (key ''steps'' plain_int d) (\<lambda>n. if 0 \<le> n \<and> n \<le> MAX_EXECUTION_STEPS then Some n else None),
             key ''reason'' (as_enum stop_reason_value all_stop_reasons) d,
             (case key ''execution_path'' as_list d of
                None \<Rightarrow> []
              | Some items \<Rightarrow>
                  if MAX_EXECUTION_STEPS < int (length items) then []
                  else (case safe_path registered 0 items of None \<Rightarrow> [] | Some es \<Rightarrow> es))))"

definition approval_state_matches :: "approval_status \<Rightarrow> job_status \<Rightarrow> bool" where
  "approval_state_matches a j \<longleftrightarrow>
     (a = A_pending \<and> j = J_awaiting_approval) \<or> (a \<in> {A_approved, A_rejected} \<and> j = J_succeeded) \<or>
     (a = A_expired \<and> j = J_failed)"

definition project_job_read :: "profile_env \<Rightarrow> persisted_job_read \<Rightarrow> job_read" where
  "project_job_read env row =
     (let profile = (case resolve_persisted_profile env (pj_tenant_config_snapshot row)
                            (PStr (pj_tenant_config_sha256 row)) None of Inl _ \<Rightarrow> None | Inr p \<Rightarrow> Some p);
          registered = (case profile of None \<Rightarrow> [] | Some p \<Rightarrow> cp_registered_actions (rp_compiled p));
          (status, reason, missing) = safe_result_values (pj_result row);
          (steps, stop, path) = safe_execution_values (pj_result row) registered
      in \<lparr>jd_job_id = pj_job_id row, jd_trace_id = pj_trace_id row,
          jd_scenario_key = map_option (\<lambda>p. cp_scenario_key (rp_compiled p)) profile, jd_status = pj_status row,
          jd_attempt_count = pj_attempt_count row, jd_agent_steps = steps, jd_stop_reason = stop,
          jd_execution_path = path, jd_routing_status = status, jd_routing_reason = reason,
          jd_missing_required_fields = missing,
          jd_approval =
            (case (pj_approval_id row, pj_approval_status row) of
               (Some i, Some a) \<Rightarrow>
                 if approval_state_matches a (pj_status row)
                 then Some \<lparr>ad_approval_id = i, ad_status = approval_status_value a\<rparr> else None
             | _ \<Rightarrow> None),
          jd_result_references = pj_result_references row, jd_error_code = safe_error_code (pj_error_code row),
          jd_created_at = pj_created_at row, jd_started_at = pj_started_at row, jd_finished_at = pj_finished_at row\<rparr>)"

section \<open>Artifacts\<close>

datatype artifact_read =
    ReplyDraftRead uuid uuid "string option" string string
  | ReviewFlagRead uuid uuid string

definition project_artifact :: "artifact_row \<Rightarrow> artifact_read res" where
  "project_artifact row =
     (case jr_kind row of
        RefReplyDraft \<Rightarrow>
          (case (key ''recipient'' (as_optional as_str) (jr_payload row), key ''subject'' as_str (jr_payload row),
                 key ''body'' as_str (jr_payload row)) of
             (Some recipient, Some subject, Some body) \<Rightarrow>
               bind_res (no_extra [''recipient'', ''subject'', ''body''] (jr_payload row)) (\<lambda>_.
                 Inr (ReplyDraftRead (jr_id row) (jr_job_id row) recipient subject body))
           | _ \<Rightarrow> validation_error)
      | RefReviewFlag \<Rightarrow>
          (case key ''reason'' as_str (jr_payload row) of
             Some reason \<Rightarrow>
               bind_res (no_extra [''reason''] (jr_payload row)) (\<lambda>_.
                 Inr (ReviewFlagRead (jr_id row) (jr_job_id row) reason))
           | None \<Rightarrow> validation_error)
      | _ \<Rightarrow> Inl (ValueError ''unsupported artifact kind''))"

section \<open>Approval review\<close>

record approval_review_read =
  rv_approval_id :: uuid
  rv_job_id :: "uuid option"
  rv_action :: "string option"
  rv_case_id :: "uuid option"
  rv_validated_fields :: py_dict
  rv_policy_reason :: "policy_reason option"
  rv_expires_at :: "datetime option"
  rv_status :: approval_status
  rv_result_reference :: "(string \<times> string) list"
  rv_executable :: bool
  rv_decided_at :: "datetime option"

record approval_review_page =
  pg_items :: "approval_review_read list"
  pg_limit :: int
  pg_has_more :: bool

definition public_statuses :: "approval_status list" where
  "public_statuses = [A_pending, A_approved, A_rejected, A_expired]"

text \<open>\<open>re.fullmatch(r"[a-z][a-z0-9_]{0,99}", value)\<close>.\<close>

definition safe_action_name :: "string \<Rightarrow> string option" where
  "safe_action_name s =
     (case s of
        [] \<Rightarrow> None
      | c # cs \<Rightarrow>
          if is_lower c \<and> length cs \<le> 99 \<and> list_all (\<lambda>c. is_lower c \<or> is_digit c \<or> c = CHR ''_'') cs
          then Some s else None)"

definition safe_policy_reason :: "string option \<Rightarrow> policy_reason option" where
  "safe_policy_reason v = (case v of None \<Rightarrow> None | Some s \<Rightarrow> policy_reason_of s)"

definition safe_result_reference :: "approval_row \<Rightarrow> db \<Rightarrow> (string \<times> string) list res" where
  "safe_result_reference a d =
     (case apr_case_id a of
        Some c \<Rightarrow> Inr [(''case_id'', uuid_str c)]
      | None \<Rightarrow>
          (case opt_bind (apr_execution_result a) (key ''result_reference'' as_dict) of
             None \<Rightarrow> Inr []
           | Some ref \<Rightarrow>
               (case (key ''kind'' (as_enum reference_kind_value all_reference_kinds) ref, key ''id'' as_str ref, apr_job_id a) of
                  (Some kind, Some identifier, Some job) \<Rightarrow>
                    (case uuid_parse identifier of
                       None \<Rightarrow> Inr []
                     | Some u \<Rightarrow>
                         if kind \<notin> {RefReplyDraft, RefReviewFlag} then Inr []
                         else bind_res (get_artifact_for_tenant u (apr_tenant_id a) d) (\<lambda>row.
                           case row of
                             None \<Rightarrow> Inr []
                           | Some r \<Rightarrow>
                               if jr_job_id r = job \<and> jr_kind r = kind
                               then Inr [(''kind'', reference_kind_value kind), (''id'', uuid_str (jr_id r))]
                               else Inr []))
                | _ \<Rightarrow> Inr [])))"

text \<open>The frozen command of an approval, if it is well formed and names the approved action.\<close>

definition review_action :: "approval_row \<Rightarrow> pending_action option res" where
  "review_action a =
     (case apr_pending_action a of
        None \<Rightarrow> Inr None
      | Some p \<Rightarrow>
          (case pending_action_validate p of
             Inl e \<Rightarrow> if is_validation_error e then Inr None else Inl e
           | Inr act \<Rightarrow> Inr (if pa_name act = apr_action a then Some act else None)))"

definition executable_action ::
  "decision_env \<Rightarrow> approval_row \<Rightarrow> pending_action \<Rightarrow> resolved_tenant_profile \<Rightarrow> bool res" where
  "executable_action env a act profile =
     (case registry_require (de_registry env) (pa_name act) of
        Inl _ \<Rightarrow> Inr False
      | Inr c \<Rightarrow>
          (case args_model_validate (ac_arguments_model c) (pa_arguments act) of
             Inl e \<Rightarrow> if is_validation_error e then Inr False else Inl e
           | Inr _ \<Rightarrow>
               Inr (pa_name act \<in> set (cp_available_actions (rp_compiled profile)) \<and>
                    safe_action_name (apr_action a) = Some (pa_name act))))"

definition review_details ::
  "decision_env \<Rightarrow> approval_row \<Rightarrow> pending_action option \<Rightarrow> db \<Rightarrow> (py_dict \<times> bool) res" where
  "review_details env a act d =
     (case act of
        None \<Rightarrow> Inr ([], False)
      | Some act \<Rightarrow>
          bind_res (get_job_observation_identity a d) (\<lambda>identity. case identity of
            None \<Rightarrow> Inr ([], False)
          | Some o' \<Rightarrow>
              (case resolve_persisted_profile (de_profiles env) (oi_tenant_config_snapshot o')
                      (PStr (oi_tenant_config_sha256 o')) None of
                 Inl _ \<Rightarrow> Inr ([], False)
               | Inr profile \<Rightarrow>
                   (let v = validate_frozen_fields (de_values env) (pa_known_fields act) (frozen_runtime a profile)
                    in bind_res (if vf_invalid_fields v = [] \<and> apr_status a = A_pending
                                 then executable_action env a act profile else Inr False) (\<lambda>executable.
                       Inr (vf_values v, executable))))))"

definition project_review :: "decision_env \<Rightarrow> approval_row \<Rightarrow> db \<Rightarrow> approval_review_read res" where
  "project_review env a d =
     bind_res (safe_result_reference a d) (\<lambda>ref.
     bind_res (review_action a) (\<lambda>act.
     bind_res (review_details env a act d) (\<lambda>(fields, executable).
     Inr \<lparr>rv_approval_id = apr_id a, rv_job_id = apr_job_id a, rv_action = safe_action_name (apr_action a),
          rv_case_id = apr_case_id a, rv_validated_fields = fields,
          rv_policy_reason = safe_policy_reason (apr_policy_reason a), rv_expires_at = apr_expires_at a,
          rv_status = apr_status a, rv_result_reference = ref, rv_executable = executable,
          rv_decided_at = apr_decided_at a\<rparr>)))"

definition review_get :: "decision_env \<Rightarrow> uuid \<Rightarrow> uuid \<Rightarrow> db \<Rightarrow> approval_review_read option res" where
  "review_get env i t d =
     bind_res (get_for_tenant i t d) (\<lambda>row. case row of
       None \<Rightarrow> Inr None
     | Some a \<Rightarrow>
         if apr_status a \<notin> set public_statuses then Inr None
         else bind_res (project_review env a d) (\<lambda>v. Inr (Some v)))"

definition review_list :: "decision_env \<Rightarrow> uuid \<Rightarrow> approval_status \<Rightarrow> int \<Rightarrow> db \<Rightarrow> approval_review_page res" where
  "review_list env t status limit d =
     (let bounded = min (max limit 1) 100;
          rows = filter (\<lambda>a. apr_status a \<in> set public_statuses) (list_for_tenant t status bounded d)
      in bind_res (map_res (\<lambda>a. project_review env a d) (take (nat bounded) rows)) (\<lambda>items.
         Inr \<lparr>pg_items = items, pg_limit = bounded, pg_has_more = bounded < int (length rows)\<rparr>))"

end
