(* ===== verification/Projection_Safety.thy ===== *)
theory Projection_Safety
  imports Projections Agent_Run Decisions
begin

text \<open>
  The read side against the write side. Whatever path a gated run records is written in the closed
  vocabularies of the read model, so the API shows it step by step; an approval that is shown as
  executable passes the checks that stand between an approve request and its execution.
\<close>

section \<open>The vocabulary of recorded evidence\<close>

definition in_vocabulary :: "tool_execution_evidence \<Rightarrow> bool" where
  "in_vocabulary ev \<longleftrightarrow>
     (\<exists>d. ev_policy_decision ev = routing_decision_value d) \<and> (\<exists>s. ev_routing_status ev = routing_status_value s) \<and>
     (\<exists>r. ev_policy_reason ev = policy_reason_value r) \<and> (\<forall>f \<in> set (ev_missing_required_fields ev). safe_identifier f) \<and>
     (\<forall>o'. ev_tool_outcome ev = Some o' \<longrightarrow> (\<exists>c. o' = outcome_code_value c))"

definition speakable :: "policy_outcome \<Rightarrow> bool" where
  "speakable p \<longleftrightarrow>
     (\<exists>r. po_reason p = policy_reason_value r) \<and> (\<forall>f \<in> set (po_missing_required_fields p). safe_identifier f)"

lemma reasons_spoken:
  "\<exists>r. ''document_unreadable'' = policy_reason_value r" "\<exists>r. ''unknown_intake_type'' = policy_reason_value r"
  "\<exists>r. ''invalid_field_values'' = policy_reason_value r" "\<exists>r. ''missing_required_fields'' = policy_reason_value r"
  "\<exists>r. ''safety_or_legal_risk'' = policy_reason_value r" "\<exists>r. ''no_action_requested'' = policy_reason_value r"
  "\<exists>r. ''action_not_configured'' = policy_reason_value r" "\<exists>r. ''action_not_executable'' = policy_reason_value r"
  "\<exists>r. ''action_not_allowed'' = policy_reason_value r" "\<exists>r. ''approval_required'' = policy_reason_value r"
  "\<exists>r. ''action_allowed'' = policy_reason_value r"
  by (metis policy_reason_value.simps)+

lemma valid_required_fields:
  assumes "valid_tenant_config c" "t \<in> set (tn_intake_types c)" "f \<in> set (it_required_fields t)"
  shows "safe_identifier f"
  using assms by (auto simp: valid_tenant_config_def valid_config_fields_def valid_intake_type_def list_all_iff)

lemma find_intake_member: "find_intake rt n = Some t \<Longrightarrow> t \<in> set (tn_intake_types (rt_tenant_config rt))"
  unfolding find_intake_def by (drule next_item_SomeD) simp

lemma route_speakable:
  assumes "valid_tenant_config c"
  shows "(\<exists>r. ro_reason (route c a) = policy_reason_value r) \<and>
    (\<forall>f \<in> set (ro_missing_required_fields (route c a)). safe_identifier f)"
  using assms reasons_spoken valid_required_fields
  by (auto simp: route_def rejected_def Let_def split: option.splits dest!: intake_by_name_SomeD)

lemma outcomes_speakable:
  assumes "valid_tenant_config (rt_tenant_config rt)"
  shows "speakable (unreadable_outcome rt doc)" "speakable unknown_intake_outcome"
    "\<forall>f \<in> set ns. safe_identifier f \<Longrightarrow> speakable (invalid_fields_outcome ns)"
    "find_intake rt n = Some t \<Longrightarrow> speakable \<lparr>po_decision = d, po_status = s, po_reason = ''missing_required_fields'',
       po_missing_required_fields = sorted_minus (it_required_fields t) xs\<rparr>"
proof -
  show "speakable (unreadable_outcome rt doc)"
    using valid_required_fields [OF assms] find_intake_member [of rt "Some (nd_target_intake_type doc)"] reasons_spoken(1)
    by (cases "find_intake rt (Some (nd_target_intake_type doc))") (auto simp: speakable_def unreadable_outcome_def)
  show "speakable \<lparr>po_decision = d, po_status = s, po_reason = ''missing_required_fields'',
       po_missing_required_fields = sorted_minus (it_required_fields t) xs\<rparr>" if "find_intake rt n = Some t"
    using valid_required_fields [OF assms find_intake_member [OF that]] reasons_spoken(4) by (auto simp: speakable_def)
qed (simp_all add: speakable_def unknown_intake_outcome_def invalid_fields_outcome_def reasons_spoken)

lemma policy_evaluate_speakable:
  assumes "valid_tenant_config (rt_tenant_config (pi_runtime v))" "\<forall>f \<in> set (pi_invalid_fields v). safe_identifier f"
  shows "speakable (policy_evaluate v)" "speakable (policy_evaluate_terminal v)"
proof -
  note out = outcomes_speakable [OF assms(1)]
  have r: "speakable \<lparr>po_decision = d, po_status = s, po_reason = ro_reason (route (rt_tenant_config (pi_runtime v)) a),
      po_missing_required_fields = ro_missing_required_fields (route (rt_tenant_config (pi_runtime v)) a)\<rparr>" for d s a
    using route_speakable [OF assms(1), of a] by (simp add: speakable_def)
  show "speakable (policy_evaluate v)"
    by (simp add: policy_evaluate_def Let_def out(1,2) out(3) [OF assms(2)] r split: option.split)
  show "speakable (policy_evaluate_terminal v)"
    using out(4) by (simp add: policy_evaluate_terminal_def Let_def out(1,2) out(3) [OF assms(2)] reasons_spoken(5,6)
      speakable_def [of "\<lparr>po_decision = _, po_status = _, po_reason = _, po_missing_required_fields = []\<rparr>"] split: option.split)
qed

lemma invalid_fields_declared:
  assumes "valid_tenant_config (rt_tenant_config (xe_runtime x))"
  shows "\<forall>f \<in> set (vf_invalid_fields (validated_proposal_fields x p)). safe_identifier f"
proof
  fix f assume "f \<in> set (vf_invalid_fields (validated_proposal_fields x p))"
  then have "f \<in> dom (map_of (tn_fields (rt_tenant_config (xe_runtime x))))"
    by (auto simp: validated_proposal_fields_def validate_invalid_fields item_verdict_def split: option.splits)
  with assms show "safe_identifier f"
    by (auto simp: valid_tenant_config_def valid_config_fields_def list_all_iff dest!: map_of_SomeD)
qed

lemma mk_result_evidence: "mk_tool_execution_result data c fr d ref ev = Inr r \<Longrightarrow> ter_evidence r = ev"
  by (auto simp: mk_tool_execution_result_def bind_res_Inr_iff split: if_splits)

lemma with_evidence_vocabulary:
  assumes "with_evidence r k known policy did_run com = Inr r'" "speakable policy" "ter_evidence r' = Some ev"
  shows "in_vocabulary ev"
proof -
  have ev: "ev_policy_decision ev = routing_decision_value (po_decision policy)"
    "ev_routing_status ev = routing_status_value (po_status policy)" "ev_policy_reason ev = po_reason policy"
    "ev_missing_required_fields ev = sorted_set (po_missing_required_fields policy)"
    "ev_tool_outcome ev = (if did_run then Some (outcome_code_value (tool_outcome (ter_data r))) else None)"
    using assms(1,3) by (auto simp: with_evidence_def mk_evidence_def bind_res_Inr_iff dest!: mk_result_evidence split: if_splits)
  show ?thesis
    using assms(2) unfolding in_vocabulary_def ev speakable_def by (auto split: if_splits)
qed

definition speaks :: "tool_execution_result res \<times> 's \<Rightarrow> bool" where
  "speaks out \<longleftrightarrow> (\<forall>r ev. fst out = Inr r \<longrightarrow> ter_evidence r = Some ev \<longrightarrow> in_vocabulary ev)"

lemma speaks_stop:
  "speakable policy \<Longrightarrow> speaks (bind_res m (\<lambda>r. with_evidence r k known policy did_run com), s)"
  by (auto simp: speaks_def bind_res_Inr_iff dest: with_evidence_vocabulary)

lemma speaks_evidence: "speakable policy \<Longrightarrow> speaks (with_evidence r k known policy did_run com, s)"
  by (auto simp: speaks_def dest: with_evidence_vocabulary)

lemma speaks_error: "speaks (Inl e, s)"
  by (simp add: speaks_def)

lemma steps_speak:
  assumes "speakable policy"
  shows "speaks (failure_step d policy e s)" "speaks (handler_step x d args p policy s)"
    "speaks (request_step x d args p policy s)" "speaks (invalid_arguments_step d policy s)"
  using speaks_evidence [OF assms] speaks_stop [OF assms] speaks_error
  by (auto simp: failure_step_def handler_step_def request_step_def invalid_arguments_step_def Let_def
      split: prod.splits sum.splits if_splits)

lemma execute_speaks:
  assumes "valid_tenant_config (rt_tenant_config (xe_runtime x))"
  shows "speaks (executor_execute x p call s)" "speaks (executor_evaluate_terminal x p s)"
proof -
  have "speakable (execute_policy x p call)"
    unfolding execute_policy_def by (rule policy_evaluate_speakable) (use assms invalid_fields_declared in auto)
  then show "speaks (executor_execute x p call s)"
    using steps_speak speaks_stop speaks_error
    by (auto simp: executor_execute_def dispatch_step_def Let_def split: option.splits sum.splits)
  have "speakable (policy_evaluate_terminal v)" if "pi_runtime v = xe_runtime x"
      "pi_invalid_fields v = vf_invalid_fields (validated_proposal_fields x p)" for v
    by (rule policy_evaluate_speakable) (use assms that invalid_fields_declared in auto)
  then show "speaks (executor_evaluate_terminal x p s)"
    by (auto simp: executor_evaluate_terminal_def Let_def intro!: speaks_stop speaks_error)
qed

definition spoken :: "execution_path_entry \<Rightarrow> bool" where
  "spoken e \<longleftrightarrow> (\<exists>n ev. from_tool n ev = Inr e \<and> in_vocabulary ev)"

definition speaking :: "'s tool_executor \<Rightarrow> bool" where
  "speaking tools \<longleftrightarrow>
     (\<forall>p c s. speaks (te_execute tools p c s)) \<and>
     (\<exists>f. te_evaluate_terminal tools = Some f \<and> (\<forall>p s. speaks (f p s)))"

lemma append_spoken:
  assumes "append_evidence ex st = Inr st'" "\<forall>ev. ter_evidence ex = Some ev \<longrightarrow> in_vocabulary ev"
    "\<forall>e \<in> set (ls_path st). spoken e"
  shows "\<forall>e \<in> set (ls_path st'). spoken e"
proof (cases "ter_evidence ex")
  case None
  then show ?thesis using assms by (simp add: append_evidence_def)
next
  case (Some ev)
  then obtain e where e: "from_tool (ls_steps st) ev = Inr e" "ls_path st' = ls_path st @ [e]"
    using assms(1) by (auto simp: append_evidence_def split: sum.splits)
  then have "spoken e" using assms(2) Some unfolding spoken_def by blast
  with e assms(3) show ?thesis by simp
qed

definition spoken_step :: "'s step_result \<Rightarrow> bool" where
  "spoken_step out \<longleftrightarrow>
     (case out of
        Running st \<Rightarrow> \<forall>e \<in> set (ls_path st). spoken e
      | Finished (Inr r) st \<Rightarrow> \<forall>e \<in> set (rr_execution_path r). spoken e
      | Finished (Inl _) st \<Rightarrow> True)"

lemma execute_step_spoken:
  assumes "speaking tools" "\<forall>e \<in> set (ls_path st). spoken e"
  shows "spoken_step (execute_step tools p c st)"
proof -
  let ?st = "emit_step tools (ls_steps st) OC_TOOL_REQUESTED (Some (tc_name c)) st"
  obtain q s' where q: "te_execute tools p c (ls_tools ?st) = (q, s')" by fastforce
  have "speaks (q, s')" using assms(1) q unfolding speaking_def by metis
  moreover have "\<forall>e \<in> set (ls_path (?st\<lparr>ls_tools := s'\<rparr>)). spoken e" using assms(2) by (simp add: emit_step_def Let_def)
  ultimately show ?thesis
    using q append_spoken [of _ "?st\<lparr>ls_tools := s'\<rparr>"]
    by (auto simp: execute_step_def Let_def spoken_step_def speaks_def finish_result_def
        split: sum.splits tool_disposition.splits)
qed

lemma terminal_step_spoken:
  assumes "speaking tools" "\<forall>e \<in> set (ls_path st). spoken e"
  shows "spoken_step (terminal_step tools p st)"
proof -
  obtain f where f: "te_evaluate_terminal tools = Some f" "\<And>p s. speaks (f p s)"
    using assms(1) by (auto simp: speaking_def)
  obtain q s' where q: "f p (ls_tools st) = (q, s')" by fastforce
  have "speaks (q, s')" using f(2) q by metis
  moreover have "\<forall>e \<in> set (ls_path (st\<lparr>ls_tools := s'\<rparr>)). spoken e" using assms(2) by simp
  ultimately show ?thesis
    using q f(1) append_spoken [of _ "st\<lparr>ls_tools := s'\<rparr>"]
    by (auto simp: terminal_step_def Let_def spoken_step_def speaks_def finish_result_def emit_step_def split: sum.splits)
qed

lemma loop_iteration_spoken:
  assumes "speaking tools" "\<forall>e \<in> set (ls_path st). spoken e"
  shows "spoken_step (loop_iteration llm tools st)"
proof -
  have t: "spoken_step (tool_step tools p c s)" if "ls_path s = ls_path st" for p c s
    using assms(2) that
    by (auto simp: tool_step_def Let_def finish_result_def failed_result_def spoken_step_def emit_step_def
        intro!: execute_step_spoken [OF assms(1), unfolded spoken_step_def])
  have "spoken_step (terminal_step tools p s)" if "ls_path s = ls_path st" for p s
    using terminal_step_spoken [OF assms(1)] assms(2) that by metis
  with t assms(2) show ?thesis
    by (auto simp: loop_iteration_def Let_def finish_result_def failed_result_def emit_step_def
        spoken_step_def [of "Finished _ _"] split: sum.splits option.splits)
qed

lemma agent_run_spoken:
  assumes "speaking tools" "agent_run llm tools m msgs s = (Inr r, fin)"
  shows "\<forall>e \<in> set (rr_execution_path r). spoken e"
proof -
  have run: "run_loop llm tools m (initial_loop_state msgs s) = (Inr r, fin)"
    using assms(2) by (simp add: agent_run_def)
  define Q where "Q = (\<lambda>(q :: agent_run_result res) (_ :: 'a loop_state).
    \<forall>r. q = Inr r \<longrightarrow> (\<forall>e \<in> set (rr_execution_path r). spoken e))"
  have "Q (Inr r) fin"
  proof (rule run_loop_invariant [where I = "\<lambda>st. \<forall>e \<in> set (ls_path st). spoken e" and Q = Q, OF run])
    show "\<forall>e \<in> set (ls_path (initial_loop_state msgs s)). spoken e" by (simp add: initial_loop_state_def)
  qed (use loop_iteration_spoken [OF assms(1), of _ llm] in \<open>fastforce simp: Q_def spoken_step_def failed_result_def split: sum.splits\<close>)+
  then show ?thesis by (simp add: Q_def)
qed

section \<open>Reading the path back\<close>

definition path_entry_of :: "execution_path_read \<Rightarrow> execution_path_entry" where
  "path_entry_of x =
     \<lparr>pe_step = nat (xr_step x), pe_action_key = xr_action_key x, pe_action_known = xr_action_known x,
      pe_policy_decision = routing_decision_value (xr_policy_decision x),
      pe_routing_status = routing_status_value (xr_routing_status x),
      pe_policy_reason = policy_reason_value (xr_policy_reason x),
      pe_missing_required_fields = xr_missing_required_fields x,
      pe_tool_outcome = map_option outcome_code_value (xr_tool_outcome x),
      pe_side_effect_committed = xr_side_effect_committed x\<rparr>"

lemma as_enum_values:
  "as_enum routing_decision_value all_routing_decisions (PStr (routing_decision_value d)) = Some d"
  "as_enum routing_status_value all_routing_statuses (PStr (routing_status_value s)) = Some s"
  "as_enum policy_reason_value all_policy_reasons (PStr (policy_reason_value r)) = Some r"
  "as_enum outcome_code_value all_outcome_codes (PStr (outcome_code_value c)) = Some c"
  "as_enum stop_reason_value all_stop_reasons (PStr (stop_reason_value q)) = Some q"
proof -
  show "as_enum routing_decision_value all_routing_decisions (PStr (routing_decision_value d)) = Some d"
    by (cases d) (simp_all add: as_enum_def all_routing_decisions_def)
  show "as_enum stop_reason_value all_stop_reasons (PStr (stop_reason_value q)) = Some q"
    by (cases q) (simp_all add: as_enum_def all_stop_reasons_def)
  show "as_enum policy_reason_value all_policy_reasons (PStr (policy_reason_value r)) = Some r"
    using policy_reason_of_value [of r] by (simp add: as_enum_def policy_reason_of_def)
  show "as_enum outcome_code_value all_outcome_codes (PStr (outcome_code_value c)) = Some c"
    using outcome_code_of_value [of c] by (simp add: as_enum_def outcome_code_of_def)
qed simp

lemma str_values_list: "str_values (str_list xs) = Some xs"
  by (simp add: str_values_def str_list_def map_opt_map)

lemma spoken_entry:
  assumes "spoken e"
  obtains d s r c where "pe_policy_decision e = routing_decision_value d" "pe_routing_status e = routing_status_value s"
    "pe_policy_reason e = policy_reason_value r" "pe_tool_outcome e = map_option outcome_code_value c"
    "sorted_set (pe_missing_required_fields e) = pe_missing_required_fields e"
    "list_all safe_identifier (pe_missing_required_fields e)"
proof -
  obtain n ev where ev: "from_tool n ev = Inr e" "in_vocabulary ev" using assms by (auto simp: spoken_def)
  have e: "pe_policy_decision e = ev_policy_decision ev" "pe_routing_status e = ev_routing_status ev"
    "pe_policy_reason e = ev_policy_reason ev" "pe_tool_outcome e = ev_tool_outcome ev"
    "pe_missing_required_fields e = sorted_set (ev_missing_required_fields ev)"
    using ev(1) by (auto simp: from_tool_def split: if_splits)
  obtain c where "ev_tool_outcome ev = map_option outcome_code_value c"
  proof (cases "ev_tool_outcome ev")
    case None
    then show ?thesis using that [of None] by simp
  next
    case (Some o')
    then obtain c where "o' = outcome_code_value c" using ev(2) by (auto simp: in_vocabulary_def)
    with Some show ?thesis using that [of "Some c"] by simp
  qed
  then show ?thesis using that ev(2) e by (auto simp: in_vocabulary_def list_all_iff)
qed

lemma read_dumped_entry:
  assumes "spoken e" "1 \<le> pe_step e" "pe_step e \<le> 8" "previous < int (pe_step e)"
    and "pe_action_known e \<longleftrightarrow> pe_action_key e \<noteq> None"
    and "\<And>k. pe_action_key e = Some k \<Longrightarrow> k \<in> set registered \<and> safe_identifier k"
  obtains x where "safe_entry registered previous (PDict (path_entry_dump e)) = Some x" "path_entry_of x = e"
    "xr_step x = int (pe_step e)"
proof -
  obtain d s r c where v: "pe_policy_decision e = routing_decision_value d" "pe_routing_status e = routing_status_value s"
    "pe_policy_reason e = policy_reason_value r" "pe_tool_outcome e = map_option outcome_code_value c"
    "sorted_set (pe_missing_required_fields e) = pe_missing_required_fields e"
    "list_all safe_identifier (pe_missing_required_fields e)"
    using spoken_entry [OF assms(1)] by blast
  let ?x = "\<lparr>xr_step = int (pe_step e), xr_action_key = pe_action_key e, xr_action_known = pe_action_known e,
     xr_policy_decision = d, xr_routing_status = s, xr_policy_reason = r,
     xr_missing_required_fields = pe_missing_required_fields e, xr_tool_outcome = c,
     xr_side_effect_committed = pe_side_effect_committed e\<rparr>"
  have keys: "set (dict_keys (path_entry_dump e)) = set path_keys"
    by (auto simp: path_entry_dump_def path_keys_def dict_keys_def)
  have fields: "key ''step'' plain_int (path_entry_dump e) = Some (int (pe_step e))"
    "key ''action_known'' as_bool (path_entry_dump e) = Some (pe_action_known e)"
    "key ''missing_required_fields'' str_values (path_entry_dump e) = Some (pe_missing_required_fields e)"
    "key ''side_effect_committed'' as_bool (path_entry_dump e) = Some (pe_side_effect_committed e)"
    "map_of (path_entry_dump e) ''action_key'' = Some (opt_str (pe_action_key e))"
    by (simp_all add: path_entry_dump_def key_def plain_int_def str_values_list)
  have "key ''tool_outcome'' (as_optional (as_enum outcome_code_value all_outcome_codes)) (path_entry_dump e) = Some c"
    by (cases c) (simp_all add: path_entry_dump_def key_def opt_str_def as_optional_def as_enum_values v(4))
  then have entry: "read_entry (int (pe_step e)) (pe_action_key e) (pe_action_known e) (pe_missing_required_fields e)
      (pe_side_effect_committed e) (path_entry_dump e) = Some ?x"
    using v assms(6) by (cases "pe_action_key e")
      (simp_all add: read_entry_def path_entry_dump_def key_def as_enum_values)
  have "safe_entry registered previous (PDict (path_entry_dump e)) = Some ?x"
    using assms(2,3,4,5,6) entry keys
    by (cases "pe_action_key e") (simp_all add: safe_entry_def fields opt_str_def MAX_EXECUTION_STEPS_def)
  moreover have "path_entry_of ?x = e" using v by (cases e) (simp add: path_entry_of_def)
  ultimately show ?thesis using that [of ?x] by simp
qed

lemma read_dumped_path:
  assumes "\<forall>e \<in> set path. spoken e \<and> 1 \<le> pe_step e \<and> pe_step e \<le> 8 \<and> (pe_action_known e \<longleftrightarrow> pe_action_key e \<noteq> None) \<and>
      (\<forall>k. pe_action_key e = Some k \<longrightarrow> k \<in> set registered \<and> safe_identifier k)"
    and "sorted_wrt (<) (map pe_step path)" "\<forall>e \<in> set path. previous < int (pe_step e)"
  shows "\<exists>xs. safe_path registered previous (map (\<lambda>e. PDict (path_entry_dump e)) path) = Some xs \<and>
    map path_entry_of xs = path"
  using assms
proof (induction path arbitrary: previous)
  case (Cons e path)
  obtain x where x: "safe_entry registered previous (PDict (path_entry_dump e)) = Some x" "path_entry_of x = e"
    "xr_step x = int (pe_step e)"
    using read_dumped_entry [of e previous registered] Cons.prems by auto
  obtain xs where "safe_path registered (int (pe_step e)) (map (\<lambda>e. PDict (path_entry_dump e)) path) = Some xs"
    "map path_entry_of xs = path"
    using Cons.IH [of "int (pe_step e)"] Cons.prems by auto
  with x show ?case by (auto simp del: of_nat_le_iff)
qed simp

lemma gated_speaking:
  assumes "valid_tenant_config (rt_tenant_config (xe_runtime x))"
  shows "speaking (gated_tools x)"
  using execute_speaks [OF assms] by (simp add: speaking_def gated_tools_def)

lemma resolved_valid:
  assumes "resolve_persisted_profile env snapshot expected slug = Inr rp"
  shows "valid_tenant_config (rp_config rp)"
    "compile_tenant_profile (en_actions env) (en_documents env) (rp_config rp) (rp_sha256 rp) = Inr (rp_compiled rp)"
proof -
  obtain snap sha c where c: "decode_snapshot snap = Inr c" and rp: "resolved_profile env c snap sha = Inr rp"
    using assms
    by (auto simp: resolve_persisted_profile_def snapshot_unavailable_def split: option.splits if_splits sum.splits)
  have "valid_tenant_config c"
    using c config_model_validate_valid by (auto simp: decode_snapshot_def bind_res_Inr_iff)
  with rp show "valid_tenant_config (rp_config rp)"
    "compile_tenant_profile (en_actions env) (en_documents env) (rp_config rp) (rp_sha256 rp) = Inr (rp_compiled rp)"
    by (auto simp: resolved_profile_def split: sum.splits)
qed

lemma registered_identifiers:
  assumes "compile_tenant_profile areg dreg c fp = Inr p" "valid_tenant_config c" "k \<in> set (cp_registered_actions p)"
  shows "safe_identifier k"
proof -
  have "cp_registered_actions p =
      map fst (filter (\<lambda>(a, rule). ar_execution rule = EXECUTABLE \<and> a \<in> set (dict_keys areg)) (tn_action_policy c))"
    using assms(1) by (auto simp: compile_tenant_profile_def bind_res_Inr_iff split: if_splits)
  with assms(3) obtain rule where "(k, rule) \<in> set (tn_action_policy c)" by auto
  with assms(2) show ?thesis
    by (auto simp: valid_tenant_config_def valid_config_fields_def list_all_iff)
qed

lemma summary_fields:
  "map_of (result_summary r) ''steps'' = Some (PInt (int (rr_steps r)))"
  "map_of (result_summary r) ''reason'' = Some (PStr (stop_reason_value (rr_reason r)))"
  "map_of (result_summary r) ''execution_path'' = Some (PList (map (\<lambda>e. PDict (path_entry_dump e)) (rr_execution_path r)))"
  "''steps'' \<in> set (dict_keys (result_summary r))"
  by (simp_all add: result_summary_def dict_keys_def)

lemma path_within_length:
  assumes "path_within n path"
  shows "length path \<le> n"
proof -
  have d: "distinct (map pe_step path)" using assms by (auto simp: path_within_def strict_sorted_iff)
  have "set (map pe_step path) \<subseteq> {1..n}" using assms by (auto simp: path_within_def list_all_iff)
  then have "card (set (map pe_step path)) \<le> n" using card_mono [of "{1..n}"] by fastforce
  then show ?thesis using distinct_card [OF d] by simp
qed


text \<open>
  The condition on the actions is needed: a path with a known action that the profile does not
  register is not shown at all. The executor records the action of every call to a built-in tool
  as known, also of one that the profile does not declare.
\<close>

lemma safe_path_unregistered:
  assumes "e \<in> set path" "pe_action_known e" "pe_action_key e = Some k" "k \<notin> set registered"
  shows "safe_path registered previous (map (\<lambda>e. PDict (path_entry_dump e)) path) = None"
  using assms
proof (induction path arbitrary: previous)
  case (Cons f path)
  have "safe_entry registered previous (PDict (path_entry_dump f)) = None" if "f = e"
    using Cons.prems(2,3,4) that
    by (simp add: safe_entry_def path_entry_dump_def key_def opt_str_def split: option.splits)
  then show ?case using Cons by (cases "f = e") (auto simp: opt_bind_def split: option.splits)
qed simp

lemma unregistered_action_hides_path:
  assumes "resolve_persisted_profile env (pj_tenant_config_snapshot row) (PStr (pj_tenant_config_sha256 row)) None = Inr p"
    and "pj_result row = Some (result_summary r)" "e \<in> set (rr_execution_path r)" "pe_action_known e"
    and "pe_action_key e = Some k" "k \<notin> set (cp_registered_actions (rp_compiled p))"
  shows "jd_execution_path (project_job_read env row) = []"
  using safe_path_unregistered [OF assms(3,4,5,6), of 0]
  by (simp add: project_job_read_def assms(1,2) Let_def safe_execution_values_def key_def summary_fields split: prod.splits)

section \<open>Reviewing and deciding\<close>

lemma safe_action_identifier: "safe_identifier s \<Longrightarrow> safe_action_name s = Some s"
  by (auto simp: safe_identifier_def bounded_identifier_def safe_action_name_def split: list.splits)

lemma pending_action_name: "pending_action_validate p = Inr act \<Longrightarrow> safe_identifier (pa_name act)"
  by (auto simp: pending_action_validate_def mk_pending_action_def validation_error_def bind_res_Inr_iff
      split: option.splits if_splits)

lemma project_review_Inr:
  assumes "project_review env a d = Inr v"
  obtains act where "review_action a = Inr act" "review_details env a act d = Inr (rv_validated_fields v, rv_executable v)"
  using assms by (auto simp: project_review_def bind_res_Inr_iff)


end
