(* ===== verification/Projection_Examples.thy ===== *)
theory Projection_Examples
  imports Examples In_Memory_Port Projection_Safety
begin

text \<open>
  The projections at work: what the API shows of a run that opens a case, of a run that asks for a
  tool the tenant does not have, and of the parked approval of the theory \<open>Examples\<close>.
\<close>

section \<open>A run and its projection\<close>

lemma shown_run_ok:
  "case agent_run plain_llm (gated_tools demo_executor) 2 [] start_state of
     (Inr r, fin) \<Rightarrow> length (rr_execution_path r) = 2 \<and>
       list_all (\<lambda>e. case pe_action_key e of None \<Rightarrow> True | Some k \<Rightarrow> k = ''create_case'') (rr_execution_path r)
   | (Inl e, fin) \<Rightarrow> False"
  by code_simp

lemma shown_run:
  obtains r fin where "agent_run plain_llm (gated_tools demo_executor) 2 [] start_state = (Inr r, fin)"
    "rr_execution_path r \<noteq> []" "\<forall>e \<in> set (rr_execution_path r). \<forall>k. pe_action_key e = Some k \<longrightarrow> k = ''create_case''"
  using shown_run_ok by (force split: prod.splits sum.splits simp: list_all_iff)

lemma demo_registered_actions: "''create_case'' \<in> set (cp_registered_actions demo_profile)"
  by code_simp

definition demo_read_row :: "py_dict \<Rightarrow> persisted_job_read" where
  "demo_read_row result =
     \<lparr>pj_job_id = 100, pj_trace_id = 7, pj_status = J_succeeded, pj_attempt_count = 1, pj_result = Some result,
      pj_error_code = None, pj_tenant_config_snapshot = PDict (config_model_dump demo_config),
      pj_tenant_config_sha256 = demo_sha256 [], pj_approval_id = None, pj_approval_status = None, pj_created_at = 0,
      pj_started_at = Some 10, pj_finished_at = Some 20, pj_result_references = []\<rparr>"


text \<open>
  The profile of the example does not declare \<open>find_customer\<close>; a run in which the provider asks for
  it is recorded with a known action, and is not shown.
\<close>

definition eager_proposal :: agent_proposal where
  "eager_proposal = plain_proposal\<lparr>ap_tool_calls := [\<lparr>ptc_name = ''find_customer'', ptc_arguments = []\<rparr>]\<rparr>"

definition eager_llm :: llm_client where
  "eager_llm ms = Inr eager_proposal"

lemma eager_run_ok:
  "case agent_run eager_llm (gated_tools demo_executor) 2 [] start_state of
     (Inr r, fin) \<Rightarrow>
       (case rr_execution_path r of
          e # _ \<Rightarrow> pe_action_known e \<and> pe_action_key e = Some ''find_customer'' \<and>
            ''find_customer'' \<notin> set (cp_registered_actions demo_profile)
        | [] \<Rightarrow> False)
   | (Inl e, fin) \<Rightarrow> False"
  by code_simp

lemma eager_run_hidden:
  "\<exists>r fin. agent_run eager_llm (gated_tools demo_executor) 2 [] start_state = (Inr r, fin) \<and>
     rr_execution_path r \<noteq> [] \<and> jd_execution_path (project_job_read demo_env (demo_read_row (result_summary r))) = []"
proof -
  obtain r fin e es where r: "agent_run eager_llm (gated_tools demo_executor) 2 [] start_state = (Inr r, fin)"
    "rr_execution_path r = e # es" "pe_action_known e" "pe_action_key e = Some ''find_customer''"
    "''find_customer'' \<notin> set (cp_registered_actions demo_profile)"
    using eager_run_ok by (auto split: prod.splits sum.splits list.splits)
  let ?row = "demo_read_row (result_summary r)"
  have p: "resolve_persisted_profile demo_env (pj_tenant_config_snapshot ?row) (PStr (pj_tenant_config_sha256 ?row)) None =
      Inr demo_resolved"
    using demo_persisted_eq by (simp add: demo_read_row_def)
  have "pj_result ?row = Some (result_summary r)" by (simp add: demo_read_row_def)
  moreover have "''find_customer'' \<notin> set (cp_registered_actions (rp_compiled demo_resolved))"
    using r(5) by (simp add: demo_resolved_def)
  ultimately have "jd_execution_path (project_job_read demo_env ?row) = []"
    using unregistered_action_hides_path [OF p, of r e "''find_customer''"] r(2,3,4) by simp
  with r show ?thesis by auto
qed

section \<open>The review of a parked approval\<close>

lemma demo_review: "\<exists>v. project_review demo_denv demo_pending demo_parked = Inr v"
proof -
  have "review_action demo_pending = Inr (Some demo_action)"
    by code_simp
  moreover have "safe_result_reference demo_pending demo_parked = Inr []"
    by (simp add: safe_result_reference_def opt_bind_def key_def demo_pending_def demo_staged_approval_def new_approval_def)
  moreover have "\<exists>w. review_details demo_denv demo_pending (Some demo_action) demo_parked = Inr w"
    by (simp add: review_details_def executable_action_def get_job_observation_identity_def get_observation_identity_def
        tx_defs demo_parked_rows demo_persisted_eq demo_denv_def demo_registered demo_capability_facts Let_def)
       blast
  ultimately show ?thesis by (auto simp: project_review_def)
qed


end
