(* ===== verification/Auth.thy ===== *)
theory Auth
  imports Intake
begin

text \<open>
  Authentication of HTTP requests: \<open>app/auth/api_keys.py\<close> and \<open>app/auth/inbound_webhook.py\<close>. A
  credential is looked up by its hash among the active keys of active tenants; a webhook in
  addition carries a signature over its time stamp and its body. SHA-256 and HMAC-SHA256 are
  parameters; the clock is an argument. The observation events of the module are returned with
  the result, in the order in which they are emitted.
\<close>

section \<open>HTTP errors\<close>

text \<open>An \<open>HTTPException\<close> of the handler, or an exception that FastAPI answers with status 500.\<close>

datatype http_error = HTTPException nat string | Unhandled exn

type_synonym 'a http = "http_error + 'a"

definition raised :: "'a res \<Rightarrow> 'a http" where
  "raised r = (case r of Inl e \<Rightarrow> Inl (Unhandled e) | Inr x \<Rightarrow> Inr x)"

lemma raised_Inr_iff [simp]: "raised r = Inr x \<longleftrightarrow> r = Inr x"
  by (simp add: raised_def split: sum.split)

section \<open>API keys\<close>

record tenant_row =
  te_id :: uuid
  te_slug :: string
  te_status :: string

record api_key_row =
  ak_id :: uuid
  ak_tenant_id :: uuid
  ak_prefix :: string
  ak_key_hash :: string
  ak_is_active :: bool
  ak_principal_type :: string
  ak_capability :: string
  ak_actor_ref :: "string option"

record directory =
  dir_tenants :: "tenant_row list"
  dir_keys :: "api_key_row list"

definition API_KEY_PREFIX :: string where "API_KEY_PREFIX = ''ik_''"
definition API_KEY_TOKEN_LENGTH :: nat where "API_KEY_TOKEN_LENGTH = 43"
definition SAFE_PREFIX_LENGTH :: nat where "SAFE_PREFIX_LENGTH = 11"

text \<open>The characters of \<open>secrets.token_urlsafe\<close>.\<close>

definition url_safe :: "char \<Rightarrow> bool" where
  "url_safe c \<longleftrightarrow> is_lower c \<or> (CHR ''A'' \<le> c \<and> c \<le> CHR ''Z'') \<or> is_digit c \<or> c = CHR ''_'' \<or> c = CHR ''-''"

definition api_key_format :: "string \<Rightarrow> bool" where
  "api_key_format s \<longleftrightarrow>
     take 3 s = API_KEY_PREFIX \<and> length (drop 3 s) = API_KEY_TOKEN_LENGTH \<and> list_all url_safe (drop 3 s)"

definition hash_api_key :: "(bytes \<Rightarrow> string) \<Rightarrow> string \<Rightarrow> string" where
  "hash_api_key sha256 raw = sha256 (utf8_encode raw)"

definition generate_api_key :: "(bytes \<Rightarrow> string) \<Rightarrow> string \<Rightarrow> string \<times> string \<times> string" where
  "generate_api_key sha256 token =
     (let raw = API_KEY_PREFIX @ token in (raw, take SAFE_PREFIX_LENGTH raw, hash_api_key sha256 raw))"

datatype credential_kind = SERVICE_API_KEY | OPERATOR_API_KEY | INBOUND_WEBHOOK

datatype signature_outcome = VERIFIED | MISSING | MALFORMED | STALE | MISMATCH

datatype auth_event =
    AuthCompleted credential_kind outcome_code "uuid option"
  | SignatureCompleted signature_outcome

text \<open>The join of the keys with their tenants.\<close>

definition joined_keys :: "directory \<Rightarrow> (api_key_row \<times> tenant_row) list" where
  "joined_keys dir = filter (\<lambda>(k, t). ak_tenant_id k = te_id t) (List.product (dir_keys dir) (dir_tenants dir))"

definition service_key :: "string \<Rightarrow> api_key_row \<times> tenant_row \<Rightarrow> bool" where
  "service_key h = (\<lambda>(k, t). ak_key_hash k = h \<and> ak_is_active k \<and> ak_principal_type k = ''service'' \<and>
     ak_capability k = ''none'' \<and> te_status t = ''active'')"

definition operator_key :: "string \<Rightarrow> api_key_row \<times> tenant_row \<Rightarrow> bool" where
  "operator_key h = (\<lambda>(k, t). ak_key_hash k = h \<and> ak_is_active k \<and> ak_principal_type k = ''operator'' \<and>
     ak_capability k = ''approval_decider'' \<and> ak_actor_ref k \<noteq> None \<and> te_status t = ''active'')"

definition resolve_active_tenant :: "(bytes \<Rightarrow> string) \<Rightarrow> directory \<Rightarrow> string \<Rightarrow> tenant_row option res" where
  "resolve_active_tenant sha256 dir raw =
     bind_res (scalar_one_or_none (service_key (hash_api_key sha256 raw)) (joined_keys dir)) (\<lambda>row.
       Inr (map_option snd row))"

definition get_current_tenant ::
  "(bytes \<Rightarrow> string) \<Rightarrow> directory \<Rightarrow> string option \<Rightarrow> tenant_row http \<times> auth_event list" where
  "get_current_tenant sha256 dir x_api_key =
     (let rejected = (Inl (HTTPException 401 ''Invalid API key''),
            [AuthCompleted SERVICE_API_KEY OC_REJECTED None])
      in case x_api_key of
           None \<Rightarrow> rejected
         | Some raw \<Rightarrow>
             if \<not> api_key_format raw then rejected
             else case resolve_active_tenant sha256 dir raw of
               Inl e \<Rightarrow> (Inl (Unhandled e), [])
             | Inr None \<Rightarrow> rejected
             | Inr (Some t) \<Rightarrow> (Inr t, [AuthCompleted SERVICE_API_KEY OC_AUTHENTICATED (Some (te_id t))]))"

definition get_current_operator ::
  "(bytes \<Rightarrow> string) \<Rightarrow> directory \<Rightarrow> string option \<Rightarrow> authenticated_operator http \<times> auth_event list" where
  "get_current_operator sha256 dir x_api_key =
     (let rejected = (Inl (HTTPException 401 ''Invalid operator API key''),
            [AuthCompleted OPERATOR_API_KEY OC_REJECTED None])
      in case x_api_key of
           None \<Rightarrow> rejected
         | Some raw \<Rightarrow>
             if \<not> api_key_format raw then rejected
             else case scalar_one_or_none (operator_key (hash_api_key sha256 raw)) (joined_keys dir) of
               Inl e \<Rightarrow> (Inl (Unhandled e), [])
             | Inr None \<Rightarrow> rejected
             | Inr (Some (k, t)) \<Rightarrow>
                 (case ak_actor_ref k of
                    None \<Rightarrow> rejected
                  | Some actor \<Rightarrow>
                      if actor = [] then rejected
                      else (Inr \<lparr>op_tenant_id = ak_tenant_id k, op_actor_ref = actor, op_credential_id = ak_id k\<rparr>,
                            [AuthCompleted OPERATOR_API_KEY OC_AUTHENTICATED (Some (ak_tenant_id k))])))"

section \<open>Integers in headers\<close>

text \<open>\<open>int(s)\<close>: digits with single underscores between them, at most 4300 of them.\<close>

fun dec_body :: "int \<Rightarrow> bool \<Rightarrow> string \<Rightarrow> int option" where
  "dec_body acc d [] = (if d then Some acc else None)"
| "dec_body acc d (c # cs) =
     (if c = CHR ''_'' then (if d then dec_body acc False cs else None)
      else if is_digit c then dec_body (10 * acc + int (of_char c - 48)) True cs else None)"

definition INT_MAX_STR_DIGITS :: nat where "INT_MAX_STR_DIGITS = 4300"

definition dec_unsigned :: "string \<Rightarrow> int option" where
  "dec_unsigned s = (if length (filter is_digit s) \<le> INT_MAX_STR_DIGITS then dec_body 0 False s else None)"

definition py_int10 :: "string \<Rightarrow> int option" where
  "py_int10 s =
     (case strip s of
        [] \<Rightarrow> None
      | c # cs \<Rightarrow>
          if c = CHR ''+'' then dec_unsigned cs
          else if c = CHR ''-'' then map_option uminus (dec_unsigned cs)
          else dec_unsigned (c # cs))"

section \<open>Webhook signatures\<close>

definition MAX_INBOUND_WEBHOOK_BODY_BYTES :: nat where "MAX_INBOUND_WEBHOOK_BODY_BYTES = 8 * 1024 * 1024"
definition MAX_SIGNATURE_AGE_SECONDS :: int where "MAX_SIGNATURE_AGE_SECONDS = 300"

definition signature_payload :: "int \<Rightarrow> bytes \<Rightarrow> bytes" where
  "signature_payload timestamp body = utf8_encode ''v1.'' @ utf8_encode (dec_int timestamp) @ utf8_encode ''.'' @ body"

type_synonym hmac = "bytes \<Rightarrow> bytes \<Rightarrow> string"

definition sign_inbound_webhook :: "hmac \<Rightarrow> string \<Rightarrow> int \<Rightarrow> bytes \<Rightarrow> string" where
  "sign_inbound_webhook hmac_sha256 api_key timestamp body =
     ''v1='' @ hmac_sha256 (utf8_encode api_key) (signature_payload timestamp body)"

text \<open>\<open>SIGNATURE_DIGEST_PATTERN.fullmatch\<close>; such a string is ASCII.\<close>

definition signature_format :: "string \<Rightarrow> bool" where
  "signature_format s \<longleftrightarrow> take 3 s = ''v1='' \<and> is_sha256_hex (drop 3 s)"

definition inbound_signature_outcome ::
  "hmac \<Rightarrow> string \<Rightarrow> string option \<Rightarrow> string option \<Rightarrow> bytes \<Rightarrow> int \<Rightarrow> signature_outcome" where
  "inbound_signature_outcome hmac_sha256 api_key timestamp_header signature body now =
     (case (timestamp_header, signature) of
        (Some header, Some sig) \<Rightarrow>
          if \<not> signature_format sig then MALFORMED
          else (case py_int10 header of
                  None \<Rightarrow> MALFORMED
                | Some timestamp \<Rightarrow>
                    if MAX_SIGNATURE_AGE_SECONDS < \<bar>now - timestamp\<bar> then STALE
                    else if sign_inbound_webhook hmac_sha256 api_key timestamp body = sig then VERIFIED
                    else MISMATCH)
      | _ \<Rightarrow> MISSING)"

definition verify_inbound_webhook_signature ::
  "hmac \<Rightarrow> string \<Rightarrow> string option \<Rightarrow> string option \<Rightarrow> bytes \<Rightarrow> int \<Rightarrow> bool" where
  "verify_inbound_webhook_signature hmac_sha256 api_key timestamp_header signature body now \<longleftrightarrow>
     inbound_signature_outcome hmac_sha256 api_key timestamp_header signature body now = VERIFIED"

section \<open>The body of a webhook request\<close>

record webhook_request =
  wq_api_key :: "string option"
  wq_timestamp :: "string option"
  wq_signature :: "string option"
  wq_content_length :: "string option"
  wq_content_type :: "string option"
  wq_chunks :: "bytes list"
  wq_cached :: "bytes option"

definition body_too_large :: "'a http" where
  "body_too_large = Inl (HTTPException 413 ''Inbound webhook body too large'')"

text \<open>\<open>async for chunk in request.stream()\<close>, with the bytes read so far.\<close>

fun read_chunks :: "nat \<Rightarrow> bytes list \<Rightarrow> bytes http" where
  "read_chunks seen [] = Inr []"
| "read_chunks seen (chunk # chunks) =
     (if MAX_INBOUND_WEBHOOK_BODY_BYTES < seen + length chunk then body_too_large
      else case read_chunks (seen + length chunk) chunks of Inl e \<Rightarrow> Inl e | Inr rest \<Rightarrow> Inr (chunk @ rest))"

definition declared_too_large :: "string option \<Rightarrow> bool" where
  "declared_too_large header \<longleftrightarrow>
     (case header of
        None \<Rightarrow> False
      | Some s \<Rightarrow> int MAX_INBOUND_WEBHOOK_BODY_BYTES < (case py_int10 s of None \<Rightarrow> 0 | Some n \<Rightarrow> n))"

definition read_bounded_inbound_body :: "webhook_request \<Rightarrow> bytes http \<times> webhook_request" where
  "read_bounded_inbound_body request =
     (case wq_cached request of
        Some body \<Rightarrow> (Inr body, request)
      | None \<Rightarrow>
          if declared_too_large (wq_content_length request) then (body_too_large, request)
          else case read_chunks 0 (wq_chunks request) of
            Inl e \<Rightarrow> (Inl e, request)
          | Inr body \<Rightarrow> (Inr body, request\<lparr>wq_cached := Some body\<rparr>))"

definition invalid_webhook_authentication :: "'a http" where
  "invalid_webhook_authentication = Inl (HTTPException 401 ''Invalid inbound webhook'')"

definition get_current_inbound_tenant ::
  "(bytes \<Rightarrow> string) \<Rightarrow> hmac \<Rightarrow> directory \<Rightarrow> int \<Rightarrow> webhook_request \<Rightarrow>
   tenant_row http \<times> auth_event list \<times> webhook_request" where
  "get_current_inbound_tenant sha256 hmac_sha256 dir now request =
     (let rejected = AuthCompleted INBOUND_WEBHOOK OC_REJECTED None
      in case wq_api_key request of
           None \<Rightarrow> (invalid_webhook_authentication, [SignatureCompleted MALFORMED, rejected], request)
         | Some raw \<Rightarrow>
             if \<not> api_key_format raw
             then (invalid_webhook_authentication, [SignatureCompleted MALFORMED, rejected], request)
             else (case read_bounded_inbound_body request of
                     (Inl e, request') \<Rightarrow> (Inl e, [], request')
                   | (Inr body, request') \<Rightarrow>
                       (let outcome = inbound_signature_outcome hmac_sha256 raw (wq_timestamp request)
                              (wq_signature request) body now;
                            completed = SignatureCompleted outcome
                        in if outcome \<noteq> VERIFIED
                           then (invalid_webhook_authentication, [completed, rejected], request')
                           else case resolve_active_tenant sha256 dir raw of
                             Inl e \<Rightarrow> (Inl (Unhandled e), [completed], request')
                           | Inr None \<Rightarrow> (invalid_webhook_authentication, [completed, rejected], request')
                           | Inr (Some t) \<Rightarrow>
                               (Inr t, [completed, AuthCompleted INBOUND_WEBHOOK OC_AUTHENTICATED (Some (te_id t))],
                                request'))))"

end
