(* ===== verification/Inbound.thy ===== *)
theory Inbound
  imports Auth
begin

text \<open>
  The signed email webhook behind its authentication: the payload models of
  \<open>app/inbound/models.py\<close> and the mapping of \<open>app/inbound/service.py\<close> to the enqueue service. The
  JSON parser of Pydantic is a parameter; Base64 and UTF-8 are the decoders of the standard
  library, UTF-8 on code points below 256, the range of the strings of this development.
\<close>

section \<open>Decoders\<close>

text \<open>\<open>base64.b64decode(s, validate=True)\<close>; \<open>None\<close> is the \<open>binascii.Error\<close>.\<close>

definition b64_val :: "char \<Rightarrow> nat option" where
  "b64_val c =
     (let n = (of_char c :: nat)
      in if CHR ''A'' \<le> c \<and> c \<le> CHR ''Z'' then Some (n - 65)
         else if CHR ''a'' \<le> c \<and> c \<le> CHR ''z'' then Some (n - 71)
         else if is_digit c then Some (n + 4)
         else if c = CHR ''+'' then Some 62 else if c = CHR ''/'' then Some 63 else None)"

definition b64_first :: "nat \<Rightarrow> nat \<Rightarrow> 8 word" where "b64_first a b = of_nat (4 * a + b div 16)"
definition b64_second :: "nat \<Rightarrow> nat \<Rightarrow> 8 word" where "b64_second b c = of_nat (16 * (b mod 16) + c div 4)"
definition b64_third :: "nat \<Rightarrow> nat \<Rightarrow> 8 word" where "b64_third c d = of_nat (64 * (c mod 4) + d)"

fun b64decode :: "string \<Rightarrow> bytes option" where
  "b64decode [] = Some []"
| "b64decode (w # x # y # z # rest) =
     (case (b64_val w, b64_val x) of
        (Some a, Some b) \<Rightarrow>
          (case (b64_val y, b64_val z) of
             (Some c, Some e) \<Rightarrow>
               map_option ((@) [b64_first a b, b64_second b c, b64_third c e]) (b64decode rest)
           | (Some c, None) \<Rightarrow>
               if z = CHR ''='' \<and> rest = [] then Some [b64_first a b, b64_second b c] else None
           | (None, _) \<Rightarrow>
               if y = CHR ''='' \<and> z = CHR ''='' \<and> rest = [] then Some [b64_first a b] else None)
      | _ \<Rightarrow> None)"
| "b64decode _ = None"

text \<open>\<open>bytes.decode("utf-8")\<close>: one byte below 128, or two bytes for a code point below 256.\<close>

fun utf8_decode :: "bytes \<Rightarrow> string option" where
  "utf8_decode [] = Some []"
| "utf8_decode (b # bs) =
     (if unat b < 128 then map_option ((#) (char_of (unat b))) (utf8_decode bs)
      else case bs of
        [] \<Rightarrow> None
      | b' # bs' \<Rightarrow>
          if (unat b = 194 \<or> unat b = 195) \<and> 128 \<le> unat b' \<and> unat b' < 192
          then map_option ((#) (char_of (64 * (unat b - 192) + (unat b' - 128)))) (utf8_decode bs')
          else None)"

section \<open>Payload\<close>

definition MAX_INBOUND_BODY_CHARS :: nat where "MAX_INBOUND_BODY_CHARS = 100000"
definition MAX_PROVIDER_ID_CHARS :: nat where "MAX_PROVIDER_ID_CHARS = 200"
definition MAX_BASE64_ATTACHMENT_CHARS :: nat where
  "MAX_BASE64_ATTACHMENT_CHARS = 4 * ((MAX_DOCUMENT_BYTES + 2) div 3)"

record webhook_attachment =
  wa_media_type :: document_media_type
  wa_content_base64 :: string

record webhook_email =
  wm_provider_id :: string
  wm_from_addr :: string
  wm_subject :: string
  wm_body :: string
  wm_attachments :: "webhook_attachment list"

definition parse_attachment :: "pyval \<Rightarrow> webhook_attachment option" where
  "parse_attachment v =
     opt_bind (as_dict v) (\<lambda>d.
       if \<not> only_keys [''media_type'', ''content_base64''] d then None
       else opt_bind (key ''media_type'' (as_enum media_type_value all_media_types) d) (\<lambda>m.
            opt_bind (key ''content_base64'' as_str d) (\<lambda>s.
              if 1 \<le> length s \<and> length s \<le> MAX_BASE64_ATTACHMENT_CHARS \<and> non_blank s \<and> \<not> list_ex py_isspace s
              then Some \<lparr>wa_media_type = m, wa_content_base64 = s\<rparr> else None)))"

definition identity_value :: "nat \<Rightarrow> string \<Rightarrow> bool" where
  "identity_value limit s \<longleftrightarrow> length s \<le> limit \<and> non_blank s \<and> s = strip s"

text \<open>\<open>WebhookEmailPayload\<close>: the fields with their bounds and the model validator.\<close>

definition parse_webhook_email :: "pyval \<Rightarrow> webhook_email option" where
  "parse_webhook_email v =
     opt_bind (as_dict v) (\<lambda>d.
       if \<not> only_keys [''provider_id'', ''from_addr'', ''subject'', ''body'', ''attachments''] d then None
       else opt_bind (key ''provider_id'' as_str d) (\<lambda>provider_id.
            opt_bind (key ''from_addr'' as_str d) (\<lambda>from_addr.
            opt_bind (key_default ''subject'' [] as_str d) (\<lambda>subject.
            opt_bind (key_default ''body'' [] as_str d) (\<lambda>body.
            opt_bind (key_default ''attachments'' [] (\<lambda>x. opt_bind (as_list x) (map_opt parse_attachment)) d) (\<lambda>atts.
              if identity_value MAX_PROVIDER_ID_CHARS provider_id \<and> identity_value 320 from_addr \<and>
                 length subject \<le> 500 \<and> length body \<le> MAX_INBOUND_BODY_CHARS \<and> length atts \<le> 1 \<and>
                 (atts \<noteq> [] \<or> non_blank body)
              then Some \<lparr>wm_provider_id = provider_id, wm_from_addr = from_addr, wm_subject = subject,
                         wm_body = body, wm_attachments = atts\<rparr>
              else None))))))"

text \<open>\<open>InvalidInboundPayload\<close> is a \<open>ValueError\<close>.\<close>

definition invalid_inbound_payload :: "'a res" where
  "invalid_inbound_payload = Inl (ValueError ''invalid inbound payload'')"

definition parse_webhook_email_payload :: "(bytes \<Rightarrow> pyval option) \<Rightarrow> bytes \<Rightarrow> webhook_email res" where
  "parse_webhook_email_payload json raw =
     (case opt_bind (json raw) parse_webhook_email of None \<Rightarrow> invalid_inbound_payload | Some m \<Rightarrow> Inr m)"

section \<open>Messages\<close>

record inbound_attachment =
  ia_media_type :: document_media_type
  ia_text :: "string option"
  ia_content :: "bytes option"

record inbound_message =
  msg_tenant_id :: uuid
  msg_tenant_slug :: string
  msg_channel :: string
  msg_from_addr :: string
  msg_subject :: string
  msg_body :: string
  msg_attachments :: "inbound_attachment list"
  msg_provider_id :: string

definition decode_attachment :: "webhook_attachment \<Rightarrow> inbound_attachment res" where
  "decode_attachment a =
     (case b64decode (wa_content_base64 a) of
        None \<Rightarrow> invalid_inbound_payload
      | Some decoded \<Rightarrow>
          if decoded = [] \<or> MAX_DOCUMENT_BYTES < length decoded then invalid_inbound_payload
          else if wa_media_type a = MEDIA_TEXT
          then (case utf8_decode decoded of
                  None \<Rightarrow> invalid_inbound_payload
                | Some s \<Rightarrow> Inr \<lparr>ia_media_type = MEDIA_TEXT, ia_text = Some s, ia_content = None\<rparr>)
          else Inr \<lparr>ia_media_type = wa_media_type a, ia_text = None, ia_content = Some decoded\<rparr>)"

definition to_message :: "webhook_email \<Rightarrow> uuid \<Rightarrow> string \<Rightarrow> inbound_message res" where
  "to_message m tenant_id slug =
     bind_res (map_res decode_attachment (wm_attachments m)) (\<lambda>attachments.
     Inr \<lparr>msg_tenant_id = tenant_id, msg_tenant_slug = slug, msg_channel = ''email_webhook'',
          msg_from_addr = wm_from_addr m,
          msg_subject = (if non_blank (wm_subject m) then strip (wm_subject m) else ''(no subject)''),
          msg_body = wm_body m, msg_attachments = attachments, msg_provider_id = wm_provider_id m\<rparr>)"

definition as_document_input :: "inbound_attachment \<Rightarrow> string \<Rightarrow> string \<Rightarrow> string \<Rightarrow> document_input res" where
  "as_document_input a channel subject body =
     (let v = \<lparr>di_channel = channel, di_subject = subject, di_body = body, di_media_type = ia_media_type a,
               di_text = ia_text a, di_content = ia_content a\<rparr>
      in if valid_document_input v then Inr v else Inl (ValueError ''ValidationError''))"

section \<open>The service\<close>

definition inbound_key :: "inbound_message \<Rightarrow> string" where
  "inbound_key m = ''email_webhook:'' @ msg_provider_id m"

definition text_command :: "uuid \<Rightarrow> inbound_message \<Rightarrow> enqueue_command" where
  "text_command trace m =
     \<lparr>ec_tenant_id = msg_tenant_id m, ec_tenant_slug = msg_tenant_slug m,
      ec_source = \<lparr>ts_channel = msg_channel m, ts_subject = msg_subject m, ts_body = msg_body m,
                   ts_document = None, ts_sender = Some (msg_from_addr m)\<rparr>,
      ec_idempotency_key = inbound_key m, ec_trace_id = trace, ec_safety_or_legal_risk = False\<rparr>"

definition attachment_command :: "uuid \<Rightarrow> inbound_message \<Rightarrow> document_input \<Rightarrow> enqueue_document_command" where
  "attachment_command trace m v =
     \<lparr>ed_tenant_id = msg_tenant_id m, ed_tenant_slug = msg_tenant_slug m, ed_document = v,
      ed_idempotency_key = inbound_key m, ed_trace_id = trace, ed_safety_or_legal_risk = False,
      ed_sender = Some (msg_from_addr m)\<rparr>"

text \<open>\<open>InboundIntakeService.enqueue\<close> with the trace identifier of the request.\<close>

definition inbound_enqueue ::
  "intake_env \<Rightarrow> uuid \<Rightarrow> inbound_message \<Rightarrow> db \<Rightarrow> enqueue_result res \<times> intake_event list \<times> db" where
  "inbound_enqueue env trace m d =
     (case msg_attachments m of
        [] \<Rightarrow> enqueue env (text_command trace m) d
      | [a] \<Rightarrow>
          (case as_document_input a (msg_channel m) (msg_subject m) (msg_body m) of
             Inl e \<Rightarrow> (Inl e, [], d)
           | Inr v \<Rightarrow> enqueue_document env (attachment_command trace m v) d)
      | _ \<Rightarrow> (invalid_inbound_payload, [], d))"

end
