(* ===== verification/Http_Api.thy ===== *)
theory Http_Api
  imports Inbound Projections
begin

text \<open>
  The HTTP endpoints of \<open>app/api\<close>: intake, the email webhook, approvals, cases, artifacts and jobs,
  with the observation context of \<open>app/observability/context.py\<close> that a handler binds. FastAPI
  runs the authentication dependency before the handler, an exception of it ends the request, and
  it answers a request whose parameters do not validate with status 422. An endpoint takes the
  directory of keys as it is when the request arrives.
\<close>

section \<open>Requests\<close>

record observation_context =
  oc_trace_id :: uuid
  oc_request_id :: "uuid option"
  oc_tenant_id :: "uuid option"
  oc_job_id :: "uuid option"

record api_env =
  av_sha256 :: "bytes \<Rightarrow> string"
  av_hmac :: hmac
  av_json :: "bytes \<Rightarrow> pyval option"
  av_intake :: intake_env
  av_decisions :: decision_env
  av_directory :: directory

datatype api_event = AuthEvent auth_event | IntakeEvent intake_event | ApprovalEvent approval_observation

definition unprocessable :: "'a http" where
  "unprocessable = Inl (HTTPException 422 ''Unprocessable Entity'')"

fun is_value_error :: "exn \<Rightarrow> bool" where
  "is_value_error (ValueError _) = True"
| "is_value_error (IdempotencyConflict _) = True"
| "is_value_error (ActionCapabilityUnavailable _) = True"
| "is_value_error (DocumentCapabilityUnavailable _) = True"
| "is_value_error (ApprovalDecisionConflict _) = True"
| "is_value_error (ApprovalExpired _) = True"
| "is_value_error _ = False"

fun is_type_error :: "exn \<Rightarrow> bool" where
  "is_type_error (TypeError _) = True"
| "is_type_error _ = False"

section \<open>Intake\<close>

record intake_accepted =
  ac_job_id :: uuid
  ac_status :: string

text \<open>The \<open>except\<close> clauses that the two intake endpoints share.\<close>

definition intake_http_error :: "string \<Rightarrow> exn \<Rightarrow> http_error" where
  "intake_http_error detail e =
     (if is_idempotency_conflict e then HTTPException 409 ''Idempotency-Key conflicts with request''
      else case e of
        TenantProfileUnavailableError _ \<Rightarrow> HTTPException 503 ''Tenant profile unavailable''
      | _ \<Rightarrow> if is_value_error e then HTTPException 422 detail else Unhandled e)"

definition bind_job :: "uuid \<Rightarrow> enqueue_result \<Rightarrow> observation_context \<Rightarrow> observation_context" where
  "bind_job tenant r ctx =
     ctx\<lparr>oc_tenant_id := Some tenant, oc_job_id := Some (er_job_id r), oc_trace_id := er_trace_id r\<rparr>"

type_synonym 'a endpoint = "observation_context \<Rightarrow> db \<Rightarrow> 'a http \<times> api_event list \<times> observation_context \<times> db"

text \<open>What both endpoints do with the answer of the enqueue service.\<close>

definition finish_intake ::
  "string \<Rightarrow> uuid \<Rightarrow> api_event list \<Rightarrow> observation_context \<Rightarrow> enqueue_result res \<times> intake_event list \<times> db \<Rightarrow>
   intake_accepted http \<times> api_event list \<times> observation_context \<times> db" where
  "finish_intake detail tenant before ctx out =
     (case out of
        (Inl e, es, d') \<Rightarrow> (Inl (intake_http_error detail e), before @ map IntakeEvent es, ctx, d')
      | (Inr r, es, d') \<Rightarrow>
          (Inr \<lparr>ac_job_id = er_job_id r, ac_status = ''queued''\<rparr>, before @ map IntakeEvent es, bind_job tenant r ctx, d'))"

definition intake_command ::
  "tenant_row \<Rightarrow> create_intake_request \<Rightarrow> string \<Rightarrow> uuid \<Rightarrow> enqueue_command" where
  "intake_command t r k trace =
     \<lparr>ec_tenant_id = te_id t, ec_tenant_slug = te_slug t,
      ec_source = \<lparr>ts_channel = cr_channel r, ts_subject = cr_subject r, ts_body = cr_body r,
                   ts_document = None, ts_sender = None\<rparr>,
      ec_idempotency_key = k, ec_trace_id = trace, ec_safety_or_legal_risk = False\<rparr>"

definition enqueue_intake ::
  "api_env \<Rightarrow> string option \<Rightarrow> string option \<Rightarrow> create_intake_request \<Rightarrow> intake_accepted endpoint" where
  "enqueue_intake env x_api_key idempotency_key request ctx d =
     (case get_current_tenant (av_sha256 env) (av_directory env) x_api_key of
        (Inl e, es) \<Rightarrow> (Inl e, map AuthEvent es, ctx, d)
      | (Inr t, es) \<Rightarrow>
          if \<not> valid_intake_request request then (unprocessable, map AuthEvent es, ctx, d)
          else (case idempotency_key of
                  None \<Rightarrow> (Inl (HTTPException 422 ''Idempotency-Key is required''), map AuthEvent es, ctx, d)
                | Some k \<Rightarrow>
                    if \<not> non_blank k
                    then (Inl (HTTPException 422 ''Idempotency-Key is required''), map AuthEvent es, ctx, d)
                    else finish_intake ''Invalid intake request'' (te_id t) (map AuthEvent es) ctx
                           (enqueue (av_intake env) (intake_command t request k (oc_trace_id ctx)) d)))"

section \<open>The email webhook\<close>

text \<open>\<open>content_type.split(";", 1)[0].lower()\<close>.\<close>

definition media_type_of :: "string option \<Rightarrow> string" where
  "media_type_of header =
     map lower_char (takeWhile (\<lambda>c. c \<noteq> CHR '';'') (case header of None \<Rightarrow> [] | Some s \<Rightarrow> s))"

definition accept_email ::
  "api_env \<Rightarrow> tenant_row \<Rightarrow> observation_context \<Rightarrow> bytes \<Rightarrow> db \<Rightarrow> enqueue_result res \<times> intake_event list \<times> db" where
  "accept_email env t ctx raw d =
     (case bind_res (parse_webhook_email_payload (av_json env) raw) (\<lambda>m. to_message m (te_id t) (te_slug t)) of
        Inl e \<Rightarrow> (Inl e, [], d)
      | Inr m \<Rightarrow> inbound_enqueue (av_intake env) (oc_trace_id ctx) m d)"

definition receive_email_webhook :: "api_env \<Rightarrow> int \<Rightarrow> webhook_request \<Rightarrow> intake_accepted endpoint" where
  "receive_email_webhook env now request ctx d =
     (case get_current_inbound_tenant (av_sha256 env) (av_hmac env) (av_directory env) now request of
        (Inl e, es, request') \<Rightarrow> (Inl e, map AuthEvent es, ctx, d)
      | (Inr t, es, request') \<Rightarrow>
          if media_type_of (wq_content_type request') \<noteq> ''application/json''
          then (Inl (HTTPException 415 ''Unsupported media type''), map AuthEvent es, ctx, d)
          else (case fst (read_bounded_inbound_body request') of
                  Inl e \<Rightarrow> (Inl e, map AuthEvent es, ctx, d)
                | Inr raw \<Rightarrow>
                    finish_intake ''Invalid inbound payload'' (te_id t) (map AuthEvent es) ctx
                      (accept_email env t ctx raw d)))"

section \<open>Approvals\<close>

definition list_approvals ::
  "api_env \<Rightarrow> string option \<Rightarrow> string \<Rightarrow> int \<Rightarrow> approval_review_page endpoint" where
  "list_approvals env x_api_key status limit ctx d =
     (case get_current_operator (av_sha256 env) (av_directory env) x_api_key of
        (Inl e, es) \<Rightarrow> (Inl e, map AuthEvent es, ctx, d)
      | (Inr op, es) \<Rightarrow>
          (case next_item (\<lambda>s. approval_status_value s = status) public_statuses of
             None \<Rightarrow> (unprocessable, map AuthEvent es, ctx, d)
           | Some s \<Rightarrow>
               if \<not> (1 \<le> limit \<and> limit \<le> 100) then (unprocessable, map AuthEvent es, ctx, d)
               else (raised (review_list (av_decisions env) (op_tenant_id op) s limit d), map AuthEvent es, ctx, d)))"

definition not_found :: "string \<Rightarrow> 'a http" where
  "not_found what = Inl (HTTPException 404 (what @ '' not found''))"

definition get_approval :: "api_env \<Rightarrow> string option \<Rightarrow> uuid \<Rightarrow> approval_review_read endpoint" where
  "get_approval env x_api_key i ctx d =
     (case get_current_operator (av_sha256 env) (av_directory env) x_api_key of
        (Inl e, es) \<Rightarrow> (Inl e, map AuthEvent es, ctx, d)
      | (Inr op, es) \<Rightarrow>
          ((case review_get (av_decisions env) i (op_tenant_id op) d of
              Inl e \<Rightarrow> Inl (Unhandled e)
            | Inr None \<Rightarrow> not_found ''Approval''
            | Inr (Some v) \<Rightarrow> Inr v), map AuthEvent es, ctx, d))"

definition decision_http_error :: "exn \<Rightarrow> http_error" where
  "decision_http_error e =
     (case e of
        ApprovalNotFound \<Rightarrow> HTTPException 404 ''Approval not found''
      | ApprovalExpired _ \<Rightarrow> HTTPException 409 ''Approval expired''
      | ApprovalDecisionConflict _ \<Rightarrow> HTTPException 409 ''Approval decision conflict''
      | _ \<Rightarrow> Unhandled e)"

definition decide_approval ::
  "api_env \<Rightarrow> string option \<Rightarrow> uuid \<Rightarrow> string \<Rightarrow> string \<Rightarrow> datetime \<Rightarrow> decision_response endpoint" where
  "decide_approval env x_api_key i verdict reason now ctx d =
     (case get_current_operator (av_sha256 env) (av_directory env) x_api_key of
        (Inl e, es) \<Rightarrow> (Inl e, map AuthEvent es, ctx, d)
      | (Inr op, es) \<Rightarrow>
          (case mk_decision_request verdict reason of
             Inl _ \<Rightarrow> (unprocessable, map AuthEvent es, ctx, d)
           | Inr request \<Rightarrow>
               (case decide (av_decisions env) i op request now d of
                  (Inl e, obs, d') \<Rightarrow>
                    (Inl (decision_http_error e), map AuthEvent es @ map ApprovalEvent obs, ctx, d')
                | (Inr r, obs, d') \<Rightarrow> (Inr r, map AuthEvent es @ map ApprovalEvent obs, ctx, d'))))"

section \<open>Cases, artifacts and jobs\<close>

record create_case_request =
  cc_channel :: string
  cc_subject :: string
  cc_body :: string
  cc_customer_id :: "uuid option"
  cc_extracted_fields :: py_dict

definition MAX_EXTRACTED_FIELDS_BYTES :: nat where "MAX_EXTRACTED_FIELDS_BYTES = 100000"

definition valid_create_case_request :: "(rat \<Rightarrow> string) \<Rightarrow> create_case_request \<Rightarrow> bool" where
  "valid_create_case_request fl r \<longleftrightarrow>
     1 \<le> length (cc_channel r) \<and> length (cc_channel r) \<le> MAX_CHANNEL_CHARS \<and>
     1 \<le> length (cc_subject r) \<and> length (cc_subject r) \<le> MAX_SUBJECT_CHARS \<and>
     1 \<le> length (cc_body r) \<and> length (cc_body r) \<le> MAX_BODY_CHARS \<and>
     (case canonical_json_bytes fl (cc_extracted_fields r) of
        Inl _ \<Rightarrow> False | Inr encoded \<Rightarrow> length encoded \<le> MAX_EXTRACTED_FIELDS_BYTES)"

text \<open>\<open>CaseRepository.create\<close> with the flush of \<open>CaseService.create_case\<close>.\<close>

definition repository_create_case :: "uuid \<Rightarrow> create_case_request \<Rightarrow> case_row tx" where
  "repository_create_case t r =
     bind_tx (check_tx (\<lambda>d. case cc_customer_id r of None \<Rightarrow> True
                | Some c \<Rightarrow> (\<exists>u \<in> set (db_customers d). cu_id u = c \<and> cu_tenant_id u = t))) (\<lambda>_.
     bind_tx new_id_tx (\<lambda>i.
       let row = \<lparr>ic_id = i, ic_tenant_id = t, ic_customer_id = cc_customer_id r, ic_status = ''received'',
                  ic_channel = cc_channel r, ic_subject = cc_subject r, ic_body = cc_body r,
                  ic_source = Some (cc_channel r),
                  ic_raw_payload = [(''channel'', PStr (cc_channel r)), (''subject'', PStr (cc_subject r)),
                                    (''body'', PStr (cc_body r))],
                  ic_extracted_fields = cc_extracted_fields r\<rparr>
       in bind_tx (write_tx (\<lambda>d. d\<lparr>db_cases := db_cases d @ [row]\<rparr>)) (\<lambda>_. ret_tx row)))"

definition service_create_case :: "uuid \<Rightarrow> create_case_request \<Rightarrow> case_row tx" where
  "service_create_case t r =
     transaction
       (bind_tx (repository_create_case t r) (\<lambda>row.
        bind_tx (append_event t (ic_id row) ''created'' []) (\<lambda>_. ret_tx row)))"

text \<open>A case is answered as its row; the creation time is not part of the model of a row.\<close>

definition create_case_endpoint :: "api_env \<Rightarrow> string option \<Rightarrow> create_case_request \<Rightarrow> case_row endpoint" where
  "create_case_endpoint env x_api_key request ctx d =
     (case get_current_tenant (av_sha256 env) (av_directory env) x_api_key of
        (Inl e, es) \<Rightarrow> (Inl e, map AuthEvent es, ctx, d)
      | (Inr t, es) \<Rightarrow>
          if \<not> valid_create_case_request (en_float_repr (iv_profiles (av_intake env))) request
          then (unprocessable, map AuthEvent es, ctx, d)
          else (case service_create_case (te_id t) request d of
                  (r, d') \<Rightarrow> (raised r, map AuthEvent es, ctx, d')))"

definition get_case :: "api_env \<Rightarrow> string option \<Rightarrow> uuid \<Rightarrow> case_row endpoint" where
  "get_case env x_api_key i ctx d =
     (case get_current_tenant (av_sha256 env) (av_directory env) x_api_key of
        (Inl e, es) \<Rightarrow> (Inl e, map AuthEvent es, ctx, d)
      | (Inr t, es) \<Rightarrow>
          ((case get_case_for_tenant i (te_id t) d of
              Inl e \<Rightarrow> Inl (Unhandled e)
            | Inr None \<Rightarrow> not_found ''Case''
            | Inr (Some c) \<Rightarrow> Inr c), map AuthEvent es, ctx, d))"

definition get_artifact :: "api_env \<Rightarrow> string option \<Rightarrow> uuid \<Rightarrow> artifact_read endpoint" where
  "get_artifact env x_api_key i ctx d =
     (case get_current_tenant (av_sha256 env) (av_directory env) x_api_key of
        (Inl e, es) \<Rightarrow> (Inl e, map AuthEvent es, ctx, d)
      | (Inr t, es) \<Rightarrow>
          ((case get_artifact_for_tenant i (te_id t) d of
              Inl e \<Rightarrow> Inl (Unhandled e)
            | Inr None \<Rightarrow> not_found ''Artifact''
            | Inr (Some row) \<Rightarrow>
                (case project_artifact row of
                   Inr v \<Rightarrow> Inr v
                 | Inl e \<Rightarrow> if is_value_error e \<or> is_type_error e then not_found ''Artifact'' else Inl (Unhandled e))),
           map AuthEvent es, ctx, d))"

definition get_job_endpoint :: "api_env \<Rightarrow> string option \<Rightarrow> uuid \<Rightarrow> job_read endpoint" where
  "get_job_endpoint env x_api_key i ctx d =
     (case get_current_tenant (av_sha256 env) (av_directory env) x_api_key of
        (Inl e, es) \<Rightarrow> (Inl e, map AuthEvent es, ctx, d)
      | (Inr t, es) \<Rightarrow>
          ((case get_read_for_tenant i (te_id t) d of
              Inl e \<Rightarrow> Inl (Unhandled e)
            | Inr None \<Rightarrow> not_found ''Job''
            | Inr (Some row) \<Rightarrow> Inr (project_job_read (iv_profiles (av_intake env)) row)), map AuthEvent es, ctx, d))"

end
