(* ===== verification/Http_Safety.thy ===== *)
theory Http_Safety
  imports Http_Api Durability
begin

text \<open>
  What the HTTP boundary guarantees: a webhook is accepted only with a fresh signature of its exact
  bytes under an active key, becomes one job of the tenant of that key however often it is
  delivered, and a refused request leaves the store as it was.
\<close>

section \<open>Decoders\<close>

lemma utf8_decode_char: "utf8_decode (utf8_char c @ bs) = map_option ((#) c) (utf8_decode bs)"
proof -
  let ?n = "of_char c :: nat"
  have n: "?n < 256" by (metis mod_less_divisor of_char_mod_256 zero_less_numeral)
  have u: "unat (word_of_nat m :: 8 word) = m" if "m < 256" for m
    using that by (simp add: unat_of_nat)
  show ?thesis
  proof (cases "?n < 128")
    case True
    then show ?thesis by (simp add: utf8_char_def u)
  next
    case False
    have w: "utf8_char c = [of_nat (192 + ?n div 64), of_nat (128 + ?n mod 64)]"
      using False by (simp add: utf8_char_def Let_def)
    have q: "?n div 64 = 2 \<or> ?n div 64 = 3" "?n mod 64 < 64" using n False by (linarith, simp)
    then have "unat (of_nat (192 + ?n div 64) :: 8 word) = 192 + ?n div 64"
      "unat (of_nat (128 + ?n mod 64) :: 8 word) = 128 + ?n mod 64"
      by (auto intro!: u simp del: of_nat_add)
    then show ?thesis using q by (auto simp: w simp del: of_nat_add)
  qed
qed

lemma utf8_round_trip: "utf8_decode (utf8_encode s) = Some s"
  by (induction s) (simp_all add: utf8_encode_def utf8_decode_char)

lemma b64_val_less: "b64_val c = Some n \<Longrightarrow> n < 64"
  by (auto simp: b64_val_def Let_def is_digit_def less_eq_char_def split: if_splits)

lemma b64decode_length: "b64decode s = Some bs \<Longrightarrow> 4 * length bs \<le> 3 * length s"
  by (induction s arbitrary: bs rule: b64decode.induct) (auto split: option.splits if_splits)

section \<open>Authentication\<close>

lemma read_chunks_Inr:
  assumes "read_chunks n cs = Inr body" "n \<le> MAX_INBOUND_WEBHOOK_BODY_BYTES"
  shows "body = concat cs \<and> n + length body \<le> MAX_INBOUND_WEBHOOK_BODY_BYTES"
  using assms
proof (induction cs arbitrary: n body)
  case (Cons c cs)
  then show ?case by (fastforce simp: body_too_large_def split: if_splits sum.splits)
qed simp

lemma scalar_Some: "scalar_one_or_none P xs = Inr (Some x) \<Longrightarrow> x \<in> set xs \<and> P x"
  by (auto simp: scalar_one_or_none_def filter_eq_Cons_iff split: list.splits)

lemma resolve_active_tenant_Some:
  assumes "resolve_active_tenant sha256 dir raw = Inr (Some t)"
  obtains k where "(k, t) \<in> set (joined_keys dir)" "service_key (hash_api_key sha256 raw) (k, t)"
  using assms by (auto simp: resolve_active_tenant_def bind_res_Inr_iff dest!: scalar_Some)

lemma signature_verified_iff:
  "inbound_signature_outcome h raw header sig body now = VERIFIED \<longleftrightarrow>
     (\<exists>hd ts. header = Some hd \<and> py_int10 hd = Some ts \<and> \<bar>now - ts\<bar> \<le> MAX_SIGNATURE_AGE_SECONDS \<and>
        sig = Some (sign_inbound_webhook h raw ts body) \<and> signature_format (sign_inbound_webhook h raw ts body))"
  by (auto simp: inbound_signature_outcome_def split: option.splits)

lemma inbound_tenant_Inr:
  assumes "get_current_inbound_tenant sha256 h dir now request = (Inr t, es, request')" "wq_cached request = None"
  obtains raw k header ts where "wq_api_key request = Some raw" "api_key_format raw"
    "(k, t) \<in> set (joined_keys dir)" "service_key (hash_api_key sha256 raw) (k, t)"
    "wq_timestamp request = Some header" "py_int10 header = Some ts" "\<bar>now - ts\<bar> \<le> MAX_SIGNATURE_AGE_SECONDS"
    "wq_signature request = Some (sign_inbound_webhook h raw ts (concat (wq_chunks request)))"
    "length (concat (wq_chunks request)) \<le> MAX_INBOUND_WEBHOOK_BODY_BYTES"
    "request' = request\<lparr>wq_cached := Some (concat (wq_chunks request))\<rparr>"
proof -
  from assms obtain raw body where raw: "wq_api_key request = Some raw" "api_key_format raw"
    "read_chunks 0 (wq_chunks request) = Inr body" "request' = request\<lparr>wq_cached := Some body\<rparr>"
    "inbound_signature_outcome h raw (wq_timestamp request) (wq_signature request) body now = VERIFIED"
    "resolve_active_tenant sha256 dir raw = Inr (Some t)"
    by (auto simp: get_current_inbound_tenant_def read_bounded_inbound_body_def invalid_webhook_authentication_def
        body_too_large_def Let_def split: option.splits if_splits sum.splits)
  have body: "body = concat (wq_chunks request)" "length body \<le> MAX_INBOUND_WEBHOOK_BODY_BYTES"
    using read_chunks_Inr [OF raw(3)] by auto
  from raw(5) obtain header ts where s: "wq_timestamp request = Some header" "py_int10 header = Some ts"
    "\<bar>now - ts\<bar> \<le> MAX_SIGNATURE_AGE_SECONDS" "wq_signature request = Some (sign_inbound_webhook h raw ts body)"
    by (auto simp: signature_verified_iff)
  obtain k where "(k, t) \<in> set (joined_keys dir)" "service_key (hash_api_key sha256 raw) (k, t)"
    using raw(6) by (rule resolve_active_tenant_Some)
  with that raw(1,2,4) body s show ?thesis by blast
qed

section \<open>Messages become jobs\<close>

lemma last_stripped:
  assumes "s = strip s" "non_blank s"
  shows "\<not> py_isspace (last s)" "s \<noteq> []"
proof -
  let ?r = "dropWhile py_isspace (rev (lstrip s))"
  show "s \<noteq> []" using assms(2) by (auto simp: non_blank_def strip_def lstrip_def)
  have "rev s = ?r" using assms(1) by (metis lstrip_def rev_rev_ident strip_def)
  moreover from this \<open>s \<noteq> []\<close> have "?r \<noteq> []" by (metis rev_is_Nil_conv)
  ultimately show "\<not> py_isspace (last s)" using hd_dropWhile [of py_isspace "rev (lstrip s)"] by (metis hd_rev)
qed

lemma strip_prefixed:
  assumes "s = strip s" "non_blank s" "w \<noteq> []" "\<not> py_isspace (hd w)"
  shows "strip (w @ s) = w @ s"
proof -
  have "lstrip (w @ s) = w @ s" using assms(3,4) by (cases w) (simp_all add: lstrip_def)
  moreover have "lstrip (rev (w @ s)) = rev (w @ s)"
    using last_stripped [OF assms(1,2)] by (cases s rule: rev_cases) (simp_all add: lstrip_def)
  ultimately show ?thesis by (simp add: strip_def)
qed

lemma provider_key:
  assumes "identity_value MAX_PROVIDER_ID_CHARS p"
  shows "validate_idempotency_key (''email_webhook:'' @ p) = Inr (''email_webhook:'' @ p)"
proof -
  have "\<not> py_isspace (hd ''email_webhook:'')" by code_simp
  with assms have "strip (''email_webhook:'' @ p) = ''email_webhook:'' @ p"
    by (intro strip_prefixed) (simp_all add: identity_value_def)
  with assms show ?thesis
    by (simp add: validate_idempotency_key_def identity_value_def MAX_PROVIDER_ID_CHARS_def Let_def)
qed

lemma payload_provider:
  assumes "parse_webhook_email_payload json raw = Inr m"
  shows "identity_value MAX_PROVIDER_ID_CHARS (wm_provider_id m)" "length (wm_attachments m) \<le> 1"
  using assms
  by (auto simp: parse_webhook_email_payload_def invalid_inbound_payload_def parse_webhook_email_def opt_bind_def
      split: option.splits if_splits)

lemma to_message_Inr:
  assumes "to_message m t slug = Inr msg"
  shows "msg_tenant_id msg = t" "msg_tenant_slug msg = slug" "inbound_key msg = ''email_webhook:'' @ wm_provider_id m"
  using assms by (auto simp: to_message_def bind_res_Inr_iff inbound_key_def)

lemmas command_simps [simp] = text_command_def attachment_command_def

lemma inbound_enqueue_cases [consumes 1, case_names plain document refused]:
  assumes "inbound_enqueue env trace m d = (r, es, d')"
  obtains "msg_attachments m = []" "enqueue env (text_command trace m) d = (r, es, d')"
  | a v where "msg_attachments m = [a]" "as_document_input a (msg_channel m) (msg_subject m) (msg_body m) = Inr v"
      "enqueue_document env (attachment_command trace m v) d = (r, es, d')"
  | e where "r = Inl e" "d' = d"
  using assms
  by (auto simp: inbound_enqueue_def invalid_inbound_payload_def split: list.splits sum.splits)

lemma enqueue_document_Inl: "enqueue_document env c d = (Inl e, es, d') \<Longrightarrow> d' = d"
  by (cases rule: enqueue_document_cases) auto

lemma inbound_enqueue_Inl: "inbound_enqueue env trace m d = (Inl e, es, d') \<Longrightarrow> d' = d"
  by (cases rule: inbound_enqueue_cases) (auto dest: enqueue_Inl enqueue_document_Inl)

lemma inbound_enqueue_accepts:
  assumes "workflow_wf d" "loads_valid env" "inbound_enqueue env trace m d = (Inr x, es, d')"
  obtains k h where "validate_idempotency_key (inbound_key m) = Inr k" "evolves d d'"
    "accepted env (msg_tenant_id m) (msg_tenant_slug m) k h (er_job_id x) (er_trace_id x) d'"
  using assms(3)
proof (cases rule: inbound_enqueue_cases)
  case plain
  from enqueue_accepts [OF assms(1,2) plain(2)] that show ?thesis by auto
next
  case (document a v)
  from enqueue_document_accepts [OF assms(1,2) document(3)] that show ?thesis
    by (auto simp: document_identity_def bind_res_Inr_iff)
qed simp

text \<open>The content of a message decides under which hash it is recorded, whatever its trace is.\<close>

lemma inbound_enqueue_again:
  assumes "workflow_wf d" "loads_valid env" "inbound_enqueue env trace m d = (Inr x, es, d1)" "evolves d1 d2"
    and "iv_profiles env' = iv_profiles env" "resolve_profile (iv_profiles env') (iv_load env') (msg_tenant_slug m) = Inr p"
  shows "\<exists>es'. inbound_enqueue env' trace' m d2 =
    (Inr \<lparr>er_job_id = er_job_id x, er_created = False, er_trace_id = er_trace_id x\<rparr>, es', d2)"
proof -
  have wf: "workflow_wf d2" using assms(4) by (simp add: evolves_def)
  have acc: "accepted env' t slug k h i tr d2" if "accepted env t slug k h i tr d1" for t slug k h i tr
    using accepted_evolves [OF that assms(4)] assms(5) by (simp add: accepted_def)
  from assms(3) show ?thesis
  proof (cases rule: inbound_enqueue_cases)
    case plain
    obtain k h where k: "validate_idempotency_key (inbound_key m) = Inr k"
      "canonical_intake_hash (iv_profiles env) (ec_source (text_command trace m)) = Inr h"
      "accepted env (msg_tenant_id m) (msg_tenant_slug m) k h (er_job_id x) (er_trace_id x) d1"
      by (rule enqueue_accepts [OF assms(1,2) plain(2)]) (rule that, auto)
    have "\<exists>es. enqueue env' (text_command trace' m) d2 =
        (Inr \<lparr>er_job_id = er_job_id x, er_created = False, er_trace_id = er_trace_id x\<rparr>, es, d2)"
      using k(1,2) acc [OF k(3)] assms(5,6) by (intro enqueue_again [OF wf]) simp_all
    then show ?thesis using plain(1) by (simp add: inbound_enqueue_def)
  next
    case (document a v)
    obtain k h where k: "document_identity env (attachment_command trace m v) = Inr (k, h)"
      "accepted env (msg_tenant_id m) (msg_tenant_slug m) k h (er_job_id x) (er_trace_id x) d1"
      by (rule enqueue_document_accepts [OF assms(1,2) document(3)]) (rule that, auto)
    have "document_identity env' (attachment_command trace' m v) = Inr (k, h)"
      using k(1) assms(5) by (simp add: document_identity_def canonical_document_intake_hash_def)
    then have "\<exists>es. enqueue_document env' (attachment_command trace' m v) d2 =
        (Inr \<lparr>er_job_id = er_job_id x, er_created = False, er_trace_id = er_trace_id x\<rparr>, es, d2)"
      using acc [OF k(2)] by (intro enqueue_document_again [OF wf]) simp_all
    then show ?thesis using document(1,2) by (simp add: inbound_enqueue_def)
  qed simp
qed

section \<open>The webhook\<close>

lemma finish_intake_Inr:
  "finish_intake detail t before ctx out = (Inr acc, es, ctx', d') \<longleftrightarrow>
     (\<exists>x es'. out = (Inr x, es', d') \<and> acc = \<lparr>ac_job_id = er_job_id x, ac_status = ''queued''\<rparr> \<and>
        es = before @ map IntakeEvent es' \<and> ctx' = bind_job t x ctx)"
  by (auto simp: finish_intake_def split: prod.splits sum.splits)

lemma finish_intake_Inl: "finish_intake detail t before ctx (r, es, d) = (Inl e, es', ctx', d') \<Longrightarrow> (\<exists>x. r = Inl x) \<and> d' = d"
  by (auto simp: finish_intake_def split: sum.splits)

lemma cached_body: "fst (read_bounded_inbound_body (r\<lparr>wq_cached := Some b\<rparr>)) = Inr b"
  by (simp add: read_bounded_inbound_body_def)

lemma receive_Inr:
  assumes "receive_email_webhook env now request ctx d = (Inr acc, es, ctx', d')" "wq_cached request = None"
  obtains t aes request' m msg x ies where
    "get_current_inbound_tenant (av_sha256 env) (av_hmac env) (av_directory env) now request = (Inr t, aes, request')"
    "parse_webhook_email_payload (av_json env) (concat (wq_chunks request)) = Inr m"
    "to_message m (te_id t) (te_slug t) = Inr msg"
    "inbound_enqueue (av_intake env) (oc_trace_id ctx) msg d = (Inr x, ies, d')"
    "acc = \<lparr>ac_job_id = er_job_id x, ac_status = ''queued''\<rparr>"
    "media_type_of (wq_content_type request) = ''application/json''"
proof -
  obtain t aes request' where g: "get_current_inbound_tenant (av_sha256 env) (av_hmac env) (av_directory env) now request =
      (Inr t, aes, request')"
    using assms(1) by (auto simp: receive_email_webhook_def split: prod.splits sum.splits)
  have r: "request' = request\<lparr>wq_cached := Some (concat (wq_chunks request))\<rparr>"
    using g assms(2) by (rule inbound_tenant_Inr)
  have ct: "media_type_of (wq_content_type request) = ''application/json''"
    using assms(1) g r by (simp add: receive_email_webhook_def split: if_splits)
  then obtain x ies where x: "accept_email env t ctx (concat (wq_chunks request)) d = (Inr x, ies, d')"
    "acc = \<lparr>ac_job_id = er_job_id x, ac_status = ''queued''\<rparr>"
    using assms(1) g r by (auto simp: receive_email_webhook_def cached_body finish_intake_Inr)
  then obtain msg where msg: "bind_res (parse_webhook_email_payload (av_json env) (concat (wq_chunks request)))
      (\<lambda>m. to_message m (te_id t) (te_slug t)) = Inr msg"
    "inbound_enqueue (av_intake env) (oc_trace_id ctx) msg d = (Inr x, ies, d')"
    by (auto simp: accept_email_def split: sum.splits)
  with that g x ct show ?thesis by (auto simp: bind_res_Inr_iff)
qed

text \<open>
  C6. A webhook that is answered with 202 was sent by the holder of an active service key of an active tenant: the
  signature header is the signature of the exact bytes of the body under that key and under a time
  stamp that is at most five minutes off, and the body is within its bound. The accepted job is a
  job of that tenant and is recorded under the identifier that the mail provider gave the message.
\<close>

theorem webhook_accepted:
  assumes "workflow_wf d" "loads_valid (av_intake env)" "wq_cached request = None"
    and "receive_email_webhook env now request ctx d = (Inr acc, es, ctx', d')"
  shows "\<exists>raw k t header ts m h. wq_api_key request = Some raw \<and> api_key_format raw \<and>
    (k, t) \<in> set (joined_keys (av_directory env)) \<and> service_key (hash_api_key (av_sha256 env) raw) (k, t) \<and>
    wq_timestamp request = Some header \<and> py_int10 header = Some ts \<and> \<bar>now - ts\<bar> \<le> MAX_SIGNATURE_AGE_SECONDS \<and>
    wq_signature request = Some (sign_inbound_webhook (av_hmac env) raw ts (concat (wq_chunks request))) \<and>
    length (concat (wq_chunks request)) \<le> MAX_INBOUND_WEBHOOK_BODY_BYTES \<and>
    parse_webhook_email_payload (av_json env) (concat (wq_chunks request)) = Inr m \<and>
    (te_id t, ''email_webhook:'' @ wm_provider_id m, h, Some (ac_job_id acc)) \<in> requests d' \<and>
    (\<exists>j \<in> set (db_jobs d'). job_id j = ac_job_id acc \<and> job_tenant_id j = te_id t)"
proof -
  from assms(4,3) obtain t aes request' m msg x ies where r:
    "get_current_inbound_tenant (av_sha256 env) (av_hmac env) (av_directory env) now request = (Inr t, aes, request')"
    "parse_webhook_email_payload (av_json env) (concat (wq_chunks request)) = Inr m"
    "to_message m (te_id t) (te_slug t) = Inr msg"
    "inbound_enqueue (av_intake env) (oc_trace_id ctx) msg d = (Inr x, ies, d')"
    "acc = \<lparr>ac_job_id = er_job_id x, ac_status = ''queued''\<rparr>"
    by (rule receive_Inr)
  obtain k h where k: "validate_idempotency_key (inbound_key msg) = Inr k"
    "accepted (av_intake env) (msg_tenant_id msg) (msg_tenant_slug msg) k h (er_job_id x) (er_trace_id x) d'"
    using assms(1,2) r(4) by (rule inbound_enqueue_accepts)
  have key: "k = ''email_webhook:'' @ wm_provider_id m"
    using k(1) to_message_Inr(3) [OF r(3)] provider_key [OF payload_provider(1) [OF r(2)]] by simp
  have "(te_id t, ''email_webhook:'' @ wm_provider_id m, h, Some (ac_job_id acc)) \<in> requests d' \<and>
      (\<exists>j \<in> set (db_jobs d'). job_id j = ac_job_id acc \<and> job_tenant_id j = te_id t)"
    using k(2) key r(5) to_message_Inr(1) [OF r(3)] by (auto simp: accepted_def)
  with inbound_tenant_Inr [OF r(1) assms(3)] r(2) show ?thesis by metis
qed


text \<open>
  C39. Refused requests. An intake request or a webhook that is not answered with 202 leaves the store as it was.
\<close>

theorem refused_keeps_store:
  "(enqueue_intake env x_api_key idem r ctx d = (Inl e, es, ctx', d') \<longrightarrow> d' = d) \<and>
   (receive_email_webhook env now request ctx d = (Inl e, es, ctx', d') \<longrightarrow> d' = d)"
proof (intro conjI impI)
  assume "enqueue_intake env x_api_key idem r ctx d = (Inl e, es, ctx', d')"
  then show "d' = d"
    by (auto simp: enqueue_intake_def finish_intake_def unprocessable_def dest: enqueue_Inl
        split: prod.splits sum.splits if_splits option.splits)
next
  have a: "accept_email env t c raw d = (Inl x, ies, d'') \<Longrightarrow> d'' = d" for t c raw x ies d''
    by (auto simp: accept_email_def dest: inbound_enqueue_Inl split: sum.splits)
  assume "receive_email_webhook env now request ctx d = (Inl e, es, ctx', d')"
  then show "d' = d"
    by (auto simp: receive_email_webhook_def finish_intake_def dest: a split: prod.splits sum.splits if_splits)
qed

section \<open>Tenant scope\<close>

definition service_caller :: "api_env \<Rightarrow> string option \<Rightarrow> tenant_row \<Rightarrow> bool" where
  "service_caller env x_api_key t \<longleftrightarrow>
     (\<exists>raw k. x_api_key = Some raw \<and> (k, t) \<in> set (joined_keys (av_directory env)) \<and>
        service_key (hash_api_key (av_sha256 env) raw) (k, t))"

definition operator_caller :: "api_env \<Rightarrow> string option \<Rightarrow> uuid \<Rightarrow> bool" where
  "operator_caller env x_api_key tenant \<longleftrightarrow>
     (\<exists>raw k t. x_api_key = Some raw \<and> (k, t) \<in> set (joined_keys (av_directory env)) \<and>
        operator_key (hash_api_key (av_sha256 env) raw) (k, t) \<and> te_id t = tenant)"

lemma current_tenant_Inr:
  assumes "get_current_tenant (av_sha256 env) (av_directory env) x_api_key = (Inr t, es)"
  shows "service_caller env x_api_key t"
  using assms
  by (fastforce simp: get_current_tenant_def service_caller_def Let_def elim!: resolve_active_tenant_Some
      split: option.splits if_splits sum.splits)

lemma current_operator_Inr:
  assumes "get_current_operator (av_sha256 env) (av_directory env) x_api_key = (Inr op, es)"
  shows "operator_caller env x_api_key (op_tenant_id op)"
proof -
  from assms obtain raw k t where r: "x_api_key = Some raw" "op_tenant_id op = ak_tenant_id k"
    "scalar_one_or_none (operator_key (hash_api_key (av_sha256 env) raw)) (joined_keys (av_directory env)) = Inr (Some (k, t))"
    by (auto simp: get_current_operator_def Let_def split: option.splits if_splits sum.splits)
  from scalar_Some [OF r(3)] r(1,2) show ?thesis
    by (auto simp: operator_caller_def joined_keys_def)
qed

lemma job_approval_rows_scoped: "(j, a) \<in> set (job_approval_rows i t d) \<Longrightarrow> j \<in> set (db_jobs d) \<and> job_id j = i \<and> job_tenant_id j = t"
proof -
  have x: "j = x" if "(j, a) \<in> set (case ys of [] \<Rightarrow> [(x, None)] | as \<Rightarrow> map (\<lambda>a. (x, Some a)) as)" for x ys
    using that by (cases ys) auto
  assume "(j, a) \<in> set (job_approval_rows i t d)"
  then show ?thesis by (auto simp: job_approval_rows_def dest!: x)
qed

lemma get_read_scoped:
  assumes "get_read_for_tenant i t d = Inr (Some row)"
  shows "pj_job_id row = i \<and> (\<exists>j \<in> set (db_jobs d). job_id j = i \<and> job_tenant_id j = t)"
proof -
  obtain q where q: "scalar_one_or_none (\<lambda>_. True) (job_approval_rows i t d) = Inr q"
    using assms by (auto simp: get_read_for_tenant_def bind_res_Inr_iff)
  with assms have "q \<noteq> None" by (intro notI) (simp add: get_read_for_tenant_def)
  then obtain j a where ja: "scalar_one_or_none (\<lambda>_. True) (job_approval_rows i t d) = Inr (Some (j, a))"
    using q by auto
  then have "pj_job_id row = job_id j"
    using assms by (auto simp: get_read_for_tenant_def bind_res_Inr_iff Let_def split: if_splits)
  with scalar_Some [OF ja] job_approval_rows_scoped show ?thesis by fastforce
qed

lemma get_for_tenant_scoped:
  "get_for_tenant i t d = Inr (Some a) \<Longrightarrow> a \<in> set (db_approvals d) \<and> apr_id a = i \<and> apr_tenant_id a = t"
  by (auto simp: get_for_tenant_def dest: scalar_Some)

lemma review_get_scoped:
  assumes "review_get env i t d = Inr (Some v)"
  shows "rv_approval_id v = i \<and> (\<exists>a \<in> set (db_approvals d). apr_id a = i \<and> apr_tenant_id a = t)"
  using assms
  by (auto simp: review_get_def project_review_def bind_res_Inr_iff dest!: get_for_tenant_scoped
      split: option.splits if_splits)

lemma decide_scoped:
  assumes "decide env i op req now d = (Inr r, obs, d')"
  shows "\<exists>a \<in> set (db_approvals d). apr_id a = i \<and> apr_tenant_id a = op_tenant_id op"
proof -
  have "get_for_tenant i (op_tenant_id op) d \<noteq> Inr None" "\<nexists>e. get_for_tenant i (op_tenant_id op) d = Inl e"
    using assms by (auto simp: decide_def transaction_def decide_body_def bind_tx_def read_tx_def raise_tx_def)
  then obtain a where "get_for_tenant i (op_tenant_id op) d = Inr (Some a)"
    by (cases "get_for_tenant i (op_tenant_id op) d") auto
  then show ?thesis using get_for_tenant_scoped by blast
qed


end
