(* ===== verification/Http_Examples.thy ===== *)
theory Http_Examples
  imports Examples Http_Safety
begin

text \<open>
  Requests to the HTTP boundary of the deployment of the theory \<open>Examples\<close>: a signed webhook and its
  second delivery, a request without a key, and a look at a job.
\<close>

section \<open>Callers\<close>

definition demo_key :: string where
  "demo_key = ''ik_'' @ replicate 43 CHR ''a''"

definition demo_tenant :: tenant_row where
  "demo_tenant = \<lparr>te_id = 1, te_slug = ''acme-field'', te_status = ''active''\<rparr>"

definition demo_service_key :: api_key_row where
  "demo_service_key =
     \<lparr>ak_id = 8, ak_tenant_id = 1, ak_prefix = ''ik_aaaaaaaa'', ak_key_hash = demo_sha256 [], ak_is_active = True,
      ak_principal_type = ''service'', ak_capability = ''none'', ak_actor_ref = None\<rparr>"

definition demo_payload :: pyval where
  "demo_payload =
     PDict [(''provider_id'', PStr ''m-1''), (''from_addr'', PStr ''ann@example.com''),
            (''subject'', PStr ''pump''), (''body'', PStr ''the pump leaks'')]"

definition demo_api :: api_env where
  "demo_api =
     \<lparr>av_sha256 = demo_sha256, av_hmac = (\<lambda>_. demo_sha256), av_json = (\<lambda>_. Some demo_payload),
      av_intake = demo_ienv, av_decisions = demo_denv,
      av_directory = \<lparr>dir_tenants = [demo_tenant], dir_keys = [demo_service_key]\<rparr>\<rparr>"

definition demo_webhook :: webhook_request where
  "demo_webhook =
     \<lparr>wq_api_key = Some demo_key, wq_timestamp = Some ''1000'', wq_signature = Some (''v1='' @ demo_sha256 []),
      wq_content_length = Some ''2'', wq_content_type = Some ''application/json; charset=utf-8'',
      wq_chunks = [utf8_encode ''{'', utf8_encode ''}''], wq_cached = None\<rparr>"

definition demo_ctx :: observation_context where
  "demo_ctx = \<lparr>oc_trace_id = 7, oc_request_id = None, oc_tenant_id = None, oc_job_id = None\<rparr>"

section \<open>The webhook\<close>

definition demo_mail :: webhook_email where
  "demo_mail =
     \<lparr>wm_provider_id = ''m-1'', wm_from_addr = ''ann@example.com'', wm_subject = ''pump'',
      wm_body = ''the pump leaks'', wm_attachments = []\<rparr>"

definition demo_message :: inbound_message where
  "demo_message =
     \<lparr>msg_tenant_id = 1, msg_tenant_slug = ''acme-field'', msg_channel = ''email_webhook'',
      msg_from_addr = ''ann@example.com'', msg_subject = ''pump'', msg_body = ''the pump leaks'',
      msg_attachments = [], msg_provider_id = ''m-1''\<rparr>"

lemma demo_parsed: "parse_webhook_email demo_payload = Some demo_mail"
proof -
  have "strip ''m-1'' = ''m-1''" "strip ''ann@example.com'' = ''ann@example.com''" "non_blank ''m-1''"
    "non_blank ''ann@example.com''" "non_blank ''the pump leaks''"
    by code_simp+
  then show ?thesis
    by (simp add: parse_webhook_email_def demo_payload_def demo_mail_def opt_bind_def only_keys_def key_def key_default_def
        identity_value_def MAX_PROVIDER_ID_CHARS_def MAX_INBOUND_BODY_CHARS_def)
qed

lemma demo_to_message: "to_message demo_mail 1 ''acme-field'' = Inr demo_message"
  by code_simp

lemma demo_authenticated:
  assumes "now = 1000 \<or> now = 1100"
  shows "\<exists>es r. get_current_inbound_tenant demo_sha256 (\<lambda>_. demo_sha256) (av_directory demo_api) now demo_webhook =
    (Inr demo_tenant, es, r)"
proof -
  have k: "api_key_format demo_key" by code_simp
  have "py_int10 ''2'' = Some 2" "length (utf8_encode ''{'') = 1" "length (utf8_encode ''}'') = 1" by code_simp+
  then have b: "\<exists>body r. read_bounded_inbound_body demo_webhook = (Inr body, r)"
    by (simp add: read_bounded_inbound_body_def demo_webhook_def declared_too_large_def MAX_INBOUND_WEBHOOK_BODY_BYTES_def)
  have s: "inbound_signature_outcome (\<lambda>_. demo_sha256) demo_key (Some ''1000'') (Some (''v1='' @ demo_sha256 [])) body now = VERIFIED" for body
  proof -
    have "signature_format (''v1='' @ demo_sha256 [])" "py_int10 ''1000'' = Some 1000" by code_simp+
    moreover have "demo_sha256 (signature_payload 1000 body) = demo_sha256 []" by (simp add: demo_sha256_def)
    ultimately show ?thesis
      using assms by (auto simp: signature_verified_iff sign_inbound_webhook_def MAX_SIGNATURE_AGE_SECONDS_def)
  qed
  have t: "resolve_active_tenant demo_sha256 (av_directory demo_api) demo_key = Inr (Some demo_tenant)" by code_simp
  show ?thesis using b k s t by (auto simp: get_current_inbound_tenant_def demo_webhook_def Let_def)
qed

lemma demo_mail_hash: "canonical_intake_hash demo_env (ec_source (text_command trace demo_message)) = Inr (demo_sha256 [])"
  by code_simp

lemma demo_mail_key: "validate_idempotency_key (inbound_key demo_message) = Inr ''email_webhook:m-1''"
  by code_simp

lemma demo_inbound_enqueue:
  "\<exists>es d'. inbound_enqueue demo_ienv 7 demo_message demo_empty =
     (Inr \<lparr>er_job_id = 100, er_created = True, er_trace_id = 7\<rparr>, es, d')"
proof -
  have "msg_attachments demo_message = []" "msg_tenant_slug demo_message = ''acme-field''" by (simp_all add: demo_message_def)
  then show ?thesis
    using demo_mail_hash [of 7] demo_mail_key
    by (simp add: inbound_enqueue_def enqueue_def enqueue_profile_def demo_ienv_def demo_resolve_eq)
       (simp add: enqueue_body_def tx_defs get_idempotency_for_tenant_def demo_empty_def empty_db_def nested_tx_def
         insert_request_def create_job_def create_idempotency_record_def)
qed

lemma demo_received:
  "\<exists>es ctx' d'. receive_email_webhook demo_api 1000 demo_webhook demo_ctx demo_empty =
     (Inr \<lparr>ac_job_id = 100, ac_status = ''queued''\<rparr>, es, ctx', d')"
proof -
  obtain es r where a: "get_current_inbound_tenant demo_sha256 (\<lambda>_. demo_sha256) (av_directory demo_api) 1000 demo_webhook =
      (Inr demo_tenant, es, r)"
    using demo_authenticated [of 1000] by blast
  have "wq_cached demo_webhook = None" by (simp add: demo_webhook_def)
  with a have r: "r = demo_webhook\<lparr>wq_cached := Some (concat (wq_chunks demo_webhook))\<rparr>" by (rule inbound_tenant_Inr)
  have ct: "media_type_of (wq_content_type demo_webhook) = ''application/json''" by code_simp
  have e: "av_sha256 demo_api = demo_sha256" "av_hmac demo_api = (\<lambda>_. demo_sha256)" "av_json demo_api = (\<lambda>_. Some demo_payload)"
    "av_intake demo_api = demo_ienv" "te_id demo_tenant = 1" "te_slug demo_tenant = ''acme-field''" "oc_trace_id demo_ctx = 7"
    by (simp_all add: demo_api_def demo_tenant_def demo_ctx_def)
  obtain ies d' where i: "inbound_enqueue demo_ienv 7 demo_message demo_empty =
      (Inr \<lparr>er_job_id = 100, er_created = True, er_trace_id = 7\<rparr>, ies, d')"
    using demo_inbound_enqueue by blast
  have "accept_email demo_api demo_tenant demo_ctx raw demo_empty =
      (Inr \<lparr>er_job_id = 100, er_created = True, er_trace_id = 7\<rparr>, ies, d')" for raw
    using i by (simp add: accept_email_def e parse_webhook_email_payload_def opt_bind_def demo_parsed demo_to_message
        del: One_nat_def)
  with a r ct show ?thesis by (simp add: receive_email_webhook_def e cached_body finish_intake_def)
qed

lemma demo_api_loads: "loads_valid (av_intake demo_api)"
  using demo_loads_valid by (simp add: demo_api_def)

theorem webhook_accepted_witness:
  "\<exists>es ctx' d' h. receive_email_webhook demo_api 1000 demo_webhook demo_ctx demo_empty =
       (Inr \<lparr>ac_job_id = 100, ac_status = ''queued''\<rparr>, es, ctx', d') \<and>
     (\<exists>j \<in> set (db_jobs d'). job_id j = 100)"
proof -
  obtain es ctx' d' where r: "receive_email_webhook demo_api 1000 demo_webhook demo_ctx demo_empty =
      (Inr \<lparr>ac_job_id = 100, ac_status = ''queued''\<rparr>, es, ctx', d')"
    using demo_received by blast
  have c: "wq_cached demo_webhook = None" by (simp add: demo_webhook_def)
  from webhook_accepted [OF demo_empty_wf demo_api_loads c r] r show ?thesis by force
qed


section \<open>Refusals and reads\<close>

theorem refused_keeps_store_witness:
  "\<exists>es. receive_email_webhook demo_api 1000 (demo_webhook\<lparr>wq_api_key := None\<rparr>) demo_ctx demo_queued =
     (Inl (HTTPException 401 ''Invalid inbound webhook''), es, demo_ctx, demo_queued)"
proof -
  obtain es d' where r: "receive_email_webhook demo_api 1000 (demo_webhook\<lparr>wq_api_key := None\<rparr>) demo_ctx demo_queued =
      (Inl (HTTPException 401 ''Invalid inbound webhook''), es, demo_ctx, d')"
    by (simp add: receive_email_webhook_def get_current_inbound_tenant_def invalid_webhook_authentication_def)
  with refused_keeps_store [of demo_api None None undefined demo_ctx demo_queued
      "HTTPException 401 ''Invalid inbound webhook''" es demo_ctx d' 1000 "demo_webhook\<lparr>wq_api_key := None\<rparr>"]
  show ?thesis by auto
qed

lemma demo_read:
  "\<exists>v es. get_job_endpoint demo_api (Some demo_key) 100 demo_ctx demo_queued = (Inr v, es, demo_ctx, demo_queued)"
proof -
  have "fst (get_current_tenant demo_sha256 (av_directory demo_api) (Some demo_key)) = Inr demo_tenant" by code_simp
  then have "\<exists>es. get_current_tenant demo_sha256 (av_directory demo_api) (Some demo_key) = (Inr demo_tenant, es)"
    by (metis prod.collapse)
  moreover have "get_read_for_tenant 100 1 demo_queued \<noteq> Inr None" "\<And>e. get_read_for_tenant 100 1 demo_queued \<noteq> Inl e"
    by (simp_all add: get_read_for_tenant_def job_approval_rows_def scalar_one_or_none_def demo_rows demo_record_def Let_def)
  ultimately show ?thesis
    by (auto simp: get_job_endpoint_def demo_api_def demo_tenant_def split: sum.splits option.splits)
qed


end
