(* ===== verification/Worker_Pool.thy ===== *)
theory Worker_Pool
  imports Worker
begin

text \<open>
  The supervision loop \<open>AgentWorker.serve\<close> of \<open>app/workers/agent_worker.py\<close> and the heartbeat
  \<open>_maintain_lease\<close>. The loop is a state machine: it fills its slots with runs of \<open>serve_once\<close>, one
  at a time, until a slot has claimed a job or is done, waits for the first run to finish, and backs off
  after an outage of the database. What a run does next, and which runs are found finished, is the
  choice of the environment; a claim is one that \<open>claim_next\<close> grants.
\<close>

section \<open>Heartbeat\<close>

text \<open>
  What a heartbeat sees after one interval: that the run stopped, or a tick at which it renews the
  lease after whatever the others did, or at which the database fails.
\<close>

datatype heartbeat = StopSeen | Tick "db \<Rightarrow> db" datetime "exn option"

text \<open>\<open>None\<close>: the heartbeat is still running.\<close>

fun maintain_lease :: "claimed_job \<Rightarrow> int \<Rightarrow> heartbeat list \<Rightarrow> db \<Rightarrow> bool option \<times> worker_event list \<times> db" where
  "maintain_lease c lease [] d = (None, [], d)"
| "maintain_lease c lease (StopSeen # hs) d = (Some True, [], d)"
| "maintain_lease c lease (Tick others now fault # hs) d =
     (case fault of
        Some e \<Rightarrow> (Some False, [PersistenceFailed OP_renew_lease], others d)
      | None \<Rightarrow>
          (case renew_lease (cj_id c) (cj_tenant_id c) (cj_attempt_count c) (now + lease) (others d) of
             (Inl e, d') \<Rightarrow> (Some False, [PersistenceFailed OP_renew_lease], d')
           | (Inr renewed, d') \<Rightarrow>
               if renewed then maintain_lease c lease hs d' else (Some False, [], d')))"

section \<open>The pool\<close>

record pool_config =
  pc_concurrency :: nat
  pc_poll_interval :: rat
  pc_backoff_initial :: rat
  pc_backoff_max :: rat

text \<open>\<open>Field\<close> bounds of \<open>Settings\<close> for these values.\<close>

definition valid_pool_config :: "pool_config \<Rightarrow> bool" where
  "valid_pool_config c \<longleftrightarrow>
     1 \<le> pc_concurrency c \<and> pc_concurrency c \<le> 32 \<and> 0 < pc_poll_interval c \<and>
     0 < pc_backoff_initial c \<and> 0 < pc_backoff_max c"

datatype pool_phase = Filling | Waiting | PoolStopped

text \<open>A task with its holder: the tenants it has reserved. \<open>active_tenants\<close> is a set.\<close>

record pool_task =
  pt_id :: nat
  pt_holder :: "uuid list"

record pool =
  pl_tasks :: "pool_task list"
  pl_active :: "uuid list"
  pl_backoff :: rat
  pl_phase :: pool_phase
  pl_next :: nat

definition start_pool :: "pool_config \<Rightarrow> pool" where
  "start_pool c =
     \<lparr>pl_tasks = [], pl_active = [], pl_backoff = pc_backoff_initial c, pl_phase = Filling, pl_next = 0\<rparr>"

text \<open>\<open>create_task\<close>, and \<open>reserve\<close> as the callback of its claim.\<close>

definition create_task :: "pool \<Rightarrow> pool" where
  "create_task p = p\<lparr>pl_tasks := pl_tasks p @ [\<lparr>pt_id = pl_next p, pt_holder = []\<rparr>], pl_next := Suc (pl_next p)\<rparr>"

definition reserve :: "nat \<Rightarrow> uuid \<Rightarrow> pool \<Rightarrow> pool" where
  "reserve i t p =
     p\<lparr>pl_active := List.insert t (pl_active p),
       pl_tasks := map (\<lambda>k. if pt_id k = i then k\<lparr>pt_holder := pt_holder k @ [t]\<rparr> else k) (pl_tasks p)\<rparr>"

text \<open>A finished task leaves the pool and its tenants become claimable again.\<close>

definition holder_of :: "nat \<Rightarrow> pool \<Rightarrow> uuid list" where
  "holder_of i p = concat (map pt_holder (filter (\<lambda>k. pt_id k = i) (pl_tasks p)))"

definition discard :: "nat \<Rightarrow> pool \<Rightarrow> pool" where
  "discard i p =
     p\<lparr>pl_tasks := filter (\<lambda>k. pt_id k \<noteq> i) (pl_tasks p),
       pl_active := filter (\<lambda>t. t \<notin> set (holder_of i p)) (pl_active p)\<rparr>"

definition cancel_tasks :: "pool \<Rightarrow> pool" where
  "cancel_tasks p =
     p\<lparr>pl_tasks := [],
       pl_active := filter (\<lambda>t. t \<notin> set (concat (map pt_holder (pl_tasks p)))) (pl_active p)\<rparr>"

definition backoff_delay :: "pool_config \<Rightarrow> rat \<Rightarrow> rat" where
  "backoff_delay c b = min b (pc_backoff_max c)"

definition next_backoff :: "pool_config \<Rightarrow> rat \<Rightarrow> rat" where
  "next_backoff c b = min (pc_backoff_max c) (max (b * 2) (pc_backoff_initial c))"

text \<open>The handlers of an outage, up to the sleep, and of every other exception.\<close>

definition back_off :: "pool_config \<Rightarrow> pool \<Rightarrow> pool" where
  "back_off c p = (cancel_tasks p)\<lparr>pl_backoff := next_backoff c (pl_backoff p), pl_phase := Filling\<rparr>"

definition give_up :: "pool \<Rightarrow> pool" where
  "give_up p = (cancel_tasks p)\<lparr>pl_phase := PoolStopped\<rparr>"

text \<open>
  How the result of a task ends the current pass: \<open>TransientPersistenceError\<close>, \<open>DBAPIError\<close>,
  \<open>ConnectionError\<close> and \<open>TimeoutError\<close> are outages, a cancellation and every other exception stop the loop.
\<close>

datatype task_end = Returned bool | Outage | Fatal

definition after_failure :: "pool_config \<Rightarrow> task_end \<Rightarrow> pool \<Rightarrow> pool" where
  "after_failure c e p = (case e of Outage \<Rightarrow> back_off c p | Fatal \<Rightarrow> give_up p | Returned _ \<Rightarrow> p)"

text \<open>\<open>for task in done\<close>: the first task that raised ends the pass.\<close>

fun collect :: "pool_config \<Rightarrow> (nat \<times> task_end) list \<Rightarrow> pool \<Rightarrow> pool" where
  "collect c [] p = p\<lparr>pl_backoff := pc_backoff_initial c, pl_phase := Filling\<rparr>"
| "collect c ((i, e) # ends) p =
     (case e of Returned _ \<Rightarrow> collect c ends (discard i p) | _ \<Rightarrow> after_failure c e (discard i p))"

datatype pool_label = Internal | Sleeps rat

fun collect_label :: "rat \<Rightarrow> (nat \<times> task_end) list \<Rightarrow> pool_label" where
  "collect_label delay [] = Internal"
| "collect_label delay ((i, e) # ends) =
     (case e of Returned _ \<Rightarrow> collect_label delay ends | Outage \<Rightarrow> Sleeps delay | Fatal \<Rightarrow> Internal)"

text \<open>
  The steps of the loop. \<open>claims ex t\<close> says that a run that must not take the tenants \<open>ex\<close> may
  claim a job of tenant \<open>t\<close>. The sleeping time after an outage includes the jitter.
\<close>

inductive pool_step :: "pool_config \<Rightarrow> (uuid list \<Rightarrow> uuid \<Rightarrow> bool) \<Rightarrow> pool \<Rightarrow> pool_label \<Rightarrow> pool \<Rightarrow> bool"
  for c claims where
  claimed: "pl_phase p = Filling \<Longrightarrow> length (pl_tasks p) < pc_concurrency c \<Longrightarrow> claims (pl_active p) t \<Longrightarrow>
    pool_step c claims p Internal (reserve (pl_next p) t (create_task p))"
| ended: "pl_phase p = Filling \<Longrightarrow> length (pl_tasks p) < pc_concurrency c \<Longrightarrow>
    q = create_task p \<or> (\<exists>t. claims (pl_active p) t \<and> q = reserve (pl_next p) t (create_task p)) \<Longrightarrow>
    pool_step c claims p Internal
      ((discard (pl_next p) q)\<lparr>pl_phase := if result then Filling else Waiting\<rparr>)"
| ended_badly: "pl_phase p = Filling \<Longrightarrow> length (pl_tasks p) < pc_concurrency c \<Longrightarrow>
    q = create_task p \<or> (\<exists>t. claims (pl_active p) t \<and> q = reserve (pl_next p) t (create_task p)) \<Longrightarrow>
    e = Outage \<or> e = Fatal \<Longrightarrow>
    0 \<le> jitter \<Longrightarrow> jitter \<le> backoff_delay c (pl_backoff p) * (1 / 10) \<Longrightarrow>
    pool_step c claims p (if e = Outage then Sleeps (backoff_delay c (pl_backoff p) + jitter) else Internal)
      (after_failure c e (discard (pl_next p) q))"
| full: "pl_phase p = Filling \<Longrightarrow> \<not> length (pl_tasks p) < pc_concurrency c \<Longrightarrow>
    pool_step c claims p Internal (p\<lparr>pl_phase := Waiting\<rparr>)"
| idle: "pl_phase p = Waiting \<Longrightarrow> pl_tasks p = [] \<Longrightarrow>
    pool_step c claims p (Sleeps (pc_poll_interval c)) (p\<lparr>pl_phase := Filling\<rparr>)"
| finished: "pl_phase p = Waiting \<Longrightarrow> ends \<noteq> [] \<Longrightarrow> distinct (map fst ends) \<Longrightarrow>
    set (map fst ends) \<subseteq> set (map pt_id (pl_tasks p)) \<Longrightarrow>
    0 \<le> jitter \<Longrightarrow> jitter \<le> backoff_delay c (pl_backoff p) * (1 / 10) \<Longrightarrow>
    pool_step c claims p (collect_label (backoff_delay c (pl_backoff p) + jitter) ends) (collect c ends p)"
| interrupted: "pl_phase p \<noteq> PoolStopped \<Longrightarrow> pool_step c claims p Internal (give_up p)"

inductive_cases pool_step_cases: "pool_step c claims p l p'"

inductive pool_reachable :: "pool_config \<Rightarrow> (uuid list \<Rightarrow> uuid \<Rightarrow> bool) \<Rightarrow> pool \<Rightarrow> bool" for c claims where
  start: "pool_reachable c claims (start_pool c)"
| step: "pool_reachable c claims p \<Longrightarrow> pool_step c claims p l p' \<Longrightarrow> pool_reachable c claims p'"

text \<open>The claims that the queue grants.\<close>

definition queue_claims :: "uuid list \<Rightarrow> uuid \<Rightarrow> bool" where
  "queue_claims excluded t \<longleftrightarrow>
     (\<exists>locked now lease_until d c d'. claim_next locked now lease_until excluded d = (Inr (Some c), d') \<and> cj_tenant_id c = t)"

end
