(* ===== verification/Pool_Safety.thy ===== *)
theory Pool_Safety
  imports Worker_Pool
begin

text \<open>
  What the supervision loop guarantees, given a queue that respects the tenants it is told to leave
  out: bounded concurrency, at most one running job per tenant in a process, and bounded backing off.
\<close>

section \<open>The invariant\<close>

definition holders :: "pool \<Rightarrow> uuid list" where
  "holders p = concat (map pt_holder (pl_tasks p))"

definition pool_ok :: "pool_config \<Rightarrow> pool \<Rightarrow> bool" where
  "pool_ok c p \<longleftrightarrow>
     length (pl_tasks p) \<le> pc_concurrency c \<and> distinct (map pt_id (pl_tasks p)) \<and>
     (\<forall>k \<in> set (pl_tasks p). pt_id k < pl_next p \<and> length (pt_holder k) = 1) \<and>
     distinct (holders p) \<and> set (pl_active p) = set (holders p) \<and> (pl_phase p = PoolStopped \<longrightarrow> pl_tasks p = [])"

definition backoff_ok :: "pool_config \<Rightarrow> pool \<Rightarrow> bool" where
  "backoff_ok c p \<longleftrightarrow> min (pc_backoff_initial c) (pc_backoff_max c) \<le> pl_backoff p"

lemma pool_okD:
  assumes "pool_ok c p" "k \<in> set (pl_tasks p)"
  shows "pt_id k < pl_next p" "pt_id k \<noteq> pl_next p"
  using assms by (auto simp: pool_ok_def)

lemma reserved_simps:
  assumes "pool_ok c p"
  shows "pl_tasks (reserve (pl_next p) t (create_task p)) = pl_tasks p @ [\<lparr>pt_id = pl_next p, pt_holder = [t]\<rparr>]"
    "pl_active (reserve (pl_next p) t (create_task p)) = List.insert t (pl_active p)"
    "pl_next (reserve (pl_next p) t (create_task p)) = Suc (pl_next p)"
    "pl_phase (reserve (pl_next p) t (create_task p)) = pl_phase p"
    "pl_backoff (reserve (pl_next p) t (create_task p)) = pl_backoff p"
  using pool_okD(2) [OF assms]
  by (auto simp: reserve_def create_task_def intro!: map_idI)

lemma discard_simps [simp]:
  "pl_phase (discard i p) = pl_phase p" "pl_next (discard i p) = pl_next p" "pl_backoff (discard i p) = pl_backoff p"
  by (simp_all add: discard_def)

lemma concat_holder_split:
  assumes "distinct (concat (map pt_holder ks))" "\<forall>k \<in> set ks. length (pt_holder k) = 1"
  shows "set (concat (map pt_holder (filter (\<lambda>k. \<not> P k) ks))) =
    set (concat (map pt_holder ks)) - set (concat (map pt_holder (filter P ks)))"
  using assms by (induction ks) auto

lemma distinct_concat_filter: "distinct (concat (map f ks)) \<Longrightarrow> distinct (concat (map f (filter P ks)))"
  by (induction ks) auto

lemma discard_ok:
  assumes "pool_ok c p"
  shows "pool_ok c (discard i p)"
proof -
  let ?ks = "pl_tasks p"
  have h: "distinct (holders p)" "\<forall>k \<in> set ?ks. length (pt_holder k) = 1" "set (pl_active p) = set (holders p)"
    using assms by (simp_all add: pool_ok_def)
  have "set (holders (discard i p)) = set (holders p) - set (holder_of i p)"
    using concat_holder_split [of ?ks "\<lambda>k. pt_id k = i"] h by (simp add: holders_def holder_of_def discard_def)
  moreover have "distinct (holders (discard i p))"
    using h(1) by (simp add: holders_def discard_def distinct_concat_filter)
  moreover have "length (pl_tasks (discard i p)) \<le> pc_concurrency c"
    using assms le_trans [OF length_filter_le [of _ ?ks]] by (simp add: pool_ok_def discard_def)
  ultimately show ?thesis
    using assms h(3) by (auto simp: pool_ok_def discard_def distinct_map_filter)
qed

text \<open>A task that ends before the loop goes on leaves no trace but its number.\<close>

lemma created_discarded:
  assumes "pool_ok c p" "q = create_task p \<or> q = reserve (pl_next p) t (create_task p)" "t \<notin> set (pl_active p)"
  shows "pl_tasks (discard (pl_next p) q) = pl_tasks p" "pl_active (discard (pl_next p) q) = pl_active p"
    "pl_next (discard (pl_next p) q) = Suc (pl_next p)" "pl_backoff (discard (pl_next p) q) = pl_backoff p"
    "pl_phase (discard (pl_next p) q) = pl_phase p"
proof -
  have f: "filter (\<lambda>k. pt_id k \<noteq> pl_next p) (pl_tasks p) = pl_tasks p" "filter (\<lambda>k. pt_id k = pl_next p) (pl_tasks p) = []"
    using pool_okD(2) [OF assms(1)] by (auto simp: filter_id_conv filter_empty_conv)
  have a: "filter (\<lambda>x. x \<noteq> t) (pl_active p) = pl_active p"
    using assms(3) by (auto simp: filter_id_conv)
  from assms(2) show "pl_tasks (discard (pl_next p) q) = pl_tasks p"
    using reserved_simps [OF assms(1)] f by (auto simp: discard_def create_task_def)
  from assms(2) show "pl_active (discard (pl_next p) q) = pl_active p"
  proof
    assume "q = create_task p"
    then show ?thesis using f by (simp add: discard_def holder_of_def create_task_def)
  next
    assume q: "q = reserve (pl_next p) t (create_task p)"
    then have "holder_of (pl_next p) q = [t]" using reserved_simps [OF assms(1)] f by (simp add: holder_of_def)
    then show ?thesis using q reserved_simps [OF assms(1)] a assms(3) by (simp add: discard_def List.insert_def)
  qed
  from assms(2) show "pl_next (discard (pl_next p) q) = Suc (pl_next p)" "pl_backoff (discard (pl_next p) q) = pl_backoff p"
    "pl_phase (discard (pl_next p) q) = pl_phase p"
    using reserved_simps [OF assms(1)] by (auto simp: create_task_def)
qed

lemma cancel_ok: "pool_ok c p \<Longrightarrow> pl_tasks (cancel_tasks p) = [] \<and> pl_active (cancel_tasks p) = []"
  by (auto simp: pool_ok_def cancel_tasks_def holders_def filter_empty_conv)

lemma after_failure_ok:
  assumes "pool_ok c p" "pl_phase p \<noteq> PoolStopped"
  shows "pool_ok c (after_failure c e p)"
  using assms cancel_ok [OF assms(1)]
  by (cases e) (auto simp: after_failure_def back_off_def give_up_def pool_ok_def holders_def)

lemma collect_ok:
  assumes "pool_ok c p" "pl_phase p \<noteq> PoolStopped"
  shows "pool_ok c (collect c ends p)"
  using assms
proof (induction ends arbitrary: p)
  case Nil
  then show ?case by (simp add: pool_ok_def holders_def)
next
  case (Cons x ends)
  obtain i e where x: "x = (i, e)" by (cases x)
  have d: "pool_ok c (discard i p)" "pl_phase (discard i p) \<noteq> PoolStopped" using Cons.prems discard_ok by auto
  show ?case using Cons.IH [OF d] after_failure_ok [OF d] by (cases e) (simp_all add: x)
qed

section \<open>Fairness\<close>

text \<open>
  The interface to the queue: a claim never takes a tenant that is to be left out.
\<close>

locale fair_claims =
  fixes claims :: "uuid list \<Rightarrow> uuid \<Rightarrow> bool"
  assumes not_excluded: "claims excluded t \<Longrightarrow> t \<notin> set excluded"
begin

lemma ended_discarded:
  assumes "pool_ok c p"
    and "q = create_task p \<or> (\<exists>t. claims (pl_active p) t \<and> q = reserve (pl_next p) t (create_task p))"
  obtains "pl_tasks (discard (pl_next p) q) = pl_tasks p" "pl_active (discard (pl_next p) q) = pl_active p"
    "pl_next (discard (pl_next p) q) = Suc (pl_next p)" "pl_backoff (discard (pl_next p) q) = pl_backoff p"
    "pl_phase (discard (pl_next p) q) = pl_phase p"
proof -
  obtain t where "t \<notin> set (pl_active p)" "q = create_task p \<or> q = reserve (pl_next p) t (create_task p)"
    using assms(2) not_excluded ex_new_if_finite [of "set (pl_active p)"] infinite_UNIV_nat by blast
  from created_discarded [OF assms(1) this(2,1)] that show ?thesis by blast
qed

lemma ended_ok:
  assumes "pool_ok c p"
    and "q = create_task p \<or> (\<exists>t. claims (pl_active p) t \<and> q = reserve (pl_next p) t (create_task p))"
  shows "pool_ok c (discard (pl_next p) q)"
  by (rule ended_discarded [OF assms]) (use assms(1) in \<open>auto simp: pool_ok_def holders_def intro: less_SucI\<close>)

lemma step_ok:
  assumes "pool_step c claims p l p'" "pool_ok c p"
  shows "pool_ok c p'"
  using assms
proof cases
  case (claimed t)
  then have "t \<notin> set (pl_active p)" using not_excluded by blast
  then show ?thesis
    using claimed assms(2) reserved_simps [OF assms(2)]
    by (auto simp: pool_ok_def holders_def less_SucI)
next
  case (ended q result)
  from ended_ok [OF assms(2) ended(5)] ended show ?thesis
    by (auto simp: pool_ok_def holders_def)
next
  case (ended_badly q e jitter)
  from ended_badly(5) have "pool_ok c (discard (pl_next p) q)" by (rule ended_ok [OF assms(2)])
  moreover have "pl_phase (discard (pl_next p) q) \<noteq> PoolStopped"
    by (rule ended_discarded [OF assms(2) ended_badly(5)]) (use ended_badly(3) in auto)
  ultimately show ?thesis using after_failure_ok ended_badly(2) by simp
next
  case full
  then show ?thesis using assms(2) by (auto simp: pool_ok_def holders_def)
next
  case idle
  then show ?thesis using assms(2) by (auto simp: pool_ok_def holders_def)
next
  case (finished ends jitter)
  then show ?thesis using collect_ok assms(2) by simp
next
  case interrupted
  then show ?thesis using after_failure_ok [OF assms(2), of Fatal] by (simp add: after_failure_def)
qed

lemma reachable_ok: "pool_reachable c claims p \<Longrightarrow> pool_ok c p"
proof (induction rule: pool_reachable.induct)
  case start
  show ?case by (simp add: pool_ok_def start_pool_def holders_def)
next
  case step
  then show ?case using step_ok by blast
qed

end

lemma claim_next_not_excluded:
  assumes "claim_next locked now lease_until excluded d = (Inr (Some c), d')"
  shows "cj_tenant_id c \<notin> set excluded"
proof -
  let ?rows = "sort_key (\<lambda>j. (job_available_at j, job_id j)) (filter (claimable locked now excluded) (db_jobs d))"
  obtain j js where j: "?rows = j # js" "c = claimed_of (claim_row now lease_until j)"
    using assms by (auto simp: claim_next_def transaction_def bind_tx_def read_tx_def write_tx_def ret_tx_def split: list.splits)
  then have "j \<in> set ?rows" by simp
  then have "claimable locked now excluded j" by simp
  then show ?thesis using j(2) by (simp add: claimable_def claimed_of_def claim_row_def)
qed

interpretation queue: fair_claims queue_claims
  by unfold_locales (auto simp: queue_claims_def dest: claim_next_not_excluded)

text \<open>
  C12. Bounded, tenant-fair concurrency. Whatever jobs are queued, however the runs end and whatever fails, a worker
  process never runs more jobs than it is configured for, never two jobs of one tenant at a time, the
  tenants it tells the queue to leave out are exactly those of the running jobs, and no job is left
  running when it stops.
\<close>

theorem pool_fair:
  assumes "pool_reachable c queue_claims p"
  shows "length (pl_tasks p) \<le> pc_concurrency c \<and> (\<forall>k \<in> set (pl_tasks p). \<exists>t. pt_holder k = [t]) \<and>
    distinct (concat (map pt_holder (pl_tasks p))) \<and> set (pl_active p) = set (concat (map pt_holder (pl_tasks p))) \<and>
    (pl_phase p = PoolStopped \<longrightarrow> pl_tasks p = [])"
  using queue.reachable_ok [OF assms] by (auto simp: pool_ok_def holders_def length_Suc_conv)

section \<open>Backing off\<close>

lemma next_backoff_ge: "min (pc_backoff_initial c) (pc_backoff_max c) \<le> next_backoff c b"
  by (simp add: next_backoff_def min_def max_def)

lemma cancel_backoff [simp]: "pl_backoff (cancel_tasks p) = pl_backoff p"
  by (simp add: cancel_tasks_def)

lemma after_failure_backoff: "backoff_ok c p \<Longrightarrow> backoff_ok c (after_failure c e p)"
  by (cases e) (simp_all add: after_failure_def back_off_def give_up_def backoff_ok_def next_backoff_ge)

lemma collect_backoff: "backoff_ok c p \<Longrightarrow> backoff_ok c (collect c ends p)"
proof (induction ends arbitrary: p)
  case Nil
  then show ?case by (simp add: backoff_ok_def min_def)
next
  case (Cons x ends)
  obtain i e where x: "x = (i, e)" by (cases x)
  have d: "backoff_ok c (discard i p)" using Cons.prems by (simp add: backoff_ok_def)
  show ?case using Cons.IH [OF d] after_failure_backoff [OF d] by (cases e) (simp_all add: x)
qed

lemma created_backoff [simp]: "pl_backoff (create_task p) = pl_backoff p" "pl_backoff (reserve i t p) = pl_backoff p"
  by (simp_all add: reserve_def create_task_def)

lemma step_backoff:
  assumes "pool_step c claims p l p'" "backoff_ok c p"
  shows "backoff_ok c p'"
  using assms
proof cases
  case (claimed t)
  then show ?thesis using assms(2) by (simp add: backoff_ok_def)
next
  case (ended q result)
  then show ?thesis using assms(2) by (auto simp: backoff_ok_def)
next
  case (ended_badly q e jitter)
  then have "backoff_ok c (discard (pl_next p) q)" using assms(2) by (auto simp: backoff_ok_def)
  then show ?thesis using ended_badly(2) after_failure_backoff by simp
next
  case (finished ends jitter)
  then show ?thesis using collect_backoff assms(2) by simp
qed (use assms(2) in \<open>simp_all add: backoff_ok_def give_up_def\<close>)

lemma reachable_backoff: "pool_reachable c claims p \<Longrightarrow> backoff_ok c p"
proof (induction rule: pool_reachable.induct)
  case start
  show ?case by (simp add: backoff_ok_def start_pool_def)
next
  case step
  then show ?case using step_backoff by blast
qed

lemma collect_label_sleeps: "collect_label x ends = Sleeps s \<Longrightarrow> s = x"
  by (induction ends) (auto split: task_end.splits)

lemma doubling:
  assumes "0 < pc_backoff_initial c" "pc_backoff_initial c \<le> pc_backoff_max c"
  shows "(next_backoff c ^^ n) (pc_backoff_initial c) = min (pc_backoff_max c) (pc_backoff_initial c * 2 ^ n)"
proof (induction n)
  case 0
  then show ?case using assms(2) by simp
next
  case (Suc n)
  let ?i = "pc_backoff_initial c" and ?m = "pc_backoff_max c"
  have "?i \<le> ?i * 2 ^ Suc n" using assms(1) by (simp add: mult_le_cancel_left1 one_le_power del: power_Suc)
  then show ?case
    using Suc assms by (auto simp: next_backoff_def min_def max_def algebra_simps)
qed


text \<open>
  The backoff is reset only by a pass that waits for a task. An idle worker polls without resetting
  it, so a later outage starts with the pause that the last outage left behind.
\<close>

lemma idle_keeps_backoff:
  assumes "pl_phase p = Filling" "pl_tasks p = []" "pl_active p = []" "0 < pc_concurrency c"
  shows "\<exists>q p'. pool_step c claims p Internal q \<and> pool_step c claims q (Sleeps (pc_poll_interval c)) p' \<and>
    pl_backoff p' = pl_backoff p \<and> pl_phase p' = Filling \<and> pl_tasks p' = [] \<and> pl_active p' = []"
proof -
  let ?q = "(discard (pl_next p) (create_task p))\<lparr>pl_phase := Waiting\<rparr>"
  have "pool_step c claims p Internal ?q"
    using pool_step.ended [OF assms(1), of c "create_task p" claims False] assms(2,4) by simp
  moreover have "pl_tasks ?q = []" "pl_active ?q = []" "pl_backoff ?q = pl_backoff p"
    using assms(2,3) by (simp_all add: discard_def create_task_def)
  moreover from this(1) have "pool_step c claims ?q (Sleeps (pc_poll_interval c)) (?q\<lparr>pl_phase := Filling\<rparr>)"
    by (intro pool_step.idle) simp_all
  ultimately show ?thesis by fastforce
qed

section \<open>A run of the pool\<close>

definition demo_pool :: pool_config where
  "demo_pool = \<lparr>pc_concurrency = 2, pc_poll_interval = 1 / 2, pc_backoff_initial = 1 / 2, pc_backoff_max = 30\<rparr>"

text \<open>Start, a run that fails because of an outage, and an idle poll.\<close>

definition demo_failed :: pool where
  "demo_failed = after_failure demo_pool Outage (discard 0 (create_task (start_pool demo_pool)))"

lemma demo_outage: "pool_step demo_pool queue_claims (start_pool demo_pool) (Sleeps (1 / 2)) demo_failed"
  using pool_step.ended_badly [where p = "start_pool demo_pool" and c = demo_pool and claims = queue_claims and
      q = "create_task (start_pool demo_pool)" and e = Outage and jitter = 0]
  by (simp add: start_pool_def demo_pool_def backoff_delay_def demo_failed_def)

theorem pool_fair_witness:
  "pool_reachable demo_pool queue_claims demo_failed \<and> length (pl_tasks demo_failed) \<le> 2"
proof -
  have r: "pool_reachable demo_pool queue_claims demo_failed"
    using pool_reachable.step [OF pool_reachable.start demo_outage] .
  from pool_fair [OF r] r show ?thesis by (simp add: demo_pool_def)
qed


end
