(* ===== verification/Service_Spec.thy ===== *)
theory Service_Spec
  imports Durability Worker_Pool
begin

text \<open>
  An abstract specification of the service: a set of jobs, each with its status and the number of
  its attempts, and the steps that are allowed between them. Every step of the service on its
  database, whatever component takes it, refines a sequence of these steps.
\<close>

section \<open>The specification\<close>

type_synonym job_board = "uuid \<rightharpoonup> job_status \<times> nat"

inductive board_step :: "job_board \<Rightarrow> job_board \<Rightarrow> bool" where
  submit: "s i = None \<Longrightarrow> board_step s (s(i \<mapsto> (J_queued, 0)))"
| claim: "s i = Some (J_queued, n) \<Longrightarrow> board_step s (s(i \<mapsto> (J_running, Suc n)))"
| requeue: "s i = Some (J_running, n) \<Longrightarrow> board_step s (s(i \<mapsto> (J_queued, n)))"
| park: "s i = Some (J_running, n) \<Longrightarrow> board_step s (s(i \<mapsto> (J_awaiting_approval, n)))"
| finish: "s i = Some (J_running, n) \<Longrightarrow> terminal st \<Longrightarrow> board_step s (s(i \<mapsto> (st, n)))"
| resolve: "s i = Some (J_awaiting_approval, n) \<Longrightarrow> st \<in> {J_succeeded, J_failed} \<Longrightarrow> board_step s (s(i \<mapsto> (st, n)))"

definition job_state :: "job_row \<Rightarrow> job_status \<times> nat" where
  "job_state j = (job_status j, job_attempt_count j)"

text \<open>The abstraction of a database.\<close>

definition board :: "db \<Rightarrow> job_board" where
  "board d = map_of (map (\<lambda>j. (job_id j, job_state j)) (db_jobs d))"

section \<open>Moving jobs\<close>

lemma board_lookup:
  assumes "workflow_wf d" "j \<in> set (db_jobs d)"
  shows "board d (job_id j) = Some (job_state j)"
proof -
  have "distinct (map job_id (db_jobs d))" using assms(1) by (simp add: workflow_wf_def db_keys_def)
  then have "distinct (map fst (map (\<lambda>j. (job_id j, job_state j)) (db_jobs d)))" by (simp add: comp_def)
  moreover have "(job_id j, job_state j) \<in> set (map (\<lambda>j. (job_id j, job_state j)) (db_jobs d))" using assms(2) by simp
  ultimately show ?thesis unfolding board_def by (rule map_of_is_SomeI)
qed

lemma board_dom: "dom (board d) = job_id ` set (db_jobs d)"
  by (force simp: board_def dom_map_of_conv_image_fst)

lemma board_edge:
  assumes "s i = Some (a, n)" "status_edge a b" "m = n + (if a = J_queued then 1 else 0)" "(b, m) \<noteq> (a, n)"
  shows "board_step s (s(i \<mapsto> (b, m)))"
  using assms(2)
proof cases
  case claim
  then show ?thesis using assms board_step.claim [of s i n] by simp
next
  case keep
  then show ?thesis using assms by simp
next
  case retry
  then show ?thesis using assms board_step.requeue [of s i n] by simp
next
  case park
  then show ?thesis using assms board_step.park [of s i n] by simp
next
  case finish
  then show ?thesis using assms board_step.finish [of s i n b] by simp
next
  case decide
  then show ?thesis using assms board_step.resolve [of s i n b] by auto
qed

lemma edge_board_steps:
  assumes "job_edge\<^sup>*\<^sup>* j j'" "s (job_id j) = Some (job_state j)"
  shows "board_step\<^sup>*\<^sup>* s (s(job_id j \<mapsto> job_state j'))"
  using assms(1)
proof induction
  case base
  then show ?case using assms(2) by (simp add: fun_upd_idem)
next
  case (step k l)
  let ?s = "s(job_id j \<mapsto> job_state k)"
  show ?case
  proof (cases "job_state l = job_state k")
    case True
    then show ?thesis using step.IH by simp
  next
    case False
    then have "status_edge (job_status k) (job_status l)"
      "job_attempt_count l = job_attempt_count k + (if job_status k = J_queued then 1 else 0)"
      using step(2) by (auto simp: job_edge_def job_state_def)
    then have "board_step ?s (s(job_id j \<mapsto> job_state l))"
      using False board_edge [of ?s "job_id j"] by (simp add: job_state_def)
    from rtranclp.rtrancl_into_rtrancl [of board_step, OF step.IH this] show ?thesis .
  qed
qed

text \<open>The jobs of a database move one after the other.\<close>

lemma moved_board_steps:
  assumes "workflow_wf d" "evolves d d'" "set js \<subseteq> set (db_jobs d)"
  shows "board_step\<^sup>*\<^sup>* (board d) (\<lambda>i. if i \<in> job_id ` set js then board d' i else board d i)"
  using assms(3)
proof (induction js)
  case (Cons j js)
  let ?s = "\<lambda>js i. if i \<in> job_id ` set js then board d' i else board d i"
  obtain j' where j': "j' \<in> set (db_jobs d')" "job_edge\<^sup>*\<^sup>* j j'"
    using Cons.prems assms(2) by (auto simp: evolves_def)
  have id: "job_id j' = job_id j" using job_edges_identity [OF j'(2)] by (simp add: job_identity_def)
  have new: "board d' (job_id j) = Some (job_state j')"
    using board_lookup [OF _ j'(1)] assms(2) id by (simp add: evolves_def)
  have IH: "board_step\<^sup>*\<^sup>* (board d) (?s js)" using Cons by simp
  show ?case
  proof (cases "job_id j \<in> job_id ` set js")
    case True
    then have "?s (j # js) = ?s js" by (auto simp: fun_eq_iff)
    with IH show ?thesis by simp
  next
    case False
    then have "?s js (job_id j) = Some (job_state j)"
      using board_lookup [OF assms(1)] Cons.prems by simp
    with edge_board_steps [OF j'(2), of "?s js"] have "board_step\<^sup>*\<^sup>* (?s js) ((?s js)(job_id j \<mapsto> job_state j'))" by simp
    also have "(?s js)(job_id j \<mapsto> job_state j') = ?s (j # js)" using new by (auto simp: fun_eq_iff)
    finally have "board_step\<^sup>*\<^sup>* (?s js) (?s (j # js))" .
    with IH show ?thesis by (rule rtranclp_trans)
  qed
qed simp

lemma steps_same_jobs:
  assumes "workflow_wf d" "evolves d d'" "length (db_jobs d') = length (db_jobs d)"
  shows "board_step\<^sup>*\<^sup>* (board d) (board d')"
proof -
  have dist: "distinct (map job_id (db_jobs d))" "distinct (map job_id (db_jobs d'))"
    using assms(1,2) by (simp_all add: evolves_def workflow_wf_def db_keys_def)
  have "job_id ` set (db_jobs d) \<subseteq> job_id ` set (db_jobs d')"
  proof
    fix i assume "i \<in> job_id ` set (db_jobs d)"
    then obtain j where j: "j \<in> set (db_jobs d)" "i = job_id j" by blast
    with assms(2) obtain j' where "j' \<in> set (db_jobs d')" "job_edge\<^sup>*\<^sup>* j j'" by (auto simp: evolves_def)
    moreover from this job_edges_identity [of j j'] have "job_id j' = i" using j(2) by (simp add: job_identity_def)
    ultimately show "i \<in> job_id ` set (db_jobs d')" by blast
  qed
  moreover have "card (job_id ` set (db_jobs d)) = card (job_id ` set (db_jobs d'))"
    using distinct_card [OF dist(1)] distinct_card [OF dist(2)] assms(3) by simp
  ultimately have "job_id ` set (db_jobs d) = job_id ` set (db_jobs d')"
    by (intro card_subset_eq) simp_all
  then have "(\<lambda>i. if i \<in> job_id ` set (db_jobs d) then board d' i else board d i) = board d'"
    using board_dom [of d] board_dom [of d'] by (intro ext) (metis domIff)
  with moved_board_steps [OF assms(1,2) subset_refl] show ?thesis by simp
qed

lemma steps_new_job:
  assumes "workflow_wf d'" "db_jobs d' = db_jobs d @ [j]" "job_status j = J_queued" "job_attempt_count j = 0"
  shows "board_step\<^sup>*\<^sup>* (board d) (board d')"
proof -
  have "job_id j \<notin> job_id ` set (db_jobs d)"
    using assms(1,2) by (auto simp: workflow_wf_def db_keys_def)
  then have new: "board d (job_id j) = None" using board_dom [of d] by auto
  then have "board d' = (board d)(job_id j \<mapsto> (J_queued, 0))"
    using assms(2,3,4) by (auto simp: board_def job_state_def map_add_def fun_eq_iff split: option.splits)
  with board_step.submit [of "board d" "job_id j"] new show ?thesis by auto
qed

section \<open>Operations that add no job\<close>

definition keeps :: "'a tx \<Rightarrow> bool" where
  "keeps m \<longleftrightarrow> (\<forall>d r d'. m d = (r, d') \<longrightarrow> length (db_jobs d') = length (db_jobs d))"

named_theorems keeps_rules \<open>operations that keep the number of jobs\<close>

lemma keepsD: "keeps m \<Longrightarrow> m d = (r, d') \<Longrightarrow> length (db_jobs d') = length (db_jobs d)"
  by (simp add: keeps_def)

lemma keeps_basic [keeps_rules]:
  "keeps (ret_tx x)" "keeps (raise_tx e)" "keeps (read_tx q)" "keeps (check_tx P)" "keeps new_id_tx"
  "keeps (lift_res r)" "keeps (unavailable msg)" "keeps (check_cancelled c n)"
  by (auto simp: keeps_def ret_tx_def raise_tx_def read_tx_def check_tx_def new_id_tx_def fresh_uuid_def lift_res_def
      unavailable_def check_cancelled_def split: sum.splits if_splits)

lemma keeps_write [keeps_rules]:
  assumes "\<And>d. length (db_jobs (f d)) = length (db_jobs d)"
  shows "keeps (write_tx f)"
  using assms by (auto simp: keeps_def write_tx_def)

lemma keeps_bind [keeps_rules]:
  assumes "keeps m" "\<And>x. keeps (f x)"
  shows "keeps (bind_tx m f)"
  using assms by (auto simp: keeps_def bind_tx_def split: prod.splits sum.splits)

lemma keeps_transaction [keeps_rules]: "keeps m \<Longrightarrow> keeps (transaction m)"
  by (auto simp: keeps_def transaction_def split: prod.splits sum.splits)

lemma keeps_nested [keeps_rules]: "keeps m \<Longrightarrow> keeps h \<Longrightarrow> keeps (nested_tx m h)"
  by (auto simp: keeps_def nested_tx_def split: prod.splits sum.splits exn.splits)

lemma keeps_map [keeps_rules]: "(\<And>x. keeps (f x)) \<Longrightarrow> keeps (map_tx f xs)"
  by (induction xs) (auto intro!: keeps_rules)

lemma keeps_gateway [keeps_rules]: "keeps m \<Longrightarrow> keeps (gateway_call c m)"
  by (auto simp: keeps_def gateway_call_def split: gateway_outcome.splits) (metis prod.collapse)

lemma keeps_sync [keeps_rules]: "keeps m \<Longrightarrow> keeps (sync_call c m)"
  by (auto simp: sync_call_def intro!: keeps_rules)

lemma kept_tables [simp]:
  "length (db_jobs (update_job i g d)) = length (db_jobs d)" "db_jobs (update_approval i h d) = db_jobs d"
  "db_jobs (add_approval_event t a ty actor p d) = db_jobs d" "db_jobs (update_case i k d) = db_jobs d"
  "db_jobs (add_case_event t c ty p d) = db_jobs d" "db_jobs (set_idempotency_case t i c d) = db_jobs d"
  by (simp_all add: update_job_def update_rows_def update_approval_def add_approval_event_def update_case_def
      add_case_event_def set_idempotency_case_def)

lemma keeps_cancel [keeps_rules]: "keeps (cancel_staged_approval i t)"
  by (auto simp: cancel_staged_approval_def intro!: keeps_rules split: option.split)

lemma keeps_owned [keeps_rules]: "keeps (owned_job msg i t n)"
  by (auto simp: owned_job_def intro!: keeps_rules split: option.split)

lemma keeps_recover [keeps_rules]: "keeps (recover_one now m r j)"
  by (auto simp: recover_one_def Let_def intro!: keeps_rules)

lemma keeps_queue:
  "keeps (recover_expired_leases locked now m r)" "keeps (claim_next locked now lease ex)"
  "keeps (renew_lease i t n lease)" "keeps (mark_terminal i s now t n result err)"
  "keeps (record_awaiting_approval_result i res t n)" "keeps (schedule_retry i e a t n)"
  by (auto simp: recover_expired_leases_def claim_next_def renew_lease_def mark_terminal_def schedule_retry_def
      record_awaiting_approval_result_def intro!: keeps_rules split: option.split list.split)

lemma keeps_cases [keeps_rules]:
  "keeps (create_agent_case t src customer fs)" "keeps (append_event t c ty p)" "keeps (assign_case_fields k fs)"
  "keeps (fields_updated_event t k fs)" "keeps (require_customer t customer e)" "keeps (create_for_job t i kind p)"
  by (auto simp: create_agent_case_def append_event_def assign_case_fields_def fields_updated_event_def require_customer_def
      create_for_job_def insert_artifact_def Let_def intro!: keeps_rules split: option.split)

lemma keeps_approvals [keeps_rules]:
  "keeps (refresh_approval a j act reason x)" "keeps (stage_approval j act reason x)" "keeps (expire_locked a now)"
  "keeps (finalize_tx a j now)"
  by (auto simp: refresh_approval_def stage_approval_def expire_locked_def finalize_tx_def intro!: keeps_rules split: sum.split)

lemma keeps_requests [keeps_rules]:
  "keeps (create_for_running_job t i n act reason x now)" "keeps (expire_one now a)" "keeps (expire_due locked now limit)"
  by (auto simp: create_for_running_job_def expire_one_def expire_due_def intro!: keeps_rules split: option.split)

lemma keeps_mark [keeps_rules]: "keeps (mark_side_effect env c t)" "keeps (lock_idempotency env t)"
  by (auto simp: mark_side_effect_def lock_idempotency_def intro!: keeps_rules split: option.split)

lemma keeps_port:
  "keeps (pg_find_customer env t email ext c)" "keeps (pg_case_exists env t i c)" "keeps (pg_request_approval env t act reason c)"
  "keeps (pg_create_case env t src customer fs c)" "keeps (pg_create_artifact env t job kind p c)"
  "keeps (pg_update_case_fields env t i fs c)"
  by (auto simp: pg_find_customer_def pg_case_exists_def pg_request_approval_def pg_create_case_def pg_create_artifact_def
      pg_update_case_fields_def intro!: keeps_rules split: option.split)

lemma keeps_handlers [keeps_rules]:
  "keeps (source_from_job v)" "keeps (draft_case a k)" "keeps (assign_case res a)"
  by (auto simp: source_from_job_def draft_case_def assign_case_def intro!: keeps_rules split: option.split sum.split)

lemma keeps_approved:
  assumes "(n, h) \<in> set approval_handlers"
  shows "keeps (h a j act)"
  using assms
  by (auto simp: approval_handlers_def approved_create_case_def approved_update_case_fields_def approved_find_customer_def
      approved_create_reply_draft_def approved_flag_for_review_def intro!: keeps_rules split: option.split tool_args.split)

lemma keeps_execute [keeps_rules]: "keeps (approval_execute reg a act now)"
proof -
  have "keeps (run_approved c h a j act now)" if "approved_handler reg act = Inr (c, h)" for c h j
  proof -
    from that have "(ac_key c, h) \<in> set approval_handlers"
      by (auto simp: approved_handler_def dest: map_of_SomeD split: sum.splits if_splits option.splits)
    from keeps_approved [OF this] show ?thesis by (auto simp: run_approved_def intro!: keeps_rules)
  qed
  then have "keeps (bind_tx (lift_res (approved_handler reg act)) (\<lambda>(c, h). run_approved c h a j act now))" for j
    by (cases "approved_handler reg act") (auto simp: lift_res_def bind_tx_def raise_tx_def ret_tx_def keeps_def split: prod.splits)
  then show ?thesis by (auto simp: approval_execute_def intro!: keeps_rules split: option.split)
qed

lemma keeps_branches [keeps_rules]:
  "keeps (repeat_branch req a)" "keeps (expire_branch req now a j)" "keeps (reject_branch op req now a j)"
  "keeps (approve_branch env op req now a p j prof)"
  by (auto simp: repeat_branch_def expire_branch_def reject_branch_def approve_branch_def Let_def intro!: keeps_rules
      split: prod.split)

lemma keeps_context [keeps_rules]: "keeps (load_context env a i)"
  by (auto simp: load_context_def intro!: keeps_rules split: option.split)

lemma keeps_decide: "decide env i op req now d = (r, obs, d') \<Longrightarrow> length (db_jobs d') = length (db_jobs d)"
proof -
  have "keeps (transaction (decide_body env i op req now))"
    by (auto simp: decide_body_def decide_branch_def intro!: keeps_rules split: option.split prod.split)
  moreover assume "decide env i op req now d = (r, obs, d')"
  then obtain q where "transaction (decide_body env i op req now) d = (q, d')"
    by (auto simp: decide_def split: prod.splits sum.splits)
  ultimately show ?thesis by (rule keepsD)
qed

section \<open>Refinement\<close>

lemma enqueue_body_jobs:
  assumes "enqueue_body env c p k h d = (Inr (x, es), d')"
  shows "db_jobs d' = db_jobs d \<or>
    (\<exists>j. db_jobs d' = db_jobs d @ [j] \<and> job_status j = J_queued \<and> job_attempt_count j = 0)"
proof -
  from assms consider row where "existing_result env row h c d = (Inr (x, es), d')"
    | "insert_request c p k h d = (Inr (x, es), d')"
    by (auto simp: enqueue_body_def tx_iffs nested_tx_Inr split: option.splits)
  then show ?thesis
  proof cases
    case 1
    then show ?thesis using existing_result_Inr by blast
  next
    case 2
    then show ?thesis by (auto simp: insert_request_def create_job_def create_idempotency_record_def tx_iffs)
  qed
qed

lemma enqueue_board:
  assumes "workflow_wf d" "evolves d d'" "enqueue_body env c p k h d = (Inr (x, es), d')"
  shows "board_step\<^sup>*\<^sup>* (board d) (board d')"
  using enqueue_body_jobs [OF assms(3)] steps_same_jobs [OF assms(1,2)] steps_new_job [of d' d] assms(2)
  by (auto simp: evolves_def)

lemma db_step_board:
  assumes "loads_valid ienv" "workflow_wf d" "db_step ienv denv d d'"
  shows "board_step\<^sup>*\<^sup>* (board d) (board d')"
proof -
  note ev = db_step_evolves [OF assms]
  note same = steps_same_jobs [OF assms(2) ev]
  from assms(3) show ?thesis
  proof cases
    case (enqueue c r es)
    then show ?thesis
      using enqueue_board [OF assms(2) ev] enqueue_Inr enqueue_Inl by (cases r) (blast, metis)
  next
    case (enqueue_document c r es)
    then show ?thesis
      by (cases rule: enqueue_document_cases) (use enqueue_board [OF assms(2) ev] in auto)
  next
    case expire
    then show ?thesis using same keepsD [OF keeps_requests(3)] by blast
  next
    case recover
    then show ?thesis using same keepsD [OF keeps_queue(1)] by blast
  next
    case claim
    then show ?thesis using same keepsD [OF keeps_queue(2)] by blast
  next
    case renew
    then show ?thesis using same keepsD [OF keeps_queue(3)] by blast
  next
    case succeed
    then show ?thesis using same keepsD [OF keeps_queue(4)] unfolding mark_succeeded_def by blast
  next
    case fail
    then show ?thesis using same keepsD [OF keeps_queue(4)] unfolding mark_failed_def by blast
  next
    case fail_uncertain
    then show ?thesis using same keepsD [OF keeps_queue(4)] unfolding mark_failed_uncertain_def by blast
  next
    case await
    then show ?thesis using same keepsD [OF keeps_queue(5)] by blast
  next
    case retry
    then show ?thesis using same keepsD [OF keeps_queue(6)] by blast
  next
    case find_customer
    then show ?thesis using same keepsD [OF keeps_port(1)] by blast
  next
    case case_exists
    then show ?thesis using same keepsD [OF keeps_port(2)] by blast
  next
    case create_case
    then show ?thesis using same keepsD [OF keeps_port(4)] by blast
  next
    case update_case
    then show ?thesis using same keepsD [OF keeps_port(6)] by blast
  next
    case draft
    then show ?thesis using same keepsD [OF keeps_port(5)] unfolding pg_create_reply_draft_def by blast
  next
    case flag
    then show ?thesis using same keepsD [OF keeps_port(5)] unfolding pg_flag_for_review_def by blast
  next
    case request
    then show ?thesis using same keepsD [OF keeps_port(3)] by blast
  next
    case tick
    then show ?thesis using same by simp
  next
    case decide
    then show ?thesis using same keeps_decide by blast
  qed
qed


section \<open>The heartbeat\<close>

text \<open>The heartbeat evolves the store while the others do, and when it reports a lost lease without an outage, the attempt is no longer running.\<close>

definition ticks_evolve :: "heartbeat list \<Rightarrow> bool" where
  "ticks_evolve hs \<longleftrightarrow> (\<forall>f now e. Tick f now e \<in> set hs \<longrightarrow> (\<forall>d. workflow_wf d \<longrightarrow> evolves d (f d)))"

lemma renew_lease_False:
  assumes "renew_lease i t n lease d = (Inr False, d')"
  shows "\<not> (\<exists>j \<in> set (db_jobs d). job_id j = i \<and> job_tenant_id j = t \<and> job_attempt_count j = n \<and> job_status j = J_running)"
proof -
  from assms obtain row where row: "get_job i t n d = Inr row" "\<forall>j. row = Some j \<longrightarrow> job_status j \<noteq> J_running"
    by (auto simp: renew_lease_def tx_iffs transaction_Inr split: option.splits if_splits)
  let ?js = "filter (\<lambda>j. job_id j = i \<and> job_tenant_id j = t \<and> job_attempt_count j = n) (db_jobs d)"
  have "?js = [] \<or> (\<exists>j. ?js = [j] \<and> job_status j \<noteq> J_running)"
    using row by (auto simp: get_job_def scalar_one_or_none_def split: list.splits)
  then have "\<forall>j \<in> set ?js. job_status j \<noteq> J_running" by (elim disjE exE conjE) (simp_all only: list.set, simp_all)
  then show ?thesis by auto
qed

lemma maintain_lease_evolves:
  assumes "workflow_wf d" "ticks_evolve hs" "maintain_lease c lease hs d = (r, es, d')"
  shows "evolves d d'"
  using assms
proof (induction c lease hs d arbitrary: r es rule: maintain_lease.induct)
  case (3 c lease others now fault hs d)
  have o: "evolves d (others d)" using "3.prems"(1,2) by (auto simp: ticks_evolve_def)
  then have wf: "workflow_wf (others d)" by (simp add: evolves_def)
  show ?case
  proof (cases fault)
    case (Some e)
    then show ?thesis using "3.prems"(3) o by simp
  next
    case None
    obtain q e where q: "renew_lease (cj_id c) (cj_tenant_id c) (cj_attempt_count c) (now + lease) (others d) = (q, e)" by fastforce
    have ev: "evolves d e" using evolves_trans [OF o renew_lease_evolves [OF wf q]] .
    then have "workflow_wf e" by (simp add: evolves_def)
    moreover have "ticks_evolve hs" using "3.prems"(2) by (auto simp: ticks_evolve_def)
    ultimately have "evolves e d'" if "q = Inr True"
      using "3.IH" [OF None q [symmetric] that] "3.prems"(3) None q that by auto
    then show ?thesis using "3.prems"(3) None q ev evolves_trans [OF ev] by (auto split: sum.splits if_splits)
  qed
qed (auto simp: evolves_refl)

lemma maintain_lease_lost:
  assumes "maintain_lease c lease hs d = (Some False, [], d')"
  shows "\<not> (\<exists>j \<in> set (db_jobs d'). job_id j = cj_id c \<and> job_tenant_id j = cj_tenant_id c \<and>
    job_attempt_count j = cj_attempt_count c \<and> job_status j = J_running)"
  using assms
proof (induction c lease hs d rule: maintain_lease.induct)
  case (3 c lease others now fault hs d)
  obtain q e where q: "renew_lease (cj_id c) (cj_tenant_id c) (cj_attempt_count c) (now + lease) (others d) = (q, e)" by fastforce
  from "3.prems" q have "fault = None" "\<exists>b. q = Inr b" by (auto split: option.splits sum.splits)
  then obtain b where b: "fault = None" "q = Inr b" by blast
  show ?case
  proof (cases b)
    case True
    then show ?thesis using "3.IH" [OF b(1) q [symmetric] b(2)] "3.prems" b q by simp
  next
    case False
    have "e = others d"
      using q b False by (auto simp: renew_lease_def tx_iffs transaction_Inr split: option.splits if_splits)
    then show ?thesis using renew_lease_False q b False "3.prems" by auto
  qed
qed auto

end
