(* ===== verification/Service_Examples.thy ===== *)
theory Service_Examples
  imports Examples Service_Spec
begin


end
