(* ===== verification/Provider.thy ===== *)
theory Provider
  imports Tenant_Profiles Agent_Loop
begin

text \<open>
  The client of the model provider, \<open>app/providers/openai_compatible.py\<close>: the translation of the
  transcript, the request, the extraction and validation of the answer, one repair attempt, and the
  events of the calls. The HTTP client, the JSON parser, the JSON schema and the parser of Pydantic and
  the clock are the fields of \<open>provider_env\<close>; the correlation identifiers of the events are left out.
\<close>

section \<open>Exceptions and parameters\<close>

text \<open>
  The classes the client tells apart: \<open>ProposalInvalid\<close> is Pydantic's \<open>ValidationError\<close> with the location
  and message of every error, \<open>JsonInvalid\<close> is \<open>JSONDecodeError\<close>, \<open>MissingKey\<close>, \<open>NoChoice\<close>, \<open>BadShape\<close> and
  \<open>BadValue\<close> are \<open>KeyError\<close>, \<open>IndexError\<close>, \<open>TypeError\<close> and \<open>ValueError\<close>.
\<close>

datatype provider_exn =
    ProposalInvalid "(string list \<times> string) list"
  | JsonInvalid nat
  | MissingKey
  | NoChoice
  | BadShape
  | BadValue string
  | StatusError int
  | RequestTimeout
  | RequestFailed
  | ProviderOther
  | StructuredProposalValidationError string

type_synonym 'a pres = "provider_exn + 'a"

record http_request =
  hq_url :: string
  hq_authorization :: string
  hq_json :: pyval

datatype http_reply = Reply int bytes | ReplyTimeout | ReplyError | ReplyOther

datatype decode_error = BadJson nat | BadEncoding

record provider_call =
  pk_outcome :: outcome_code
  pk_duration_ms :: int
  pk_call_index :: nat
  pk_validation_retry :: bool
  pk_status_code :: "int option"
  pk_usage :: "(string, int) dict"

datatype provider_event = ProviderCallCompleted provider_call | ProviderStructuredOutputFailed

record provider_env =
  px_base_url :: string
  px_api_key :: string
  px_model :: string
  px_reasoning_effort :: "string option"
  px_float_repr :: "rat \<Rightarrow> string"
  px_schema :: pyval
  px_post :: "nat \<Rightarrow> http_request \<Rightarrow> http_reply"
  px_json :: "bytes \<Rightarrow> decode_error + pyval"
  px_parse :: "string \<Rightarrow> agent_proposal option"
  px_proposal_errors :: "string \<Rightarrow> (string list \<times> string) list"
  px_event_errors :: "provider_call \<Rightarrow> (string list \<times> string) list"
  px_started :: "nat \<Rightarrow> int"
  px_finished :: "nat \<Rightarrow> int"

section \<open>JSON\<close>

text \<open>
  \<open>_canonical_json\<close> leaves \<open>ensure_ascii\<close> at its default: every character outside the printable ASCII
  range, which only the string literals have, is written as an escape.
\<close>

definition ascii_escape :: "char \<Rightarrow> string" where
  "ascii_escape c =
     (let n = (of_char c :: nat) in if 127 \<le> n then BACKSLASH # ''u'' @ hex_pad 4 n else [c])"

fun provider_exn_of :: "exn \<Rightarrow> provider_exn" where
  "provider_exn_of (ValueError s) = BadValue s"
| "provider_exn_of (TypeError s) = BadShape"
| "provider_exn_of _ = ProviderOther"

definition provider_json :: "(rat \<Rightarrow> string) \<Rightarrow> pyval \<Rightarrow> string pres" where
  "provider_json fl v =
     (case canonical_json fl v of
        Inl e \<Rightarrow> Inl (provider_exn_of e)
      | Inr s \<Rightarrow> Inr (concat (map ascii_escape s)))"

text \<open>
  \<open>_strict_json_schema\<close>, which edits the schema in place: sub-schemas first, one level of lists, then
  the list of required properties.
\<close>

fun is_dict :: "pyval \<Rightarrow> bool" where
  "is_dict (PDict _) = True"
| "is_dict _ = False"

definition require_properties :: "py_dict \<Rightarrow> py_dict" where
  "require_properties d =
     (case (map_of d ''type'', map_of d ''properties'') of
        (Some (PStr t), Some (PDict ps)) \<Rightarrow>
          if t = ''object'' then dict_set ''required'' (PList (map (\<lambda>kv. PStr (fst kv)) ps)) d else d
      | _ \<Rightarrow> d)"

fun strict_json_schema :: "pyval \<Rightarrow> pyval" where
  "strict_json_schema (PDict d) =
     PDict (require_properties
       (map (\<lambda>kv. (fst kv,
                    case snd kv of
                      PDict e \<Rightarrow> strict_json_schema (snd kv)
                    | PList xs \<Rightarrow> PList (map (\<lambda>x. if is_dict x then strict_json_schema x else x) xs)
                    | w \<Rightarrow> w)) d))"
| "strict_json_schema v = v"

section \<open>Messages\<close>

definition call_id :: "nat \<Rightarrow> string" where
  "call_id i = ''call_'' @ dec_int (int i)"

definition chat :: "string \<Rightarrow> string \<Rightarrow> (string \<times> pyval) list \<Rightarrow> pyval" where
  "chat role content extra = PDict ([(''role'', PStr role), (''content'', PStr content)] @ extra)"

definition text_or_empty :: "string option \<Rightarrow> string" where
  "text_or_empty x = (case x of None \<Rightarrow> [] | Some s \<Rightarrow> s)"

type_synonym pending_call = "(string \<times> tool_call) option"

definition user_content :: "(rat \<Rightarrow> string) \<Rightarrow> agent_message \<Rightarrow> string pres" where
  "user_content fl m =
     (if am_content m = None \<and> am_tool_result m \<noteq> PNone then provider_json fl (am_tool_result m)
      else Inr (text_or_empty (am_content m)))"

definition assistant_content :: "agent_message \<Rightarrow> string" where
  "assistant_content m =
     (case (am_content m, am_proposal m) of
        (None, Some p) \<Rightarrow> ap_rationale_short p
      | (c, _) \<Rightarrow> text_or_empty c)"

definition tool_calls :: "(rat \<Rightarrow> string) \<Rightarrow> nat \<Rightarrow> tool_call \<Rightarrow> (string \<times> pyval) list pres" where
  "tool_calls fl i c =
     (case provider_json fl (PDict (tc_arguments c)) of
        Inl e \<Rightarrow> Inl e
      | Inr args \<Rightarrow>
          Inr [(''tool_calls'', PList [PDict [(''id'', PStr (call_id i)), (''type'', PStr ''function''),
                 (''function'', PDict [(''name'', PStr (tc_name c)), (''arguments'', PStr args)])]])])"

text \<open>One turn of the loop of \<open>_provider_messages\<close>.\<close>

definition provider_message ::
  "(rat \<Rightarrow> string) \<Rightarrow> nat \<Rightarrow> pending_call \<Rightarrow> agent_message \<Rightarrow> (pyval \<times> pending_call) pres" where
  "provider_message fl i pending m =
     (if pending \<noteq> None \<and> am_role m \<noteq> TOOL
      then Inl (BadValue ''assistant tool call must be followed by its tool message'')
      else case am_role m of
        SYSTEM \<Rightarrow> Inr (chat ''system'' (text_or_empty (am_content m)) [], pending)
      | USER \<Rightarrow>
          (case user_content fl m of
             Inl e \<Rightarrow> Inl e
           | Inr s \<Rightarrow> Inr (chat ''user'' s [], pending))
      | ASSISTANT \<Rightarrow>
          (case am_tool_call m of
             None \<Rightarrow> Inr (chat ''assistant'' (assistant_content m) [], pending)
           | Some c \<Rightarrow>
               (case tool_calls fl i c of
                  Inl e \<Rightarrow> Inl e
                | Inr calls \<Rightarrow> Inr (chat ''assistant'' (assistant_content m) calls, Some (call_id i, c))))
      | TOOL \<Rightarrow>
          (case (am_tool_call m, pending) of
             (Some c, Some (k, c')) \<Rightarrow>
               if tool_call_eq c c'
               then (case provider_json fl (am_tool_result m) of
                       Inl e \<Rightarrow> Inl e
                     | Inr s \<Rightarrow>
                         Inr (PDict [(''role'', PStr ''tool''), (''tool_call_id'', PStr k),
                                     (''content'', PStr s)], None))
               else Inl (BadValue ''tool message has no preceding assistant call'')
           | _ \<Rightarrow> Inl (BadValue ''tool message has no preceding assistant call'')))"

fun translate :: "(rat \<Rightarrow> string) \<Rightarrow> nat \<Rightarrow> pending_call \<Rightarrow> agent_message list \<Rightarrow> pyval list pres" where
  "translate fl i pending [] = Inr []"
| "translate fl i pending (m # ms) =
     (case provider_message fl i pending m of
        Inl e \<Rightarrow> Inl e
      | Inr (x, pending') \<Rightarrow>
          (case translate fl (Suc i) pending' ms of
             Inl e \<Rightarrow> Inl e
           | Inr xs \<Rightarrow> Inr (x # xs)))"

definition provider_messages :: "(rat \<Rightarrow> string) \<Rightarrow> agent_message list \<Rightarrow> pyval list pres" where
  "provider_messages fl ms = translate fl 0 None ms"

section \<open>Feedback\<close>

definition join_with :: "string \<Rightarrow> string list \<Rightarrow> string" where
  "join_with sep xs = (case xs of [] \<Rightarrow> [] | y # ys \<Rightarrow> y @ concat (map (\<lambda>s. sep @ s) ys))"

definition detail_text :: "string list \<times> string \<Rightarrow> string" where
  "detail_text d =
     (let location = join_with ''.'' (fst d)
      in (if location = [] then ''<root>'' else location) @ '': '' @ snd d)"

fun validation_feedback :: "provider_exn \<Rightarrow> string" where
  "validation_feedback (ProposalInvalid details) =
     (let summary = join_with ''; '' (map detail_text details)
      in ''Structured proposal validation failed: '' @
         (if summary = [] then ''schema validation failed'' else summary))"
| "validation_feedback (JsonInvalid pos) =
     ''Structured proposal JSON decoding failed at character '' @ dec_int (int pos)"
| "validation_feedback MissingKey = ''Provider response envelope is missing a required value''"
| "validation_feedback NoChoice = ''Provider response envelope has no usable choice''"
| "validation_feedback BadShape = ''Provider response envelope has an invalid shape''"
| "validation_feedback _ = ''Provider response content is invalid''"

definition redact_secret :: "string \<Rightarrow> string \<Rightarrow> string" where
  "redact_secret value secret =
     (if secret = [] then value else py_replace secret ''[REDACTED]'' value)"

section \<open>The answer\<close>

definition token_names :: "string list" where
  "token_names = [''prompt_tokens'', ''completion_tokens'', ''total_tokens'']"

fun token_count :: "pyval option \<Rightarrow> int option" where
  "token_count (Some (PInt i)) = (if 0 \<le> i then Some i else None)"
| "token_count _ = None"

definition usage_consistent :: "(string, int) dict \<Rightarrow> bool" where
  "usage_consistent u =
     (case (map_of u ''prompt_tokens'', map_of u ''completion_tokens'', map_of u ''total_tokens'') of
        (Some p, Some c, Some t) \<Rightarrow> t = p + c
      | _ \<Rightarrow> True)"

definition validated_usage :: "pyval option \<Rightarrow> (string, int) dict" where
  "validated_usage v =
     (case v of
        Some (PDict d) \<Rightarrow>
          (let u = concat (map (\<lambda>n. case token_count (map_of d n) of None \<Rightarrow> [] | Some i \<Rightarrow> [(n, i)]) token_names)
           in if usage_consistent u then u else [])
      | _ \<Rightarrow> [])"

text \<open>Subscripts of decoded JSON: \<open>v[k]\<close> for a string and \<open>v[0]\<close>.\<close>

definition item_key :: "string \<Rightarrow> pyval \<Rightarrow> pyval pres" where
  "item_key k v =
     (case v of
        PDict d \<Rightarrow> (case map_of d k of None \<Rightarrow> Inl MissingKey | Some w \<Rightarrow> Inr w)
      | _ \<Rightarrow> Inl BadShape)"

definition item_first :: "pyval \<Rightarrow> pyval pres" where
  "item_first v =
     (case v of
        PList [] \<Rightarrow> Inl NoChoice
      | PList (x # _) \<Rightarrow> Inr x
      | PStr [] \<Rightarrow> Inl NoChoice
      | PStr (c # _) \<Rightarrow> Inr (PStr [c])
      | PDict _ \<Rightarrow> Inl MissingKey
      | _ \<Rightarrow> Inl BadShape)"

definition bind_p :: "'a pres \<Rightarrow> ('a \<Rightarrow> 'b pres) \<Rightarrow> 'b pres" where
  "bind_p r f = (case r of Inl e \<Rightarrow> Inl e | Inr x \<Rightarrow> f x)"

definition response_json :: "provider_env \<Rightarrow> bytes \<Rightarrow> pyval pres" where
  "response_json env b =
     (case px_json env b of
        Inl (BadJson pos) \<Rightarrow> Inl (JsonInvalid pos)
      | Inl BadEncoding \<Rightarrow> Inl (BadValue ''response is not text'')
      | Inr v \<Rightarrow> Inr v)"

text \<open>\<open>AgentProposal.model_validate_json\<close>: the shape by Pydantic, the constraints of the model here.\<close>

definition proposal_validate_json :: "provider_env \<Rightarrow> string \<Rightarrow> agent_proposal pres" where
  "proposal_validate_json env content =
     (case px_parse env content of
        Some p \<Rightarrow> if valid_proposal p then Inr p else Inl (ProposalInvalid (px_proposal_errors env content))
      | None \<Rightarrow> Inl (ProposalInvalid (px_proposal_errors env content)))"

definition body_usage :: "pyval \<Rightarrow> pyval option" where
  "body_usage body = (case body of PDict d \<Rightarrow> map_of d ''usage'' | _ \<Rightarrow> None)"

definition read_answer :: "provider_env \<Rightarrow> bytes \<Rightarrow> (agent_proposal \<times> (string, int) dict) pres" where
  "read_answer env b =
     bind_p (response_json env b) (\<lambda>body.
     bind_p (item_key ''choices'' body) (\<lambda>choices.
     bind_p (item_first choices) (\<lambda>choice.
     bind_p (item_key ''message'' choice) (\<lambda>message.
     bind_p (item_key ''content'' message) (\<lambda>content.
       case content of
         PStr s \<Rightarrow> bind_p (proposal_validate_json env s) (\<lambda>p. Inr (p, validated_usage (body_usage body)))
       | _ \<Rightarrow> Inl (BadValue ''provider response content must be a JSON string''))))))"

section \<open>One call\<close>

definition endpoint_url :: "provider_env \<Rightarrow> string" where
  "endpoint_url env = rev (dropWhile (\<lambda>c. c = CHR ''/'') (rev (px_base_url env))) @ ''/chat/completions''"

definition chat_request :: "provider_env \<Rightarrow> pyval list \<Rightarrow> http_request" where
  "chat_request env messages =
     \<lparr>hq_url = endpoint_url env, hq_authorization = ''Bearer '' @ px_api_key env,
      hq_json = PDict
        ([(''model'', PStr (px_model env)), (''messages'', PList messages),
          (''response_format'', PDict [(''type'', PStr ''json_schema''),
             (''json_schema'', PDict [(''name'', PStr ''agent_proposal''), (''strict'', PBool True),
                (''schema'', strict_json_schema (px_schema env))])])] @
         (case px_reasoning_effort env of None \<Rightarrow> [] | Some e \<Rightarrow> [(''reasoning_effort'', PStr e)]))\<rparr>"

text \<open>\<open>raise_for_status\<close> accepts the codes 200 to 299 and raises \<open>HTTPStatusError\<close> for every other.\<close>

definition read_reply :: "provider_env \<Rightarrow> http_reply \<Rightarrow> (agent_proposal \<times> (string, int) dict) pres" where
  "read_reply env reply =
     (case reply of
        Reply code b \<Rightarrow> if 200 \<le> code \<and> code \<le> 299 then read_answer env b else Inl (StatusError code)
      | ReplyTimeout \<Rightarrow> Inl RequestTimeout
      | ReplyError \<Rightarrow> Inl RequestFailed
      | ReplyOther \<Rightarrow> Inl ProviderOther)"

definition complete_once ::
  "provider_env \<Rightarrow> nat \<Rightarrow> agent_message list \<Rightarrow> (agent_proposal \<times> (string, int) dict) pres \<times> http_request list" where
  "complete_once env i messages =
     (case provider_messages (px_float_repr env) messages of
        Inl e \<Rightarrow> (Inl e, [])
      | Inr ms \<Rightarrow> (read_reply env (px_post env i (chat_request env ms)), [chat_request env ms]))"

text \<open>The constraints of \<open>ObservationEvent\<close> on the fields of a provider call.\<close>

definition valid_call_event :: "provider_call \<Rightarrow> bool" where
  "valid_call_event k \<longleftrightarrow>
     0 \<le> pk_duration_ms k \<and> 1 \<le> pk_call_index k \<and> pk_call_index k \<le> 2 \<and>
     (case pk_status_code k of None \<Rightarrow> True | Some c \<Rightarrow> 100 \<le> c \<and> c \<le> 599) \<and>
     list_all (\<lambda>(_, i). 0 \<le> i) (pk_usage k) \<and> usage_consistent (pk_usage k)"

definition emit_call ::
  "provider_env \<Rightarrow> nat \<Rightarrow> bool \<Rightarrow> outcome_code \<Rightarrow> int option \<Rightarrow> (string, int) dict \<Rightarrow> provider_event pres" where
  "emit_call env i retry outcome status usage =
     (let k = \<lparr>pk_outcome = outcome,
               pk_duration_ms = max 0 ((px_finished env i - px_started env i) div 1000000),
               pk_call_index = i, pk_validation_retry = retry, pk_status_code = status, pk_usage = usage\<rparr>
      in if valid_call_event k then Inr (ProviderCallCompleted k) else Inl (ProposalInvalid (px_event_errors env k)))"

fun repairable :: "provider_exn \<Rightarrow> bool" where
  "repairable (StatusError _) = False"
| "repairable RequestTimeout = False"
| "repairable RequestFailed = False"
| "repairable ProviderOther = False"
| "repairable (StructuredProposalValidationError _) = False"
| "repairable _ = True"

fun call_outcome :: "provider_exn \<Rightarrow> outcome_code \<times> int option" where
  "call_outcome (StatusError c) = (OC_HTTP_ERROR, Some c)"
| "call_outcome RequestTimeout = (OC_TIMEOUT, None)"
| "call_outcome RequestFailed = (OC_NETWORK_ERROR, None)"
| "call_outcome e = (if repairable e then OC_INVALID_SCHEMA else OC_FAILED, None)"

type_synonym provider_result = "agent_proposal pres \<times> provider_event list \<times> http_request list"

text \<open>\<open>_attempt\<close>: an event that does not validate raises in place of the result.\<close>

definition attempt :: "provider_env \<Rightarrow> nat \<Rightarrow> bool \<Rightarrow> agent_message list \<Rightarrow> provider_result" where
  "attempt env i retry messages =
     (case complete_once env i messages of
        (Inl e, posts) \<Rightarrow>
          (case emit_call env i retry (fst (call_outcome e)) (snd (call_outcome e)) [] of
             Inl e' \<Rightarrow> (Inl e', [], posts)
           | Inr ev \<Rightarrow> (Inl e, [ev], posts))
      | (Inr (p, usage), posts) \<Rightarrow>
          (case emit_call env i retry OC_SUCCESS None usage of
             Inl e' \<Rightarrow> (Inl e', [], posts)
           | Inr ev \<Rightarrow> (Inr p, [ev], posts)))"

definition feedback_message :: "string \<Rightarrow> agent_message" where
  "feedback_message s =
     \<lparr>am_role = USER, am_content = Some s, am_proposal = None, am_tool_call = None, am_tool_result = PNone\<rparr>"

definition safe_feedback :: "provider_env \<Rightarrow> provider_exn \<Rightarrow> string" where
  "safe_feedback env e = redact_secret (validation_feedback e) (px_api_key env)"

definition failure_text :: string where
  "failure_text = ''provider returned an invalid structured proposal after one retry: ''"

definition complete :: "provider_env \<Rightarrow> agent_message list \<Rightarrow> provider_result" where
  "complete env messages =
     (case attempt env 1 False messages of
        (Inr p, es, posts) \<Rightarrow> (Inr p, es, posts)
      | (Inl e, es, posts) \<Rightarrow>
          if \<not> repairable e then (Inl e, es, posts)
          else
            (case attempt env 2 True (messages @ [feedback_message (safe_feedback env e)]) of
               (Inr p, es', posts') \<Rightarrow> (Inr p, es @ es', posts @ posts')
             | (Inl e', es', posts') \<Rightarrow>
                 if \<not> repairable e' then (Inl e', es @ es', posts @ posts')
                 else (Inl (StructuredProposalValidationError (failure_text @ safe_feedback env e')),
                       es @ es' @ [ProviderStructuredOutputFailed], posts @ posts')))"

text \<open>The client as the agent loop sees it.\<close>

fun exn_of_provider :: "provider_exn \<Rightarrow> exn" where
  "exn_of_provider (StatusError c) = HttpStatusError c"
| "exn_of_provider RequestTimeout = HttpTransportError"
| "exn_of_provider RequestFailed = HttpTransportError"
| "exn_of_provider (StructuredProposalValidationError s) = RuntimeError s"
| "exn_of_provider _ = OtherException"

definition provider_llm :: "provider_env \<Rightarrow> llm_client" where
  "provider_llm env messages =
     (case fst (complete env messages) of Inl e \<Rightarrow> Inl (exn_of_provider e) | Inr p \<Rightarrow> Inr p)"

end
