(* ===== verification/Provider_Safety.thy ===== *)
theory Provider_Safety
  imports Provider Worker
begin

text \<open>
  What the provider client guarantees and what the agent loop guarantees to it: the transcript of a run
  can always be translated, a call sends at most two requests and returns a valid proposal or an error
  of a known class, and the secret of the client leaves it in the authorization header only.
\<close>

section \<open>Redaction\<close>

lemma sublist_split:
  assumes "x \<notin> set u" "sublist u (a @ x # b)"
  shows "sublist u a \<or> sublist u b"
proof -
  from assms(2) consider "sublist u a" | "sublist u (x # b)"
    | u1 u2 where "u = u1 @ u2" "suffix u1 a" "prefix u2 (x # b)"
    by (auto simp: sublist_append)
  then show ?thesis
  proof cases
    case 2
    then show ?thesis using assms(1) by (auto simp: sublist_Cons_right prefix_Cons)
  next
    case 3
    then show ?thesis using assms(1) by (auto simp: prefix_Cons)
  qed simp
qed

lemma py_replace_hit:
  "old \<noteq> [] \<Longrightarrow> prefix old (c # cs) \<Longrightarrow>
     py_replace old new (c # cs) = new @ py_replace old new (drop (length old) (c # cs))"
  by (simp only: py_replace.simps) simp

lemma py_replace_miss:
  "\<not> (old \<noteq> [] \<and> prefix old (c # cs)) \<Longrightarrow> py_replace old new (c # cs) = c # py_replace old new cs"
  by (simp only: py_replace.simps if_False)

declare py_replace.simps(2) [simp del]

lemma prefix_py_replace:
  assumes "CHR ''['' \<notin> set u" "prefix u (py_replace old (CHR ''['' # new) s)"
  shows "prefix u s"
  using assms
proof (induction old "CHR ''['' # new" s arbitrary: u rule: py_replace.induct)
  case (2 old c cs)
  show ?case
  proof (cases "old \<noteq> [] \<and> prefix old (c # cs)")
    case True
    then show ?thesis using 2(3,4) by (auto simp: py_replace_hit prefix_Cons)
  next
    case False
    then show ?thesis using 2(2) [OF False] 2(3,4) unfolding py_replace_miss [OF False]
      by (auto simp: prefix_Cons)
  qed
qed simp

text \<open>A secret without spaces and brackets that is no part of the fixed texts around it.\<close>

definition opaque :: "string \<Rightarrow> bool" where
  "opaque s \<longleftrightarrow> s \<noteq> [] \<and> CHR ''['' \<notin> set s \<and> CHR '']'' \<notin> set s \<and> CHR '' '' \<notin> set s \<and>
     \<not> sublist s ''REDACTED'' \<and> \<not> sublist s failure_text"

lemma sublist_redacted:
  assumes "opaque s" "sublist s (''[REDACTED]'' @ t)"
  shows "sublist s t"
proof -
  have "sublist s ([] @ CHR ''['' # ''REDACTED'' @ CHR '']'' # t)"
    using assms(2) by simp
  then have "sublist s (''REDACTED'' @ CHR '']'' # t)"
    using assms(1) sublist_split [of "CHR ''[''" s "[]"] by (auto simp: opaque_def)
  then show ?thesis
    using assms(1) sublist_split [of "CHR '']''" s "''REDACTED''" t] by (auto simp: opaque_def)
qed

lemma py_replace_opaque:
  assumes "opaque s"
  shows "\<not> sublist s (py_replace s ''[REDACTED]'' t)"
  using assms
proof (induction s "''[REDACTED]''" t rule: py_replace.induct)
  case (1 s)
  then show ?case by (simp add: opaque_def)
next
  case (2 s c cs)
  show ?case
  proof (cases "s \<noteq> [] \<and> prefix s (c # cs)")
    case True
    show ?thesis
    proof
      assume "sublist s (py_replace s ''[REDACTED]'' (c # cs))"
      then have "sublist s (py_replace s ''[REDACTED]'' (drop (length s) (c # cs)))"
        using py_replace_hit [of s c cs] True sublist_redacted [OF 2(3)] by metis
      then show False using 2(1) [OF True 2(3)] by simp
    qed
  next
    case False
    then have "\<not> prefix s (py_replace s ''[REDACTED]'' (c # cs))"
      using 2(3) prefix_py_replace [of s s "''REDACTED]''" "c # cs"] by (auto simp: opaque_def)
    then show ?thesis
      using 2(2) [OF False 2(3)] unfolding py_replace_miss [OF False] by (simp add: sublist_Cons_right)
  qed
qed

lemma safe_feedback_opaque:
  assumes "opaque (px_api_key env)"
  shows "\<not> sublist (px_api_key env) (safe_feedback env e)"
    and "\<not> sublist (px_api_key env) (failure_text @ safe_feedback env e)"
proof -
  have r: "\<not> sublist (px_api_key env) (safe_feedback env e)"
    using assms py_replace_opaque [OF assms] by (simp add: safe_feedback_def redact_secret_def opaque_def)
  obtain a where a: "failure_text = a @ '' ''"
    by (simp add: failure_text_def)
  have "sublist a failure_text" by (simp add: a)
  then have "\<not> sublist (px_api_key env) a"
    using assms sublist_order.order_trans [of "px_api_key env" a] by (auto simp: opaque_def)
  then show "\<not> sublist (px_api_key env) (failure_text @ safe_feedback env e)"
    using r assms sublist_split [of "CHR '' ''" "px_api_key env" a "safe_feedback env e"] by (auto simp: a opaque_def)
  show "\<not> sublist (px_api_key env) (safe_feedback env e)" by (rule r)
qed

section \<open>The transcript of a run\<close>

text \<open>Transcripts of instructions followed by completed tool calls.\<close>

definition plain_message :: "agent_message \<Rightarrow> bool" where
  "plain_message m \<longleftrightarrow> am_role m \<in> {SYSTEM, USER} \<and> am_content m \<noteq> None"

inductive well_paired :: "agent_message list \<Rightarrow> bool" where
  silent: "well_paired []"
| plain: "plain_message m \<Longrightarrow> well_paired ms \<Longrightarrow> well_paired (m # ms)"
| turn: "json_value (PDict (tc_arguments c)) \<Longrightarrow> tool_call_eq c c \<Longrightarrow> json_value v \<Longrightarrow> well_paired ms \<Longrightarrow>
    well_paired (assistant_message p (Some c) # tool_message c v # ms)"

lemma well_paired_append: "well_paired ms \<Longrightarrow> well_paired ns \<Longrightarrow> well_paired (ms @ ns)"
  by (induction rule: well_paired.induct) (auto intro: well_paired.intros)

lemma well_paired_plain: "list_all plain_message ms \<Longrightarrow> well_paired ms"
  by (induction ms) (auto intro: well_paired.intros)

lemma provider_json_total: "json_value v \<Longrightarrow> \<exists>s. provider_json fl v = Inr s"
  using canonical_json_total [of v fl] by (auto simp: provider_json_def)

lemma provider_message_plain:
  "plain_message m \<Longrightarrow> \<exists>x. provider_message fl i None m = Inr (x, None)"
  by (auto simp: plain_message_def provider_message_def user_content_def)

lemma provider_message_turn:
  assumes "json_value (PDict (tc_arguments c))" "tool_call_eq c c" "json_value v"
  shows "\<exists>x y. provider_message fl i None (assistant_message p (Some c)) = Inr (x, Some (call_id i, c)) \<and>
    provider_message fl j (Some (call_id i, c)) (tool_message c v) = Inr (y, None)"
  using assms(2) provider_json_total [OF assms(1), of fl] provider_json_total [OF assms(3), of fl]
  by (auto simp: provider_message_def assistant_message_def tool_message_def tool_calls_def)

lemma well_paired_translates: "well_paired ms \<Longrightarrow> \<exists>xs. translate fl i None ms = Inr xs"
proof (induction arbitrary: i rule: well_paired.induct)
  case (plain m ms)
  obtain x xs where "provider_message fl i None m = Inr (x, None)" "translate fl (Suc i) None ms = Inr xs"
    using provider_message_plain [OF plain.hyps(1)] plain.IH by blast
  then show ?case by simp
next
  case (turn c v ms p)
  obtain x y xs where "provider_message fl i None (assistant_message p (Some c)) = Inr (x, Some (call_id i, c))"
    "provider_message fl (Suc i) (Some (call_id i, c)) (tool_message c v) = Inr (y, None)"
    "translate fl (Suc (Suc i)) None ms = Inr xs"
    using provider_message_turn [OF turn.hyps(1-3)] turn.IH by blast
  then show ?case by simp
qed simp

lemma proposal_tool_call_json:
  "proposal_tool_call_of p = Inr (Some c) \<Longrightarrow> json_value (PDict (tc_arguments c))"
  by (auto simp: proposal_tool_call_of_def as_tool_call_def mk_tool_call_def freeze_data_spec
      simp del: json_value.simps freeze_data.simps split: list.splits sum.splits pyval.splits)

text \<open>A provider that fails on every transcript the client could not translate.\<close>

definition checked_llm :: "(rat \<Rightarrow> string) \<Rightarrow> llm_client \<Rightarrow> llm_client" where
  "checked_llm fl llm ms = (case provider_messages fl ms of Inl e \<Rightarrow> Inl OtherException | Inr _ \<Rightarrow> llm ms)"

lemma checked_well_paired: "well_paired ms \<Longrightarrow> checked_llm fl llm ms = llm ms"
  using well_paired_translates [of ms fl 0] by (auto simp: checked_llm_def provider_messages_def)

text \<open>The interfaces of the loop: a provider of valid proposals and tools with JSON results.\<close>

locale proposal_source =
  fixes llm :: llm_client
  assumes proposals_valid: "llm ms = Inr p \<Longrightarrow> valid_proposal p"

locale json_tools =
  fixes tools :: "'s tool_executor"
  assumes results_json: "te_execute tools p c s = (Inr ex, s') \<Longrightarrow> json_value (ter_data ex)"

locale conversation = proposal_source llm + json_tools tools
  for llm :: llm_client and tools :: "'s tool_executor"
begin

lemma execute_step_data:
  assumes "execute_step tools p c st = Running st'"
  shows "\<exists>v. json_value v \<and> ls_messages st' = ls_messages st @ [tool_message c v]"
  using assms results_json
  by (fastforce simp: execute_step_def finish_result_def tool_message_def Let_def
      split: sum.splits prod.splits tool_disposition.splits dest!: append_evidence_spec)

lemma tool_step_data:
  assumes "tool_step tools p c st = Running st'"
  shows "\<exists>v. json_value v \<and> ls_messages st' = ls_messages st @ [tool_message c v]"
  using assms by (auto simp: tool_step_def finish_result_def Let_def split: option.splits if_splits
      dest!: execute_step_data)

lemma iteration_data:
  assumes "loop_iteration llm tools st = Running st'"
  shows "\<exists>p c v. valid_proposal p \<and> proposal_tool_call_of p = Inr (Some c) \<and> json_value v \<and>
    ls_messages st' = ls_messages st @ [assistant_message p (Some c), tool_message c v]"
  using assms proposals_valid
  by (fastforce simp: loop_iteration_def finish_result_def Let_def assistant_message_def terminal_step_not_Running
      split: sum.splits option.splits if_splits dest!: tool_step_data)

lemma iteration_well_paired:
  assumes "loop_iteration llm tools st = Running st'" "well_paired (ls_messages st)"
  shows "well_paired (ls_messages st')"
proof -
  from iteration_data [OF assms(1)] obtain p c v where *: "valid_proposal p" "proposal_tool_call_of p = Inr (Some c)"
    "json_value v" "ls_messages st' = ls_messages st @ [assistant_message p (Some c), tool_message c v]"
    by blast
  then have "well_paired [assistant_message p (Some c), tool_message c v]"
    by (intro well_paired.intros proposal_tool_call_refl [OF *(1,2)] proposal_tool_call_json [OF *(2)])
  then show ?thesis using * assms(2) by (simp add: well_paired_append)
qed

lemma run_loop_checked:
  "well_paired (ls_messages st) \<Longrightarrow> run_loop (checked_llm fl llm) tools n st = run_loop llm tools n st"
proof (induction "n - ls_steps st" arbitrary: st rule: less_induct)
  case less
  have same: "loop_iteration (checked_llm fl llm) tools st = loop_iteration llm tools st"
    by (simp add: loop_iteration_def checked_well_paired [OF less.prems])
  show ?case
  proof (cases "ls_steps st < n")
    case True
    have "run_loop (checked_llm fl llm) tools n st' = run_loop llm tools n st'"
      if "loop_iteration llm tools st = Running st'" for st'
      using less.hyps [of st'] True loop_iteration_Running_steps [OF that] iteration_well_paired [OF that less.prems]
      by simp
    then show ?thesis
      by (subst (1 2) run_loop.simps) (simp add: same split: step_result.split)
  next
    case False
    then show ?thesis by (subst (1 2) run_loop.simps) simp
  qed
qed

end

section \<open>The answers of the client\<close>

lemma token_count_nonneg: "token_count x = Some i \<Longrightarrow> 0 \<le> i"
  by (induction x rule: token_count.induct) (auto split: if_splits)

lemma validated_usage_ok:
  "list_all (\<lambda>(_, i). 0 \<le> i) (validated_usage v) \<and> usage_consistent (validated_usage v)"
proof -
  have "list_all (\<lambda>(_, i). 0 \<le> i)
      (concat (map (\<lambda>n. case token_count (map_of d n) of None \<Rightarrow> [] | Some i \<Rightarrow> [(n, i)]) ns))" for d and ns :: "string list"
    by (induction ns) (auto simp: token_count_nonneg split: option.split)
  moreover have "usage_consistent []" by (simp add: usage_consistent_def)
  ultimately show ?thesis
    by (auto simp: validated_usage_def Let_def split: option.split pyval.split)
qed

lemma read_answer_valid:
  assumes "read_answer env b = Inr (p, u)"
  shows "valid_proposal p \<and> list_all (\<lambda>(_, i). 0 \<le> i) u \<and> usage_consistent u"
proof -
  from assms obtain v where "valid_proposal p" "u = validated_usage v"
    by (auto simp: read_answer_def bind_p_def proposal_validate_json_def
        split: sum.splits pyval.splits option.splits if_splits)
  then show ?thesis using validated_usage_ok by simp
qed

lemma complete_once_valid:
  "complete_once env i ms = (Inr (p, u), posts) \<Longrightarrow>
     valid_proposal p \<and> list_all (\<lambda>(_, i). 0 \<le> i) u \<and> usage_consistent u"
  using read_answer_valid [of env _ p u]
  by (auto simp: complete_once_def read_reply_def split: sum.splits http_reply.splits if_splits)

text \<open>The event of a successful call always validates; the one of a failed call unless the status is odd.\<close>

lemma emit_success:
  assumes "1 \<le> i" "i \<le> 2" "list_all (\<lambda>(_, i). 0 \<le> i) u" "usage_consistent u"
  shows "\<exists>ev. emit_call env i retry OC_SUCCESS None u = Inr ev"
  using assms by (simp add: emit_call_def valid_call_event_def Let_def)

lemma emit_failure:
  assumes "1 \<le> i" "i \<le> 2" "case status of None \<Rightarrow> True | Some c \<Rightarrow> 100 \<le> c \<and> c \<le> 599"
  shows "\<exists>ev. emit_call env i retry oc status [] = Inr ev"
  using assms by (simp add: emit_call_def valid_call_event_def usage_consistent_def Let_def)

fun exhausted :: "provider_exn \<Rightarrow> bool" where
  "exhausted (StructuredProposalValidationError _) = True"
| "exhausted _ = False"

lemma provider_exn_of_exhausted [simp]: "\<not> exhausted (provider_exn_of e)"
  by (cases e) simp_all

lemma provider_json_exhausted: "provider_json fl v = Inl e \<Longrightarrow> \<not> exhausted e"
  by (auto simp: provider_json_def split: sum.splits)

lemma provider_message_exhausted: "provider_message fl i pending m = Inl e \<Longrightarrow> \<not> exhausted e"
  by (auto simp: provider_message_def user_content_def tool_calls_def
      split: if_splits message_role.splits sum.splits option.splits dest: provider_json_exhausted)

lemma translate_exhausted: "translate fl i pending ms = Inl e \<Longrightarrow> \<not> exhausted e"
  by (induction ms arbitrary: i pending) (auto split: sum.splits prod.splits dest: provider_message_exhausted)

lemma read_answer_exhausted: "read_answer env b = Inl e \<Longrightarrow> \<not> exhausted e"
  by (auto simp: read_answer_def bind_p_def response_json_def item_key_def item_first_def proposal_validate_json_def
      split: sum.splits decode_error.splits pyval.splits list.splits option.splits if_splits)

lemma complete_once_exhausted: "complete_once env i ms = (Inl e, posts) \<Longrightarrow> \<not> exhausted e"
  by (auto simp: complete_once_def provider_messages_def read_reply_def
      split: sum.splits http_reply.splits if_splits dest: translate_exhausted read_answer_exhausted)

definition sent :: "provider_env \<Rightarrow> agent_message list \<Rightarrow> http_request list" where
  "sent env ms = (case provider_messages (px_float_repr env) ms of Inl _ \<Rightarrow> [] | Inr xs \<Rightarrow> [chat_request env xs])"

lemma attempt_spec:
  assumes "attempt env i retry ms = (r, es, posts)" "1 \<le> i" "i \<le> 2"
  shows "posts = sent env ms \<and> (\<forall>p. r = Inr p \<longrightarrow> valid_proposal p) \<and>
    (\<forall>e. r = Inl e \<longrightarrow> \<not> exhausted e) \<and> length es \<le> 1"
proof -
  obtain q posts' where q: "complete_once env i ms = (q, posts')" by fastforce
  have "posts' = sent env ms"
    using q by (auto simp: complete_once_def sent_def split: sum.splits)
  then show ?thesis
    using assms q complete_once_valid [of env i ms] complete_once_exhausted [of env i ms]
    by (auto simp: attempt_def emit_call_def Let_def split: sum.splits prod.splits if_splits)
qed

lemma translate_snoc:
  "translate fl i pending (ms @ [m]) = Inr ys \<Longrightarrow>
     \<exists>xs y pending' pending'' j. translate fl i pending ms = Inr xs \<and> ys = xs @ [y] \<and>
       provider_message fl j pending' m = Inr (y, pending'')"
proof (induction ms arbitrary: i pending ys)
  case Nil
  then show ?case by (fastforce split: sum.splits)
next
  case (Cons a ms)
  from Cons.prems obtain x p zs where "provider_message fl i pending a = Inr (x, p)"
    "translate fl (Suc i) p (ms @ [m]) = Inr zs" "ys = x # zs"
    by (auto split: sum.splits)
  with Cons.IH [of "Suc i" p zs] show ?case by fastforce
qed

lemma repair_request:
  assumes "provider_messages fl (ms @ [feedback_message s]) = Inr ys"
  shows "\<exists>xs. provider_messages fl ms = Inr xs \<and> ys = xs @ [chat ''user'' s []]"
  using translate_snoc [OF assms [unfolded provider_messages_def]]
  by (auto simp: provider_messages_def provider_message_def feedback_message_def user_content_def text_or_empty_def
      split: if_splits)

lemma repairable_not_exhausted: "exhausted e \<Longrightarrow> \<not> repairable e"
  by (cases e) simp_all

lemma repair_sent:
  "sent env ms @ sent env (ms @ [feedback_message s]) \<in>
     {[], sent env ms} \<union> {[chat_request env xs, chat_request env (xs @ [chat ''user'' s []])] | xs. sent env ms = [chat_request env xs]}"
  using repair_request [of "px_float_repr env" ms s]
  by (auto simp: sent_def split: sum.splits)

definition settled :: "agent_proposal pres \<Rightarrow> bool" where
  "settled r \<longleftrightarrow> (\<forall>e. r = Inl e \<longrightarrow> \<not> repairable e)"

lemma complete_cases [consumes 1, case_names first second twice]:
  assumes "complete env ms = (r, es, posts)"
  obtains "attempt env 1 False ms = (r, es, posts)" "settled r"
  | e es1 posts1 es2 posts2 where "attempt env 1 False ms = (Inl e, es1, posts1)"
      "attempt env 2 True (ms @ [feedback_message (safe_feedback env e)]) = (r, es2, posts2)"
      "posts = posts1 @ posts2" "settled r"
  | e es1 posts1 e' es2 posts2 where "attempt env 1 False ms = (Inl e, es1, posts1)"
      "attempt env 2 True (ms @ [feedback_message (safe_feedback env e)]) = (Inl e', es2, posts2)"
      "posts = posts1 @ posts2" "es = es1 @ es2 @ [ProviderStructuredOutputFailed]"
      "r = Inl (StructuredProposalValidationError (failure_text @ safe_feedback env e'))"
  using assms by (auto simp: complete_def settled_def split: sum.splits prod.splits if_splits)

lemma sent_keys: "q \<in> set (sent env ms) \<Longrightarrow>
    hq_url q = endpoint_url env \<and> hq_authorization q = ''Bearer '' @ px_api_key env"
  by (auto simp: sent_def chat_request_def split: sum.splits)

lemma sent_length: "length (sent env ms) \<le> 1"
  by (auto simp: sent_def split: sum.splits)

lemma complete_requests:
  assumes "complete env ms = (r, es, posts)"
  shows "posts = sent env ms \<or> (\<exists>e. posts = sent env ms @ sent env (ms @ [feedback_message (safe_feedback env e)]))"
  using assms
  by (cases rule: complete_cases) (auto dest!: attempt_spec)

text \<open>
  C11. What a call of the provider client can do. It sends at most two requests, both to the configured
  endpoint and with the configured key; the second one, if any, repeats the first conversation and adds
  one message of feedback. It returns a proposal that satisfies the schema, or an error that is none of
  the repairable ones; an answer that is invalid twice is reported by an event. For a key without spaces
  and brackets that occurs in none of the fixed texts, neither the feedback nor the final error contains
  the key.
\<close>

theorem provider_complete:
  assumes "complete env ms = (r, es, posts)" "opaque (px_api_key env)"
  shows "length posts \<le> 2 \<and>
    (\<forall>q \<in> set posts. hq_url q = endpoint_url env \<and> hq_authorization q = ''Bearer '' @ px_api_key env) \<and>
    (\<forall>q q'. posts = [q, q'] \<longrightarrow> (\<exists>xs s. q = chat_request env xs \<and>
        q' = chat_request env (xs @ [chat ''user'' s []]) \<and> \<not> sublist (px_api_key env) s)) \<and>
    (\<forall>p. r = Inr p \<longrightarrow> valid_proposal p) \<and> (\<forall>e. r = Inl e \<longrightarrow> \<not> repairable e) \<and>
    (\<forall>s. r = Inl (StructuredProposalValidationError s) \<longrightarrow>
        \<not> sublist (px_api_key env) s \<and> ProviderStructuredOutputFailed \<in> set es)"
proof -
  from complete_requests [OF assms(1)] have sent: "length posts \<le> 2 \<and>
      (\<forall>q \<in> set posts. hq_url q = endpoint_url env \<and> hq_authorization q = ''Bearer '' @ px_api_key env) \<and>
      (\<forall>q q'. posts = [q, q'] \<longrightarrow> (\<exists>xs s. q = chat_request env xs \<and>
        q' = chat_request env (xs @ [chat ''user'' s []]) \<and> \<not> sublist (px_api_key env) s))"
  proof
    assume "posts = sent env ms"
    then show ?thesis using sent_length [of env ms] sent_keys by fastforce
  next
    assume "\<exists>e. posts = sent env ms @ sent env (ms @ [feedback_message (safe_feedback env e)])"
    then obtain e where e: "posts = sent env ms @ sent env (ms @ [feedback_message (safe_feedback env e)])" ..
    from repair_sent [of env ms "safe_feedback env e"] safe_feedback_opaque(1) [OF assms(2), of e]
      sent_length [of env ms] show ?thesis
      unfolding e [symmetric]
      using e sent_keys by (auto simp: sent_length chat_request_def)
  qed
  from assms(1) have "(\<forall>p. r = Inr p \<longrightarrow> valid_proposal p) \<and> settled r \<and>
    (\<forall>s. r = Inl (StructuredProposalValidationError s) \<longrightarrow>
        \<not> sublist (px_api_key env) s \<and> ProviderStructuredOutputFailed \<in> set es)"
  proof (cases rule: complete_cases)
    case first
    with attempt_spec [OF first(1)] show ?thesis by fastforce
  next
    case (second e es1 posts1 es2 posts2)
    with attempt_spec [OF second(2)] show ?thesis by fastforce
  next
    case (twice e es1 posts1 e' es2 posts2)
    then show ?thesis using safe_feedback_opaque(2) [OF assms(2)] by (simp add: settled_def)
  qed
  with sent show ?thesis unfolding settled_def by (elim conjE) (intro conjI; assumption)
qed

text \<open>
  A status code outside the range of the event model is not reported as a status error: the event of
  the call fails to validate, the client takes that for an invalid proposal, asks again and reports an
  invalid structured proposal in the end.
\<close>

lemma odd_status_attempt:
  assumes "well_paired ms" "px_post env = (\<lambda>i q. Reply 999 b)"
  shows "\<exists>d posts. attempt env i retry ms = (Inl (ProposalInvalid d), [], posts)"
proof -
  obtain xs where "provider_messages (px_float_repr env) ms = Inr xs"
    using well_paired_translates [OF assms(1)] by (auto simp: provider_messages_def)
  then show ?thesis
    by (simp add: attempt_def complete_once_def read_reply_def assms(2) emit_call_def valid_call_event_def Let_def)
qed

lemma odd_status_hidden:
  assumes "well_paired ms" "px_post env = (\<lambda>i q. Reply 999 b)"
  shows "\<exists>s posts. complete env ms = (Inl (StructuredProposalValidationError s), [ProviderStructuredOutputFailed], posts)"
proof -
  obtain d posts where 1: "attempt env 1 False ms = (Inl (ProposalInvalid d), [], posts)"
    using odd_status_attempt [OF assms] by blast
  define fb where "fb = feedback_message (safe_feedback env (ProposalInvalid d))"
  have "well_paired (ms @ [fb])"
    by (rule well_paired_append [OF assms(1) well_paired_plain]) (simp add: fb_def plain_message_def feedback_message_def)
  then obtain d' posts' where "attempt env 2 True (ms @ [fb]) = (Inl (ProposalInvalid d'), [], posts')"
    using odd_status_attempt [OF _ assms(2)] by blast
  with 1 show ?thesis by (simp add: complete_def fb_def)
qed

section \<open>The client in the agent loop\<close>

lemma provider_llm_valid: "provider_llm env ms = Inr p \<Longrightarrow> valid_proposal p"
proof -
  assume "provider_llm env ms = Inr p"
  then obtain es posts where "complete env ms = (Inr p, es, posts)"
    by (cases "complete env ms") (auto simp: provider_llm_def split: sum.splits)
  then show ?thesis by (cases rule: complete_cases) (auto dest!: attempt_spec)
qed

interpretation provider: proposal_source "provider_llm env" for env
  by unfold_locales (rule provider_llm_valid)

lemma gated_results_json:
  "te_execute (gated_tools x) p c s = (Inr ex, s') \<Longrightarrow> json_value (ter_data ex)"
  using executor_execute_spec [of x p c s "Inr ex" s']
  by (simp add: gated_tools_def call_spec_def evidence_ok_def ter_wf_def)

interpretation gated: json_tools "gated_tools x" for x
  by unfold_locales (rule gated_results_json)

interpretation client_run: conversation "provider_llm env" "gated_tools x" for env x
  by unfold_locales

lemma initial_messages_plain: "initial_messages env config source compiled = Inr ms \<Longrightarrow> list_all plain_message ms"
  by (auto simp: initial_messages_def system_message_def build_system_message_def plain_message_def list_all_iff
      bind_res_Inr_iff)

lemma factory_messages_plain: "factory_build env job = (Inr (Ready rd), es) \<Longrightarrow> list_all plain_message (rd_messages rd)"
  by (auto simp: factory_build_def ready_runtime_of_def bind_res_Inr_iff Let_def
      split: sum.splits prod.splits if_splits preflight_result.splits dest!: initial_messages_plain)

text \<open>
  C10. The agent loop and the provider client fit together. In every run that the factory has prepared for
  a claimed job, whatever the provider answers and whatever the tools do, each transcript the loop hands
  to the client can be translated: every tool call is followed by its own result and all data is JSON. A
  client that crashed on any other transcript would make no difference to the run.
\<close>

theorem provider_conversation:
  assumes "factory_build renv job = (Inr (Ready rd), es)"
  shows "agent_run (checked_llm (px_float_repr env) (provider_llm env)) (gated_tools (rd_executor rd)) n (rd_messages rd) s =
    agent_run (provider_llm env) (gated_tools (rd_executor rd)) n (rd_messages rd) s"
  using client_run.run_loop_checked [of "initial_loop_state (rd_messages rd) s"]
    well_paired_plain [OF factory_messages_plain [OF assms]]
  by (simp add: agent_run_def initial_loop_state_def)

end
