(* ===== verification/Provider_Examples.thy ===== *)
theory Provider_Examples
  imports Provider_Safety Examples
begin

text \<open>The provider client and the run of a claimed job, at a concrete tenant and a concrete provider.\<close>

text \<open>A provider whose first answer is no JSON and whose second one is a proposal.\<close>

definition demo_answer :: pyval where
  "demo_answer =
     PDict [(''choices'', PList [PDict [(''message'', PDict [(''content'', PStr ''{}'')])]]),
            (''usage'', PDict [(''prompt_tokens'', PInt 3), (''completion_tokens'', PInt 2), (''total_tokens'', PInt 6)])]"

definition demo_provider :: provider_env where
  "demo_provider =
     \<lparr>px_base_url = ''https://llm/'', px_api_key = ''sk-4711'', px_model = ''m'', px_reasoning_effort = None,
      px_float_repr = (\<lambda>_. []), px_schema = PDict [(''type'', PStr ''object''), (''properties'', PDict [(''a'', PDict [])])],
      px_post = (\<lambda>i q. Reply 200 (if i = 1 then [] else [0])),
      px_json = (\<lambda>b. if b = [] then Inl (BadJson 0) else Inr demo_answer),
      px_parse = (\<lambda>_. Some plain_proposal), px_proposal_errors = (\<lambda>_. []), px_event_errors = (\<lambda>_. []),
      px_started = (\<lambda>_. 0), px_finished = (\<lambda>i. 5000000 * int i)\<rparr>"

lemma demo_opaque: "opaque (px_api_key demo_provider)"
  by code_simp

theorem provider_complete_witness:
  "\<exists>es q q'. complete demo_provider [] = (Inr plain_proposal, es, [q, q']) \<and>
     hq_url q = ''https://llm/chat/completions'' \<and> (\<exists>xs s. q' = chat_request demo_provider (xs @ [chat ''user'' s []]) \<and>
       \<not> sublist ''sk-4711'' s)"
proof -
  have r: "fst (complete demo_provider []) = Inr plain_proposal" by code_simp
  have "length (snd (snd (complete demo_provider []))) = 2" by code_simp
  then obtain q q' where "snd (snd (complete demo_provider [])) = [q, q']"
    by (auto simp: length_Suc_conv numeral_2_eq_2)
  with r obtain es where c: "complete demo_provider [] = (Inr plain_proposal, es, [q, q'])"
    by (cases "complete demo_provider []") auto
  have k: "px_api_key demo_provider = ''sk-4711''" "endpoint_url demo_provider = ''https://llm/chat/completions''"
    by code_simp+
  from provider_complete [OF c demo_opaque] c show ?thesis unfolding k by fastforce
qed

lemma demo_factory: "\<exists>rd es. factory_build demo_renv (claimed_of demo_running_job) = (Inr (Ready rd), es)"
proof -
  have "cp_config demo_profile = demo_config" by code_simp
  then have f: "re_profiles demo_renv = demo_env" "rp_compiled demo_resolved = demo_profile" "cp_config demo_profile = demo_config"
    by (simp_all add: demo_renv_def demo_resolved_def)
  have c: "cj_tenant_config_snapshot (claimed_of demo_running_job) = PDict (config_model_dump demo_config)"
    "cj_tenant_config_sha256 (claimed_of demo_running_job) = demo_sha256 []"
    "cj_source_snapshot (claimed_of demo_running_job) = PDict (source_snapshot demo_source)"
    "risk_from_snapshot (cj_risk_signals (claimed_of demo_running_job)) = Inr False"
    by (simp_all add: demo_rows claimed_of_def risk_from_snapshot_def)
  have s: "trusted_source_from_snapshot (PDict (source_snapshot demo_source)) = Inr demo_source"
    by (rule trusted_source_round_trip) (simp add: demo_source_def)
  have d: "decode_job demo_renv (claimed_of demo_running_job) = Inr (demo_source, demo_resolved)"
    by (simp add: decode_job_def c s f demo_persisted_eq)
  have p: "preflight_document demo_source demo_config (Some demo_profile) = ContinuePreflight"
    by code_simp
  have "json_value (PDict (catalog demo_renv demo_config (Some demo_profile)))" "json_value (PDict (source_data demo_source))"
    by code_simp+
  then obtain x y where "json_message demo_renv (catalog demo_renv demo_config (Some demo_profile)) = Inr x"
    "json_message demo_renv (source_data demo_source) = Inr y"
    unfolding json_message_def using canonical_json_total by blast
  then obtain ms where "initial_messages demo_renv demo_config demo_source (Some demo_profile) = Inr ms"
    by (auto simp: initial_messages_def bind_res_Inr_iff)
  then show ?thesis
    by (simp add: factory_build_def d p f c ready_runtime_of_def Let_def)
qed

theorem provider_conversation_witness:
  "\<exists>rd es. factory_build demo_renv (claimed_of demo_running_job) = (Inr (Ready rd), es) \<and>
     agent_run (checked_llm (px_float_repr demo_provider) (provider_llm demo_provider)) (gated_tools (rd_executor rd)) 8
       (rd_messages rd) demo_port =
     agent_run (provider_llm demo_provider) (gated_tools (rd_executor rd)) 8 (rd_messages rd) demo_port"
  using demo_factory provider_conversation [where env = demo_provider and n = 8 and s = demo_port] by blast

end
