(* ===== verification/Transport.thy ===== *)
theory Transport
  imports Auth
begin

text \<open>
  The two bounded loops at the edge of the service: the retries of \<open>app/runtime/retry.py\<close> and the
  body limit of \<open>app/api/body_limit.py\<close>.
\<close>

section \<open>Retries of an HTTP operation\<close>

record retry_policy =
  ry_max_retries :: int
  ry_delays :: "rat list"

definition mk_retry_policy :: "int \<Rightarrow> rat list \<Rightarrow> retry_policy res" where
  "mk_retry_policy n delays =
     (if n < 0 then Inl (ValueError ''max_retries must be non-negative'')
      else if int (length delays) < n then Inl (ValueError ''delays must cover every retry'')
      else if list_ex (\<lambda>d. d < 0) delays then Inl (ValueError ''retry delays must be non-negative'')
      else Inr \<lparr>ry_max_retries = n, ry_delays = delays\<rparr>)"

definition default_retry_policy :: retry_policy where
  "default_retry_policy = \<lparr>ry_max_retries = 4, ry_delays = [1 / 2, 1, 2, 4]\<rparr>"

definition upper_char :: "char \<Rightarrow> char" where
  "upper_char c = (let n = (of_char c :: nat) in if 97 \<le> n \<and> n \<le> 122 then char_of (n - 32) else c)"

definition retry_safe :: "string \<Rightarrow> string option \<Rightarrow> bool" where
  "retry_safe method idempotency_key =
     (let m = map upper_char method
      in m = ''GET'' \<or>
         (m = ''POST'' \<and> (case idempotency_key of None \<Rightarrow> False | Some k \<Rightarrow> non_blank k)))"

text \<open>
  The loop: the operation threads the state of the outside world, \<open>random_uniform\<close> is the jitter, the
  result lists the pauses. A delay the policy does not have would be an \<open>IndexError\<close>.
\<close>

function retry_loop ::
  "('s \<Rightarrow> 'a res \<times> 's) \<Rightarrow> bool \<Rightarrow> retry_policy \<Rightarrow> (nat \<Rightarrow> rat \<Rightarrow> rat \<Rightarrow> rat) \<Rightarrow> nat \<Rightarrow> 's \<Rightarrow>
   'a res \<times> 's \<times> rat list" where
  "retry_loop operation safe policy random_uniform retries s =
     (case operation s of
        (Inr x, s') \<Rightarrow> (Inr x, s', [])
      | (Inl e, s') \<Rightarrow>
          if e \<noteq> RetryableHttpError \<or> \<not> safe \<or> ry_max_retries policy \<le> int retries then (Inl e, s', [])
          else if length (ry_delays policy) \<le> retries then (Inl OtherException, s', [])
          else (let delay = ry_delays policy ! retries;
                    pause = delay + random_uniform retries 0 (delay * (1 / 10));
                    (r, s'', pauses) = retry_loop operation safe policy random_uniform (Suc retries) s'
                in (r, s'', pause # pauses)))"
  by pat_completeness auto
termination
  by (relation "measure (\<lambda>(_, _, policy, _, retries, _). nat (ry_max_retries policy - int retries))") auto

declare retry_loop.simps [simp del]

definition run_http_with_retry ::
  "('s \<Rightarrow> 'a res \<times> 's) \<Rightarrow> string \<Rightarrow> string option \<Rightarrow> retry_policy option \<Rightarrow> (nat \<Rightarrow> rat \<Rightarrow> rat \<Rightarrow> rat) \<Rightarrow> 's \<Rightarrow>
   'a res \<times> 's \<times> rat list" where
  "run_http_with_retry operation method idempotency_key policy random_uniform s =
     retry_loop operation (retry_safe method idempotency_key)
       (case policy of None \<Rightarrow> default_retry_policy | Some p \<Rightarrow> p) random_uniform 0 s"

section \<open>The limit on request bodies\<close>

definition MAX_API_REQUEST_BODY_BYTES :: nat where
  "MAX_API_REQUEST_BODY_BYTES = 1024 * 1024"

record asgi_scope =
  sc_type :: string
  sc_method :: string
  sc_path :: string
  sc_headers :: "(string \<times> string) list"

definition lower_ascii :: "char \<Rightarrow> char" where
  "lower_ascii c = (let n = (of_char c :: nat) in if 65 \<le> n \<and> n \<le> 90 then char_of (n + 32) else c)"

definition header_value :: "asgi_scope \<Rightarrow> string \<Rightarrow> string option" where
  "header_value scope name =
     map_option snd (next_item (\<lambda>(k, _). map lower_ascii k = name) (sc_headers scope))"

definition declared_content_length :: "asgi_scope \<Rightarrow> int option" where
  "declared_content_length scope =
     (case header_value scope ''content-length'' of
        None \<Rightarrow> None
      | Some v \<Rightarrow>
          (case py_int10 v of
             None \<Rightarrow> None
           | Some n \<Rightarrow> if 0 \<le> n then Some n else None))"

definition request_limit :: "asgi_scope \<Rightarrow> nat option" where
  "request_limit scope =
     (if sc_type scope \<noteq> ''http'' \<or> sc_method scope \<noteq> ''POST'' then None
      else if sc_path scope = ''/v1/inbound/email/webhook'' then Some MAX_INBOUND_WEBHOOK_BODY_BYTES
      else Some MAX_API_REQUEST_BODY_BYTES)"

text \<open>
  The application below the middleware, as far as it reads messages: it answers, lets the exception of
  the middleware pass, or asks for a message, where \<open>None\<close> is that exception, raised at the read.
\<close>

datatype asgi_message = HttpRequest bytes | HttpDisconnect

datatype 'r application = Responds 'r | LetsPass | Reads "asgi_message option \<Rightarrow> 'r application"

datatype 'r asgi_outcome = Answered 'r | TooLarge string | Propagates | Waiting

definition too_large_detail :: "asgi_scope \<Rightarrow> string" where
  "too_large_detail scope =
     (if sc_path scope = ''/v1/inbound/email/webhook'' then ''Inbound webhook body too large''
      else ''Request body too large'')"

text \<open>The run of an application over the messages of a request, with the chunks handed to it.\<close>

primrec unlimited_run :: "'r application \<Rightarrow> asgi_message list \<Rightarrow> 'r asgi_outcome \<times> bytes list" where
  "unlimited_run (Responds r) ms = (Answered r, [])"
| "unlimited_run LetsPass ms = (Propagates, [])"
| "unlimited_run (Reads f) ms =
     (case ms of
        [] \<Rightarrow> (Waiting, [])
      | m # ms' \<Rightarrow>
          (let (out, chunks) = unlimited_run (f (Some m)) ms'
           in (out, (case m of HttpRequest b \<Rightarrow> b # chunks | HttpDisconnect \<Rightarrow> chunks))))"

primrec limited_run ::
  "'r application \<Rightarrow> nat \<Rightarrow> nat \<Rightarrow> string \<Rightarrow> asgi_message list \<Rightarrow> 'r asgi_outcome \<times> bytes list" where
  "limited_run (Responds r) limit received detail ms = (Answered r, [])"
| "limited_run LetsPass limit received detail ms = (TooLarge detail, [])"
| "limited_run (Reads f) limit received detail ms =
     (case ms of
        [] \<Rightarrow> (Waiting, [])
      | m # ms' \<Rightarrow>
          (case m of
             HttpRequest b \<Rightarrow>
               if limit < received + length b
               then limited_run (f None) limit (received + length b) detail ms'
               else (let (out, chunks) = limited_run (f (Some m)) limit (received + length b) detail ms'
                     in (out, b # chunks))
           | HttpDisconnect \<Rightarrow> limited_run (f (Some m)) limit received detail ms'))"

definition body_limit :: "'r application \<Rightarrow> asgi_scope \<Rightarrow> asgi_message list \<Rightarrow> 'r asgi_outcome \<times> bytes list" where
  "body_limit app scope ms =
     (case request_limit scope of
        None \<Rightarrow> unlimited_run app ms
      | Some limit \<Rightarrow>
          if (case declared_content_length scope of None \<Rightarrow> False | Some n \<Rightarrow> int limit < n)
          then (TooLarge (too_large_detail scope), [])
          else limited_run app limit 0 (too_large_detail scope) ms)"

section \<open>What the retries do\<close>

definition after_calls :: "('s \<Rightarrow> 'a res \<times> 's) \<Rightarrow> nat \<Rightarrow> 's \<Rightarrow> 's" where
  "after_calls operation n s = ((\<lambda>x. snd (operation x)) ^^ n) s"

lemma after_calls_simps [simp]:
  "after_calls operation 0 s = s"
  "after_calls operation (Suc n) s = after_calls operation n (snd (operation s))"
  by (simp_all add: after_calls_def funpow_Suc_right del: funpow.simps(2))

definition jitter_ok :: "(nat \<Rightarrow> rat \<Rightarrow> rat \<Rightarrow> rat) \<Rightarrow> bool" where
  "jitter_ok u \<longleftrightarrow> (\<forall>n a b. a \<le> b \<longrightarrow> a \<le> u n a b \<and> u n a b \<le> b)"

definition policy_ok :: "retry_policy \<Rightarrow> bool" where
  "policy_ok p \<longleftrightarrow> mk_retry_policy (ry_max_retries p) (ry_delays p) = Inr p"

lemma policy_ok_iff:
  "policy_ok p \<longleftrightarrow> 0 \<le> ry_max_retries p \<and> ry_max_retries p \<le> int (length (ry_delays p)) \<and> list_all (\<lambda>d. 0 \<le> d) (ry_delays p)"
  by (auto simp: policy_ok_def mk_retry_policy_def list_all_iff list_ex_iff not_less linorder_not_le [symmetric]
      split: if_splits)

lemma retry_loop_spec:
  assumes "retry_loop operation safe p u k s = (r, s', pauses)" "policy_ok p" "jitter_ok u"
  shows "(r, s') = operation (after_calls operation (length pauses) s) \<and>
    (pauses \<noteq> [] \<longrightarrow> safe \<and> int (k + length pauses) \<le> ry_max_retries p) \<and>
    (\<forall>i < length pauses. fst (operation (after_calls operation i s)) = Inl RetryableHttpError \<and>
       ry_delays p ! (k + i) \<le> pauses ! i \<and> pauses ! i \<le> 11 / 10 * ry_delays p ! (k + i)) \<and>
    (safe \<and> r = Inl RetryableHttpError \<longrightarrow> ry_max_retries p \<le> int (k + length pauses))"
  using assms
proof (induction "nat (ry_max_retries p - int k)" arbitrary: k s r s' pauses rule: less_induct)
  case less
  obtain q t where q: "operation s = (q, t)" by fastforce
  show ?case
  proof (cases "q = Inl RetryableHttpError \<and> safe \<and> int k < ry_max_retries p")
    case False
    then show ?thesis
      using less.prems(1) q by (subst (asm) retry_loop.simps) (auto split: sum.splits if_splits)
  next
    case True
    have len: "k < length (ry_delays p)" using True assms(2) by (simp add: policy_ok_iff)
    obtain r' t' ps where rec: "retry_loop operation safe p u (Suc k) t = (r', t', ps)" by (metis prod_cases3)
    define d where "d = ry_delays p ! k"
    have d: "0 \<le> d" using len assms(2) by (auto simp: policy_ok_iff list_all_length d_def)
    have "retry_loop operation safe p u k s = (r', t', (d + u k 0 (d * (1 / 10))) # ps)"
      using True len rec q by (subst retry_loop.simps) (simp add: d_def Let_def)
    with less.prems(1) have eqs: "r = r'" "s' = t'" "pauses = (d + u k 0 (d * (1 / 10))) # ps" by auto
    have u: "0 \<le> u k 0 (d * (1 / 10))" "u k 0 (d * (1 / 10)) \<le> d * (1 / 10)"
      using assms(3) [unfolded jitter_ok_def, rule_format, of 0 "d * (1 / 10)" k] d by auto
    have IH: "(r', t') = operation (after_calls operation (length ps) t) \<and>
        (ps \<noteq> [] \<longrightarrow> safe \<and> int (Suc k + length ps) \<le> ry_max_retries p) \<and>
        (\<forall>i < length ps. fst (operation (after_calls operation i t)) = Inl RetryableHttpError \<and>
           ry_delays p ! (Suc k + i) \<le> ps ! i \<and> ps ! i \<le> 11 / 10 * ry_delays p ! (Suc k + i)) \<and>
        (safe \<and> r' = Inl RetryableHttpError \<longrightarrow> ry_max_retries p \<le> int (Suc k + length ps))"
      using less.hyps [OF _ rec assms(2,3)] True by simp
    show ?thesis
      using IH True q u unfolding eqs
      by (auto simp: less_Suc_eq_0_disj d_def)
  qed
qed

text \<open>
  Retries are bounded and only for requests that may be repeated. The result is the one of the last
  attempt, every earlier attempt failed with a retryable error, an attempt is repeated only for GET or for
  POST with an idempotency key that is not blank, at most as often as the policy says, each pause is the
  delay of the policy plus at most a tenth of it, and a retryable error of a repeatable request is given
  back only after all retries.
\<close>

theorem http_retry:
  assumes "run_http_with_retry operation method idempotency_key (Some p) u s = (r, s', pauses)"
    and "mk_retry_policy (ry_max_retries p) (ry_delays p) = Inr p"
    and "\<And>n a b. a \<le> b \<Longrightarrow> a \<le> u n a b \<and> u n a b \<le> b"
  shows "(r, s') = operation (after_calls operation (length pauses) s) \<and>
    (\<forall>i < length pauses. fst (operation (after_calls operation i s)) = Inl RetryableHttpError \<and>
       ry_delays p ! i \<le> pauses ! i \<and> pauses ! i \<le> 11 / 10 * ry_delays p ! i) \<and>
    (pauses \<noteq> [] \<longrightarrow> retry_safe method idempotency_key) \<and> int (length pauses) \<le> ry_max_retries p \<and>
    (retry_safe method idempotency_key \<and> r = Inl RetryableHttpError \<longrightarrow> int (length pauses) = ry_max_retries p)"
proof -
  have p: "policy_ok p" using assms(2) by (simp add: policy_ok_def)
  have j: "jitter_ok u" using assms(3) by (simp add: jitter_ok_def)
  have n: "0 \<le> ry_max_retries p" using p by (simp add: policy_ok_iff)
  from retry_loop_spec [OF assms(1) [unfolded run_http_with_retry_def option.case] p j] n show ?thesis
    by (cases "pauses = []") auto
qed

theorem http_retry_witness:
  "run_http_with_retry (\<lambda>n::nat. if n < 2 then (Inl RetryableHttpError, n + 1) else (Inr n, n)) ''post'' (Some ''k'')
     (Some default_retry_policy) (\<lambda>_ a _. a) 0 = (Inr 2, 2, [1 / 2, 1])"
  (is "?lhs = _")
proof -
  have e: "?lhs = (Inr 2, 2, [1 / 2, 1])" by code_simp
  from http_retry [OF e] have "int (length [1 / 2, 1 :: rat]) \<le> 4"
    by (auto simp: default_retry_policy_def mk_retry_policy_def)
  with e show ?thesis by blast
qed

section \<open>What the limit does\<close>

fun message_bytes :: "asgi_message \<Rightarrow> nat" where
  "message_bytes (HttpRequest b) = length b"
| "message_bytes HttpDisconnect = 0"

lemma limited_run_bound:
  "length (concat (snd (limited_run app limit n detail ms))) \<le> limit - n"
proof (induction app arbitrary: n ms)
  case (Reads f)
  show ?case
  proof (cases ms)
    case (Cons m ms')
    show ?thesis
    proof (cases m)
      case (HttpRequest b)
      show ?thesis
      proof (cases "limit < n + length b")
        case True
        then have "limited_run (Reads f) limit n detail ms = limited_run (f None) limit (n + length b) detail ms'"
          using Cons HttpRequest by simp
        with Reads [OF rangeI, of None "n + length b" ms'] show ?thesis
          by (metis diff_le_mono2 le_add1 order_trans)
      next
        case False
        then show ?thesis
          using Reads [OF rangeI, of "Some m" "n + length b" ms'] Cons HttpRequest
          by (auto simp: split: prod.split)
      qed
    qed (use Reads [OF rangeI, of "Some m" n ms'] Cons in simp)
  qed simp
qed simp_all

lemma limited_run_transparent:
  "unlimited_run app ms = (Answered r, chunks) \<Longrightarrow> n + sum_list (map message_bytes ms) \<le> limit \<Longrightarrow>
     limited_run app limit n detail ms = (Answered r, chunks)"
proof (induction app arbitrary: n ms chunks)
  case (Reads f)
  then obtain m ms' where ms: "ms = m # ms'" by (cases ms) auto
  obtain out cs where u: "unlimited_run (f (Some m)) ms' = (out, cs)" by fastforce
  with Reads.prems ms have "out = Answered r" by (simp split: asgi_message.splits)
  then show ?case
    using Reads.IH [OF rangeI, of "Some m" ms' cs "n + message_bytes m"] Reads.prems ms u
    by (cases m) auto
qed simp_all

text \<open>
  C38. The limit on the bodies of POST requests. Whatever the application does, it is handed at most the
  limit of its route, 8 MiB for the webhook and 1 MiB elsewhere; a request that declares more is refused
  with status 413 before any of it is read; and for a request within the limit the middleware makes no
  difference to the answer and to what was read.
\<close>

theorem request_body_limit:
  assumes "request_limit scope = Some limit"
  shows "length (concat (snd (body_limit app scope ms))) \<le> limit \<and>
    (\<forall>n. declared_content_length scope = Some n \<and> int limit < n \<longrightarrow>
       body_limit app scope ms = (TooLarge (too_large_detail scope), [])) \<and>
    ((\<forall>n. declared_content_length scope = Some n \<longrightarrow> n \<le> int limit) \<and> sum_list (map message_bytes ms) \<le> limit \<and>
       unlimited_run app ms = (Answered r, chunks) \<longrightarrow> body_limit app scope ms = (Answered r, chunks))"
  using assms limited_run_bound [of app limit 0 "too_large_detail scope" ms]
    limited_run_transparent [of app ms r chunks 0 limit "too_large_detail scope"]
  by (auto simp: body_limit_def split: option.splits)

definition demo_scope :: asgi_scope where
  "demo_scope =
     \<lparr>sc_type = ''http'', sc_method = ''POST'', sc_path = ''/v1/intake'', sc_headers = [(''Content-Length'', ''2'')]\<rparr>"

theorem request_body_limit_witness:
  "body_limit (Reads (\<lambda>m. case m of Some (HttpRequest b) \<Rightarrow> Responds (length b) | _ \<Rightarrow> LetsPass)) demo_scope [HttpRequest [1, 2]] =
     (Answered 2, [[1, 2]])"
proof -
  have l: "request_limit demo_scope = Some MAX_API_REQUEST_BODY_BYTES"
    by (simp add: request_limit_def demo_scope_def)
  have d: "declared_content_length demo_scope = Some 2" by code_simp
  from request_body_limit [OF l, of "Reads (\<lambda>m. case m of Some (HttpRequest b) \<Rightarrow> Responds (length b) | _ \<Rightarrow> LetsPass)"
      "[HttpRequest [1, 2]]" 2 "[[1, 2]]"]
  show ?thesis by (simp add: d MAX_API_REQUEST_BODY_BYTES_def)
qed

end
