(* ===== verification/Request_Observation.thy ===== *)
theory Request_Observation
  imports Transport Http_Api
begin

text \<open>
  The outermost middleware, \<open>app/observability/middleware.py\<close>: it gives a request its identifiers, adds the
  trace header to the response and reports the request in one event when the application below returns
  or raises. The application is given by what it does: the messages it sends, each with the observation
  context bound at that time, the context at the end, and whether it raises.
\<close>

section \<open>Requests\<close>

definition correlation_char :: "char \<Rightarrow> bool" where
  "correlation_char c \<longleftrightarrow>
     is_lower c \<or> (CHR ''A'' \<le> c \<and> c \<le> CHR ''Z'') \<or> is_digit c \<or> c \<in> set ''._:-''"

definition correlation_format :: "string \<Rightarrow> bool" where
  "correlation_format s \<longleftrightarrow> 1 \<le> length s \<and> length s \<le> 128 \<and> list_all correlation_char s"

definition request_correlation :: "string option \<Rightarrow> string option \<times> bool" where
  "request_correlation v =
     (case v of
        None \<Rightarrow> (None, False)
      | Some s \<Rightarrow> if correlation_format s then (Some s, False) else (None, True))"

datatype route_name =
    RN_HEALTH | RN_CASES | RN_CASE | RN_JOB | RN_INTAKE | RN_INBOUND_EMAIL | RN_APPROVALS | RN_APPROVAL
  | RN_APPROVAL_DECIDE | RN_ARTIFACT | RN_UNKNOWN

fun route_name_value :: "route_name \<Rightarrow> string" where
  "route_name_value RN_HEALTH = ''/health''"
| "route_name_value RN_CASES = ''/v1/cases''"
| "route_name_value RN_CASE = ''/v1/cases/{case_id}''"
| "route_name_value RN_JOB = ''/v1/jobs/{job_id}''"
| "route_name_value RN_INTAKE = ''/v1/intake''"
| "route_name_value RN_INBOUND_EMAIL = ''/v1/inbound/email/webhook''"
| "route_name_value RN_APPROVALS = ''/v1/approvals''"
| "route_name_value RN_APPROVAL = ''/v1/approvals/{approval_id}''"
| "route_name_value RN_APPROVAL_DECIDE = ''/v1/approvals/{approval_id}/decide''"
| "route_name_value RN_ARTIFACT = ''/v1/artifacts/{artifact_id}''"
| "route_name_value RN_UNKNOWN = ''unknown''"

definition all_route_names :: "route_name list" where
  "all_route_names =
     [RN_HEALTH, RN_CASES, RN_CASE, RN_JOB, RN_INTAKE, RN_INBOUND_EMAIL, RN_APPROVALS, RN_APPROVAL,
      RN_APPROVAL_DECIDE, RN_ARTIFACT, RN_UNKNOWN]"

text \<open>\<open>_route_name\<close>, from the template of the matched route, if any.\<close>

definition route_name_of :: "string option \<Rightarrow> route_name" where
  "route_name_of template =
     (case template of
        None \<Rightarrow> RN_UNKNOWN
      | Some s \<Rightarrow>
          (case next_item (\<lambda>r. route_name_value r = s) all_route_names of None \<Rightarrow> RN_UNKNOWN | Some r \<Rightarrow> r))"

datatype event_level = LEVEL_DEBUG | LEVEL_INFO | LEVEL_WARNING | LEVEL_ERROR

definition request_outcome :: "int \<Rightarrow> outcome_code \<times> event_level" where
  "request_outcome status =
     (if 500 \<le> status then (OC_FAILED, LEVEL_ERROR)
      else if 400 \<le> status then (OC_REJECTED, LEVEL_WARNING)
      else (OC_SUCCESS, LEVEL_INFO))"

section \<open>The response\<close>

datatype asgi_send = ResponseStart "int option" "(string \<times> string) list" | ResponseBody bytes

definition trace_header :: string where
  "trace_header = ''x-trace-id''"

definition has_trace :: "(string \<times> string) list \<Rightarrow> bool" where
  "has_trace headers \<longleftrightarrow> list_ex (\<lambda>(k, _). map lower_ascii k = trace_header) headers"

text \<open>\<open>send_with_trace\<close>: the message passed on and the status remembered.\<close>

definition send_with_trace :: "observation_context \<Rightarrow> asgi_send \<Rightarrow> int \<Rightarrow> asgi_send \<times> int" where
  "send_with_trace ctx message status =
     (case message of
        ResponseBody b \<Rightarrow> (ResponseBody b, status)
      | ResponseStart raw headers \<Rightarrow>
          (ResponseStart raw
             (if has_trace headers then headers else headers @ [(trace_header, uuid_str (oc_trace_id ctx))]),
           case raw of Some n \<Rightarrow> if 100 \<le> n \<and> n \<le> 599 then n else status | None \<Rightarrow> status))"

fun send_all :: "(observation_context \<times> asgi_send) list \<Rightarrow> int \<Rightarrow> asgi_send list \<times> int" where
  "send_all [] status = ([], status)"
| "send_all ((ctx, m) # ms) status =
     (let (m', status') = send_with_trace ctx m status;
          (ms', status'') = send_all ms status'
      in (m' # ms', status''))"

section \<open>The middleware\<close>

record request_event =
  rv_level :: event_level
  rv_context :: observation_context
  rv_outcome :: outcome_code
  rv_duration_ms :: int
  rv_route :: route_name
  rv_method :: "string option"
  rv_status_code :: int
  rv_request_bytes :: "int option"
  rv_correlation_id :: "string option"
  rv_correlation_invalid :: "bool option"

text \<open>The constraints of \<open>ObservationEvent\<close> on these fields.\<close>

definition valid_request_event :: "request_event \<Rightarrow> bool" where
  "valid_request_event e \<longleftrightarrow>
     0 \<le> rv_duration_ms e \<and> 100 \<le> rv_status_code e \<and> rv_status_code e \<le> 599 \<and>
     (case rv_method e of None \<Rightarrow> True | Some m \<Rightarrow> m \<in> {''GET'', ''POST''}) \<and>
     (case rv_request_bytes e of None \<Rightarrow> True | Some n \<Rightarrow> 0 \<le> n) \<and>
     (case rv_correlation_id e of None \<Rightarrow> True | Some s \<Rightarrow> correlation_format s) \<and>
     \<not> (rv_correlation_invalid e = Some True \<and> rv_correlation_id e \<noteq> None)"

record app_run =
  ar_sends :: "(observation_context \<times> asgi_send) list"
  ar_context :: observation_context
  ar_raises :: bool

record request_report =
  rq_sent :: "asgi_send list"
  rq_raises :: bool
  rq_events :: "request_event list"

definition start_context :: "uuid \<Rightarrow> uuid \<Rightarrow> observation_context" where
  "start_context request trace =
     \<lparr>oc_trace_id = trace, oc_request_id = Some request, oc_tenant_id = None, oc_job_id = None\<rparr>"

definition request_event_of ::
  "asgi_scope \<Rightarrow> string option \<Rightarrow> int \<Rightarrow> int \<Rightarrow> observation_context \<Rightarrow> int \<Rightarrow> request_event" where
  "request_event_of scope template started finished ctx status =
     (let (correlation, invalid) = request_correlation (header_value scope ''x-correlation-id'')
      in \<lparr>rv_level = snd (request_outcome status), rv_context = ctx, rv_outcome = fst (request_outcome status),
          rv_duration_ms = max 0 ((finished - started) div 1000000), rv_route = route_name_of template,
          rv_method = (if sc_method scope \<in> {''GET'', ''POST''} then Some (sc_method scope) else None),
          rv_status_code = status, rv_request_bytes = declared_content_length scope,
          rv_correlation_id = correlation, rv_correlation_invalid = (if invalid then Some True else None)\<rparr>)"

text \<open>
  An event that did not validate would raise in the \<open>finally\<close> clause, in place of the application's own
  result.
\<close>

definition observability_middleware ::
  "asgi_scope \<Rightarrow> string option \<Rightarrow> int \<Rightarrow> int \<Rightarrow> uuid \<Rightarrow> uuid \<Rightarrow> (observation_context option \<Rightarrow> app_run) \<Rightarrow>
   request_report" where
  "observability_middleware scope template started finished request trace app =
     (if sc_type scope \<noteq> ''http''
      then (let run = app None
            in \<lparr>rq_sent = map snd (ar_sends run), rq_raises = ar_raises run, rq_events = []\<rparr>)
      else
        (let run = app (Some (start_context request trace));
             (sent, last_status) = send_all (ar_sends run) 500;
             status = (if ar_raises run then 500 else last_status);
             e = request_event_of scope template started finished (ar_context run) status
         in if valid_request_event e
            then \<lparr>rq_sent = sent, rq_raises = ar_raises run, rq_events = [e]\<rparr>
            else \<lparr>rq_sent = sent, rq_raises = True, rq_events = []\<rparr>))"

section \<open>What is reported\<close>

lemma send_with_trace_status:
  "100 \<le> status \<Longrightarrow> status \<le> 599 \<Longrightarrow> send_with_trace c m status = (m', n) \<Longrightarrow> 100 \<le> n \<and> n \<le> 599"
  by (auto simp: send_with_trace_def split: asgi_send.splits option.splits if_splits)

lemma send_all_status:
  "100 \<le> status \<Longrightarrow> status \<le> 599 \<Longrightarrow> send_all ms status = (ms', n) \<Longrightarrow> 100 \<le> n \<and> n \<le> 599"
proof (induction ms status arbitrary: ms' n rule: send_all.induct)
  case (2 c m ms status)
  obtain m1 n1 ms1 n2 where *: "send_with_trace c m status = (m1, n1)" "send_all ms n1 = (ms1, n2)" by fastforce
  then show ?case
    using 2 send_with_trace_status [OF 2(2,3) *(1)] by simp
qed simp

lemma trace_header_lower: "map lower_ascii trace_header = trace_header"
  by code_simp

lemma has_trace_added: "has_trace (h @ [(trace_header, v)])"
  by (simp add: has_trace_def trace_header_lower)

lemma send_with_trace_header:
  "send_with_trace c m status = (ResponseStart raw h, n) \<Longrightarrow> has_trace h"
  by (auto simp: send_with_trace_def has_trace_added split: asgi_send.splits if_splits)

lemma send_all_headers: "ResponseStart raw h \<in> set (fst (send_all ms status)) \<Longrightarrow> has_trace h"
  by (induction ms status rule: send_all.induct)
     (auto simp: Let_def split: prod.splits dest: send_with_trace_header)

lemma send_all_bodies:
  "\<forall>m \<in> set ms. \<exists>b. snd m = ResponseBody b \<Longrightarrow> send_all ms status = (map snd ms, status)"
  by (induction ms status rule: send_all.induct) (auto simp: send_with_trace_def Let_def split: prod.splits)

lemma request_event_valid:
  assumes "100 \<le> status" "status \<le> 599"
  shows "valid_request_event (request_event_of scope template started finished ctx status)"
proof -
  have "case declared_content_length scope of None \<Rightarrow> True | Some n \<Rightarrow> 0 \<le> n"
    by (auto simp: declared_content_length_def split: option.splits)
  then show ?thesis
    using assms
    by (auto simp: valid_request_event_def request_event_of_def request_correlation_def
        split: option.splits prod.splits if_splits)
qed

text \<open>
  Every HTTP request is reported by exactly one valid event, whether the application returns or raises,
  and building the event never hides the application's own result. A request that raises is reported with
  status 500, another one with the status of its response, and every response carries a trace header.
\<close>

theorem request_observed:
  assumes "sc_type scope = ''http''"
    and "observability_middleware scope template started finished request trace app = report"
    and "app (Some (start_context request trace)) = run"
  shows "\<exists>e. rq_events report = [e] \<and> valid_request_event e \<and> rq_raises report = ar_raises run \<and>
    rv_context e = ar_context run \<and> (ar_raises run \<longrightarrow> rv_status_code e = 500) \<and>
    (\<forall>raw h. ResponseStart raw h \<in> set (rq_sent report) \<longrightarrow> has_trace h) \<and>
    (\<forall>c n h ms. \<not> ar_raises run \<and> ar_sends run = (c, ResponseStart (Some n) h) # ms \<and> 100 \<le> n \<and> n \<le> 599 \<and>
       (\<forall>m \<in> set ms. \<exists>b. snd m = ResponseBody b) \<longrightarrow> rv_status_code e = n)"
proof -
  obtain sent n where s: "send_all (ar_sends run) 500 = (sent, n)" by fastforce
  define status where "status = (if ar_raises run then 500 else n)"
  have "100 \<le> status \<and> status \<le> 599"
    using send_all_status [OF _ _ s] by (simp add: status_def)
  then have v: "valid_request_event (request_event_of scope template started finished (ar_context run) status)"
    by (simp add: request_event_valid)
  have r: "report = \<lparr>rq_sent = sent, rq_raises = ar_raises run,
      rq_events = [request_event_of scope template started finished (ar_context run) status]\<rparr>"
    using assms v s by (auto simp: observability_middleware_def status_def Let_def)
  have "has_trace h" if "ResponseStart raw h \<in> set sent" for raw h
    using send_all_headers [of raw h "ar_sends run" 500] s that by simp
  moreover have "n = k" if "ar_sends run = (c, ResponseStart (Some k) h) # ms" "100 \<le> k" "k \<le> 599"
      "\<forall>m \<in> set ms. \<exists>b. snd m = ResponseBody b" for c k h ms
    using s that send_all_bodies [OF that(4)] by (simp add: send_with_trace_def)
  ultimately show ?thesis
    using v by (auto simp: r status_def request_event_of_def split: prod.splits)
qed

end
