(* ===== verification/Observation_Events.thy ===== *)
theory Observation_Events
  imports Request_Observation Provider_Safety
begin

text \<open>
  The one payload an observation sink accepts, \<open>ObservationEvent\<close> of \<open>app/observability/events.py\<close>, with its
  constraints and validators, and the context it is filled from, \<open>ObservationContext\<close> of
  \<open>app/observability/context.py\<close>. An event is built outside the handler that keeps failures of the sink
  away from the program, so an event that does not validate is an exception of the component that
  reports. The second part builds the events of the components from what they record.
\<close>

section \<open>Vocabulary\<close>

datatype event_name =
    EN_HTTP_REQUEST_COMPLETED | EN_AUTH_COMPLETED | EN_INBOUND_SIGNATURE_COMPLETED
  | EN_INTAKE_ENQUEUE_COMPLETED | EN_DOCUMENT_NORMALIZATION_COMPLETED
  | EN_PROFILE_RESOLUTION_COMPLETED | EN_RUNTIME_PREFLIGHT_COMPLETED | EN_WORKER_JOB_CLAIMED
  | EN_WORKER_JOB_RUN_STARTED | EN_WORKER_JOB_RETRY_SCHEDULED | EN_WORKER_JOB_LEASE_RECOVERED
  | EN_WORKER_JOB_FINISHED | EN_AGENT_STEP_COMPLETED | EN_AGENT_RUN_FINISHED
  | EN_PROVIDER_CALL_COMPLETED | EN_PROVIDER_STRUCTURED_OUTPUT_FAILED | EN_POLICY_EVALUATED
  | EN_TOOL_EXECUTION_COMPLETED | EN_APPROVAL_REQUESTED | EN_APPROVAL_DECIDED
  | EN_APPROVAL_EXPIRED | EN_APPROVAL_ACTION_COMPLETED | EN_PERSISTENCE_OPERATION_FAILED

fun event_name_value :: "event_name \<Rightarrow> string" where
  "event_name_value EN_HTTP_REQUEST_COMPLETED = ''http.request.completed''"
| "event_name_value EN_AUTH_COMPLETED = ''auth.completed''"
| "event_name_value EN_INBOUND_SIGNATURE_COMPLETED = ''inbound.signature.completed''"
| "event_name_value EN_INTAKE_ENQUEUE_COMPLETED = ''intake.enqueue.completed''"
| "event_name_value EN_DOCUMENT_NORMALIZATION_COMPLETED = ''document.normalization.completed''"
| "event_name_value EN_PROFILE_RESOLUTION_COMPLETED = ''profile.resolution.completed''"
| "event_name_value EN_RUNTIME_PREFLIGHT_COMPLETED = ''runtime.preflight.completed''"
| "event_name_value EN_WORKER_JOB_CLAIMED = ''worker.job.claimed''"
| "event_name_value EN_WORKER_JOB_RUN_STARTED = ''worker.job.run_started''"
| "event_name_value EN_WORKER_JOB_RETRY_SCHEDULED = ''worker.job.retry_scheduled''"
| "event_name_value EN_WORKER_JOB_LEASE_RECOVERED = ''worker.job.lease_recovered''"
| "event_name_value EN_WORKER_JOB_FINISHED = ''worker.job.finished''"
| "event_name_value EN_AGENT_STEP_COMPLETED = ''agent.step.completed''"
| "event_name_value EN_AGENT_RUN_FINISHED = ''agent.run.finished''"
| "event_name_value EN_PROVIDER_CALL_COMPLETED = ''provider.call.completed''"
| "event_name_value EN_PROVIDER_STRUCTURED_OUTPUT_FAILED = ''provider.structured_output.failed''"
| "event_name_value EN_POLICY_EVALUATED = ''policy.evaluated''"
| "event_name_value EN_TOOL_EXECUTION_COMPLETED = ''tool.execution.completed''"
| "event_name_value EN_APPROVAL_REQUESTED = ''approval.requested''"
| "event_name_value EN_APPROVAL_DECIDED = ''approval.decided''"
| "event_name_value EN_APPROVAL_EXPIRED = ''approval.expired''"
| "event_name_value EN_APPROVAL_ACTION_COMPLETED = ''approval.action_completed''"
| "event_name_value EN_PERSISTENCE_OPERATION_FAILED = ''persistence.operation_failed''"

datatype component =
    CO_API | CO_AUTH | CO_INBOUND | CO_INTAKE | CO_DOCUMENT | CO_PROFILE | CO_RUNTIME
  | CO_WORKER | CO_AGENT | CO_PROVIDER | CO_POLICY | CO_TOOL | CO_APPROVAL | CO_PERSISTENCE

datatype persistence_op =
    PP_ENQUEUE_JOB | PP_CLAIM_JOB | PP_RECOVER_LEASE | PP_RENEW_LEASE | PP_SCHEDULE_RETRY
  | PP_RECORD_AWAITING_APPROVAL | PP_MARK_SUCCEEDED | PP_MARK_FAILED | PP_MARK_FAILED_UNCERTAIN
  | PP_CREATE_APPROVAL | PP_DECIDE_APPROVAL

datatype preflight_outcome = PO_CONTINUE | PO_TERMINAL

section \<open>The event\<close>

record observation_event =
  oe_event :: event_name
  oe_level :: event_level
  oe_trace_id :: uuid
  oe_request_id :: "uuid option"
  oe_tenant_id :: "uuid option"
  oe_job_id :: "uuid option"
  oe_case_id :: "uuid option"
  oe_approval_id :: "uuid option"
  oe_component :: component
  oe_outcome :: "outcome_code option"
  oe_duration_ms :: "int option"
  oe_queue_latency_ms :: "int option"
  oe_total_latency_ms :: "int option"
  oe_route :: "route_name option"
  oe_method :: "string option"
  oe_status_code :: "int option"
  oe_request_bytes :: "int option"
  oe_attempt_count :: "int option"
  oe_retry_delay_ms :: "int option"
  oe_step :: "int option"
  oe_steps :: "int option"
  oe_stop_reason :: "stop_reason option"
  oe_policy_decision :: "routing_decision option"
  oe_routing_status :: "routing_status option"
  oe_policy_reason :: "policy_reason option"
  oe_missing_fields :: "string list"
  oe_document_media_type :: "document_media_type option"
  oe_document_error :: "document_extraction_error option"
  oe_document_bytes :: "int option"
  oe_document_pages :: "int option"
  oe_document_text_chars :: "int option"
  oe_provider_call_index :: "int option"
  oe_validation_retry :: "bool option"
  oe_prompt_tokens :: "int option"
  oe_completion_tokens :: "int option"
  oe_total_tokens :: "int option"
  oe_result_is_none :: "bool option"
  oe_side_effect_committed :: "bool option"
  oe_credential_kind :: "credential_kind option"
  oe_client_correlation_id :: "string option"
  oe_client_correlation_invalid :: "bool option"
  oe_persistence_operation :: "persistence_op option"
  oe_worker_error_code :: "worker_error_code option"
  oe_scenario_key :: "string option"
  oe_profile_fingerprint :: "string option"
  oe_document_kind :: "string option"
  oe_normalizer_key :: "string option"
  oe_normalizer_version :: "int option"
  oe_intake_type :: "string option"
  oe_intake_type_known :: "bool option"
  oe_action_key :: "string option"
  oe_action_known :: "bool option"
  oe_preflight_outcome :: "preflight_outcome option"
  oe_capability_error :: "capability_error option"

text \<open>The defaults of the optional fields.\<close>

definition blank_event :: "event_name \<Rightarrow> component \<Rightarrow> uuid \<Rightarrow> observation_event" where
  "blank_event name co trace =
     \<lparr>oe_event = name, oe_level = LEVEL_INFO, oe_trace_id = trace, oe_request_id = None,
      oe_tenant_id = None, oe_job_id = None, oe_case_id = None, oe_approval_id = None,
      oe_component = co, oe_outcome = None, oe_duration_ms = None,
      oe_queue_latency_ms = None, oe_total_latency_ms = None, oe_route = None,
      oe_method = None, oe_status_code = None, oe_request_bytes = None,
      oe_attempt_count = None, oe_retry_delay_ms = None, oe_step = None, oe_steps = None,
      oe_stop_reason = None, oe_policy_decision = None, oe_routing_status = None,
      oe_policy_reason = None, oe_missing_fields = [], oe_document_media_type = None,
      oe_document_error = None, oe_document_bytes = None, oe_document_pages = None,
      oe_document_text_chars = None, oe_provider_call_index = None, oe_validation_retry = None,
      oe_prompt_tokens = None, oe_completion_tokens = None, oe_total_tokens = None,
      oe_result_is_none = None, oe_side_effect_committed = None, oe_credential_kind = None,
      oe_client_correlation_id = None, oe_client_correlation_invalid = None,
      oe_persistence_operation = None, oe_worker_error_code = None, oe_scenario_key = None,
      oe_profile_fingerprint = None, oe_document_kind = None, oe_normalizer_key = None,
      oe_normalizer_version = None, oe_intake_type = None, oe_intake_type_known = None,
      oe_action_key = None, oe_action_known = None, oe_preflight_outcome = None,
      oe_capability_error = None\<rparr>"


definition opt_all :: "('a \<Rightarrow> bool) \<Rightarrow> 'a option \<Rightarrow> bool" where
  "opt_all P x = (case x of None \<Rightarrow> True | Some y \<Rightarrow> P y)"

lemma opt_all_simps [simp]: "opt_all P None" "opt_all P (Some y) = P y"
  by (simp_all add: opt_all_def)

abbreviation nonneg :: "int option \<Rightarrow> bool" where
  "nonneg \<equiv> opt_all (\<lambda>n. 0 \<le> n)"

text \<open>\<open>SafeFieldName\<close>: \<open>^[a-z][a-z0-9_]{0,99}$\<close>.\<close>

definition safe_field_name :: "string \<Rightarrow> bool" where
  "safe_field_name s = bounded_identifier 99 s"

text \<open>The ranges and patterns of the fields.\<close>

definition fields_in_range :: "observation_event \<Rightarrow> bool" where
  "fields_in_range e \<longleftrightarrow>
     nonneg (oe_duration_ms e) \<and> nonneg (oe_queue_latency_ms e) \<and> nonneg (oe_total_latency_ms e) \<and>
     opt_all (\<lambda>m. m \<in> {''GET'', ''POST''}) (oe_method e) \<and>
     opt_all (\<lambda>n. 100 \<le> n \<and> n \<le> 599) (oe_status_code e) \<and> nonneg (oe_request_bytes e) \<and>
     nonneg (oe_attempt_count e) \<and> nonneg (oe_retry_delay_ms e) \<and>
     opt_all (\<lambda>n. 1 \<le> n \<and> n \<le> 8) (oe_step e) \<and> opt_all (\<lambda>n. 0 \<le> n \<and> n \<le> 8) (oe_steps e) \<and>
     list_all safe_field_name (oe_missing_fields e) \<and>
     nonneg (oe_document_bytes e) \<and> nonneg (oe_document_pages e) \<and> nonneg (oe_document_text_chars e) \<and>
     opt_all (\<lambda>n. 1 \<le> n \<and> n \<le> 2) (oe_provider_call_index e) \<and>
     nonneg (oe_prompt_tokens e) \<and> nonneg (oe_completion_tokens e) \<and> nonneg (oe_total_tokens e)"

definition names_safe :: "observation_event \<Rightarrow> bool" where
  "names_safe e \<longleftrightarrow>
     opt_all correlation_format (oe_client_correlation_id e) \<and> opt_all safe_identifier (oe_scenario_key e) \<and>
     opt_all is_sha256_hex (oe_profile_fingerprint e) \<and> opt_all safe_identifier (oe_document_kind e) \<and>
     opt_all safe_identifier (oe_normalizer_key e) \<and> opt_all (\<lambda>n. 1 \<le> n) (oe_normalizer_version e) \<and>
     opt_all safe_identifier (oe_intake_type e) \<and> opt_all safe_identifier (oe_action_key e)"

text \<open>\<open>validate_correlations_and_usage\<close>.\<close>

definition correlations_and_usage :: "observation_event \<Rightarrow> unit res" where
  "correlations_and_usage e =
     (if oe_client_correlation_invalid e = Some True \<and> oe_client_correlation_id e \<noteq> None
      then Inl (ValueError ''client_correlation_id cannot be present when its value is invalid'')
      else if (case (oe_prompt_tokens e, oe_completion_tokens e, oe_total_tokens e) of
                 (Some p, Some c, Some t) \<Rightarrow> t \<noteq> p + c | _ \<Rightarrow> False)
      then Inl (ValueError ''total_tokens must equal prompt_tokens plus completion_tokens'')
      else if opt_all (\<lambda>b. b = (oe_intake_type e \<noteq> None)) (oe_intake_type_known e) = False
      then Inl (ValueError ''intake_type_known must match intake_type presence'')
      else if opt_all (\<lambda>b. b = (oe_action_key e \<noteq> None)) (oe_action_known e) = False
      then Inl (ValueError ''action_known must match action_key presence'')
      else if (oe_normalizer_key e = None) \<noteq> (oe_normalizer_version e = None)
      then Inl (ValueError ''normalizer_key and normalizer_version must be supplied together'')
      else Inr ())"

text \<open>The construction of an event; \<open>normalize_missing_fields\<close> sorts the names.\<close>

definition mk_event :: "observation_event \<Rightarrow> observation_event res" where
  "mk_event e =
     (if \<not> (fields_in_range e \<and> names_safe e) then Inl (ValueError ''ValidationError'')
      else bind_res (correlations_and_usage e) (\<lambda>_.
        Inr (e\<lparr>oe_missing_fields := sorted_set (oe_missing_fields e)\<rparr>)))"

section \<open>The context\<close>

record event_context =
  vc_trace_id :: uuid
  vc_request_id :: "uuid option"
  vc_tenant_id :: "uuid option"
  vc_job_id :: "uuid option"
  vc_case_id :: "uuid option"
  vc_approval_id :: "uuid option"
  vc_scenario_key :: "string option"
  vc_profile_fingerprint :: "string option"

definition mk_context :: "event_context \<Rightarrow> event_context res" where
  "mk_context c =
     (if \<not> opt_all safe_identifier (vc_scenario_key c)
      then Inl (TypeError ''scenario_key must be a safe identifier or None'')
      else if \<not> opt_all is_sha256_hex (vc_profile_fingerprint c)
      then Inl (TypeError ''profile_fingerprint must be a 64-character SHA-256'')
      else Inr c)"

definition plain_context :: "uuid \<Rightarrow> event_context" where
  "plain_context trace =
     \<lparr>vc_trace_id = trace, vc_request_id = None, vc_tenant_id = None, vc_job_id = None, vc_case_id = None,
      vc_approval_id = None, vc_scenario_key = None, vc_profile_fingerprint = None\<rparr>"

text \<open>The fields every event takes from its context.\<close>

definition context_event :: "event_name \<Rightarrow> component \<Rightarrow> event_context \<Rightarrow> observation_event" where
  "context_event name co c =
     (blank_event name co (vc_trace_id c))
       \<lparr>oe_request_id := vc_request_id c, oe_tenant_id := vc_tenant_id c, oe_job_id := vc_job_id c,
        oe_scenario_key := vc_scenario_key c, oe_profile_fingerprint := vc_profile_fingerprint c\<rparr>"

definition context_named :: "event_context \<Rightarrow> bool" where
  "context_named c \<longleftrightarrow> opt_all safe_identifier (vc_scenario_key c) \<and> opt_all is_sha256_hex (vc_profile_fingerprint c)"

lemma mk_context_Inr: "mk_context c = Inr c' \<longleftrightarrow> context_named c \<and> c' = c"
  by (auto simp: mk_context_def context_named_def)

lemmas event_defs = mk_event_def fields_in_range_def names_safe_def correlations_and_usage_def

lemma blank_event_valid: "\<exists>o'. mk_event (blank_event n co t) = Inr o'"
  by (simp add: event_defs blank_event_def)

end
