(* ===== verification/Event_Reports.thy ===== *)
theory Event_Reports
  imports Observation_Events Projection_Safety Worker_Safety
begin

text \<open>
  The events that the worker, the agent loop, the tool executor and the provider client build from what
  they record: the \<open>_emit\<close> methods of \<open>app/workers/agent_worker.py\<close>, \<open>app/agent/loop.py\<close>,
  \<open>app/tools/executor.py\<close> and \<open>app/providers/openai_compatible.py\<close>, and the request event of the
  observation middleware. Every one of them validates, so reporting never ends a run or a cycle.
\<close>

section \<open>The worker\<close>

text \<open>
  What an event adds to the record of the worker: the profiles, the conversion of a time span to whole
  milliseconds, the clocks, the pause before a retry and a fresh identifier.
\<close>

record report_env =
  vn_profiles :: profile_env
  vn_total_ms :: "int \<Rightarrow> int"
  vn_elapsed_ns :: int
  vn_now :: datetime
  vn_retry_delay :: int
  vn_fresh :: uuid

text \<open>\<open>_context_for_observation\<close>; \<open>context.bind\<close> constructs the context again.\<close>

definition context_for_observation ::
  "profile_env \<Rightarrow> uuid \<Rightarrow> uuid \<Rightarrow> uuid \<Rightarrow> pyval \<Rightarrow> string \<Rightarrow> event_context res" where
  "context_for_observation env trace tenant job snapshot sha =
     (let c = (plain_context trace)\<lparr>vc_tenant_id := Some tenant, vc_job_id := Some job\<rparr>
      in if snapshot = PDict [] then Inr c
         else case resolve_persisted_profile env snapshot (PStr sha) None of
                Inl _ \<Rightarrow> Inr c
              | Inr p \<Rightarrow> mk_context (c\<lparr>vc_scenario_key := Some (cp_scenario_key (rp_compiled p)),
                                       vc_profile_fingerprint := Some (cp_profile_fingerprint (rp_compiled p))\<rparr>))"

definition context_for_claimed :: "profile_env \<Rightarrow> claimed_job \<Rightarrow> event_context res" where
  "context_for_claimed env job =
     context_for_observation env (cj_trace_id job) (cj_tenant_id job) (cj_id job)
       (cj_tenant_config_snapshot job) (cj_tenant_config_sha256 job)"

text \<open>\<open>_emit_worker_event\<close>; the fields that only some events have are filled in by \<open>fill\<close>.\<close>

definition emit_worker_event ::
  "profile_env \<Rightarrow> claimed_job \<Rightarrow> event_name \<Rightarrow> outcome_code \<Rightarrow> (observation_event \<Rightarrow> observation_event) \<Rightarrow>
   observation_event res" where
  "emit_worker_event env job name outcome fill =
     bind_res (context_for_claimed env job) (\<lambda>c.
     mk_event (fill ((context_event name CO_WORKER c)
       \<lparr>oe_level := (if outcome \<in> {OC_FAILED, OC_FAILED_UNCERTAIN} then LEVEL_ERROR else LEVEL_INFO),
        oe_outcome := Some outcome, oe_attempt_count := Some (int (cj_attempt_count job))\<rparr>)))"

definition emit_job_claimed :: "report_env \<Rightarrow> claimed_job \<Rightarrow> observation_event res" where
  "emit_job_claimed v job = emit_worker_event (vn_profiles v) job EN_WORKER_JOB_CLAIMED OC_CLAIMED (\<lambda>e. e)"

definition emit_job_started :: "report_env \<Rightarrow> claimed_job \<Rightarrow> observation_event res" where
  "emit_job_started v job = emit_worker_event (vn_profiles v) job EN_WORKER_JOB_RUN_STARTED OC_STARTED (\<lambda>e. e)"

definition emit_retry_scheduled ::
  "report_env \<Rightarrow> claimed_job \<Rightarrow> worker_error_code option \<Rightarrow> observation_event res" where
  "emit_retry_scheduled v job code =
     emit_worker_event (vn_profiles v) job EN_WORKER_JOB_RETRY_SCHEDULED OC_RETRY_SCHEDULED
       (\<lambda>e. e\<lparr>oe_retry_delay_ms := Some (max 0 (vn_total_ms v (vn_retry_delay v))), oe_worker_error_code := code\<rparr>)"

text \<open>\<open>_queue_latency_ms\<close>: a job that was never started has no start to subtract from.\<close>

definition queue_latency_ms :: "report_env \<Rightarrow> claimed_job \<Rightarrow> int res" where
  "queue_latency_ms v job =
     (case cj_started_at job of
        None \<Rightarrow> Inl (TypeError ''unsupported operand'')
      | Some s \<Rightarrow> Inr (max 0 (vn_total_ms v (s - cj_created_at job))))"

definition total_latency_ms :: "report_env \<Rightarrow> claimed_job \<Rightarrow> int" where
  "total_latency_ms v job = max 0 (vn_total_ms v (vn_now v - cj_created_at job))"

definition elapsed_ms :: "report_env \<Rightarrow> int" where
  "elapsed_ms v = max 0 (vn_elapsed_ns v div 1000000)"

definition emit_job_finished ::
  "report_env \<Rightarrow> claimed_job \<Rightarrow> outcome_code \<Rightarrow> worker_error_code option \<Rightarrow> nat option \<Rightarrow> stop_reason option \<Rightarrow>
   bool option \<Rightarrow> observation_event res" where
  "emit_job_finished v job outcome code steps reason committed' =
     bind_res (queue_latency_ms v job) (\<lambda>latency.
     emit_worker_event (vn_profiles v) job EN_WORKER_JOB_FINISHED outcome
       (\<lambda>e. e\<lparr>oe_duration_ms := Some (elapsed_ms v), oe_queue_latency_ms := Some latency,
              oe_total_latency_ms := Some (total_latency_ms v job), oe_worker_error_code := code,
              oe_steps := map_option int steps, oe_stop_reason := reason,
              oe_side_effect_committed := committed'\<rparr>))"

definition emit_lease_recovered :: "report_env \<Rightarrow> lease_recovery \<Rightarrow> observation_event res" where
  "emit_lease_recovered v r =
     bind_res (context_for_observation (vn_profiles v) (lr_trace_id r) (lr_tenant_id r) (lr_job_id r)
                 (lr_tenant_config_snapshot r) (lr_tenant_config_sha256 r)) (\<lambda>c.
     mk_event ((context_event EN_WORKER_JOB_LEASE_RECOVERED CO_WORKER c)
       \<lparr>oe_level := LEVEL_WARNING, oe_outcome := Some OC_RECOVERED, oe_attempt_count := Some (int (lr_attempt_count r)),
        oe_worker_error_code := worker_error_code_of (lr_error_code r)\<rparr>))"

definition emit_expired_approval :: "report_env \<Rightarrow> expired_approval \<Rightarrow> observation_event res" where
  "emit_expired_approval v a =
     bind_res (context_for_observation (vn_profiles v) (ea_trace_id a) (ea_tenant_id a) (ea_job_id a)
                 (ea_tenant_config_snapshot a) (ea_tenant_config_sha256 a)) (\<lambda>c.
     mk_event ((context_event EN_APPROVAL_EXPIRED CO_APPROVAL c)
       \<lparr>oe_approval_id := Some (ea_approval_id a), oe_outcome := Some OC_EXPIRED,
        oe_duration_ms := Some (max 0 (vn_total_ms v (ea_decided_at a - ea_created_at a)))\<rparr>))"

fun persistence_op_of :: "persistence_operation \<Rightarrow> persistence_op option" where
  "persistence_op_of OP_decide_approval = Some PP_DECIDE_APPROVAL"
| "persistence_op_of OP_recover_lease = Some PP_RECOVER_LEASE"
| "persistence_op_of OP_claim_job = Some PP_CLAIM_JOB"
| "persistence_op_of OP_read_marker = None"
| "persistence_op_of OP_mark_succeeded = Some PP_MARK_SUCCEEDED"
| "persistence_op_of OP_mark_failed = Some PP_MARK_FAILED"
| "persistence_op_of OP_mark_failed_uncertain = Some PP_MARK_FAILED_UNCERTAIN"
| "persistence_op_of OP_record_awaiting_approval = Some PP_RECORD_AWAITING_APPROVAL"
| "persistence_op_of OP_schedule_retry = Some PP_SCHEDULE_RETRY"
| "persistence_op_of OP_renew_lease = Some PP_RENEW_LEASE"

text \<open>The transactions before the claim report without a job.\<close>

definition emit_persistence_failure :: "report_env \<Rightarrow> claimed_job option \<Rightarrow> persistence_operation \<Rightarrow> observation_event res" where
  "emit_persistence_failure v job p =
     bind_res (case job of None \<Rightarrow> Inr (plain_context (vn_fresh v)) | Some j \<Rightarrow> context_for_claimed (vn_profiles v) j) (\<lambda>c.
     mk_event ((context_event EN_PERSISTENCE_OPERATION_FAILED CO_PERSISTENCE c)
       \<lparr>oe_level := LEVEL_ERROR, oe_outcome := Some OC_FAILED, oe_persistence_operation := persistence_op_of p\<rparr>))"

definition before_claim_op :: "persistence_operation \<Rightarrow> bool" where
  "before_claim_op p \<longleftrightarrow> p \<in> {OP_decide_approval, OP_recover_lease, OP_claim_job}"

fun observe_worker :: "report_env \<Rightarrow> claimed_job \<Rightarrow> worker_event \<Rightarrow> observation_event res" where
  "observe_worker v job (ApprovalExpiredEvent a) = emit_expired_approval v a"
| "observe_worker v job (LeaseRecovered r) = emit_lease_recovered v r"
| "observe_worker v job (PersistenceFailed p) = emit_persistence_failure v (if before_claim_op p then None else Some job) p"
| "observe_worker v job (JobClaimed _ _) = emit_job_claimed v job"
| "observe_worker v job (JobRunStarted _ _) = emit_job_started v job"
| "observe_worker v job (RetryScheduled _ code) = emit_retry_scheduled v job code"
| "observe_worker v job (JobFinished _ outcome code steps reason committed') =
     emit_job_finished v job outcome code steps reason committed'"

section \<open>The loop and the executor\<close>

fun observe_agent :: "event_context \<Rightarrow> agent_event \<Rightarrow> observation_event res" where
  "observe_agent c (AgentStepCompleted step outcome action_key action_known) =
     mk_event ((context_event EN_AGENT_STEP_COMPLETED CO_AGENT c)
       \<lparr>oe_outcome := Some outcome, oe_step := Some (int step), oe_action_key := action_key, oe_action_known := action_known\<rparr>)"
| "observe_agent c (AgentRunFinished outcome steps reason) =
     mk_event ((context_event EN_AGENT_RUN_FINISHED CO_AGENT c)
       \<lparr>oe_outcome := Some outcome, oe_steps := Some (int steps), oe_stop_reason := reason\<rparr>)"

text \<open>The events of the executor; \<open>duration\<close> is the difference of two readings of the clock.\<close>

fun outcome_decision :: "outcome_code \<Rightarrow> routing_decision" where
  "outcome_decision OC_ALLOW = ALLOW"
| "outcome_decision OC_NEEDS_APPROVAL = NEEDS_APPROVAL"
| "outcome_decision _ = DENY"

fun observe_tool :: "event_context \<Rightarrow> int \<Rightarrow> tool_event \<Rightarrow> observation_event res" where
  "observe_tool c duration (PolicyEvaluated outcome action_key status reason missing) =
     mk_event ((context_event EN_POLICY_EVALUATED CO_POLICY c)
       \<lparr>oe_outcome := Some outcome, oe_duration_ms := Some (max 0 (duration div 1000000)), oe_action_key := action_key,
        oe_action_known := Some (action_key \<noteq> None), oe_policy_decision := Some (outcome_decision outcome),
        oe_routing_status := Some status, oe_policy_reason := reason, oe_missing_fields := missing\<rparr>)"
| "observe_tool c duration (ToolExecutionCompleted action_key outcome is_none committed') =
     mk_event ((context_event EN_TOOL_EXECUTION_COMPLETED CO_TOOL c)
       \<lparr>oe_outcome := Some outcome, oe_duration_ms := Some (max 0 (duration div 1000000)), oe_action_key := Some action_key,
        oe_action_known := Some True, oe_result_is_none := Some is_none, oe_side_effect_committed := Some committed'\<rparr>)"
| "observe_tool c duration (ApprovalRequestedEvent action_key approval reason) =
     mk_event ((context_event EN_APPROVAL_REQUESTED CO_APPROVAL c)
       \<lparr>oe_approval_id := Some approval, oe_outcome := Some OC_NEEDS_APPROVAL, oe_action_key := Some action_key,
        oe_action_known := Some True, oe_policy_reason := Some reason\<rparr>)"

section \<open>Reports of the worker validate\<close>

lemma safe_field_identifier: "safe_identifier f \<Longrightarrow> safe_field_name f"
  by (auto simp: safe_identifier_def safe_field_name_def bounded_identifier_def split: list.splits)

lemma resolved_names:
  assumes "resolve_persisted_profile env snapshot sha slug = Inr p"
  shows "safe_identifier (cp_scenario_key (rp_compiled p)) \<and> is_sha256_hex (cp_profile_fingerprint (rp_compiled p))"
proof -
  obtain snap s c where "decode_snapshot snap = Inr c" "resolved_profile env c snap s = Inr p"
    using assms by (auto simp: resolve_persisted_profile_def snapshot_unavailable_def
        split: option.splits sum.splits if_splits)
  moreover then have "valid_tenant_config c"
    using config_model_validate_valid by (auto simp: decode_snapshot_def bind_res_Inr_iff)
  ultimately show ?thesis
    by (auto simp: resolved_profile_def compile_tenant_profile_def bind_res_Inr_iff valid_tenant_config_def
        valid_config_fields_def split: sum.splits if_splits)
qed

lemma context_for_observation_ok:
  "\<exists>c. context_for_observation env trace tenant job snapshot sha = Inr c \<and> context_named c"
proof (cases "resolve_persisted_profile env snapshot (PStr sha) None")
  case (Inl e)
  then show ?thesis by (simp add: context_for_observation_def context_named_def plain_context_def Let_def)
next
  case (Inr p)
  then show ?thesis
    using resolved_names [OF Inr]
    by (simp add: context_for_observation_def mk_context_def context_named_def plain_context_def Let_def)
qed

lemma emit_worker_event_valid:
  assumes "\<And>c. context_named c \<Longrightarrow> \<exists>o'. mk_event (fill ((context_event name CO_WORKER c)
      \<lparr>oe_level := (if outcome \<in> {OC_FAILED, OC_FAILED_UNCERTAIN} then LEVEL_ERROR else LEVEL_INFO),
       oe_outcome := Some outcome, oe_attempt_count := Some (int (cj_attempt_count job))\<rparr>)) = Inr o'"
  shows "\<exists>o'. emit_worker_event env job name outcome fill = Inr o'"
proof -
  obtain c where "context_for_claimed env job = Inr c" "context_named c"
    using context_for_observation_ok unfolding context_for_claimed_def by blast
  then show ?thesis using assms [of c] by (simp add: emit_worker_event_def)
qed

lemmas build_defs = event_defs context_event_def blank_event_def context_named_def

lemma worker_reports_valid:
  "\<exists>o'. emit_job_claimed v job = Inr o'" "\<exists>o'. emit_job_started v job = Inr o'"
  "\<exists>o'. emit_retry_scheduled v job code = Inr o'"
  "cj_started_at job \<noteq> None \<Longrightarrow> opt_all (\<lambda>n. n \<le> 8) steps \<Longrightarrow>
     \<exists>o'. emit_job_finished v job outcome code steps reason b = Inr o'"
  unfolding emit_job_claimed_def emit_job_started_def emit_retry_scheduled_def
  subgoal by (rule emit_worker_event_valid) (simp add: build_defs)
  subgoal by (rule emit_worker_event_valid) (simp add: build_defs)
  subgoal by (rule emit_worker_event_valid) (simp add: build_defs)
  subgoal
    by (cases steps) (auto simp: emit_job_finished_def queue_latency_ms_def build_defs elapsed_ms_def total_latency_ms_def
        intro!: emit_worker_event_valid)
  done

lemma observation_reports_valid:
  "\<exists>o'. emit_lease_recovered v r = Inr o'" "\<exists>o'. emit_expired_approval v a = Inr o'"
  "\<exists>o'. emit_persistence_failure v j p = Inr o'"
  subgoal
    using context_for_observation_ok [of "vn_profiles v" "lr_trace_id r" "lr_tenant_id r" "lr_job_id r"
        "lr_tenant_config_snapshot r" "lr_tenant_config_sha256 r"]
    by (auto simp: emit_lease_recovered_def build_defs)
  subgoal
    using context_for_observation_ok [of "vn_profiles v" "ea_trace_id a" "ea_tenant_id a" "ea_job_id a"
        "ea_tenant_config_snapshot a" "ea_tenant_config_sha256 a"]
    by (auto simp: emit_expired_approval_def build_defs)
  subgoal
  proof (cases j)
    case None
    then show ?thesis by (simp add: emit_persistence_failure_def build_defs plain_context_def)
  next
    case (Some k)
    then show ?thesis
      using context_for_observation_ok [of "vn_profiles v" "cj_trace_id k" "cj_tenant_id k" "cj_id k"
        "cj_tenant_config_snapshot k" "cj_tenant_config_sha256 k"]
      by (auto simp: emit_persistence_failure_def context_for_claimed_def build_defs)
  qed
  done

text \<open>A finished job reports at most eight steps.\<close>

fun few_steps :: "worker_event \<Rightarrow> bool" where
  "few_steps (JobFinished _ _ _ steps _ _) = opt_all (\<lambda>n. n \<le> 8) steps"
| "few_steps _ = True"

definition reports :: "'a worker \<Rightarrow> bool" where
  "reports m \<longleftrightarrow> (\<forall>d r es d'. m d = (r, es, d') \<longrightarrow> list_all few_steps es)"

lemma reports_basic:
  "reports (ret_w x)" "reports (reported env p m)" "reports (reported_any env p m)" "reports (has_side_effect env job)"
  by (auto simp: reports_def ret_w_def reported_def reported_any_def has_side_effect_def
      split: prod.splits sum.splits if_splits)

lemma reports_emit: "list_all few_steps es \<Longrightarrow> reports (emit_w es)"
  by (simp add: reports_def emit_w_def)

lemma reports_bind:
  assumes "reports m" "\<And>x. reports (f x)"
  shows "reports (bind_w m f)"
  using assms unfolding reports_def bind_w_def by (fastforce split: prod.splits sum.splits)

lemma reports_if: "reports m \<Longrightarrow> reports m' \<Longrightarrow> reports (if c then m else m')"
  by simp

lemma reports_writes:
  "reports (write_failed env job err)" "reports (write_failed_uncertain env job err)"
  "reports (write_retry env job err)" "reports (persist_result env job r)" "reports (persist_preflight_result env job t)"
  unfolding write_failed_def write_failed_uncertain_def write_retry_def persist_result_def persist_completed_def
    persist_preflight_result_def Let_def
  by (intro reports_if reports_bind reports_basic)+

lemma reports_finish:
  "reports (finish_retryable env job code flag)" "reports (finish_error env job c)"
  unfolding finish_retryable_def finish_error_def
  by (intro reports_if reports_bind reports_basic reports_writes reports_emit; simp)+

lemma finish_run_reports:
  assumes "\<And>res. r = Inr (AgentResult res) \<Longrightarrow> rr_steps res \<le> 8"
  shows "reports (finish_run env job r)"
  using assms unfolding finish_run_def lease_lost_event_def
  by (auto intro!: reports_bind reports_writes reports_emit reports_finish split: sum.split exn.split job_outcome.split)

lemma claimed_run_steps:
  assumes "run_claimed_with_lease env job d = (Inr (AgentResult res), d')"
  shows "rr_steps res \<le> 8"
proof -
  have m: "loop_max_steps (PInt 8) = Inr MAX_STEPS" by (simp add: loop_max_steps_def MAX_STEPS_def)
  from assms show ?thesis
    by (auto simp: run_claimed_with_lease_def run_claimed_job_def split: prod.splits supervision.splits bool.splits
        sum.splits build_result.splits dest!: run_bounds [OF m])
qed

lemma run_job_reports: "reports (run_job env job)"
  unfolding reports_def
proof (intro allI impI)
  fix d r es d' assume a: "run_job env job d = (r, es, d')"
  obtain q d1 where q: "run_claimed_with_lease env job d = (q, d1)" by fastforce
  obtain x es1 d2 where x: "finish_run env job q d1 = (x, es1, d2)" by (metis prod_cases3)
  have "reports (finish_run env job q)"
    using claimed_run_steps q by (intro finish_run_reports) simp
  with x have "list_all few_steps es1" unfolding reports_def by blast
  then show "list_all few_steps es"
    using a q x by (auto simp: run_job_def lease_lost_event_def split: sum.splits if_splits)
qed

lemma serve_once_reports_steps: "reports (serve_once env)"
  unfolding serve_once_def
  by (auto intro!: reports_bind reports_basic reports_emit run_job_reports simp: list_all_iff split: option.split)


section \<open>Reports of a run validate\<close>

fun agent_event_ok :: "agent_event \<Rightarrow> bool" where
  "agent_event_ok (AgentStepCompleted step _ action_key action_known) \<longleftrightarrow>
     1 \<le> step \<and> step \<le> 8 \<and> opt_all safe_identifier action_key \<and> opt_all (\<lambda>b. b = (action_key \<noteq> None)) action_known"
| "agent_event_ok (AgentRunFinished _ steps _) \<longleftrightarrow> steps \<le> 8"

fun tool_event_ok :: "tool_event \<Rightarrow> bool" where
  "tool_event_ok (PolicyEvaluated _ action_key _ _ missing) \<longleftrightarrow>
     opt_all safe_identifier action_key \<and> list_all safe_identifier missing"
| "tool_event_ok (ToolExecutionCompleted action_key _ _ _) \<longleftrightarrow> safe_identifier action_key"
| "tool_event_ok (ApprovalRequestedEvent action_key _ _) \<longleftrightarrow> safe_identifier action_key"

lemma observe_agent_valid: "context_named c \<Longrightarrow> agent_event_ok ev \<Longrightarrow> \<exists>o'. observe_agent c ev = Inr o'"
  by (cases ev) (auto simp: build_defs)

lemma observe_tool_valid: "context_named c \<Longrightarrow> tool_event_ok ev \<Longrightarrow> \<exists>o'. observe_tool c t ev = Inr o'"
  by (cases ev) (auto simp: build_defs list_all_iff safe_field_identifier)

text \<open>The loop reports steps within its bound and only names that the executor defines.\<close>

definition loop_events_ok :: "'s loop_state \<Rightarrow> bool" where
  "loop_events_ok st \<longleftrightarrow> list_all agent_event_ok (ls_events st)"

lemma emit_step_ok:
  assumes "loop_events_ok st" "1 \<le> n" "n \<le> 8" "list_all safe_identifier (te_definitions tools)"
  shows "loop_events_ok (emit_step tools n oc k st)"
  using assms by (auto simp: loop_events_ok_def emit_step_def Let_def list_all_iff split: option.split)

lemma emit_run_ok: "loop_events_ok st \<Longrightarrow> n \<le> 8 \<Longrightarrow> loop_events_ok (emit_run status reason n st)"
  by (simp add: loop_events_ok_def emit_run_def)

lemma loop_events_ok_update [simp]:
  "loop_events_ok (st\<lparr>ls_tools := t\<rparr>) = loop_events_ok st" "loop_events_ok (st\<lparr>ls_messages := ms\<rparr>) = loop_events_ok st"
  "loop_events_ok (st\<lparr>ls_steps := n\<rparr>) = loop_events_ok st" "loop_events_ok (st\<lparr>ls_consecutive := n\<rparr>) = loop_events_ok st"
  "loop_events_ok (st\<lparr>ls_previous := p\<rparr>) = loop_events_ok st"
  by (simp_all add: loop_events_ok_def)

lemma append_evidence_ok:
  "append_evidence ex st = Inr st' \<Longrightarrow> (loop_events_ok st' \<longleftrightarrow> loop_events_ok st) \<and> ls_steps st' = ls_steps st"
  by (auto simp: loop_events_ok_def dest!: append_evidence_frame)

fun step_state :: "'s step_result \<Rightarrow> 's loop_state" where
  "step_state (Running st) = st"
| "step_state (Finished q st) = st"

lemma finish_result_ok:
  "loop_events_ok st \<Longrightarrow> rr_steps r \<le> 8 \<Longrightarrow> loop_events_ok (step_state (finish_result r st))"
  by (simp add: finish_result_def emit_run_ok)

lemma terminal_step_ok:
  assumes "loop_events_ok st" "1 \<le> ls_steps st" "ls_steps st \<le> 8" "list_all safe_identifier (te_definitions tools)"
  shows "loop_events_ok (step_state (terminal_step tools p st))"
  using assms
  by (auto simp: terminal_step_def Let_def intro!: finish_result_ok emit_step_ok
      split: prod.split sum.split dest!: append_evidence_ok)

lemma execute_step_ok:
  assumes "loop_events_ok st" "1 \<le> ls_steps st" "ls_steps st \<le> 8" "list_all safe_identifier (te_definitions tools)"
  shows "loop_events_ok (step_state (execute_step tools p c st))"
proof -
  define st1 where "st1 = emit_step tools (ls_steps st) OC_TOOL_REQUESTED (Some (tc_name c)) st"
  have 1: "loop_events_ok st1" "ls_steps st1 = ls_steps st"
    using assms by (simp_all add: st1_def emit_step_ok)
  obtain ex t where e: "te_execute tools p c (ls_tools st1) = (ex, t)" by fastforce
  show ?thesis
  proof (cases ex)
    case (Inl x)
    then show ?thesis using 1 e by (simp add: execute_step_def Let_def st1_def [symmetric])
  next
    case (Inr r)
    show ?thesis
    proof (cases "append_evidence r (st1\<lparr>ls_tools := t\<rparr>)")
      case (Inl y)
      then show ?thesis using 1 e Inr by (simp add: execute_step_def Let_def st1_def [symmetric])
    next
      case (Inr st2)
      have "loop_events_ok st2" "ls_steps st2 = ls_steps st"
        using append_evidence_ok [OF Inr] 1 by simp_all
      then show ?thesis
        using e \<open>ex = Inr r\<close> Inr assms(3)
        by (auto simp: execute_step_def Let_def st1_def [symmetric] intro!: finish_result_ok split: tool_disposition.split)
    qed
  qed
qed

lemma tool_step_ok:
  assumes "loop_events_ok st" "1 \<le> ls_steps st" "ls_steps st \<le> 8" "list_all safe_identifier (te_definitions tools)"
  shows "loop_events_ok (step_state (tool_step tools p c st))"
  using assms
  by (auto simp: tool_step_def Let_def failed_result_def intro!: finish_result_ok emit_step_ok execute_step_ok)

lemma iteration_events_ok:
  assumes "loop_events_ok st" "ls_steps st < 8" "list_all safe_identifier (te_definitions tools)"
  shows "loop_events_ok (step_state (loop_iteration llm tools st))"
  using assms
  by (auto simp: loop_iteration_def Let_def failed_result_def emit_run_ok
      intro!: finish_result_ok emit_step_ok terminal_step_ok tool_step_ok split: sum.split option.split)

lemma agent_run_reports:
  fixes fin :: "'s loop_state"
  assumes "agent_run llm tools m msgs s = (r, fin)" "m \<le> 8" "list_all safe_identifier (te_definitions tools)"
  shows "loop_events_ok fin"
proof -
  define I where "I = (\<lambda>st :: 's loop_state. loop_events_ok st \<and> ls_steps st \<le> 8)"
  define R where "R = (\<lambda>(_ :: agent_run_result res) st :: 's loop_state. loop_events_ok st)"
  have run: "run_loop llm tools m (initial_loop_state msgs s) = (r, fin)"
    using assms(1) by (simp add: agent_run_def)
  have ok: "loop_events_ok (step_state (loop_iteration llm tools st))" if "I st" "ls_steps st < m" for st
    using that assms(2,3) iteration_events_ok [of st tools llm] by (simp add: I_def)
  have "R r fin"
  proof (rule run_loop_invariant [where I = I and Q = R, OF run])
    show "I s'" if "I st" "ls_steps st < m" "loop_iteration llm tools st = Running s'" for st s'
      using ok [OF that(1,2)] that assms(2) loop_iteration_Running_steps [OF that(3)] by (simp add: I_def)
    show "R q s'" if "I st" "ls_steps st < m" "loop_iteration llm tools st = Finished q s'" for st q s'
      using ok [OF that(1,2)] that(3) by (simp add: R_def)
  qed (auto simp: I_def R_def initial_loop_state_def loop_events_ok_def emit_run_def)
  then show ?thesis by (simp add: R_def)
qed

text \<open>The executor reports the names of its definitions and of the declared fields.\<close>

definition safe_executor :: "'p executor \<Rightarrow> bool" where
  "safe_executor x \<longleftrightarrow>
     valid_tenant_config (rt_tenant_config (xe_runtime x)) \<and>
     list_all (\<lambda>(k, d). safe_identifier k \<and> safe_identifier (td_name d)) (xe_definitions x)"

definition executor_events_ok :: "'p executor \<Rightarrow> 'p exec_state \<Rightarrow> bool" where
  "executor_events_ok x s \<longleftrightarrow> safe_executor x \<longrightarrow> list_all tool_event_ok (xs_events s)"

lemma steps_events_ok:
  assumes "list_all tool_event_ok (xs_events s)" "safe_identifier (td_name d)"
  shows "list_all tool_event_ok (xs_events (snd (failure_step d policy e s)))"
    "list_all tool_event_ok (xs_events (snd (handler_step x d args p policy s)))"
    "list_all tool_event_ok (xs_events (snd (request_step x d args p policy s)))"
    "list_all tool_event_ok (xs_events (snd (invalid_arguments_step d policy s)))"
proof -
  show f: "list_all tool_event_ok (xs_events (snd (failure_step d policy e s)))" for e
    using assms by (auto simp: failure_step_def emit_tool_def emit_event_def split: prod.split sum.split)
  have "list_all tool_event_ok (xs_events (snd (failure_step d policy e' (s\<lparr>xs_port := p'\<rparr>))))" for e' p'
    using assms by (auto simp: failure_step_def emit_tool_def emit_event_def split: prod.split sum.split)
  then show "list_all tool_event_ok (xs_events (snd (handler_step x d args p policy s)))"
    using assms f by (auto simp: handler_step_def emit_tool_def emit_event_def Let_def split: prod.split sum.split)
  show "list_all tool_event_ok (xs_events (snd (request_step x d args p policy s)))"
    using assms by (auto simp: request_step_def emit_approval_requested_def emit_event_def Let_def
        split: prod.split sum.split option.split)
  show "list_all tool_event_ok (xs_events (snd (invalid_arguments_step d policy s)))"
    using assms by (auto simp: invalid_arguments_step_def emit_tool_def emit_event_def split: sum.split)
qed

lemma emit_policy_ok:
  assumes "list_all tool_event_ok (xs_events s)" "speakable policy" "known \<Longrightarrow> safe_identifier k"
  shows "list_all tool_event_ok (xs_events (emit_policy k known policy s))"
  using assms by (auto simp: emit_policy_def emit_event_def speakable_def list_all_iff)

lemma execute_policy_speakable:
  "safe_executor x \<Longrightarrow> speakable (execute_policy x p call)"
  using invalid_fields_declared [of x p]
  by (auto simp: execute_policy_def safe_executor_def intro!: policy_evaluate_speakable)

lemma executor_execute_events:
  assumes "executor_events_ok x s" "executor_execute x p call s = (r, s')"
  shows "executor_events_ok x s'"
  unfolding executor_events_ok_def
proof
  assume safe: "safe_executor x"
  define s1 where "s1 = emit_policy (tc_name call) (map_of (xe_definitions x) (tc_name call) \<noteq> None) (execute_policy x p call) s"
  have d: "safe_identifier (tc_name call) \<and> safe_identifier (td_name d)"
    if "map_of (xe_definitions x) (tc_name call) = Some d" for d
    using safe map_of_SomeD [OF that] by (auto simp: safe_executor_def list_all_iff)
  have s1: "list_all tool_event_ok (xs_events s1)"
    using assms(1) safe d execute_policy_speakable [OF safe]
    unfolding s1_def by (intro emit_policy_ok) (auto simp: executor_events_ok_def)
  have "list_all tool_event_ok (xs_events (snd (dispatch_step x d p call (execute_policy x p call) s1)))"
    if "map_of (xe_definitions x) (tc_name call) = Some d" for d
    using steps_events_ok [OF s1, of d] d [OF that] s1 by (simp add: dispatch_step_def split: sum.split)
  then have "list_all tool_event_ok (xs_events (snd (executor_execute x p call s)))"
    using assms(1) s1 safe unfolding executor_execute_def Let_def s1_def [symmetric]
    by (simp add: executor_events_ok_def split: option.split)
  then show "list_all tool_event_ok (xs_events s')" using assms(2) by simp
qed

lemma executor_terminal_events:
  assumes "executor_events_ok x s" "executor_evaluate_terminal x p s = (r, s')"
  shows "executor_events_ok x s'"
  unfolding executor_events_ok_def
proof
  assume safe: "safe_executor x"
  then have "valid_tenant_config (rt_tenant_config (xe_runtime x))" by (simp add: safe_executor_def)
  then show "list_all tool_event_ok (xs_events s')"
    using assms safe invalid_fields_declared [of x p]
    by (auto simp: executor_evaluate_terminal_def executor_events_ok_def Let_def
        intro!: emit_policy_ok policy_evaluate_speakable split: if_splits)
qed

interpretation reporter: tool_contract "gated_tools x" "executor_events_ok x" for x
  by unfold_locales (auto simp: gated_tools_def intro: executor_execute_events executor_terminal_events)

lemma builtin_definitions_safe:
  "list_all (\<lambda>(k, d). safe_identifier k \<and> safe_identifier (td_name d)) builtin_definitions"
  by code_simp

text \<open>
  C30. Reporting never fails in a run. In every run of the agent on the tools of a claimed job of a tenant with
  a valid profile, whatever the provider answers and the database does, each event of the loop and each
  event of the executor becomes a valid observation event: steps from one to eight, action and field names
  that are safe, and an action name exactly when the action is known.
\<close>

theorem run_events_valid:
  assumes "agent_run llm (gated_tools (postgres_executor penv rt ve)) m msgs s = (r, fin)" "m \<le> MAX_STEPS"
    and "valid_tenant_config (rt_tenant_config rt)" "xs_events s = []" "mk_context c = Inr c"
  shows "(\<forall>ev \<in> set (ls_events fin). \<exists>o'. observe_agent c ev = Inr o') \<and>
    (\<forall>ev \<in> set (xs_events (ls_tools fin)). \<exists>o'. observe_tool c t ev = Inr o')"
proof -
  let ?x = "postgres_executor penv rt ve"
  have c: "context_named c" using assms(5) by (simp add: mk_context_Inr)
  have safe: "safe_executor ?x"
    using assms(3) builtin_definitions_safe by (simp add: safe_executor_def postgres_executor_def)
  then have "list_all safe_identifier (te_definitions (gated_tools ?x))"
    by (auto simp: gated_tools_def safe_executor_def list_all_iff dest!: map_of_SomeD)
  then have l: "loop_events_ok fin"
    using agent_run_reports [OF assms(1)] assms(2) by (simp add: MAX_STEPS_def)
  have "executor_events_ok ?x (ls_tools fin)"
    using reporter.run_keeps_inv [OF _ assms(1)] assms(4) by (simp add: executor_events_ok_def)
  with safe have "list_all tool_event_ok (xs_events (ls_tools fin))" by (simp add: executor_events_ok_def)
  with l show ?thesis
    using observe_agent_valid [OF c] observe_tool_valid [OF c] by (auto simp: loop_events_ok_def list_all_iff)
qed

section \<open>The provider client and the request middleware\<close>

definition observe_provider :: "event_context \<Rightarrow> provider_call \<Rightarrow> observation_event res" where
  "observe_provider c k =
     mk_event ((context_event EN_PROVIDER_CALL_COMPLETED CO_PROVIDER c)
       \<lparr>oe_level := (if pk_outcome k = OC_SUCCESS then LEVEL_INFO else LEVEL_WARNING), oe_outcome := Some (pk_outcome k),
        oe_duration_ms := Some (pk_duration_ms k), oe_provider_call_index := Some (int (pk_call_index k)),
        oe_validation_retry := Some (pk_validation_retry k), oe_status_code := pk_status_code k,
        oe_prompt_tokens := map_of (pk_usage k) ''prompt_tokens'',
        oe_completion_tokens := map_of (pk_usage k) ''completion_tokens'',
        oe_total_tokens := map_of (pk_usage k) ''total_tokens''\<rparr>)"

lemma usage_nonneg: "list_all (\<lambda>(_, i). 0 \<le> (i :: int)) u \<Longrightarrow> opt_all (\<lambda>n. 0 \<le> n) (map_of u k)"
  by (cases "map_of u k") (auto simp: list_all_iff dest!: map_of_SomeD)

text \<open>The check inside the client is the validation of the whole event.\<close>

lemma provider_event_valid:
  assumes "context_named c" "valid_call_event k"
  shows "\<exists>o'. observe_provider c k = Inr o'"
  using assms usage_nonneg [of "pk_usage k"]
  by (auto simp: observe_provider_def valid_call_event_def usage_consistent_def build_defs
      split: option.splits)

definition observe_request :: "request_event \<Rightarrow> observation_event res" where
  "observe_request e =
     mk_event ((context_event EN_HTTP_REQUEST_COMPLETED CO_API (plain_context (oc_trace_id (rv_context e))))
       \<lparr>oe_level := rv_level e, oe_request_id := oc_request_id (rv_context e), oe_tenant_id := oc_tenant_id (rv_context e),
        oe_job_id := oc_job_id (rv_context e), oe_outcome := Some (rv_outcome e),
        oe_duration_ms := Some (rv_duration_ms e), oe_route := Some (rv_route e), oe_method := rv_method e,
        oe_status_code := Some (rv_status_code e), oe_request_bytes := rv_request_bytes e,
        oe_client_correlation_id := rv_correlation_id e, oe_client_correlation_invalid := rv_correlation_invalid e\<rparr>)"

lemma request_event_observed: "valid_request_event e \<longleftrightarrow> (\<exists>o'. observe_request e = Inr o')"
  by (auto simp: observe_request_def valid_request_event_def build_defs plain_context_def opt_all_def
      split: option.splits if_splits)

end
