(* ===== verification/Event_Examples.thy ===== *)
theory Event_Examples
  imports Event_Reports Examples
begin

text \<open>The reports of the worker and of a run of the theory \<open>Examples\<close>.\<close>

definition demo_report :: report_env where
  "demo_report =
     \<lparr>vn_profiles = demo_env, vn_total_ms = (\<lambda>x. x div 1000), vn_elapsed_ns = 3000000, vn_now = 20,
      vn_retry_delay = 500000, vn_fresh = 1\<rparr>"


theorem run_events_valid_witness:
  "\<exists>r fin. agent_run demo_case_llm (gated_tools (postgres_executor (claimed_env 100 1 500) demo_runtime demo_value_env)) 8 [] demo_port =
     (r, fin) \<and> (\<forall>ev \<in> set (ls_events fin). \<exists>o'. observe_agent (plain_context 7) ev = Inr o')"
proof -
  obtain r fin where run: "agent_run demo_case_llm
      (gated_tools (postgres_executor (claimed_env 100 1 500) demo_runtime demo_value_env)) 8 [] demo_port = (r, fin)"
    by fastforce
  have v: "valid_tenant_config (rt_tenant_config demo_runtime)" by code_simp
  have "(8::nat) \<le> MAX_STEPS" "xs_events demo_port = []" "mk_context (plain_context 7) = Inr (plain_context 7)"
    by (simp_all add: MAX_STEPS_def demo_port_def mk_context_def plain_context_def)
  from run_events_valid [OF run this(1) v this(2,3)] run show ?thesis by blast
qed

end
