(* ===== verification/Scenario_Contracts.thy ===== *)
theory Scenario_Contracts
  imports Runtime
begin

text \<open>
  The contracts of the deterministic scenario suites, \<open>evals/core/contracts.py\<close> and
  \<open>evals/core/reporting.py\<close>: what a case expects, what a run observes, how the two are compared and
  which seven values a report may show. The constructors are modelled with the checks that the types
  do not already make.
\<close>

section \<open>Cases\<close>

definition SAFE_RESULT_KEYS :: "string list" where
  "SAFE_RESULT_KEYS =
     [''case_id'', ''scenario_key'', ''passed'', ''routing_status'', ''policy_reason'', ''action_key'', ''mismatch_codes'']"

definition SAFE_MISMATCH_CODES :: "string list" where
  "SAFE_MISMATCH_CODES =
     [''action_key_mismatch'', ''approval_mismatch'', ''case_created_mismatch'', ''execution_failed'',
      ''llm_calls_mismatch'', ''missing_fields_mismatch'', ''policy_reason_mismatch'', ''routing_status_mismatch'',
      ''scripted_proposals_exhausted'', ''scripted_proposals_unused'', ''tenant_isolation_mismatch'',
      ''tool_failure_mismatch'']"

text \<open>\<open>^[a-z0-9]+(?:-[a-z0-9]+)*$\<close>; the flag tells whether the last character was not a hyphen.\<close>

fun kebab_from :: "bool \<Rightarrow> string \<Rightarrow> bool" where
  "kebab_from word [] = word"
| "kebab_from word (c # cs) =
     (if is_lower c \<or> is_digit c then kebab_from True cs else c = CHR ''-'' \<and> word \<and> kebab_from False cs)"

definition case_id_format :: "string \<Rightarrow> bool" where
  "case_id_format s \<longleftrightarrow> kebab_from False s"

datatype scenario_case_kind =
  SC_SUCCESS | SC_MISSING_FIELDS | SC_UNKNOWN_INTAKE | SC_APPROVAL | SC_TOOL_FAILURE | SC_TENANT_ISOLATION

record scenario_expectation =
  sx_routing_status :: "routing_status option"
  sx_policy_reason :: "string option"
  sx_action_key :: "string option"
  sx_missing_required_fields :: "string list"
  sx_approval_required :: "bool option"
  sx_case_created :: "bool option"
  sx_tenant_isolated :: "bool option"
  sx_llm_calls :: "int option"

definition mk_expectation :: "scenario_expectation \<Rightarrow> scenario_expectation res" where
  "mk_expectation e =
     (if (case sx_action_key e of None \<Rightarrow> False | Some k \<Rightarrow> \<not> safe_identifier k)
      then Inl (ValueError ''action_key must be a safe identifier or None'')
      else if \<not> distinct (sx_missing_required_fields e)
      then Inl (ValueError ''missing_required_fields must be unique'')
      else if [] \<in> set (sx_missing_required_fields e)
      then Inl (ValueError ''missing_required_fields must contain non-empty names'')
      else if (case sx_llm_calls e of None \<Rightarrow> False | Some n \<Rightarrow> n < 0)
      then Inl (ValueError ''llm_calls must be a non-negative integer or None'')
      else Inr (e\<lparr>sx_missing_required_fields := sort (sx_missing_required_fields e)\<rparr>))"

record scenario_case =
  sk_case_id :: string
  sk_scenario_key :: string
  sk_kind :: scenario_case_kind
  sk_source :: trusted_source
  sk_proposals :: "agent_proposal list"
  sk_expected :: scenario_expectation
  sk_safety_or_legal_risk :: bool

definition mk_scenario_case :: "scenario_case \<Rightarrow> scenario_case res" where
  "mk_scenario_case c =
     (if \<not> case_id_format (sk_case_id c) then Inl (ValueError ''case_id must be lowercase kebab-case'')
      else if \<not> safe_identifier (sk_scenario_key c) then Inl (ValueError ''scenario_key must be a safe identifier'')
      else Inr c)"

section \<open>Observations and results\<close>

record scenario_observation =
  so_routing_status :: "routing_status option"
  so_policy_reason :: "string option"
  so_action_key :: "string option"
  so_missing_required_fields :: "string list"
  so_approval_required :: bool
  so_case_created :: bool
  so_tenant_isolated :: "bool option"
  so_llm_calls :: int

definition blank_observation :: scenario_observation where
  "blank_observation =
     \<lparr>so_routing_status = None, so_policy_reason = None, so_action_key = None, so_missing_required_fields = [],
      so_approval_required = False, so_case_created = False, so_tenant_isolated = None, so_llm_calls = 0\<rparr>"

record scenario_result =
  sz_case_id :: string
  sz_scenario_key :: string
  sz_passed :: bool
  sz_routing_status :: "routing_status option"
  sz_policy_reason :: "string option"
  sz_action_key :: "string option"
  sz_mismatch_codes :: "string list"

definition mk_scenario_result :: "scenario_result \<Rightarrow> scenario_result res" where
  "mk_scenario_result r =
     (if \<not> case_id_format (sz_case_id r) then Inl (ValueError ''case_id must be lowercase kebab-case'')
      else if \<not> safe_identifier (sz_scenario_key r) then Inl (ValueError ''scenario_key must be a safe identifier'')
      else if (case sz_action_key r of None \<Rightarrow> False | Some k \<Rightarrow> \<not> safe_identifier k)
      then Inl (ValueError ''action_key must be a safe identifier or None'')
      else if list_ex (\<lambda>c. c \<notin> set SAFE_MISMATCH_CODES) (sorted_set (sz_mismatch_codes r))
      then Inl (ValueError ''mismatch_codes contains an unknown code'')
      else Inr (r\<lparr>sz_mismatch_codes := sorted_set (sz_mismatch_codes r)\<rparr>))"

definition safe_projection :: "scenario_result \<Rightarrow> py_dict" where
  "safe_projection r =
     [(''case_id'', PStr (sz_case_id r)), (''scenario_key'', PStr (sz_scenario_key r)), (''passed'', PBool (sz_passed r)),
      (''routing_status'', opt_str (map_option routing_status_value (sz_routing_status r))),
      (''policy_reason'', opt_str (sz_policy_reason r)), (''action_key'', opt_str (sz_action_key r)),
      (''mismatch_codes'', PList (map PStr (sz_mismatch_codes r)))]"

definition result_model_dump_json :: "(rat \<Rightarrow> string) \<Rightarrow> scenario_result \<Rightarrow> string res" where
  "result_model_dump_json fl r = canonical_json fl (PDict (safe_projection r))"

definition safe_failure_message :: "scenario_result \<Rightarrow> string" where
  "safe_failure_message r =
     (if sz_mismatch_codes r = [] then ''scenario_case_failed'' else join_names (sz_mismatch_codes r))"

text \<open>\<open>evals/core/reporting.py\<close>: the projection of a report.\<close>

definition reported_projection :: "scenario_result \<Rightarrow> py_dict res" where
  "reported_projection r =
     (if set (dict_keys (safe_projection r)) \<noteq> set SAFE_RESULT_KEYS
      then Inl (ValueError ''scenario result projection is outside the allowlist'')
      else Inr (safe_projection r))"

definition safe_projections :: "scenario_result list \<Rightarrow> py_dict list res" where
  "safe_projections rs = map_res reported_projection rs"

section \<open>Comparison\<close>

definition differs :: "'a \<Rightarrow> 'a option \<Rightarrow> bool" where
  "differs actual wanted \<longleftrightarrow> (case wanted of None \<Rightarrow> False | Some w \<Rightarrow> actual \<noteq> w)"

definition differs_opt :: "'a option \<Rightarrow> 'a option \<Rightarrow> bool" where
  "differs_opt actual wanted \<longleftrightarrow> wanted \<noteq> None \<and> actual \<noteq> wanted"

definition mismatch_table :: "scenario_observation \<Rightarrow> scenario_expectation \<Rightarrow> (bool \<times> string) list" where
  "mismatch_table ob e =
     [(differs_opt (so_routing_status ob) (sx_routing_status e), ''routing_status_mismatch''),
      (differs_opt (so_policy_reason ob) (sx_policy_reason e), ''policy_reason_mismatch''),
      (differs_opt (so_action_key ob) (sx_action_key e), ''action_key_mismatch''),
      (so_missing_required_fields ob \<noteq> sx_missing_required_fields e, ''missing_fields_mismatch''),
      (differs (so_approval_required ob) (sx_approval_required e), ''approval_mismatch''),
      (differs (so_case_created ob) (sx_case_created e), ''case_created_mismatch''),
      (differs_opt (so_tenant_isolated ob) (sx_tenant_isolated e), ''tenant_isolation_mismatch''),
      (differs (so_llm_calls ob) (sx_llm_calls e), ''llm_calls_mismatch'')]"

definition compare_scenario_observation :: "scenario_observation \<Rightarrow> scenario_expectation \<Rightarrow> string list" where
  "compare_scenario_observation ob e = sorted_set (map snd (filter fst (mismatch_table ob e)))"

definition safe_result_from_observation ::
  "scenario_case \<Rightarrow> scenario_observation \<Rightarrow> string list \<Rightarrow> scenario_result res" where
  "safe_result_from_observation c ob extra =
     (let codes = compare_scenario_observation ob (sk_expected c) @
            map (\<lambda>x. if x \<in> set SAFE_MISMATCH_CODES then x else ''execution_failed'') extra
      in mk_scenario_result
           \<lparr>sz_case_id = sk_case_id c, sz_scenario_key = sk_scenario_key c, sz_passed = (codes = []),
            sz_routing_status = so_routing_status ob, sz_policy_reason = so_policy_reason ob,
            sz_action_key = so_action_key ob, sz_mismatch_codes = sorted_set codes\<rparr>)"

section \<open>What a result says\<close>

text \<open>The observation agrees with everything that the case expects.\<close>

definition meets :: "scenario_observation \<Rightarrow> scenario_expectation \<Rightarrow> bool" where
  "meets ob e \<longleftrightarrow>
     (sx_routing_status e \<noteq> None \<longrightarrow> so_routing_status ob = sx_routing_status e) \<and>
     (sx_policy_reason e \<noteq> None \<longrightarrow> so_policy_reason ob = sx_policy_reason e) \<and>
     (sx_action_key e \<noteq> None \<longrightarrow> so_action_key ob = sx_action_key e) \<and>
     so_missing_required_fields ob = sx_missing_required_fields e \<and>
     (\<forall>b. sx_approval_required e = Some b \<longrightarrow> so_approval_required ob = b) \<and>
     (\<forall>b. sx_case_created e = Some b \<longrightarrow> so_case_created ob = b) \<and>
     (sx_tenant_isolated e \<noteq> None \<longrightarrow> so_tenant_isolated ob = sx_tenant_isolated e) \<and>
     (\<forall>n. sx_llm_calls e = Some n \<longrightarrow> so_llm_calls ob = n)"

lemma compare_empty_iff: "compare_scenario_observation ob e = [] \<longleftrightarrow> meets ob e"
  by (auto simp: compare_scenario_observation_def mismatch_table_def meets_def differs_def differs_opt_def
      filter_empty_conv split: option.splits)

lemma compare_safe: "set (compare_scenario_observation ob e) \<subseteq> set SAFE_MISMATCH_CODES"
  by (auto simp: compare_scenario_observation_def mismatch_table_def SAFE_MISMATCH_CODES_def split: if_splits)

lemma execution_failed_safe: "''execution_failed'' \<in> set SAFE_MISMATCH_CODES"
  by (simp add: SAFE_MISMATCH_CODES_def)

text \<open>A result never shows more than the seven safe values, and it passes exactly when nothing differed.\<close>

definition sound_result :: "scenario_case \<Rightarrow> scenario_observation \<Rightarrow> string list \<Rightarrow> scenario_result \<Rightarrow> bool" where
  "sound_result c ob extra r \<longleftrightarrow>
     sz_case_id r = sk_case_id c \<and> sz_scenario_key r = sk_scenario_key c \<and>
     (sz_passed r \<longleftrightarrow> meets ob (sk_expected c) \<and> extra = []) \<and>
     (sz_passed r \<longleftrightarrow> sz_mismatch_codes r = []) \<and>
     set (sz_mismatch_codes r) \<subseteq> set SAFE_MISMATCH_CODES \<and>
     sorted (sz_mismatch_codes r) \<and> distinct (sz_mismatch_codes r) \<and>
     dict_keys (safe_projection r) = SAFE_RESULT_KEYS"

lemma projection_keys: "dict_keys (safe_projection r) = SAFE_RESULT_KEYS"
  by (simp add: safe_projection_def SAFE_RESULT_KEYS_def dict_keys_def)

lemma safe_codes:
  "set (compare_scenario_observation ob e @
     map (\<lambda>x. if x \<in> set SAFE_MISMATCH_CODES then x else ''execution_failed'') extra) \<subseteq> set SAFE_MISMATCH_CODES"
  using compare_safe [of ob e] execution_failed_safe by auto

lemma safe_result_total:
  assumes "case_id_format (sk_case_id c)" "safe_identifier (sk_scenario_key c)"
    "\<And>k. so_action_key ob = Some k \<Longrightarrow> safe_identifier k"
  shows "\<exists>r. safe_result_from_observation c ob extra = Inr r \<and> sound_result c ob extra r"
proof -
  let ?codes = "compare_scenario_observation ob (sk_expected c) @
      map (\<lambda>x. if x \<in> set SAFE_MISMATCH_CODES then x else ''execution_failed'') extra"
  have "\<not> list_ex (\<lambda>x. x \<notin> set SAFE_MISMATCH_CODES) (sorted_set ?codes)"
    using safe_codes [of ob "sk_expected c" extra] by (auto simp: list_ex_iff)
  moreover have "?codes = [] \<longleftrightarrow> meets ob (sk_expected c) \<and> extra = []"
    by (simp add: compare_empty_iff)
  ultimately show ?thesis
    using assms safe_codes [of ob "sk_expected c" extra]
    by (simp add: safe_result_from_observation_def mk_scenario_result_def sound_result_def projection_keys Let_def
        split: option.split)
qed

lemma safe_result_sound:
  assumes "safe_result_from_observation c ob extra = Inr r"
  shows "sound_result c ob extra r"
proof -
  have "case_id_format (sk_case_id c)" "safe_identifier (sk_scenario_key c)"
    "\<And>k. so_action_key ob = Some k \<Longrightarrow> safe_identifier k"
    using assms by (auto simp: safe_result_from_observation_def mk_scenario_result_def Let_def split: if_splits)
  from safe_result_total [of c ob extra, OF this] assms show ?thesis by auto
qed

lemma reported_total: "reported_projection r = Inr (safe_projection r)"
  by (simp add: reported_projection_def projection_keys)

lemma result_json_total: "\<exists>s. result_model_dump_json fl r = Inr s"
  unfolding result_model_dump_json_def
  by (rule canonical_json_total) (simp add: safe_projection_def opt_str_def list_all_iff split: option.split)

end
