(* ===== verification/Scenario_Safety.thy ===== *)
theory Scenario_Safety
  imports Scenario_Runner Agent_Run
begin

text \<open>
  What the scenario suites show: recording the policy does not change a run, the observation is the
  evidence of the production run, every case ends in a closed result, and the isolation case passes.
\<close>

section \<open>Tools seen through a projection of their state\<close>

definition project :: "('s \<Rightarrow> 't) \<Rightarrow> 's loop_state \<Rightarrow> 't loop_state" where
  "project f st =
     \<lparr>ls_messages = ls_messages st, ls_steps = ls_steps st, ls_path = ls_path st, ls_previous = ls_previous st,
      ls_consecutive = ls_consecutive st, ls_tools = f (ls_tools st), ls_events = ls_events st\<rparr>"

lemma project_simps [simp]:
  "ls_messages (project f st) = ls_messages st" "ls_steps (project f st) = ls_steps st" "ls_path (project f st) = ls_path st"
  "ls_previous (project f st) = ls_previous st" "ls_consecutive (project f st) = ls_consecutive st"
  "ls_tools (project f st) = f (ls_tools st)" "ls_events (project f st) = ls_events st"
  by (simp_all add: project_def)

lemma project_update [simp]:
  "(project f st)\<lparr>ls_messages := m\<rparr> = project f (st\<lparr>ls_messages := m\<rparr>)"
  "(project f st)\<lparr>ls_steps := n\<rparr> = project f (st\<lparr>ls_steps := n\<rparr>)"
  "(project f st)\<lparr>ls_path := p\<rparr> = project f (st\<lparr>ls_path := p\<rparr>)"
  "(project f st)\<lparr>ls_previous := c\<rparr> = project f (st\<lparr>ls_previous := c\<rparr>)"
  "(project f st)\<lparr>ls_consecutive := n\<rparr> = project f (st\<lparr>ls_consecutive := n\<rparr>)"
  "(project f st)\<lparr>ls_tools := f t\<rparr> = project f (st\<lparr>ls_tools := t\<rparr>)"
  "(project f st)\<lparr>ls_events := e\<rparr> = project f (st\<lparr>ls_events := e\<rparr>)"
  by (simp_all add: project_def)

fun project_result :: "('s \<Rightarrow> 't) \<Rightarrow> 's step_result \<Rightarrow> 't step_result" where
  "project_result f (Running st) = Running (project f st)"
| "project_result f (Finished r st) = Finished r (project f st)"

locale tool_projection =
  fixes outer :: "'s tool_executor" and inner :: "'t tool_executor" and f :: "'s \<Rightarrow> 't"
  assumes definitions_same: "te_definitions inner = te_definitions outer"
    and execute_same: "te_execute inner p c (f s) = map_prod id f (te_execute outer p c s)"
    and terminal_some: "te_evaluate_terminal outer = Some g \<Longrightarrow>
      \<exists>h. te_evaluate_terminal inner = Some h \<and> (\<forall>p s. h p (f s) = map_prod id f (g p s))"
    and terminal_none: "te_evaluate_terminal outer = None \<Longrightarrow> te_evaluate_terminal inner = None"
begin

lemma emit_step_same: "emit_step inner n oc k (project f st) = project f (emit_step outer n oc k st)"
  by (cases k) (simp_all add: emit_step_def definitions_same Let_def)

lemma emit_run_same: "emit_run status reason n (project f st) = project f (emit_run status reason n st)"
  by (simp add: emit_run_def)

lemma finish_result_same: "finish_result r (project f st) = project_result f (finish_result r st)"
  by (simp add: finish_result_def emit_run_same)

lemma append_evidence_same: "append_evidence ex (project f st) = map_sum id (project f) (append_evidence ex st)"
  by (simp add: append_evidence_def split: option.split sum.split)

lemma terminal_call_same:
  "(case te_evaluate_terminal inner of Some h \<Rightarrow> h p (f s) | None \<Rightarrow> (legacy_terminal_result, f s)) =
   map_prod id f (case te_evaluate_terminal outer of Some g \<Rightarrow> g p s | None \<Rightarrow> (legacy_terminal_result, s))"
  using terminal_none terminal_some by (cases "te_evaluate_terminal outer") fastforce+

lemma terminal_step_same: "terminal_step inner p (project f st) = project_result f (terminal_step outer p st)"
proof -
  obtain r t where t: "(case te_evaluate_terminal outer of Some g \<Rightarrow> g p (ls_tools st)
      | None \<Rightarrow> (legacy_terminal_result, ls_tools st)) = (r, t)" by fastforce
  then have t': "(case te_evaluate_terminal inner of Some h \<Rightarrow> h p (ls_tools (project f st))
      | None \<Rightarrow> (legacy_terminal_result, ls_tools (project f st))) = (r, f t)"
    unfolding project_simps by (simp add: terminal_call_same)
  show ?thesis
  proof (cases r)
    case (Inl e)
    then show ?thesis using t t' by (simp add: terminal_step_def Let_def)
  next
    case (Inr ex)
    show ?thesis
      using t t' Inr
      by (cases "append_evidence ex (st\<lparr>ls_tools := t\<rparr>)")
        (simp_all add: terminal_step_def Let_def emit_step_same append_evidence_same finish_result_same)
  qed
qed

lemma execute_step_same: "execute_step inner p c (project f st) = project_result f (execute_step outer p c st)"
proof -
  obtain r t where t: "te_execute outer p c (ls_tools st) = (r, t)" by fastforce
  show ?thesis
  proof (cases r)
    case (Inl e)
    then show ?thesis using t by (simp add: execute_step_def Let_def execute_same emit_step_same)
  next
    case (Inr ex)
    let ?st = "(emit_step outer (ls_steps st) OC_TOOL_REQUESTED (Some (tc_name c)) st)\<lparr>ls_tools := t\<rparr>"
    show ?thesis
      using t Inr
      by (cases "append_evidence ex ?st"; cases "ter_disposition ex")
        (simp_all add: execute_step_def Let_def execute_same emit_step_same append_evidence_same finish_result_same)
  qed
qed

lemma tool_step_same: "tool_step inner p c (project f st) = project_result f (tool_step outer p c st)"
  by (simp add: tool_step_def Let_def execute_step_same emit_step_same finish_result_same failed_result_def)

lemma iteration_same: "loop_iteration llm inner (project f st) = project_result f (loop_iteration llm outer st)"
  by (simp add: loop_iteration_def Let_def terminal_step_same tool_step_same emit_step_same emit_run_same
      finish_result_same failed_result_def split: sum.split option.split)

lemma run_loop_same: "run_loop llm inner m (project f st) = map_prod id (project f) (run_loop llm outer m st)"
proof (induction "m - ls_steps st" arbitrary: st rule: less_induct)
  case less
  show ?case
  proof (cases "ls_steps st < m")
    case False
    then show ?thesis
      by (simp add: run_loop.simps [of llm inner] run_loop.simps [of llm outer] emit_run_same failed_result_def)
  next
    case True
    show ?thesis
    proof (cases "loop_iteration llm outer st")
      case (Finished r st')
      then show ?thesis
        using True iteration_same [of llm st]
        by (simp add: run_loop.simps [of llm inner] run_loop.simps [of llm outer])
    next
      case (Running st')
      then have "m - ls_steps st' < m - ls_steps st" using loop_iteration_Running_steps True by fastforce
      from less [OF this] Running True iteration_same [of llm st] show ?thesis
        by (simp add: run_loop.simps [of llm inner m "project f st"] run_loop.simps [of llm outer m st])
    qed
  qed
qed

lemma agent_run_same: "agent_run llm inner m msgs (f s) = map_prod id (project f) (agent_run llm outer m msgs s)"
proof -
  have "initial_loop_state msgs (f s) = project f (initial_loop_state msgs s)"
    by (simp add: initial_loop_state_def project_def)
  then show ?thesis using run_loop_same by (simp add: agent_run_def)
qed

end

section \<open>The recorder\<close>

interpretation recorder: tool_projection "recording_tools x" "gated_tools x" rc_exec for x
  by unfold_locales
    (simp_all add: recording_tools_def gated_tools_def recorded_execute_def recorded_terminal_def Let_def split: prod.split)

text \<open>The policy values of an entry of the execution path, and of an outcome.\<close>

definition entry_policy :: "execution_path_entry \<Rightarrow> string \<times> string \<times> string" where
  "entry_policy e = (pe_policy_decision e, pe_routing_status e, pe_policy_reason e)"

definition outcome_policy :: "policy_outcome \<Rightarrow> string \<times> string \<times> string" where
  "outcome_policy po = (routing_decision_value (po_decision po), routing_status_value (po_status po), po_reason po)"

definition shows_outcome :: "tool_execution_result \<Rightarrow> policy_outcome \<Rightarrow> bool" where
  "shows_outcome r po \<longleftrightarrow>
     (\<exists>ev. ter_evidence r = Some ev \<and>
        (ev_policy_decision ev, ev_routing_status ev, ev_policy_reason ev) = outcome_policy po)"

lemma with_evidence_shows: "with_evidence r k known po did_run com = Inr r' \<Longrightarrow> shows_outcome r' po"
  by (auto simp: with_evidence_def mk_evidence_def mk_tool_execution_result_def shows_outcome_def outcome_policy_def
      bind_res_Inr_iff split: if_splits sum.splits option.splits)

lemma bound_evidence_shows: "bind_res m (\<lambda>r. with_evidence r k known po did_run com) = Inr r' \<Longrightarrow> shows_outcome r' po"
  by (auto simp: bind_res_Inr_iff intro: with_evidence_shows)

lemma execute_shows:
  assumes "executor_execute x p c s = (Inr r, s')"
  shows "shows_outcome r (execute_policy x p c)"
  using assms
  by (auto simp: executor_execute_def dispatch_step_def request_step_def handler_step_def failure_step_def
      invalid_arguments_step_def Let_def intro: with_evidence_shows bound_evidence_shows
      split: if_splits option.splits sum.splits prod.splits)

lemma terminal_shows:
  assumes "executor_evaluate_terminal x p s = (Inr r, s')"
  shows "shows_outcome r (terminal_policy x p)"
  using assms
  by (auto simp: executor_evaluate_terminal_def terminal_policy_def Let_def intro: bound_evidence_shows split: if_splits)

lemma executed_not_cancelled:
  "executor_execute x p c s = (Inr r, s') \<Longrightarrow> \<not> xe_cancelled x (xs_port s)"
  "executor_evaluate_terminal x p s = (Inr r, s') \<Longrightarrow> \<not> xe_cancelled x (xs_port s)"
  by (auto simp: executor_execute_def executor_evaluate_terminal_def split: if_splits)

lemma recorded_shows:
  "recorded_execute x p c s = (Inr r, s') \<Longrightarrow> \<exists>po. rc_outcomes s' = rc_outcomes s @ [po] \<and> shows_outcome r po"
  "recorded_terminal x p s = (Inr r, s') \<Longrightarrow> \<exists>po. rc_outcomes s' = rc_outcomes s @ [po] \<and> shows_outcome r po"
  using execute_shows executed_not_cancelled terminal_shows
  by (fastforce simp: recorded_execute_def recorded_terminal_def Let_def split: prod.splits if_splits)+

text \<open>The execution path of a run and the outcomes of the recorder agree.\<close>

definition path_recorded :: "execution_path_entry list \<Rightarrow> 'p recorded \<Rightarrow> bool" where
  "path_recorded path s \<longleftrightarrow> map entry_policy path = map outcome_policy (rc_outcomes s)"

fun result_recorded :: "'p recorded step_result \<Rightarrow> bool" where
  "result_recorded (Running st) = path_recorded (ls_path st) (ls_tools st)"
| "result_recorded (Finished (Inr r) st) = path_recorded (rr_execution_path r) (ls_tools st)"
| "result_recorded (Finished (Inl _) st) = True"

lemma append_evidence_recorded:
  assumes "append_evidence r st = Inr st'" "shows_outcome r po" "rc_outcomes (ls_tools st) = os @ [po]"
    "map entry_policy (ls_path st) = map outcome_policy os"
  shows "path_recorded (ls_path st') (ls_tools st') \<and> ls_tools st' = ls_tools st"
  using assms
  by (auto simp: append_evidence_def shows_outcome_def path_recorded_def from_tool_def entry_policy_def
      split: sum.splits if_splits)

lemma terminal_recorded:
  assumes "path_recorded (ls_path st) (ls_tools st)"
  shows "result_recorded (terminal_step (recording_tools x) p st)"
proof -
  obtain r t where t: "recorded_terminal x p (ls_tools st) = (r, t)" by fastforce
  show ?thesis
  proof (cases r)
    case (Inl e)
    then show ?thesis using t by (simp add: terminal_step_def recording_tools_def Let_def)
  next
    case (Inr ex)
    then obtain po where po: "rc_outcomes t = rc_outcomes (ls_tools st) @ [po]" "shows_outcome ex po"
      using t recorded_shows(2) by blast
    have "path_recorded (ls_path st') (ls_tools st')" if "append_evidence ex (st\<lparr>ls_tools := t\<rparr>) = Inr st'" for st'
      using append_evidence_recorded [OF that po(2)] po(1) assms by (simp add: path_recorded_def)
    then show ?thesis
      using t Inr
      by (auto simp: terminal_step_def recording_tools_def finish_result_def emit_run_def Let_def split: sum.split)
  qed
qed

lemma execute_recorded:
  assumes "path_recorded (ls_path st) (ls_tools st)"
  shows "result_recorded (execute_step (recording_tools x) p c st)"
proof -
  let ?st = "emit_step (recording_tools x) (ls_steps st) OC_TOOL_REQUESTED (Some (tc_name c)) st"
  obtain r t where t: "recorded_execute x p c (ls_tools st) = (r, t)" by fastforce
  have e: "te_execute (recording_tools x) p c (ls_tools ?st) = (r, t)" using t by (simp add: recording_tools_def)
  show ?thesis
  proof (cases r)
    case (Inl e')
    then show ?thesis using e by (simp add: execute_step_def Let_def)
  next
    case (Inr ex)
    then obtain po where po: "rc_outcomes t = rc_outcomes (ls_tools st) @ [po]" "shows_outcome ex po"
      using t recorded_shows(1) by blast
    have "path_recorded (ls_path st') (ls_tools st')" if "append_evidence ex (?st\<lparr>ls_tools := t\<rparr>) = Inr st'" for st'
      using append_evidence_recorded [OF that po(2)] po(1) assms by (simp add: path_recorded_def)
    then show ?thesis
      using e Inr
      by (auto simp: execute_step_def finish_result_def emit_run_def Let_def split: sum.split tool_disposition.split)
  qed
qed

lemma iteration_recorded:
  assumes "path_recorded (ls_path st) (ls_tools st)"
  shows "result_recorded (loop_iteration llm (recording_tools x) st)"
  using assms
  by (auto simp: loop_iteration_def tool_step_def finish_result_def failed_result_def emit_run_def Let_def
      intro!: terminal_recorded execute_recorded split: sum.split option.split)

lemma run_loop_recorded:
  assumes "path_recorded (ls_path st) (ls_tools st)" "run_loop llm (recording_tools x) m st = (Inr r, fin)"
  shows "path_recorded (rr_execution_path r) (ls_tools fin)"
  using assms
proof (induction "m - ls_steps st" arbitrary: st rule: less_induct)
  case less
  show ?case
  proof (cases "ls_steps st < m")
    case False
    then show ?thesis
      using less.prems by (auto simp: run_loop.simps [of llm _ m st] failed_result_def emit_run_def)
  next
    case True
    show ?thesis
    proof (cases "loop_iteration llm (recording_tools x) st")
      case (Finished q st')
      then show ?thesis
        using True less.prems iteration_recorded [OF less.prems(1), of llm x]
        by (simp add: run_loop.simps [of llm _ m st])
    next
      case (Running st')
      then have "m - ls_steps st' < m - ls_steps st" using loop_iteration_Running_steps True by fastforce
      moreover have "path_recorded (ls_path st') (ls_tools st')"
        using iteration_recorded [OF less.prems(1), of llm x] Running by simp
      ultimately show ?thesis
        using less.hyps [of st'] less.prems(2) Running True by (simp add: run_loop.simps [of llm _ m st])
    qed
  qed
qed


section \<open>The script\<close>

lemma answers_append: "answers (ms @ ns) = answers ms + answers ns"
  by (simp add: answers_def)

lemma iteration_answers:
  assumes "loop_iteration llm tools st = Running st'" "answers (ls_messages st) = ls_steps st"
  shows "answers (ls_messages st') = ls_steps st'"
  using loop_iteration_Running [OF assms(1)] assms(2)
  by (auto simp: answers_append) (simp add: answers_def assistant_message_def tool_message_def)

lemma iteration_Finished_steps:
  assumes "loop_iteration llm tools st = Finished q st'"
  shows "ls_steps st' = (case llm (ls_messages st) of Inl _ \<Rightarrow> ls_steps st | Inr _ \<Rightarrow> Suc (ls_steps st))"
  using assms
  by (auto simp: loop_iteration_def terminal_step_def tool_step_def execute_step_def finish_result_def emit_run_def Let_def
      split: sum.splits option.splits if_splits prod.splits tool_disposition.splits dest!: append_evidence_frame)

text \<open>The provider answers step by step in the order of the script.\<close>

lemma scripted_in_order:
  "answers (ls_messages st) = ls_steps st \<Longrightarrow>
   scripted_llm ps (ls_messages st) = (if ls_steps st < length ps then Inr (ps ! ls_steps st) else Inl proposals_exhausted)"
  by (simp add: scripted_llm_def)

lemma scripted_steps:
  assumes "run_loop (scripted_llm ps) tools m st = (r, fin)" "answers (ls_messages st) = ls_steps st"
    "ls_steps st \<le> length ps" "ls_steps st \<le> m"
  shows "ls_steps fin \<le> length ps \<and> ls_steps fin \<le> m"
  using assms
proof (induction "m - ls_steps st" arbitrary: st rule: less_induct)
  case less
  show ?case
  proof (cases "ls_steps st < m")
    case False
    then show ?thesis using less.prems by (auto simp: run_loop.simps [of "scripted_llm ps"] emit_run_def)
  next
    case True
    show ?thesis
    proof (cases "loop_iteration (scripted_llm ps) tools st")
      case (Finished q st')
      then show ?thesis
        using True less.prems iteration_Finished_steps [OF Finished] scripted_in_order [OF less.prems(2), of ps]
        by (auto simp: run_loop.simps [of "scripted_llm ps"] split: if_splits)
    next
      case (Running st')
      have s: "ls_steps st' = Suc (ls_steps st)" by (rule loop_iteration_Running_steps [OF Running])
      have "ls_steps st < length ps"
        using loop_iteration_Running [OF Running] scripted_in_order [OF less.prems(2), of ps] by (auto split: if_splits)
      then show ?thesis
        using less.hyps [of st'] less.prems Running True s iteration_answers [OF Running less.prems(2)]
        by (simp add: run_loop.simps [of "scripted_llm ps" tools m st])
    qed
  qed
qed

lemma scenario_messages_answers: "scenario_messages env config = Inr msgs \<Longrightarrow> answers msgs = 0"
  by (auto simp: scenario_messages_def bind_res_Inr_iff answers_def system_message_def)

section \<open>Observations\<close>

interpretation failing: tenant_port
  "scenario_executor failing_create_case_port ve defs tenant config compiled source risk" "\<lambda>s. im_cases s = []"
  for ve defs tenant config compiled source risk
  by unfold_locales
    (simp_all add: scenario_executor_def failing_create_case_port_def in_memory_port_def im_find_customer_def
      im_update_case_fields_def im_case_exists_def im_request_approval_def im_create_reply_draft_def im_flag_for_review_def
      im_create_artifact_def uuid4_def Let_def split: option.split prod.split)

text \<open>What a scripted run can report.\<close>

definition script_report :: "agent_proposal list \<Rightarrow> preflight_result \<Rightarrow> scenario_observation \<Rightarrow> string list \<Rightarrow> bool" where
  "script_report ps pre ob extra \<longleftrightarrow>
     0 \<le> so_llm_calls ob \<and> so_llm_calls ob \<le> int (length ps) + 1 \<and> so_llm_calls ob \<le> 9 \<and>
     so_tenant_isolated ob = None \<and>
     (pre = ContinuePreflight \<and> extra = [] \<longrightarrow> so_llm_calls ob = int (length ps)) \<and>
     (pre \<noteq> ContinuePreflight \<longrightarrow> so_llm_calls ob = 0 \<and> extra = [])"

lemma run_agent_contract_cases:
  assumes "run_agent_contract env ve trace tenant config source ps risk port s = Inr (ob, extra)"
  obtains (stopped) t where "preflight_document source config None = TerminalPreflight t" "ob = terminal_observation t" "extra = []"
  | (ran) compiled defs msgs r fin where
    "preflight_document source config None = ContinuePreflight" "scenario_messages env config = Inr msgs"
    "agent_run (scripted_llm ps) (recording_tools (scenario_executor port ve defs tenant config compiled source risk))
       MAX_STEPS msgs (run_start s) = (r, fin)"
    "ob = run_observation (dict_keys defs) r fin" "extra = run_extra ps r fin"
proof (cases "preflight_document source config None")
  case (TerminalPreflight t)
  then show thesis using assms stopped by (auto simp: run_agent_contract_def bind_res_Inr_iff)
next
  case ContinuePreflight
  then obtain compiled defs msgs where msgs: "scenario_messages env config = Inr msgs"
    and out: "(let x = scenario_executor port ve defs tenant config compiled source risk;
        (r, fin) = agent_run (scripted_llm ps) (recording_tools x) MAX_STEPS msgs (run_start s)
      in case r of
           Inl e \<Rightarrow>
             if e = proposals_exhausted then Inr (run_observation (dict_keys defs) r fin, run_extra ps r fin) else Inl e
         | Inr _ \<Rightarrow> Inr (run_observation (dict_keys defs) r fin, run_extra ps r fin)) = Inr (ob, extra)"
    using assms by (auto simp: run_agent_contract_def bind_res_Inr_iff)
  obtain r fin where "agent_run (scripted_llm ps) (recording_tools (scenario_executor port ve defs tenant config compiled source risk))
       MAX_STEPS msgs (run_start s) = (r, fin)" by fastforce
  then show thesis using ran [OF ContinuePreflight msgs] out by (auto simp: Let_def split: sum.splits if_splits)
qed

lemma contract_reports:
  assumes "run_agent_contract env ve trace tenant config source ps risk port s = Inr (ob, extra)"
  shows "script_report ps (preflight_document source config None) ob extra"
  using assms
proof (cases rule: run_agent_contract_cases)
  case (stopped t)
  then show ?thesis by (simp add: script_report_def terminal_observation_def blank_observation_def)
next
  case (ran compiled defs msgs r fin)
  have "ls_steps fin \<le> length ps \<and> ls_steps fin \<le> MAX_STEPS"
    by (rule scripted_steps [OF ran(3) [unfolded agent_run_def]])
      (simp_all add: initial_loop_state_def scenario_messages_answers [OF ran(2)])
  then show ?thesis
    using ran by (auto simp: script_report_def run_observation_def run_extra_def scripted_calls_def MAX_STEPS_def Let_def
        split: sum.splits if_splits)
qed

lemma failing_port_no_case:
  assumes "run_agent_contract env ve trace tenant config source ps risk failing_create_case_port s = Inr (ob, extra)"
    "im_cases s = []"
  shows "\<not> so_case_created ob"
  using assms(1)
proof (cases rule: run_agent_contract_cases)
  case (stopped t)
  then show ?thesis by (simp add: terminal_observation_def blank_observation_def)
next
  case (ran compiled defs msgs r fin)
  let ?x = "scenario_executor failing_create_case_port ve defs tenant config compiled source risk"
  have "agent_run (scripted_llm ps) (gated_tools ?x) MAX_STEPS msgs (rc_exec (run_start s)) = (r, project rc_exec fin)"
    using recorder.agent_run_same [of "scripted_llm ps" ?x MAX_STEPS msgs "run_start s"] ran(3) by simp
  from failing.gated.run_keeps_inv [OF _ this] assms(2) ran(4) show ?thesis
    by (simp add: run_start_def run_observation_def Let_def)
qed

lemma isolation_observed:
  assumes "im_customers s = []" "im_cases s = []" "other \<noteq> tenant"
  shows "tenant_isolation_observation tenant other s = blank_observation\<lparr>so_tenant_isolated := Some True\<rparr>"
  using assms
  by (simp add: tenant_isolation_observation_def im_add_customer_def im_seed_case_def uuid4_def im_find_customer_def
      im_update_case_fields_def im_case_exists_def Let_def)


end
