(* ===== verification/Webhook_Sender.thy ===== *)
theory Webhook_Sender
  imports Http_Safety
begin

text \<open>
  The client side of the email webhook: \<open>scripts/send_inbound_webhook.py\<close> builds a signed request
  from a message and an optional file. The request is modelled up to the bytes of its body, so that
  it can be handed to the endpoint: what the script signs and encodes is what the endpoint verifies
  and decodes. The file system, the connection and HMAC are parameters.
\<close>

section \<open>Encoders\<close>

text \<open>\<open>base64.b64encode\<close>.\<close>

definition b64_char :: "nat \<Rightarrow> char" where
  "b64_char n =
     (if n < 26 then char_of (65 + n) else if n < 52 then char_of (71 + n)
      else if n < 62 then char_of (n - 4) else if n = 62 then CHR ''+'' else CHR ''/'')"

fun b64encode :: "bytes \<Rightarrow> string" where
  "b64encode [] = []"
| "b64encode [a] = [b64_char (unat a div 4), b64_char (16 * (unat a mod 4)), CHR ''='', CHR ''='']"
| "b64encode [a, b] =
     [b64_char (unat a div 4), b64_char (16 * (unat a mod 4) + unat b div 16), b64_char (4 * (unat b mod 16)), CHR ''='']"
| "b64encode (a # b # c # rest) =
     b64_char (unat a div 4) # b64_char (16 * (unat a mod 4) + unat b div 16) #
     b64_char (4 * (unat b mod 16) + unat c div 64) # b64_char (unat c mod 64) # b64encode rest"

text \<open>\<open>json.dumps(value, ensure_ascii=False, separators=(",", ":"))\<close>, in the order of the keys.\<close>

fun json_dumps :: "(rat \<Rightarrow> string) \<Rightarrow> pyval \<Rightarrow> string res" where
  "json_dumps fl PNone = Inr ''null''"
| "json_dumps fl (PBool b) = Inr (if b then ''true'' else ''false'')"
| "json_dumps fl (PInt i) = Inr (dec_int i)"
| "json_dumps fl (PFloat x) =
     Inr (case x of Finite q \<Rightarrow> fl q | Infinite negative \<Rightarrow> if negative then ''-Infinity'' else ''Infinity'' | NaN \<Rightarrow> ''NaN'')"
| "json_dumps fl (PStr s) = Inr (json_string s)"
| "json_dumps fl (PList xs) =
     (case map_res (json_dumps fl) xs of Inl e \<Rightarrow> Inl e | Inr ys \<Rightarrow> Inr (''['' @ comma_sep ys @ '']''))"
| "json_dumps fl (PDict d) =
     (case map_res (\<lambda>kv. json_dumps fl (snd kv)) d of Inl e \<Rightarrow> Inl e
      | Inr ys \<Rightarrow> Inr (''{'' @ comma_sep (map (\<lambda>(k, j). json_string k @ '':'' @ j) (zip (map fst d) ys)) @ ''}''))"
| "json_dumps fl PBadMap = Inl (TypeError ''keys must be str'')"
| "json_dumps fl POther = Inl (TypeError ''Object is not JSON serializable'')"

section \<open>The request\<close>

text \<open>What the script can observe of the file: its name, its size and, later, its bytes.\<close>

datatype send_error = BadValue string | OSError string

record attachment_file =
  af_name :: string
  af_size :: "send_error + nat"
  af_content :: "send_error + bytes"

text \<open>\<open>path.suffix\<close>: from the last dot, if it is neither the first nor the last character.\<close>

definition path_suffix :: "string \<Rightarrow> string" where
  "path_suffix name =
     (let ext = takeWhile (\<lambda>c. c \<noteq> CHR ''.'') (rev name)
      in if ext = [] \<or> length name \<le> length ext + 1 then [] else CHR ''.'' # rev ext)"

definition suffix_media :: "string \<Rightarrow> document_media_type option" where
  "suffix_media name = map_of [(''.txt'', MEDIA_TEXT), (''.pdf'', MEDIA_PDF)] (map lower_char (path_suffix name))"

definition attachment_payload :: "attachment_file \<Rightarrow> send_error + pyval" where
  "attachment_payload f =
     (case suffix_media (af_name f) of
        None \<Rightarrow> Inl (BadValue ''attachment must have a .txt or .pdf extension'')
      | Some m \<Rightarrow>
          (case af_size f of
             Inl e \<Rightarrow> Inl e
           | Inr n \<Rightarrow>
               if MAX_DOCUMENT_BYTES < n then Inl (BadValue ''attachment exceeds the document size limit'')
               else (case af_content f of
                       Inl e \<Rightarrow> Inl e
                     | Inr bs \<Rightarrow> Inr (PDict [(''media_type'', PStr (media_type_value m)),
                                            (''content_base64'', PStr (b64encode bs))]))))"

record outgoing_mail =
  om_provider_id :: string
  om_from_addr :: string
  om_subject :: string
  om_body :: string

definition mail_payload :: "outgoing_mail \<Rightarrow> pyval list \<Rightarrow> pyval" where
  "mail_payload m atts =
     PDict [(''provider_id'', PStr (om_provider_id m)), (''from_addr'', PStr (om_from_addr m)),
            (''subject'', PStr (om_subject m)), (''body'', PStr (om_body m)), (''attachments'', PList atts)]"

definition attachments_payload :: "attachment_file option \<Rightarrow> send_error + pyval list" where
  "attachments_payload att =
     (case att of
        None \<Rightarrow> Inr []
      | Some f \<Rightarrow> (case attachment_payload f of Inl e \<Rightarrow> Inl e | Inr a \<Rightarrow> Inr [a]))"

record sent_request =
  sr_body :: bytes
  sr_content_type :: string
  sr_api_key :: string
  sr_timestamp :: string
  sr_signature :: string

text \<open>\<open>str(i)\<close> refuses integers of more than 4300 digits, as \<open>int(s)\<close> does.\<close>

definition str_int :: "int \<Rightarrow> send_error + string" where
  "str_int i =
     (if length (filter is_digit (dec_int i)) \<le> INT_MAX_STR_DIGITS then Inr (dec_int i)
      else Inl (BadValue ''Exceeds the limit (4300 digits) for integer string conversion''))"

definition build_request ::
  "(rat \<Rightarrow> string) \<Rightarrow> hmac \<Rightarrow> string \<Rightarrow> outgoing_mail \<Rightarrow> attachment_file option \<Rightarrow> int \<Rightarrow> send_error + sent_request" where
  "build_request fl hmac_sha256 api_key m att signed_at =
     (case attachments_payload att of
        Inl e \<Rightarrow> Inl e
      | Inr atts \<Rightarrow>
          (case json_dumps fl (mail_payload m atts) of
             Inl _ \<Rightarrow> Inl (BadValue ''Object is not JSON serializable'')
           | Inr text \<Rightarrow>
               (case str_int signed_at of
                  Inl e \<Rightarrow> Inl e
                | Inr stamp \<Rightarrow>
                    Inr \<lparr>sr_body = utf8_encode text, sr_content_type = ''application/json'', sr_api_key = api_key,
                         sr_timestamp = stamp,
                         sr_signature = sign_inbound_webhook hmac_sha256 api_key signed_at (utf8_encode text)\<rparr>)))"

text \<open>
  \<open>main\<close>: the exit code with what is printed on the standard streams. \<open>urlopen\<close> raises
  \<open>HTTPError\<close> for a status of 400 or more and \<open>URLError\<close>, an \<open>OSError\<close>, when there is no answer.
  An answer that is not UTF-8 raises a \<open>ValueError\<close>, which ends the script when the status was an error.
\<close>

datatype urlopen_result = Response nat bytes | HTTPError nat bytes | URLError string

definition send_main ::
  "(send_error + sent_request) \<Rightarrow> string option \<Rightarrow> (sent_request \<Rightarrow> urlopen_result) \<Rightarrow> exn + int \<times> string list" where
  "send_main request api_key urlopen =
     (if api_key = None \<or> api_key = Some [] then Inr (2, [''INBOUND_WEBHOOK_API_KEY is required''])
      else case request of
        Inl (BadValue s) \<Rightarrow> Inr (2, [s])
      | Inl (OSError s) \<Rightarrow> Inr (2, [s])
      | Inr r \<Rightarrow>
          (case urlopen r of
             URLError s \<Rightarrow> Inr (2, [s])
           | Response status body \<Rightarrow>
               (case utf8_decode body of
                  None \<Rightarrow> Inr (2, [dec_int (int status), ''utf-8 codec cannot decode''])
                | Some s \<Rightarrow> Inr (0, [dec_int (int status), s]))
           | HTTPError status body \<Rightarrow>
               (case utf8_decode body of
                  None \<Rightarrow> Inl (ValueError ''utf-8 codec cannot decode'')
                | Some s \<Rightarrow> Inr (1, [dec_int (int status), s]))))"

text \<open>The request at the server; \<open>urllib\<close> declares the length of the body, which arrives in chunks.\<close>

definition delivered :: "sent_request \<Rightarrow> bytes list \<Rightarrow> webhook_request" where
  "delivered r chunks =
     \<lparr>wq_api_key = Some (sr_api_key r), wq_timestamp = Some (sr_timestamp r), wq_signature = Some (sr_signature r),
      wq_content_length = Some (dec_int (int (length (sr_body r)))), wq_content_type = Some (sr_content_type r),
      wq_chunks = chunks, wq_cached = None\<rparr>"

section \<open>Round trips\<close>

lemma b64_val_char: "n < 64 \<Longrightarrow> b64_val (b64_char n) = Some n"
  by (auto simp: b64_val_def b64_char_def is_digit_def less_eq_char_def Let_def)

lemma b64_val_plain: "b64_val c = Some n \<Longrightarrow> c \<noteq> CHR ''='' \<and> \<not> py_isspace c"
  by (auto simp: b64_val_def is_digit_def less_eq_char_def py_isspace_def Let_def split: if_splits)

lemmas b64_char_plain = b64_val_char [THEN b64_val_plain]

lemma byte_less [simp]: "unat (b :: 8 word) < 256"
proof -
  have "unat b < 2 ^ LENGTH(8)" by (rule unsigned_less)
  then show ?thesis by simp
qed

lemma b64_parts:
  fixes a b c :: "8 word"
  shows "unat a div 4 < 64" "16 * (unat a mod 4) < 64" "16 * (unat a mod 4) + unat b div 16 < 64"
    "4 * (unat b mod 16) < 64" "4 * (unat b mod 16) + unat c div 64 < 64" "unat c mod 64 < 64"
proof -
  have "unat a div 4 < 64" "unat b div 16 < 16" "unat c div 64 < 4"
    using byte_less [of a] byte_less [of b] byte_less [of c] by (simp_all add: less_mult_imp_div_less)
  moreover have "unat a mod 4 < 4" "unat b mod 16 < 16" by simp_all
  ultimately show "unat a div 4 < 64" "16 * (unat a mod 4) < 64" "16 * (unat a mod 4) + unat b div 16 < 64"
    "4 * (unat b mod 16) < 64" "4 * (unat b mod 16) + unat c div 64 < 64" "unat c mod 64 < 64"
    by linarith+
qed

lemma b64_first_bytes:
  fixes a b c :: "8 word"
  shows "b64_first (unat a div 4) (16 * (unat a mod 4)) = a"
    "b64_first (unat a div 4) (16 * (unat a mod 4) + unat b div 16) = a"
    "b64_second (16 * (unat a mod 4) + unat b div 16) (4 * (unat b mod 16)) = b"
    "b64_second (16 * (unat a mod 4) + unat b div 16) (4 * (unat b mod 16) + unat c div 64) = b"
    "b64_third (4 * (unat b mod 16) + unat c div 64) (unat c mod 64) = c"
proof -
  have q: "unat b div 16 < 16" "unat c div 64 < 4"
    using byte_less [of b] byte_less [of c] by (simp_all add: less_mult_imp_div_less)
  show "b64_first (unat a div 4) (16 * (unat a mod 4)) = a" by (simp add: b64_first_def)
  show "b64_first (unat a div 4) (16 * (unat a mod 4) + unat b div 16) = a"
    using q by (simp add: b64_first_def)
  show "b64_second (16 * (unat a mod 4) + unat b div 16) (4 * (unat b mod 16)) = b"
    using q by (simp add: b64_second_def)
  show "b64_second (16 * (unat a mod 4) + unat b div 16) (4 * (unat b mod 16) + unat c div 64) = b"
    using q by (simp add: b64_second_def)
  show "b64_third (4 * (unat b mod 16) + unat c div 64) (unat c mod 64) = c"
    using q by (simp add: b64_third_def)
qed

lemma b64_val_equals: "b64_val (CHR ''='') = None"
  by (simp add: b64_val_def is_digit_def less_eq_char_def)

lemma b64_round_trip: "b64decode (b64encode bs) = Some bs"
proof (induction bs rule: b64encode.induct)
  case (4 a b c rest)
  then show ?case by (simp add: b64_val_char b64_parts b64_first_bytes)
qed (simp_all add: b64_val_char b64_parts b64_first_bytes b64_val_equals)

lemma b64encode_length: "length (b64encode bs) = 4 * ((length bs + 2) div 3)"
proof (induction bs rule: b64encode.induct)
  case (4 a b c rest)
  have "(length rest + 5) div 3 = (length rest + 2) div 3 + 1" by simp
  with 4 show ?case by (simp add: add.commute)
qed simp_all

lemma b64encode_no_space: "\<not> list_ex py_isspace (b64encode bs)"
  by (induction bs rule: b64encode.induct)
    (simp_all add: b64_char_plain b64_parts, simp_all add: py_isspace_def)

lemma dec_digits_digits: "set (dec_digits fuel n acc) \<subseteq> set acc \<union> Collect is_digit"
proof (induction fuel arbitrary: n acc)
  case (Suc fuel)
  have "is_digit (char_of (48 + n mod 10))" by (simp add: is_digit_def less_eq_char_def)
  then show ?case using Suc [of "n div 10" "char_of (48 + n mod 10) # acc"] by (auto simp: Let_def)
qed simp

lemma dec_body_digit:
  "m < 10 \<Longrightarrow> dec_body acc d (char_of (48 + m) # cs) = dec_body (10 * acc + int m) True cs"
  by (auto simp: is_digit_def less_eq_char_def char_of_eq_iff take_bit_eq_mod)

lemma dec_body_digits:
  assumes "n < fuel"
  shows "dec_body 0 d (dec_digits fuel n acc) = dec_body (int n) True acc"
  using assms
proof (induction fuel arbitrary: n acc d)
  case (Suc fuel)
  let ?acc = "char_of (48 + n mod 10) # acc"
  show ?case
  proof (cases "n < 10")
    case True
    then show ?thesis using dec_body_digit [of n 0 d acc] by simp
  next
    case False
    then have "n div 10 < fuel" using Suc.prems by simp
    from Suc.IH [OF this, of d ?acc] False show ?thesis
      using dec_body_digit [of "n mod 10" "int (n div 10)" True acc]
      by (simp add: Let_def of_nat_div of_nat_mod)
  qed
qed simp

lemma dec_nat_digits: "list_all is_digit (dec_nat n)" "dec_nat n \<noteq> []"
proof -
  show "list_all is_digit (dec_nat n)"
    using dec_digits_digits [of "Suc n" n "[]"] by (auto simp: dec_nat_def list_all_iff)
  show "dec_nat n \<noteq> []"
    using dec_body_digits [of n "Suc n" False "[]"] by (auto simp: dec_nat_def)
qed

lemma dec_unsigned_nat:
  "dec_unsigned (dec_nat n) = (if length (dec_nat n) \<le> INT_MAX_STR_DIGITS then Some (int n) else None)"
proof -
  have "filter is_digit (dec_nat n) = dec_nat n" using dec_nat_digits(1) [of n] by (simp add: list_all_iff)
  then show ?thesis using dec_body_digits [of n "Suc n" False "[]"] by (simp add: dec_unsigned_def dec_nat_def)
qed

lemma digit_plain: "is_digit c \<Longrightarrow> \<not> py_isspace c \<and> c \<noteq> CHR ''+'' \<and> c \<noteq> CHR ''-''"
  by (auto simp: is_digit_def less_eq_char_def py_isspace_def Let_def)

lemma strip_dec_nat:
  "strip (dec_nat n) = dec_nat n" "strip (CHR ''-'' # dec_nat n) = CHR ''-'' # dec_nat n"
proof -
  have d: "\<forall>c \<in> set (dec_nat n). \<not> py_isspace c"
    using dec_nat_digits(1) [of n] digit_plain by (auto simp: list_all_iff)
  show "strip (dec_nat n) = dec_nat n" by (rule strip_no_space) (rule d)
  have "\<forall>c \<in> set (CHR ''-'' # dec_nat n). \<not> py_isspace c" using d by (simp add: py_isspace_def)
  then show "strip (CHR ''-'' # dec_nat n) = CHR ''-'' # dec_nat n" by (rule strip_no_space)
qed

lemma py_int10_dec_int:
  "py_int10 (dec_int i) = (if length (filter is_digit (dec_int i)) \<le> INT_MAX_STR_DIGITS then Some i else None)"
proof -
  have f: "filter is_digit (dec_nat n) = dec_nat n" for n using dec_nat_digits(1) [of n] by (simp add: list_all_iff)
  have m: "\<not> is_digit (CHR ''-'')" by (simp add: is_digit_def less_eq_char_def)
  show ?thesis
  proof (cases "i < 0")
    case True
    then have "dec_int i = CHR ''-'' # dec_nat (nat (- i))" by (simp add: dec_int_def)
    then show ?thesis using True by (simp add: py_int10_def strip_dec_nat dec_unsigned_nat f m)
  next
    case False
    obtain c cs where c: "dec_nat (nat i) = c # cs" "is_digit c"
      using dec_nat_digits [of "nat i"] by (cases "dec_nat (nat i)") auto
    have "py_int10 (dec_nat (nat i)) = dec_unsigned (dec_nat (nat i))"
      using c(1) digit_plain [OF c(2)] strip_dec_nat(1) [of "nat i"] by (simp add: py_int10_def)
    then show ?thesis using False by (simp add: dec_int_def dec_unsigned_nat f)
  qed
qed

section \<open>What the endpoint makes of the request\<close>

text \<open>
  The file as the endpoint accepts it: of a known kind, neither empty nor too long, and as text in UTF-8.
\<close>

definition received_attachment :: "attachment_file \<Rightarrow> inbound_attachment option" where
  "received_attachment f =
     (case (suffix_media (af_name f), af_content f) of
        (Some m, Inr bs) \<Rightarrow>
          if bs = [] \<or> MAX_DOCUMENT_BYTES < length bs then None
          else if m = MEDIA_TEXT
          then map_option (\<lambda>s. \<lparr>ia_media_type = m, ia_text = Some s, ia_content = None\<rparr>) (utf8_decode bs)
          else Some \<lparr>ia_media_type = m, ia_text = None, ia_content = Some bs\<rparr>
      | _ \<Rightarrow> None)"

definition received_attachments :: "attachment_file option \<Rightarrow> inbound_attachment list option" where
  "received_attachments att =
     (case att of None \<Rightarrow> Some [] | Some f \<Rightarrow> map_option (\<lambda>a. [a]) (received_attachment f))"

definition acceptable_mail :: "outgoing_mail \<Rightarrow> attachment_file option \<Rightarrow> bool" where
  "acceptable_mail m att \<longleftrightarrow>
     identity_value MAX_PROVIDER_ID_CHARS (om_provider_id m) \<and> identity_value 320 (om_from_addr m) \<and>
     length (om_subject m) \<le> 500 \<and> length (om_body m) \<le> MAX_INBOUND_BODY_CHARS \<and>
     (att \<noteq> None \<or> non_blank (om_body m))"

definition received_message ::
  "tenant_row \<Rightarrow> outgoing_mail \<Rightarrow> attachment_file option \<Rightarrow> inbound_message res" where
  "received_message t m att =
     (case (if acceptable_mail m att then received_attachments att else None) of
        Some atts \<Rightarrow>
          Inr \<lparr>msg_tenant_id = te_id t, msg_tenant_slug = te_slug t, msg_channel = ''email_webhook'',
               msg_from_addr = om_from_addr m,
               msg_subject = (if non_blank (om_subject m) then strip (om_subject m) else ''(no subject)''),
               msg_body = om_body m, msg_attachments = atts, msg_provider_id = om_provider_id m\<rparr>
      | None \<Rightarrow> invalid_inbound_payload)"

lemma b64encode_empty_iff: "b64encode bs = [] \<longleftrightarrow> bs = []"
  by (cases bs rule: b64encode.cases) simp_all

lemma b64encode_fits: "length (b64encode bs) \<le> MAX_BASE64_ATTACHMENT_CHARS \<longleftrightarrow> (length bs + 2) div 3 \<le> (MAX_DOCUMENT_BYTES + 2) div 3"
  by (simp add: b64encode_length MAX_BASE64_ATTACHMENT_CHARS_def)

lemma parse_sent_attachment:
  assumes "attachment_payload f = Inr v"
  obtains m bs where "suffix_media (af_name f) = Some m" "af_content f = Inr bs"
    "parse_attachment v =
       (if bs \<noteq> [] \<and> (length bs + 2) div 3 \<le> (MAX_DOCUMENT_BYTES + 2) div 3
        then Some \<lparr>wa_media_type = m, wa_content_base64 = b64encode bs\<rparr> else None)"
proof -
  obtain m bs where m: "suffix_media (af_name f) = Some m" and bs: "af_content f = Inr bs"
    and v: "v = PDict [(''media_type'', PStr (media_type_value m)), (''content_base64'', PStr (b64encode bs))]"
    using assms by (auto simp: attachment_payload_def split: option.splits sum.splits if_splits)
  have "non_blank (b64encode bs) \<longleftrightarrow> bs \<noteq> []"
    using b64encode_no_space [of bs] b64encode_empty_iff [of bs]
    by (cases "b64encode bs") (auto simp: non_blank_iff list_ex_iff)
  moreover have "1 \<le> length (b64encode bs) \<longleftrightarrow> bs \<noteq> []"
    by (simp add: Suc_le_eq b64encode_empty_iff)
  ultimately have "parse_attachment v =
       (if bs \<noteq> [] \<and> (length bs + 2) div 3 \<le> (MAX_DOCUMENT_BYTES + 2) div 3
        then Some \<lparr>wa_media_type = m, wa_content_base64 = b64encode bs\<rparr> else None)"
    using b64encode_no_space [of bs] b64encode_fits [of bs]
    by (auto simp: v parse_attachment_def only_keys_def key_def)
  then show thesis using that m bs by blast
qed

lemma sent_message:
  assumes "attachments_payload att = Inr atts" "json raw = Some (mail_payload m atts)"
  shows "bind_res (parse_webhook_email_payload json raw) (\<lambda>e. to_message e (te_id t) (te_slug t)) = received_message t m att"
proof (cases att)
  case None
  then have "atts = []" using assms(1) by (simp add: attachments_payload_def)
  then show ?thesis
    using None assms(2)
    by (simp add: parse_webhook_email_payload_def parse_webhook_email_def mail_payload_def only_keys_def key_def
        key_default_def received_message_def acceptable_mail_def received_attachments_def to_message_def
        invalid_inbound_payload_def)
next
  case (Some f)
  then obtain v where v: "attachment_payload f = Inr v" "atts = [v]"
    using assms(1) by (auto simp: attachments_payload_def split: sum.splits)
  from v(1) obtain k bs where f: "suffix_media (af_name f) = Some k" "af_content f = Inr bs"
    and p: "parse_attachment v =
       (if bs \<noteq> [] \<and> (length bs + 2) div 3 \<le> (MAX_DOCUMENT_BYTES + 2) div 3
        then Some \<lparr>wa_media_type = k, wa_content_base64 = b64encode bs\<rparr> else None)"
    by (rule parse_sent_attachment)
  have long: "MAX_DOCUMENT_BYTES < length bs" if "\<not> (length bs + 2) div 3 \<le> (MAX_DOCUMENT_BYTES + 2) div 3"
    using that by (meson add_le_mono1 div_le_mono not_le_imp_less)
  show ?thesis
    using Some assms(2) v(2) f p long
    by (cases k) (auto simp: parse_webhook_email_payload_def parse_webhook_email_def mail_payload_def only_keys_def key_def
        key_default_def received_message_def acceptable_mail_def received_attachments_def received_attachment_def
        to_message_def invalid_inbound_payload_def decode_attachment_def b64_round_trip split: option.splits)
qed

lemma read_chunks_all:
  "seen + length (concat cs) \<le> MAX_INBOUND_WEBHOOK_BODY_BYTES \<Longrightarrow> read_chunks seen cs = Inr (concat cs)"
proof (induction cs arbitrary: seen)
  case (Cons c cs)
  then have "read_chunks (seen + length c) cs = Inr (concat cs)" by (intro Cons.IH) simp
  then show ?case using Cons.prems by simp
qed simp

lemma delivered_body:
  assumes "concat chunks = sr_body r" "length (sr_body r) \<le> MAX_INBOUND_WEBHOOK_BODY_BYTES"
  shows "read_bounded_inbound_body (delivered r chunks) =
     (Inr (sr_body r), (delivered r chunks)\<lparr>wq_cached := Some (sr_body r)\<rparr>)"
proof -
  have "\<not> declared_too_large (Some (dec_int (int (length (sr_body r)))))"
    using assms(2) by (simp add: declared_too_large_def py_int10_dec_int)
  then show ?thesis
    using read_chunks_all [of 0 chunks] assms by (simp add: read_bounded_inbound_body_def delivered_def)
qed

lemma sent_signature:
  assumes "build_request fl hm api_key m att signed_at = Inr r" "\<And>k b. is_sha256_hex (hm k b)"
    "\<bar>now - signed_at\<bar> \<le> MAX_SIGNATURE_AGE_SECONDS"
  shows "inbound_signature_outcome hm api_key (Some (sr_timestamp r)) (Some (sr_signature r)) (sr_body r) now = VERIFIED"
  using assms
  by (auto simp: build_request_def str_int_def inbound_signature_outcome_def py_int10_dec_int signature_format_def
      sign_inbound_webhook_def split: sum.splits if_splits)

lemma sent_authenticated:
  assumes "build_request fl hm api_key m att signed_at = Inr r" "\<And>k b. is_sha256_hex (hm k b)"
    "\<bar>now - signed_at\<bar> \<le> MAX_SIGNATURE_AGE_SECONDS" "api_key_format api_key"
    "resolve_active_tenant sha256 dir api_key = Inr (Some t)"
    "concat chunks = sr_body r" "length (sr_body r) \<le> MAX_INBOUND_WEBHOOK_BODY_BYTES"
  shows "get_current_inbound_tenant sha256 hm dir now (delivered r chunks) =
     (Inr t, [SignatureCompleted VERIFIED, AuthCompleted INBOUND_WEBHOOK OC_AUTHENTICATED (Some (te_id t))],
      (delivered r chunks)\<lparr>wq_cached := Some (sr_body r)\<rparr>)"
proof -
  have "sr_api_key r = api_key" using assms(1) by (auto simp: build_request_def split: sum.splits)
  then have "wq_api_key (delivered r chunks) = Some api_key"
    "wq_timestamp (delivered r chunks) = Some (sr_timestamp r)" "wq_signature (delivered r chunks) = Some (sr_signature r)"
    by (simp_all add: delivered_def)
  then show ?thesis
    using assms(4,5) delivered_body [OF assms(6,7)] sent_signature [OF assms(1-3)]
    by (simp add: get_current_inbound_tenant_def Let_def)
qed

lemma sent_received:
  assumes "build_request fl (av_hmac env) api_key m att signed_at = Inr r"
    and "attachments_payload att = Inr atts" "av_json env (sr_body r) = Some (mail_payload m atts)"
    and "\<And>k b. is_sha256_hex (av_hmac env k b)"
    and "api_key_format api_key" "resolve_active_tenant (av_sha256 env) (av_directory env) api_key = Inr (Some t)"
    and "\<bar>now - signed_at\<bar> \<le> MAX_SIGNATURE_AGE_SECONDS"
    and "concat chunks = sr_body r" "length (sr_body r) \<le> MAX_INBOUND_WEBHOOK_BODY_BYTES"
  shows "receive_email_webhook env now (delivered r chunks) ctx d =
     finish_intake ''Invalid inbound payload'' (te_id t)
       [AuthEvent (SignatureCompleted VERIFIED),
        AuthEvent (AuthCompleted INBOUND_WEBHOOK OC_AUTHENTICATED (Some (te_id t)))] ctx
       (case received_message t m att of
          Inl e \<Rightarrow> (Inl e, [], d)
        | Inr msg \<Rightarrow> inbound_enqueue (av_intake env) (oc_trace_id ctx) msg d)"
proof -
  have "sr_content_type r = ''application/json''" using assms(1) by (auto simp: build_request_def split: sum.splits)
  then have "media_type_of (wq_content_type (delivered r chunks)) = ''application/json''"
    by (simp add: delivered_def media_type_of_def lower_char_def is_upper_def less_eq_char_def)
  then show ?thesis
    using sent_authenticated [OF assms(1,4,7,5,6,8,9)] sent_message [of att atts "av_json env" "sr_body r" m t, OF assms(2,3)]
    by (simp add: receive_email_webhook_def read_bounded_inbound_body_def accept_email_def)
qed


end
