(* ===== verification/Smoke_Client.thy ===== *)
theory Smoke_Client
  imports Webhook_Sender Projection_Safety Request_Observation
begin

text \<open>
  The client of the live smoke check, \<open>scripts/live_provider_smoke.py\<close>: how it reads the answer to an
  intake request, the closed vocabulary it accepts in an execution path and in result references, and the
  loop that polls a job until it has ended. It meets the service here: what the API answers and shows is
  read by the client without a failure. The HTTP client, the clock and the re-validation of a job by
  Pydantic are parameters.
\<close>

section \<open>Acceptance\<close>

type_synonym 'a smoke = "string + 'a"

record http_answer =
  ha_status :: int
  ha_json :: "pyval option"
  ha_headers :: "(string \<times> string) list"

record smoke_progress =
  sp_acceptance_status :: "int option"
  sp_job_id :: "string option"
  sp_trace_id :: "string option"
  sp_last_state :: "py_dict option"
  sp_duplicate_reused :: "bool option"
  sp_conflict_rejected :: "bool option"

definition progress_accepted :: "string \<Rightarrow> string \<Rightarrow> smoke_progress" where
  "progress_accepted job trace =
     \<lparr>sp_acceptance_status = Some 202, sp_job_id = Some job, sp_trace_id = Some trace, sp_last_state = None,
      sp_duplicate_reused = None, sp_conflict_rejected = None\<rparr>"

text \<open>\<open>response.headers.get\<close>, without regard to case.\<close>

definition answer_header :: "http_answer \<Rightarrow> string \<Rightarrow> string option" where
  "answer_header a name = map_option snd (next_item (\<lambda>(k, _). map lower_ascii k = name) (ha_headers a))"

definition accepted_identity :: "string \<Rightarrow> http_answer \<Rightarrow> smoke_progress smoke" where
  "accepted_identity what a =
     (let malformed = Inl (''malformed_'' @ what @ ''_response'')
      in if ha_status a \<noteq> 202
         then Inl (if ha_status a = 401 then what @ ''_unauthorized'' else what @ ''_http_'' @ dec_int (ha_status a))
         else case ha_json a of
           Some (PDict d) \<Rightarrow>
             if set (dict_keys d) \<noteq> {''job_id'', ''status''} then malformed
             else (case (map_of d ''job_id'', map_of d ''status'') of
                     (Some (PStr job), Some (PStr status)) \<Rightarrow>
                       if status \<noteq> ''queued'' then malformed
                       else (case answer_header a ''x-trace-id'' of
                               Some (c # cs) \<Rightarrow>
                                 (case (uuid_parse job, uuid_parse (c # cs)) of
                                    (Some j, Some t) \<Rightarrow> Inr (progress_accepted (uuid_str j) (uuid_str t))
                                  | _ \<Rightarrow> malformed)
                             | _ \<Rightarrow> Inl ''trace_id_missing'')
                   | _ \<Rightarrow> malformed)
         | _ \<Rightarrow> malformed)"

section \<open>The vocabulary of a job\<close>

definition smoke_reasons :: "string list" where
  "smoke_reasons =
     [''safety_or_legal_risk'', ''unknown_intake_type'', ''missing_required_fields'', ''invalid_field_values'',
      ''action_not_configured'', ''action_not_executable'', ''action_not_allowed'', ''approval_required'',
      ''action_allowed'', ''no_action_requested'', ''document_unreadable'']"

definition smoke_outcomes :: "string list" where
  "smoke_outcomes =
     [''success'', ''failed'', ''not_found'', ''invalid_arguments'', ''backend_failure'', ''no_result'', ''executed'']"

definition known_string :: "string list \<Rightarrow> pyval option \<Rightarrow> bool" where
  "known_string words v \<longleftrightarrow> (case v of Some (PStr s) \<Rightarrow> s \<in> set words | _ \<Rightarrow> False)"

definition identifier_list :: "pyval option \<Rightarrow> bool" where
  "identifier_list v \<longleftrightarrow>
     (case v of Some (PList xs) \<Rightarrow> list_all (\<lambda>x. case x of PStr s \<Rightarrow> safe_identifier s | _ \<Rightarrow> False) xs | _ \<Rightarrow> False)"

definition smoke_action_ok :: "pyval option \<Rightarrow> pyval option \<Rightarrow> bool" where
  "smoke_action_ok known action \<longleftrightarrow>
     (case (known, action) of
        (Some (PBool True), Some (PStr k)) \<Rightarrow> safe_identifier k \<and> length k \<le> 64
      | (Some (PBool False), Some PNone) \<Rightarrow> True
      | _ \<Rightarrow> False)"

definition is_bool :: "pyval option \<Rightarrow> bool" where
  "is_bool v \<longleftrightarrow> (case v of Some (PBool _) \<Rightarrow> True | _ \<Rightarrow> False)"

text \<open>One item of the path: the step it has, or the code of the failure.\<close>

definition smoke_entry :: "int \<Rightarrow> pyval \<Rightarrow> int smoke" where
  "smoke_entry previous item =
     (case item of
        PDict d \<Rightarrow>
          if set (dict_keys d) \<noteq> set path_keys then Inl ''unsafe_job_response''
          else (case map_of d ''step'' of
                  Some (PInt step) \<Rightarrow>
                    if 1 \<le> step \<and> step \<le> MAX_EXECUTION_STEPS \<and> previous < step \<and>
                       smoke_action_ok (map_of d ''action_known'') (map_of d ''action_key'') \<and>
                       known_string [''allow'', ''deny'', ''needs_approval''] (map_of d ''policy_decision'') \<and>
                       known_string [''urgent'', ''awaiting_input'', ''pending_approval'', ''ready'', ''rejected'']
                         (map_of d ''routing_status'') \<and>
                       known_string smoke_reasons (map_of d ''policy_reason'') \<and>
                       (map_of d ''tool_outcome'' = Some PNone \<or> known_string smoke_outcomes (map_of d ''tool_outcome'')) \<and>
                       identifier_list (map_of d ''missing_required_fields'') \<and> is_bool (map_of d ''side_effect_committed'')
                    then Inr step else Inl ''malformed_job_response''
                | _ \<Rightarrow> Inl ''malformed_job_response'')
      | _ \<Rightarrow> Inl ''unsafe_job_response'')"

fun smoke_path_from :: "int \<Rightarrow> pyval list \<Rightarrow> pyval list smoke" where
  "smoke_path_from previous [] = Inr []"
| "smoke_path_from previous (item # items) =
     (case smoke_entry previous item of
        Inl code \<Rightarrow> Inl code
      | Inr step \<Rightarrow>
          (case smoke_path_from step items of Inl code \<Rightarrow> Inl code | Inr safe \<Rightarrow> Inr (item # safe)))"

definition smoke_execution_path :: "pyval \<Rightarrow> pyval list smoke" where
  "smoke_execution_path v =
     (case v of
        PList items \<Rightarrow>
          if MAX_EXECUTION_STEPS < int (length items) then Inl ''malformed_job_response'' else smoke_path_from 0 items
      | _ \<Rightarrow> Inl ''malformed_job_response'')"

fun smoke_references_from :: "string list \<Rightarrow> pyval list \<Rightarrow> (string \<times> string) list smoke" where
  "smoke_references_from seen [] = Inr []"
| "smoke_references_from seen (item # items) =
     (case item of
        PDict d \<Rightarrow>
          if set (dict_keys d) \<noteq> {''kind'', ''id''} then Inl ''unsafe_job_response''
          else (case (map_of d ''kind'', map_of d ''id'') of
                  (Some (PStr k), Some (PStr i)) \<Rightarrow>
                    if k \<notin> {''case'', ''reply_draft'', ''review_flag''} \<or> k \<in> set seen then Inl ''malformed_job_response''
                    else (case uuid_parse i of
                            None \<Rightarrow> Inl ''malformed_job_response''
                          | Some u \<Rightarrow>
                              (case smoke_references_from (k # seen) items of
                                 Inl code \<Rightarrow> Inl code | Inr safe \<Rightarrow> Inr ((k, uuid_str u) # safe)))
                | _ \<Rightarrow> Inl ''malformed_job_response'')
      | _ \<Rightarrow> Inl ''unsafe_job_response'')"

text \<open>The result is sorted by kind and identifier; every kind occurs once, so the kind decides.\<close>

definition smoke_result_references :: "pyval \<Rightarrow> (string \<times> string) list smoke" where
  "smoke_result_references v =
     (case v of
        PList items \<Rightarrow>
          if 3 < length items then Inl ''malformed_job_response''
          else (case smoke_references_from [] items of Inl code \<Rightarrow> Inl code | Inr safe \<Rightarrow> Inr (sort_key fst safe))
      | _ \<Rightarrow> Inl ''malformed_job_response'')"

section \<open>Polling\<close>

datatype poll_answer = RequestError | PollAnswer int "string + py_dict"

text \<open>
  The readings of the clock, the answers of the server, with the job as the client reads it, and the
  bounds; \<open>_safe_job_response\<close> is applied to the answer where its code or its job is used.
\<close>

record poll_env =
  pv_clock :: "nat \<Rightarrow> rat"
  pv_get :: "nat \<Rightarrow> poll_answer"
  pv_timeout :: rat
  pv_expected_scenario :: string

definition max_polls :: "rat \<Rightarrow> nat" where
  "max_polls timeout = nat (max 1 (min 10000 (\<lfloor>timeout * 1000\<rfloor> + 1)))"

definition dict_str :: "string \<Rightarrow> py_dict \<Rightarrow> string option" where
  "dict_str k d = key k as_str d"

text \<open>What the loop does with one job: stop with a code, return the job, or sleep and go on.\<close>

datatype poll_step = PollFailed string | PollDone | PollAgain

definition judge_job :: "poll_env \<Rightarrow> smoke_progress \<Rightarrow> py_dict \<Rightarrow> poll_step" where
  "judge_job v p job =
     (if dict_str ''job_id'' job \<noteq> sp_job_id p \<or> dict_str ''trace_id'' job \<noteq> sp_trace_id p
      then PollFailed ''trace_id_mismatch''
      else (let failed = dict_str ''status'' job \<in> {Some ''failed'', Some ''failed_uncertain''}
            in case dict_str ''scenario_key'' job of
                 Some s \<Rightarrow>
                   if s \<noteq> pv_expected_scenario v then PollFailed ''scenario_mismatch''
                   else if failed then PollFailed (''job_'' @ (case dict_str ''status'' job of Some w \<Rightarrow> w | None \<Rightarrow> []))
                   else if dict_str ''status'' job \<in> {Some ''succeeded'', Some ''awaiting_approval''} then PollDone
                   else PollAgain
               | None \<Rightarrow>
                   if failed then PollFailed (''job_'' @ (case dict_str ''status'' job of Some w \<Rightarrow> w | None \<Rightarrow> []))
                   else PollFailed ''scenario_mismatch''))"

fun poll_from :: "poll_env \<Rightarrow> rat \<Rightarrow> nat \<Rightarrow> nat \<Rightarrow> smoke_progress \<Rightarrow> (string \<times> smoke_progress) + py_dict" where
  "poll_from v deadline 0 k p = Inl (''poll_timeout'', p)"
| "poll_from v deadline (Suc n) k p =
     (if \<not> pv_clock v (Suc k) < deadline then Inl (''poll_timeout'', p)
      else case pv_get v k of
        RequestError \<Rightarrow> Inl (''job_network_error'', p)
      | PollAnswer status answer \<Rightarrow>
          if status = 401 then Inl (''job_unauthorized'', p)
          else if status \<noteq> 200 then Inl (''job_http_'' @ dec_int status, p)
          else (case answer of
                  Inl code \<Rightarrow> Inl (code, p)
                | Inr job \<Rightarrow>
                    (let p' = p\<lparr>sp_last_state := Some job\<rparr>
                     in case judge_job v p job of
                          PollFailed code \<Rightarrow> Inl (code, p')
                        | PollDone \<Rightarrow> Inr job
                        | PollAgain \<Rightarrow> poll_from v deadline n (Suc k) p')))"

definition poll_job :: "poll_env \<Rightarrow> smoke_progress \<Rightarrow> (string \<times> smoke_progress) + py_dict" where
  "poll_job v p = poll_from v (pv_clock v 0 + pv_timeout v) (max_polls (pv_timeout v)) 0 p"

section \<open>The client and the service\<close>

text \<open>The JSON of an entry that the API shows.\<close>

definition entry_json :: "execution_path_read \<Rightarrow> pyval" where
  "entry_json x = PDict (path_entry_dump (path_entry_of x))"

definition speakable_outcome :: "execution_path_read \<Rightarrow> bool" where
  "speakable_outcome x \<longleftrightarrow> (case xr_tool_outcome x of None \<Rightarrow> True | Some c \<Rightarrow> outcome_code_value c \<in> set smoke_outcomes)"

definition shown_entry :: "int \<Rightarrow> execution_path_read \<Rightarrow> bool" where
  "shown_entry previous x \<longleftrightarrow>
     1 \<le> xr_step x \<and> xr_step x \<le> MAX_EXECUTION_STEPS \<and> previous < xr_step x \<and>
     (xr_action_known x \<longleftrightarrow> xr_action_key x \<noteq> None) \<and>
     (\<forall>k. xr_action_key x = Some k \<longrightarrow> safe_identifier k) \<and> list_all safe_identifier (xr_missing_required_fields x)"

lemma safe_entry_shown: "safe_entry registered previous item = Some x \<Longrightarrow> shown_entry previous x"
  by (auto simp: safe_entry_def read_entry_def shown_entry_def opt_bind_def
      split: option.splits if_splits bool.splits pyval.splits)

lemma shown_decision: "known_string [''allow'', ''deny'', ''needs_approval''] (Some (PStr (routing_decision_value d)))"
  by (cases d) (simp_all add: known_string_def)

lemma shown_status:
  "known_string [''urgent'', ''awaiting_input'', ''pending_approval'', ''ready'', ''rejected'']
     (Some (PStr (routing_status_value s)))"
  by (cases s) (simp_all add: known_string_def)

lemma shown_reason: "known_string smoke_reasons (Some (PStr (policy_reason_value r)))"
  by (cases r) (simp_all add: known_string_def smoke_reasons_def)

lemma safe_identifier_length: "safe_identifier k \<Longrightarrow> length k \<le> 64"
  by (cases k) (auto simp: safe_identifier_def bounded_identifier_def)

lemma shown_identifiers:
  "list_all safe_identifier xs \<Longrightarrow> identifier_list (Some (str_list xs))"
  by (simp add: identifier_list_def str_list_def list_all_iff)

lemma shown_entry_read:
  assumes "shown_entry previous x" "speakable_outcome x"
  shows "smoke_entry previous (entry_json x) = Inr (xr_step x)"
proof -
  have keys: "set (dict_keys (path_entry_dump e)) = set path_keys" for e
    by (simp add: path_entry_dump_def path_keys_def dict_keys_def)
  have a: "smoke_action_ok (Some (PBool (xr_action_known x))) (Some (opt_str (xr_action_key x)))"
    using assms(1) safe_identifier_length
    by (cases "xr_action_key x") (auto simp: shown_entry_def smoke_action_ok_def opt_str_def)
  have t: "Some (opt_str (map_option outcome_code_value (xr_tool_outcome x))) = Some PNone \<or>
      known_string smoke_outcomes (Some (opt_str (map_option outcome_code_value (xr_tool_outcome x))))"
    using assms(2) by (cases "xr_tool_outcome x") (simp_all add: speakable_outcome_def opt_str_def known_string_def)
  have i: "identifier_list (Some (str_list (xr_missing_required_fields x)))"
    using assms(1) by (simp add: shown_entry_def shown_identifiers)
  have m: "map_of (path_entry_dump (path_entry_of x)) ''step'' = Some (PInt (xr_step x))"
    "map_of (path_entry_dump (path_entry_of x)) ''action_key'' = Some (opt_str (xr_action_key x))"
    "map_of (path_entry_dump (path_entry_of x)) ''action_known'' = Some (PBool (xr_action_known x))"
    "map_of (path_entry_dump (path_entry_of x)) ''policy_decision'' = Some (PStr (routing_decision_value (xr_policy_decision x)))"
    "map_of (path_entry_dump (path_entry_of x)) ''routing_status'' = Some (PStr (routing_status_value (xr_routing_status x)))"
    "map_of (path_entry_dump (path_entry_of x)) ''policy_reason'' = Some (PStr (policy_reason_value (xr_policy_reason x)))"
    "map_of (path_entry_dump (path_entry_of x)) ''missing_required_fields'' = Some (str_list (xr_missing_required_fields x))"
    "map_of (path_entry_dump (path_entry_of x)) ''tool_outcome'' =
       Some (opt_str (map_option outcome_code_value (xr_tool_outcome x)))"
    "map_of (path_entry_dump (path_entry_of x)) ''side_effect_committed'' = Some (PBool (xr_side_effect_committed x))"
    using assms(1) by (simp_all add: path_entry_dump_def path_entry_of_def shown_entry_def)
  show ?thesis
    using assms(1) a t i keys shown_decision shown_status shown_reason
    by (simp add: smoke_entry_def entry_json_def m is_bool_def) (simp add: shown_entry_def)
qed

lemma safe_path_read:
  assumes "safe_path registered previous items = Some xs" "list_all speakable_outcome xs"
  shows "smoke_path_from previous (map entry_json xs) = Inr (map entry_json xs)"
  using assms
proof (induction registered previous items arbitrary: xs rule: safe_path.induct)
  case (2 registered previous item items)
  then obtain e es where e: "safe_entry registered previous item = Some e"
    "safe_path registered (xr_step e) items = Some es" "xs = e # es"
    by (auto simp: opt_bind_def split: option.splits)
  have "smoke_entry previous (entry_json e) = Inr (xr_step e)"
    using shown_entry_read [OF safe_entry_shown [OF e(1)]] "2.prems"(2) e(3) by simp
  then show ?case using "2.IH" [OF e(2)] "2.prems"(2) e(3) by simp
qed simp

lemma safe_path_length: "safe_path registered previous items = Some xs \<Longrightarrow> length xs = length items"
  by (induction registered previous items arbitrary: xs rule: safe_path.induct) (auto simp: opt_bind_def split: option.splits)

lemma safe_execution_path_read:
  assumes "list_all speakable_outcome (jd_execution_path (project_job_read env row))"
  shows "smoke_execution_path (PList (map entry_json (jd_execution_path (project_job_read env row)))) =
    Inr (map entry_json (jd_execution_path (project_job_read env row)))"
proof -
  define registered where "registered =
      (case (case resolve_persisted_profile env (pj_tenant_config_snapshot row) (PStr (pj_tenant_config_sha256 row)) None of
               Inl _ \<Rightarrow> None | Inr p \<Rightarrow> Some p) of None \<Rightarrow> [] | Some p \<Rightarrow> cp_registered_actions (rp_compiled p))"
  have p: "jd_execution_path (project_job_read env row) = snd (snd (safe_execution_values (pj_result row) registered))"
    by (simp add: project_job_read_def registered_def Let_def split: prod.split)
  have "(\<exists>items. safe_path registered 0 items = Some (snd (snd (safe_execution_values (pj_result row) registered))) \<and>
      int (length items) \<le> MAX_EXECUTION_STEPS)"
    by (auto simp: safe_execution_values_def MAX_EXECUTION_STEPS_def split: option.splits intro: exI [of _ "[]"])
  then obtain items where i: "safe_path registered 0 items = Some (jd_execution_path (project_job_read env row))"
    "int (length items) \<le> MAX_EXECUTION_STEPS" unfolding p by blast
  then show ?thesis
    using safe_path_read [OF i(1) assms] safe_path_length [OF i(1)] by (simp add: smoke_execution_path_def)
qed

text \<open>The body of an accepted intake, and the answer that the middleware lets through.\<close>

definition accepted_json :: "intake_accepted \<Rightarrow> pyval" where
  "accepted_json acc = PDict [(''job_id'', PStr (uuid_str (ac_job_id acc))), (''status'', PStr (ac_status acc))]"

lemma enqueue_intake_queued: "enqueue_intake env key' idem request ctx d = (Inr acc, es, ctx', d') \<Longrightarrow> ac_status acc = ''queued''"
  by (auto simp: enqueue_intake_def finish_intake_def unprocessable_def split: prod.splits sum.splits if_splits option.splits)

lemma next_item_trace: "\<not> has_trace h \<Longrightarrow> next_item (\<lambda>(k, _). map lower_ascii k = trace_header) (h @ [(trace_header, v)]) = Some (trace_header, v)"
  by (induction h) (auto simp: has_trace_def trace_header_lower)

lemma uuid_str_Cons: "\<exists>c cs. uuid_str n = c # cs"
  by (cases "uuid_str n") (auto simp: uuid_str_def Let_def)

lemma accepted_identity_traced:
  assumes "ac_job_id acc < 2 ^ 128" "trace < 2 ^ 128" "\<not> has_trace h" "ac_status acc = ''queued''"
  shows "accepted_identity what
      \<lparr>ha_status = 202, ha_json = Some (accepted_json acc), ha_headers = h @ [(trace_header, uuid_str trace)]\<rparr> =
    Inr (progress_accepted (uuid_str (ac_job_id acc)) (uuid_str trace))"
proof -
  obtain c cs where c: "uuid_str trace = c # cs" using uuid_str_Cons by blast
  have "answer_header \<lparr>ha_status = 202, ha_json = Some (accepted_json acc), ha_headers = h @ [(trace_header, uuid_str trace)]\<rparr>
      ''x-trace-id'' = Some (uuid_str trace)"
    using next_item_trace [OF assms(3)] by (simp add: answer_header_def trace_header_def)
  then show ?thesis
    using uuid_parse_str [OF assms(1)] uuid_parse_str [OF assms(2)] assms(4) c
    by (auto simp: accepted_identity_def accepted_json_def dict_keys_def)
qed

text \<open>
  The client reads an accepted intake: the identifiers of the job and of the trace, the second from the
  header that the observation middleware adds.
\<close>

theorem smoke_accepts_intake:
  assumes "enqueue_intake env key' idem request ctx d = (Inr acc, es, ctx', d')"
    and "ac_job_id acc < 2 ^ 128" "oc_trace_id ctx' < 2 ^ 128" "\<not> has_trace h"
  shows "\<exists>h'. fst (send_with_trace ctx' (ResponseStart (Some 202) h) 500) = ResponseStart (Some 202) h' \<and>
    accepted_identity ''intake'' \<lparr>ha_status = 202, ha_json = Some (accepted_json acc), ha_headers = h'\<rparr> =
      Inr (progress_accepted (uuid_str (ac_job_id acc)) (uuid_str (oc_trace_id ctx')))"
  using accepted_identity_traced [OF assms(2,3,4) enqueue_intake_queued [OF assms(1)]] assms(4)
  by (auto simp: send_with_trace_def)

lemma max_polls_bounds: "1 \<le> max_polls t" "max_polls t \<le> 10000"
  by (simp_all add: max_polls_def)

lemma judge_done:
  "judge_job v p job = PollDone \<Longrightarrow>
     dict_str ''job_id'' job = sp_job_id p \<and> dict_str ''trace_id'' job = sp_trace_id p \<and>
     dict_str ''scenario_key'' job = Some (pv_expected_scenario v) \<and>
     dict_str ''status'' job \<in> {Some ''succeeded'', Some ''awaiting_approval''}"
  by (auto simp: judge_job_def Let_def split: if_splits option.splits)

lemma judge_last_state: "judge_job v (p\<lparr>sp_last_state := s\<rparr>) job = judge_job v p job"
  by (simp add: judge_job_def)

lemma poll_from_result:
  assumes "poll_from v deadline n k p = Inr job"
  shows "\<exists>i \<ge> k. i < k + n \<and> pv_get v i = PollAnswer 200 (Inr job) \<and> judge_job v p job = PollDone \<and>
    (\<forall>j. k \<le> j \<and> j \<le> i \<longrightarrow> pv_clock v (Suc j) < deadline) \<and>
    (\<forall>j. k \<le> j \<and> j < i \<longrightarrow> (\<exists>q. pv_get v j = PollAnswer 200 (Inr q) \<and> judge_job v p q = PollAgain))"
  using assms
proof (induction v deadline n k p rule: poll_from.induct)
  case (2 v deadline n k p)
  then obtain q where q: "pv_clock v (Suc k) < deadline" "pv_get v k = PollAnswer 200 (Inr q)"
    "judge_job v p q = PollDone \<and> job = q \<or>
     judge_job v p q = PollAgain \<and> poll_from v deadline n (Suc k) (p\<lparr>sp_last_state := Some q\<rparr>) = Inr job"
    by (auto simp: Let_def split: if_splits poll_answer.splits sum.splits poll_step.splits)
  from q(3) show ?case
  proof
    assume "judge_job v p q = PollDone \<and> job = q"
    with q show ?thesis by (intro exI [of _ k]) (auto simp: le_less)
  next
    assume a: "judge_job v p q = PollAgain \<and> poll_from v deadline n (Suc k) (p\<lparr>sp_last_state := Some q\<rparr>) = Inr job"
    have "\<exists>i \<ge> Suc k. i < Suc k + n \<and> pv_get v i = PollAnswer 200 (Inr job) \<and> judge_job v p job = PollDone \<and>
        (\<forall>j. Suc k \<le> j \<and> j \<le> i \<longrightarrow> pv_clock v (Suc j) < deadline) \<and>
        (\<forall>j. Suc k \<le> j \<and> j < i \<longrightarrow> (\<exists>q. pv_get v j = PollAnswer 200 (Inr q) \<and> judge_job v p q = PollAgain))"
      using "2.IH" [of 200 "Inr q" q "p\<lparr>sp_last_state := Some q\<rparr>"] q a by (simp add: judge_last_state)
    then obtain i where i: "Suc k \<le> i" "i < Suc k + n" "pv_get v i = PollAnswer 200 (Inr job)" "judge_job v p job = PollDone"
      "\<forall>j. Suc k \<le> j \<and> j \<le> i \<longrightarrow> pv_clock v (Suc j) < deadline"
      "\<forall>j. Suc k \<le> j \<and> j < i \<longrightarrow> (\<exists>q. pv_get v j = PollAnswer 200 (Inr q) \<and> judge_job v p q = PollAgain)"
      by blast
    have "pv_clock v (Suc j) < deadline" if "k \<le> j" "j \<le> i" for j
      using i(5) q(1) that by (cases "j = k") (auto simp: Suc_le_eq)
    moreover have "\<exists>q. pv_get v j = PollAnswer 200 (Inr q) \<and> judge_job v p q = PollAgain" if "k \<le> j" "j < i" for j
      using i(6) q(2) a that by (cases "j = k") (auto simp: Suc_le_eq)
    ultimately show ?thesis using i(1-4) by (intro exI [of _ i]) simp
  qed
qed simp

text \<open>
  Polling ends after at most ten thousand requests, and a job that it returns has ended: it has the identifiers
  that were accepted and the expected scenario, the server answered it before the deadline, and every earlier
  answer was a job that was still queued or running.
\<close>

theorem poll_job_result:
  assumes "poll_job v p = Inr job"
  shows "\<exists>i < max_polls (pv_timeout v). max_polls (pv_timeout v) \<le> 10000 \<and> pv_get v i = PollAnswer 200 (Inr job) \<and>
    dict_str ''job_id'' job = sp_job_id p \<and> dict_str ''trace_id'' job = sp_trace_id p \<and>
    dict_str ''scenario_key'' job = Some (pv_expected_scenario v) \<and>
    dict_str ''status'' job \<in> {Some ''succeeded'', Some ''awaiting_approval''} \<and>
    pv_clock v (Suc i) < pv_clock v 0 + pv_timeout v \<and>
    (\<forall>j < i. \<exists>q. pv_get v j = PollAnswer 200 (Inr q) \<and> judge_job v p q = PollAgain)"
  using poll_from_result [OF assms [unfolded poll_job_def]] judge_done [of v p job] max_polls_bounds(2) [of "pv_timeout v"]
  by auto

end
