(* ===== verification/Smoke_Runs.thy ===== *)
theory Smoke_Runs
  imports Smoke_Client
begin

text \<open>
  The runs of the smoke client (\<open>src/scripts/live_provider_smoke.py\<close>): the check of a job response, the
  three transports, the demo cases with their checks, and what a run against the modelled service sees.
  The server, the clocks, the files and the fresh identifiers are fields of \<open>smoke_env\<close>; \<open>'w\<close> is the
  state of the world that a request changes. The printed explanations are not modelled.
\<close>

section \<open>The job response\<close>

definition SAFE_JOB_RESPONSE_KEYS :: "string list" where
  "SAFE_JOB_RESPONSE_KEYS =
     [''job_id'', ''trace_id'', ''scenario_key'', ''status'', ''attempt_count'', ''agent_steps'', ''stop_reason'',
      ''execution_path'', ''routing_status'', ''routing_reason'', ''missing_required_fields'', ''approval'',
      ''result_references'', ''error_code'', ''created_at'', ''started_at'', ''finished_at'']"

definition TERMINAL_STATUSES :: "string list" where
  "TERMINAL_STATUSES = [''succeeded'', ''failed'', ''failed_uncertain'', ''awaiting_approval'']"

text \<open>
  \<open>_safe_job_response\<close> before the validation by Pydantic. \<open>ResponseCrash\<close> is the \<open>TypeError\<close> of a test
  \<open>x in {...}\<close> for a list or a dict, which is no \<open>SmokeFailure\<close>.
\<close>

datatype response_check = ResponseRefused string | ResponseCrash | ResponseOk py_dict

definition malformed_response :: response_check where
  "malformed_response = ResponseRefused ''malformed_job_response''"

definition unsafe_response :: response_check where
  "unsafe_response = ResponseRefused ''unsafe_job_response''"

definition require :: "bool \<Rightarrow> response_check \<Rightarrow> response_check" where
  "require b rest = (if b then rest else malformed_response)"

definition require_in :: "string list \<Rightarrow> pyval option \<Rightarrow> response_check \<Rightarrow> response_check" where
  "require_in words v rest =
     (case v of
        None \<Rightarrow> rest
      | Some PNone \<Rightarrow> rest
      | Some (PStr s) \<Rightarrow> require (s \<in> set words) rest
      | Some (PList _) \<Rightarrow> ResponseCrash
      | Some (PDict _) \<Rightarrow> ResponseCrash
      | Some _ \<Rightarrow> malformed_response)"

definition none_or :: "(pyval \<Rightarrow> bool) \<Rightarrow> pyval option \<Rightarrow> bool" where
  "none_or P v \<longleftrightarrow> (case v of None \<Rightarrow> True | Some x \<Rightarrow> x = PNone \<or> P x)"

definition is_str :: "pyval \<Rightarrow> bool" where
  "is_str v \<longleftrightarrow> (case v of PStr _ \<Rightarrow> True | _ \<Rightarrow> False)"

definition int_with :: "(int \<Rightarrow> bool) \<Rightarrow> pyval \<Rightarrow> bool" where
  "int_with P v \<longleftrightarrow> (case v of PInt i \<Rightarrow> P i | _ \<Rightarrow> False)"

definition check_approval :: "pyval option \<Rightarrow> response_check \<Rightarrow> response_check" where
  "check_approval v rest =
     (case v of
        None \<Rightarrow> rest
      | Some PNone \<Rightarrow> rest
      | Some (PDict a) \<Rightarrow>
          if set (dict_keys a) \<noteq> {''approval_id'', ''status''} then unsafe_response
          else require (dict_str ''approval_id'' a \<noteq> None \<and>
            known_string [''pending'', ''approved'', ''rejected'', ''expired''] (map_of a ''status'')) rest
      | Some _ \<Rightarrow> unsafe_response)"

definition reference_json :: "string \<times> string \<Rightarrow> pyval" where
  "reference_json r = PDict [(''kind'', PStr (fst r)), (''id'', PStr (snd r))]"

definition check_references :: "py_dict \<Rightarrow> response_check" where
  "check_references d =
     (case smoke_result_references (case map_of d ''result_references'' of None \<Rightarrow> PList [] | Some v \<Rightarrow> v) of
        Inl code \<Rightarrow> ResponseRefused code
      | Inr refs \<Rightarrow>
          require_in (map routing_status_value all_routing_statuses) (map_of d ''routing_status'')
            (require_in (''complete'' # map policy_reason_value all_policy_reasons) (map_of d ''routing_reason'')
              (require_in (map worker_error_code_value all_worker_error_codes) (map_of d ''error_code'')
                (require (list_all (\<lambda>k. none_or is_str (map_of d k)) [''created_at'', ''started_at'', ''finished_at''])
                  (ResponseOk (dict_set ''result_references'' (PList (map reference_json refs)) d))))))"

definition check_path :: "py_dict \<Rightarrow> response_check \<Rightarrow> response_check" where
  "check_path d rest =
     (case map_of d ''execution_path'' of
        None \<Rightarrow> rest
      | Some v \<Rightarrow> (case smoke_execution_path v of Inl code \<Rightarrow> ResponseRefused code | Inr _ \<Rightarrow> rest))"

definition safe_job_response :: "pyval \<Rightarrow> response_check" where
  "safe_job_response v =
     (case v of
        PDict d \<Rightarrow>
          if \<not> set (dict_keys d) \<subseteq> set SAFE_JOB_RESPONSE_KEYS then unsafe_response
          else require (list_all (\<lambda>k. map_of d k \<noteq> None) [''job_id'', ''trace_id'', ''scenario_key'', ''status'', ''attempt_count''])
            (require (dict_str ''job_id'' d \<noteq> None \<and> dict_str ''trace_id'' d \<noteq> None \<and>
                none_or is_str (map_of d ''scenario_key'') \<and>
                known_string ([''queued'', ''running''] @ TERMINAL_STATUSES) (map_of d ''status'') \<and>
                list_all (int_with (\<lambda>i. 0 \<le> i)) (case map_of d ''attempt_count'' of None \<Rightarrow> [] | Some n \<Rightarrow> [n]) \<and>
                none_or (int_with (\<lambda>i. 0 \<le> i \<and> i \<le> MAX_EXECUTION_STEPS)) (map_of d ''agent_steps''))
              (require_in (map stop_reason_value all_stop_reasons) (map_of d ''stop_reason'')
                (check_path d
                  (require (case map_of d ''missing_required_fields'' of None \<Rightarrow> True | m \<Rightarrow> identifier_list m)
                    (check_approval (map_of d ''approval'') (check_references d))))))
      | _ \<Rightarrow> unsafe_response)"

section \<open>The webhook of the client\<close>

datatype smoke_error = SmokeFailure string smoke_progress | Escaped send_error

definition no_progress :: smoke_progress where
  "no_progress = \<lparr>sp_acceptance_status = None, sp_job_id = None, sp_trace_id = None, sp_last_state = None,
                  sp_duplicate_reused = None, sp_conflict_rejected = None\<rparr>"

definition smoke_fail :: "string \<Rightarrow> smoke_error + 'a" where
  "smoke_fail code = Inl (SmokeFailure code no_progress)"

definition read_failed :: "send_error \<Rightarrow> smoke_error + 'a" where
  "read_failed e = (case e of OSError _ \<Rightarrow> smoke_fail ''attachment_read_error'' | BadValue _ \<Rightarrow> Inl (Escaped e))"

definition read_attachment :: "attachment_file \<Rightarrow> smoke_error + pyval" where
  "read_attachment f =
     (case suffix_media (af_name f) of
        None \<Rightarrow> smoke_fail ''attachment_type_unsupported''
      | Some m \<Rightarrow>
          (case af_size f of
             Inl e \<Rightarrow> read_failed e
           | Inr n \<Rightarrow>
               if MAX_DOCUMENT_BYTES < n then smoke_fail ''attachment_too_large''
               else (case af_content f of
                       Inl e \<Rightarrow> read_failed e
                     | Inr bs \<Rightarrow> Inr (PDict [(''media_type'', PStr (media_type_value m)),
                                            (''content_base64'', PStr (b64encode bs))]))))"

definition smoke_attachments :: "attachment_file option \<Rightarrow> smoke_error + pyval list" where
  "smoke_attachments att =
     (case att of
        None \<Rightarrow> Inr []
      | Some f \<Rightarrow> (case read_attachment f of Inl e \<Rightarrow> Inl e | Inr a \<Rightarrow> Inr [a]))"

definition webhook_request_of ::
  "(rat \<Rightarrow> string) \<Rightarrow> hmac \<Rightarrow> string \<Rightarrow> outgoing_mail \<Rightarrow> attachment_file option \<Rightarrow> int \<Rightarrow> smoke_error + sent_request" where
  "webhook_request_of fl hmac_sha256 api_key m att signed_at =
     (case smoke_attachments att of
        Inl e \<Rightarrow> Inl e
      | Inr atts \<Rightarrow>
          (case json_dumps fl (mail_payload m atts) of
             Inl _ \<Rightarrow> Inl (Escaped (BadValue ''Object is not JSON serializable''))
           | Inr text \<Rightarrow>
               (case str_int signed_at of
                  Inl e \<Rightarrow> Inl (Escaped e)
                | Inr stamp \<Rightarrow>
                    Inr \<lparr>sr_body = utf8_encode text, sr_content_type = ''application/json'', sr_api_key = api_key,
                         sr_timestamp = stamp,
                         sr_signature = sign_inbound_webhook hmac_sha256 api_key signed_at (utf8_encode text)\<rparr>)))"

section \<open>The transports\<close>

record 'w smoke_env =
  sm_post_intake :: "string \<Rightarrow> string \<Rightarrow> py_dict \<Rightarrow> 'w \<Rightarrow> http_answer option \<times> 'w"
  sm_post_webhook :: "sent_request \<Rightarrow> 'w \<Rightarrow> http_answer option \<times> 'w"
  sm_poll :: "string \<Rightarrow> smoke_progress \<Rightarrow> 'w \<Rightarrow> nat \<Rightarrow> poll_answer"
  sm_clock :: "nat \<Rightarrow> rat"
  sm_time :: "'w \<Rightarrow> int"
  sm_uuid :: uuid
  sm_file :: "string \<Rightarrow> attachment_file"
  sm_hmac :: hmac
  sm_floats :: "rat \<Rightarrow> string"

text \<open>The arguments all transports have; \<open>None\<close> is a time that is not finite.\<close>

record smoke_args =
  sa_profile :: string
  sa_api_key :: string
  sa_timeout :: "rat option"
  sa_interval :: "rat option"

definition freight_body :: string where
  "freight_body =
     ''Origin: Chicago; destination: Detroit; equipment: dry_van; pickup_window: 2026-10-01T09:00:00Z; '' @
     ''commodity: appliances''"

definition intake_json :: "string \<Rightarrow> string \<Rightarrow> string \<Rightarrow> py_dict" where
  "intake_json channel subject body =
     [(''channel'', PStr channel), (''subject'', PStr subject), (''body'', PStr body)]"

definition PROFILE_SCENARIOS :: "(string \<times> string \<times> py_dict) list" where
  "PROFILE_SCENARIOS =
     [(''freight-broker'', ''freight_broker'',
        intake_json ''email'' ''Synthetic freight request'' (freight_body @ ''; contact: ops@example.test'')),
      (''repair-service'', ''repair_service'',
        intake_json ''web'' ''Synthetic repair request''
          (''Customer: Alex Example; contact: alex@example.test; issue: '' @
           ''the appliance will not start; asset_type: appliance'')),
      (''language-school'', ''language_school'',
        intake_json ''web'' ''Synthetic course inquiry''
          (''Student: Alex Example; contact: alex@example.test; '' @ ''language: english''))]"

definition poll_bounds_ok :: "smoke_args \<Rightarrow> bool" where
  "poll_bounds_ok a \<longleftrightarrow>
     (case (sa_timeout a, sa_interval a) of (Some t, Some i) \<Rightarrow> 0 < t \<and> 0 \<le> i | _ \<Rightarrow> False)"

definition poll_after :: "'w smoke_env \<Rightarrow> smoke_args \<Rightarrow> string \<Rightarrow> smoke_progress \<Rightarrow> 'w \<Rightarrow> smoke_error + py_dict" where
  "poll_after env a scenario progress w =
     (case poll_job \<lparr>pv_clock = sm_clock env, pv_get = sm_poll env (sa_api_key a) progress w,
                     pv_timeout = (case sa_timeout a of Some t \<Rightarrow> t | None \<Rightarrow> 0),
                     pv_expected_scenario = scenario\<rparr> progress of
        Inl (code, p) \<Rightarrow> Inl (SmokeFailure code p)
      | Inr job \<Rightarrow> Inr job)"

definition accept_smoke :: "string \<Rightarrow> http_answer option \<Rightarrow> smoke_error + smoke_progress" where
  "accept_smoke what answer =
     (case answer of
        None \<Rightarrow> smoke_fail (what @ ''_network_error'')
      | Some r \<Rightarrow> (case accepted_identity what r of Inl code \<Rightarrow> smoke_fail code | Inr p \<Rightarrow> Inr p))"

definition valid_smoke_payload :: "py_dict \<Rightarrow> bool" where
  "valid_smoke_payload d \<longleftrightarrow>
     set (dict_keys d) = {''channel'', ''subject'', ''body''} \<and> list_all (\<lambda>kv. is_str (snd kv)) d"

definition run_smoke :: "'w smoke_env \<Rightarrow> smoke_args \<Rightarrow> py_dict option \<Rightarrow> 'w \<Rightarrow> smoke_error + py_dict" where
  "run_smoke env a payload w =
     (if strip (sa_api_key a) = [] then smoke_fail ''tenant_api_key_missing''
      else case map_of PROFILE_SCENARIOS (sa_profile a) of
        None \<Rightarrow> smoke_fail ''profile_invalid''
      | Some (scenario, preset) \<Rightarrow>
          if \<not> poll_bounds_ok a then smoke_fail ''poll_bounds_invalid''
          else (let request = (case payload of None \<Rightarrow> preset | Some d \<Rightarrow> d)
                in if \<not> valid_smoke_payload request then smoke_fail ''input_payload_invalid''
                   else (let (answer, w') = sm_post_intake env (sa_api_key a) (''demo-'' @ uuid_str (sm_uuid env)) request w
                         in case accept_smoke ''intake'' answer of
                              Inl e \<Rightarrow> Inl e
                            | Inr progress \<Rightarrow> poll_after env a scenario progress w')))"

text \<open>\<open>provider_id or ...\<close> and the time stamp of a request.\<close>

definition provider_id_of :: "'w smoke_env \<Rightarrow> string option \<Rightarrow> string" where
  "provider_id_of env p = (case p of Some (c # cs) \<Rightarrow> c # cs | _ \<Rightarrow> ''live-'' @ uuid_str (sm_uuid env))"

record smoke_mail =
  ml_subject :: string
  ml_body :: string
  ml_provider_id :: "string option"
  ml_from_addr :: string
  ml_attachment :: "attachment_file option"
  ml_timestamp :: "int option"

definition mail_of :: "'w smoke_env \<Rightarrow> smoke_mail \<Rightarrow> outgoing_mail" where
  "mail_of env m =
     \<lparr>om_provider_id = provider_id_of env (ml_provider_id m), om_from_addr = ml_from_addr m,
      om_subject = ml_subject m, om_body = ml_body m\<rparr>"

definition signed_request :: "'w smoke_env \<Rightarrow> smoke_args \<Rightarrow> smoke_mail \<Rightarrow> 'w \<Rightarrow> smoke_error + sent_request" where
  "signed_request env a m w =
     webhook_request_of (sm_floats env) (sm_hmac env) (sa_api_key a) (mail_of env m) (ml_attachment m)
       (case ml_timestamp m of None \<Rightarrow> sm_time env w | Some t \<Rightarrow> t)"

definition run_webhook_smoke :: "'w smoke_env \<Rightarrow> smoke_args \<Rightarrow> smoke_mail \<Rightarrow> 'w \<Rightarrow> smoke_error + py_dict" where
  "run_webhook_smoke env a m w =
     (if strip (sa_api_key a) = [] then smoke_fail ''tenant_api_key_missing''
      else case map_of PROFILE_SCENARIOS (sa_profile a) of
        None \<Rightarrow> smoke_fail ''profile_invalid''
      | Some (scenario, _) \<Rightarrow>
          if sa_profile a \<noteq> ''freight-broker'' then smoke_fail ''webhook_profile_unsupported''
          else if \<not> poll_bounds_ok a then smoke_fail ''poll_bounds_invalid''
          else (case signed_request env a m w of
                  Inl e \<Rightarrow> Inl e
                | Inr r \<Rightarrow>
                    (let (answer, w') = sm_post_webhook env r w
                     in case accept_smoke ''webhook'' answer of
                          Inl e \<Rightarrow> Inl e
                        | Inr progress \<Rightarrow> poll_after env a scenario progress w')))"

text \<open>The second delivery: the same mail, or another body under the same provider identifier.\<close>

definition changed_body :: string where
  "changed_body = ''Changed synthetic freight webhook body''"

definition second_mail :: "bool \<Rightarrow> smoke_mail \<Rightarrow> smoke_mail" where
  "second_mail conflict m =
     m\<lparr>ml_body := (if conflict then changed_body else ml_body m), ml_timestamp := map_option (\<lambda>t. t + 1) (ml_timestamp m)\<rparr>"

text \<open>What the client makes of the answer to the second delivery: reused and rejected, or a failure.\<close>

definition judge_second :: "bool \<Rightarrow> smoke_progress \<Rightarrow> http_answer option \<Rightarrow> smoke_error + bool \<times> bool" where
  "judge_second conflict p answer =
     (case answer of
        None \<Rightarrow> Inl (SmokeFailure ''webhook_network_error'' p)
      | Some r \<Rightarrow>
          if conflict
          then (if ha_status r \<noteq> 409 then Inl (SmokeFailure ''expected_conflict_not_returned'' p) else Inr (False, True))
          else (case accepted_identity ''webhook'' r of
                  Inl code \<Rightarrow> Inl (SmokeFailure code p)
                | Inr q \<Rightarrow>
                    if sp_job_id q \<noteq> sp_job_id p \<or> sp_trace_id q \<noteq> sp_trace_id p
                    then Inl (SmokeFailure ''duplicate_identity_mismatch'' p) else Inr (True, False)))"

definition run_webhook_idempotency ::
  "'w smoke_env \<Rightarrow> smoke_args \<Rightarrow> bool \<Rightarrow> smoke_mail \<Rightarrow> 'w \<Rightarrow> smoke_error + py_dict \<times> bool \<times> bool" where
  "run_webhook_idempotency env a conflict m w =
     (if strip (sa_api_key a) = [] then smoke_fail ''tenant_api_key_missing''
      else if sa_profile a \<noteq> ''freight-broker'' then smoke_fail ''webhook_profile_unsupported''
      else if \<not> poll_bounds_ok a then smoke_fail ''poll_bounds_invalid''
      else case signed_request env a m w of
        Inl e \<Rightarrow> Inl e
      | Inr r \<Rightarrow>
          (let (answer, w1) = sm_post_webhook env r w
           in case accept_smoke ''webhook'' answer of
                Inl e \<Rightarrow> Inl e
              | Inr progress \<Rightarrow>
                  (case signed_request env a (second_mail conflict m) w1 of
                     Inl e \<Rightarrow> Inl e
                   | Inr r2 \<Rightarrow>
                       (let (answer2, w2) = sm_post_webhook env r2 w1
                        in case judge_second conflict progress answer2 of
                             Inl e \<Rightarrow> Inl e
                           | Inr (reused, conflicted) \<Rightarrow>
                               (case poll_after env a ''freight_broker''
                                  (progress\<lparr>sp_duplicate_reused := Some reused, sp_conflict_rejected := Some conflicted\<rparr>) w2 of
                                  Inl e \<Rightarrow> Inl e
                                | Inr job \<Rightarrow> Inr (job, reused, conflicted))))))"

text \<open>
  A response that is accepted has the identifiers and a known status. A response whose stop reason is a list is
  not refused: the membership test raises, and the error is no \<open>SmokeFailure\<close>.
\<close>

lemma require_Ok: "require b rest = ResponseOk d \<longleftrightarrow> b \<and> rest = ResponseOk d"
  by (simp add: require_def malformed_response_def)

lemma safe_job_response_Ok:
  assumes "safe_job_response v = ResponseOk d'"
  shows "\<exists>d. v = PDict d \<and> set (dict_keys d) \<subseteq> set SAFE_JOB_RESPONSE_KEYS \<and> dict_str ''job_id'' d \<noteq> None \<and>
    dict_str ''trace_id'' d \<noteq> None \<and> known_string ([''queued'', ''running''] @ TERMINAL_STATUSES) (map_of d ''status'')"
  using assms
  by (auto simp: safe_job_response_def unsafe_response_def require_Ok split: pyval.splits if_splits)

lemma unhashable_stop_reason_crashes:
  "safe_job_response (PDict [(''job_id'', PStr ''j''), (''trace_id'', PStr ''t''), (''scenario_key'', PNone),
     (''status'', PStr ''queued''), (''attempt_count'', PInt 0), (''stop_reason'', PList [])]) = ResponseCrash"
  by (simp add: safe_job_response_def require_def require_in_def SAFE_JOB_RESPONSE_KEYS_def dict_keys_def dict_str_def key_def
      known_string_def none_or_def int_with_def)

section \<open>The service behind the client\<close>

text \<open>
  The modelled service as the server of the client: the number of the request counts its time and its
  context, \<open>le_meanwhile\<close> is what workers, operators and other clients do before the next request, and
  the answer carries the header of the observation middleware.
\<close>

record live_env =
  le_api :: api_env
  le_now :: "nat \<Rightarrow> int"
  le_ctx :: "nat \<Rightarrow> observation_context"
  le_meanwhile :: "nat \<Rightarrow> db \<Rightarrow> db"

type_synonym live_world = "nat \<times> db"

definition http_status :: "'a http \<Rightarrow> int" where
  "http_status r = (case r of Inr _ \<Rightarrow> 202 | Inl (HTTPException n _) \<Rightarrow> int n | Inl (Unhandled _) \<Rightarrow> 500)"

definition webhook_answer :: "observation_context \<Rightarrow> intake_accepted http \<Rightarrow> http_answer" where
  "webhook_answer ctx r =
     \<lparr>ha_status = http_status r,
      ha_json = (case r of Inr acc \<Rightarrow> Some (accepted_json acc)
                         | Inl (HTTPException _ detail) \<Rightarrow> Some (PDict [(''detail'', PStr detail)])
                         | Inl (Unhandled _) \<Rightarrow> None),
      ha_headers = [(trace_header, uuid_str (oc_trace_id ctx))]\<rparr>"

definition live_webhook :: "live_env \<Rightarrow> sent_request \<Rightarrow> live_world \<Rightarrow> http_answer option \<times> live_world" where
  "live_webhook le r w =
     (let (n, d) = w;
          (response, _, ctx, d') = receive_email_webhook (le_api le) (le_now le n) (delivered r [sr_body r]) (le_ctx le n) d
      in (Some (webhook_answer ctx response), Suc n, le_meanwhile le n d'))"

text \<open>The two scripts send the same request.\<close>

lemma webhook_request_build: "webhook_request_of fl hm k m att s = Inr r \<longleftrightarrow> build_request fl hm k m att s = Inr r"
  by (auto simp: webhook_request_of_def build_request_def smoke_attachments_def attachments_payload_def read_attachment_def
      attachment_payload_def smoke_fail_def read_failed_def split: sum.splits option.splits if_splits send_error.splits)

lemma inbound_enqueue_conflict:
  assumes "workflow_wf d" "loads_valid env" "inbound_enqueue env trace m d = (Inr x, es, d1)" "evolves d1 d2"
    and "resolve_profile (iv_profiles env) (iv_load env) (msg_tenant_slug m) = Inr p"
    and "msg_attachments m = []" "msg_attachments m' = []" "msg_tenant_id m' = msg_tenant_id m"
    and "msg_tenant_slug m' = msg_tenant_slug m" "inbound_key m' = inbound_key m"
    and "canonical_intake_hash (iv_profiles env) (ec_source (text_command trace m)) \<noteq>
      canonical_intake_hash (iv_profiles env) (ec_source (text_command trace' m'))"
    and "canonical_intake_hash (iv_profiles env) (ec_source (text_command trace' m')) = Inr h'"
  shows "\<exists>es'. inbound_enqueue env trace' m' d2 =
    (Inl (IdempotencyConflict ''idempotency key conflicts with request''), es', d2)"
proof -
  have e: "enqueue env (text_command trace m) d = (Inr x, es, d1)" using assms(3,6) by (simp add: inbound_enqueue_def)
  obtain k h where k: "validate_idempotency_key (inbound_key m) = Inr k"
    and h: "canonical_intake_hash (iv_profiles env) (ec_source (text_command trace m)) = Inr h"
    and acc: "accepted env (msg_tenant_id m) (msg_tenant_slug m) k h (er_job_id x) (er_trace_id x) d1"
    by (rule enqueue_accepts [OF assms(1,2) e]) (rule that; simp)
  have wf: "workflow_wf d2" using assms(4) by (simp add: evolves_def)
  have req: "(msg_tenant_id m, k, h, Some (er_job_id x)) \<in> requests d2"
    using accepted_evolves [OF acc assms(4)] by (simp add: accepted_def)
  have "\<exists>es'. enqueue env (text_command trace' m') d2 =
      (Inl (IdempotencyConflict ''idempotency key conflicts with request''), es', d2)"
    by (rule enqueue_conflict [OF wf, where p = p and k = k and h = h and h' = h' and i = "Some (er_job_id x)"])
       (use assms(5,8-12) k h req in auto)
  then show ?thesis using assms(7) by (simp add: inbound_enqueue_def)
qed

text \<open>A request of the client reaches the service within its limits, and the service reads what was printed.\<close>

definition arrives :: "live_env \<Rightarrow> live_world smoke_env \<Rightarrow> smoke_args \<Rightarrow> smoke_mail \<Rightarrow> live_world \<Rightarrow> sent_request \<Rightarrow> bool" where
  "arrives le env a m w r \<longleftrightarrow>
     signed_request env a m w = Inr r \<and>
     \<bar>le_now le (fst w) - (case ml_timestamp m of None \<Rightarrow> sm_time env w | Some t \<Rightarrow> t)\<bar> \<le> MAX_SIGNATURE_AGE_SECONDS \<and>
     length (sr_body r) \<le> MAX_INBOUND_WEBHOOK_BODY_BYTES \<and>
     (case attachments_payload (ml_attachment m) of
        Inl _ \<Rightarrow> False
      | Inr atts \<Rightarrow> av_json (le_api le) (sr_body r) = Some (mail_payload (mail_of env m) atts))"

text \<open>The client holds an active key of the tenant, whose profile resolves, and signs as the service does.\<close>

definition live_tenant :: "live_env \<Rightarrow> live_world smoke_env \<Rightarrow> smoke_args \<Rightarrow> tenant_row \<Rightarrow> bool" where
  "live_tenant le env a t \<longleftrightarrow>
     strip (sa_api_key a) \<noteq> [] \<and> sa_profile a = ''freight-broker'' \<and> poll_bounds_ok a \<and> api_key_format (sa_api_key a) \<and>
     resolve_active_tenant (av_sha256 (le_api le)) (av_directory (le_api le)) (sa_api_key a) = Inr (Some t) \<and>
     (case resolve_profile (iv_profiles (av_intake (le_api le))) (iv_load (av_intake (le_api le))) (te_slug t) of
        Inl _ \<Rightarrow> False | Inr _ \<Rightarrow> True)"

lemma arrived:
  assumes "arrives le env a m (n, d) r" "live_tenant le env a t" "sm_hmac env = av_hmac (le_api le)"
    and "\<And>k b. is_sha256_hex (av_hmac (le_api le) k b)"
  shows "receive_email_webhook (le_api le) (le_now le n) (delivered r [sr_body r]) ctx d =
     finish_intake ''Invalid inbound payload'' (te_id t)
       [AuthEvent (SignatureCompleted VERIFIED),
        AuthEvent (AuthCompleted INBOUND_WEBHOOK OC_AUTHENTICATED (Some (te_id t)))] ctx
       (case received_message t (mail_of env m) (ml_attachment m) of
          Inl e \<Rightarrow> (Inl e, [], d)
        | Inr msg \<Rightarrow> inbound_enqueue (av_intake (le_api le)) (oc_trace_id ctx) msg d)"
proof -
  define s where "s = (case ml_timestamp m of None \<Rightarrow> sm_time env (n, d) | Some t \<Rightarrow> t)"
  obtain atts where atts: "attachments_payload (ml_attachment m) = Inr atts"
    "av_json (le_api le) (sr_body r) = Some (mail_payload (mail_of env m) atts)"
    using assms(1) by (auto simp: arrives_def split: sum.splits)
  have b: "build_request (sm_floats env) (av_hmac (le_api le)) (sa_api_key a) (mail_of env m) (ml_attachment m) s = Inr r"
    "\<bar>le_now le n - s\<bar> \<le> MAX_SIGNATURE_AGE_SECONDS" "length (sr_body r) \<le> MAX_INBOUND_WEBHOOK_BODY_BYTES"
    using assms(1,3) by (simp_all add: arrives_def signed_request_def webhook_request_build s_def)
  show ?thesis
    by (rule sent_received [OF b(1) atts assms(4) _ _ b(2) _ b(3)]) (use assms(2) in \<open>simp_all add: live_tenant_def\<close>)
qed

lemma received_message_Inr:
  assumes "received_message t m att = Inr msg"
  shows "msg_tenant_id msg = te_id t" "msg_tenant_slug msg = te_slug t"
    "inbound_key msg = ''email_webhook:'' @ om_provider_id m" "att = None \<Longrightarrow> msg_attachments msg = []"
  using assms
  by (auto simp: received_message_def received_attachments_def inbound_key_def invalid_inbound_payload_def
      split: option.splits if_splits)

text \<open>What the client sees of the two deliveries.\<close>

lemma first_delivery:
  assumes "arrives le env a m (n, d) r" "live_tenant le env a t" "sm_hmac env = av_hmac (le_api le)"
    and "\<And>k b. is_sha256_hex (av_hmac (le_api le) k b)"
    and "received_message t (mail_of env m) (ml_attachment m) = Inr msg"
    and "inbound_enqueue (av_intake (le_api le)) (oc_trace_id (le_ctx le n)) msg d = (Inr x, es, d1)"
    and "er_job_id x < 2 ^ 128" "er_trace_id x < 2 ^ 128"
  shows "\<exists>answer. live_webhook le r (n, d) = (Some answer, Suc n, le_meanwhile le n d1) \<and>
    accepted_identity what answer = Inr (progress_accepted (uuid_str (er_job_id x)) (uuid_str (er_trace_id x)))"
proof -
  have "live_webhook le r (n, d) =
      (Some (webhook_answer (bind_job (te_id t) x (le_ctx le n)) (Inr \<lparr>ac_job_id = er_job_id x, ac_status = ''queued''\<rparr>)),
       Suc n, le_meanwhile le n d1)"
    using arrived [OF assms(1-4)] assms(5,6) by (simp add: live_webhook_def finish_intake_def)
  moreover have "\<not> has_trace []" by (simp add: has_trace_def)
  ultimately show ?thesis
    using accepted_identity_traced [of "\<lparr>ac_job_id = er_job_id x, ac_status = ''queued''\<rparr>" "er_trace_id x" "[]" what] assms(7,8)
    by (simp add: webhook_answer_def http_status_def bind_job_def)
qed

lemma conflict_answer:
  assumes "arrives le env a m (n, d) r" "live_tenant le env a t" "sm_hmac env = av_hmac (le_api le)"
    and "\<And>k b. is_sha256_hex (av_hmac (le_api le) k b)"
    and "received_message t (mail_of env m) (ml_attachment m) = Inr msg"
    and "inbound_enqueue (av_intake (le_api le)) (oc_trace_id (le_ctx le n)) msg d =
      (Inl (IdempotencyConflict s), es, d)"
  shows "\<exists>answer. live_webhook le r (n, d) = (Some answer, Suc n, le_meanwhile le n d) \<and> ha_status answer = 409"
  using arrived [OF assms(1-4)] assms(5,6)
  by (simp add: live_webhook_def finish_intake_def intake_http_error_def webhook_answer_def http_status_def)


end
