(* ===== verification/Smoke_Cases.thy ===== *)
theory Smoke_Cases
  imports Smoke_Runs
begin

text \<open>
  The demo cases of the smoke client (\<open>src/scripts/live_provider_smoke.py\<close>): their inputs, the checks on the
  job that comes back, the report of a case and the exit code of the script. A job that reaches the checks
  is the dump of a \<open>JobRead\<close>, so its path is a list of entries; the explanations are not modelled.
\<close>

section \<open>Cases\<close>

datatype smoke_transport = ST_INTAKE | ST_WEBHOOK

datatype demo_case =
    BODY_COMPLETE | BODY_INCOMPLETE | WEBHOOK_BODY | WEBHOOK_DOCUMENT_TXT | WEBHOOK_DOCUMENT_PDF
  | WEBHOOK_DOCUMENT_MALFORMED | WEBHOOK_DUPLICATE | WEBHOOK_CONFLICT

fun demo_case_value :: "demo_case \<Rightarrow> string" where
  "demo_case_value BODY_COMPLETE = ''body-complete''"
| "demo_case_value BODY_INCOMPLETE = ''body-incomplete''"
| "demo_case_value WEBHOOK_BODY = ''webhook-body''"
| "demo_case_value WEBHOOK_DOCUMENT_TXT = ''webhook-document-txt''"
| "demo_case_value WEBHOOK_DOCUMENT_PDF = ''webhook-document-pdf''"
| "demo_case_value WEBHOOK_DOCUMENT_MALFORMED = ''webhook-document-malformed''"
| "demo_case_value WEBHOOK_DUPLICATE = ''webhook-duplicate''"
| "demo_case_value WEBHOOK_CONFLICT = ''webhook-conflict''"

definition all_demo_cases :: "demo_case list" where
  "all_demo_cases =
     [BODY_COMPLETE, BODY_INCOMPLETE, WEBHOOK_BODY, WEBHOOK_DOCUMENT_TXT, WEBHOOK_DOCUMENT_PDF,
      WEBHOOK_DOCUMENT_MALFORMED, WEBHOOK_DUPLICATE, WEBHOOK_CONFLICT]"

record demo_spec =
  ds_transport :: smoke_transport
  ds_channel :: "string option"
  ds_subject :: string
  ds_body :: string
  ds_attachment :: "string option"

definition webhook_spec :: "string \<Rightarrow> string \<Rightarrow> string option \<Rightarrow> demo_spec" where
  "webhook_spec subject body path =
     \<lparr>ds_transport = ST_WEBHOOK, ds_channel = None, ds_subject = subject, ds_body = body, ds_attachment = path\<rparr>"

definition intake_spec :: "string \<Rightarrow> string \<Rightarrow> demo_spec" where
  "intake_spec subject body =
     \<lparr>ds_transport = ST_INTAKE, ds_channel = Some ''email'', ds_subject = subject, ds_body = body, ds_attachment = None\<rparr>"

fun demo_case_spec :: "demo_case \<Rightarrow> demo_spec" where
  "demo_case_spec BODY_COMPLETE = intake_spec ''Synthetic freight request'' (freight_body @ ''; contact: ops@example.test'')"
| "demo_case_spec BODY_INCOMPLETE = intake_spec ''Synthetic incomplete freight request'' freight_body"
| "demo_case_spec WEBHOOK_BODY = webhook_spec ''Synthetic incomplete freight webhook'' freight_body None"
| "demo_case_spec WEBHOOK_DOCUMENT_TXT =
     webhook_spec ''Synthetic text rate confirmation'' ''Attached synthetic text document''
       (Some ''evals/fixtures/docs/01-complete-en.txt'')"
| "demo_case_spec WEBHOOK_DOCUMENT_PDF =
     webhook_spec ''Synthetic PDF rate confirmation'' ''Attached synthetic PDF document''
       (Some ''evals/fixtures/docs/03-complete.pdf'')"
| "demo_case_spec WEBHOOK_DOCUMENT_MALFORMED =
     webhook_spec ''Synthetic malformed rate confirmation'' ''Attached malformed synthetic PDF''
       (Some ''evals/fixtures/docs/08-malformed.pdf'')"
| "demo_case_spec WEBHOOK_DUPLICATE =
     webhook_spec ''Synthetic duplicate webhook'' ''Synthetic duplicate webhook body'' None"
| "demo_case_spec WEBHOOK_CONFLICT =
     webhook_spec ''Synthetic conflicting webhook'' ''Synthetic original webhook body'' None"

section \<open>Checks\<close>

record smoke_check =
  ck_name :: string
  ck_expected :: pyval
  ck_actual :: pyval

definition ck_passed :: "smoke_check \<Rightarrow> bool" where
  "ck_passed c \<longleftrightarrow> py_eq (ck_expected c) (ck_actual c)"

definition check :: "string \<Rightarrow> pyval \<Rightarrow> pyval \<Rightarrow> smoke_check" where
  "check name expected actual = \<lparr>ck_name = name, ck_expected = expected, ck_actual = actual\<rparr>"

definition check_true :: "string \<Rightarrow> bool \<Rightarrow> smoke_check" where
  "check_true name b = check name (PBool True) (PBool b)"

definition job_get :: "string \<Rightarrow> py_dict \<Rightarrow> pyval" where
  "job_get k job = (case map_of job k of None \<Rightarrow> PNone | Some v \<Rightarrow> v)"

definition job_path :: "py_dict \<Rightarrow> py_dict list" where
  "job_path job =
     (case job_get ''execution_path'' job of
        PList xs \<Rightarrow> concat (map (\<lambda>x. case x of PDict d \<Rightarrow> [d] | _ \<Rightarrow> []) xs)
      | _ \<Rightarrow> [])"

definition terminal_check :: "py_dict \<Rightarrow> smoke_check" where
  "terminal_check job =
     check_true ''terminal_status'' (dict_str ''status'' job \<in> {Some ''succeeded'', Some ''awaiting_approval''})"

definition needs_approval_seen :: "py_dict \<Rightarrow> bool" where
  "needs_approval_seen job = list_ex (\<lambda>d. job_get ''policy_decision'' d = PStr ''needs_approval'') (job_path job)"

definition check_execution_path :: "py_dict \<Rightarrow> string option \<Rightarrow> smoke_check list" where
  "check_execution_path job expected =
     (case expected of
        None \<Rightarrow> []
      | Some e \<Rightarrow>
          [check_true (''execution_path_'' @ e)
             (if e = ''tool'' then list_ex (\<lambda>d. job_get ''tool_outcome'' d \<noteq> PNone) (job_path job)
              else e = ''approval'' \<and> needs_approval_seen job)])"

definition no_side_effect :: "py_dict \<Rightarrow> smoke_check" where
  "no_side_effect job =
     check_true ''no_side_effect'' (\<not> list_ex (\<lambda>d. job_get ''side_effect_committed'' d = PBool True) (job_path job))"

definition str_check :: "string \<Rightarrow> string \<Rightarrow> py_dict \<Rightarrow> smoke_check" where
  "str_check k v job = check k (PStr v) (job_get k job)"

definition contact_missing :: "py_dict \<Rightarrow> smoke_check" where
  "contact_missing job =
     check ''missing_required_fields'' (PList [PStr ''contact'']) (job_get ''missing_required_fields'' job)"

definition flag :: "bool option \<Rightarrow> pyval" where
  "flag b = (case b of None \<Rightarrow> PNone | Some x \<Rightarrow> PBool x)"

definition special_checks :: "demo_case \<Rightarrow> py_dict \<Rightarrow> bool option \<Rightarrow> bool option \<Rightarrow> smoke_check list" where
  "special_checks c job reused conflicted =
     (case c of
        BODY_COMPLETE \<Rightarrow>
          (let pending = (dict_str ''status'' job = Some ''awaiting_approval'')
           in [check_true ''approval_evidence_when_pending''
                 (pending \<longrightarrow> (case job_get ''approval'' job of PDict d \<Rightarrow> dict_str ''approval_id'' d \<noteq> None | _ \<Rightarrow> False)),
               check_true ''approval_execution_path_when_pending'' (pending \<longrightarrow> needs_approval_seen job)])
      | BODY_INCOMPLETE \<Rightarrow>
          [str_check ''status'' ''succeeded'' job, str_check ''routing_status'' ''awaiting_input'' job, contact_missing job,
           no_side_effect job]
      | WEBHOOK_BODY \<Rightarrow>
          [str_check ''status'' ''succeeded'' job, str_check ''routing_status'' ''awaiting_input'' job,
           str_check ''routing_reason'' ''missing_required_fields'' job, contact_missing job,
           check ''approval'' PNone (job_get ''approval'' job), no_side_effect job]
      | WEBHOOK_DOCUMENT_MALFORMED \<Rightarrow>
          [str_check ''status'' ''succeeded'' job, str_check ''routing_status'' ''awaiting_input'' job,
           str_check ''routing_reason'' ''document_unreadable'' job, check ''agent_steps'' (PInt 0) (job_get ''agent_steps'' job),
           check ''execution_path'' (PList []) (job_get ''execution_path'' job),
           check ''approval'' PNone (job_get ''approval'' job)]
      | WEBHOOK_DUPLICATE \<Rightarrow> [check ''duplicate_reused'' (PBool True) (flag reused)]
      | WEBHOOK_CONFLICT \<Rightarrow> [check ''conflict_rejected'' (PBool True) (flag conflicted)]
      | _ \<Rightarrow> [])"

definition case_checks :: "demo_case \<Rightarrow> py_dict \<Rightarrow> bool option \<Rightarrow> bool option \<Rightarrow> smoke_check list" where
  "case_checks c job reused conflicted = terminal_check job # special_checks c job reused conflicted"

section \<open>The run of a case\<close>

record smoke_report =
  sw_result :: string
  sw_demo_case :: "string option"
  sw_profile :: string
  sw_transport :: smoke_transport
  sw_endpoint :: string
  sw_input_kind :: string
  sw_checks :: "smoke_check list"
  sw_job :: py_dict
  sw_duplicate_reused :: "bool option"
  sw_conflict_rejected :: "bool option"

definition smoke_report_of ::
  "string option \<Rightarrow> string \<Rightarrow> smoke_transport \<Rightarrow> string \<Rightarrow> py_dict \<Rightarrow> smoke_check list \<Rightarrow> bool option \<Rightarrow> bool option \<Rightarrow> smoke_report" where
  "smoke_report_of c profile transport kind job checks reused conflicted =
     \<lparr>sw_result = (if list_all ck_passed checks then ''PASS'' else ''FAIL''), sw_demo_case = c, sw_profile = profile,
      sw_transport = transport,
      sw_endpoint = (if transport = ST_INTAKE then ''/v1/intake'' else ''/v1/inbound/email/webhook''),
      sw_input_kind = kind, sw_checks = checks, sw_job = job, sw_duplicate_reused = reused, sw_conflict_rejected = conflicted\<rparr>"

definition progress_from_job :: "py_dict \<Rightarrow> bool option \<Rightarrow> bool option \<Rightarrow> smoke_progress" where
  "progress_from_job job reused conflicted =
     \<lparr>sp_acceptance_status = Some 202, sp_job_id = dict_str ''job_id'' job, sp_trace_id = dict_str ''trace_id'' job,
      sp_last_state = Some job, sp_duplicate_reused = reused, sp_conflict_rejected = conflicted\<rparr>"

fun demo_input_kind :: "demo_case \<Rightarrow> string" where
  "demo_input_kind WEBHOOK_DOCUMENT_TXT = ''text attachment''"
| "demo_input_kind WEBHOOK_DOCUMENT_PDF = ''PDF attachment''"
| "demo_input_kind WEBHOOK_DOCUMENT_MALFORMED = ''PDF attachment''"
| "demo_input_kind WEBHOOK_CONFLICT = ''webhook conflict''"
| "demo_input_kind WEBHOOK_DUPLICATE = ''webhook body''"
| "demo_input_kind WEBHOOK_BODY = ''webhook body''"
| "demo_input_kind BODY_COMPLETE = ''body''"
| "demo_input_kind BODY_INCOMPLETE = ''body''"

definition case_mail :: "'w smoke_env \<Rightarrow> demo_spec \<Rightarrow> smoke_mail" where
  "case_mail env s =
     \<lparr>ml_subject = ds_subject s, ml_body = ds_body s, ml_provider_id = None, ml_from_addr = ''dispatcher@example.test'',
      ml_attachment = map_option (sm_file env) (ds_attachment s), ml_timestamp = None\<rparr>"

text \<open>The job of a case with the two flags of the idempotency cases.\<close>

definition case_job ::
  "'w smoke_env \<Rightarrow> smoke_args \<Rightarrow> demo_case \<Rightarrow> 'w \<Rightarrow> smoke_error + py_dict \<times> bool option \<times> bool option" where
  "case_job env a c w =
     (let spec = demo_case_spec c;
          plain = (\<lambda>r. case r of Inl e \<Rightarrow> Inl e | Inr job \<Rightarrow> Inr (job, None, None))
      in if ds_transport spec = ST_INTAKE
         then plain (run_smoke env a (Some (intake_json (case ds_channel spec of None \<Rightarrow> [] | Some x \<Rightarrow> x) (ds_subject spec) (ds_body spec))) w)
         else if c \<in> {WEBHOOK_DUPLICATE, WEBHOOK_CONFLICT}
         then (case run_webhook_idempotency env a (c = WEBHOOK_CONFLICT) (case_mail env spec) w of
                 Inl e \<Rightarrow> Inl e
               | Inr (job, reused, conflicted) \<Rightarrow> Inr (job, Some reused, Some conflicted))
         else plain (run_webhook_smoke env a (case_mail env spec) w))"

definition run_demo_case ::
  "'w smoke_env \<Rightarrow> smoke_args \<Rightarrow> string \<Rightarrow> string option \<Rightarrow> 'w \<Rightarrow> smoke_error + smoke_report" where
  "run_demo_case env a name expect_path w =
     (case next_item (\<lambda>c. demo_case_value c = name) all_demo_cases of
        None \<Rightarrow> smoke_fail ''demo_case_invalid''
      | Some c \<Rightarrow>
          if ds_transport (demo_case_spec c) = ST_WEBHOOK \<and> sa_profile a \<noteq> ''freight-broker''
          then smoke_fail ''webhook_profile_unsupported''
          else (case case_job env a c w of
                  Inl e \<Rightarrow> Inl e
                | Inr (job, reused, conflicted) \<Rightarrow>
                    (let path_check = check_execution_path job expect_path;
                         checks = case_checks c job reused conflicted @ path_check;
                         progress = progress_from_job job reused conflicted
                     in if \<not> list_all ck_passed path_check then Inl (SmokeFailure ''expected_path_not_observed'' progress)
                        else if \<not> list_all ck_passed checks then Inl (SmokeFailure ''expectation_failed'' progress)
                        else Inr (smoke_report_of (Some (demo_case_value c)) (sa_profile a) (ds_transport (demo_case_spec c))
                                    (demo_input_kind c) job checks reused conflicted))))"

text \<open>The report of one job that is not a demo case.\<close>

definition report_for_single_job ::
  "string \<Rightarrow> smoke_transport \<Rightarrow> string \<Rightarrow> py_dict \<Rightarrow> string option \<Rightarrow> smoke_error + smoke_report" where
  "report_for_single_job profile transport kind job expect_path =
     (let path_check = check_execution_path job expect_path;
          checks = terminal_check job # path_check;
          progress = progress_from_job job None None
      in if \<not> list_all ck_passed path_check then Inl (SmokeFailure ''expected_path_not_observed'' progress)
         else if \<not> list_all ck_passed checks then Inl (SmokeFailure ''expectation_failed'' progress)
         else Inr (smoke_report_of None profile transport kind job checks None None))"

definition usage_codes :: "string list" where
  "usage_codes =
     [''tenant_api_key_missing'', ''profile_invalid'', ''poll_bounds_invalid'', ''input_file_invalid'',
      ''input_file_too_large'', ''attachment_type_unsupported'', ''attachment_too_large'', ''attachment_read_error'',
      ''attachment_path_invalid'', ''demo_case_invalid'', ''demo_case_and_input_file_conflict'',
      ''transport_case_mismatch'', ''attachment_case_conflict'', ''attachment_input_file_conflict'',
      ''transport_input_file_mismatch'', ''attachment_transport_invalid'', ''input_payload_invalid'']"

text \<open>The exit code; an exception that is no \<open>SmokeFailure\<close> ends the interpreter with 1.\<close>

definition smoke_exit :: "smoke_error + smoke_report \<Rightarrow> int" where
  "smoke_exit r =
     (case r of
        Inr _ \<Rightarrow> 0
      | Inl (SmokeFailure code _) \<Rightarrow> if code \<in> set usage_codes then 2 else 1
      | Inl (Escaped _) \<Rightarrow> 1)"

section \<open>What a passing case shows\<close>

lemma poll_after_done:
  assumes "poll_after env a scenario p w = Inr job"
  shows "dict_str ''status'' job \<in> {Some ''succeeded'', Some ''awaiting_approval''} \<and>
    dict_str ''job_id'' job = sp_job_id p \<and> dict_str ''trace_id'' job = sp_trace_id p \<and>
    dict_str ''scenario_key'' job = Some scenario"
proof -
  obtain v where "poll_job v p = Inr job" "pv_expected_scenario v = scenario"
    using assms by (auto simp: poll_after_def split: sum.splits)
  then show ?thesis using poll_job_result [of v p job] by auto
qed

lemma check_true_passed [simp]: "ck_passed (check_true name b) = b"
  by (simp add: ck_passed_def check_true_def check_def)

lemma terminal_check_passed [simp]:
  "ck_passed (terminal_check job) \<longleftrightarrow> dict_str ''status'' job \<in> {Some ''succeeded'', Some ''awaiting_approval''}"
  by (simp add: terminal_check_def)

lemma flag_check_passed [simp]: "ck_passed (check name (PBool True) (flag b)) \<longleftrightarrow> b = Some True"
  by (auto simp: ck_passed_def check_def flag_def split: option.split)

lemma demo_case_found: "next_item (\<lambda>c. demo_case_value c = name) all_demo_cases = Some c \<longleftrightarrow> demo_case_value c = name"
  by (cases c) (auto simp: all_demo_cases_def)

text \<open>
  A case that passes ended well: the script exits with 0, every check holds, the job has a final status, and
  the two idempotency cases saw what they are about.
\<close>

theorem demo_case_passed:
  assumes "run_demo_case env a name expect_path w = Inr rep"
  shows "smoke_exit (Inr rep) = 0 \<and> sw_result rep = ''PASS'' \<and> list_all ck_passed (sw_checks rep) \<and>
    dict_str ''status'' (sw_job rep) \<in> {Some ''succeeded'', Some ''awaiting_approval''} \<and>
    (name = ''webhook-duplicate'' \<longrightarrow> sw_duplicate_reused rep = Some True) \<and>
    (name = ''webhook-conflict'' \<longrightarrow> sw_conflict_rejected rep = Some True)"
proof -
  obtain c where c: "next_item (\<lambda>c. demo_case_value c = name) all_demo_cases = Some c"
    using assms by (auto simp: run_demo_case_def smoke_fail_def split: option.splits)
  then obtain job reused conflicted where r: "list_all ck_passed (case_checks c job reused conflicted)"
    "list_all ck_passed (check_execution_path job expect_path)"
    "rep = smoke_report_of (Some (demo_case_value c)) (sa_profile a) (ds_transport (demo_case_spec c))
       (demo_input_kind c) job (case_checks c job reused conflicted @ check_execution_path job expect_path) reused conflicted"
    using assms by (auto simp: run_demo_case_def smoke_fail_def Let_def split: if_splits sum.splits)
  have "demo_case_value c = name" using c by (simp add: demo_case_found)
  then show ?thesis
    using r by (cases c) (auto simp: smoke_report_of_def smoke_exit_def case_checks_def special_checks_def)
qed

text \<open>
  The idempotency cases are decided by the job alone, once the two deliveries were seen as they should be:
  they pass if the job ends well, and otherwise fail with the code of the polling.
\<close>

lemma idempotency_case:
  assumes "c = WEBHOOK_DUPLICATE \<or> c = WEBHOOK_CONFLICT" "sa_profile a = ''freight-broker''"
    and "run_webhook_idempotency env a (c = WEBHOOK_CONFLICT) (case_mail env (demo_case_spec c)) w =
      (case poll_after env a ''freight_broker'' p w' of
         Inl e \<Rightarrow> Inl e | Inr job \<Rightarrow> Inr (job, c \<noteq> WEBHOOK_CONFLICT, c = WEBHOOK_CONFLICT))"
  shows "(case poll_after env a ''freight_broker'' p w' of
      Inl e \<Rightarrow> run_demo_case env a (demo_case_value c) None w = Inl e
    | Inr job \<Rightarrow> \<exists>rep. run_demo_case env a (demo_case_value c) None w = Inr rep \<and> sw_job rep = job)"
proof -
  have f: "next_item (\<lambda>x. demo_case_value x = demo_case_value c) all_demo_cases = Some c" by (simp add: demo_case_found)
  have j: "case_job env a c w =
      (case poll_after env a ''freight_broker'' p w' of
         Inl e \<Rightarrow> Inl e | Inr job \<Rightarrow> Inr (job, Some (c \<noteq> WEBHOOK_CONFLICT), Some (c = WEBHOOK_CONFLICT)))"
    using assms(1,3) by (auto simp: case_job_def webhook_spec_def Let_def split: sum.splits)
  show ?thesis
  proof (cases "poll_after env a ''freight_broker'' p w'")
    case (Inl e)
    then show ?thesis using f j assms(2) by (simp add: run_demo_case_def)
  next
    case (Inr job)
    then show ?thesis
      using f j assms(1,2) poll_after_done [OF Inr]
      by (auto simp: run_demo_case_def case_checks_def special_checks_def check_execution_path_def smoke_report_of_def)
  qed
qed

end
