(* ===== verification/Sender_Examples.thy ===== *)
theory Sender_Examples
  imports Webhook_Sender Http_Examples
begin

text \<open>
  A message with a text file, sent by the script to the service of the other examples.
\<close>

definition sender_mail :: outgoing_mail where
  "sender_mail = \<lparr>om_provider_id = ''m-2'', om_from_addr = ''ann@example.com'', om_subject = '' '', om_body = []\<rparr>"

definition sender_file :: attachment_file where
  "sender_file = \<lparr>af_name = ''note.TXT'', af_size = Inr 4, af_content = Inr (utf8_encode ''leak'')\<rparr>"

definition sender_attachment :: pyval where
  "sender_attachment = PDict [(''media_type'', PStr ''text/plain''), (''content_base64'', PStr ''bGVhaw=='')]"

definition sender_api :: api_env where
  "sender_api = demo_api\<lparr>av_json := (\<lambda>_. Some (mail_payload sender_mail [sender_attachment]))\<rparr>"

definition sender_message :: inbound_message where
  "sender_message =
     \<lparr>msg_tenant_id = 1, msg_tenant_slug = ''acme-field'', msg_channel = ''email_webhook'',
      msg_from_addr = ''ann@example.com'', msg_subject = ''(no subject)'', msg_body = [],
      msg_attachments = [\<lparr>ia_media_type = MEDIA_TEXT, ia_text = Some ''leak'', ia_content = None\<rparr>],
      msg_provider_id = ''m-2''\<rparr>"

lemma sender_payload: "attachments_payload (Some sender_file) = Inr [sender_attachment]"
proof -
  have "suffix_media ''note.TXT'' = Some MEDIA_TEXT" "b64encode (utf8_encode ''leak'') = ''bGVhaw==''" by code_simp+
  then show ?thesis
    by (simp add: attachments_payload_def attachment_payload_def sender_file_def sender_attachment_def MAX_DOCUMENT_BYTES_def)
qed

lemma sender_received: "received_message demo_tenant sender_mail (Some sender_file) = Inr sender_message"
proof -
  have "suffix_media ''note.TXT'' = Some MEDIA_TEXT" "utf8_decode (utf8_encode ''leak'') = Some ''leak''"
    "length (utf8_encode ''leak'') = 4" "identity_value 200 ''m-2''" "identity_value 320 ''ann@example.com''" "\<not> non_blank '' ''"
    by code_simp+
  then show ?thesis
    by (auto simp: received_message_def acceptable_mail_def received_attachments_def received_attachment_def sender_mail_def
        sender_file_def sender_message_def MAX_DOCUMENT_BYTES_def MAX_PROVIDER_ID_CHARS_def MAX_INBOUND_BODY_CHARS_def
        demo_tenant_def)
qed

lemma sender_text: "\<exists>s. json_dumps fl (mail_payload sender_mail [sender_attachment]) = Inr s \<and> length (utf8_encode s) \<le> 300"
proof -
  have "length (utf8_encode (''{'' @ comma_sep (map (\<lambda>(k, j). json_string k @ '':'' @ j)
     [(''provider_id'', json_string ''m-2''), (''from_addr'', json_string ''ann@example.com''), (''subject'', json_string '' ''),
      (''body'', json_string []), (''attachments'', ''['' @ comma_sep [''{'' @ comma_sep (map (\<lambda>(k, j). json_string k @ '':'' @ j)
        [(''media_type'', json_string ''text/plain''), (''content_base64'', json_string ''bGVhaw=='')]) @ ''}''] @ '']'')]) @ ''}'')) \<le> 300"
    by code_simp
  then show ?thesis by (simp add: mail_payload_def sender_mail_def sender_attachment_def)
qed


end
