(* ===== verification/Smoke_Examples.thy ===== *)
theory Smoke_Examples
  imports Smoke_Cases Sender_Examples
begin

text \<open>
  The smoke client against the service of the other examples: a message of an active tenant, delivered twice.
\<close>

definition smoke_message :: smoke_mail where
  "smoke_message =
     \<lparr>ml_subject = ''pump'', ml_body = ''the pump leaks'', ml_provider_id = Some ''m-1'', ml_from_addr = ''ann@example.com'',
      ml_attachment = None, ml_timestamp = Some 1000\<rparr>"

definition smoke_wire :: outgoing_mail where
  "smoke_wire = \<lparr>om_provider_id = ''m-1'', om_from_addr = ''ann@example.com'', om_subject = ''pump'', om_body = ''the pump leaks''\<rparr>"

definition smoke_live :: live_env where
  "smoke_live =
     \<lparr>le_api = demo_api\<lparr>av_json := (\<lambda>_. Some (mail_payload smoke_wire []))\<rparr>, le_now = (\<lambda>n. 1000 + int n),
      le_ctx = (\<lambda>_. demo_ctx), le_meanwhile = (\<lambda>_ d. d)\<rparr>"

definition smoke_client :: "live_world smoke_env" where
  "smoke_client =
     \<lparr>sm_post_intake = (\<lambda>_ _ _ w. (None, w)), sm_post_webhook = live_webhook smoke_live, sm_poll = (\<lambda>_ _ _ _. RequestError),
      sm_clock = (\<lambda>n. of_nat n), sm_time = (\<lambda>_. 1000), sm_uuid = 5, sm_file = (\<lambda>_. sender_file),
      sm_hmac = (\<lambda>_. demo_sha256), sm_floats = (\<lambda>_. [])\<rparr>"

definition smoke_arguments :: smoke_args where
  "smoke_arguments = \<lparr>sa_profile = ''freight-broker'', sa_api_key = demo_key, sa_timeout = Some 60, sa_interval = Some 1\<rparr>"

lemma smoke_wire_mail: "mail_of smoke_client smoke_message = smoke_wire"
  "mail_of smoke_client (second_mail False smoke_message) = smoke_wire"
  by (simp_all add: mail_of_def provider_id_of_def smoke_message_def smoke_wire_def second_mail_def)

lemma smoke_received: "received_message demo_tenant smoke_wire None = Inr demo_message"
proof -
  have "identity_value 200 ''m-1''" "identity_value 320 ''ann@example.com''" "non_blank ''the pump leaks''" "non_blank ''pump''"
    "strip ''pump'' = ''pump''"
    by code_simp+
  then show ?thesis
    by (simp add: received_message_def acceptable_mail_def received_attachments_def smoke_wire_def demo_message_def
        MAX_PROVIDER_ID_CHARS_def MAX_INBOUND_BODY_CHARS_def demo_tenant_def)
qed

lemma smoke_text: "\<exists>s. json_dumps fl (mail_payload smoke_wire []) = Inr s \<and> length (utf8_encode s) \<le> 300"
proof -
  have "length (utf8_encode (''{'' @ comma_sep (map (\<lambda>(k, j). json_string k @ '':'' @ j)
     [(''provider_id'', json_string ''m-1''), (''from_addr'', json_string ''ann@example.com''), (''subject'', json_string ''pump''),
      (''body'', json_string ''the pump leaks''), (''attachments'', ''['' @ comma_sep [] @ '']'')]) @ ''}'')) \<le> 300"
    by code_simp
  then show ?thesis by (simp add: mail_payload_def smoke_wire_def)
qed

lemma smoke_client_simps: "sm_hmac smoke_client = (\<lambda>_. demo_sha256)" "sm_floats smoke_client = (\<lambda>_. [])"
  by (simp_all add: smoke_client_def)

lemma smoke_arrives:
  assumes "m = smoke_message \<and> n = 0 \<or> m = second_mail False smoke_message \<and> n = 1"
  shows "\<exists>r. arrives smoke_live smoke_client smoke_arguments m (n, d) r"
proof -
  have m: "mail_of smoke_client m = smoke_wire" "ml_attachment m = None" using assms smoke_wire_mail
    by (auto simp: second_mail_def smoke_message_def)
  have t: "ml_timestamp m = Some (1000 + int n)" using assms by (auto simp: second_mail_def smoke_message_def)
  obtain s where s: "json_dumps (\<lambda>_. []) (mail_payload smoke_wire []) = Inr s" and len: "length (utf8_encode s) \<le> 300"
    using smoke_text by blast
  have "n = 0 \<or> n = 1" using assms by auto
  moreover have "str_int 1000 = Inr ''1000''" "str_int 1001 = Inr ''1001''" by code_simp+
  ultimately obtain stamp where "str_int (1000 + int n) = Inr stamp" by auto
  then have "signed_request smoke_client smoke_arguments m (n, d) =
      Inr \<lparr>sr_body = utf8_encode s, sr_content_type = ''application/json'', sr_api_key = demo_key, sr_timestamp = stamp,
           sr_signature = sign_inbound_webhook (\<lambda>_. demo_sha256) demo_key (1000 + int n) (utf8_encode s)\<rparr>"
    using s by (simp add: signed_request_def webhook_request_of_def smoke_attachments_def m t smoke_client_simps smoke_arguments_def)
  then show ?thesis
    using len t by (auto simp: arrives_def m attachments_payload_def smoke_live_def MAX_SIGNATURE_AGE_SECONDS_def
        MAX_INBOUND_WEBHOOK_BODY_BYTES_def)
qed

lemma smoke_tenant: "live_tenant smoke_live smoke_client smoke_arguments demo_tenant"
proof -
  have "strip demo_key \<noteq> []" "api_key_format demo_key"
    "resolve_active_tenant demo_sha256 (av_directory demo_api) demo_key = Inr (Some demo_tenant)"
    by code_simp+
  then show ?thesis
    using demo_resolve_eq
    by (simp add: live_tenant_def smoke_live_def smoke_arguments_def poll_bounds_ok_def demo_api_def demo_ienv_def demo_tenant_def)
qed


end
