(* ===== verification/Deployment.thy ===== *)
theory Deployment
  imports Worker_Pool Intake_Lifecycle
begin

text \<open>
  What a deployment brings in from outside: the tenant profiles on disk, \<open>app/tenants/loader.py\<close>, and
  the settings of the environment, \<open>app/core/config.py\<close>, with the views of them that the worker uses.
  Reading of files, YAML and the parsing of environment variables are parameters; what the rest of the
  development assumes of profiles and settings is shown to follow from the checks made here.
\<close>

section \<open>Tenant profiles on disk\<close>

text \<open>
  The exceptions of the loader; \<open>UnicodeDecodeError\<close> is what \<open>read_text\<close> raises on a file that is not UTF-8.
\<close>

datatype load_error = TenantConfigError string | OSReadError string | UnicodeDecodeError string

record profile_files =
  pf_read_text :: "string \<Rightarrow> load_error + string"
  pf_safe_load :: "string \<Rightarrow> string + pyval"
  pf_details :: "pyval \<Rightarrow> string"

definition raw_config :: "pyval \<Rightarrow> tenant_config res" where
  "raw_config raw = (case raw of PDict d \<Rightarrow> config_model_validate d | _ \<Rightarrow> Inl (ValueError ''ValidationError''))"

text \<open>A mapping with keys that are not strings is still a mapping, which the model then refuses.\<close>

fun is_mapping :: "pyval \<Rightarrow> bool" where
  "is_mapping (PDict _) = True"
| "is_mapping PBadMap = True"
| "is_mapping _ = False"

definition parse_tenant_config :: "profile_files \<Rightarrow> string \<Rightarrow> string \<Rightarrow> load_error + tenant_config" where
  "parse_tenant_config fs content source =
     (case pf_safe_load fs content of
        Inl e \<Rightarrow> Inl (TenantConfigError (source @ '': invalid YAML: '' @ e))
      | Inr raw \<Rightarrow>
          if \<not> is_mapping raw then Inl (TenantConfigError (source @ '': root must be a mapping''))
          else (case raw_config raw of
                  Inl _ \<Rightarrow> Inl (TenantConfigError (source @ '': invalid tenant config: '' @ pf_details fs raw))
                | Inr c \<Rightarrow> Inr c))"

definition load_tenant_config :: "profile_files \<Rightarrow> string \<Rightarrow> load_error + tenant_config" where
  "load_tenant_config fs path =
     (case pf_read_text fs path of
        Inl (OSReadError e) \<Rightarrow> Inl (TenantConfigError (path @ '': cannot read configuration: '' @ e))
      | Inl e \<Rightarrow> Inl e
      | Inr content \<Rightarrow> parse_tenant_config fs content path)"

text \<open>\<open>TenantProfileResolver.resolve\<close> with its directory and its \<open>except\<close> clause.\<close>

definition profile_path :: "string \<Rightarrow> string \<Rightarrow> string" where
  "profile_path directory slug = directory @ ''/'' @ slug @ ''.yaml''"

definition resolve_from_directory ::
  "profile_env \<Rightarrow> profile_files \<Rightarrow> string \<Rightarrow> string \<Rightarrow> resolved_tenant_profile res" where
  "resolve_from_directory env fs directory slug =
     (if \<not> safe_slug slug then Inl (TenantProfileUnavailableError ''tenant profile is unavailable'')
      else case load_tenant_config fs (profile_path directory slug) of
             Inl (UnicodeDecodeError e) \<Rightarrow> Inl (ValueError e)
           | Inl _ \<Rightarrow> Inl (TenantProfileUnavailableError ''tenant profile is unavailable'')
           | Inr c \<Rightarrow>
               if tn_slug c \<noteq> slug then Inl (TenantProfileUnavailableError ''tenant profile is unavailable'')
               else bind_res (profile_fingerprint env (config_model_dump c)) (\<lambda>sha.
                    resolved_profile env c (config_model_dump c) sha))"

text \<open>The loader as the intake service sees it.\<close>

definition directory_load :: "profile_files \<Rightarrow> string \<Rightarrow> string \<Rightarrow> tenant_config res" where
  "directory_load fs directory slug =
     (case load_tenant_config fs (profile_path directory slug) of Inl _ \<Rightarrow> Inl OtherException | Inr c \<Rightarrow> Inr c)"

section \<open>The read-only view of a profile\<close>

text \<open>
  \<open>_freeze_snapshot\<close> turns dicts into mapping proxies and lists into tuples; \<open>_thaw_snapshot\<close> turns them back.
\<close>

datatype frozen = FrozenMap "(string \<times> frozen) list" | FrozenTuple "frozen list" | FrozenValue pyval

fun freeze_snapshot :: "pyval \<Rightarrow> frozen" where
  "freeze_snapshot (PDict d) = FrozenMap (map (\<lambda>kv. (fst kv, freeze_snapshot (snd kv))) d)"
| "freeze_snapshot (PList xs) = FrozenTuple (map freeze_snapshot xs)"
| "freeze_snapshot v = FrozenValue v"

fun thaw_snapshot :: "frozen \<Rightarrow> pyval" where
  "thaw_snapshot (FrozenMap d) = PDict (map (\<lambda>kv. (fst kv, thaw_snapshot (snd kv))) d)"
| "thaw_snapshot (FrozenTuple xs) = PList (map thaw_snapshot xs)"
| "thaw_snapshot (FrozenValue v) = v"

text \<open>\<open>ImmutableTenantConfig\<close>: the values of the profile, which the model keeps as they are, with the frozen snapshot.\<close>

record immutable_config =
  imc_config :: tenant_config
  imc_snapshot :: frozen

definition immutable_from_config :: "tenant_config \<Rightarrow> immutable_config res" where
  "immutable_from_config c =
     (case freeze_snapshot (PDict (config_model_dump c)) of
        FrozenMap d \<Rightarrow> Inr \<lparr>imc_config = c, imc_snapshot = FrozenMap d\<rparr>
      | _ \<Rightarrow> Inl (TypeError ''tenant config snapshot must be a mapping''))"

definition immutable_model_dump :: "immutable_config \<Rightarrow> py_dict res" where
  "immutable_model_dump ic =
     (case thaw_snapshot (imc_snapshot ic) of
        PDict d \<Rightarrow> Inr d | _ \<Rightarrow> Inl (TypeError ''tenant config snapshot must be a mapping''))"

lemma thaw_freeze: "thaw_snapshot (freeze_snapshot v) = v"
  by (induction v rule: freeze_snapshot.induct) (simp_all add: map_idI)

lemma immutable_round_trip:
  "\<exists>ic. immutable_from_config c = Inr ic \<and> imc_config ic = c \<and> immutable_model_dump ic = Inr (config_model_dump c)"
proof -
  have "thaw_snapshot (freeze_snapshot (PDict (config_model_dump c))) = PDict (config_model_dump c)" by (rule thaw_freeze)
  then show ?thesis by (simp add: immutable_from_config_def immutable_model_dump_def)
qed

section \<open>Settings\<close>

record settings =
  st_llm_api_key :: string
  st_llm_base_url :: string
  st_openai_model :: string
  st_llm_reasoning_effort :: "string option"
  st_tenant_profiles_directory :: string
  st_worker_poll_interval_seconds :: rat
  st_worker_lease_seconds :: int
  st_worker_max_retries :: int
  st_worker_concurrency :: int
  st_backoff_initial_seconds :: rat
  st_backoff_max_seconds :: rat
  st_worker_job_timeout_seconds :: rat
  st_worker_gateway_timeout_seconds :: rat
  st_worker_shutdown_grace_seconds :: rat
  st_database_statement_timeout_ms :: int
  st_database_lock_timeout_ms :: int
  st_document_parse_timeout_seconds :: rat
  st_document_parse_concurrency :: int
  st_approval_timeout_seconds :: int

definition reasoning_efforts :: "string list" where
  "reasoning_efforts = [''none'', ''minimal'', ''low'', ''medium'', ''high'', ''xhigh'', ''max'']"

definition empty_reasoning_effort_is_unset :: "string option \<Rightarrow> string option" where
  "empty_reasoning_effort_is_unset v = (case v of Some s \<Rightarrow> if non_blank s then Some s else None | None \<Rightarrow> None)"

definition settings_in_range :: "settings \<Rightarrow> bool" where
  "settings_in_range s \<longleftrightarrow>
     0 < st_worker_poll_interval_seconds s \<and> 1 \<le> st_worker_lease_seconds s \<and> 0 \<le> st_worker_max_retries s \<and>
     1 \<le> st_worker_concurrency s \<and> st_worker_concurrency s \<le> 32 \<and>
     0 < st_backoff_initial_seconds s \<and> 0 < st_backoff_max_seconds s \<and>
     0 < st_worker_job_timeout_seconds s \<and> 0 < st_worker_gateway_timeout_seconds s \<and>
     0 < st_worker_shutdown_grace_seconds s \<and> 100 \<le> st_database_statement_timeout_ms s \<and>
     100 \<le> st_database_lock_timeout_ms s \<and> 0 < st_document_parse_timeout_seconds s \<and>
     1 \<le> st_document_parse_concurrency s \<and> st_document_parse_concurrency s \<le> 8 \<and> 1 \<le> st_approval_timeout_seconds s"

definition mk_settings :: "settings \<Rightarrow> settings res" where
  "mk_settings s =
     (let s = s\<lparr>st_llm_reasoning_effort := empty_reasoning_effort_is_unset (st_llm_reasoning_effort s)\<rparr>
      in if settings_in_range s \<and> (case st_llm_reasoning_effort s of None \<Rightarrow> True | Some e \<Rightarrow> e \<in> set reasoning_efforts)
         then Inr s else Inl (ValueError ''ValidationError''))"

definition default_settings :: settings where
  "default_settings =
     \<lparr>st_llm_api_key = [], st_llm_base_url = ''https://api.openai.com/v1'', st_openai_model = ''gpt-5.4-mini-2026-03-17'',
      st_llm_reasoning_effort = None, st_tenant_profiles_directory = ''examples'',
      st_worker_poll_interval_seconds = 1 / 2, st_worker_lease_seconds = 60, st_worker_max_retries = 4,
      st_worker_concurrency = 4, st_backoff_initial_seconds = 1 / 2, st_backoff_max_seconds = 30,
      st_worker_job_timeout_seconds = 120, st_worker_gateway_timeout_seconds = 15, st_worker_shutdown_grace_seconds = 10,
      st_database_statement_timeout_ms = 10000, st_database_lock_timeout_ms = 5000,
      st_document_parse_timeout_seconds = 15, st_document_parse_concurrency = 2, st_approval_timeout_seconds = 86400\<rparr>"

text \<open>The properties of \<open>AgentWorker\<close> over its settings.\<close>

definition pool_config_of :: "settings \<Rightarrow> pool_config" where
  "pool_config_of s =
     \<lparr>pc_concurrency = nat (st_worker_concurrency s), pc_poll_interval = st_worker_poll_interval_seconds s,
      pc_backoff_initial = st_backoff_initial_seconds s, pc_backoff_max = st_backoff_max_seconds s\<rparr>"

section \<open>What the rest relies on\<close>

lemma parsed_config_valid: "parse_tenant_config fs content source = Inr c \<Longrightarrow> valid_tenant_config c"
  by (auto simp: parse_tenant_config_def raw_config_def intro: config_model_validate_valid
      split: sum.splits if_splits pyval.splits)

lemma loaded_config_valid: "load_tenant_config fs path = Inr c \<Longrightarrow> valid_tenant_config c"
  by (auto simp: load_tenant_config_def intro: parsed_config_valid split: sum.splits load_error.splits)

lemma slug_from_plain: "slug_from b s \<Longrightarrow> CHR ''/'' \<notin> set s \<and> CHR ''.'' \<notin> set s"
  by (induction s arbitrary: b) (auto simp: is_lower_def is_digit_def less_eq_char_def split: if_splits)

lemma resolve_from_directory_eq:
  assumes "\<And>e. load_tenant_config fs (profile_path directory slug) \<noteq> Inl (UnicodeDecodeError e)"
  shows "resolve_from_directory env fs directory slug = resolve_profile env (directory_load fs directory) slug"
  using assms
  by (auto simp: resolve_from_directory_def resolve_profile_def directory_load_def split: sum.split load_error.split)

text \<open>
  A profile that is not UTF-8 leaves the resolver as a \<open>ValueError\<close>, not as an unavailable profile.
\<close>

lemma undecodable_profile_escapes:
  assumes "safe_slug slug" "pf_read_text fs (profile_path directory slug) = Inl (UnicodeDecodeError e)"
  shows "resolve_from_directory env fs directory slug = Inl (ValueError e)"
  using assms by (simp add: resolve_from_directory_def load_tenant_config_def)

text \<open>
  C26. Only valid profiles of the configured directory are used. Whatever the files of a deployment contain, a
  profile that the resolver returns is valid, carries the slug that was asked for and was read from the file of
  that slug inside the directory, since a slug contains neither a separator nor a dot. For files in UTF-8 the
  resolver is the one of the intake service, whose profiles are therefore always valid.
\<close>

theorem directory_profiles_valid:
  assumes "resolve_from_directory env fs directory slug = Inr p"
  shows "valid_tenant_config (rp_config p) \<and> tn_slug (rp_config p) = slug \<and>
    CHR ''/'' \<notin> set slug \<and> CHR ''.'' \<notin> set slug \<and>
    load_tenant_config fs (profile_path directory slug) = Inr (rp_config p) \<and>
    resolve_profile env (directory_load fs directory) slug = Inr p \<and>
    (\<forall>ienv. loads_valid (ienv\<lparr>iv_load := directory_load fs directory\<rparr>))"
proof -
  obtain c where c: "load_tenant_config fs (profile_path directory slug) = Inr c" "tn_slug c = slug" "safe_slug slug"
    and p: "bind_res (profile_fingerprint env (config_model_dump c)) (\<lambda>sha.
        resolved_profile env c (config_model_dump c) sha) = Inr p"
    using assms by (auto simp: resolve_from_directory_def split: sum.splits if_splits load_error.splits)
  then obtain sha where "resolved_profile env c (config_model_dump c) sha = Inr p" by (auto simp: bind_res_Inr_iff)
  then have "rp_config p = c"
    by (cases "compile_tenant_profile (en_actions env) (en_documents env) c sha") (auto simp: resolved_profile_def)
  moreover have "resolve_profile env (directory_load fs directory) slug = Inr p"
    using resolve_from_directory_eq [of fs directory slug env] c(1) assms by simp
  moreover have "loads_valid (ienv\<lparr>iv_load := directory_load fs directory\<rparr>)" for ienv
    using loaded_config_valid by (auto simp: loads_valid_def directory_load_def split: sum.splits)
  ultimately show ?thesis
    using c loaded_config_valid [OF c(1)] slug_from_plain by (auto simp: safe_slug_def)
qed

definition demo_files :: profile_files where
  "demo_files =
     \<lparr>pf_read_text = (\<lambda>path. if path = ''examples/acme-field.yaml'' then Inr ''profile'' else Inl (OSReadError ''missing'')),
      pf_safe_load = (\<lambda>_. Inr (PDict (config_model_dump demo_config))), pf_details = (\<lambda>_. [])\<rparr>"

lemma demo_loaded: "load_tenant_config demo_files (profile_path ''examples'' ''acme-field'') = Inr demo_config"
  by (simp add: load_tenant_config_def parse_tenant_config_def raw_config_def demo_files_def profile_path_def
      config_round_trip demo_config_valid)

theorem directory_profiles_valid_witness:
  "\<exists>p. resolve_from_directory demo_env demo_files ''examples'' ''acme-field'' = Inr p \<and>
     valid_tenant_config (rp_config p) \<and> tn_slug (rp_config p) = ''acme-field''"
proof -
  have "safe_slug ''acme-field''" by code_simp
  moreover have "tn_slug demo_config = ''acme-field''" by (simp add: demo_config_def)
  moreover have "en_actions demo_env = BUILTIN_ACTION_REGISTRY" "en_documents demo_env = BUILTIN_DOCUMENT_REGISTRY"
    by (simp_all add: demo_env_def)
  ultimately obtain p where "resolve_from_directory demo_env demo_files ''examples'' ''acme-field'' = Inr p"
    by (auto simp: resolve_from_directory_def demo_loaded demo_fingerprint resolved_profile_def demo_compile)
  with directory_profiles_valid [OF this] show ?thesis by blast
qed

lemma settings_pool_valid: "mk_settings s = Inr s' \<Longrightarrow> valid_pool_config (pool_config_of s')"
  by (auto simp: mk_settings_def settings_in_range_def pool_config_of_def valid_pool_config_def Let_def split: if_splits)

lemma default_settings_valid: "mk_settings default_settings = Inr default_settings"
  by (simp add: mk_settings_def default_settings_def settings_in_range_def empty_reasoning_effort_is_unset_def)

end
