(* ===== verification/Freight_Report.thy ===== *)
theory Freight_Report
  imports Scenario_Contracts
begin

text \<open>
  The report of the freight corpus: the closed vocabularies and the report models of
  \<open>evals/freight/models.py\<close>, the projection of results into a report of \<open>evals/freight/reporting.py\<close>, and
  the checks of \<open>evals/freight/loader.py\<close> on the corpus as a whole. A report that is built always satisfies
  the constraints of its own model.
\<close>

section \<open>Vocabularies\<close>

datatype report_category =
  RC_BODY_ONLY | RC_DOCUMENT | RC_SIGNED_WEBHOOK | RC_MULTI_REQUEST | RC_TENANT_IDEMPOTENCY | RC_BODY_OVERRIDE
   | RC_DOCUMENT_OVERRIDE | RC_WEBHOOK_OVERRIDE

fun report_category_value :: "report_category \<Rightarrow> string" where
  "report_category_value RC_BODY_ONLY = ''body_only''"
| "report_category_value RC_DOCUMENT = ''document''"
| "report_category_value RC_SIGNED_WEBHOOK = ''signed_webhook''"
| "report_category_value RC_MULTI_REQUEST = ''multi_request''"
| "report_category_value RC_TENANT_IDEMPOTENCY = ''tenant_idempotency''"
| "report_category_value RC_BODY_OVERRIDE = ''body_override''"
| "report_category_value RC_DOCUMENT_OVERRIDE = ''document_override''"
| "report_category_value RC_WEBHOOK_OVERRIDE = ''webhook_override''"

definition all_report_categories :: "report_category list" where
  "all_report_categories =
     [RC_BODY_ONLY, RC_DOCUMENT, RC_SIGNED_WEBHOOK, RC_MULTI_REQUEST, RC_TENANT_IDEMPOTENCY,
      RC_BODY_OVERRIDE, RC_DOCUMENT_OVERRIDE, RC_WEBHOOK_OVERRIDE]"

datatype report_mismatch =
  RM_APPROVAL_MISMATCH | RM_CASE_SIDE_EFFECT_MISMATCH | RM_DOCUMENT_EXTRACTION_ERROR_MISMATCH
   | RM_DOCUMENT_FIXTURE_UNAVAILABLE | RM_DUPLICATE_REUSE_MISMATCH | RM_IDEMPOTENCY_CONFLICT_MISMATCH
   | RM_INTAKE_TYPE_MISMATCH | RM_INVALID_INVARIANT_SOURCE | RM_LLM_CALLS_MISMATCH
   | RM_MISSING_FIELDS_MISMATCH | RM_POLICY_DECISION_MISMATCH | RM_PROVIDER_CALLED
   | RM_PROVIDER_CALLS_MISMATCH | RM_ROUTING_REASON_MISMATCH | RM_ROUTING_STATUS_MISMATCH
   | RM_SCRIPTED_PROPOSALS_EXHAUSTED | RM_SCRIPTED_PROPOSALS_UNUSED | RM_SIGNATURE_VERIFICATION_MISMATCH
   | RM_SOURCE_EXECUTION_FAILED | RM_STEPS_MISMATCH | RM_STOP_REASON_MISMATCH | RM_TENANT_ISOLATION_MISMATCH
   | RM_TOOL_NAME_MISMATCH | RM_UNREADABLE_FALLBACK_MISMATCH | RM_WEBHOOK_SOURCE_UNAVAILABLE

fun report_mismatch_value :: "report_mismatch \<Rightarrow> string" where
  "report_mismatch_value RM_APPROVAL_MISMATCH = ''approval_mismatch''"
| "report_mismatch_value RM_CASE_SIDE_EFFECT_MISMATCH = ''case_side_effect_mismatch''"
| "report_mismatch_value RM_DOCUMENT_EXTRACTION_ERROR_MISMATCH = ''document_extraction_error_mismatch''"
| "report_mismatch_value RM_DOCUMENT_FIXTURE_UNAVAILABLE = ''document_fixture_unavailable''"
| "report_mismatch_value RM_DUPLICATE_REUSE_MISMATCH = ''duplicate_reuse_mismatch''"
| "report_mismatch_value RM_IDEMPOTENCY_CONFLICT_MISMATCH = ''idempotency_conflict_mismatch''"
| "report_mismatch_value RM_INTAKE_TYPE_MISMATCH = ''intake_type_mismatch''"
| "report_mismatch_value RM_INVALID_INVARIANT_SOURCE = ''invalid_invariant_source''"
| "report_mismatch_value RM_LLM_CALLS_MISMATCH = ''llm_calls_mismatch''"
| "report_mismatch_value RM_MISSING_FIELDS_MISMATCH = ''missing_fields_mismatch''"
| "report_mismatch_value RM_POLICY_DECISION_MISMATCH = ''policy_decision_mismatch''"
| "report_mismatch_value RM_PROVIDER_CALLED = ''provider_called''"
| "report_mismatch_value RM_PROVIDER_CALLS_MISMATCH = ''provider_calls_mismatch''"
| "report_mismatch_value RM_ROUTING_REASON_MISMATCH = ''routing_reason_mismatch''"
| "report_mismatch_value RM_ROUTING_STATUS_MISMATCH = ''routing_status_mismatch''"
| "report_mismatch_value RM_SCRIPTED_PROPOSALS_EXHAUSTED = ''scripted_proposals_exhausted''"
| "report_mismatch_value RM_SCRIPTED_PROPOSALS_UNUSED = ''scripted_proposals_unused''"
| "report_mismatch_value RM_SIGNATURE_VERIFICATION_MISMATCH = ''signature_verification_mismatch''"
| "report_mismatch_value RM_SOURCE_EXECUTION_FAILED = ''source_execution_failed''"
| "report_mismatch_value RM_STEPS_MISMATCH = ''steps_mismatch''"
| "report_mismatch_value RM_STOP_REASON_MISMATCH = ''stop_reason_mismatch''"
| "report_mismatch_value RM_TENANT_ISOLATION_MISMATCH = ''tenant_isolation_mismatch''"
| "report_mismatch_value RM_TOOL_NAME_MISMATCH = ''tool_name_mismatch''"
| "report_mismatch_value RM_UNREADABLE_FALLBACK_MISMATCH = ''unreadable_fallback_mismatch''"
| "report_mismatch_value RM_WEBHOOK_SOURCE_UNAVAILABLE = ''webhook_source_unavailable''"

definition all_report_mismatches :: "report_mismatch list" where
  "all_report_mismatches =
     [RM_APPROVAL_MISMATCH, RM_CASE_SIDE_EFFECT_MISMATCH, RM_DOCUMENT_EXTRACTION_ERROR_MISMATCH,
      RM_DOCUMENT_FIXTURE_UNAVAILABLE, RM_DUPLICATE_REUSE_MISMATCH, RM_IDEMPOTENCY_CONFLICT_MISMATCH,
      RM_INTAKE_TYPE_MISMATCH, RM_INVALID_INVARIANT_SOURCE, RM_LLM_CALLS_MISMATCH,
      RM_MISSING_FIELDS_MISMATCH, RM_POLICY_DECISION_MISMATCH, RM_PROVIDER_CALLED,
      RM_PROVIDER_CALLS_MISMATCH, RM_ROUTING_REASON_MISMATCH, RM_ROUTING_STATUS_MISMATCH,
      RM_SCRIPTED_PROPOSALS_EXHAUSTED, RM_SCRIPTED_PROPOSALS_UNUSED, RM_SIGNATURE_VERIFICATION_MISMATCH,
      RM_SOURCE_EXECUTION_FAILED, RM_STEPS_MISMATCH, RM_STOP_REASON_MISMATCH, RM_TENANT_ISOLATION_MISMATCH,
      RM_TOOL_NAME_MISMATCH, RM_UNREADABLE_FALLBACK_MISMATCH, RM_WEBHOOK_SOURCE_UNAVAILABLE]"

definition report_category_of :: "string \<Rightarrow> report_category option" where
  "report_category_of s = next_item (\<lambda>c. report_category_value c = s) all_report_categories"

definition report_mismatch_of :: "string \<Rightarrow> report_mismatch option" where
  "report_mismatch_of s = next_item (\<lambda>c. report_mismatch_value c = s) all_report_mismatches"

section \<open>Results and reports\<close>

record freight_result =
  fr_id :: string
  fr_category :: string
  fr_passed :: bool
  fr_mismatches :: "string list"

text \<open>\<open>FreightEvalCaseResult.sort_mismatches\<close>.\<close>

definition mk_freight_result :: "freight_result \<Rightarrow> freight_result res" where
  "mk_freight_result r =
     (if \<not> distinct (fr_mismatches r) then Inl (ValueError ''mismatches must be unique'')
      else Inr (r\<lparr>fr_mismatches := sort (fr_mismatches r)\<rparr>))"

definition freight_failure_message :: "freight_result \<Rightarrow> string" where
  "freight_failure_message r =
     (if fr_passed r then fr_id r @ '': passed''
      else fr_id r @ '': '' @ (if fr_mismatches r = [] then ''unspecified_mismatch'' else join_names (fr_mismatches r)))"

record report_case =
  fc_id :: string
  fc_category :: report_category
  fc_passed :: bool
  fc_mismatches :: "report_mismatch list"

definition mk_report_case :: "report_case \<Rightarrow> report_case res" where
  "mk_report_case c =
     (if \<not> case_id_format (fc_id c) \<or> 120 < length (fc_id c) then Inl (ValueError ''ValidationError'')
      else Inr (c\<lparr>fc_mismatches := sort_key report_mismatch_value (remdups (fc_mismatches c))\<rparr>))"

record freight_report =
  fq_commit_sha :: "string option"
  fq_total :: int
  fq_passed :: int
  fq_failed :: int
  fq_pass_rate :: rat
  fq_categories :: "(report_category \<times> int) list"
  fq_cases :: "report_case list"

text \<open>\<open>FreightEvalReport\<close> with \<open>non_negative_totals\<close> and \<open>validate_report_counts\<close>.\<close>

definition mk_freight_report :: "freight_report \<Rightarrow> freight_report res" where
  "mk_freight_report q =
     (if fq_total q < 0 \<or> fq_passed q < 0 \<or> fq_failed q < 0 then Inl (ValueError ''report counts must be non-negative'')
      else if fq_total q \<le> 0 then Inl (ValueError ''report must contain at least one case'')
      else if fq_passed q + fq_failed q \<noteq> fq_total q then Inl (ValueError ''report counts do not add up'')
      else if int (length (fq_cases q)) \<noteq> fq_total q then Inl (ValueError ''report case count does not match total'')
      else if fq_pass_rate q \<noteq> of_int (fq_passed q) / of_int (fq_total q)
      then Inl (ValueError ''report pass rate does not match counts'')
      else Inr q)"

section \<open>The projection\<close>

definition is_hex_digit :: "char \<Rightarrow> bool" where
  "is_hex_digit c \<longleftrightarrow> is_digit c \<or> (CHR ''a'' \<le> c \<and> c \<le> CHR ''f'') \<or> (CHR ''A'' \<le> c \<and> c \<le> CHR ''F'')"

definition commit_sha_format :: "string \<Rightarrow> bool" where
  "commit_sha_format s \<longleftrightarrow> 7 \<le> length s \<and> length s \<le> 64 \<and> list_all is_hex_digit s"

definition report_case_of :: "freight_result \<Rightarrow> report_case res" where
  "report_case_of r =
     (case (report_category_of (fr_category r), map_opt report_mismatch_of (fr_mismatches r)) of
        (Some c, Some ms) \<Rightarrow> mk_report_case \<lparr>fc_id = fr_id r, fc_category = c, fc_passed = fr_passed r, fc_mismatches = ms\<rparr>
      | _ \<Rightarrow> Inl (ValueError ''is not a valid value''))"

definition count_passed :: "freight_result list \<Rightarrow> int" where
  "count_passed rs = int (length (filter fr_passed rs))"

definition count_categories :: "report_case list \<Rightarrow> (report_category \<times> int) list" where
  "count_categories cs =
     map (\<lambda>k. (k, int (length (filter (\<lambda>c. fc_category c = k) cs))))
       (filter (\<lambda>k. k \<in> set (map fc_category cs)) (sort_key report_category_value all_report_categories))"

definition build_freight_eval_report ::
  "freight_result list \<Rightarrow> string list \<Rightarrow> string option \<Rightarrow> freight_report res" where
  "build_freight_eval_report results allowed commit_sha =
     (if results = [] then Inl (ValueError ''at least one freight eval result is required'')
      else if allowed = [] \<or> \<not> list_all case_id_format allowed then Inl (ValueError ''report case ID allowlist is invalid'')
      else if list_ex (\<lambda>r. fr_id r \<notin> set allowed) results
      then Inl (ValueError ''report contains a case ID outside the dataset allowlist'')
      else if \<not> distinct (map fr_id results) then Inl (ValueError ''report contains duplicate case IDs'')
      else if list_ex (\<lambda>r. report_category_of (fr_category r) = None) results
      then Inl (ValueError ''report contains a category outside the allowlist'')
      else if list_ex (\<lambda>r. list_ex (\<lambda>m. report_mismatch_of m = None) (fr_mismatches r)) results
      then Inl (ValueError ''report contains a mismatch code outside the allowlist'')
      else if (case commit_sha of None \<Rightarrow> False | Some s \<Rightarrow> \<not> commit_sha_format s)
      then Inl (ValueError ''report commit SHA is invalid'')
      else (let ordered = sort_key fr_id results
            in bind_res (map_res report_case_of ordered) (\<lambda>cases.
               let passed = count_passed ordered; total' = int (length ordered)
               in mk_freight_report
                    \<lparr>fq_commit_sha = commit_sha, fq_total = total', fq_passed = passed, fq_failed = total' - passed,
                     fq_pass_rate = of_int passed / of_int total', fq_categories = count_categories cases, fq_cases = cases\<rparr>)))"

section \<open>The summary\<close>

text \<open>\<open>render_github_summary\<close>; \<open>percent\<close> prints the pass rate.\<close>

definition report_lines :: "(rat \<Rightarrow> string) \<Rightarrow> freight_report \<Rightarrow> string list" where
  "report_lines percent q =
     [''## Deterministic freight evals'', [], ''- Cases: '' @ dec_int (fq_total q), ''- Passed: '' @ dec_int (fq_passed q),
      ''- Failed: '' @ dec_int (fq_failed q), ''- Pass rate: '' @ percent (fq_pass_rate q), [], ''### Category counts'', []] @
     map (\<lambda>(c, n). ''- `'' @ report_category_value c @ ''`: '' @ dec_int n)
       (sort_key (\<lambda>cn. report_category_value (fst cn)) (fq_categories q)) @
     (let failed = filter (\<lambda>c. \<not> fc_passed c) (fq_cases q)
      in if failed = [] then []
         else [[], ''### Failed cases'', []] @
              map (\<lambda>c. ''- `'' @ fc_id c @ ''`: '' @
                (if fc_mismatches c = [] then ''unspecified_mismatch''
                 else join_names (map report_mismatch_value (fc_mismatches c)))) failed)"

section \<open>The corpus\<close>

definition CORE_COUNTS :: "(string \<times> nat) list" where
  "CORE_COUNTS =
     [(''body_only'', 16), (''document'', 12), (''signed_webhook'', 6), (''multi_request'', 4), (''tenant_idempotency'', 2)]"

definition ADVERSARIAL_COUNTS :: "(string \<times> nat) list" where
  "ADVERSARIAL_COUNTS = [(''body_override'', 4), (''document_override'', 3), (''webhook_override'', 3)]"

text \<open>\<open>_raw_case_id\<close> and the check for duplicates in the order of the file.\<close>

definition raw_case_id :: "pyval \<Rightarrow> string option" where
  "raw_case_id v = opt_bind (as_dict v) (key ''id'' as_str)"

fun first_duplicate :: "string list \<Rightarrow> pyval list \<Rightarrow> string option" where
  "first_duplicate seen [] = None"
| "first_duplicate seen (c # cs) =
     (case raw_case_id c of
        None \<Rightarrow> first_duplicate seen cs
      | Some i \<Rightarrow> if i \<in> set seen then Some i else first_duplicate (i # seen) cs)"

text \<open>\<open>_raw_document_refs\<close>.\<close>

definition raw_document_ref :: "pyval \<Rightarrow> (string option \<times> pyval) list" where
  "raw_document_ref c =
     (case opt_bind (as_dict c) (key ''source'' as_dict) of
        None \<Rightarrow> []
      | Some s \<Rightarrow>
          (let kind = key ''kind'' as_str s
           in if kind = Some ''document''
              then [(raw_case_id c, case map_of s ''fixture_id'' of None \<Rightarrow> PNone | Some v \<Rightarrow> v)]
              else if kind = Some ''inbound_webhook''
              then (case map_of s ''document_fixture_id'' of
                      Some v \<Rightarrow> if v = PNone then [] else [(raw_case_id c, v)] | None \<Rightarrow> [])
              else []))"

definition ref_declared :: "string list \<Rightarrow> pyval \<Rightarrow> bool" where
  "ref_declared fixtures v \<longleftrightarrow> (case v of PStr s \<Rightarrow> case_id_format s \<and> s \<in> set fixtures | _ \<Rightarrow> False)"

text \<open>\<open>_validate_category_counts\<close> on the category and the adversarial flag of every case.\<close>

definition counts_match :: "string list \<Rightarrow> (string \<times> nat) list \<Rightarrow> bool" where
  "counts_match cats wanted \<longleftrightarrow>
     set cats = set (map fst wanted) \<and> list_all (\<lambda>(c, n). length (filter ((=) c) cats) = n) wanted"

definition valid_category_counts :: "(string \<times> bool) list \<Rightarrow> bool" where
  "valid_category_counts cases \<longleftrightarrow>
     length cases = sum_list (map snd CORE_COUNTS) + sum_list (map snd ADVERSARIAL_COUNTS) \<and>
     counts_match (map fst (filter (\<lambda>c. \<not> snd c) cases)) CORE_COUNTS \<and>
     counts_match (map fst (filter snd cases)) ADVERSARIAL_COUNTS"

section \<open>What a report says\<close>

lemma map_opt_total: "(\<And>x. x \<in> set xs \<Longrightarrow> f x \<noteq> None) \<Longrightarrow> \<exists>ys. map_opt f xs = Some ys"
  by (induction xs) (auto split: option.split)

lemma count_categories_sum: "sum_list (map snd (count_categories cs)) = int (length cs)"
proof -
  let ?ks = "filter (\<lambda>k. k \<in> set (map fc_category cs)) (sort_key report_category_value all_report_categories)"
  have d: "distinct ?ks" by (simp add: all_report_categories_def)
  have s: "set ?ks = set (map fc_category cs)"
  proof -
    have "k \<in> set all_report_categories" for k by (cases k) (simp_all add: all_report_categories_def)
    then show ?thesis by auto
  qed
  have "sum_list (map snd (count_categories cs)) = (\<Sum>k \<leftarrow> ?ks. int (count_list (map fc_category cs) k))"
    by (simp add: count_categories_def comp_def count_list_eq_length_filter filter_map length_map eq_commute)
  also have "\<dots> = (\<Sum>k \<in> set (map fc_category cs). int (count_list (map fc_category cs) k))"
    using sum_list_distinct_conv_sum_set [OF d, of "\<lambda>k. int (count_list (map fc_category cs) k)"] s by simp
  also have "\<dots> = int (length cs)"
    using sum_count_set [of "map fc_category cs" "set (map fc_category cs)"] by (simp flip: of_nat_sum)
  finally show ?thesis .
qed

lemma report_case_facts:
  assumes "report_case_of r = Inr c"
  shows "fc_id c = fr_id r \<and> fc_passed c = fr_passed r \<and> report_category_of (fr_category r) = Some (fc_category c)"
  using assms by (auto simp: report_case_of_def mk_report_case_def split: option.splits if_splits)

lemma report_cases_facts:
  assumes "map_res report_case_of rs = Inr cs"
  shows "map fc_id cs = map fr_id rs \<and> map fc_passed cs = map fr_passed rs \<and> length cs = length rs"
  using assms
proof (induction rs arbitrary: cs)
  case (Cons r rs)
  then show ?case by (auto simp: bind_res_Inr_iff dest!: report_case_facts split: sum.splits)
qed simp

lemma map_insort_key: "map f (insort_key f x xs) = insort (f x) (map f xs)"
  by (induction xs) simp_all

lemma map_sort_key: "map f (sort_key f xs) = sort (map f xs)"
  by (induction xs) (simp_all add: map_insort_key)

text \<open>
  A report counts what it shows: it lists the results of the corpus once each in the order of their
  identifiers, its totals and its pass rate are those of the listed cases, and its categories add up.
\<close>

theorem freight_report_counts:
  assumes "build_freight_eval_report results allowed sha = Inr q"
  shows "map fc_id (fq_cases q) = sort (map fr_id results) \<and> distinct (map fc_id (fq_cases q)) \<and>
    set (map fc_id (fq_cases q)) \<subseteq> set allowed \<and> fq_total q = int (length results) \<and>
    fq_passed q = int (length (filter fc_passed (fq_cases q))) \<and> fq_passed q + fq_failed q = fq_total q \<and>
    fq_pass_rate q = of_int (fq_passed q) / of_int (fq_total q) \<and> sum_list (map snd (fq_categories q)) = fq_total q"
proof -
  obtain cs where cs: "map_res report_case_of (sort_key fr_id results) = Inr cs"
    and q: "q = \<lparr>fq_commit_sha = sha, fq_total = int (length results), fq_passed = count_passed (sort_key fr_id results),
        fq_failed = int (length results) - count_passed (sort_key fr_id results),
        fq_pass_rate = of_int (count_passed (sort_key fr_id results)) / of_int (int (length results)),
        fq_categories = count_categories cs, fq_cases = cs\<rparr>"
    and d: "distinct (map fr_id results)" "\<not> list_ex (\<lambda>r. fr_id r \<notin> set allowed) results"
    using assms by (auto simp: build_freight_eval_report_def mk_freight_report_def bind_res_Inr_iff Let_def split: if_splits)
  have ids: "map fc_id cs = map fr_id (sort_key fr_id results)" and "map fc_passed cs = map fr_passed (sort_key fr_id results)"
    and len: "length cs = length results"
    using report_cases_facts [OF cs] by simp_all
  then have "length (filter id (map fc_passed cs)) = length (filter id (map fr_passed (sort_key fr_id results)))" by simp
  then have passed: "length (filter fc_passed cs) = length (filter fr_passed (sort_key fr_id results))"
    by (simp add: filter_map comp_def)
  note sorted_ids = map_sort_key [of fr_id results]
  have "set (map fr_id results) \<subseteq> set allowed" using d(2) by (auto simp: list_ex_iff)
  then show ?thesis
    using d(1) ids sorted_ids len passed
    by (simp add: q count_passed_def count_categories_sum del: set_map)
qed

end
